(* ===== verification/Prelude.thy ===== *)
theory Prelude
  imports Main "HOL-Library.Word"
begin

text \<open>
  What every component shares: the representation of Go values (strings as byte lists,
  \<open>int\<close> as 64-bit words, instants and durations as integers), programs with observable
  atomic calls to the outside world (\<open>prog\<close>, its sequential run and its interleavings),
  and the generic lemmas and fact collections the component proofs draw on.
\<close>

named_theorems run_simps \<open>sequential execution of programs\<close>
named_theorems frame_simps \<open>what an operation leaves unchanged\<close>
named_theorems inv_intros \<open>preservation of an invariant\<close>

section \<open>Go values\<close>

text \<open>
  A Go string is a sequence of bytes, which is what \<open>string = char list\<close> is.  \<open>int\<close> is 64 bits
  wide on the platforms the service is built for.  An instant is its number of nanoseconds
  since the epoch, a duration its number of nanoseconds.
\<close>

type_synonym gint = "64 word"
type_synonym time = int
type_synonym duration = int

definition gint :: "int \<Rightarrow> gint" where
  "gint i = word_of_int i"

lemma sint_gint_wrap: "sint (gint i) = (i + 2 ^ 63) mod 2 ^ 64 - 2 ^ 63"
  by (simp add: gint_def sint_sbintrunc' signed_take_bit_eq_take_bit_shift take_bit_eq_mod)

lemma sint_gint: "- (2 ^ 63) \<le> i \<Longrightarrow> i < 2 ^ 63 \<Longrightarrow> sint (gint i) = i"
  by (simp add: sint_gint_wrap)

lemma gint_sint [simp]: "gint (sint w) = w"
  by (simp add: gint_def)

lemma sint_bounds: "- (2 ^ 63) \<le> sint (w :: gint)" "sint (w :: gint) < 2 ^ 63"
  using sint_greater_eq [of w] sint_less [of w] by simp_all

section \<open>Programs that call the outside world\<close>

text \<open>
  The service talks to PostgreSQL, to Redis, to the clock and to the random source.  Each such
  call is one atomic step on the world; everything between two calls is local to the goroutine.
  A program either returns or performs one atomic call and goes on with what it answered, so
  the same definition has a sequential reading (\<open>run\<close>) and a concurrent one (\<open>interleave\<close>).
\<close>

datatype (dead 'w, 'r) prog =
    Return 'r
  | Atomic "'w \<Rightarrow> ('w, 'r) prog \<times> 'w"

primrec pbind :: "('w, 'r) prog \<Rightarrow> ('r \<Rightarrow> ('w, 's) prog) \<Rightarrow> ('w, 's) prog" where
  "pbind (Return r) k = k r"
| "pbind (Atomic f) k = Atomic (map_prod (\<lambda>p. pbind p k) id \<circ> f)"

primrec run :: "('w, 'r) prog \<Rightarrow> 'w \<Rightarrow> 'r \<times> 'w" where
  "run (Return r) w = (r, w)"
| "run (Atomic f) w = (case (map_prod run id \<circ> f) w of (g, w') \<Rightarrow> g w')"

definition call :: "('w \<Rightarrow> 'r \<times> 'w) \<Rightarrow> ('w, 'r) prog" where
  "call f = Atomic (map_prod Return id \<circ> f)"

lemma run_Return [run_simps, simp]: "run (Return r) w = (r, w)"
  by simp

lemma run_Atomic [run_simps]: "run (Atomic f) w = run (fst (f w)) (snd (f w))"
  by (cases "f w") simp

lemma run_call [run_simps, simp]: "run (call f) w = f w"
  by (cases "f w") (simp add: call_def)

lemma prog_induct [case_names Return Atomic]:
  assumes "\<And>r. P (Return r)" and "\<And>f. (\<And>w. P (fst (f w))) \<Longrightarrow> P (Atomic f)"
  shows "P p"
proof (induction p)
  case (Return r)
  show ?case by (rule assms(1))
next
  case (Atomic f)
  have "P (fst (f w))" for w
    using Atomic [OF rangeI [of f w], of "fst (f w)"] by (cases "f w") (auto simp: prod_set_simps)
  then show ?case by (rule assms(2))
qed

lemma pbind_Atomic_eq:
  "pbind (Atomic f) k = Atomic (\<lambda>w. (pbind (fst (f w)) k, snd (f w)))"
  by (auto simp: fun_eq_iff map_prod_def split: prod.split)

lemma run_pbind [run_simps]: "run (pbind p k) w = run (k (fst (run p w))) (snd (run p w))"
proof (induction p arbitrary: w rule: prog_induct)
  case (Return r)
  then show ?case by simp
next
  case (Atomic f)
  then show ?case by (simp only: pbind_Atomic_eq run_Atomic fst_conv snd_conv)
qed

lemma run_pbind_call [run_simps]:
  "run (pbind (call f) k) w = run (k (fst (f w))) (snd (f w))"
  by (simp add: run_pbind)

lemma pbind_Return [simp]: "pbind p Return = p"
  by (induction p rule: prog_induct) (simp_all add: pbind_Atomic_eq del: pbind.simps(2))

lemma pbind_assoc: "pbind (pbind p k) h = pbind p (\<lambda>x. pbind (k x) h)"
  by (induction p rule: prog_induct) (simp_all add: pbind_Atomic_eq del: pbind.simps(2))

text \<open>\<open>frames f p\<close>: running \<open>p\<close> leaves the part \<open>f\<close> of the world as it was.\<close>

definition frames :: "('w \<Rightarrow> 'a) \<Rightarrow> ('w, 'r) prog \<Rightarrow> bool" where
  "frames f p \<longleftrightarrow> (\<forall>w. f (snd (run p w)) = f w)"

named_theorems frame_intros \<open>programs that frame a part of the world\<close>

lemma framesD: "frames f p \<Longrightarrow> f (snd (run p w)) = f w"
  by (simp add: frames_def)

lemma frames_Return [frame_intros, simp]: "frames f (Return r)"
  by (simp add: frames_def)

lemma frames_call: "(\<And>w. f (snd (g w)) = f w) \<Longrightarrow> frames f (call g)"
  by (simp add: frames_def)

lemma frames_pbind [frame_intros]: "frames f p \<Longrightarrow> (\<And>r. frames f (k r)) \<Longrightarrow> frames f (pbind p k)"
  by (simp add: frames_def run_pbind)

lemma frames_if [frame_intros]: "(b \<Longrightarrow> frames f p) \<Longrightarrow> (\<not> b \<Longrightarrow> frames f q) \<Longrightarrow> frames f (if b then p else q)"
  by simp

lemma frames_case_option [frame_intros]:
  "(x = None \<Longrightarrow> frames f p) \<Longrightarrow> (\<And>y. x = Some y \<Longrightarrow> frames f (q y)) \<Longrightarrow> frames f (case x of None \<Rightarrow> p | Some y \<Rightarrow> q y)"
  by (cases x) simp_all

lemma frames_case_sum [frame_intros]:
  "(\<And>y. x = Inl y \<Longrightarrow> frames f (p y)) \<Longrightarrow> (\<And>y. x = Inr y \<Longrightarrow> frames f (q y))
    \<Longrightarrow> frames f (case x of Inl y \<Rightarrow> p y | Inr y \<Rightarrow> q y)"
  by (cases x) simp_all

lemma frames_case_prod [frame_intros]:
  "(\<And>a b. x = (a, b) \<Longrightarrow> frames f (p a b)) \<Longrightarrow> frames f (case x of (a, b) \<Rightarrow> p a b)"
  by (cases x) simp

lemma frames_Let [frame_intros]: "(\<And>y. frames f (p y)) \<Longrightarrow> frames f (let y = x in p y)"
  by simp

text \<open>\<open>keeps P p\<close>: running \<open>p\<close> preserves the invariant \<open>P\<close> of the world.\<close>

definition keeps :: "('w \<Rightarrow> bool) \<Rightarrow> ('w, 'r) prog \<Rightarrow> bool" where
  "keeps P p \<longleftrightarrow> (\<forall>w. P w \<longrightarrow> P (snd (run p w)))"

named_theorems keep_intros \<open>programs that keep an invariant\<close>

lemma keepsD: "keeps P p \<Longrightarrow> P w \<Longrightarrow> P (snd (run p w))"
  by (simp add: keeps_def)

lemma keeps_Return [keep_intros]: "keeps P (Return r)"
  by (simp add: keeps_def)

lemma keeps_call: "(\<And>w. P w \<Longrightarrow> P (snd (g w))) \<Longrightarrow> keeps P (call g)"
  by (simp add: keeps_def)

lemma keeps_pbind [keep_intros]: "keeps P p \<Longrightarrow> (\<And>r. keeps P (k r)) \<Longrightarrow> keeps P (pbind p k)"
  by (simp add: keeps_def run_pbind)

lemma keeps_cases [keep_intros]:
  "keeps P p \<Longrightarrow> keeps P q \<Longrightarrow> keeps P (if b then p else q)"
  "keeps P p \<Longrightarrow> (\<And>y. keeps P (f y)) \<Longrightarrow> keeps P (case x of None \<Rightarrow> p | Some y \<Rightarrow> f y)"
  "(\<And>y. keeps P (g y)) \<Longrightarrow> (\<And>y. keeps P (h y)) \<Longrightarrow> keeps P (case s of Inl y \<Rightarrow> g y | Inr y \<Rightarrow> h y)"
  "(\<And>x y. keeps P (k x y)) \<Longrightarrow> keeps P (case xy of (x, y) \<Rightarrow> k x y)"
  "keeps P p \<Longrightarrow> keeps P q \<Longrightarrow> keeps P (case c of True \<Rightarrow> p | False \<Rightarrow> q)"
  by (auto split: option.split sum.split prod.split bool.split)

lemma keeps_let [keep_intros]: "(\<And>x. keeps P (f x)) \<Longrightarrow> keeps P (Let y f)"
  by (simp add: Let_def)

section \<open>Lists\<close>

lemma filter_ConsD:
  assumes "filter P xs = y # ys"
  shows "y \<in> set xs" "P y"
proof -
  have "y \<in> set (filter P xs)" using assms by simp
  then show "y \<in> set xs" "P y" by simp_all
qed

end
