(* ===== verification/GoStrings.thy ===== *)
theory GoStrings
  imports Prelude "HOL-Library.Sublist"
begin

text \<open>
  The part of Go's \<open>strings\<close> and \<open>unicode/utf8\<close> packages the program uses, on byte strings.
  Searching and splitting are bytewise; trimming and splitting at white space use the UTF-8
  encodings of the code points that \<open>unicode.IsSpace\<close> accepts; lower-casing keeps a fast path
  for ASCII strings and otherwise maps the decoded code points through a parameter \<open>uni\<close>
  that stands for the Unicode table of \<open>unicode.ToLower\<close>.
\<close>

section \<open>Searching and splitting\<close>

definition HasPrefix :: "string \<Rightarrow> string \<Rightarrow> bool" where
  "HasPrefix s p = prefix p s"

definition HasSuffix :: "string \<Rightarrow> string \<Rightarrow> bool" where
  "HasSuffix s p = suffix p s"

definition TrimPrefix :: "string \<Rightarrow> string \<Rightarrow> string" where
  "TrimPrefix s p = (if prefix p s then drop (length p) s else s)"

definition TrimSuffix :: "string \<Rightarrow> string \<Rightarrow> string" where
  "TrimSuffix s p = (if suffix p s then take (length s - length p) s else s)"

definition CutPrefix :: "string \<Rightarrow> string \<Rightarrow> string option" where
  "CutPrefix s p = (if prefix p s then Some (drop (length p) s) else None)"

fun Index :: "string \<Rightarrow> string \<Rightarrow> nat option" where
  "Index [] sub = (if sub = [] then Some 0 else None)"
| "Index (c # s) sub = (if prefix sub (c # s) then Some 0 else map_option Suc (Index s sub))"

definition Contains :: "string \<Rightarrow> string \<Rightarrow> bool" where
  "Contains s sub = (Index s sub \<noteq> None)"

fun LastIndexByte :: "string \<Rightarrow> char \<Rightarrow> nat option" where
  "LastIndexByte [] c = None"
| "LastIndexByte (d # s) c =
     (case LastIndexByte s c of
        Some i \<Rightarrow> Some (Suc i)
      | None \<Rightarrow> if d = c then Some 0 else None)"

text \<open>\<open>strings.Split\<close> with a one-byte separator: never empty.\<close>

fun Split :: "string \<Rightarrow> char \<Rightarrow> string list" where
  "Split [] sep = [[]]"
| "Split (c # s) sep =
     (if c = sep then [] # Split s sep
      else (case Split s sep of [] \<Rightarrow> [[c]] | w # ws \<Rightarrow> (c # w) # ws))"

text \<open>\<open>strings.SplitN(s, sep, 2)\<close> with a one-byte separator.\<close>

definition SplitN2 :: "string \<Rightarrow> char \<Rightarrow> string list" where
  "SplitN2 s sep =
     (if sep \<in> set s then [takeWhile (\<lambda>c. c \<noteq> sep) s, tl (dropWhile (\<lambda>c. c \<noteq> sep) s)] else [s])"

fun Join :: "string list \<Rightarrow> string \<Rightarrow> string" where
  "Join [] sep = []"
| "Join [w] sep = w"
| "Join (w # ws) sep = w @ sep @ Join ws sep"

lemma HasPrefix_code [simp]: "HasPrefix s p \<longleftrightarrow> prefix p s"
  by (simp add: HasPrefix_def)

lemma HasSuffix_code [simp]: "HasSuffix s p \<longleftrightarrow> suffix p s"
  by (simp add: HasSuffix_def)

lemma TrimPrefix_append [simp]: "TrimPrefix (p @ s) p = s"
  by (simp add: TrimPrefix_def)

lemma Split_not_Nil [simp]: "Split s sep \<noteq> []"
  by (induction s) (auto split: list.splits)

lemma Split_no_sep: "sep \<notin> set s \<Longrightarrow> Split s sep = [s]"
  by (induction s) auto

lemma Split_parts_no_sep: "w \<in> set (Split s sep) \<Longrightarrow> sep \<notin> set w"
  by (induction s arbitrary: w) (auto split: if_splits list.splits)

lemma Split_append_sep: "sep \<notin> set w \<Longrightarrow> Split (w @ sep # s) sep = w # Split s sep"
  by (induction w) auto

lemma Split_Join:
  assumes "ws \<noteq> []" and "\<forall>w\<in>set ws. sep \<notin> set w"
  shows "Split (Join ws [sep]) sep = ws"
  using assms
  by (induction ws "[sep]" rule: Join.induct) (auto simp: Split_no_sep Split_append_sep)

lemma Join_Split: "Join (Split s sep) [sep] = s"
proof (induction s)
  case Nil
  then show ?case by simp
next
  case (Cons c s)
  obtain w ws where "Split s sep = w # ws"
    by (cases "Split s sep") auto
  with Cons show ?case by (cases ws) auto
qed

lemma SplitN2_append: "sep \<notin> set a \<Longrightarrow> SplitN2 (a @ sep # b) sep = [a, b]"
  by (simp add: SplitN2_def takeWhile_append dropWhile_append)

lemma LastIndexByte_None_iff: "LastIndexByte s c = None \<longleftrightarrow> c \<notin> set s"
  by (induction s) (auto split: option.splits)

lemma LastIndexByte_Some:
  "LastIndexByte s c = Some i \<Longrightarrow> i < length s \<and> s ! i = c \<and> c \<notin> set (drop (Suc i) s)"
  by (induction s arbitrary: i)
    (auto split: option.splits if_splits simp: LastIndexByte_None_iff)

lemma LastIndexByte_append: "c \<notin> set b \<Longrightarrow> LastIndexByte (a @ c # b) c = Some (length a)"
  by (induction a) (auto split: option.splits simp: LastIndexByte_None_iff [symmetric])

lemma Index_Some: "Index s sub = Some i \<Longrightarrow> \<exists>b. s = take i s @ sub @ b \<and> i + length sub \<le> length s"
proof (induction s sub arbitrary: i rule: Index.induct)
  case (1 sub)
  then show ?case by (auto split: if_splits)
next
  case (2 c s sub)
  show ?case
  proof (cases "prefix sub (c # s)")
    case True
    with 2(2) prefix_length_le [OF True] show ?thesis by (auto simp: prefix_def)
  next
    case False
    with 2(2) obtain j where "Index s sub = Some j" "i = Suc j" by auto
    with 2(1) [OF False] show ?thesis by auto
  qed
qed

lemma Contains_iff_sublist: "Contains s sub \<longleftrightarrow> sublist sub s"
proof (induction s)
  case Nil
  then show ?case by (auto simp: Contains_def)
next
  case (Cons c s)
  then show ?case by (auto simp: Contains_def sublist_Cons_right)
qed

section \<open>White space\<close>

text \<open>
  The encodings of the code points of \<open>unicode.IsSpace\<close>: the six ASCII ones, U+0085, U+00A0,
  U+1680, U+2000 to U+200A, U+2028, U+2029, U+202F, U+205F and U+3000.  None of them starts
  with a continuation byte, so removing encodings bytewise from either end is what
  \<open>TrimFunc\<close> does code point by code point, on malformed strings too.
\<close>

definition ascii_spaces :: "char list" where
  "ascii_spaces = [CHR 0x09, CHR 0x0A, CHR 0x0B, CHR 0x0C, CHR 0x0D, CHR 0x20]"

definition space_encodings :: "string list" where
  "space_encodings =
     map (\<lambda>c. [c]) ascii_spaces
     @ [[CHR 0xC2, CHR 0x85], [CHR 0xC2, CHR 0xA0], [CHR 0xE1, CHR 0x9A, CHR 0x80]]
     @ map (\<lambda>n. [CHR 0xE2, CHR 0x80, char_of n]) [128..<139::nat]
     @ [[CHR 0xE2, CHR 0x80, CHR 0xA8], [CHR 0xE2, CHR 0x80, CHR 0xA9],
        [CHR 0xE2, CHR 0x80, CHR 0xAF], [CHR 0xE2, CHR 0x81, CHR 0x9F],
        [CHR 0xE3, CHR 0x80, CHR 0x80]]"

definition front_encoding :: "string list \<Rightarrow> string \<Rightarrow> string option" where
  "front_encoding encs s = find (\<lambda>e. e \<noteq> [] \<and> prefix e s) encs"

lemma front_encoding_Some:
  "front_encoding encs s = Some e \<Longrightarrow> e \<noteq> [] \<and> prefix e s \<and> e \<in> set encs"
  by (auto simp: front_encoding_def find_Some_iff)

function trim_front :: "string list \<Rightarrow> string \<Rightarrow> string" where
  "trim_front encs s =
     (case front_encoding encs s of
        None \<Rightarrow> s
      | Some e \<Rightarrow> trim_front encs (drop (length e) s))"
  by pat_completeness auto
termination
  by (relation "measure (\<lambda>(encs, s). length s)")
    (auto dest!: front_encoding_Some simp: prefix_def)

declare trim_front.simps [simp del]

definition TrimSpace :: "string \<Rightarrow> string" where
  "TrimSpace s =
     rev (trim_front (map rev space_encodings) (rev (trim_front space_encodings s)))"

text \<open>\<open>strings.TrimLeft\<close> and \<open>strings.Trim\<close> with an ASCII cutset.\<close>

definition TrimLeft :: "string \<Rightarrow> char list \<Rightarrow> string" where
  "TrimLeft s cutset = dropWhile (\<lambda>c. c \<in> set cutset) s"

definition Trim :: "string \<Rightarrow> char list \<Rightarrow> string" where
  "Trim s cutset = rev (TrimLeft (rev (TrimLeft s cutset)) cutset)"

text \<open>\<open>strings.Fields\<close>: the maximal runs between white space.\<close>

function fields_aux :: "string \<Rightarrow> string \<Rightarrow> string list" where
  "fields_aux acc s =
     (case s of
        [] \<Rightarrow> (if acc = [] then [] else [rev acc])
      | c # s' \<Rightarrow>
          (case front_encoding space_encodings s of
             None \<Rightarrow> fields_aux (c # acc) s'
           | Some e \<Rightarrow>
               (if acc = [] then fields_aux [] (drop (length e) s)
                else rev acc # fields_aux [] (drop (length e) s))))"
  by pat_completeness auto
termination
  by (relation "measure (\<lambda>(acc, s). length s)")
    (auto dest!: front_encoding_Some simp: prefix_def)

declare fields_aux.simps [simp del]

definition Fields :: "string \<Rightarrow> string list" where
  "Fields s = fields_aux [] s"

definition is_ascii :: "string \<Rightarrow> bool" where
  "is_ascii s = list_all (\<lambda>c. of_char c < (128::nat)) s"

lemma trim_front_suffix: "suffix (trim_front encs s) s"
proof (induction encs s rule: trim_front.induct)
  case (1 encs s)
  show ?case
  proof (cases "front_encoding encs s")
    case None
    then show ?thesis by (simp add: trim_front.simps [of encs s])
  next
    case (Some e)
    with 1 have "suffix (trim_front encs (drop (length e) s)) (drop (length e) s)" by simp
    with Some show ?thesis
      by (simp add: trim_front.simps [of encs s] suffix_order.trans [OF _ suffix_drop])
  qed
qed

lemma trim_front_idem [simp]: "trim_front encs (trim_front encs s) = trim_front encs s"
proof (induction encs s rule: trim_front.induct)
  case (1 encs s)
  then show ?case
    by (cases "front_encoding encs s") (simp_all add: trim_front.simps [of encs s])
qed

lemma trim_front_no_encoding: "front_encoding encs (trim_front encs s) = None"
proof (induction encs s rule: trim_front.induct)
  case (1 encs s)
  then show ?case
    by (cases "front_encoding encs s") (simp_all add: trim_front.simps [of encs s])
qed

lemma TrimSpace_sublist: "sublist (TrimSpace s) s"
proof -
  have "suffix (rev (TrimSpace s)) (rev (trim_front space_encodings s))"
    by (simp add: TrimSpace_def trim_front_suffix)
  then have "prefix (TrimSpace s) (trim_front space_encodings s)"
    by (simp add: suffix_to_prefix)
  then show ?thesis
    by (meson prefix_imp_sublist suffix_imp_sublist sublist_order.order_trans trim_front_suffix)
qed

lemma TrimSpace_Nil [simp]: "TrimSpace [] = []"
  using TrimSpace_sublist [of "[]"] by simp

text \<open>A string whose first and last byte cannot end or start a white-space encoding is kept.\<close>

definition printable :: "char \<Rightarrow> bool" where
  "printable c \<longleftrightarrow> (33::nat) \<le> of_char c \<and> of_char c < (127::nat)"

lemma front_encoding_printable:
  assumes "printable c" and "\<forall>e\<in>set encs. e \<noteq> [] \<longrightarrow> \<not> printable (hd e)"
  shows "front_encoding encs (c # s) = None"
  using assms by (force simp: front_encoding_def find_None_iff prefix_Cons)

lemma space_encodings_not_printable:
  "\<forall>e\<in>set space_encodings. e \<noteq> [] \<longrightarrow> \<not> printable (hd e)"
  "\<forall>e\<in>set (map rev space_encodings). e \<noteq> [] \<longrightarrow> \<not> printable (hd e)"
  by (simp_all add: space_encodings_def ascii_spaces_def printable_def upt_rec)

lemma front_encoding_Nil [simp]: "front_encoding encs [] = None"
  by (auto simp: front_encoding_def find_None_iff)

lemma trim_front_fix: "front_encoding encs s = None \<Longrightarrow> trim_front encs s = s"
  by (simp add: trim_front.simps)

lemma trim_front_printable:
  assumes "s = [] \<or> printable (hd s)"
  shows "trim_front space_encodings s = s" "trim_front (map rev space_encodings) s = s"
proof -
  have "front_encoding space_encodings s = None"
    using assms front_encoding_printable [OF _ space_encodings_not_printable(1)] by (cases s) auto
  then show "trim_front space_encodings s = s" by (rule trim_front_fix)
  have "front_encoding (map rev space_encodings) s = None"
    using assms front_encoding_printable [OF _ space_encodings_not_printable(2)] by (cases s) auto
  then show "trim_front (map rev space_encodings) s = s" by (rule trim_front_fix)
qed

lemma TrimSpace_printable:
  assumes "s = [] \<or> (printable (hd s) \<and> printable (last s))"
  shows "TrimSpace s = s"
proof -
  have "trim_front space_encodings s = s" using assms by (auto intro: trim_front_printable)
  moreover have "trim_front (map rev space_encodings) (rev s) = rev s"
    using assms by (auto intro!: trim_front_printable simp: hd_rev)
  ultimately show ?thesis by (simp add: TrimSpace_def)
qed

section \<open>UTF-8\<close>

definition RuneError :: nat where
  "RuneError = 65533"

definition in_bytes :: "nat \<Rightarrow> nat \<Rightarrow> char \<Rightarrow> bool" where
  "in_bytes lo hi c \<longleftrightarrow> lo \<le> of_char c \<and> of_char c \<le> hi"

text \<open>
  \<open>utf8.DecodeRuneInString\<close>: the code point at the front of the string and its width.
  Overlong forms, surrogates and values above U+10FFFF are refused by the range of the second
  byte; a malformed sequence is \<open>RuneError\<close> of width one, the empty string of width zero.
\<close>

fun decode_rune :: "string \<Rightarrow> nat \<times> nat" where
  "decode_rune [] = (RuneError, 0)"
| "decode_rune (a # s) =
     (let x = of_char a :: nat in
      if x < 128 then (x, 1)
      else if 194 \<le> x \<and> x \<le> 223 then
        (case s of
           b # _ \<Rightarrow>
             if in_bytes 128 191 b then ((x - 192) * 64 + (of_char b - 128), 2) else (RuneError, 1)
         | [] \<Rightarrow> (RuneError, 1))
      else if 224 \<le> x \<and> x \<le> 239 then
        (case s of
           b # c # _ \<Rightarrow>
             if in_bytes (if x = 224 then 160 else 128) (if x = 237 then 159 else 191) b
                \<and> in_bytes 128 191 c
             then ((x - 224) * 4096 + (of_char b - 128) * 64 + (of_char c - 128), 3)
             else (RuneError, 1)
         | _ \<Rightarrow> (RuneError, 1))
      else if 240 \<le> x \<and> x \<le> 244 then
        (case s of
           b # c # d # _ \<Rightarrow>
             if in_bytes (if x = 240 then 144 else 128) (if x = 244 then 143 else 191) b
                \<and> in_bytes 128 191 c \<and> in_bytes 128 191 d
             then ((x - 240) * 262144 + (of_char b - 128) * 4096
                    + (of_char c - 128) * 64 + (of_char d - 128), 4)
             else (RuneError, 1)
         | _ \<Rightarrow> (RuneError, 1))
      else (RuneError, 1))"

lemma decode_rune_width: "0 < snd (decode_rune (a # s)) \<and> snd (decode_rune (a # s)) \<le> 4"
  by (simp add: Let_def split: list.split)

declare decode_rune.simps(2) [simp del]

lemma decode_rune_width_eq: "(r, n) = decode_rune (a # s) \<Longrightarrow> 0 < n \<and> n \<le> 4"
  using decode_rune_width [of a s] by (metis snd_conv)

function runes :: "string \<Rightarrow> nat list" where
  "runes s = (case s of [] \<Rightarrow> [] | a # t \<Rightarrow>
     (case decode_rune s of (r, n) \<Rightarrow> r # runes (drop n s)))"
  by pat_completeness auto
termination
  by (relation "measure length") (auto dest: decode_rune_width_eq)

declare runes.simps [simp del]

lemma runes_Nil [simp]: "runes [] = []"
  by (simp add: runes.simps)

definition RuneCountInString :: "string \<Rightarrow> nat" where
  "RuneCountInString s = length (runes s)"

text \<open>The conversion \<open>string(r)\<close> of a code point; an invalid one becomes U+FFFD.\<close>

definition encode_rune :: "nat \<Rightarrow> string" where
  "encode_rune r0 =
     (let r = (if r0 > 1114111 \<or> (55296 \<le> r0 \<and> r0 \<le> 57343) then RuneError else r0) in
      if r < 128 then [char_of r]
      else if r < 2048 then [char_of (192 + r div 64), char_of (128 + r mod 64)]
      else if r < 65536 then
        [char_of (224 + r div 4096), char_of (128 + r div 64 mod 64), char_of (128 + r mod 64)]
      else
        [char_of (240 + r div 262144), char_of (128 + r div 4096 mod 64),
         char_of (128 + r div 64 mod 64), char_of (128 + r mod 64)])"

definition ascii_lower_rune :: "nat \<Rightarrow> nat" where
  "ascii_lower_rune r = (if 65 \<le> r \<and> r \<le> 90 then r + 32 else r)"

definition ascii_lower :: "char \<Rightarrow> char" where
  "ascii_lower c = char_of (ascii_lower_rune (of_char c))"

text \<open>\<open>strings.ToLower\<close>; \<open>uni\<close> is \<open>unicode.ToLower\<close> outside ASCII.\<close>

definition ToLower :: "(nat \<Rightarrow> nat) \<Rightarrow> string \<Rightarrow> string" where
  "ToLower uni s =
     (if is_ascii s then map ascii_lower s
      else concat (map (\<lambda>r. encode_rune (if r < 128 then ascii_lower_rune r else uni r)) (runes s)))"

lemma is_ascii_Nil [simp]: "is_ascii []"
  by (simp add: is_ascii_def)

lemma is_ascii_Cons [simp]: "is_ascii (c # s) \<longleftrightarrow> of_char c < (128::nat) \<and> is_ascii s"
  by (simp add: is_ascii_def)

lemma is_ascii_append [simp]: "is_ascii (a @ b) \<longleftrightarrow> is_ascii a \<and> is_ascii b"
  by (simp add: is_ascii_def)

lemma decode_rune_ascii: "of_char a < (128::nat) \<Longrightarrow> decode_rune (a # s) = (of_char a, 1)"
  by (simp add: decode_rune.simps)

lemma runes_ascii_Cons: "of_char a < (128::nat) \<Longrightarrow> runes (a # s) = of_char a # runes s"
  by (simp add: runes.simps [of "a # s"] decode_rune_ascii)

lemma runes_ascii: "is_ascii s \<Longrightarrow> runes s = map of_char s"
  by (induction s) (auto simp: runes_ascii_Cons)

lemma encode_rune_ascii: "r < 128 \<Longrightarrow> encode_rune r = [char_of r]"
  by (simp add: encode_rune_def)

lemma ascii_lower_ascii: "of_char c < (128::nat) \<Longrightarrow> of_char (ascii_lower c) < (128::nat)"
  by (simp add: ascii_lower_def ascii_lower_rune_def of_char_of)

lemma ascii_lower_idem [simp]: "ascii_lower (ascii_lower c) = ascii_lower c"
  by (simp add: ascii_lower_def ascii_lower_rune_def)

lemma is_ascii_lower: "is_ascii s \<Longrightarrow> is_ascii (map ascii_lower s)"
  by (induction s) (auto simp: ascii_lower_ascii)

lemma ToLower_ascii: "is_ascii s \<Longrightarrow> ToLower uni s = map ascii_lower s"
  by (simp add: ToLower_def)

lemma ToLower_ascii_idem: "is_ascii s \<Longrightarrow> ToLower uni (ToLower uni s) = ToLower uni s"
  by (simp add: ToLower_ascii is_ascii_lower)

lemma ToLower_Nil [simp]: "ToLower uni [] = []"
  by (simp add: ToLower_ascii)

end
