(* ===== verification/AppErrors.thy ===== *)
theory AppErrors
  imports GoStrings
begin

text \<open>
  Go errors as values (\<open>errors.New\<close> sentinels, \<open>fmt.Errorf\<close> with \<open>%w\<close>, driver errors) with
  \<open>errors.Is\<close>, \<open>errors.As\<close> and \<open>Error()\<close>, and the application error of \<open>pkg/apperror\<close>: its codes,
  constructors and wrapping.
\<close>

section \<open>Dynamic values\<close>

text \<open>
  What travels in an \<open>any\<close>: JSON-like values.  An object is an association list whose order does
  not matter to the code.
\<close>

datatype goany =
    ANil
  | ABool bool
  | AInt int
  | AString string
  | AList "goany list"
  | AMap "(string \<times> goany) list"

section \<open>Errors\<close>

text \<open>Package-level sentinels: compared by identity, each with its own text.\<close>

datatype sentinel =
    ErrInvalidEmail
  | ErrInvalidID
  | ErrUserNotFound
  | ErrDuplicateEmail
  | ErrRoleNotFound
  | ErrDuplicateRoleName
  | ErrCacheMiss
  | ErrNoRows
  | RedisNil

fun sentinel_text :: "sentinel \<Rightarrow> string" where
  "sentinel_text ErrInvalidEmail = ''email inv'' @ [CHR 0xC3, CHR 0xA1] @ ''lido''"
| "sentinel_text ErrInvalidID = ''invalid ID''"
| "sentinel_text ErrUserNotFound = ''user not found''"
| "sentinel_text ErrDuplicateEmail = ''email already exists''"
| "sentinel_text ErrRoleNotFound = ''role not found''"
| "sentinel_text ErrDuplicateRoleName = ''role name already exists''"
| "sentinel_text ErrCacheMiss = ''cache miss''"
| "sentinel_text ErrNoRows = ''sql: no rows in result set''"
| "sentinel_text RedisNil = ''redis: nil''"

text \<open>
  The errors the program handles.  \<open>Wrapf p e\<close> is \<open>fmt.Errorf(p + "%w", e)\<close>,
  \<open>Wrapf2 e p f\<close> is \<open>fmt.Errorf("%w" + p + "%w", e, f)\<close>; \<open>PqError\<close> is
  \<open>*pq.Error\<close> with its SQLSTATE and text; \<open>MaxBytesError\<close> is \<open>*http.MaxBytesError\<close>;
  \<open>Opaque\<close> is any other error, by its dynamic type and its text.
\<close>

datatype goerror =
    Sentinel sentinel
  | Wrapf string goerror
  | Wrapf2 goerror string goerror
  | PqError (pq_code: string) (pq_text: string)
  | MaxBytesError
  | Opaque (op_type: string) (op_text: string)
  | AppError (app_code: string) (app_message: string)
      (app_details: "(string \<times> goany) list option") (app_err: "goerror option")

primrec err_text :: "goerror \<Rightarrow> string" where
  "err_text (Sentinel s) = sentinel_text s"
| "err_text (Wrapf p e) = p @ err_text e"
| "err_text (Wrapf2 e p f) = err_text e @ p @ err_text f"
| "err_text (PqError c t) = t"
| "err_text MaxBytesError = ''http: request body too large''"
| "err_text (Opaque ty t) = t"
| "err_text (AppError c m d oe) =
     (case map_option err_text oe of Some t \<Rightarrow> m @ '': '' @ t | None \<Rightarrow> m)"

definition AppError_Error :: "goerror \<Rightarrow> string" where
  "AppError_Error e =
     (case app_err e of
        Some inner \<Rightarrow> app_message e @ '': '' @ err_text inner
      | None \<Rightarrow> app_message e)"

text \<open>\<open>Unwrap\<close> of the dynamic type, \<open>None\<close> for a nil result or no such method.\<close>

fun AppError_Unwrap :: "goerror \<Rightarrow> goerror option" where
  "AppError_Unwrap (AppError c m d oe) = oe"
| "AppError_Unwrap (Wrapf p e) = Some e"
| "AppError_Unwrap _ = None"

text \<open>\<open>errors.Is\<close> against a sentinel and \<open>errors.As\<close> to a pointer type walk the chain.\<close>

primrec errors_Is :: "goerror \<Rightarrow> sentinel \<Rightarrow> bool" where
  "errors_Is (Sentinel s) t = (s = t)"
| "errors_Is (Wrapf p e) t = errors_Is e t"
| "errors_Is (Wrapf2 e p f) t = (errors_Is e t \<or> errors_Is f t)"
| "errors_Is (PqError c x) t = False"
| "errors_Is MaxBytesError t = False"
| "errors_Is (Opaque ty x) t = False"
| "errors_Is (AppError c m d oe) t =
     (case map_option errors_Is oe of Some f \<Rightarrow> f t | None \<Rightarrow> False)"

primrec errors_As_App :: "goerror \<Rightarrow> goerror option" where
  "errors_As_App (Sentinel s) = None"
| "errors_As_App (Wrapf p e) = errors_As_App e"
| "errors_As_App (Wrapf2 e p f) =
     (case errors_As_App e of Some r \<Rightarrow> Some r | None \<Rightarrow> errors_As_App f)"
| "errors_As_App (PqError c x) = None"
| "errors_As_App MaxBytesError = None"
| "errors_As_App (Opaque ty x) = None"
| "errors_As_App (AppError c m d oe) = Some (AppError c m d oe)"

primrec errors_As_Pq :: "goerror \<Rightarrow> goerror option" where
  "errors_As_Pq (Sentinel s) = None"
| "errors_As_Pq (Wrapf p e) = errors_As_Pq e"
| "errors_As_Pq (Wrapf2 e p f) =
     (case errors_As_Pq e of Some r \<Rightarrow> Some r | None \<Rightarrow> errors_As_Pq f)"
| "errors_As_Pq (PqError c x) = Some (PqError c x)"
| "errors_As_Pq MaxBytesError = None"
| "errors_As_Pq (Opaque ty x) = None"
| "errors_As_Pq (AppError c m d oe) =
     (case map_option errors_As_Pq oe of Some r \<Rightarrow> r | None \<Rightarrow> None)"

primrec errors_As_MaxBytes :: "goerror \<Rightarrow> bool" where
  "errors_As_MaxBytes (Sentinel s) = False"
| "errors_As_MaxBytes (Wrapf p e) = errors_As_MaxBytes e"
| "errors_As_MaxBytes (Wrapf2 e p f) = (errors_As_MaxBytes e \<or> errors_As_MaxBytes f)"
| "errors_As_MaxBytes (PqError c x) = False"
| "errors_As_MaxBytes MaxBytesError = True"
| "errors_As_MaxBytes (Opaque ty x) = False"
| "errors_As_MaxBytes (AppError c m d oe) =
     (case map_option errors_As_MaxBytes oe of Some b \<Rightarrow> b | None \<Rightarrow> False)"

text \<open>The dynamic type as \<open>%T\<close> prints it.\<close>

fun err_type :: "goerror \<Rightarrow> string" where
  "err_type (Sentinel RedisNil) = ''proto.RedisError''"
| "err_type (Sentinel s) = ''*errors.errorString''"
| "err_type (Wrapf p e) = ''*fmt.wrapError''"
| "err_type (Wrapf2 e p f) = ''*fmt.wrapErrors''"
| "err_type (PqError c x) = ''*pq.Error''"
| "err_type MaxBytesError = ''*http.MaxBytesError''"
| "err_type (Opaque ty x) = ty"
| "err_type (AppError c m d oe) = ''*apperror.AppError''"

section \<open>pkg/apperror\<close>

definition CodeInternalError :: string where "CodeInternalError = ''INTERNAL_ERROR''"
definition CodeInvalidRequest :: string where "CodeInvalidRequest = ''INVALID_REQUEST''"
definition CodeValidationError :: string where "CodeValidationError = ''VALIDATION_ERROR''"
definition CodeNotFound :: string where "CodeNotFound = ''NOT_FOUND''"
definition CodeConflict :: string where "CodeConflict = ''CONFLICT''"
definition CodeUnauthorized :: string where "CodeUnauthorized = ''UNAUTHORIZED''"
definition CodeForbidden :: string where "CodeForbidden = ''FORBIDDEN''"
definition CodeUnprocessableEntity :: string where
  "CodeUnprocessableEntity = ''UNPROCESSABLE_ENTITY''"

lemmas code_defs = CodeInternalError_def CodeInvalidRequest_def CodeValidationError_def
  CodeNotFound_def CodeConflict_def CodeUnauthorized_def CodeForbidden_def
  CodeUnprocessableEntity_def

definition apperror_New :: "string \<Rightarrow> string \<Rightarrow> goerror" where
  "apperror_New code message = AppError code message None None"

definition apperror_BadRequest :: "string \<Rightarrow> string \<Rightarrow> goerror" where
  "apperror_BadRequest code message = apperror_New code message"

definition apperror_NotFound :: "string \<Rightarrow> string \<Rightarrow> goerror" where
  "apperror_NotFound code message = apperror_New code message"

definition apperror_Conflict :: "string \<Rightarrow> string \<Rightarrow> goerror" where
  "apperror_Conflict code message = apperror_New code message"

definition apperror_Internal :: "string \<Rightarrow> string \<Rightarrow> goerror" where
  "apperror_Internal code message = apperror_New code message"

definition apperror_Unauthorized :: "string \<Rightarrow> string \<Rightarrow> goerror" where
  "apperror_Unauthorized code message = apperror_New code message"

definition apperror_Forbidden :: "string \<Rightarrow> string \<Rightarrow> goerror" where
  "apperror_Forbidden code message = apperror_New code message"

definition apperror_UnprocessableEntity :: "string \<Rightarrow> goerror" where
  "apperror_UnprocessableEntity message = apperror_New CodeUnprocessableEntity message"

definition apperror_Wrap :: "goerror \<Rightarrow> string \<Rightarrow> string \<Rightarrow> goerror" where
  "apperror_Wrap e code message = AppError code message None (Some e)"

definition AppError_WithDetails :: "goerror \<Rightarrow> (string \<times> goany) list option \<Rightarrow> goerror" where
  "AppError_WithDetails e details = AppError (app_code e) (app_message e) details (app_err e)"

definition AppError_WithError :: "goerror \<Rightarrow> goerror \<Rightarrow> goerror" where
  "AppError_WithError e err = AppError (app_code e) (app_message e) (app_details e) (Some err)"

lemma errors_Is_Wrap [simp]: "errors_Is (apperror_Wrap e c m) t = errors_Is e t"
  by (simp add: apperror_Wrap_def)

lemma errors_As_Wrap [simp]: "errors_As_App (apperror_Wrap e c m) = Some (apperror_Wrap e c m)"
  by (simp add: apperror_Wrap_def)

lemma apperror_Wrap_sel [simp]:
  "app_code (apperror_Wrap e c m) = c" "app_message (apperror_Wrap e c m) = m"
  "app_err (apperror_Wrap e c m) = Some e"
  by (simp_all add: apperror_Wrap_def)

lemma AppError_Error_text: "AppError_Error (AppError c m d oe) = err_text (AppError c m d oe)"
  by (simp add: AppError_Error_def split: option.split)

end
