(* ===== verification/Database.thy ===== *)
theory Database
  imports AppErrors
begin

text \<open>
  The database layer below the repositories: the statements whose SQL text is in
  \<open>internal/infrastructure/db/postgres/repository\<close>, with their meaning over the tables of the
  first migration, and the Writer/Reader cluster of \<open>pkg/database\<close>.  The driver, the connection
  pool and the server are parameters: a handle is a record of the operations the code calls.
\<close>

section \<open>Tables and statements\<close>

record userDB =
  db_ID :: string
  db_Name :: string
  db_Email :: string
  db_Active :: bool
  db_CreatedAt :: time
  db_UpdatedAt :: time

record roleDB =
  rdb_ID :: string
  rdb_Name :: string
  rdb_Description :: string
  rdb_CreatedAt :: time
  rdb_UpdatedAt :: time

record tables =
  t_users :: "userDB list"
  t_roles :: "roleDB list"

text \<open>The conjuncts a listing can put into its \<open>WHERE\<close> clause, with the bound argument.\<close>

datatype cond = ActiveTrue | NameILike string | EmailILike string

datatype sql_stmt =
    InsertUser userDB
  | SelectUserByID string
  | SelectUserByEmail string
  | CountUsers "cond list"
  | SelectUsers "cond list" gint gint
  | UpdateUser userDB
  | SoftDeleteUser string
  | InsertRole roleDB
  | SelectRoleByName string
  | CountRoles "cond list"
  | SelectRoles "cond list" gint gint
  | DeleteRole string

text \<open>
  What comes back: the rows of a query, a count, or the result of a write, whose
  \<open>RowsAffected\<close> may itself fail.
\<close>

datatype sql_answer =
    UserRows "userDB list"
  | RoleRows "roleDB list"
  | CountRow gint
  | Affected "goerror + nat"

section \<open>The meaning of the statements\<close>

text \<open>
  What the statements use of PostgreSQL: the \<open>uuid\<close> input function (canonical text or a syntax
  error), \<open>ILIKE\<close>, the rounding of a \<open>timestamptz\<close>, the order \<open>ORDER BY created_at DESC\<close> gives
  (which is free to order equal keys as it likes), and the errors of the remaining column
  checks (lengths and encodings).
\<close>

record pg =
  pg_uuid :: "string \<Rightarrow> string option"
  pg_ilike :: "string \<Rightarrow> string \<Rightarrow> bool"
  pg_ts :: "time \<Rightarrow> time"
  pg_order_users :: "userDB list \<Rightarrow> userDB list"
  pg_order_roles :: "roleDB list \<Rightarrow> roleDB list"
  pg_reject_user :: "userDB \<Rightarrow> goerror option"
  pg_reject_role :: "roleDB \<Rightarrow> goerror option"

definition unique_violation :: goerror where
  "unique_violation =
     PqError ''23505'' ''pq: duplicate key value violates unique constraint''"

definition invalid_uuid :: goerror where
  "invalid_uuid = PqError ''22P02'' ''pq: invalid input syntax for type uuid''"

definition negative_offset :: goerror where
  "negative_offset = PqError ''2201X'' ''pq: OFFSET must not be negative''"

fun user_matches :: "pg \<Rightarrow> userDB \<Rightarrow> cond \<Rightarrow> bool" where
  "user_matches P r ActiveTrue = db_Active r"
| "user_matches P r (NameILike pat) = pg_ilike P (db_Name r) pat"
| "user_matches P r (EmailILike pat) = pg_ilike P (db_Email r) pat"

fun role_matches :: "pg \<Rightarrow> roleDB \<Rightarrow> cond \<Rightarrow> bool" where
  "role_matches P r ActiveTrue = True"
| "role_matches P r (NameILike pat) = pg_ilike P (rdb_Name r) pat"
| "role_matches P r (EmailILike pat) = True"

definition matching_users :: "pg \<Rightarrow> cond list \<Rightarrow> tables \<Rightarrow> userDB list" where
  "matching_users P cs t = filter (\<lambda>r. list_all (user_matches P r) cs) (t_users t)"

definition matching_roles :: "pg \<Rightarrow> cond list \<Rightarrow> tables \<Rightarrow> roleDB list" where
  "matching_roles P cs t = filter (\<lambda>r. list_all (role_matches P r) cs) (t_roles t)"

text \<open>\<open>LIMIT l OFFSET o\<close>: a negative offset is an error of the server.\<close>

definition page :: "gint \<Rightarrow> gint \<Rightarrow> 'a list \<Rightarrow> goerror + 'a list" where
  "page l off rows =
     (if sint off < 0 then Inl negative_offset
      else Inr (take (nat (sint l)) (drop (nat (sint off)) rows)))"

definition sql_insert_user ::
  "pg \<Rightarrow> userDB \<Rightarrow> tables \<Rightarrow> (goerror + sql_answer) \<times> tables" where
  "sql_insert_user P r t =
     (case pg_uuid P (db_ID r) of
        None \<Rightarrow> (Inl invalid_uuid, t)
      | Some i \<Rightarrow>
          (case pg_reject_user P r of
             Some e \<Rightarrow> (Inl e, t)
           | None \<Rightarrow>
               (if list_ex (\<lambda>x. db_ID x = i \<or> db_Email x = db_Email r) (t_users t)
                then (Inl unique_violation, t)
                else (Inr (Affected (Inr 1)),
                      t\<lparr>t_users := t_users t @
                         [r\<lparr>db_ID := i, db_CreatedAt := pg_ts P (db_CreatedAt r),
                            db_UpdatedAt := pg_ts P (db_UpdatedAt r)\<rparr>]\<rparr>))))"

definition sql_update_user ::
  "pg \<Rightarrow> userDB \<Rightarrow> tables \<Rightarrow> (goerror + sql_answer) \<times> tables" where
  "sql_update_user P r t =
     (case pg_uuid P (db_ID r) of
        None \<Rightarrow> (Inl invalid_uuid, t)
      | Some i \<Rightarrow>
          (case pg_reject_user P r of
             Some e \<Rightarrow> (Inl e, t)
           | None \<Rightarrow>
               (if \<not> list_ex (\<lambda>x. db_ID x = i) (t_users t) then (Inr (Affected (Inr 0)), t)
                else if list_ex (\<lambda>x. db_ID x \<noteq> i \<and> db_Email x = db_Email r) (t_users t)
                then (Inl unique_violation, t)
                else (Inr (Affected (Inr (length (filter (\<lambda>x. db_ID x = i) (t_users t))))),
                      t\<lparr>t_users := map (\<lambda>x. if db_ID x = i
                          then x\<lparr>db_Name := db_Name r, db_Email := db_Email r,
                                 db_Active := db_Active r,
                                 db_UpdatedAt := pg_ts P (db_UpdatedAt r)\<rparr>
                          else x) (t_users t)\<rparr>))))"

definition sql_soft_delete_user ::
  "pg \<Rightarrow> time \<Rightarrow> string \<Rightarrow> tables \<Rightarrow> (goerror + sql_answer) \<times> tables" where
  "sql_soft_delete_user P now s t =
     (case pg_uuid P s of
        None \<Rightarrow> (Inl invalid_uuid, t)
      | Some i \<Rightarrow>
          (Inr (Affected (Inr (length (filter (\<lambda>x. db_ID x = i \<and> db_Active x) (t_users t))))),
           t\<lparr>t_users := map (\<lambda>x. if db_ID x = i \<and> db_Active x
               then x\<lparr>db_Active := False, db_UpdatedAt := pg_ts P now\<rparr> else x) (t_users t)\<rparr>))"

definition sql_insert_role ::
  "pg \<Rightarrow> roleDB \<Rightarrow> tables \<Rightarrow> (goerror + sql_answer) \<times> tables" where
  "sql_insert_role P r t =
     (case pg_uuid P (rdb_ID r) of
        None \<Rightarrow> (Inl invalid_uuid, t)
      | Some i \<Rightarrow>
          (case pg_reject_role P r of
             Some e \<Rightarrow> (Inl e, t)
           | None \<Rightarrow>
               (if list_ex (\<lambda>x. rdb_ID x = i \<or> rdb_Name x = rdb_Name r) (t_roles t)
                then (Inl unique_violation, t)
                else (Inr (Affected (Inr 1)),
                      t\<lparr>t_roles := t_roles t @
                         [r\<lparr>rdb_ID := i, rdb_CreatedAt := pg_ts P (rdb_CreatedAt r),
                            rdb_UpdatedAt := pg_ts P (rdb_UpdatedAt r)\<rparr>]\<rparr>))))"

definition sql_delete_role ::
  "pg \<Rightarrow> string \<Rightarrow> tables \<Rightarrow> (goerror + sql_answer) \<times> tables" where
  "sql_delete_role P s t =
     (case pg_uuid P s of
        None \<Rightarrow> (Inl invalid_uuid, t)
      | Some i \<Rightarrow>
          (Inr (Affected (Inr (length (filter (\<lambda>x. rdb_ID x = i) (t_roles t))))),
           t\<lparr>t_roles := filter (\<lambda>x. rdb_ID x \<noteq> i) (t_roles t)\<rparr>))"

fun sql_exec ::
  "pg \<Rightarrow> time \<Rightarrow> sql_stmt \<Rightarrow> tables \<Rightarrow> (goerror + sql_answer) \<times> tables" where
  "sql_exec P now (InsertUser r) t = sql_insert_user P r t"
| "sql_exec P now (SelectUserByID s) t =
     (case pg_uuid P s of
        None \<Rightarrow> (Inl invalid_uuid, t)
      | Some i \<Rightarrow> (Inr (UserRows (filter (\<lambda>r. db_ID r = i) (t_users t))), t))"
| "sql_exec P now (SelectUserByEmail e) t =
     (Inr (UserRows (filter (\<lambda>r. db_Email r = e) (t_users t))), t)"
| "sql_exec P now (CountUsers cs) t =
     (Inr (CountRow (gint (int (length (matching_users P cs t))))), t)"
| "sql_exec P now (SelectUsers cs l off) t =
     (case page l off (pg_order_users P (matching_users P cs t)) of
        Inl e \<Rightarrow> (Inl e, t)
      | Inr rows \<Rightarrow> (Inr (UserRows rows), t))"
| "sql_exec P now (UpdateUser r) t = sql_update_user P r t"
| "sql_exec P now (SoftDeleteUser s) t = sql_soft_delete_user P now s t"
| "sql_exec P now (InsertRole r) t = sql_insert_role P r t"
| "sql_exec P now (SelectRoleByName n) t =
     (Inr (RoleRows (filter (\<lambda>r. rdb_Name r = n) (t_roles t))), t)"
| "sql_exec P now (CountRoles cs) t =
     (Inr (CountRow (gint (int (length (matching_roles P cs t))))), t)"
| "sql_exec P now (SelectRoles cs l off) t =
     (case page l off (pg_order_roles P (matching_roles P cs t)) of
        Inl e \<Rightarrow> (Inl e, t)
      | Inr rows \<Rightarrow> (Inr (RoleRows rows), t))"
| "sql_exec P now (DeleteRole s) t = sql_delete_role P s t"

section \<open>Handles and the Writer/Reader cluster\<close>

text \<open>
  A pool handle (\<open>*sql.DB\<close>, \<open>*sqlx.DB\<close>).  \<open>x_exec\<close> runs one statement, on the pool or on an open
  transaction of it; a read-only transaction of the default isolation level gives every
  statement the rows committed when that statement starts.
\<close>

record pool_config =
  pc_MaxOpenConns :: gint
  pc_MaxIdleConns :: gint
  pc_ConnMaxLifetime :: duration
  pc_ConnMaxIdleTime :: duration

record 'w sqlx_db =
  x_exec :: "sql_stmt \<Rightarrow> 'w \<Rightarrow> (goerror + sql_answer) \<times> 'w"
  x_begin :: "'w \<Rightarrow> goerror option \<times> 'w"
  x_commit :: "'w \<Rightarrow> goerror option \<times> 'w"
  x_rollback :: "'w \<Rightarrow> unit \<times> 'w"
  x_setpool :: "pool_config \<Rightarrow> 'w \<Rightarrow> unit \<times> 'w"
  x_ping :: "'w \<Rightarrow> goerror option \<times> 'w"
  x_close :: "'w \<Rightarrow> goerror option \<times> 'w"

record DBConfigPool =
  dbc_Driver :: string
  dbc_DSN :: string
  dbc_Pool :: pool_config

definition DefaultConfig :: "string \<Rightarrow> string \<Rightarrow> DBConfigPool" where
  "DefaultConfig driver dsn =
     \<lparr>dbc_Driver = driver, dbc_DSN = dsn,
      dbc_Pool = \<lparr>pc_MaxOpenConns = 25, pc_MaxIdleConns = 10,
                  pc_ConnMaxLifetime = 5 * 60 * 10 ^ 9, pc_ConnMaxIdleTime = 90 * 10 ^ 9\<rparr>\<rparr>"

text \<open>\<open>sql_open\<close> is \<open>sql.Open\<close>.\<close>

type_synonym 'w sql_open = "string \<Rightarrow> string \<Rightarrow> 'w \<Rightarrow> (goerror + 'w sqlx_db) \<times> 'w"

definition NewConnection ::
  "'w sql_open \<Rightarrow> DBConfigPool \<Rightarrow> ('w, goerror + 'w sqlx_db) prog" where
  "NewConnection sql_open cfg =
     pbind (call (sql_open (dbc_Driver cfg) (dbc_DSN cfg))) (\<lambda>r.
     case r of
       Inl openErr \<Rightarrow> Return (Inl (Wrapf ''failed to open database: '' openErr))
     | Inr db \<Rightarrow>
         pbind (call (x_setpool db (dbc_Pool cfg))) (\<lambda>_.
         pbind (call (x_ping db)) (\<lambda>pingErr.
         case pingErr of
           Some e \<Rightarrow>
             pbind (call (x_close db)) (\<lambda>_.
             Return (Inl (Wrapf ''failed to ping database: '' e)))
         | None \<Rightarrow> Return (Inr db))))"

record 'w DBCluster =
  c_writer :: "'w sqlx_db"
  c_reader :: "'w sqlx_db option"

definition NewDBCluster ::
  "'w sql_open \<Rightarrow> DBConfigPool \<Rightarrow> DBConfigPool option \<Rightarrow> ('w, goerror + 'w DBCluster) prog" where
  "NewDBCluster sql_open writerCfg readerCfg =
     pbind (NewConnection sql_open writerCfg) (\<lambda>r.
     case r of
       Inl writerErr \<Rightarrow> Return (Inl (Wrapf ''failed to connect writer: '' writerErr))
     | Inr writer \<Rightarrow>
         (let cluster = \<lparr>c_writer = writer, c_reader = None\<rparr> in
          case readerCfg of
            None \<Rightarrow> Return (Inr cluster)
          | Some rc \<Rightarrow>
              (if dbc_DSN rc = [] then Return (Inr cluster)
               else
                 pbind (NewConnection sql_open rc) (\<lambda>rr.
                 case rr of
                   Inl readerErr \<Rightarrow> Return (Inr cluster)
                 | Inr reader \<Rightarrow> Return (Inr (cluster\<lparr>c_reader := Some reader\<rparr>))))))"

definition NewDBClusterFromDB :: "'w sqlx_db \<Rightarrow> 'w DBCluster" where
  "NewDBClusterFromDB db = \<lparr>c_writer = db, c_reader = None\<rparr>"

definition Writer :: "'w DBCluster \<Rightarrow> 'w sqlx_db" where
  "Writer c = c_writer c"

definition Reader :: "'w DBCluster \<Rightarrow> 'w sqlx_db" where
  "Reader c = (case c_reader c of Some r \<Rightarrow> r | None \<Rightarrow> c_writer c)"

definition HasSeparateReader :: "'w DBCluster \<Rightarrow> bool" where
  "HasSeparateReader c = (c_reader c \<noteq> None)"

definition PingAll :: "'w DBCluster \<Rightarrow> ('w, goerror option) prog" where
  "PingAll c =
     pbind (call (x_ping (c_writer c))) (\<lambda>pingErr.
     case pingErr of
       Some e \<Rightarrow> Return (Some (Wrapf ''writer ping failed: '' e))
     | None \<Rightarrow>
         (case c_reader c of
            None \<Rightarrow> Return None
          | Some reader \<Rightarrow>
              pbind (call (x_ping reader)) (\<lambda>pingErr2.
              case pingErr2 of
                Some e \<Rightarrow> Return (Some (Wrapf ''reader ping failed: '' e))
              | None \<Rightarrow> Return None)))"

definition Cluster_Close :: "'w DBCluster \<Rightarrow> ('w, goerror option) prog" where
  "Cluster_Close c =
     pbind (call (x_close (c_writer c))) (\<lambda>writerErr.
     let closeErr = map_option (Wrapf ''failed to close writer: '') writerErr in
     case c_reader c of
       None \<Rightarrow> Return closeErr
     | Some reader \<Rightarrow>
         pbind (call (x_close reader)) (\<lambda>readerErr.
         case readerErr of
           None \<Rightarrow> Return closeErr
         | Some e \<Rightarrow>
             (case closeErr of
                Some ce \<Rightarrow> Return (Some (Wrapf2 ce ''; failed to close reader: '' e))
              | None \<Rightarrow> Return (Some (Wrapf ''failed to close reader: '' e)))))"

end
