(* ===== verification/Domain.thy ===== *)
theory Domain
  imports AppErrors
begin

text \<open>
  The domain layer (\<open>internal/domain\<close>): the value objects \<open>ID\<close> and \<open>Email\<close> with their database
  conversions, the \<open>User\<close> and \<open>Role\<close> entities with their factories and mutators, and the
  pagination filters.  What the code takes from outside \<open>src/\<close> is a field of \<open>env\<close>.
\<close>

section \<open>The environment\<close>

text \<open>
  \<open>env_now\<close> is \<open>time.Now\<close>, \<open>env_uuid_v7\<close> is \<open>uuid.Must(uuid.NewV7()).String()\<close>, \<open>env_uuid_ok\<close>
  whether \<open>uuid.Parse\<close> of \<open>google/uuid\<close> succeeds, \<open>env_mail_ok\<close> whether \<open>mail.ParseAddress\<close>
  succeeds, \<open>env_rfc3339\<close> is \<open>Time.Format(time.RFC3339)\<close>.
\<close>

record 'w env =
  env_now :: "'w \<Rightarrow> time \<times> 'w"
  env_uuid_v7 :: "'w \<Rightarrow> string \<times> 'w"
  env_uuid_ok :: "string \<Rightarrow> bool"
  env_mail_ok :: "string \<Rightarrow> bool"
  env_rfc3339 :: "time \<Rightarrow> string"

section \<open>Value objects\<close>

type_synonym ID = string

record Email =
  email_value :: string

text \<open>What a database driver hands to \<open>Scan\<close>; \<open>DOther\<close> carries the \<open>%T\<close> of the value.\<close>

datatype driver_value = DNil | DString string | DBytes string | DOther string

definition NewID :: "'w env \<Rightarrow> ('w, ID) prog" where
  "NewID E = call (env_uuid_v7 E)"

definition ParseID :: "'w env \<Rightarrow> string \<Rightarrow> goerror + ID" where
  "ParseID E s = (if \<not> env_uuid_ok E s then Inl (Sentinel ErrInvalidID) else Inr s)"

definition ID_String :: "ID \<Rightarrow> string" where
  "ID_String i = i"

definition ID_Value :: "ID \<Rightarrow> goerror + driver_value" where
  "ID_Value i = Inr (DString i)"

text \<open>\<open>Scan\<close> returns the error and the receiver, changed or not.\<close>

definition ID_Scan :: "'w env \<Rightarrow> ID \<Rightarrow> driver_value \<Rightarrow> goerror option \<times> ID" where
  "ID_Scan E i v =
     (case v of
        DNil \<Rightarrow> (Some (Opaque ''*errors.errorString'' ''ID cannot be empty''), i)
      | DString sv \<Rightarrow>
          (if \<not> env_uuid_ok E sv then (Some (Sentinel ErrInvalidID), i) else (None, sv))
      | DBytes b \<Rightarrow> (Some (Opaque ''*errors.errorString'' ''invalid type for ID: []uint8''), i)
      | DOther t \<Rightarrow> (Some (Opaque ''*errors.errorString'' (''invalid type for ID: '' @ t)), i))"

definition NewEmail :: "'w env \<Rightarrow> string \<Rightarrow> goerror + Email" where
  "NewEmail E value =
     (if \<not> env_mail_ok E value then Inl (Sentinel ErrInvalidEmail)
      else Inr \<lparr>email_value = value\<rparr>)"

definition ParseEmail :: "string \<Rightarrow> Email" where
  "ParseEmail value = \<lparr>email_value = value\<rparr>"

definition Email_String :: "Email \<Rightarrow> string" where
  "Email_String e = email_value e"

definition Email_Value :: "Email \<Rightarrow> goerror + driver_value" where
  "Email_Value e = Inr (DString (email_value e))"

definition Email_Scan :: "Email \<Rightarrow> driver_value \<Rightarrow> goerror option \<times> Email" where
  "Email_Scan e v =
     (case v of
        DNil \<Rightarrow> (Some (Opaque ''*errors.errorString'' ''email cannot be null''), e)
      | DString s \<Rightarrow> (None, e\<lparr>email_value := s\<rparr>)
      | DBytes b \<Rightarrow> (None, e\<lparr>email_value := b\<rparr>)
      | DOther t \<Rightarrow> (Some (Opaque ''*errors.errorString'' (''invalid type for Email: '' @ t)), e))"

section \<open>The user entity\<close>

record User =
  u_ID :: ID
  u_Name :: string
  u_Email :: Email
  u_Active :: bool
  u_CreatedAt :: time
  u_UpdatedAt :: time

definition NewUser :: "'w env \<Rightarrow> string \<Rightarrow> Email \<Rightarrow> ('w, User) prog" where
  "NewUser E name email =
     pbind (NewID E) (\<lambda>i.
     pbind (call (env_now E)) (\<lambda>created.
     pbind (call (env_now E)) (\<lambda>updated.
     Return \<lparr>u_ID = i, u_Name = name, u_Email = email, u_Active = True,
             u_CreatedAt = created, u_UpdatedAt = updated\<rparr>)))"

definition User_Deactivate :: "'w env \<Rightarrow> User \<Rightarrow> ('w, User) prog" where
  "User_Deactivate E e =
     pbind (call (env_now E)) (\<lambda>t. Return (e\<lparr>u_Active := False, u_UpdatedAt := t\<rparr>))"

definition User_Activate :: "'w env \<Rightarrow> User \<Rightarrow> ('w, User) prog" where
  "User_Activate E e =
     pbind (call (env_now E)) (\<lambda>t. Return (e\<lparr>u_Active := True, u_UpdatedAt := t\<rparr>))"

definition User_UpdateEmail :: "'w env \<Rightarrow> User \<Rightarrow> Email \<Rightarrow> ('w, User) prog" where
  "User_UpdateEmail E e email =
     pbind (call (env_now E)) (\<lambda>t. Return (e\<lparr>u_Email := email, u_UpdatedAt := t\<rparr>))"

definition User_UpdateName :: "'w env \<Rightarrow> User \<Rightarrow> string \<Rightarrow> ('w, User) prog" where
  "User_UpdateName E e name =
     pbind (call (env_now E)) (\<lambda>t. Return (e\<lparr>u_Name := name, u_UpdatedAt := t\<rparr>))"

section \<open>The role entity\<close>

record Role =
  r_ID :: ID
  r_Name :: string
  r_Description :: string
  r_CreatedAt :: time
  r_UpdatedAt :: time

definition NewRole :: "'w env \<Rightarrow> string \<Rightarrow> string \<Rightarrow> ('w, Role) prog" where
  "NewRole E name description =
     pbind (NewID E) (\<lambda>i.
     pbind (call (env_now E)) (\<lambda>created.
     pbind (call (env_now E)) (\<lambda>updated.
     Return \<lparr>r_ID = i, r_Name = name, r_Description = description,
             r_CreatedAt = created, r_UpdatedAt = updated\<rparr>)))"

definition Role_UpdateDescription :: "'w env \<Rightarrow> Role \<Rightarrow> string \<Rightarrow> ('w, Role) prog" where
  "Role_UpdateDescription E r description =
     pbind (call (env_now E)) (\<lambda>t. Return (r\<lparr>r_Description := description, r_UpdatedAt := t\<rparr>))"

definition Role_UpdateName :: "'w env \<Rightarrow> Role \<Rightarrow> string \<Rightarrow> ('w, Role) prog" where
  "Role_UpdateName E r name =
     pbind (call (env_now E)) (\<lambda>t. Return (r\<lparr>r_Name := name, r_UpdatedAt := t\<rparr>))"

section \<open>Pagination filters\<close>

record UserFilter =
  uf_Page :: gint
  uf_Limit :: gint
  uf_Name :: string
  uf_Email :: string
  uf_ActiveOnly :: bool

record UserListResult =
  ulr_Users :: "User list"
  ulr_Total :: gint
  ulr_Page :: gint
  ulr_Limit :: gint

record RoleFilter =
  rf_Page :: gint
  rf_Limit :: gint
  rf_Name :: string

record RoleListResult =
  rlr_Roles :: "Role list"
  rlr_Total :: gint
  rlr_Page :: gint
  rlr_Limit :: gint

definition UserFilter_Normalize :: "UserFilter \<Rightarrow> UserFilter" where
  "UserFilter_Normalize f =
     (let f1 = (if sint (uf_Page f) < 1 then f\<lparr>uf_Page := 1\<rparr> else f)
      in if sint (uf_Limit f1) < 1 \<or> sint (uf_Limit f1) > 100
         then f1\<lparr>uf_Limit := 20\<rparr> else f1)"

definition UserFilter_Offset :: "UserFilter \<Rightarrow> gint" where
  "UserFilter_Offset f = (uf_Page f - 1) * uf_Limit f"

definition RoleFilter_Normalize :: "RoleFilter \<Rightarrow> RoleFilter" where
  "RoleFilter_Normalize f =
     (let f1 = (if sint (rf_Page f) < 1 then f\<lparr>rf_Page := 1\<rparr> else f)
      in if sint (rf_Limit f1) < 1 \<or> sint (rf_Limit f1) > 100
         then f1\<lparr>rf_Limit := 20\<rparr> else f1)"

definition RoleFilter_Offset :: "RoleFilter \<Rightarrow> gint" where
  "RoleFilter_Offset f = (rf_Page f - 1) * rf_Limit f"

section \<open>Facts about the filters\<close>

lemma gint_mult: "gint a * gint b = gint (a * b)"
  by (simp add: gint_def)

lemma gint_minus: "gint a - gint b = gint (a - b)"
  by (simp add: gint_def)

lemma sint_offset:
  fixes p l :: gint
  assumes "1 \<le> sint p" and "1 \<le> sint l" and "sint l \<le> 100" and "sint p \<le> 2 ^ 56"
  shows "sint ((p - 1) * l) = (sint p - 1) * sint l"
proof -
  have "(p - 1) * l = gint ((sint p - 1) * sint l)"
    by (metis gint_def gint_minus gint_mult gint_sint word_of_int_1)
  moreover have "0 \<le> (sint p - 1) * sint l" using assms by simp
  moreover have "(sint p - 1) * sint l \<le> 2 ^ 56 * 100"
    by (rule mult_mono) (use assms in simp_all)
  ultimately show ?thesis by (simp add: sint_gint)
qed

lemma UserFilter_Normalize_range:
  "1 \<le> sint (uf_Page (UserFilter_Normalize f))"
  "1 \<le> sint (uf_Limit (UserFilter_Normalize f))"
  "sint (uf_Limit (UserFilter_Normalize f)) \<le> 100"
  by (simp_all add: UserFilter_Normalize_def Let_def)

lemma UserFilter_Normalize_frame [frame_simps, simp]:
  "uf_Name (UserFilter_Normalize f) = uf_Name f"
  "uf_Email (UserFilter_Normalize f) = uf_Email f"
  "uf_ActiveOnly (UserFilter_Normalize f) = uf_ActiveOnly f"
  by (simp_all add: UserFilter_Normalize_def Let_def)

lemma UserFilter_Normalize_id:
  "1 \<le> sint (uf_Page f) \<Longrightarrow> 1 \<le> sint (uf_Limit f) \<Longrightarrow> sint (uf_Limit f) \<le> 100 \<Longrightarrow>
    UserFilter_Normalize f = f"
  by (simp add: UserFilter_Normalize_def Let_def)

lemma RoleFilter_Normalize_range:
  "1 \<le> sint (rf_Page (RoleFilter_Normalize f))"
  "1 \<le> sint (rf_Limit (RoleFilter_Normalize f))"
  "sint (rf_Limit (RoleFilter_Normalize f)) \<le> 100"
  by (simp_all add: RoleFilter_Normalize_def Let_def)

lemma RoleFilter_Normalize_frame [frame_simps, simp]:
  "rf_Name (RoleFilter_Normalize f) = rf_Name f"
  by (simp add: RoleFilter_Normalize_def Let_def)

lemma RoleFilter_Normalize_id:
  "1 \<le> sint (rf_Page f) \<Longrightarrow> 1 \<le> sint (rf_Limit f) \<Longrightarrow> sint (rf_Limit f) \<le> 100 \<Longrightarrow>
    RoleFilter_Normalize f = f"
  by (simp add: RoleFilter_Normalize_def Let_def)

section \<open>Sequential execution of the factories and mutators\<close>

lemma run_NewUser [run_simps]:
  "run (NewUser E name email) w =
     (let (i, w1) = env_uuid_v7 E w; (t1, w2) = env_now E w1; (t2, w3) = env_now E w2
      in (\<lparr>u_ID = i, u_Name = name, u_Email = email, u_Active = True,
           u_CreatedAt = t1, u_UpdatedAt = t2\<rparr>, w3))"
  by (simp add: NewUser_def NewID_def run_pbind Let_def split: prod.split)

lemma run_NewRole [run_simps]:
  "run (NewRole E name d) w =
     (let (i, w1) = env_uuid_v7 E w; (t1, w2) = env_now E w1; (t2, w3) = env_now E w2
      in (\<lparr>r_ID = i, r_Name = name, r_Description = d, r_CreatedAt = t1, r_UpdatedAt = t2\<rparr>, w3))"
  by (simp add: NewRole_def NewID_def run_pbind Let_def split: prod.split)

lemma run_User_mutators [run_simps]:
  "run (User_Deactivate E e) w = (e\<lparr>u_Active := False, u_UpdatedAt := fst (env_now E w)\<rparr>, snd (env_now E w))"
  "run (User_Activate E e) w = (e\<lparr>u_Active := True, u_UpdatedAt := fst (env_now E w)\<rparr>, snd (env_now E w))"
  "run (User_UpdateEmail E e m) w = (e\<lparr>u_Email := m, u_UpdatedAt := fst (env_now E w)\<rparr>, snd (env_now E w))"
  "run (User_UpdateName E e n) w = (e\<lparr>u_Name := n, u_UpdatedAt := fst (env_now E w)\<rparr>, snd (env_now E w))"
  by (simp_all add: User_Deactivate_def User_Activate_def User_UpdateEmail_def User_UpdateName_def run_pbind)

section \<open>Properties\<close>

text \<open>
  Pagination offsets.  After \<open>Normalize\<close> the page is positive and the limit lies in 1..100, and up
  to page 2^56 the 64-bit product of \<open>Offset\<close> does not overflow: it is exactly the number of rows
  of the preceding pages, and the next page starts where this one ends.
\<close>

theorem user_offset_exact:
  assumes "g = UserFilter_Normalize f" and "sint (uf_Page g) < 2 ^ 56"
  shows "sint (UserFilter_Offset g) = (sint (uf_Page g) - 1) * sint (uf_Limit g)
    \<and> 0 \<le> sint (UserFilter_Offset g)
    \<and> sint (UserFilter_Offset (g\<lparr>uf_Page := uf_Page g + 1\<rparr>))
       = sint (UserFilter_Offset g) + sint (uf_Limit g)
    \<and> UserFilter_Normalize g = g"
proof -
  have r: "1 \<le> sint (uf_Page g)" "1 \<le> sint (uf_Limit g)" "sint (uf_Limit g) \<le> 100"
    using assms(1) by (simp_all add: UserFilter_Normalize_range)
  have now: "sint (UserFilter_Offset g) = (sint (uf_Page g) - 1) * sint (uf_Limit g)"
    unfolding UserFilter_Offset_def by (rule sint_offset) (use r assms(2) in simp_all)
  have "uf_Page g + 1 = gint (sint (uf_Page g) + 1)"
    by (simp add: gint_def)
  then have step: "sint (uf_Page g + 1) = sint (uf_Page g) + 1"
    using r(1) assms(2) by (simp add: sint_gint)
  have "sint (UserFilter_Offset (g\<lparr>uf_Page := uf_Page g + 1\<rparr>))
      = (sint (uf_Page g + 1) - 1) * sint (uf_Limit g)"
    unfolding UserFilter_Offset_def
    using sint_offset [of "uf_Page g + 1" "uf_Limit g"] step r assms(2) by simp
  moreover have "0 \<le> sint (UserFilter_Offset g)" unfolding now using r by simp
  moreover have "UserFilter_Normalize g = g" by (rule UserFilter_Normalize_id) (rule r)+
  ultimately show ?thesis using step now by (simp add: algebra_simps)
qed

theorem user_offset_exact_witness:
  "sint (UserFilter_Offset
      (UserFilter_Normalize \<lparr>uf_Page = 3, uf_Limit = 500, uf_Name = [], uf_Email = [],
        uf_ActiveOnly = False\<rparr>)) = 40"
  using user_offset_exact [OF refl, of "\<lparr>uf_Page = 3, uf_Limit = 500, uf_Name = [], uf_Email = [],
        uf_ActiveOnly = False\<rparr>"]
  by (simp add: UserFilter_Normalize_def)

end
