(* ===== verification/Repositories.thy ===== *)
theory Repositories
  imports Database Domain "HOL-Library.Multiset"
begin

text \<open>
  The PostgreSQL repositories (\<open>internal/infrastructure/db/postgres/repository\<close>): the conversion
  between rows and entities, the user and role repositories over a writer and a reader handle,
  the invariant of the tables they keep, and the contract of the use-case layer
  (\<open>interfaces.Repository\<close>) that they implement.
\<close>

section \<open>Rows and entities\<close>

definition toUser :: "'w env \<Rightarrow> userDB \<Rightarrow> goerror + User" where
  "toUser E e =
     (case ParseID E (db_ID e) of
        Inl parseErr \<Rightarrow> Inl (Wrapf ''parsing ID: '' parseErr)
      | Inr i \<Rightarrow>
          (case NewEmail E (db_Email e) of
             Inl emailErr \<Rightarrow> Inl (Wrapf ''parsing email: '' emailErr)
           | Inr email \<Rightarrow>
               Inr \<lparr>u_ID = i, u_Name = db_Name e, u_Email = email, u_Active = db_Active e,
                    u_CreatedAt = db_CreatedAt e, u_UpdatedAt = db_UpdatedAt e\<rparr>))"

definition fromDomainUser :: "User \<Rightarrow> userDB" where
  "fromDomainUser e =
     \<lparr>db_ID = ID_String (u_ID e), db_Name = u_Name e, db_Email = Email_String (u_Email e),
      db_Active = u_Active e, db_CreatedAt = u_CreatedAt e, db_UpdatedAt = u_UpdatedAt e\<rparr>"

definition toRole :: "'w env \<Rightarrow> roleDB \<Rightarrow> goerror + Role" where
  "toRole E r =
     (case ParseID E (rdb_ID r) of
        Inl parseErr \<Rightarrow> Inl (Wrapf ''parsing ID: '' parseErr)
      | Inr i \<Rightarrow>
          Inr \<lparr>r_ID = i, r_Name = rdb_Name r, r_Description = rdb_Description r,
               r_CreatedAt = rdb_CreatedAt r, r_UpdatedAt = rdb_UpdatedAt r\<rparr>)"

definition fromDomainRole :: "Role \<Rightarrow> roleDB" where
  "fromDomainRole r =
     \<lparr>rdb_ID = ID_String (r_ID r), rdb_Name = r_Name r, rdb_Description = r_Description r,
      rdb_CreatedAt = r_CreatedAt r, rdb_UpdatedAt = r_UpdatedAt r\<rparr>"

text \<open>The conversion loop at the end of a listing: the first bad row fails the whole page.\<close>

fun convert_all :: "('a \<Rightarrow> goerror + 'b) \<Rightarrow> 'a list \<Rightarrow> goerror + 'b list" where
  "convert_all f [] = Inr []"
| "convert_all f (x # xs) =
     (case f x of
        Inl e \<Rightarrow> Inl e
      | Inr y \<Rightarrow> (case convert_all f xs of Inl e \<Rightarrow> Inl e | Inr ys \<Rightarrow> Inr (y # ys)))"

section \<open>The user repository\<close>

record 'w UserRepository =
  ur_writer :: "'w sqlx_db"
  ur_reader :: "'w sqlx_db"

definition UserRepository_Create ::
  "'w UserRepository \<Rightarrow> User \<Rightarrow> ('w, goerror option) prog" where
  "UserRepository_Create r e =
     pbind (call (x_exec (ur_writer r) (InsertUser (fromDomainUser e)))) (\<lambda>res.
     case res of
       Inl execErr \<Rightarrow>
         (case errors_As_Pq execErr of
            Some pqErr \<Rightarrow>
              (if pq_code pqErr = ''23505'' then Return (Some (Sentinel ErrDuplicateEmail))
               else Return (Some execErr))
          | None \<Rightarrow> Return (Some execErr))
     | Inr _ \<Rightarrow> Return None)"

text \<open>\<open>sqlx\<close>'s \<open>GetContext\<close>: the first row, or \<open>sql.ErrNoRows\<close>.\<close>

fun first_user :: "goerror + sql_answer \<Rightarrow> goerror + userDB" where
  "first_user (Inl e) = Inl e"
| "first_user (Inr (UserRows (r # rs))) = Inr r"
| "first_user (Inr a) = Inl (Sentinel ErrNoRows)"

definition find_user ::
  "'w env \<Rightarrow> 'w UserRepository \<Rightarrow> sql_stmt \<Rightarrow> ('w, goerror + User) prog" where
  "find_user E r query =
     pbind (call (x_exec (ur_reader r) query)) (\<lambda>res.
     case first_user res of
       Inl selectErr \<Rightarrow>
         (if errors_Is selectErr ErrNoRows then Return (Inl (Sentinel ErrUserNotFound))
          else Return (Inl selectErr))
     | Inr dbModel \<Rightarrow> Return (toUser E dbModel))"

definition UserRepository_FindByID ::
  "'w env \<Rightarrow> 'w UserRepository \<Rightarrow> ID \<Rightarrow> ('w, goerror + User) prog" where
  "UserRepository_FindByID E r i = find_user E r (SelectUserByID (ID_String i))"

definition UserRepository_FindByEmail ::
  "'w env \<Rightarrow> 'w UserRepository \<Rightarrow> Email \<Rightarrow> ('w, goerror + User) prog" where
  "UserRepository_FindByEmail E r email = find_user E r (SelectUserByEmail (Email_String email))"

definition user_conditions :: "UserFilter \<Rightarrow> cond list" where
  "user_conditions f =
     (if uf_ActiveOnly f then [ActiveTrue] else [])
     @ (if uf_Name f \<noteq> [] then [NameILike (''%'' @ uf_Name f @ ''%'')] else [])
     @ (if uf_Email f \<noteq> [] then [EmailILike (''%'' @ uf_Email f @ ''%'')] else [])"

fun count_of :: "goerror + sql_answer \<Rightarrow> goerror + gint" where
  "count_of (Inl e) = Inl e"
| "count_of (Inr (CountRow n)) = Inr n"
| "count_of (Inr a) = Inl (Sentinel ErrNoRows)"

fun user_rows :: "goerror + sql_answer \<Rightarrow> goerror + userDB list" where
  "user_rows (Inl e) = Inl e"
| "user_rows (Inr (UserRows rs)) = Inr rs"
| "user_rows (Inr a) = Inr []"

text \<open>
  \<open>fail_tx\<close> is a return after \<open>BeginTxx\<close>: the deferred \<open>Rollback\<close> runs and its error is dropped.
  After a commit the deferred rollback finds the transaction done and changes nothing.
\<close>

definition fail_tx :: "'w sqlx_db \<Rightarrow> 'r \<Rightarrow> ('w, 'r) prog" where
  "fail_tx h res = pbind (call (x_rollback h)) (\<lambda>_. Return res)"

definition UserRepository_List ::
  "'w env \<Rightarrow> 'w UserRepository \<Rightarrow> UserFilter \<Rightarrow> ('w, goerror + UserListResult) prog" where
  "UserRepository_List E r filter0 =
     (let filter = UserFilter_Normalize filter0;
          conds = user_conditions filter;
          h = ur_reader r
      in
      pbind (call (x_begin h)) (\<lambda>txErr.
      case txErr of
        Some e \<Rightarrow> Return (Inl (Wrapf ''beginning read transaction: '' e))
      | None \<Rightarrow>
      pbind (call (x_exec h (CountUsers conds))) (\<lambda>cres.
      case count_of cres of
        Inl countErr \<Rightarrow> fail_tx h (Inl countErr)
      | Inr tot \<Rightarrow>
      pbind (call (x_exec h (SelectUsers conds (uf_Limit filter) (UserFilter_Offset filter)))) (\<lambda>sres.
      case user_rows sres of
        Inl selectErr \<Rightarrow> fail_tx h (Inl selectErr)
      | Inr dbModels \<Rightarrow>
      pbind (call (x_commit h)) (\<lambda>commitErr.
      case commitErr of
        Some e \<Rightarrow> fail_tx h (Inl (Wrapf ''committing read transaction: '' e))
      | None \<Rightarrow>
      (case convert_all (toUser E) dbModels of
         Inl convertErr \<Rightarrow> fail_tx h (Inl convertErr)
       | Inr users \<Rightarrow>
           fail_tx h (Inr \<lparr>ulr_Users = users, ulr_Total = tot,
                          ulr_Page = uf_Page filter, ulr_Limit = uf_Limit filter\<rparr>)))))))"

fun affected_of :: "goerror + sql_answer \<Rightarrow> goerror + (goerror + nat)" where
  "affected_of (Inl e) = Inl e"
| "affected_of (Inr (Affected a)) = Inr a"
| "affected_of (Inr x) = Inr (Inr 0)"

definition UserRepository_Update ::
  "'w UserRepository \<Rightarrow> User \<Rightarrow> ('w, goerror option) prog" where
  "UserRepository_Update r e =
     pbind (call (x_exec (ur_writer r) (UpdateUser (fromDomainUser e)))) (\<lambda>res.
     case affected_of res of
       Inl execErr \<Rightarrow> Return (Some (Wrapf ''updating user: '' execErr))
     | Inr (Inl affectedErr) \<Rightarrow> Return (Some (Wrapf ''checking rows affected: '' affectedErr))
     | Inr (Inr rowsAffected) \<Rightarrow>
         (if rowsAffected = 0 then Return (Some (Sentinel ErrUserNotFound)) else Return None))"

definition UserRepository_Delete ::
  "'w UserRepository \<Rightarrow> ID \<Rightarrow> ('w, goerror option) prog" where
  "UserRepository_Delete r i =
     pbind (call (x_exec (ur_writer r) (SoftDeleteUser (ID_String i)))) (\<lambda>res.
     case affected_of res of
       Inl execErr \<Rightarrow> Return (Some (Wrapf ''deleting user: '' execErr))
     | Inr (Inl affectedErr) \<Rightarrow> Return (Some (Wrapf ''checking rows affected: '' affectedErr))
     | Inr (Inr rowsAffected) \<Rightarrow>
         (if rowsAffected = 0 then Return (Some (Sentinel ErrUserNotFound)) else Return None))"

section \<open>The role repository\<close>

record 'w RoleRepository =
  rr_writer :: "'w sqlx_db"
  rr_reader :: "'w sqlx_db"

definition RoleRepository_Create ::
  "'w RoleRepository \<Rightarrow> Role \<Rightarrow> ('w, goerror option) prog" where
  "RoleRepository_Create r role =
     pbind (call (x_exec (rr_writer r) (InsertRole (fromDomainRole role)))) (\<lambda>res.
     case res of
       Inl execErr \<Rightarrow>
         (case errors_As_Pq execErr of
            Some pqErr \<Rightarrow>
              (if pq_code pqErr = ''23505'' then Return (Some (Sentinel ErrDuplicateRoleName))
               else Return (Some execErr))
          | None \<Rightarrow> Return (Some execErr))
     | Inr _ \<Rightarrow> Return None)"

fun first_role :: "goerror + sql_answer \<Rightarrow> goerror + roleDB" where
  "first_role (Inl e) = Inl e"
| "first_role (Inr (RoleRows (r # rs))) = Inr r"
| "first_role (Inr a) = Inl (Sentinel ErrNoRows)"

fun role_rows :: "goerror + sql_answer \<Rightarrow> goerror + roleDB list" where
  "role_rows (Inl e) = Inl e"
| "role_rows (Inr (RoleRows rs)) = Inr rs"
| "role_rows (Inr a) = Inr []"

definition RoleRepository_FindByName ::
  "'w env \<Rightarrow> 'w RoleRepository \<Rightarrow> string \<Rightarrow> ('w, goerror + Role) prog" where
  "RoleRepository_FindByName E r name =
     pbind (call (x_exec (rr_reader r) (SelectRoleByName name))) (\<lambda>res.
     case first_role res of
       Inl selectErr \<Rightarrow>
         (if errors_Is selectErr ErrNoRows then Return (Inl (Sentinel ErrRoleNotFound))
          else Return (Inl selectErr))
     | Inr dbModel \<Rightarrow> Return (toRole E dbModel))"

definition role_conditions :: "RoleFilter \<Rightarrow> cond list" where
  "role_conditions f =
     (if rf_Name f \<noteq> [] then [NameILike (''%'' @ rf_Name f @ ''%'')] else [])"

definition RoleRepository_List ::
  "'w env \<Rightarrow> 'w RoleRepository \<Rightarrow> RoleFilter \<Rightarrow> ('w, goerror + RoleListResult) prog" where
  "RoleRepository_List E r filter0 =
     (let filter = RoleFilter_Normalize filter0;
          conds = role_conditions filter;
          h = rr_reader r
      in
      pbind (call (x_begin h)) (\<lambda>txErr.
      case txErr of
        Some e \<Rightarrow> Return (Inl (Wrapf ''beginning read transaction: '' e))
      | None \<Rightarrow>
      pbind (call (x_exec h (CountRoles conds))) (\<lambda>cres.
      case count_of cres of
        Inl countErr \<Rightarrow> fail_tx h (Inl countErr)
      | Inr tot \<Rightarrow>
      pbind (call (x_exec h (SelectRoles conds (rf_Limit filter) (RoleFilter_Offset filter)))) (\<lambda>sres.
      case role_rows sres of
        Inl selectErr \<Rightarrow> fail_tx h (Inl selectErr)
      | Inr dbModels \<Rightarrow>
      pbind (call (x_commit h)) (\<lambda>commitErr.
      case commitErr of
        Some e \<Rightarrow> fail_tx h (Inl (Wrapf ''committing read transaction: '' e))
      | None \<Rightarrow>
      (case convert_all (toRole E) dbModels of
         Inl convertErr \<Rightarrow> fail_tx h (Inl convertErr)
       | Inr roles \<Rightarrow>
           fail_tx h (Inr \<lparr>rlr_Roles = roles, rlr_Total = tot,
                          rlr_Page = rf_Page filter, rlr_Limit = rf_Limit filter\<rparr>)))))))"

definition RoleRepository_Delete ::
  "'w RoleRepository \<Rightarrow> ID \<Rightarrow> ('w, goerror option) prog" where
  "RoleRepository_Delete r i =
     pbind (call (x_exec (rr_writer r) (DeleteRole (ID_String i)))) (\<lambda>res.
     case affected_of res of
       Inl execErr \<Rightarrow> Return (Some execErr)
     | Inr (Inl rowsErr) \<Rightarrow> Return (Some rowsErr)
     | Inr (Inr rowsAffected) \<Rightarrow>
         (if rowsAffected = 0 then Return (Some (Sentinel ErrRoleNotFound)) else Return None))"

section \<open>The invariant of the tables\<close>

text \<open>What the primary keys, the \<open>UNIQUE\<close> constraints and the \<open>uuid\<close> column type guarantee.\<close>

definition tables_ok :: "pg \<Rightarrow> tables \<Rightarrow> bool" where
  "tables_ok P t \<longleftrightarrow>
     distinct (map db_ID (t_users t)) \<and> distinct (map db_Email (t_users t))
     \<and> distinct (map rdb_ID (t_roles t)) \<and> distinct (map rdb_Name (t_roles t))
     \<and> (\<forall>r\<in>set (t_users t). pg_uuid P (db_ID r) = Some (db_ID r))
     \<and> (\<forall>r\<in>set (t_roles t). pg_uuid P (rdb_ID r) = Some (rdb_ID r))"

definition pg_ok :: "pg \<Rightarrow> bool" where
  "pg_ok P \<longleftrightarrow> (\<forall>s i. pg_uuid P s = Some i \<longrightarrow> pg_uuid P i = Some i)"

lemma distinct_map_update:
  assumes "distinct (map f xs)" and "\<forall>x\<in>set xs. g x \<noteq> x \<longrightarrow> f (g x) \<notin> f ` (set xs - {x})"
    and "\<forall>x\<in>set xs. \<forall>y\<in>set xs. g x \<noteq> x \<longrightarrow> g y \<noteq> y \<longrightarrow> x = y"
  shows "distinct (map f (map g xs))"
proof -
  have "distinct xs" using assms(1) by (simp add: distinct_map)
  moreover have "inj_on (\<lambda>x. f (g x)) (set xs)"
  proof (rule inj_onI)
    fix x y
    assume xy: "x \<in> set xs" "y \<in> set xs" "f (g x) = f (g y)"
    show "x = y"
    proof (rule ccontr)
      assume ne: "x \<noteq> y"
      have inj: "f x \<noteq> f y" using assms(1) xy ne by (auto simp: distinct_map dest: inj_onD)
      consider "g x \<noteq> x" | "g y \<noteq> y" | "g x = x" "g y = y" by blast
      then show False
      proof cases
        case 1
        then have "g y = y" using assms(3) xy ne by blast
        moreover have "f (g x) \<notin> f ` (set xs - {x})" using 1 assms(2) xy(1) by blast
        moreover have "f y \<in> f ` (set xs - {x})" using xy ne by blast
        ultimately show False using xy(3) by simp
      next
        case 2
        then have "g x = x" using assms(3) xy ne by blast
        moreover have "f (g y) \<notin> f ` (set xs - {y})" using 2 assms(2) xy(2) by blast
        moreover have "f x \<in> f ` (set xs - {y})" using xy ne by blast
        ultimately show False using xy(3) by simp
      next
        case 3
        then show False using xy inj by simp
      qed
    qed
  qed
  ultimately show ?thesis by (simp add: distinct_map o_def)
qed

lemma sql_exec_frame_roles:
  "t_roles (snd (sql_insert_user P r t)) = t_roles t"
  "t_roles (snd (sql_update_user P r t)) = t_roles t"
  "t_roles (snd (sql_soft_delete_user P now s t)) = t_roles t"
  by (simp_all add: sql_insert_user_def sql_update_user_def sql_soft_delete_user_def
      split: option.split)

lemma sql_exec_frame_users:
  "t_users (snd (sql_insert_role P rr t)) = t_users t"
  "t_users (snd (sql_delete_role P s t)) = t_users t"
  by (simp_all add: sql_insert_role_def sql_delete_role_def split: option.split)

lemma tables_ok_insert_user:
  "pg_ok P \<Longrightarrow> tables_ok P t \<Longrightarrow> tables_ok P (snd (sql_insert_user P r t))"
  by (auto simp: sql_insert_user_def tables_ok_def pg_ok_def list_ex_iff split: option.split)

lemma tables_ok_insert_role:
  "pg_ok P \<Longrightarrow> tables_ok P t \<Longrightarrow> tables_ok P (snd (sql_insert_role P r t))"
  by (auto simp: sql_insert_role_def tables_ok_def pg_ok_def list_ex_iff split: option.split)

lemma tables_ok_delete_role:
  "tables_ok P t \<Longrightarrow> tables_ok P (snd (sql_delete_role P s t))"
  by (auto simp: sql_delete_role_def tables_ok_def distinct_map_filter split: option.split)

lemma tables_ok_soft_delete:
  assumes "tables_ok P t"
  shows "tables_ok P (snd (sql_soft_delete_user P now s t))"
proof (cases "pg_uuid P s")
  case None
  then show ?thesis using assms by (simp add: sql_soft_delete_user_def)
next
  case (Some i)
  let ?g = "\<lambda>x. if db_ID x = i \<and> db_Active x
    then x\<lparr>db_Active := False, db_UpdatedAt := pg_ts P now\<rparr> else x"
  have "map db_ID (map ?g (t_users t)) = map db_ID (t_users t)"
    and "map db_Email (map ?g (t_users t)) = map db_Email (t_users t)" by simp_all
  then show ?thesis using assms Some
    by (auto simp: sql_soft_delete_user_def tables_ok_def simp del: map_map)
qed

lemma tables_ok_update_user:
  assumes "tables_ok P t"
  shows "tables_ok P (snd (sql_update_user P r t))"
proof (cases "pg_uuid P (db_ID r)")
  case None
  then show ?thesis using assms by (simp add: sql_update_user_def)
next
  case (Some i)
  let ?g = "\<lambda>x. if db_ID x = i
     then x\<lparr>db_Name := db_Name r, db_Email := db_Email r, db_Active := db_Active r,
            db_UpdatedAt := pg_ts P (db_UpdatedAt r)\<rparr> else x"
  show ?thesis
  proof (cases "fst (sql_update_user P r t) = Inr (Affected (Inr (length (filter (\<lambda>x. db_ID x = i) (t_users t)))))
      \<and> snd (sql_update_user P r t) = t\<lparr>t_users := map ?g (t_users t)\<rparr>
      \<and> \<not> list_ex (\<lambda>x. db_ID x \<noteq> i \<and> db_Email x = db_Email r) (t_users t)")
    case False
    then have "snd (sql_update_user P r t) = t"
      using Some by (auto simp: sql_update_user_def split: option.splits if_splits)
    then show ?thesis using assms by simp
  next
    case True
    let ?us = "t_users t"
    have ids: "map db_ID (map ?g ?us) = map db_ID ?us" by (simp add: o_def)
    have "distinct (map db_Email (map ?g ?us))"
    proof (rule distinct_map_update)
      show "distinct (map db_Email ?us)" using assms by (simp add: tables_ok_def)
      show "\<forall>x\<in>set ?us. ?g x \<noteq> x \<longrightarrow> db_Email (?g x) \<notin> db_Email ` (set ?us - {x})"
        using True assms by (auto simp: list_ex_iff tables_ok_def distinct_map dest: inj_onD split: if_splits)
      show "\<forall>x\<in>set ?us. \<forall>y\<in>set ?us. ?g x \<noteq> x \<longrightarrow> ?g y \<noteq> y \<longrightarrow> x = y"
        using assms by (auto simp: tables_ok_def distinct_map dest: inj_onD split: if_splits)
    qed
    with True ids assms show ?thesis
      by (auto simp: tables_ok_def simp del: map_map)
  qed
qed

lemma tables_ok_exec [inv_intros]:
  assumes "pg_ok P" and "tables_ok P t"
  shows "tables_ok P (snd (sql_exec P now st t))"
  using assms
  by (cases st)
    (auto intro: tables_ok_insert_user tables_ok_insert_role tables_ok_delete_role
      tables_ok_soft_delete tables_ok_update_user split: option.split sum.split)

end
