(* ===== verification/UserStore.thy ===== *)
theory UserStore
  imports Repositories
begin

text \<open>
  The contract between the use cases and the user repository.  \<open>user_repo\<close> is the interface
  \<open>interfaces.Repository\<close> of \<open>internal/usecases/user\<close>; \<open>sql_server\<close> states what the code relies on
  of PostgreSQL and its driver; \<open>user_store\<close> is the abstract contract, a finite map from canonical
  IDs to users with one transition relation per operation.  The PostgreSQL repository over a
  \<open>sql_server\<close> satisfies the contract.
\<close>

section \<open>The interface\<close>

record 'w user_repo =
  repo_Create :: "User \<Rightarrow> ('w, goerror option) prog"
  repo_FindByID :: "ID \<Rightarrow> ('w, goerror + User) prog"
  repo_FindByEmail :: "Email \<Rightarrow> ('w, goerror + User) prog"
  repo_List :: "UserFilter \<Rightarrow> ('w, goerror + UserListResult) prog"
  repo_Update :: "User \<Rightarrow> ('w, goerror option) prog"
  repo_Delete :: "ID \<Rightarrow> ('w, goerror option) prog"

definition NewUserRepository :: "'w sqlx_db \<Rightarrow> 'w sqlx_db \<Rightarrow> 'w UserRepository" where
  "NewUserRepository writer reader = \<lparr>ur_writer = writer, ur_reader = reader\<rparr>"

definition postgres_users :: "'w env \<Rightarrow> 'w UserRepository \<Rightarrow> 'w user_repo" where
  "postgres_users E r =
     \<lparr>repo_Create = UserRepository_Create r,
      repo_FindByID = UserRepository_FindByID E r,
      repo_FindByEmail = UserRepository_FindByEmail E r,
      repo_List = UserRepository_List E r,
      repo_Update = UserRepository_Update r,
      repo_Delete = UserRepository_Delete r\<rparr>"

section \<open>What the code relies on of the server\<close>

text \<open>
  An error the code does not recognise: no sentinel and no application error in its chain.  An
  \<open>infra_error\<close> is one that is not a unique violation either.
\<close>

definition opaque_error :: "goerror \<Rightarrow> bool" where
  "opaque_error e \<longleftrightarrow> (\<forall>s. \<not> errors_Is e s) \<and> errors_As_App e = None"

definition infra_error :: "goerror \<Rightarrow> bool" where
  "infra_error e \<longleftrightarrow> opaque_error e
     \<and> (case errors_As_Pq e of Some q \<Rightarrow> pq_code q \<noteq> ''23505'' | None \<Rightarrow> True)"

lemma opaque_error_simps [simp]:
  "opaque_error (Wrapf p e) = opaque_error e"
  "opaque_error (PqError c t)"
  "opaque_error (Opaque ty t)"
  "\<not> opaque_error (Sentinel s)"
  "\<not> opaque_error (AppError c m d oe)"
  by (auto simp: opaque_error_def)

lemma opaque_errorD [simp]:
  "opaque_error e \<Longrightarrow> \<not> errors_Is e s" "opaque_error e \<Longrightarrow> errors_As_App e = None"
  by (simp_all add: opaque_error_def)

lemma infra_error_simps [simp]:
  "infra_error (Wrapf p e) = infra_error e"
  "infra_error (PqError c t) \<longleftrightarrow> c \<noteq> ''23505''"
  "infra_error (Opaque ty t)"
  "\<not> infra_error (Sentinel s)"
  by (auto simp: infra_error_def)

lemma infra_opaque [simp, intro]: "infra_error e \<Longrightarrow> opaque_error e"
  by (simp add: infra_error_def)

lemma infra_known [simp]: "infra_error invalid_uuid" "infra_error negative_offset"
  by (simp_all add: invalid_uuid_def negative_offset_def)

lemma unique_violation_known [simp]:
  "opaque_error unique_violation" "\<not> infra_error unique_violation"
  "errors_As_Pq unique_violation = Some unique_violation" "pq_code unique_violation = ''23505''"
  by (simp_all add: unique_violation_def)

text \<open>
  One statement: the server executes it at some instant, or the call fails with an error that is
  not a unique violation, and then the statement may or may not have been executed (a connection
  lost while the answer was under way).
\<close>

definition sql_step ::
  "pg \<Rightarrow> sql_stmt \<Rightarrow> tables \<Rightarrow> goerror + sql_answer \<Rightarrow> tables \<Rightarrow> bool" where
  "sql_step P st t r t' \<longleftrightarrow>
     (\<exists>now. r = fst (sql_exec P now st t) \<and> t' = snd (sql_exec P now st t)
        \<or> (\<exists>e. r = Inl e \<and> infra_error e \<and> (t' = t \<or> t' = snd (sql_exec P now st t))))"

locale sql_server =
  fixes P :: pg and h :: "'w sqlx_db" and tbl :: "'w \<Rightarrow> tables"
  assumes pg_law: "pg_ok P"
    and reject_user_law: "pg_reject_user P ru = Some e \<Longrightarrow> infra_error e"
    and reject_role_law: "pg_reject_role P rr = Some e \<Longrightarrow> infra_error e"
    and order_users_law: "mset (pg_order_users P us) = mset us
          \<and> sorted (map (\<lambda>r. - db_CreatedAt r) (pg_order_users P us))"
    and order_roles_law: "mset (pg_order_roles P rs) = mset rs
          \<and> sorted (map (\<lambda>r. - rdb_CreatedAt r) (pg_order_roles P rs))"
    and exec_law: "sql_step P st (tbl w) (fst (x_exec h st w)) (tbl (snd (x_exec h st w)))"
    and begin_law: "tbl (snd (x_begin h w)) = tbl w
          \<and> (\<forall>e. fst (x_begin h w) = Some e \<longrightarrow> infra_error e)"
    and commit_law: "tbl (snd (x_commit h w)) = tbl w
          \<and> (\<forall>e. fst (x_commit h w) = Some e \<longrightarrow> infra_error e)"
    and rollback_law: "tbl (snd (x_rollback h w)) = tbl w"

section \<open>The abstract store\<close>

definition user_of :: "userDB \<Rightarrow> User" where
  "user_of r =
     \<lparr>u_ID = db_ID r, u_Name = db_Name r, u_Email = \<lparr>email_value = db_Email r\<rparr>,
      u_Active = db_Active r, u_CreatedAt = db_CreatedAt r, u_UpdatedAt = db_UpdatedAt r\<rparr>"

type_synonym user_map = "ID \<Rightarrow> User option"

definition users_view :: "tables \<Rightarrow> user_map" where
  "users_view t = map_of (map (\<lambda>r. (db_ID r, user_of r)) (t_users t))"

text \<open>Every row converts back to an entity: what the repository has to keep for its readers.\<close>

definition store_ok :: "'w env \<Rightarrow> pg \<Rightarrow> tables \<Rightarrow> bool" where
  "store_ok E P t \<longleftrightarrow> tables_ok P t
     \<and> (\<forall>r\<in>set (t_users t). env_uuid_ok E (db_ID r) \<and> env_mail_ok E (db_Email r))
     \<and> (\<forall>r\<in>set (t_roles t). env_uuid_ok E (rdb_ID r))"

definition user_valid :: "'w env \<Rightarrow> User \<Rightarrow> bool" where
  "user_valid E u \<longleftrightarrow> env_mail_ok E (email_value (u_Email u))"

definition email_taken :: "user_map \<Rightarrow> ID \<Rightarrow> Email \<Rightarrow> bool" where
  "email_taken m i e \<longleftrightarrow> (\<exists>j u. j \<noteq> i \<and> m j = Some u \<and> u_Email u = e)"

definition stored :: "pg \<Rightarrow> ID \<Rightarrow> User \<Rightarrow> User" where
  "stored P i u =
     u\<lparr>u_ID := i, u_CreatedAt := pg_ts P (u_CreatedAt u), u_UpdatedAt := pg_ts P (u_UpdatedAt u)\<rparr>"

text \<open>The transition relations: result and new map.  An opaque error never hides a success.\<close>

definition create_spec ::
  "pg \<Rightarrow> User \<Rightarrow> user_map \<Rightarrow> goerror option \<Rightarrow> user_map \<Rightarrow> bool" where
  "create_spec P u m r m' \<longleftrightarrow>
     (\<exists>i. pg_uuid P (u_ID u) = Some i \<and> m i = None \<and> \<not> email_taken m i (u_Email u)
        \<and> m' = m(i \<mapsto> stored P i u) \<and> (\<forall>e. r = Some e \<longrightarrow> opaque_error e))
     \<or> (\<exists>i. pg_uuid P (u_ID u) = Some i \<and> (m i \<noteq> None \<or> email_taken m i (u_Email u))
        \<and> r = Some (Sentinel ErrDuplicateEmail) \<and> m' = m)
     \<or> (\<exists>e. r = Some e \<and> opaque_error e \<and> m' = m)"

definition find_spec :: "pg \<Rightarrow> ID \<Rightarrow> user_map \<Rightarrow> goerror + User \<Rightarrow> bool" where
  "find_spec P s m r \<longleftrightarrow>
     (\<exists>i u. pg_uuid P s = Some i \<and> m i = Some u \<and> r = Inr u)
     \<or> (\<exists>i. pg_uuid P s = Some i \<and> m i = None \<and> r = Inl (Sentinel ErrUserNotFound))
     \<or> (\<exists>e. r = Inl e \<and> opaque_error e)"

definition find_email_spec :: "Email \<Rightarrow> user_map \<Rightarrow> goerror + User \<Rightarrow> bool" where
  "find_email_spec e m r \<longleftrightarrow>
     (\<exists>i u. m i = Some u \<and> u_Email u = e \<and> r = Inr u)
     \<or> ((\<forall>i u. m i = Some u \<longrightarrow> u_Email u \<noteq> e) \<and> r = Inl (Sentinel ErrUserNotFound))
     \<or> (\<exists>e. r = Inl e \<and> opaque_error e)"

definition updated :: "pg \<Rightarrow> User \<Rightarrow> User \<Rightarrow> User" where
  "updated P u old =
     old\<lparr>u_Name := u_Name u, u_Email := u_Email u, u_Active := u_Active u,
         u_UpdatedAt := pg_ts P (u_UpdatedAt u)\<rparr>"

definition update_spec ::
  "pg \<Rightarrow> User \<Rightarrow> user_map \<Rightarrow> goerror option \<Rightarrow> user_map \<Rightarrow> bool" where
  "update_spec P u m r m' \<longleftrightarrow>
     (\<exists>i old. pg_uuid P (u_ID u) = Some i \<and> m i = Some old \<and> \<not> email_taken m i (u_Email u)
        \<and> m' = m(i \<mapsto> updated P u old) \<and> (\<forall>e. r = Some e \<longrightarrow> opaque_error e))
     \<or> (\<exists>i. pg_uuid P (u_ID u) = Some i \<and> m i = None
        \<and> r = Some (Sentinel ErrUserNotFound) \<and> m' = m)
     \<or> (\<exists>e. r = Some e \<and> opaque_error e \<and> m' = m)"

definition delete_spec ::
  "pg \<Rightarrow> ID \<Rightarrow> user_map \<Rightarrow> goerror option \<Rightarrow> user_map \<Rightarrow> bool" where
  "delete_spec P s m r m' \<longleftrightarrow>
     (\<exists>i old t. pg_uuid P s = Some i \<and> m i = Some old \<and> u_Active old
        \<and> m' = m(i \<mapsto> old\<lparr>u_Active := False, u_UpdatedAt := t\<rparr>)
        \<and> (\<forall>e. r = Some e \<longrightarrow> opaque_error e))
     \<or> (\<exists>i. pg_uuid P s = Some i \<and> (\<forall>old. m i = Some old \<longrightarrow> \<not> u_Active old)
        \<and> r = Some (Sentinel ErrUserNotFound) \<and> m' = m)
     \<or> (\<exists>e. r = Some e \<and> opaque_error e \<and> m' = m)"

definition user_selected :: "pg \<Rightarrow> UserFilter \<Rightarrow> User \<Rightarrow> bool" where
  "user_selected P f u \<longleftrightarrow>
     (uf_ActiveOnly f \<longrightarrow> u_Active u)
     \<and> (uf_Name f \<noteq> [] \<longrightarrow> pg_ilike P (u_Name u) (''%'' @ uf_Name f @ ''%''))
     \<and> (uf_Email f \<noteq> [] \<longrightarrow> pg_ilike P (email_value (u_Email u)) (''%'' @ uf_Email f @ ''%''))"

text \<open>
  A listing: some enumeration of the selected users without repetition, newest first, cut to the
  page; the total counts all of them.
\<close>

definition list_spec ::
  "pg \<Rightarrow> UserFilter \<Rightarrow> user_map \<Rightarrow> goerror + UserListResult \<Rightarrow> bool" where
  "list_spec P f0 m r \<longleftrightarrow>
     (let f = UserFilter_Normalize f0 in
      (\<exists>us. distinct (map u_ID us) \<and> set us = {u \<in> ran m. user_selected P f u}
         \<and> sorted (map (\<lambda>u. - u_CreatedAt u) us)
         \<and> 0 \<le> sint (UserFilter_Offset f)
         \<and> r = Inr \<lparr>ulr_Users = take (nat (sint (uf_Limit f))) (drop (nat (sint (UserFilter_Offset f))) us),
                    ulr_Total = gint (int (length us)),
                    ulr_Page = uf_Page f, ulr_Limit = uf_Limit f\<rparr>)
      \<or> (\<exists>e. r = Inl e \<and> opaque_error e))"

locale user_store =
  fixes E :: "'w env" and P :: pg and R :: "'w user_repo"
    and view :: "'w \<Rightarrow> user_map" and ok :: "'w \<Rightarrow> bool"
  assumes view_law: "ok w \<Longrightarrow> view w i = Some u \<Longrightarrow> u_ID u = i \<and> pg_uuid P i = Some i \<and> user_valid E u"
    and create_law: "ok w \<Longrightarrow> user_valid E u \<Longrightarrow> run (repo_Create R u) w = (r, w') \<Longrightarrow>
          ok w' \<and> create_spec P u (view w) r (view w')"
    and find_law: "ok w \<Longrightarrow> run (repo_FindByID R i) w = (f, w') \<Longrightarrow>
          ok w' \<and> view w' = view w \<and> find_spec P i (view w) f"
    and find_email_law: "ok w \<Longrightarrow> run (repo_FindByEmail R e) w = (f, w') \<Longrightarrow>
          ok w' \<and> view w' = view w \<and> find_email_spec e (view w) f"
    and list_law: "ok w \<Longrightarrow> run (repo_List R flt) w = (l, w') \<Longrightarrow>
          ok w' \<and> view w' = view w \<and> list_spec P flt (view w) l"
    and update_law: "ok w \<Longrightarrow> user_valid E u \<Longrightarrow> run (repo_Update R u) w = (r, w') \<Longrightarrow>
          ok w' \<and> update_spec P u (view w) r (view w')"
    and delete_law: "ok w \<Longrightarrow> run (repo_Delete R i) w = (r, w') \<Longrightarrow>
          ok w' \<and> delete_spec P i (view w) r (view w')"

section \<open>Tables and the store\<close>

lemma users_view_filter:
  "users_view t i = (case filter (\<lambda>r. db_ID r = i) (t_users t) of [] \<Rightarrow> None | r # _ \<Rightarrow> Some (user_of r))"
proof -
  have "map_of (map (\<lambda>r. (db_ID r, user_of r)) xs) i
      = (case filter (\<lambda>r. db_ID r = i) xs of [] \<Rightarrow> None | r # _ \<Rightarrow> Some (user_of r))" for xs
    by (induction xs) simp_all
  then show ?thesis by (simp add: users_view_def)
qed

lemma users_view_None: "users_view t i = None \<longleftrightarrow> i \<notin> db_ID ` set (t_users t)"
  by (simp add: users_view_def map_of_eq_None_iff image_image)

lemma users_view_Some:
  assumes "tables_ok P t"
  shows "users_view t i = Some u \<longleftrightarrow> (\<exists>r\<in>set (t_users t). db_ID r = i \<and> user_of r = u)"
proof -
  have "distinct (map fst (map (\<lambda>r. (db_ID r, user_of r)) (t_users t)))"
    using assms by (simp add: tables_ok_def o_def)
  from map_of_eq_Some_iff [OF this, of i u] show ?thesis
    by (auto simp: users_view_def)
qed

lemma user_of_sel [simp]:
  "u_ID (user_of r) = db_ID r" "u_Active (user_of r) = db_Active r" "u_Name (user_of r) = db_Name r"
  "u_Email (user_of r) = \<lparr>email_value = db_Email r\<rparr>" "u_CreatedAt (user_of r) = db_CreatedAt r"
  by (simp_all add: user_of_def)

lemma email_taken_rows:
  assumes "tables_ok P t"
  shows "email_taken (users_view t) i e \<longleftrightarrow>
    list_ex (\<lambda>x. db_ID x \<noteq> i \<and> db_Email x = email_value e) (t_users t)"
proof
  assume "email_taken (users_view t) i e"
  then obtain j u where "j \<noteq> i" "users_view t j = Some u" "u_Email u = e"
    by (auto simp: email_taken_def)
  then show "list_ex (\<lambda>x. db_ID x \<noteq> i \<and> db_Email x = email_value e) (t_users t)"
    using users_view_Some [OF assms, of j u] by (auto simp: list_ex_iff)
next
  assume "list_ex (\<lambda>x. db_ID x \<noteq> i \<and> db_Email x = email_value e) (t_users t)"
  then obtain x where x: "x \<in> set (t_users t)" "db_ID x \<noteq> i" "db_Email x = email_value e"
    by (auto simp: list_ex_iff)
  then have "users_view t (db_ID x) = Some (user_of x)"
    using users_view_Some [OF assms] by blast
  moreover have "u_Email (user_of x) = e" using x(3) by simp
  ultimately show "email_taken (users_view t) i e" using x(2) unfolding email_taken_def by blast
qed

lemma fromDomainUser_sel [simp]:
  "db_ID (fromDomainUser u) = u_ID u" "db_Email (fromDomainUser u) = email_value (u_Email u)"
  "db_Name (fromDomainUser u) = u_Name u" "db_Active (fromDomainUser u) = u_Active u"
  "db_CreatedAt (fromDomainUser u) = u_CreatedAt u" "db_UpdatedAt (fromDomainUser u) = u_UpdatedAt u"
  by (simp_all add: fromDomainUser_def ID_String_def Email_String_def)

lemma toUser_ok: "env_uuid_ok E (db_ID r) \<Longrightarrow> env_mail_ok E (db_Email r) \<Longrightarrow> toUser E r = Inr (user_of r)"
  by (simp add: toUser_def ParseID_def NewEmail_def user_of_def)

lemma convert_all_map: "(\<And>x. x \<in> set xs \<Longrightarrow> f x = Inr (g x)) \<Longrightarrow> convert_all f xs = Inr (map g xs)"
  by (induction xs) simp_all

text \<open>The conversion there and back.\<close>

lemma user_of_fromDomainUser: "user_of (fromDomainUser u) = u"
  by (cases u) (simp add: user_of_def)

lemma map_of_update_row:
  assumes "\<And>r. k (g r) = k r" and "\<And>r. k r \<noteq> i \<Longrightarrow> g r = r" and "filter (\<lambda>r. k r = i) xs = r0 # rs"
  shows "map_of (map (\<lambda>r. (k r, v r)) (map g xs)) = (map_of (map (\<lambda>r. (k r, v r)) xs))(i \<mapsto> v (g r0))"
  using assms(3)
proof (induction xs)
  case Nil
  then show ?case by simp
next
  case (Cons x xs)
  show ?case
  proof (cases "k x = i")
    case True
    have "map_of (map (\<lambda>r. (k r, v r)) (map g ys)) j = map_of (map (\<lambda>r. (k r, v r)) ys) j" if "j \<noteq> i" for ys j
      using that by (induction ys) (auto simp: assms(1,2))
    then show ?thesis using True Cons.prems by (auto simp: assms(1) fun_eq_iff simp del: map_map)
  next
    case False
    then show ?thesis using Cons by (auto simp: assms(1,2) simp del: map_map)
  qed
qed

lemma users_view_update_row:
  assumes "\<And>r. db_ID (g r) = db_ID r" and "\<And>r. db_ID r \<noteq> i \<Longrightarrow> g r = r"
    and "filter (\<lambda>r. db_ID r = i) (t_users t) = r0 # rs"
  shows "users_view (t\<lparr>t_users := map g (t_users t)\<rparr>) = (users_view t)(i \<mapsto> user_of (g r0))"
  using map_of_update_row [of db_ID g i "t_users t" r0 rs user_of] assms
  by (simp add: users_view_def del: map_map)

lemma users_view_roles [simp]: "users_view (t\<lparr>t_roles := rs\<rparr>) = users_view t"
  by (simp add: users_view_def)

text \<open>What a statement may put into the tables.\<close>

fun stmt_ok :: "'w env \<Rightarrow> sql_stmt \<Rightarrow> bool" where
  "stmt_ok E (InsertUser r) = env_mail_ok E (db_Email r)"
| "stmt_ok E (UpdateUser r) = env_mail_ok E (db_Email r)"
| "stmt_ok E _ = True"

definition env_pg :: "'w env \<Rightarrow> pg \<Rightarrow> bool" where
  "env_pg E P \<longleftrightarrow> (\<forall>s i. pg_uuid P s = Some i \<longrightarrow> env_uuid_ok E i)"

lemma store_ok_exec [inv_intros]:
  assumes "pg_ok P" and "env_pg E P" and "store_ok E P t" and "stmt_ok E st"
  shows "store_ok E P (snd (sql_exec P now st t))"
proof -
  have "\<forall>r\<in>set (t_users (snd (sql_exec P now st t))). env_uuid_ok E (db_ID r) \<and> env_mail_ok E (db_Email r)"
    using assms(2-4)
    by (cases st) (auto simp: store_ok_def env_pg_def sql_insert_user_def sql_update_user_def
        sql_soft_delete_user_def sql_insert_role_def sql_delete_role_def split: option.splits sum.splits)
  moreover have "\<forall>r\<in>set (t_roles (snd (sql_exec P now st t))). env_uuid_ok E (rdb_ID r)"
    using assms(2-4)
    by (cases st) (auto simp: store_ok_def env_pg_def sql_insert_user_def sql_update_user_def
        sql_soft_delete_user_def sql_insert_role_def sql_delete_role_def split: option.splits sum.splits)
  ultimately show ?thesis using assms(1,3) tables_ok_exec by (auto simp: store_ok_def)
qed

lemma store_ok_step:
  assumes "pg_ok P" and "env_pg E P" and "store_ok E P t" and "stmt_ok E st" and "sql_step P st t r t'"
  shows "store_ok E P t'"
  using assms(5) assms(3) store_ok_exec [OF assms(1-4)] by (auto simp: sql_step_def)

section \<open>The PostgreSQL repository keeps the contract\<close>

lemma taken_rows:
  assumes "tables_ok P t"
  shows "list_ex (\<lambda>x. db_ID x = i \<or> db_Email x = email_value e) (t_users t)
    \<longleftrightarrow> users_view t i \<noteq> None \<or> email_taken (users_view t) i e"
  unfolding email_taken_rows [OF assms] users_view_None list_ex_iff by auto

lemma users_view_append:
  "users_view t (db_ID r) = None \<Longrightarrow>
    users_view (t\<lparr>t_users := t_users t @ [r]\<rparr>) = (users_view t)(db_ID r \<mapsto> user_of r)"
  by (auto simp: users_view_def fun_eq_iff map_add_def split: option.split)

lemma insert_user_cases:
  assumes "tables_ok P t"
  obtains (bad_id) "sql_insert_user P (fromDomainUser u) t = (Inl invalid_uuid, t)"
  | (rejected) e where "pg_reject_user P (fromDomainUser u) = Some e"
      "sql_insert_user P (fromDomainUser u) t = (Inl e, t)"
  | (conflict) i where "pg_uuid P (u_ID u) = Some i"
      "users_view t i \<noteq> None \<or> email_taken (users_view t) i (u_Email u)"
      "sql_insert_user P (fromDomainUser u) t = (Inl unique_violation, t)"
  | (inserted) i t' where "pg_uuid P (u_ID u) = Some i" "users_view t i = None"
      "\<not> email_taken (users_view t) i (u_Email u)"
      "users_view t' = (users_view t)(i \<mapsto> stored P i u)"
      "sql_insert_user P (fromDomainUser u) t = (Inr (Affected (Inr 1)), t')"
proof (cases "pg_uuid P (u_ID u)")
  case None
  then show ?thesis using bad_id by (simp add: sql_insert_user_def)
next
  case (Some i)
  show ?thesis
  proof (cases "pg_reject_user P (fromDomainUser u)")
    case (Some e)
    then show ?thesis using rejected \<open>pg_uuid P (u_ID u) = Some i\<close> by (simp add: sql_insert_user_def)
  next
    case None
    show ?thesis
    proof (cases "list_ex (\<lambda>x. db_ID x = i \<or> db_Email x = email_value (u_Email u)) (t_users t)")
      case True
      then show ?thesis using conflict [of i] Some None unfolding taken_rows [OF assms, symmetric]
        by (simp add: sql_insert_user_def)
    next
      case False
      let ?r = "(fromDomainUser u)\<lparr>db_ID := i, db_CreatedAt := pg_ts P (u_CreatedAt u),
          db_UpdatedAt := pg_ts P (u_UpdatedAt u)\<rparr>"
      have free: "users_view t i = None" "\<not> email_taken (users_view t) i (u_Email u)"
        using False unfolding taken_rows [OF assms] by blast+
      have "user_of ?r = stored P i u"
        using user_of_fromDomainUser [of u] by (cases u) (simp add: user_of_def stored_def)
      moreover have "db_ID ?r = i" by simp
      ultimately have "users_view (t\<lparr>t_users := t_users t @ [?r]\<rparr>) = (users_view t)(i \<mapsto> stored P i u)"
        using users_view_append [of t ?r] free(1) by simp
      then show ?thesis using inserted [of i] free Some None False by (simp add: sql_insert_user_def)
    qed
  qed
qed

definition create_result :: "goerror + sql_answer \<Rightarrow> goerror option" where
  "create_result res =
     (case res of
        Inl execErr \<Rightarrow>
         (case errors_As_Pq execErr of
            Some pqErr \<Rightarrow> (if pq_code pqErr = ''23505'' then Some (Sentinel ErrDuplicateEmail) else Some execErr)
          | None \<Rightarrow> Some execErr)
      | Inr _ \<Rightarrow> None)"

lemma create_result_simps [simp]:
  "create_result (Inr a) = None"
  "create_result (Inl unique_violation) = Some (Sentinel ErrDuplicateEmail)"
  "infra_error e \<Longrightarrow> create_result (Inl e) = Some e"
  by (auto simp: create_result_def infra_error_def split: option.split)

lemma run_UserRepository_Create [run_simps]:
  "run (UserRepository_Create r u) w =
    (create_result (fst (x_exec (ur_writer r) (InsertUser (fromDomainUser u)) w)),
     snd (x_exec (ur_writer r) (InsertUser (fromDomainUser u)) w))"
  by (simp add: UserRepository_Create_def run_pbind create_result_def split: sum.split option.split)

lemma create_step:
  assumes ok: "tables_ok P t" and rej: "\<And>e. pg_reject_user P (fromDomainUser u) = Some e \<Longrightarrow> infra_error e"
    and step: "sql_step P (InsertUser (fromDomainUser u)) t r t'"
  shows "create_spec P u (users_view t) (create_result r) (users_view t')"
  by (rule insert_user_cases [OF ok, of u];
      use step rej in \<open>fastforce simp: sql_step_def create_spec_def\<close>)

lemma run_find_user [run_simps]:
  "run (find_user E r q) w =
    (case x_exec (ur_reader r) q w of (res, w') \<Rightarrow>
      (case first_user res of
         Inl e \<Rightarrow> if errors_Is e ErrNoRows then Inl (Sentinel ErrUserNotFound) else Inl e
       | Inr d \<Rightarrow> toUser E d, w'))"
  by (auto simp: find_user_def run_pbind split: prod.split sum.split)

lemma find_step:
  assumes ok: "store_ok E P t" and step: "sql_step P (SelectUserByID (ID_String s)) t r t'"
    and run: "run (find_user E R (SelectUserByID (ID_String s))) w = (f, w')"
    and x: "x_exec (ur_reader R) (SelectUserByID (ID_String s)) w = (r, w')"
  shows "t' = t \<and> find_spec P s (users_view t) f"
proof -
  have t': "t' = t" using step by (auto simp: sql_step_def split: option.splits)
  show ?thesis
  proof (cases "\<exists>e. r = Inl e \<and> infra_error e")
    case True
    then show ?thesis using t' run x by (auto simp: run_find_user find_spec_def)
  next
    case False
    then obtain i where i: "pg_uuid P s = Some i" and r: "r = Inr (UserRows (filter (\<lambda>r. db_ID r = i) (t_users t)))"
      using step by (auto simp: sql_step_def ID_String_def split: option.splits)
    show ?thesis
    proof (cases "filter (\<lambda>r. db_ID r = i) (t_users t)")
      case Nil
      then have "users_view t i = None" by (simp add: users_view_filter)
      then show ?thesis using t' run x r i Nil by (auto simp: run_find_user find_spec_def)
    next
      case (Cons d ds)
      then have d: "d \<in> set (t_users t)" by (rule filter_ConsD)
      have "users_view t i = Some (user_of d)" using Cons by (simp add: users_view_filter)
      moreover have "toUser E d = Inr (user_of d)"
        using ok d by (intro toUser_ok) (auto simp: store_ok_def)
      ultimately show ?thesis using t' run x r i Cons by (auto simp: run_find_user find_spec_def)
    qed
  qed
qed

lemma find_email_step:
  assumes ok: "store_ok E P t" and step: "sql_step P (SelectUserByEmail (Email_String m)) t r t'"
    and run: "run (find_user E R (SelectUserByEmail (Email_String m))) w = (f, w')"
    and x: "x_exec (ur_reader R) (SelectUserByEmail (Email_String m)) w = (r, w')"
  shows "t' = t \<and> find_email_spec m (users_view t) f"
proof -
  have tok: "tables_ok P t" using ok by (simp add: store_ok_def)
  have t': "t' = t" using step by (auto simp: sql_step_def)
  show ?thesis
  proof (cases "\<exists>e. r = Inl e \<and> infra_error e")
    case True
    then show ?thesis using t' run x by (auto simp: run_find_user find_email_spec_def)
  next
    case False
    then have r: "r = Inr (UserRows (filter (\<lambda>r. db_Email r = email_value m) (t_users t)))"
      using step by (auto simp: sql_step_def Email_String_def)
    show ?thesis
    proof (cases "filter (\<lambda>r. db_Email r = email_value m) (t_users t)")
      case Nil
      have "u_Email u \<noteq> m" if "users_view t i = Some u" for i u
        using Nil that unfolding users_view_Some [OF tok] by (auto simp: filter_empty_conv)
      then show ?thesis using t' run x r Nil by (auto simp: run_find_user find_email_spec_def)
    next
      case (Cons d ds)
      then have d: "d \<in> set (t_users t)" "db_Email d = email_value m"
        by (rule filter_ConsD)+
      then have "users_view t (db_ID d) = Some (user_of d)" "u_Email (user_of d) = m"
        using users_view_Some [OF tok] by auto
      moreover have "toUser E d = Inr (user_of d)"
        using ok d by (intro toUser_ok) (auto simp: store_ok_def)
      moreover from this have "f = Inr (user_of d)" using run x r Cons by (simp add: run_find_user)
      ultimately show ?thesis using t' unfolding find_email_spec_def by blast
    qed
  qed
qed

definition write_result :: "string \<Rightarrow> goerror \<Rightarrow> goerror + sql_answer \<Rightarrow> goerror option" where
  "write_result what missing res =
     (case affected_of res of
       Inl execErr \<Rightarrow> Some (Wrapf what execErr)
     | Inr (Inl affectedErr) \<Rightarrow> Some (Wrapf ''checking rows affected: '' affectedErr)
     | Inr (Inr n) \<Rightarrow> if n = 0 then Some missing else None)"

lemma write_result_simps [simp]:
  "write_result what missing (Inl e) = Some (Wrapf what e)"
  "write_result what missing (Inr (Affected (Inr n))) = (if n = 0 then Some missing else None)"
  by (simp_all add: write_result_def)

lemma run_UserRepository_Update [run_simps]:
  "run (UserRepository_Update r u) w =
    (write_result ''updating user: '' (Sentinel ErrUserNotFound)
       (fst (x_exec (ur_writer r) (UpdateUser (fromDomainUser u)) w)),
     snd (x_exec (ur_writer r) (UpdateUser (fromDomainUser u)) w))"
  by (simp add: UserRepository_Update_def run_pbind write_result_def split: sum.split)

lemma run_UserRepository_Delete [run_simps]:
  "run (UserRepository_Delete r i) w =
    (write_result ''deleting user: '' (Sentinel ErrUserNotFound)
       (fst (x_exec (ur_writer r) (SoftDeleteUser (ID_String i)) w)),
     snd (x_exec (ur_writer r) (SoftDeleteUser (ID_String i)) w))"
  by (simp add: UserRepository_Delete_def run_pbind write_result_def split: sum.split)

lemma list_ex_filter: "list_ex Q xs \<longleftrightarrow> filter Q xs \<noteq> []"
  by (induction xs) auto

lemma update_user_cases:
  assumes "tables_ok P t"
  obtains (bad_id) "sql_update_user P (fromDomainUser u) t = (Inl invalid_uuid, t)"
  | (rejected) e where "pg_reject_user P (fromDomainUser u) = Some e"
      "sql_update_user P (fromDomainUser u) t = (Inl e, t)"
  | (missing) i where "pg_uuid P (u_ID u) = Some i" "users_view t i = None"
      "sql_update_user P (fromDomainUser u) t = (Inr (Affected (Inr 0)), t)"
  | (conflict) i old where "pg_uuid P (u_ID u) = Some i" "users_view t i = Some old"
      "email_taken (users_view t) i (u_Email u)"
      "sql_update_user P (fromDomainUser u) t = (Inl unique_violation, t)"
  | (updated) i old t' n where "pg_uuid P (u_ID u) = Some i" "users_view t i = Some old"
      "\<not> email_taken (users_view t) i (u_Email u)"
      "users_view t' = (users_view t)(i \<mapsto> updated P u old)"
      "sql_update_user P (fromDomainUser u) t = (Inr (Affected (Inr (Suc n))), t')"
proof (cases "pg_uuid P (u_ID u)")
  case None
  then show ?thesis using bad_id by (simp add: sql_update_user_def)
next
  case (Some i)
  note id = this
  show ?thesis
  proof (cases "pg_reject_user P (fromDomainUser u)")
    case (Some e)
    then show ?thesis using rejected id by (simp add: sql_update_user_def)
  next
    case None
    show ?thesis
    proof (cases "filter (\<lambda>x. db_ID x = i) (t_users t)")
      case Nil
      then have "users_view t i = None" by (simp add: users_view_filter)
      then show ?thesis using missing [of i] id None Nil
        by (simp add: sql_update_user_def list_ex_filter)
    next
      case (Cons d ds)
      then have v: "users_view t i = Some (user_of d)" by (simp add: users_view_filter)
      show ?thesis
      proof (cases "email_taken (users_view t) i (u_Email u)")
        case True
        then show ?thesis using conflict [of i "user_of d"] id None Cons v
          email_taken_rows [OF assms, of i "u_Email u"]
          by (simp add: sql_update_user_def list_ex_filter [of "\<lambda>x. db_ID x = i"])
      next
        case False
        let ?g = "\<lambda>x. if db_ID x = i
            then x\<lparr>db_Name := u_Name u, db_Email := email_value (u_Email u), db_Active := u_Active u,
                   db_UpdatedAt := pg_ts P (u_UpdatedAt u)\<rparr> else x"
        have "user_of (?g d) = updated P u (user_of d)"
          using filter_ConsD(2) [OF Cons] by (cases "u_Email u") (simp add: user_of_def updated_def)
        then have "users_view (t\<lparr>t_users := map ?g (t_users t)\<rparr>)
            = (users_view t)(i \<mapsto> updated P u (user_of d))"
          using users_view_update_row [of ?g i t d ds] Cons by simp
        then show ?thesis using updated [of i "user_of d" _ "length ds"] id None Cons v False
          email_taken_rows [OF assms, of i "u_Email u"]
          by (simp add: sql_update_user_def list_ex_filter [of "\<lambda>x. db_ID x = i"])
      qed
    qed
  qed
qed

lemma update_step:
  assumes ok: "tables_ok P t" and rej: "\<And>e. pg_reject_user P (fromDomainUser u) = Some e \<Longrightarrow> infra_error e"
    and step: "sql_step P (UpdateUser (fromDomainUser u)) t r t'"
  shows "update_spec P u (users_view t) (write_result what (Sentinel ErrUserNotFound) r) (users_view t')"
  by (rule update_user_cases [OF ok, of u];
      use step rej in \<open>fastforce simp: sql_step_def update_spec_def\<close>)

lemma soft_delete_cases:
  assumes "tables_ok P t"
  obtains (bad_id) "sql_soft_delete_user P now s t = (Inl invalid_uuid, t)"
  | (missing) i t' where "pg_uuid P s = Some i" "\<And>old. users_view t i = Some old \<Longrightarrow> \<not> u_Active old"
      "users_view t' = users_view t"
      "sql_soft_delete_user P now s t = (Inr (Affected (Inr 0)), t')"
  | (deleted) i old t' n where "pg_uuid P s = Some i" "users_view t i = Some old" "u_Active old"
      "users_view t' = (users_view t)(i \<mapsto> old\<lparr>u_Active := False, u_UpdatedAt := pg_ts P now\<rparr>)"
      "sql_soft_delete_user P now s t = (Inr (Affected (Inr (Suc n))), t')"
proof (cases "pg_uuid P s")
  case None
  then show ?thesis using bad_id by (simp add: sql_soft_delete_user_def)
next
  case (Some i)
  let ?g = "\<lambda>x. if db_ID x = i \<and> db_Active x
      then x\<lparr>db_Active := False, db_UpdatedAt := pg_ts P now\<rparr> else x"
  let ?t = "t\<lparr>t_users := map ?g (t_users t)\<rparr>"
  show ?thesis
  proof (cases "filter (\<lambda>x. db_ID x = i \<and> db_Active x) (t_users t)")
    case Nil
    then have "map ?g (t_users t) = t_users t"
      by (intro map_idI) (auto simp: filter_empty_conv)
    then have "users_view ?t = users_view t" by simp
    moreover have "\<not> u_Active old" if "users_view t i = Some old" for old
      using that Nil users_view_Some [OF assms, of i old] by (auto simp: filter_empty_conv)
    ultimately show ?thesis using missing [of i ?t] Some Nil by (simp add: sql_soft_delete_user_def)
  next
    case (Cons d ds)
    note d = filter_ConsD [OF Cons]
    have v: "users_view t i = Some (user_of d)" using d users_view_Some [OF assms] by blast
    obtain e es where f: "filter (\<lambda>x. db_ID x = i) (t_users t) = e # es"
      using d by (cases "filter (\<lambda>x. db_ID x = i) (t_users t)") (auto simp: filter_empty_conv)
    then have "users_view t i = Some (user_of e)" by (simp add: users_view_filter)
    then have eq: "user_of e = user_of d" using v by simp
    then have "db_Active e" using d(2) by (metis user_of_sel(2))
    moreover have "db_ID e = i" using filter_ConsD(2) [OF f] .
    ultimately have "user_of (?g e) = (user_of d)\<lparr>u_Active := False, u_UpdatedAt := pg_ts P now\<rparr>"
      unfolding eq [symmetric] by (simp add: user_of_def)
    then have "users_view ?t = (users_view t)(i \<mapsto> (user_of d)\<lparr>u_Active := False, u_UpdatedAt := pg_ts P now\<rparr>)"
      using users_view_update_row [of ?g i t e es] f by simp
    then show ?thesis using deleted [of i "user_of d" ?t "length ds"] v d Some Cons
      by (simp add: sql_soft_delete_user_def)
  qed
qed

lemma delete_step:
  assumes ok: "tables_ok P t" and step: "sql_step P (SoftDeleteUser (ID_String s)) t r t'"
  shows "delete_spec P s (users_view t) (write_result what (Sentinel ErrUserNotFound) r) (users_view t')"
proof -
  obtain now where now: "r = fst (sql_soft_delete_user P now s t) \<and> t' = snd (sql_soft_delete_user P now s t)
      \<or> (\<exists>e. r = Inl e \<and> infra_error e \<and> (t' = t \<or> t' = snd (sql_soft_delete_user P now s t)))"
    using step by (auto simp: sql_step_def ID_String_def)
  show ?thesis
    by (rule soft_delete_cases [OF ok, of now s]; use now in \<open>fastforce simp: delete_spec_def\<close>)
qed

lemma count_step:
  "sql_step P (CountUsers cs) t r t' \<Longrightarrow> t' = t \<and>
    ((\<exists>e. r = Inl e \<and> infra_error e) \<or> r = Inr (CountRow (gint (int (length (matching_users P cs t))))))"
  by (auto simp: sql_step_def)

lemma select_step:
  "sql_step P (SelectUsers cs l off) t r t' \<Longrightarrow> t' = t \<and>
    ((\<exists>e. r = Inl e \<and> infra_error e) \<or>
     0 \<le> sint off \<and> r = Inr (UserRows (take (nat (sint l)) (drop (nat (sint off))
       (pg_order_users P (matching_users P cs t))))))"
  by (auto simp: sql_step_def page_def split: if_splits)

lemma user_conditions_selected:
  "list_all (user_matches P r) (user_conditions f) \<longleftrightarrow> user_selected P f (user_of r)"
  by (simp add: user_conditions_def user_selected_def)

lemma user_selected_Normalize [simp]: "user_selected P (UserFilter_Normalize f) = user_selected P f"
  by (simp add: user_selected_def fun_eq_iff)

lemma matching_view:
  assumes "tables_ok P t" and "mset rs = mset (matching_users P (user_conditions f) t)"
  shows "distinct (map u_ID (map user_of rs))"
    "set (map user_of rs) = {u \<in> ran (users_view t). user_selected P f u}"
proof -
  have "distinct (map db_ID (matching_users P (user_conditions f) t))"
    using assms(1) by (simp add: matching_users_def tables_ok_def distinct_map_filter)
  then show "distinct (map u_ID (map user_of rs))"
    using assms(2) by (metis (no_types, lifting) list.map_comp map_cong mset_eq_imp_distinct_iff mset_map
        o_apply user_of_sel(1))
  have "set rs = set (matching_users P (user_conditions f) t)" using assms(2) by (rule mset_eq_setD)
  then show "set (map user_of rs) = {u \<in> ran (users_view t). user_selected P f u}"
    using users_view_Some [OF assms(1)]
    by (auto simp: matching_users_def user_conditions_selected ran_def)
qed

definition read_page ::
  "'w sqlx_db \<Rightarrow> sql_stmt \<Rightarrow> sql_stmt \<Rightarrow> (goerror + sql_answer \<Rightarrow> goerror + 'r list)
    \<Rightarrow> ('r \<Rightarrow> goerror + 'e) \<Rightarrow> (gint \<Rightarrow> 'e list \<Rightarrow> 'o) \<Rightarrow> ('w, goerror + 'o) prog" where
  "read_page h cst sst rows conv build =
     pbind (call (x_begin h)) (\<lambda>txErr.
      case txErr of
        Some e \<Rightarrow> Return (Inl (Wrapf ''beginning read transaction: '' e))
      | None \<Rightarrow>
      pbind (call (x_exec h cst)) (\<lambda>cres.
      case count_of cres of
        Inl countErr \<Rightarrow> fail_tx h (Inl countErr)
      | Inr tot \<Rightarrow>
      pbind (call (x_exec h sst)) (\<lambda>sres.
      case rows sres of
        Inl selectErr \<Rightarrow> fail_tx h (Inl selectErr)
      | Inr dbModels \<Rightarrow>
      pbind (call (x_commit h)) (\<lambda>commitErr.
      case commitErr of
        Some e \<Rightarrow> fail_tx h (Inl (Wrapf ''committing read transaction: '' e))
      | None \<Rightarrow>
      (case convert_all conv dbModels of
         Inl convertErr \<Rightarrow> fail_tx h (Inl convertErr)
       | Inr items \<Rightarrow> fail_tx h (Inr (build tot items)))))))"

lemma UserRepository_List_page:
  "UserRepository_List E r f0 =
    read_page (ur_reader r) (CountUsers (user_conditions (UserFilter_Normalize f0)))
      (SelectUsers (user_conditions (UserFilter_Normalize f0)) (uf_Limit (UserFilter_Normalize f0))
        (UserFilter_Offset (UserFilter_Normalize f0))) user_rows (toUser E)
      (\<lambda>tot us. \<lparr>ulr_Users = us, ulr_Total = tot, ulr_Page = uf_Page (UserFilter_Normalize f0),
         ulr_Limit = uf_Limit (UserFilter_Normalize f0)\<rparr>)"
  by (simp only: UserRepository_List_def read_page_def Let_def)

context sql_server
begin

text \<open>Both listings read a count and a page in one transaction.\<close>

lemma read_page_run:
  assumes run: "run (read_page h cst sst rows conv build) w = (l, w')"
    and count: "\<And>r t'. sql_step P cst (tbl w) r t' \<Longrightarrow>
      t' = tbl w \<and> ((\<exists>e. r = Inl e \<and> infra_error e) \<or> r = Inr (CountRow n))"
    and select: "\<And>r t'. sql_step P sst (tbl w) r t' \<Longrightarrow>
      t' = tbl w \<and> ((\<exists>e. r = Inl e \<and> infra_error e) \<or> C \<and> r = Inr ans)"
    and rows: "rows (Inr ans) = Inr xs" "\<And>e. rows (Inl e) = Inl e"
    and conv: "convert_all conv xs = Inr ys"
  shows "tbl w' = tbl w \<and> (C \<and> l = Inr (build n ys) \<or> (\<exists>e. l = Inl e \<and> infra_error e))"
proof -
  obtain b w1 where b: "x_begin h w = (b, w1)" by fastforce
  obtain r1 w2 where r1: "x_exec h cst w1 = (r1, w2)" by fastforce
  obtain r2 w3 where r2: "x_exec h sst w2 = (r2, w3)" by fastforce
  obtain c w4 where c: "x_commit h w3 = (c, w4)" by fastforce
  have t1: "tbl w1 = tbl w" "b = Some e \<Longrightarrow> infra_error e" for e using begin_law [of w] b by auto
  have t2: "tbl w2 = tbl w \<and> ((\<exists>e. r1 = Inl e \<and> infra_error e) \<or> r1 = Inr (CountRow n))"
    using count exec_law [of cst w1] r1 t1 by simp
  have t3: "tbl w3 = tbl w \<and> ((\<exists>e. r2 = Inl e \<and> infra_error e) \<or> C \<and> r2 = Inr ans)"
    using select exec_law [of sst w2] r2 t2 by simp
  have t4: "tbl w4 = tbl w" "c = Some e \<Longrightarrow> infra_error e" for e using commit_law [of w3] c t3 by auto
  note sim = read_page_def run_pbind fail_tx_def rollback_law
  show ?thesis
  proof (cases b)
    case (Some e)
    then show ?thesis using run b t1 by (auto simp: sim)
  next
    case None
    from t2 consider (err) e where "r1 = Inl e" "infra_error e" | (cnt) "r1 = Inr (CountRow n)" by blast
    then show ?thesis
    proof cases
      case err
      then show ?thesis using run b None r1 t2 by (auto simp: sim)
    next
      case cnt
      from t3 consider (err2) e where "r2 = Inl e" "infra_error e" | (page) C "r2 = Inr ans" by blast
      then show ?thesis
      proof cases
        case err2
        then show ?thesis using run b None r1 r2 cnt t3 rows by (auto simp: sim)
      next
        case page
        then show ?thesis using run b None r1 r2 c cnt t4 rows conv by (cases c) (auto simp: sim)
      qed
    qed
  qed
qed

lemma list_run:
  assumes ok: "store_ok E P (tbl w)" and R: "ur_reader R = h"
    and run: "run (UserRepository_List E R f0) w = (l, w')"
  shows "tbl w' = tbl w \<and> list_spec P f0 (users_view (tbl w)) l"
proof -
  let ?f = "UserFilter_Normalize f0" and ?t = "tbl w"
  let ?cs = "user_conditions ?f" and ?l = "nat (sint (uf_Limit ?f))" and ?o = "nat (sint (UserFilter_Offset ?f))"
  let ?rows = "pg_order_users P (matching_users P ?cs ?t)"
  have order: "mset ?rows = mset (matching_users P ?cs ?t)" "sorted (map (\<lambda>r. - db_CreatedAt r) ?rows)"
    using order_users_law by blast+
  have tok: "tables_ok P ?t" using ok by (simp add: store_ok_def)
  have conv: "convert_all (toUser E) (take ?l (drop ?o ?rows)) = Inr (map user_of (take ?l (drop ?o ?rows)))"
  proof (rule convert_all_map)
    fix x assume "x \<in> set (take ?l (drop ?o ?rows))"
    then have "x \<in> set ?rows" by (meson in_set_dropD in_set_takeD)
    then have "x \<in> set (t_users ?t)" using mset_eq_setD [OF order(1)] by (auto simp: matching_users_def)
    then show "toUser E x = Inr (user_of x)" using ok by (intro toUser_ok) (auto simp: store_ok_def)
  qed
  have "tbl w' = ?t \<and> (0 \<le> sint (UserFilter_Offset ?f)
      \<and> l = Inr \<lparr>ulr_Users = map user_of (take ?l (drop ?o ?rows)),
          ulr_Total = gint (int (length (matching_users P ?cs ?t))), ulr_Page = uf_Page ?f, ulr_Limit = uf_Limit ?f\<rparr>
      \<or> (\<exists>e. l = Inl e \<and> infra_error e))"
    by (rule read_page_run [OF run [unfolded UserRepository_List_page R] count_step select_step _ _ conv]) simp_all
  moreover have "list_spec P f0 (users_view ?t) (Inr
      \<lparr>ulr_Users = map user_of (take ?l (drop ?o ?rows)),
       ulr_Total = gint (int (length (matching_users P ?cs ?t))),
       ulr_Page = uf_Page ?f, ulr_Limit = uf_Limit ?f\<rparr>)" if "0 \<le> sint (UserFilter_Offset ?f)"
    unfolding list_spec_def Let_def
    by (rule disjI1, rule exI [of _ "map user_of ?rows"])
      (use matching_view [OF tok order(1)] order that mset_eq_length [OF order(1)] in
        \<open>simp add: take_map drop_map o_def\<close>)
  moreover have "infra_error e \<Longrightarrow> list_spec P f0 (users_view ?t) (Inl e)" for e
    by (auto simp: list_spec_def Let_def)
  ultimately show ?thesis by blast
qed

end

text \<open>The refinement: writer and reader serve the same rows.\<close>

lemma postgres_user_store:
  assumes W: "sql_server P hw tbl" and R: "sql_server P hr tbl" and pg: "env_pg E P"
  shows "user_store E P (postgres_users E (NewUserRepository hw hr))
    (\<lambda>w. users_view (tbl w)) (\<lambda>w. store_ok E P (tbl w))"
proof -
  let ?r = "NewUserRepository hw hr"
  have sel: "ur_writer ?r = hw" "ur_reader ?r = hr" by (simp_all add: NewUserRepository_def)
  have pgok: "pg_ok P" using W by (simp add: sql_server_def)
  have rej: "pg_reject_user P (fromDomainUser u) = Some e \<Longrightarrow> infra_error e" for u e
    using W by (auto simp: sql_server_def)
  note stepW = sql_server.exec_law [OF W] and stepR = sql_server.exec_law [OF R]
  note keepW = store_ok_step [OF pgok pg _ _ stepW] and keepR = store_ok_step [OF pgok pg _ _ stepR]
  show ?thesis
  proof (unfold_locales, goal_cases)
    case (1 w i u)
    then show ?case using users_view_Some [of P "tbl w" i u]
      by (auto simp: store_ok_def tables_ok_def user_valid_def)
  next
    case (2 w u r w')
    then show ?case using keepW [of w "InsertUser (fromDomainUser u)"]
      create_step [OF _ rej stepW, of w u]
      by (auto simp: postgres_users_def run_UserRepository_Create sel user_valid_def store_ok_def)
  next
    case (3 w i f w')
    let ?q = "SelectUserByID (ID_String i)"
    have "w' = snd (x_exec hr ?q w)" using 3
      by (auto simp: postgres_users_def UserRepository_FindByID_def run_find_user sel split: prod.splits)
    then show ?case using 3 keepR [of w ?q] find_step [where s = i and R = ?r and w = w and f = f and w' = w', OF _ stepR]
      by (auto simp: postgres_users_def UserRepository_FindByID_def sel)
  next
    case (4 w e f w')
    let ?q = "SelectUserByEmail (Email_String e)"
    have "w' = snd (x_exec hr ?q w)" using 4
      by (auto simp: postgres_users_def UserRepository_FindByEmail_def run_find_user sel split: prod.splits)
    then show ?case using 4 keepR [of w ?q] find_email_step [where m = e and R = ?r and w = w and f = f and w' = w', OF _ stepR]
      by (auto simp: postgres_users_def UserRepository_FindByEmail_def sel)
  next
    case (5 w flt l w')
    then show ?case using sql_server.list_run [OF R, of E w ?r flt l w'] sel
      by (auto simp: postgres_users_def)
  next
    case (6 w u r w')
    then show ?case using keepW [of w "UpdateUser (fromDomainUser u)"]
      update_step [OF _ rej stepW, of w u]
      by (auto simp: postgres_users_def run_UserRepository_Update sel user_valid_def store_ok_def)
  next
    case (7 w i r w')
    then show ?case using keepW [of w "SoftDeleteUser (ID_String i)"]
      delete_step [OF _ stepW, of w i]
      by (auto simp: postgres_users_def run_UserRepository_Delete sel store_ok_def)
  qed
qed

end
