(* ===== verification/World.thy ===== *)
theory World
  imports UserStore
begin

text \<open>
  A concrete, executable world: one PostgreSQL server that can be made to fail, a clock, an ID
  source and a Redis server.  It interprets the contracts of the services the code calls, so they
  are satisfiable by a service that really stores what it is given, and it is where the witnesses
  of the properties evaluate the code.
\<close>

record world =
  w_tables :: tables
  w_clock :: time
  w_seq :: nat
  w_down :: "bool list"
  w_redis :: "(string \<times> string \<times> time option) list"
  w_redis_down :: bool

section \<open>Identifiers and addresses\<close>

definition hex_digits :: string where
  "hex_digits = ''0123456789abcdefABCDEF''"

definition uuid_text :: "string \<Rightarrow> bool" where
  "uuid_text s \<longleftrightarrow> length s = 36
     \<and> (\<forall>i\<in>set [0..<36]. if i \<in> {8, 13, 18, 23} then s ! i = CHR ''-'' else s ! i \<in> set hex_digits)"

definition uuid_canon :: "string \<Rightarrow> string option" where
  "uuid_canon s = (if uuid_text s then Some (map ascii_lower s) else None)"

definition seq_digit :: "nat \<Rightarrow> char" where
  "seq_digit n = hex_digits ! (n mod 16)"

definition mail_text :: "string \<Rightarrow> bool" where
  "mail_text s \<longleftrightarrow> CHR ''@'' \<in> set s \<and> hd s \<noteq> CHR ''@'' \<and> last s \<noteq> CHR ''@''"

definition world_env :: "world env" where
  "world_env =
     \<lparr>env_now = (\<lambda>w. (w_clock w, w)),
      env_uuid_v7 = (\<lambda>w. (''0190c2a4-0000-7000-8000-00000000000'' @ [seq_digit (w_seq w)],
                          w\<lparr>w_seq := w_seq w + 1\<rparr>)),
      env_uuid_ok = uuid_text,
      env_mail_ok = mail_text,
      env_rfc3339 = (\<lambda>t. ''2024-07-17T00:00:00Z'')\<rparr>"

section \<open>The database server\<close>

fun like :: "string \<Rightarrow> string \<Rightarrow> bool" where
  "like [] s = (s = [])"
| "like (p # ps) [] = (p = CHR ''%'' \<and> like ps [])"
| "like (p # ps) (c # cs) =
     (if p = CHR ''%'' then like ps (c # cs) \<or> like (p # ps) cs
      else (p = CHR ''_'' \<or> ascii_lower p = ascii_lower c) \<and> like ps cs)"

definition world_pg :: pg where
  "world_pg =
     \<lparr>pg_uuid = uuid_canon,
      pg_ilike = (\<lambda>s pat. like pat s),
      pg_ts = (\<lambda>t. (t + 500) div 1000 * 1000),
      pg_order_users = sort_key (\<lambda>r. - db_CreatedAt r),
      pg_order_roles = sort_key (\<lambda>r. - rdb_CreatedAt r),
      pg_reject_user = (\<lambda>r. if length (db_Name r) > 255
          then Some (PqError ''22001'' ''pq: value too long for type character varying(255)'') else None),
      pg_reject_role = (\<lambda>r. if length (rdb_Name r) > 255
          then Some (PqError ''22001'' ''pq: value too long for type character varying(255)'') else None)\<rparr>"

definition net_error :: goerror where
  "net_error = Opaque ''*net.OpError'' ''dial tcp: connection refused''"

text \<open>\<open>w_down\<close> is the schedule of the coming failures, one entry per statement.\<close>

definition world_exec :: "sql_stmt \<Rightarrow> world \<Rightarrow> (goerror + sql_answer) \<times> world" where
  "world_exec st w =
     (case w_down w of
        True # ds \<Rightarrow> (Inl net_error, w\<lparr>w_down := ds\<rparr>)
      | ds \<Rightarrow>
          (case sql_exec world_pg (w_clock w) st (w_tables w) of
             (r, t) \<Rightarrow> (r, w\<lparr>w_down := tl ds, w_tables := t\<rparr>)))"

definition world_db :: "world sqlx_db" where
  "world_db =
     \<lparr>x_exec = world_exec,
      x_begin = (\<lambda>w. (None, w)),
      x_commit = (\<lambda>w. (None, w)),
      x_rollback = (\<lambda>w. ((), w)),
      x_setpool = (\<lambda>c w. ((), w)),
      x_ping = (\<lambda>w. (if w_down w \<noteq> [] \<and> hd (w_down w) then Some net_error else None, w)),
      x_close = (\<lambda>w. (None, w))\<rparr>"

definition world_users :: "world user_repo" where
  "world_users = postgres_users world_env (NewUserRepository world_db world_db)"

definition world_ok :: "world \<Rightarrow> bool" where
  "world_ok w = store_ok world_env world_pg (w_tables w)"

definition world_view :: "world \<Rightarrow> user_map" where
  "world_view w = users_view (w_tables w)"

definition empty_world :: world where
  "empty_world =
     \<lparr>w_tables = \<lparr>t_users = [], t_roles = []\<rparr>, w_clock = 1721174400000000000, w_seq = 1,
      w_down = [], w_redis = [], w_redis_down = False\<rparr>"

definition ana_id :: string where
  "ana_id = ''0190c2a4-0000-7000-8000-000000000000''"

definition bob_id :: string where
  "bob_id = ''0190c2a4-0000-7000-8000-00000000000b''"

definition ana_row :: userDB where
  "ana_row =
     \<lparr>db_ID = ana_id, db_Name = ''Ana'', db_Email = ''ana@x.org'', db_Active = True,
      db_CreatedAt = 1000000, db_UpdatedAt = 1000000\<rparr>"

text \<open>A world with one user.\<close>

definition ana_world :: world where
  "ana_world = empty_world\<lparr>w_tables := \<lparr>t_users = [ana_row], t_roles = []\<rparr>\<rparr>"

section \<open>The contracts hold\<close>

lemma hex_lower: "c \<in> set hex_digits \<Longrightarrow> ascii_lower c \<in> set hex_digits"
proof -
  have "\<forall>c\<in>set hex_digits. ascii_lower c \<in> set hex_digits" by code_simp
  then show "c \<in> set hex_digits \<Longrightarrow> ascii_lower c \<in> set hex_digits" by blast
qed

lemma ascii_lower_dash: "ascii_lower CHR ''-'' = CHR ''-''"
  by code_simp

lemma uuid_text_lower: "uuid_text s \<Longrightarrow> uuid_text (map ascii_lower s)"
  using hex_lower by (auto simp: uuid_text_def ascii_lower_dash Ball_def)

lemma world_pg_ok: "pg_ok world_pg"
  by (auto simp: pg_ok_def world_pg_def uuid_canon_def uuid_text_lower
      split: if_splits)

lemma world_env_pg: "env_pg world_env world_pg"
  by (auto simp: env_pg_def world_env_def world_pg_def uuid_canon_def uuid_text_lower
      split: if_splits)

interpretation wdb: sql_server world_pg world_db w_tables
proof
  show "pg_ok world_pg" by (rule world_pg_ok)
  fix st w
  show "sql_step world_pg st (w_tables w) (fst (x_exec world_db st w)) (w_tables (snd (x_exec world_db st w)))"
    unfolding sql_step_def
    by (rule exI [of _ "w_clock w"])
      (auto simp: world_db_def world_exec_def net_error_def split: list.split prod.split bool.split)
qed (auto simp: world_pg_def world_db_def o_def split: if_splits)

interpretation wusers: user_store world_env world_pg world_users world_view world_ok
  unfolding world_users_def world_view_def world_ok_def
  by (rule postgres_user_store [OF wdb.sql_server_axioms wdb.sql_server_axioms world_env_pg])

lemma empty_world_ok: "world_ok empty_world"
  by (simp add: world_ok_def store_ok_def tables_ok_def empty_world_def)

lemma uuid_known [simp]:
  "uuid_text ana_id" "uuid_text bob_id" "uuid_canon ana_id = Some ana_id"
  "uuid_canon bob_id = Some bob_id" "bob_id \<noteq> ana_id"
  by code_simp+

lemma mail_known [simp]: "mail_text ''ana@x.org''" "mail_text ''bob@x.org''" "\<not> mail_text ''nobody''"
  by code_simp+

lemma ana_world_ok: "store_ok world_env world_pg (w_tables ana_world)"
  by (simp add: store_ok_def tables_ok_def ana_world_def ana_row_def world_pg_def world_env_def)

lemma ana_view: "users_view (w_tables ana_world) = [ana_id \<mapsto> user_of ana_row]"
  by (simp add: users_view_def ana_world_def ana_row_def)

lemma empty_view: "users_view (w_tables empty_world) = Map.empty"
  by (simp add: users_view_def empty_world_def)

definition new_id :: string where
  "new_id = ''0190c2a4-0000-7000-8000-000000000001''"

lemma new_id_known [simp]:
  "uuid_text new_id" "uuid_canon new_id = Some new_id" "new_id \<noteq> ana_id" "new_id \<noteq> bob_id"
  by code_simp+

lemma world_new_id: "fst (env_uuid_v7 world_env ana_world) = new_id"
  by (simp add: world_env_def ana_world_def empty_world_def new_id_def seq_digit_def hex_digits_def)

lemma world_fields [simp]:
  "pg_uuid world_pg = uuid_canon" "env_uuid_ok world_env = uuid_text" "env_mail_ok world_env = mail_text"
  by (simp_all add: world_pg_def world_env_def)

end
