(* ===== verification/Cache.thy ===== *)
theory Cache
  imports World
begin

text \<open>
  Caching (\<open>pkg/cache\<close>, \<open>pkg/cache/redisclient\<close>): the cache interface of the use cases, its Redis
  implementation over a go-redis client, the client's construction, and the single-flight group.
  The go-redis client and \<open>encoding/json\<close> of the stored type are parameters.
\<close>

section \<open>The Redis client library\<close>

record 'w redis =
  rd_Get :: "string \<Rightarrow> 'w \<Rightarrow> (goerror + string) \<times> 'w"
  rd_Set :: "string \<Rightarrow> string \<Rightarrow> duration \<Rightarrow> 'w \<Rightarrow> goerror option \<times> 'w"
  rd_SetNX :: "string \<Rightarrow> string \<Rightarrow> duration \<Rightarrow> 'w \<Rightarrow> (goerror + bool) \<times> 'w"
  rd_Del :: "string \<Rightarrow> 'w \<Rightarrow> goerror option \<times> 'w"
  rd_Ping :: "'w \<Rightarrow> goerror option \<times> 'w"
  rd_Close :: "'w \<Rightarrow> goerror option \<times> 'w"

text \<open>\<open>json.Marshal\<close> and \<open>json.Unmarshal\<close> at one type.\<close>

record 'v codec =
  cd_marshal :: "'v \<Rightarrow> goerror + string"
  cd_unmarshal :: "string \<Rightarrow> goerror + 'v"

section \<open>pkg/cache\<close>

text \<open>\<open>cache.Cache\<close> at the type of the value the caller passes as \<open>dest\<close>.\<close>

record ('w, 'v) cache =
  ca_Get :: "string \<Rightarrow> ('w, goerror + 'v) prog"
  ca_Set :: "string \<Rightarrow> 'v \<Rightarrow> ('w, goerror option) prog"
  ca_Delete :: "string \<Rightarrow> ('w, goerror option) prog"
  ca_Ping :: "('w, goerror option) prog"
  ca_Close :: "('w, goerror option) prog"

text \<open>
  \<open>FlightGroup.Do\<close>: the function runs once for the concurrent callers of a key; the answer says
  whether it was shared.  What travels through it is an \<open>any\<close>.
\<close>

datatype flight_val = FlightUser User | FlightOther

type_synonym 'w flight_group =
  "string \<Rightarrow> ('w, goerror + flight_val) prog \<Rightarrow> ('w, (goerror + flight_val) \<times> bool) prog"

definition FlightGroup_Do ::
  "'w flight_group \<Rightarrow> string \<Rightarrow> ('w, goerror + flight_val) prog
    \<Rightarrow> ('w, (goerror + flight_val) \<times> bool) prog" where
  "FlightGroup_Do fg key fn = fg key fn"

section \<open>pkg/cache/redisclient\<close>

record RedisConfig =
  rc_URL :: string
  rc_TTL :: string
  rc_Enabled :: bool
  rc_PoolSize :: gint
  rc_MinIdleConns :: gint
  rc_DialTimeout :: duration
  rc_ReadTimeout :: duration
  rc_WriteTimeout :: duration

record redis_options =
  ro_Addr :: string
  ro_PoolSize :: gint
  ro_MinIdleConns :: gint
  ro_DialTimeout :: duration
  ro_ReadTimeout :: duration
  ro_WriteTimeout :: duration

record 'w RedisClient =
  rcl_client :: "'w redis"
  rcl_ttl :: duration

text \<open>
  \<open>parse_url\<close> is \<open>redis.ParseURL\<close>, \<open>new_client\<close> is \<open>redis.NewClient\<close>, \<open>parse_duration\<close> is
  \<open>time.ParseDuration\<close>.  A disabled cache is a nil client without an error.
\<close>

definition NewRedisClient ::
  "(string \<Rightarrow> goerror + redis_options) \<Rightarrow> (redis_options \<Rightarrow> 'w redis)
    \<Rightarrow> (string \<Rightarrow> goerror + duration) \<Rightarrow> RedisConfig
    \<Rightarrow> ('w, goerror + 'w RedisClient option) prog" where
  "NewRedisClient parse_url new_client parse_duration cfg =
     (if \<not> rc_Enabled cfg then Return (Inr None)
      else
        (case parse_url (rc_URL cfg) of
           Inl parseErr \<Rightarrow> Return (Inl parseErr)
         | Inr o0 \<Rightarrow>
             (let o1 = (if sint (rc_PoolSize cfg) > 0 then o0\<lparr>ro_PoolSize := rc_PoolSize cfg\<rparr> else o0);
                  o2 = (if sint (rc_MinIdleConns cfg) > 0
                        then o1\<lparr>ro_MinIdleConns := rc_MinIdleConns cfg\<rparr> else o1);
                  o3 = (if rc_DialTimeout cfg > 0 then o2\<lparr>ro_DialTimeout := rc_DialTimeout cfg\<rparr> else o2);
                  o4 = (if rc_ReadTimeout cfg > 0 then o3\<lparr>ro_ReadTimeout := rc_ReadTimeout cfg\<rparr> else o3);
                  o5 = (if rc_WriteTimeout cfg > 0 then o4\<lparr>ro_WriteTimeout := rc_WriteTimeout cfg\<rparr> else o4);
                  client = new_client o5
              in
              pbind (call (rd_Ping client)) (\<lambda>pingErr.
              case pingErr of
                Some e \<Rightarrow> Return (Inl e)
              | None \<Rightarrow>
                  (let ttl = (case parse_duration (rc_TTL cfg) of
                                Inl _ \<Rightarrow> 5 * 60 * 10 ^ 9
                              | Inr d \<Rightarrow> d)
                   in Return (Inr (Some \<lparr>rcl_client = client, rcl_ttl = ttl\<rparr>)))))))"

text \<open>Every operation accepts a nil client.\<close>

definition RedisClient_Get ::
  "'v codec \<Rightarrow> 'w RedisClient option \<Rightarrow> string \<Rightarrow> ('w, goerror + 'v) prog" where
  "RedisClient_Get cd r key =
     (case r of
        None \<Rightarrow> Return (Inl (Sentinel ErrCacheMiss))
      | Some c \<Rightarrow>
          pbind (call (rd_Get (rcl_client c) key)) (\<lambda>res.
          case res of
            Inl getErr \<Rightarrow>
              (if errors_Is getErr RedisNil then Return (Inl (Sentinel ErrCacheMiss))
               else Return (Inl getErr))
          | Inr val \<Rightarrow> Return (cd_unmarshal cd val)))"

definition RedisClient_Set ::
  "'v codec \<Rightarrow> 'w RedisClient option \<Rightarrow> string \<Rightarrow> 'v \<Rightarrow> ('w, goerror option) prog" where
  "RedisClient_Set cd r key v =
     (case r of
        None \<Rightarrow> Return None
      | Some c \<Rightarrow>
          (case cd_marshal cd v of
             Inl marshalErr \<Rightarrow> Return (Some marshalErr)
           | Inr data \<Rightarrow> call (rd_Set (rcl_client c) key data (rcl_ttl c))))"

definition RedisClient_Delete :: "'w RedisClient option \<Rightarrow> string \<Rightarrow> ('w, goerror option) prog" where
  "RedisClient_Delete r key =
     (case r of None \<Rightarrow> Return None | Some c \<Rightarrow> call (rd_Del (rcl_client c) key))"

definition RedisClient_Close :: "'w RedisClient option \<Rightarrow> ('w, goerror option) prog" where
  "RedisClient_Close r =
     (case r of None \<Rightarrow> Return None | Some c \<Rightarrow> call (rd_Close (rcl_client c)))"

definition RedisClient_Ping :: "'w RedisClient option \<Rightarrow> ('w, goerror option) prog" where
  "RedisClient_Ping r =
     (case r of None \<Rightarrow> Return None | Some c \<Rightarrow> call (rd_Ping (rcl_client c)))"

definition UnderlyingClient :: "'w RedisClient option \<Rightarrow> 'w redis option" where
  "UnderlyingClient r = map_option rcl_client r"

definition redis_cache :: "'v codec \<Rightarrow> 'w RedisClient option \<Rightarrow> ('w, 'v) cache" where
  "redis_cache cd r =
     \<lparr>ca_Get = RedisClient_Get cd r, ca_Set = RedisClient_Set cd r,
      ca_Delete = RedisClient_Delete r, ca_Ping = RedisClient_Ping r,
      ca_Close = RedisClient_Close r\<rparr>"

section \<open>The contract of a Redis server\<close>

text \<open>
  \<open>kv\<close> is what the server holds.  Any entry may expire before an operation (\<open>m' \<subseteq>\<^sub>m m\<close>), and an
  operation that reports an error may or may not have been carried out.
\<close>

definition redis_write ::
  "(string \<Rightarrow> string option) \<Rightarrow> (string \<Rightarrow> string option) \<Rightarrow> goerror option
    \<Rightarrow> (string \<Rightarrow> string option) \<Rightarrow> bool" where
  "redis_write m target err m' \<longleftrightarrow>
     m' \<subseteq>\<^sub>m target \<or> (\<exists>e. err = Some e \<and> opaque_error e \<and> m' \<subseteq>\<^sub>m m)"

locale redis_server =
  fixes R :: "'w redis" and kv :: "'w \<Rightarrow> string \<Rightarrow> string option"
  assumes get_law: "rd_Get R k w = (r, w') \<Longrightarrow> kv w' \<subseteq>\<^sub>m kv w \<and>
        (case r of
           Inr v \<Rightarrow> kv w k = Some v
         | Inl e \<Rightarrow> e = Sentinel RedisNil \<and> kv w' k = None \<or> opaque_error e)"
    and set_law: "rd_Set R k v d w = (err, w') \<Longrightarrow> redis_write (kv w) ((kv w)(k \<mapsto> v)) err (kv w')"
    and setnx_law: "rd_SetNX R k v d w = (b, w') \<Longrightarrow>
        (case b of
           Inr True \<Rightarrow> kv w' \<subseteq>\<^sub>m (kv w)(k \<mapsto> v)
         | Inr False \<Rightarrow> kv w k \<noteq> None \<and> kv w' \<subseteq>\<^sub>m kv w
         | Inl e \<Rightarrow> opaque_error e \<and> (kv w' \<subseteq>\<^sub>m kv w \<or> kv w' \<subseteq>\<^sub>m (kv w)(k \<mapsto> v)))"
    and del_law: "rd_Del R k w = (err, w') \<Longrightarrow> redis_write (kv w) ((kv w)(k := None)) err (kv w')"

text \<open>A codec that reads back what it wrote.\<close>

definition codec_ok :: "'v codec \<Rightarrow> bool" where
  "codec_ok cd \<longleftrightarrow> (\<forall>v s. cd_marshal cd v = Inr s \<longrightarrow> cd_unmarshal cd s = Inr v)"

section \<open>The concrete server\<close>

definition live :: "time \<Rightarrow> string \<times> string \<times> time option \<Rightarrow> bool" where
  "live now e = (case snd (snd e) of None \<Rightarrow> True | Some x \<Rightarrow> now < x)"

definition world_kv :: "world \<Rightarrow> string \<Rightarrow> string option" where
  "world_kv w = map_of (map (\<lambda>(k, v, x). (k, v)) (filter (live (w_clock w)) (w_redis w)))"

definition redis_error :: goerror where
  "redis_error = Opaque ''*net.OpError'' ''dial tcp: redis refused''"

definition world_redis :: "world redis" where
  "world_redis =
     \<lparr>rd_Get = (\<lambda>k w. if w_redis_down w then (Inl redis_error, w)
        else ((case world_kv w k of None \<Rightarrow> Inl (Sentinel RedisNil) | Some v \<Rightarrow> Inr v), w)),
      rd_Set = (\<lambda>k v d w. if w_redis_down w then (Some redis_error, w)
        else (None, w\<lparr>w_redis := (k, v, if d = 0 then None else Some (w_clock w + d))
               # filter (\<lambda>e. fst e \<noteq> k) (w_redis w)\<rparr>)),
      rd_SetNX = (\<lambda>k v d w. if w_redis_down w then (Inl redis_error, w)
        else if world_kv w k \<noteq> None then (Inr False, w)
        else (Inr True, w\<lparr>w_redis := (k, v, if d = 0 then None else Some (w_clock w + d))
               # filter (\<lambda>e. fst e \<noteq> k) (w_redis w)\<rparr>)),
      rd_Del = (\<lambda>k w. if w_redis_down w then (Some redis_error, w)
        else (None, w\<lparr>w_redis := filter (\<lambda>e. fst e \<noteq> k) (w_redis w)\<rparr>)),
      rd_Ping = (\<lambda>w. (if w_redis_down w then Some redis_error else None, w)),
      rd_Close = (\<lambda>w. (None, w))\<rparr>"

lemma world_kv_filter:
  "map_of (map (\<lambda>(k, v, x). (k, v)) (filter (\<lambda>e. fst e \<noteq> k \<and> P e) xs))
    = (map_of (map (\<lambda>(k, v, x). (k, v)) (filter P xs)))(k := None)"
  by (induction xs) (auto simp: fun_eq_iff)

lemma world_kv_del:
  "world_kv (w\<lparr>w_redis := filter (\<lambda>e. fst e \<noteq> k) (w_redis w)\<rparr>) = (world_kv w)(k := None)"
  by (simp add: world_kv_def world_kv_filter)

lemma world_kv_put:
  "world_kv (w\<lparr>w_redis := (k, v, x) # filter (\<lambda>e. fst e \<noteq> k) (w_redis w)\<rparr>)
    = (if live (w_clock w) (k, v, x) then (world_kv w)(k \<mapsto> v) else (world_kv w)(k := None))"
  by (simp add: world_kv_def world_kv_filter fun_upd_def [symmetric] del: fun_upd_apply)
    (simp add: fun_eq_iff)?

lemma opaque_redis_error [simp]: "opaque_error redis_error"
  by (simp add: redis_error_def)

lemma map_le_upd_None: "m(k := None) \<subseteq>\<^sub>m m(k \<mapsto> v)"
  by (simp add: map_le_def)

interpretation wredis: redis_server world_redis world_kv
proof
  fix k w r w'
  assume "rd_Get world_redis k w = (r, w')"
  then show "world_kv w' \<subseteq>\<^sub>m world_kv w \<and>
      (case r of Inr v \<Rightarrow> world_kv w k = Some v
       | Inl e \<Rightarrow> e = Sentinel RedisNil \<and> world_kv w' k = None \<or> opaque_error e)"
    by (auto simp: world_redis_def split: if_splits option.splits)
qed (auto simp: world_redis_def redis_write_def world_kv_put world_kv_del map_le_upd_None
      split: if_splits)

section \<open>The contract of a cache\<close>

text \<open>
  What a use case may rely on: a hit is what is stored, a write stores the value or nothing, a
  deletion that reports success removed the entry.
\<close>

locale cache_store =
  fixes C :: "('w, 'v) cache" and cmap :: "'w \<Rightarrow> string \<Rightarrow> 'v option"
  assumes cget_law: "run (ca_Get C k) w = (r, w') \<Longrightarrow>
          cmap w' \<subseteq>\<^sub>m cmap w \<and> (\<forall>v. r = Inr v \<longrightarrow> cmap w k = Some v)"
    and cset_law: "run (ca_Set C k v) w = (err, w') \<Longrightarrow>
          cmap w' \<subseteq>\<^sub>m (cmap w)(k \<mapsto> v) \<or> cmap w' \<subseteq>\<^sub>m cmap w"
    and cdel_law: "run (ca_Delete C k) w = (err, w') \<Longrightarrow>
          cmap w' \<subseteq>\<^sub>m cmap w \<and> (err = None \<longrightarrow> cmap w' k = None)"

definition cached :: "'v codec \<Rightarrow> (string \<Rightarrow> string option) \<Rightarrow> string \<Rightarrow> 'v option" where
  "cached cd m k =
     (case m k of None \<Rightarrow> None | Some s \<Rightarrow> (case cd_unmarshal cd s of Inl _ \<Rightarrow> None | Inr v \<Rightarrow> Some v))"

lemma cached_mono: "m \<subseteq>\<^sub>m m' \<Longrightarrow> cached cd m \<subseteq>\<^sub>m cached cd m'"
  by (force simp: cached_def map_le_def dom_def split: option.splits sum.splits)

lemma cached_upd: "cd_unmarshal cd s = Inr v \<Longrightarrow> cached cd (m(k \<mapsto> s)) = (cached cd m)(k \<mapsto> v)"
  by (auto simp: cached_def fun_eq_iff)

lemma cached_del: "cached cd (m(k := None)) = (cached cd m)(k := None)"
  by (auto simp: cached_def fun_eq_iff)

lemma map_le_delD: "m \<subseteq>\<^sub>m m'(k := None) \<Longrightarrow> m \<subseteq>\<^sub>m m' \<and> m k = None"
proof -
  assume h: "m \<subseteq>\<^sub>m m'(k := None)"
  then have "k \<notin> dom m" by (metis domIff fun_upd_same map_le_def)
  moreover have "m a = m' a" if "a \<in> dom m" for a
    using h that calculation by (metis fun_upd_other map_le_def)
  ultimately show ?thesis by (simp add: map_le_def domIff)
qed

text \<open>The Redis client satisfies it, and so does the nil client of a disabled cache.\<close>

lemma redis_cache_store:
  assumes "redis_server (rcl_client c) kv" and "codec_ok cd"
  shows "cache_store (redis_cache cd (Some c)) (\<lambda>w. cached cd (kv w))"
proof (unfold_locales, goal_cases)
  case (1 k w r w')
  obtain g w1 where g: "rd_Get (rcl_client c) k w = (g, w1)" by fastforce
  from redis_server.get_law [OF assms(1) g] have "kv w1 \<subseteq>\<^sub>m kv w" "\<And>v. g = Inr v \<Longrightarrow> kv w k = Some v"
    by auto
  then show ?case using 1 g cached_mono [of "kv w1" "kv w" cd]
    by (auto simp: redis_cache_def RedisClient_Get_def run_pbind cached_def split: sum.splits if_splits)
next
  case (2 k v w err w')
  show ?case
  proof (cases "cd_marshal cd v")
    case (Inl e)
    then show ?thesis using 2 by (simp add: redis_cache_def RedisClient_Set_def)
  next
    case (Inr s)
    then have "rd_Set (rcl_client c) k s (rcl_ttl c) w = (err, w')"
      using 2 by (simp add: redis_cache_def RedisClient_Set_def)
    from redis_server.set_law [OF assms(1) this]
    have "kv w' \<subseteq>\<^sub>m (kv w)(k \<mapsto> s) \<or> kv w' \<subseteq>\<^sub>m kv w" by (auto simp: redis_write_def)
    moreover have "cached cd ((kv w)(k \<mapsto> s)) = (cached cd (kv w))(k \<mapsto> v)"
      using assms(2) Inr by (intro cached_upd) (simp add: codec_ok_def)
    ultimately show ?thesis
      using cached_mono [of "kv w'" "(kv w)(k \<mapsto> s)" cd] cached_mono [of "kv w'" "kv w" cd] by auto
  qed
next
  case (3 k w err w')
  then have d: "rd_Del (rcl_client c) k w = (err, w')"
    by (simp add: redis_cache_def RedisClient_Delete_def)
  from redis_server.del_law [OF assms(1) d]
  have "kv w' \<subseteq>\<^sub>m (kv w)(k := None) \<or> (err \<noteq> None \<and> kv w' \<subseteq>\<^sub>m kv w)" by (auto simp: redis_write_def)
  then show ?case
    using cached_mono [of "kv w'" "(kv w)(k := None)" cd] cached_mono [of "kv w'" "kv w" cd]
      map_le_delD [of "cached cd (kv w')" "cached cd (kv w)" k]
    by (auto simp: cached_del)
qed

lemma nil_cache_store: "cache_store (redis_cache cd None) (\<lambda>w k. None)"
  by unfold_locales
    (auto simp: redis_cache_def RedisClient_Get_def RedisClient_Set_def RedisClient_Delete_def)

end
