(* ===== verification/Telemetry.thy ===== *)
theory Telemetry
  imports AppErrors
begin

text \<open>
  Observability (\<open>pkg/telemetry\<close>, \<open>internal/infrastructure/telemetry\<close>,
  \<open>internal/usecases/shared\<close>): spans and the helpers that mark them, span names, the Apdex
  counters of HTTP requests, the business counters, and the routing of expected errors.
\<close>

section \<open>Spans\<close>

text \<open>
  What a span records: its name, its status (\<open>None\<close> is Unset, \<open>Some m\<close> is Error with description
  \<open>m\<close>), its attributes and its events, both in the order they were added.  A nil span is \<open>None\<close>.
\<close>

datatype span_event =
    Event string "(string \<times> goany) list"
  | Exception goerror "(string \<times> goany) list"

record span =
  sp_name :: string
  sp_status :: "string option"
  sp_attrs :: "(string \<times> goany) list"
  sp_events :: "span_event list"

definition new_span :: "string \<Rightarrow> span" where
  "new_span n = \<lparr>sp_name = n, sp_status = None, sp_attrs = [], sp_events = []\<rparr>"

definition FailSpan :: "span option \<Rightarrow> goerror \<Rightarrow> string \<Rightarrow> span option" where
  "FailSpan span err msg =
     (case span of
        None \<Rightarrow> None
      | Some s \<Rightarrow>
          Some (s\<lparr>sp_status := Some msg,
                  sp_events := sp_events s
                    @ [Exception err [(''error.type'', AString (err_type err))]]\<rparr>))"

definition WarnSpan :: "span option \<Rightarrow> string \<Rightarrow> string \<Rightarrow> span option" where
  "WarnSpan span key val =
     (case span of
        None \<Rightarrow> None
      | Some s \<Rightarrow> Some (s\<lparr>sp_attrs := sp_attrs s @ [(key, AString val)]\<rparr>))"

definition RecordEvent :: "span option \<Rightarrow> string \<Rightarrow> (string \<times> goany) list \<Rightarrow> span option" where
  "RecordEvent span name attrs =
     (case span of
        None \<Rightarrow> None
      | Some s \<Rightarrow> Some (s\<lparr>sp_events := sp_events s @ [Event name attrs]\<rparr>))"

definition SetAttributes :: "span option \<Rightarrow> (string \<times> goany) list \<Rightarrow> span option" where
  "SetAttributes span attrs = map_option (\<lambda>s. s\<lparr>sp_attrs := sp_attrs s @ attrs\<rparr>) span"

section \<open>Routing of expected errors\<close>

definition AttrKeyAppResult :: string where "AttrKeyAppResult = ''app.result''"
definition AttrKeyAppValidationError :: string where
  "AttrKeyAppValidationError = ''app.validation_error''"

record ExpectedError =
  ee_Err :: sentinel
  ee_AttrKey :: string
  ee_AttrValue :: string

fun find_expected :: "goerror \<Rightarrow> ExpectedError list \<Rightarrow> ExpectedError option" where
  "find_expected err [] = None"
| "find_expected err (e # es) = (if errors_Is err (ee_Err e) then Some e else find_expected err es)"

definition ClassifyError ::
  "span option \<Rightarrow> goerror option \<Rightarrow> ExpectedError list \<Rightarrow> string \<Rightarrow> span option" where
  "ClassifyError span oerr expected contextMsg =
     (case oerr of
        None \<Rightarrow> span
      | Some err \<Rightarrow>
          (case find_expected err expected of
             Some e \<Rightarrow>
               WarnSpan span (ee_AttrKey e)
                 (if ee_AttrValue e = [] then err_text err else ee_AttrValue e)
           | None \<Rightarrow> FailSpan span err contextMsg))"

lemma find_expected_iff: "find_expected err es = None \<longleftrightarrow> (\<forall>e\<in>set es. \<not> errors_Is err (ee_Err e))"
  by (induction es) auto

lemma find_expected_Some: "find_expected err es = Some e \<Longrightarrow> e \<in> set es \<and> errors_Is err (ee_Err e)"
  by (induction es) (auto split: if_splits)

text \<open>The span is failed by an error that no expected sentinel matches, and by nothing else.\<close>

lemma ClassifyError_status:
  assumes "sp_status s = None"
  shows "\<exists>s'. ClassifyError (Some s) oerr es msg = Some s'
    \<and> (sp_status s' = None \<longleftrightarrow>
         (case oerr of None \<Rightarrow> True | Some e \<Rightarrow> (\<exists>x\<in>set es. errors_Is e (ee_Err x))))"
  using assms find_expected_iff [of _ es]
  by (auto dest: find_expected_Some simp: ClassifyError_def WarnSpan_def FailSpan_def split: option.split)

section \<open>Span names\<close>

fun collapse_runes :: "bool \<Rightarrow> nat list \<Rightarrow> string" where
  "collapse_runes prev [] = []"
| "collapse_runes prev (r # rs) =
     (if r = 95
      then (if prev then collapse_runes True rs else encode_rune r @ collapse_runes True rs)
      else encode_rune r @ collapse_runes False rs)"

definition collapseUnderscores :: "string \<Rightarrow> string" where
  "collapseUnderscores s =
     (if \<not> Contains s ''__'' then s else collapse_runes False (runes s))"

definition httpResource :: "string \<Rightarrow> (nat \<Rightarrow> nat) \<Rightarrow> string" where
  "httpResource routeTemplate uni =
     (let r = TrimSpace routeTemplate in
      if r = [] then ''unknown''
      else
        (let r1 = TrimPrefix r ''/'';
             r2 = TrimPrefix r1 ''v1/'';
             r3 = TrimPrefix r2 ''api/'';
             segments = map (\<lambda>seg. if HasPrefix seg '':'' then ''by_'' @ TrimPrefix seg '':'' else seg)
                          (Split r3 CHR ''/'');
             joined = Trim (collapseUnderscores (Join segments ''_'')) ''_''
         in if joined = [] then ''unknown'' else ToLower uni joined))"

definition HTTPSpanName :: "(nat \<Rightarrow> nat) \<Rightarrow> string \<Rightarrow> string \<Rightarrow> string" where
  "HTTPSpanName uni method routeTemplate =
     (let verb = ToLower uni (TrimSpace method);
          verb' = (if verb = [] then ''unknown'' else verb)
      in ''http.'' @ verb' @ ''.'' @ httpResource routeTemplate uni)"

definition dbSegment :: "(nat \<Rightarrow> nat) \<Rightarrow> string \<Rightarrow> string" where
  "dbSegment uni s0 =
     (let s = ToLower uni (TrimSpace s0) in
      if s = [] then ''unknown''
      else
        (let b = concat (map (\<lambda>r. if r = 32 \<or> r = 9 then ''_'' else encode_rune r) (runes s));
             out = Trim (collapseUnderscores b) ''_''
         in if out = [] then ''unknown'' else out))"

definition DBSpanName :: "(nat \<Rightarrow> nat) \<Rightarrow> string \<Rightarrow> string \<Rightarrow> string" where
  "DBSpanName uni op table = ''db.'' @ dbSegment uni op @ ''.'' @ dbSegment uni table"

text \<open>
  A name segment in canonical form: not empty, no underscore at either end, no run of underscores.
\<close>

definition snake_segment :: "string \<Rightarrow> bool" where
  "snake_segment s \<longleftrightarrow>
     s \<noteq> [] \<and> hd s \<noteq> CHR ''_'' \<and> last s \<noteq> CHR ''_'' \<and> \<not> Contains s ''__''"

definition no_upper :: "string \<Rightarrow> bool" where
  "no_upper s \<longleftrightarrow> list_all (\<lambda>c. \<not> ((65::nat) \<le> of_char c \<and> of_char c \<le> (90::nat))) s"

lemma is_ascii_sublist: "sublist a b \<Longrightarrow> is_ascii b \<Longrightarrow> is_ascii a"
  by (auto simp: is_ascii_def list_all_iff dest: set_mono_sublist)

lemma is_ascii_TrimSpace: "is_ascii s \<Longrightarrow> is_ascii (TrimSpace s)"
  by (rule is_ascii_sublist [OF TrimSpace_sublist])

lemma is_ascii_TrimPrefix: "is_ascii s \<Longrightarrow> is_ascii (TrimPrefix s p)"
  by (auto simp: TrimPrefix_def intro: is_ascii_sublist [OF sublist_drop])

lemma is_ascii_Split: "is_ascii s \<Longrightarrow> w \<in> set (Split s c) \<Longrightarrow> is_ascii w"
  by (induction s arbitrary: w) (auto split: if_splits list.splits)

lemma is_ascii_Join: "is_ascii sep \<Longrightarrow> \<forall>w\<in>set ws. is_ascii w \<Longrightarrow> is_ascii (Join ws sep)"
  by (induction ws sep rule: Join.induct) auto

lemma is_ascii_no_bad_rune: "is_ascii s \<Longrightarrow> r \<in> set (runes s) \<Longrightarrow> r < 128"
  by (auto simp: runes_ascii is_ascii_def list_all_iff)

lemma is_ascii_collapse_runes: "\<forall>r\<in>set rs. r < 128 \<Longrightarrow> is_ascii (collapse_runes b rs)"
  by (induction b rs rule: collapse_runes.induct) (auto simp: encode_rune_ascii)

lemma is_ascii_collapse: "is_ascii s \<Longrightarrow> is_ascii (collapseUnderscores s)"
  by (auto simp: collapseUnderscores_def is_ascii_no_bad_rune intro: is_ascii_collapse_runes)

lemma Contains_uu_Cons:
  "Contains (c # s) ''__'' \<longleftrightarrow> (c = CHR ''_'' \<and> s \<noteq> [] \<and> hd s = CHR ''_'') \<or> Contains s ''__''"
  by (cases s) (auto simp: Contains_iff_sublist sublist_Cons_right)

lemma char_of_95 [simp]: "char_of (95::nat) = CHR ''_''"
  by code_simp

lemma char_of_underscore: "r < 128 \<Longrightarrow> char_of r = CHR ''_'' \<longleftrightarrow> r = (95::nat)"
proof
  assume "r < 128" and "char_of r = CHR ''_''"
  then have "of_char (char_of r) = (of_char CHR ''_'' :: nat)" by simp
  with \<open>r < 128\<close> show "r = 95" by simp
qed simp

lemma collapse_runes_ok:
  "\<forall>r\<in>set rs. r < 128 \<Longrightarrow>
     \<not> Contains (collapse_runes b rs) ''__''
     \<and> (b \<longrightarrow> collapse_runes b rs = [] \<or> hd (collapse_runes b rs) \<noteq> CHR ''_'')"
proof (induction b rs rule: collapse_runes.induct)
  case (1 prev)
  then show ?case by (simp add: Contains_def)
next
  case (2 prev r rs)
  have r: "encode_rune r = [char_of r]" using 2(4) by (simp add: encode_rune_ascii)
  show ?case
  proof (cases "r = 95")
    case True
    with 2 r show ?thesis by (auto simp: Contains_uu_Cons)
  next
    case False
    with 2 r char_of_underscore [of r] show ?thesis by (auto simp: Contains_uu_Cons)
  qed
qed

lemma collapse_no_uu: "is_ascii s \<Longrightarrow> \<not> Contains (collapseUnderscores s) ''__''"
  by (simp add: collapseUnderscores_def collapse_runes_ok is_ascii_no_bad_rune)

lemma Contains_sublist: "sublist a b \<Longrightarrow> \<not> Contains b x \<Longrightarrow> \<not> Contains a x"
  by (auto simp: Contains_iff_sublist intro: sublist_order.order_trans)

lemma Trim_sublist: "sublist (Trim s cs) s"
proof -
  have "suffix (dropWhile P xs) xs" for P and xs :: string by (rule suffix_dropWhile)
  then have "prefix (Trim s cs) (TrimLeft s cs)"
    unfolding Trim_def TrimLeft_def by (metis rev_rev_ident suffix_to_prefix)
  then show ?thesis
    by (metis TrimLeft_def prefix_imp_sublist sublist_order.order_trans suffix_dropWhile
        suffix_imp_sublist)
qed

lemma hd_TrimLeft: "TrimLeft s cs \<noteq> [] \<Longrightarrow> hd (TrimLeft s cs) \<notin> set cs"
  using hd_dropWhile [of "\<lambda>c. c \<in> set cs" s] by (simp add: TrimLeft_def)

lemma Trim_ends:
  assumes "Trim s cs \<noteq> []"
  shows "hd (Trim s cs) \<notin> set cs" "last (Trim s cs) \<notin> set cs"
proof -
  let ?t = "TrimLeft (rev (TrimLeft s cs)) cs"
  have t: "?t \<noteq> []" using assms by (simp add: Trim_def)
  then show "last (Trim s cs) \<notin> set cs"
    using hd_TrimLeft [OF t] by (simp add: Trim_def last_rev)
  have "suffix ?t (rev (TrimLeft s cs))" by (simp add: TrimLeft_def suffix_dropWhile)
  then have "prefix (rev ?t) (TrimLeft s cs)" by (simp add: suffix_to_prefix)
  then obtain zs where zs: "TrimLeft s cs = rev ?t @ zs" by (auto simp: prefix_def)
  then have "hd (rev ?t) = hd (TrimLeft s cs)" and "TrimLeft s cs \<noteq> []"
    using t by (metis hd_append2 rev_is_Nil_conv) (use zs t in auto)
  then show "hd (Trim s cs) \<notin> set cs" using hd_TrimLeft [of s cs] by (simp add: Trim_def)
qed

lemma ascii_lower_underscore [simp]: "ascii_lower c = CHR ''_'' \<longleftrightarrow> c = CHR ''_''"
proof
  assume a: "ascii_lower c = CHR ''_''"
  then have "of_char (ascii_lower c) = (95::nat)" by simp
  then have "of_char c = (of_char CHR ''_'' :: nat)"
    by (simp add: ascii_lower_def ascii_lower_rune_def split: if_splits)
  then show "c = CHR ''_''" by (simp only: of_char_eq_iff)
qed (simp add: ascii_lower_def ascii_lower_rune_def)

lemma Contains_uu_lower: "Contains (map ascii_lower s) ''__'' = Contains s ''__''"
proof (induction s)
  case Nil
  then show ?case by simp
next
  case (Cons c s)
  then show ?case by (cases s) (simp_all only: list.map Contains_uu_Cons list.sel, auto)
qed

lemma no_upper_lower: "is_ascii s \<Longrightarrow> no_upper (map ascii_lower s)"
  by (induction s) (auto simp: no_upper_def ascii_lower_def ascii_lower_rune_def)

lemma snake_Trim:
  "Trim s ''_'' \<noteq> [] \<Longrightarrow> \<not> Contains s ''__'' \<Longrightarrow> snake_segment (Trim s ''_'')"
  using Trim_ends [of s "''_''"] Contains_sublist [OF Trim_sublist] by (auto simp: snake_segment_def)

lemma snake_lower: "snake_segment s \<Longrightarrow> snake_segment (map ascii_lower s)"
  by (simp add: snake_segment_def Contains_uu_lower hd_map last_map)

lemma snake_unknown: "snake_segment ''unknown'' \<and> no_upper ''unknown''"
  by code_simp

lemma is_ascii_Trim: "is_ascii s \<Longrightarrow> is_ascii (Trim s cs)"
  by (rule is_ascii_sublist [OF Trim_sublist])

lemmas is_ascii_intros = is_ascii_Trim is_ascii_collapse is_ascii_Join is_ascii_TrimPrefix
  is_ascii_TrimSpace

lemma httpResource_ascii:
  assumes "is_ascii route"
  shows "snake_segment (httpResource route uni) \<and> no_upper (httpResource route uni)"
proof (cases "TrimSpace route = []")
  case True
  then show ?thesis by (simp add: httpResource_def snake_unknown)
next
  case False
  define r where "r = TrimPrefix (TrimPrefix (TrimPrefix (TrimSpace route) ''/'') ''v1/'') ''api/''"
  define j where "j = Join (map (\<lambda>seg. if prefix '':'' seg then ''by_'' @ TrimPrefix seg '':'' else seg)
    (Split r CHR ''/'')) ''_''"
  have "is_ascii r" unfolding r_def by (intro is_ascii_intros assms)
  then have j: "is_ascii j" unfolding j_def
    using is_ascii_Split [OF \<open>is_ascii r\<close>] by (intro is_ascii_Join) (auto simp: is_ascii_TrimPrefix)
  let ?t = "Trim (collapseUnderscores j) ''_''"
  have t: "is_ascii ?t" by (intro is_ascii_intros j)
  have eq: "httpResource route uni = (if ?t = [] then ''unknown'' else ToLower uni ?t)"
    using False by (simp add: httpResource_def Let_def r_def j_def)
  show ?thesis
  proof (cases "?t = []")
    case True
    with eq show ?thesis by (simp add: snake_unknown)
  next
    case False
    with eq snake_Trim [OF False collapse_no_uu [OF j]] t show ?thesis
      by (simp add: ToLower_ascii snake_lower no_upper_lower)
  qed
qed

lemma no_upper_set: "set a \<subseteq> set b \<Longrightarrow> no_upper b \<Longrightarrow> no_upper a"
  by (auto simp: no_upper_def list_all_iff)

lemma collapse_runes_set:
  "\<forall>r\<in>set rs. r < 128 \<Longrightarrow> set (collapse_runes b rs) \<subseteq> char_of ` set rs"
  by (induction b rs rule: collapse_runes.induct) (auto simp: encode_rune_ascii)

lemma collapse_set: "is_ascii s \<Longrightarrow> set (collapseUnderscores s) \<subseteq> set s"
  using collapse_runes_set [of "runes s" False]
  by (auto simp: collapseUnderscores_def is_ascii_no_bad_rune runes_ascii image_image)

lemma dbSegment_ascii:
  assumes "is_ascii s0"
  shows "snake_segment (dbSegment uni s0) \<and> no_upper (dbSegment uni s0)"
proof (cases "ToLower uni (TrimSpace s0) = []")
  case True
  then show ?thesis by (simp add: dbSegment_def snake_unknown)
next
  case False
  define s where "s = ToLower uni (TrimSpace s0)"
  have s: "is_ascii s" "no_upper s"
    using assms by (simp_all add: s_def is_ascii_TrimSpace ToLower_ascii is_ascii_lower no_upper_lower)
  define b where
    "b = concat (map (\<lambda>r. if r = 32 \<or> r = 9 then ''_'' else encode_rune r) (runes s))"
  have "set b \<subseteq> insert CHR ''_'' (set s)"
    using s(1) by (auto simp: b_def runes_ascii is_ascii_def list_all_iff encode_rune_ascii split: if_splits)
  then have b: "is_ascii b" "no_upper b"
    using s by (auto simp: is_ascii_def no_upper_def list_all_iff)
  let ?t = "Trim (collapseUnderscores b) ''_''"
  have "set ?t \<subseteq> set b"
    using collapse_set [OF b(1)] set_mono_sublist [OF Trim_sublist] by blast
  then have t: "no_upper ?t" using b(2) by (rule no_upper_set)
  have eq: "dbSegment uni s0 = (if ?t = [] then ''unknown'' else ?t)"
    using False by (simp add: dbSegment_def Let_def b_def s_def)
  show ?thesis
    by (cases "?t = []") (simp_all add: eq snake_unknown t snake_Trim collapse_no_uu b(1))
qed

section \<open>HTTP metrics\<close>

record ApdexThresholds =
  th_Satisfied :: duration
  th_Tolerating :: duration

definition DefaultApdexThresholds :: ApdexThresholds where
  "DefaultApdexThresholds = \<lparr>th_Satisfied = 500 * 10 ^ 6, th_Tolerating = 2 * 10 ^ 9\<rparr>"

text \<open>
  A counter instrument maps an attribute set to its count; the duration histogram keeps the
  recorded values, in nanoseconds, with their attribute set.
\<close>

type_synonym request_attrs = "string \<times> string \<times> int"

record HTTPMetrics =
  hm_RequestCount :: "request_attrs \<Rightarrow> nat"
  hm_RequestDuration :: "(request_attrs \<times> duration) list"
  hm_SlowRequests :: "string \<Rightarrow> nat"
  hm_ApdexSatisfied :: "string \<Rightarrow> nat"
  hm_ApdexTolerating :: "string \<Rightarrow> nat"
  hm_ApdexFrustrated :: "string \<Rightarrow> nat"
  hm_Thresholds :: ApdexThresholds

definition counter_add :: "('a \<Rightarrow> nat) \<Rightarrow> 'a \<Rightarrow> 'a \<Rightarrow> nat" where
  "counter_add c a = c(a := c a + 1)"

definition RecordRequest ::
  "HTTPMetrics option \<Rightarrow> string \<Rightarrow> string \<Rightarrow> int \<Rightarrow> duration \<Rightarrow> HTTPMetrics option" where
  "RecordRequest om method route statusCode d =
     (case om of
        None \<Rightarrow> None
      | Some m \<Rightarrow>
          let attrs = (method, route, statusCode);
              m1 = m\<lparr>hm_RequestCount := counter_add (hm_RequestCount m) attrs,
                     hm_RequestDuration := hm_RequestDuration m @ [(attrs, d)]\<rparr>
          in Some
            (if d \<le> th_Satisfied (hm_Thresholds m1) then
               m1\<lparr>hm_ApdexSatisfied := counter_add (hm_ApdexSatisfied m1) route\<rparr>
             else if d \<le> th_Tolerating (hm_Thresholds m1) then
               m1\<lparr>hm_ApdexTolerating := counter_add (hm_ApdexTolerating m1) route\<rparr>
             else
               m1\<lparr>hm_ApdexFrustrated := counter_add (hm_ApdexFrustrated m1) route,
                  hm_SlowRequests := counter_add (hm_SlowRequests m1) route\<rparr>))"

definition NewHTTPMetrics :: HTTPMetrics where
  "NewHTTPMetrics =
     \<lparr>hm_RequestCount = (\<lambda>_. 0), hm_RequestDuration = [], hm_SlowRequests = (\<lambda>_. 0),
      hm_ApdexSatisfied = (\<lambda>_. 0), hm_ApdexTolerating = (\<lambda>_. 0), hm_ApdexFrustrated = (\<lambda>_. 0),
      hm_Thresholds = DefaultApdexThresholds\<rparr>"

definition apdex_inv :: "HTTPMetrics \<Rightarrow> bool" where
  "apdex_inv m \<longleftrightarrow>
     hm_SlowRequests m = hm_ApdexFrustrated m
     \<and> (\<forall>route. hm_ApdexSatisfied m route + hm_ApdexTolerating m route + hm_ApdexFrustrated m route
          = length (filter (\<lambda>((_, r, _), _). r = route) (hm_RequestDuration m)))
     \<and> (\<forall>a. hm_RequestCount m a = length (filter (\<lambda>(b, _). b = a) (hm_RequestDuration m)))"

lemma apdex_inv_New: "apdex_inv NewHTTPMetrics"
  by (simp add: apdex_inv_def NewHTTPMetrics_def)

lemma apdex_inv_RecordRequest [inv_intros]:
  "apdex_inv m \<Longrightarrow> RecordRequest (Some m) method route st d = Some m' \<Longrightarrow> apdex_inv m'"
  by (auto simp: apdex_inv_def RecordRequest_def counter_add_def Let_def split: if_splits)

text \<open>The requests of a sequence, recorded in order.\<close>

fun record_all :: "HTTPMetrics option \<Rightarrow> (request_attrs \<times> duration) list \<Rightarrow> HTTPMetrics option" where
  "record_all om [] = om"
| "record_all om (((meth, route, st), d) # rs) = record_all (RecordRequest om meth route st d) rs"

lemma record_all_inv:
  "apdex_inv m \<Longrightarrow>
    \<exists>m'. record_all (Some m) rs = Some m' \<and> apdex_inv m' \<and> hm_RequestDuration m' = hm_RequestDuration m @ rs"
proof (induction "Some m" rs arbitrary: m rule: record_all.induct)
  case 1
  then show ?case by simp
next
  case (2 meth route st d rs)
  obtain m1 where m1: "RecordRequest (Some m) meth route st d = Some m1"
    "hm_RequestDuration m1 = hm_RequestDuration m @ [((meth, route, st), d)]"
    by (auto simp: RecordRequest_def Let_def)
  with 2(2) have "apdex_inv m1" by (auto intro: inv_intros)
  from 2(1) [OF m1(1) this] m1 show ?case by auto
qed

section \<open>Business metrics\<close>

text \<open>The counters of \<open>internal/infrastructure/telemetry\<close>; a nil instrument is \<open>None\<close>.\<close>

record Metrics =
  bm_UsersCreated :: "nat option"
  bm_UsersUpdated :: "nat option"
  bm_UsersDeleted :: "nat option"
  bm_OperationDuration :: "(string \<times> duration) list option"

definition RecordCreate :: "Metrics option \<Rightarrow> Metrics option" where
  "RecordCreate om = map_option (\<lambda>m. m\<lparr>bm_UsersCreated := map_option Suc (bm_UsersCreated m)\<rparr>) om"

definition RecordUpdate :: "Metrics option \<Rightarrow> Metrics option" where
  "RecordUpdate om = map_option (\<lambda>m. m\<lparr>bm_UsersUpdated := map_option Suc (bm_UsersUpdated m)\<rparr>) om"

definition RecordDelete :: "Metrics option \<Rightarrow> Metrics option" where
  "RecordDelete om = map_option (\<lambda>m. m\<lparr>bm_UsersDeleted := map_option Suc (bm_UsersDeleted m)\<rparr>) om"

definition RecordDuration :: "Metrics option \<Rightarrow> duration \<Rightarrow> string \<Rightarrow> Metrics option" where
  "RecordDuration om d operation =
     map_option (\<lambda>m. m\<lparr>bm_OperationDuration :=
       map_option (\<lambda>ds. ds @ [(operation, d)]) (bm_OperationDuration m)\<rparr>) om"

section \<open>Properties\<close>

lemma HTTPSpanName_example: "HTTPSpanName id ''GET'' ''/v1/users/:id'' = ''http.get.users_by_id''"
  by code_simp

text \<open>
  Span names.  For ASCII methods, routes, operations and tables every name has the documented
  shape \<open>http.<verb>.<resource>\<close> or \<open>db.<op>.<table>\<close>: the verb is a non-empty lower-case word, and
  each of the other segments is non-empty lower-case snake case, with no underscore at its ends
  and no run of underscores.
\<close>

theorem span_names_canonical:
  assumes "is_ascii method" and "is_ascii route" and "is_ascii op" and "is_ascii table"
  shows "\<exists>verb resource o' t'.
    HTTPSpanName uni method route = ''http.'' @ verb @ ''.'' @ resource
    \<and> verb \<noteq> [] \<and> no_upper verb \<and> snake_segment resource \<and> no_upper resource
    \<and> DBSpanName uni op table = ''db.'' @ o' @ ''.'' @ t'
    \<and> snake_segment o' \<and> no_upper o' \<and> snake_segment t' \<and> no_upper t'"
proof -
  let ?verb = "ToLower uni (TrimSpace method)"
  let ?v = "if ?verb = [] then ''unknown'' else ?verb"
  have "?v \<noteq> [] \<and> no_upper ?v"
    using assms(1) by (simp add: ToLower_ascii is_ascii_TrimSpace no_upper_lower snake_unknown)
  then show ?thesis
    using httpResource_ascii [OF assms(2), of uni] dbSegment_ascii [OF assms(3), of uni]
      dbSegment_ascii [OF assms(4), of uni]
    unfolding HTTPSpanName_def DBSpanName_def Let_def by blast
qed

theorem span_names_canonical_witness:
  "HTTPSpanName id ''GET'' ''/v1/users/:id'' = ''http.get.users_by_id''
   \<and> (\<exists>verb resource o' t'. HTTPSpanName id ''GET'' ''/v1/users/:id'' = ''http.'' @ verb @ ''.'' @ resource
        \<and> snake_segment resource
        \<and> DBSpanName id ''INSERT'' '' Users  by email'' = ''db.'' @ o' @ ''.'' @ t'
        \<and> snake_segment t')"
proof -
  have "is_ascii ''GET''" "is_ascii ''/v1/users/:id''" "is_ascii ''INSERT''"
    "is_ascii '' Users  by email''" by simp_all
  from span_names_canonical [OF this, of id] show ?thesis using HTTPSpanName_example by blast
qed

text \<open>
  C30: Apdex accounting.  Whatever requests are recorded, in whatever order, every route's satisfied,
  tolerating and frustrated counters add up to the number of requests recorded for that route,
  the slow-request counter equals the frustrated one, and the request counter of every label set
  is the number of requests with those labels.
\<close>

theorem apdex_accounts_for_every_request:
  "\<exists>m. record_all (Some NewHTTPMetrics) rs = Some m
    \<and> hm_RequestDuration m = rs
    \<and> hm_SlowRequests m = hm_ApdexFrustrated m
    \<and> hm_ApdexSatisfied m route + hm_ApdexTolerating m route + hm_ApdexFrustrated m route
        = length (filter (\<lambda>((_, r, _), _). r = route) rs)
    \<and> hm_RequestCount m attrs = length (filter (\<lambda>(b, _). b = attrs) rs)"
proof -
  obtain m where m: "record_all (Some NewHTTPMetrics) rs = Some m" "apdex_inv m"
    "hm_RequestDuration m = hm_RequestDuration NewHTTPMetrics @ rs"
    using record_all_inv [OF apdex_inv_New, of rs] by blast
  then have "hm_RequestDuration m = rs" by (simp add: NewHTTPMetrics_def)
  with m show ?thesis unfolding apdex_inv_def by blast
qed

end
