(* ===== verification/Float64.thy ===== *)
theory Float64
  imports Prelude "HOL-Library.Log_Nat"
begin

text \<open>
  IEEE 754 binary64 for the quotient of two positive integers, as the page counts of the listings
  need it: a positive float is its 53-bit mantissa and its exponent, every operation rounds to
  nearest, ties to even.
\<close>

record float64 =
  f_mant :: int
  f_exp :: int

definition round_half_even :: "int \<Rightarrow> int \<Rightarrow> int" where
  "round_half_even n d =
     (let q = n div d; r = n mod d in
      if 2 * r < d \<or> (2 * r = d \<and> even q) then q else q + 1)"

text \<open>\<open>ratio_log n d\<close> is the integer part of the binary logarithm of \<open>n / d\<close>.\<close>

definition ratio_log :: "int \<Rightarrow> int \<Rightarrow> int" where
  "ratio_log n d =
     (let k = bitlen n - bitlen d in
      if (if 0 \<le> k then d * 2 ^ nat k \<le> n else d \<le> n * 2 ^ nat (- k)) then k else k - 1)"

definition f64_ratio :: "int \<Rightarrow> int \<Rightarrow> float64" where
  "f64_ratio n d =
     (let p = 52 - ratio_log n d in
      \<lparr>f_mant = (if 0 \<le> p then round_half_even (n * 2 ^ nat p) d
                else round_half_even n (d * 2 ^ nat (- p))),
       f_exp = - p\<rparr>)"

definition f64_of_int :: "int \<Rightarrow> float64" where
  "f64_of_int n = f64_ratio n 1"

definition f64_div :: "float64 \<Rightarrow> float64 \<Rightarrow> float64" where
  "f64_div x y =
     (let e = f_exp x - f_exp y in
      if 0 \<le> e then f64_ratio (f_mant x * 2 ^ nat e) (f_mant y)
      else f64_ratio (f_mant x) (f_mant y * 2 ^ nat (- e)))"

text \<open>\<open>int(math.Ceil(x))\<close> before the conversion to 64 bits.\<close>

definition f64_ceil :: "float64 \<Rightarrow> int" where
  "f64_ceil x =
     (if 0 \<le> f_exp x then f_mant x * 2 ^ nat (f_exp x)
      else - ((- f_mant x) div 2 ^ nat (- f_exp x)))"

section \<open>Rounding\<close>

lemma round_half_even_bounds:
  assumes "0 < d"
  shows "2 * n - d \<le> 2 * (d * round_half_even n d)" "2 * (d * round_half_even n d) \<le> 2 * n + d"
proof -
  define q where "q = n div d"
  define r where "r = n mod d"
  have n: "n = d * q + r" by (simp add: q_def r_def)
  have r: "0 \<le> r" "r < d" using assms by (simp_all add: r_def)
  have e: "round_half_even n d = (if 2 * r < d \<or> (2 * r = d \<and> even q) then q else q + 1)"
    by (simp add: round_half_even_def Let_def q_def r_def)
  have "d * (q + 1) = d * q + d" by (simp add: distrib_left)
  then show "2 * n - d \<le> 2 * (d * round_half_even n d)" "2 * (d * round_half_even n d) \<le> 2 * n + d"
    unfolding e using n r by (auto simp: distrib_left)
qed

lemma round_half_even_exact: "0 < d \<Longrightarrow> round_half_even (d * k) d = k"
  by (simp add: round_half_even_def Let_def)

lemma round_half_even_le:
  assumes "0 < d" and "n \<le> d * k"
  shows "round_half_even n d \<le> k"
proof (rule ccontr)
  assume "\<not> round_half_even n d \<le> k"
  then have "d * (k + 1) \<le> d * round_half_even n d" using assms(1) by (intro mult_left_mono) simp_all
  moreover have "2 * (d * round_half_even n d) \<le> 2 * n + d" by (rule round_half_even_bounds) (rule assms)
  ultimately show False using assms by (simp add: distrib_left)
qed

lemma ceil_ratio:
  fixes d :: int
  assumes "0 < d" and "(k - 1) * d < n" and "n \<le> k * d"
  shows "- ((- n) div d) = k"
proof -
  have "- n = d * (- k) + (k * d - n)" by (simp add: algebra_simps)
  then have "(- n) div d = - k"
    by (rule int_div_pos_eq) (use assms in \<open>simp_all add: algebra_simps\<close>)
  then show ?thesis by simp
qed

lemma ratio_log_le:
  assumes "0 < n" and "0 < d" and "n \<le> d * 2 ^ 46"
  shows "ratio_log n d \<le> 46"
proof -
  have n: "2 ^ nat (bitlen n - 1) \<le> n" using bitlen_bounds [OF assms(1)] by simp
  have d: "d < 2 ^ nat (bitlen d)" using bitlen_bounds [OF assms(2)] by simp
  have "(2::int) ^ nat (bitlen n - 1) < 2 ^ nat (bitlen d) * 2 ^ 46"
    using n d assms(3) by (smt (verit) mult_less_cancel_right_pos zero_less_power)
  also have "\<dots> = 2 ^ (nat (bitlen d) + 46)" by (simp add: power_add)
  finally have "nat (bitlen n - 1) < nat (bitlen d) + 46" by simp
  then have "bitlen n - bitlen d \<le> 46" using bitlen_nonneg [of d] by linarith
  then show ?thesis by (simp add: ratio_log_def Let_def)
qed

lemma f64_ratio_ceil:
  assumes n: "0 < n" and d: "0 < d" and small: "n \<le> d * 2 ^ 46"
    and lo: "100 * ((k - 1) * d) + d \<le> 100 * n" and hi: "n \<le> k * d"
  shows "f64_ceil (f64_ratio n d) = k"
proof -
  define p where "p = nat (52 - ratio_log n d)"
  have p: "int p = 52 - ratio_log n d" "6 \<le> p"
    using ratio_log_le [OF n d small] by (simp_all add: p_def)
  define m where "m = round_half_even (n * 2 ^ p) d"
  have p0: "0 \<le> 52 - ratio_log n d" using p by linarith
  have f: "f64_ratio n d = \<lparr>f_mant = m, f_exp = - int p\<rparr>"
    using p0 by (simp add: f64_ratio_def Let_def m_def p_def)
  have up: "m \<le> k * 2 ^ p" unfolding m_def
    by (rule round_half_even_le [OF d]) (use hi in \<open>simp add: algebra_simps\<close>)
  have pow: "(64::int) \<le> 2 ^ p"
    using power_increasing [OF p(2), of "2::int"] by simp
  define X where "X = d * 2 ^ p"
  have "d * 64 \<le> X" unfolding X_def by (rule mult_left_mono) (use pow d in simp_all)
  moreover have "200 * ((k - 1) * X) + 2 * X \<le> 200 * (n * 2 ^ p)"
    using mult_right_mono [OF lo, of "2 * 2 ^ p"] by (simp add: X_def algebra_simps)
  moreover have "200 * (n * 2 ^ p) - 100 * d \<le> 200 * (d * m)"
    using round_half_even_bounds(1) [OF d, of "n * 2 ^ p"] by (simp add: m_def)
  ultimately have "(k - 1) * X < d * m" using d by linarith
  then have "d * ((k - 1) * 2 ^ p) < d * m" by (simp add: X_def algebra_simps)
  then have "(k - 1) * 2 ^ p < m" using d by simp
  then show ?thesis using up p(2) unfolding f f64_ceil_def
    by (simp add: ceil_ratio)
qed

lemma f64_of_int_exact:
  assumes "0 < n" and "n \<le> 2 ^ 46"
  shows "\<exists>p. f64_of_int n = \<lparr>f_mant = n * 2 ^ p, f_exp = - int p\<rparr>"
proof -
  have "ratio_log n 1 \<le> 46" using ratio_log_le [of n 1] assms by simp
  then have "f64_of_int n = \<lparr>f_mant = n * 2 ^ nat (52 - ratio_log n 1), f_exp = - int (nat (52 - ratio_log n 1))\<rparr>"
    using round_half_even_exact [of 1] by (simp add: f64_of_int_def f64_ratio_def Let_def)
  then show ?thesis by blast
qed

text \<open>The rounded quotient has the exact quotient's ceiling, up to 2^46 over at most 100.\<close>

lemma f64_ceil_div:
  assumes n: "0 < n" "n \<le> 2 ^ 46" and d: "0 < d" "d \<le> 100" and k: "(k - 1) * d < n" "n \<le> k * d"
  shows "f64_ceil (f64_div (f64_of_int n) (f64_of_int d)) = k"
proof -
  obtain p where p: "f64_of_int n = \<lparr>f_mant = n * 2 ^ p, f_exp = - int p\<rparr>"
    using f64_of_int_exact n by blast
  have "d \<le> 2 ^ 46" using d(2) by simp
  then obtain q where q: "f64_of_int d = \<lparr>f_mant = d * 2 ^ q, f_exp = - int q\<rparr>"
    using f64_of_int_exact d(1) by blast
  have "\<exists>j. f64_div (f64_of_int n) (f64_of_int d) = f64_ratio (n * 2 ^ j) (d * 2 ^ j)"
  proof (cases "p \<le> q")
    case True
    then have "nat (int q - int p) = q - p" "p + (q - p) = q" by simp_all
    then have "f64_div (f64_of_int n) (f64_of_int d) = f64_ratio (n * 2 ^ q) (d * 2 ^ q)"
      using True by (simp add: p q f64_div_def Let_def mult.assoc flip: power_add)
    then show ?thesis by blast
  next
    case False
    then have "nat (int p - int q) = p - q" "q + (p - q) = p" by simp_all
    then have "f64_div (f64_of_int n) (f64_of_int d) = f64_ratio (n * 2 ^ p) (d * 2 ^ p)"
      using False by (simp add: p q f64_div_def Let_def mult.assoc flip: power_add)
    then show ?thesis by blast
  qed
  then obtain j where j: "f64_div (f64_of_int n) (f64_of_int d) = f64_ratio (n * 2 ^ j) (d * 2 ^ j)" by blast
  have "(k - 1) * d + 1 \<le> n" using k(1) by simp
  then have lo: "100 * ((k - 1) * d) + d \<le> 100 * n" using d(2) by linarith
  have "1 * n \<le> d * 2 ^ 46" using n d(1) by (simp add: mult_mono order_trans [of n "2 ^ 46"])
  then have nd: "n \<le> d * 2 ^ 46" by simp
  show ?thesis unfolding j
  proof (rule f64_ratio_ceil)
    show "0 < n * 2 ^ j" "0 < d * 2 ^ j" using n(1) d(1) by simp_all
    show "n * 2 ^ j \<le> d * 2 ^ j * 2 ^ 46" using mult_right_mono [OF nd, of "2 ^ j"] by (simp add: algebra_simps)
    show "n * 2 ^ j \<le> k * (d * 2 ^ j)" using mult_right_mono [OF k(2), of "2 ^ j"] by (simp add: algebra_simps)
    show "100 * ((k - 1) * (d * 2 ^ j)) + d * 2 ^ j \<le> 100 * (n * 2 ^ j)"
      using mult_right_mono [OF lo, of "2 ^ j"] by (simp add: algebra_simps)
  qed
qed

end
