(* ===== verification/UserUseCases.thy ===== *)
theory UserUseCases
  imports Cache Telemetry Float64
begin

text \<open>
  The user use cases (\<open>internal/usecases/user\<close>): input and output DTOs, the translation of domain
  errors to application errors, the lists of expected errors, and the five \<open>Execute\<close> methods over
  the repository and cache interfaces.  An \<open>Execute\<close> takes the span of its context and returns it
  with what it recorded.
\<close>

section \<open>DTOs\<close>

record CreateInput =
  uci_Name :: string
  uci_Email :: string

record CreateOutput =
  uco_ID :: string
  uco_CreatedAt :: string

record DeleteInput =
  udi_ID :: string

record DeleteOutput =
  udo_ID :: string

record GetInput =
  ugi_ID :: string

record GetOutput =
  ugo_ID :: string
  ugo_Name :: string
  ugo_Email :: string
  ugo_Active :: bool
  ugo_CreatedAt :: string
  ugo_UpdatedAt :: string

record ListInput =
  uli_Page :: gint
  uli_Limit :: gint
  uli_Name :: string
  uli_Email :: string
  uli_ActiveOnly :: bool

record PaginationOutput =
  po_Page :: gint
  po_Limit :: gint
  po_Total :: gint
  po_TotalPages :: gint

record ListOutput =
  ulo_Data :: "GetOutput list"
  ulo_Pagination :: PaginationOutput

record UpdateInput =
  uui_ID :: string
  uui_Name :: "string option"
  uui_Email :: "string option"

record UpdateOutput =
  uuo_ID :: string
  uuo_Name :: string
  uuo_Email :: string
  uuo_Active :: bool
  uuo_UpdatedAt :: string

section \<open>Errors\<close>

definition createExpectedErrors :: "ExpectedError list" where
  "createExpectedErrors =
     [\<lparr>ee_Err = ErrInvalidEmail, ee_AttrKey = AttrKeyAppValidationError, ee_AttrValue = []\<rparr>,
      \<lparr>ee_Err = ErrDuplicateEmail, ee_AttrKey = AttrKeyAppResult, ee_AttrValue = ''duplicate_email''\<rparr>]"

definition getExpectedErrors :: "ExpectedError list" where
  "getExpectedErrors =
     [\<lparr>ee_Err = ErrInvalidID, ee_AttrKey = AttrKeyAppValidationError, ee_AttrValue = []\<rparr>,
      \<lparr>ee_Err = ErrUserNotFound, ee_AttrKey = AttrKeyAppResult, ee_AttrValue = ''not_found''\<rparr>]"

definition updateExpectedErrors :: "ExpectedError list" where
  "updateExpectedErrors =
     [\<lparr>ee_Err = ErrInvalidID, ee_AttrKey = AttrKeyAppValidationError, ee_AttrValue = []\<rparr>,
      \<lparr>ee_Err = ErrInvalidEmail, ee_AttrKey = AttrKeyAppValidationError, ee_AttrValue = []\<rparr>,
      \<lparr>ee_Err = ErrUserNotFound, ee_AttrKey = AttrKeyAppResult, ee_AttrValue = ''not_found''\<rparr>]"

definition deleteExpectedErrors :: "ExpectedError list" where
  "deleteExpectedErrors =
     [\<lparr>ee_Err = ErrInvalidID, ee_AttrKey = AttrKeyAppValidationError, ee_AttrValue = []\<rparr>,
      \<lparr>ee_Err = ErrUserNotFound, ee_AttrKey = AttrKeyAppResult, ee_AttrValue = ''not_found''\<rparr>]"

definition userToAppError :: "goerror \<Rightarrow> goerror" where
  "userToAppError err =
     (if errors_Is err ErrInvalidEmail then apperror_Wrap err CodeInvalidRequest ''invalid email''
      else if errors_Is err ErrInvalidID then apperror_Wrap err CodeInvalidRequest ''invalid ID''
      else if errors_Is err ErrUserNotFound then apperror_Wrap err CodeNotFound ''user not found''
      else if errors_Is err ErrDuplicateEmail then apperror_Wrap err CodeConflict ''email already exists''
      else apperror_Wrap err CodeInternalError ''internal server error'')"

section \<open>Create\<close>

definition CreateUseCase_Execute ::
  "'w env \<Rightarrow> 'w user_repo \<Rightarrow> span option \<Rightarrow> CreateInput
    \<Rightarrow> ('w, (goerror + CreateOutput) \<times> span option) prog" where
  "CreateUseCase_Execute E repo sp input =
     (case NewEmail E (uci_Email input) of
        Inl emailErr \<Rightarrow>
          Return (Inl (userToAppError emailErr),
            ClassifyError sp (Some emailErr) createExpectedErrors ''creating user: invalid email'')
      | Inr emailVO \<Rightarrow>
          pbind (NewUser E (uci_Name input) emailVO) (\<lambda>e.
          pbind (repo_Create repo e) (\<lambda>saveErr.
          case saveErr of
            Some err \<Rightarrow>
              (let wrappedErr = Wrapf ''creating user: '' err in
               Return (Inl (userToAppError err),
                 ClassifyError sp (Some err) createExpectedErrors (err_text wrappedErr)))
          | None \<Rightarrow>
              Return (Inr \<lparr>uco_ID = ID_String (u_ID e),
                          uco_CreatedAt = env_rfc3339 E (u_CreatedAt e)\<rparr>, sp))))"

section \<open>Get\<close>

definition user_output :: "'w env \<Rightarrow> User \<Rightarrow> GetOutput" where
  "user_output E e =
     \<lparr>ugo_ID = ID_String (u_ID e), ugo_Name = u_Name e, ugo_Email = Email_String (u_Email e),
      ugo_Active = u_Active e, ugo_CreatedAt = env_rfc3339 E (u_CreatedAt e),
      ugo_UpdatedAt = env_rfc3339 E (u_UpdatedAt e)\<rparr>"

definition cache_key_attr :: "string \<Rightarrow> string \<times> goany" where
  "cache_key_attr cacheKey = (''cache.key'', AString cacheKey)"

text \<open>The load on a cache miss, with or without the single-flight group.\<close>

definition get_load ::
  "'w user_repo \<Rightarrow> 'w flight_group option \<Rightarrow> span option \<Rightarrow> string \<Rightarrow> ID \<Rightarrow> string
    \<Rightarrow> ('w, (goerror + User) \<times> span option) prog" where
  "get_load repo flight sp inputID i cacheKey =
     (case flight of
        Some fg \<Rightarrow>
          pbind (FlightGroup_Do fg inputID
                   (pbind (repo_FindByID repo i) (\<lambda>f. Return (map_sum id FlightUser f)))) (\<lambda>(val, shared).
          let sp1 = (if shared then RecordEvent sp ''singleflight.shared'' [cache_key_attr cacheKey]
                       else sp)
          in case val of
               Inl flightErr \<Rightarrow>
                 Return (Inl (userToAppError flightErr),
                   ClassifyError sp1 (Some flightErr) getExpectedErrors
                     (err_text (Wrapf ''getting user: '' flightErr)))
             | Inr (FlightUser e) \<Rightarrow> Return (Inr e, sp1)
             | Inr FlightOther \<Rightarrow>
                 Return (Inl (apperror_New CodeInternalError ''internal server error''), sp1))
      | None \<Rightarrow>
          pbind (repo_FindByID repo i) (\<lambda>f.
          case f of
            Inl findErr \<Rightarrow>
              Return (Inl (userToAppError findErr),
                ClassifyError sp (Some findErr) getExpectedErrors
                  (err_text (Wrapf ''getting user: '' findErr)))
          | Inr e \<Rightarrow> Return (Inr e, sp)))"

definition GetUseCase_Execute ::
  "'w env \<Rightarrow> 'w user_repo \<Rightarrow> ('w, GetOutput) cache option \<Rightarrow> 'w flight_group option
    \<Rightarrow> span option \<Rightarrow> GetInput \<Rightarrow> ('w, (goerror + GetOutput) \<times> span option) prog" where
  "GetUseCase_Execute E repo cache flight sp input =
     (case ParseID E (ugi_ID input) of
        Inl parseErr \<Rightarrow>
          Return (Inl (userToAppError parseErr),
            ClassifyError sp (Some parseErr) getExpectedErrors ''getting user: invalid ID'')
      | Inr i \<Rightarrow>
          (let cacheKey = ''user:'' @ ugi_ID input;
               load = (\<lambda>sp1.
                 pbind (get_load repo flight sp1 (ugi_ID input) i cacheKey) (\<lambda>(r, sp2).
                 case r of
                   Inl appErr \<Rightarrow> Return (Inl appErr, sp2)
                 | Inr e \<Rightarrow>
                     (let output = user_output E e in
                      case cache of
                        None \<Rightarrow> Return (Inr output, sp2)
                      | Some c \<Rightarrow>
                          pbind (ca_Set c cacheKey output) (\<lambda>setCacheErr.
                          case setCacheErr of
                            Some err \<Rightarrow>
                              Return (Inr output,
                                RecordEvent sp2 ''cache.set_failed''
                                  [cache_key_attr cacheKey, (''error.message'', AString (err_text err))])
                          | None \<Rightarrow>
                              Return (Inr output,
                                RecordEvent sp2 ''cache.set'' [cache_key_attr cacheKey])))))
           in case cache of
                None \<Rightarrow> load sp
              | Some c \<Rightarrow>
                  pbind (ca_Get c cacheKey) (\<lambda>cached.
                  case cached of
                    Inr out \<Rightarrow>
                      Return (Inr out, RecordEvent sp ''cache.hit'' [cache_key_attr cacheKey])
                  | Inl cacheErr \<Rightarrow>
                      load (RecordEvent sp ''cache.miss'' [cache_key_attr cacheKey]))))"

section \<open>List\<close>

definition total_pages :: "gint \<Rightarrow> gint \<Rightarrow> gint" where
  "total_pages tot limit =
     (if 0 < sint limit \<and> 0 < sint tot
      then gint (f64_ceil (f64_div (f64_of_int (sint tot)) (f64_of_int (sint limit))))
      else 1)"

definition ListUseCase_Execute ::
  "'w env \<Rightarrow> 'w user_repo \<Rightarrow> span option \<Rightarrow> ListInput
    \<Rightarrow> ('w, (goerror + ListOutput) \<times> span option) prog" where
  "ListUseCase_Execute E repo sp input =
     (let filter = \<lparr>uf_Page = uli_Page input, uf_Limit = uli_Limit input, uf_Name = uli_Name input,
                    uf_Email = uli_Email input, uf_ActiveOnly = uli_ActiveOnly input\<rparr> in
      pbind (repo_List repo filter) (\<lambda>r.
      case r of
        Inl listErr \<Rightarrow>
          Return (Inl (userToAppError listErr),
            ClassifyError sp (Some listErr) [] (err_text (Wrapf ''listing users: '' listErr)))
      | Inr result \<Rightarrow>
          (let items = map (user_output E) (ulr_Users result) in
           Return (Inr \<lparr>ulo_Data = items,
             ulo_Pagination = \<lparr>po_Page = ulr_Page result, po_Limit = ulr_Limit result,
               po_Total = ulr_Total result,
               po_TotalPages = total_pages (ulr_Total result) (ulr_Limit result)\<rparr>\<rparr>, sp))))"

section \<open>Update and delete\<close>

definition invalidate ::
  "('w, GetOutput) cache option \<Rightarrow> string \<Rightarrow> span option \<Rightarrow> ('w, span option) prog" where
  "invalidate cache inputID sp =
     (case cache of
        None \<Rightarrow> Return sp
      | Some c \<Rightarrow>
          (let cacheKey = ''user:'' @ inputID in
           pbind (ca_Delete c cacheKey) (\<lambda>deleteCacheErr.
           case deleteCacheErr of
             Some err \<Rightarrow>
               Return (RecordEvent sp ''cache.invalidate_failed''
                 [cache_key_attr cacheKey, (''error.message'', AString (err_text err))])
           | None \<Rightarrow> Return (RecordEvent sp ''cache.invalidated'' [cache_key_attr cacheKey]))))"

text \<open>The partial update of the entity: the email is checked after the name was set.\<close>

definition apply_update ::
  "'w env \<Rightarrow> User \<Rightarrow> UpdateInput \<Rightarrow> ('w, goerror + User) prog" where
  "apply_update E e0 input =
     pbind (case uui_Name input of None \<Rightarrow> Return e0 | Some n \<Rightarrow> User_UpdateName E e0 n) (\<lambda>e1.
     case uui_Email input of
       None \<Rightarrow> Return (Inr e1)
     | Some m \<Rightarrow>
         (case NewEmail E m of
            Inl emailErr \<Rightarrow> Return (Inl emailErr)
          | Inr emailVO \<Rightarrow> pbind (User_UpdateEmail E e1 emailVO) (\<lambda>e2. Return (Inr e2))))"

definition UpdateUseCase_Execute ::
  "'w env \<Rightarrow> 'w user_repo \<Rightarrow> ('w, GetOutput) cache option \<Rightarrow> span option \<Rightarrow> UpdateInput
    \<Rightarrow> ('w, (goerror + UpdateOutput) \<times> span option) prog" where
  "UpdateUseCase_Execute E repo cache sp input =
     (case ParseID E (uui_ID input) of
        Inl parseErr \<Rightarrow>
          Return (Inl (userToAppError parseErr),
            ClassifyError sp (Some parseErr) updateExpectedErrors ''updating user: invalid ID'')
      | Inr i \<Rightarrow>
          pbind (repo_FindByID repo i) (\<lambda>f.
          case f of
            Inl findErr \<Rightarrow>
              Return (Inl (userToAppError findErr),
                ClassifyError sp (Some findErr) updateExpectedErrors
                  (err_text (Wrapf ''updating user: '' findErr)))
          | Inr e0 \<Rightarrow>
              pbind (apply_update E e0 input) (\<lambda>u.
              case u of
                Inl emailErr \<Rightarrow>
                  Return (Inl (userToAppError emailErr),
                    ClassifyError sp (Some emailErr) updateExpectedErrors
                      ''updating user: invalid email'')
              | Inr e \<Rightarrow>
                  pbind (repo_Update repo e) (\<lambda>saveErr.
                  case saveErr of
                    Some err \<Rightarrow>
                      Return (Inl (userToAppError err),
                        ClassifyError sp (Some err) updateExpectedErrors
                          (err_text (Wrapf ''updating user: '' err)))
                  | None \<Rightarrow>
                      pbind (invalidate cache (uui_ID input) sp) (\<lambda>sp1.
                      Return (Inr \<lparr>uuo_ID = ID_String (u_ID e), uuo_Name = u_Name e,
                        uuo_Email = Email_String (u_Email e), uuo_Active = u_Active e,
                        uuo_UpdatedAt = env_rfc3339 E (u_UpdatedAt e)\<rparr>, sp1))))))"

definition DeleteUseCase_Execute ::
  "'w env \<Rightarrow> 'w user_repo \<Rightarrow> ('w, GetOutput) cache option \<Rightarrow> span option \<Rightarrow> DeleteInput
    \<Rightarrow> ('w, (goerror + DeleteOutput) \<times> span option) prog" where
  "DeleteUseCase_Execute E repo cache sp input =
     (case ParseID E (udi_ID input) of
        Inl parseErr \<Rightarrow>
          Return (Inl (userToAppError parseErr),
            ClassifyError sp (Some parseErr) deleteExpectedErrors ''deleting user: invalid ID'')
      | Inr i \<Rightarrow>
          pbind (repo_Delete repo i) (\<lambda>deleteErr.
          case deleteErr of
            Some err \<Rightarrow>
              Return (Inl (userToAppError err),
                ClassifyError sp (Some err) deleteExpectedErrors
                  (err_text (Wrapf ''deleting user: '' err)))
          | None \<Rightarrow>
              pbind (invalidate cache (udi_ID input) sp) (\<lambda>sp1.
              Return (Inr \<lparr>udo_ID = udi_ID input\<rparr>, sp1))))"

section \<open>Error translation\<close>

lemma userToAppError_simps [simp]:
  "userToAppError (Sentinel ErrInvalidEmail) = apperror_Wrap (Sentinel ErrInvalidEmail) CodeInvalidRequest ''invalid email''"
  "userToAppError (Sentinel ErrInvalidID) = apperror_Wrap (Sentinel ErrInvalidID) CodeInvalidRequest ''invalid ID''"
  "userToAppError (Sentinel ErrUserNotFound) = apperror_Wrap (Sentinel ErrUserNotFound) CodeNotFound ''user not found''"
  "userToAppError (Sentinel ErrDuplicateEmail) = apperror_Wrap (Sentinel ErrDuplicateEmail) CodeConflict ''email already exists''"
  "opaque_error e \<Longrightarrow> userToAppError e = apperror_Wrap e CodeInternalError ''internal server error''"
  by (simp_all add: userToAppError_def)

lemma code_distinct [simp]:
  "CodeInternalError \<noteq> CodeConflict" "CodeInternalError \<noteq> CodeNotFound"
  "CodeInternalError \<noteq> CodeInvalidRequest" "CodeConflict \<noteq> CodeNotFound"
  "CodeConflict \<noteq> CodeInvalidRequest" "CodeNotFound \<noteq> CodeInvalidRequest"
  by (simp_all add: code_defs)

section \<open>The use cases over the contract\<close>

definition env_frame :: "'w env \<Rightarrow> ('w \<Rightarrow> 'a) \<Rightarrow> bool" where
  "env_frame E f \<longleftrightarrow> (\<forall>w. f (snd (env_now E w)) = f w \<and> f (snd (env_uuid_v7 E w)) = f w)"

locale user_app = user_store +
  assumes env_law: "env_frame E view" "env_frame E ok"
begin

lemma env_simps [simp]:
  "view (snd (env_now E w)) = view w" "view (snd (env_uuid_v7 E w)) = view w"
  "ok (snd (env_now E w)) = ok w" "ok (snd (env_uuid_v7 E w)) = ok w"
  using env_law by (simp_all add: env_frame_def)

lemma create_user:
  assumes ok: "ok w" and run: "run (CreateUseCase_Execute E R sp input) w = ((res, sp'), w')"
  shows "ok w' \<and>
    (\<not> env_mail_ok E (uci_Email input) \<and> w' = w
       \<and> (\<exists>e. res = Inl e \<and> app_code e = CodeInvalidRequest)
     \<or> env_mail_ok E (uci_Email input) \<and>
       (\<exists>u. u_ID u = fst (env_uuid_v7 E w) \<and> u_Name u = uci_Name input \<and> u_Email u = \<lparr>email_value = uci_Email input\<rparr> \<and> u_Active u
         \<and> (\<exists>r. create_spec P u (view w) r (view w') \<and>
             (case r of
                None \<Rightarrow> res = Inr \<lparr>uco_ID = u_ID u, uco_CreatedAt = env_rfc3339 E (u_CreatedAt u)\<rparr>
              | Some e \<Rightarrow> res = Inl (userToAppError e)))))"
proof (cases "env_mail_ok E (uci_Email input)")
  case False
  then show ?thesis using run ok by (auto simp: CreateUseCase_Execute_def NewEmail_def)
next
  case True
  obtain u w1 where u: "run (NewUser E (uci_Name input) \<lparr>email_value = uci_Email input\<rparr>) w = (u, w1)"
    by fastforce
  have w1: "view w1 = view w" "ok w1"
    using u ok by (auto simp: run_NewUser Let_def split: prod.splits)
      (metis env_simps snd_conv)+
  have uf: "u_ID u = fst (env_uuid_v7 E w)" "u_Name u = uci_Name input" "u_Email u = \<lparr>email_value = uci_Email input\<rparr>" "u_Active u"
    using u by (auto simp: run_NewUser Let_def split: prod.splits)
  obtain r w2 where r: "run (repo_Create R u) w1 = (r, w2)" by fastforce
  have "ok w2 \<and> create_spec P u (view w) r (view w2)"
    using create_law [OF w1(2) _ r] w1(1) uf True by (simp add: user_valid_def)
  moreover have "w' = w2" "case r of
                None \<Rightarrow> res = Inr \<lparr>uco_ID = u_ID u, uco_CreatedAt = env_rfc3339 E (u_CreatedAt u)\<rparr>
              | Some e \<Rightarrow> res = Inl (userToAppError e)"
    using run u r True
    by (auto simp: CreateUseCase_Execute_def NewEmail_def run_pbind Let_def ID_String_def split: option.splits)
  ultimately show ?thesis using True uf by blast
qed

lemma list_users:
  assumes ok: "ok w" and run: "run (ListUseCase_Execute E R sp input) w = ((res, sp'), w')"
  shows "ok w' \<and> view w' = view w \<and>
    (\<exists>l. list_spec P \<lparr>uf_Page = uli_Page input, uf_Limit = uli_Limit input, uf_Name = uli_Name input,
           uf_Email = uli_Email input, uf_ActiveOnly = uli_ActiveOnly input\<rparr> (view w) l \<and>
       (case l of
          Inl e \<Rightarrow> opaque_error e \<and> res = Inl (userToAppError e)
        | Inr l \<Rightarrow> res = Inr \<lparr>ulo_Data = map (user_output E) (ulr_Users l),
             ulo_Pagination = \<lparr>po_Page = ulr_Page l, po_Limit = ulr_Limit l, po_Total = ulr_Total l,
               po_TotalPages = total_pages (ulr_Total l) (ulr_Limit l)\<rparr>\<rparr>))"
proof -
  let ?f = "\<lparr>uf_Page = uli_Page input, uf_Limit = uli_Limit input, uf_Name = uli_Name input,
           uf_Email = uli_Email input, uf_ActiveOnly = uli_ActiveOnly input\<rparr>"
  obtain l w1 where l: "run (repo_List R ?f) w = (l, w1)" by fastforce
  from list_law [OF ok l] have "ok w1 \<and> view w1 = view w \<and> list_spec P ?f (view w) l" .
  moreover have "opaque_error e" if "l = Inl e" for e
    using that \<open>ok w1 \<and> view w1 = view w \<and> list_spec P ?f (view w) l\<close> by (auto simp: list_spec_def Let_def)
  ultimately show ?thesis using run l
    by (auto simp: ListUseCase_Execute_def run_pbind Let_def split: sum.splits intro!: exI [of _ l])
qed

end

section \<open>The cached use cases\<close>

text \<open>Every cached entry is the output of the user its key's ID names.\<close>

definition entry_coherent ::
  "'w env \<Rightarrow> pg \<Rightarrow> user_map \<Rightarrow> (string \<Rightarrow> GetOutput option) \<Rightarrow> string \<Rightarrow> bool" where
  "entry_coherent E P m c s \<longleftrightarrow>
     (\<forall>v. c (''user:'' @ s) = Some v \<longrightarrow>
        (\<exists>i u. pg_uuid P s = Some i \<and> m i = Some u \<and> v = user_output E u))"

definition coherent :: "'w env \<Rightarrow> pg \<Rightarrow> user_map \<Rightarrow> (string \<Rightarrow> GetOutput option) \<Rightarrow> bool" where
  "coherent E P m c \<longleftrightarrow> (\<forall>s. entry_coherent E P m c s)"

lemma entry_coherent_mono: "c' \<subseteq>\<^sub>m c \<Longrightarrow> entry_coherent E P m c s \<Longrightarrow> entry_coherent E P m c' s"
  by (auto simp: entry_coherent_def map_le_def) (metis domI)

lemma coherent_mono: "c' \<subseteq>\<^sub>m c \<Longrightarrow> coherent E P m c \<Longrightarrow> coherent E P m c'"
  unfolding coherent_def using entry_coherent_mono by blast

lemma coherentD:
  "coherent E P m c \<Longrightarrow> c (''user:'' @ s) = Some v \<Longrightarrow>
    \<exists>i u. pg_uuid P s = Some i \<and> m i = Some u \<and> v = user_output E u"
  unfolding coherent_def entry_coherent_def by blast

lemma coherent_put:
  "coherent E P m c \<Longrightarrow> pg_uuid P s = Some i \<Longrightarrow> m i = Some u \<Longrightarrow>
    coherent E P m (c(''user:'' @ s \<mapsto> user_output E u))"
  by (auto simp: coherent_def entry_coherent_def)

text \<open>A change of one user touches the entries under the spellings of its ID only.\<close>

lemma entry_coherent_upd:
  "entry_coherent E P m c s \<Longrightarrow> pg_uuid P s \<noteq> Some i \<Longrightarrow> entry_coherent E P (m(i := x)) c s"
  by (auto simp: entry_coherent_def) blast

text \<open>
  What the span of an update or a deletion says about the cached entry: either the invalidation
  is recorded as failed, or as done and then \<open>Q\<close> holds.
\<close>

definition invalidation_reported :: "span option \<Rightarrow> span option \<Rightarrow> string \<Rightarrow> bool \<Rightarrow> bool" where
  "invalidation_reported sp sp' s Q \<longleftrightarrow>
     (\<exists>err. sp' = RecordEvent sp ''cache.invalidate_failed'' [cache_key_attr (''user:'' @ s), err])
     \<or> sp' = RecordEvent sp ''cache.invalidated'' [cache_key_attr (''user:'' @ s)] \<and> Q"

lemma invalidation_reported_mono:
  "invalidation_reported sp sp' s Q \<Longrightarrow> (Q \<Longrightarrow> Q') \<Longrightarrow> invalidation_reported sp sp' s Q'"
  by (auto simp: invalidation_reported_def)

lemma entry_coherent_None: "c (''user:'' @ s) = None \<Longrightarrow> entry_coherent E P m c s"
  by (simp add: entry_coherent_def)

lemma invalidation_reported_coherent:
  "invalidation_reported sp sp' s (c (''user:'' @ s) = None) \<Longrightarrow>
    invalidation_reported sp sp' s (entry_coherent E P m c s)"
  by (rule invalidation_reported_mono [OF _ entry_coherent_None])

definition flight_ok :: "'w flight_group \<Rightarrow> bool" where
  "flight_ok fg \<longleftrightarrow>
     (\<forall>key fn w. \<exists>sh. run (FlightGroup_Do fg key fn) w = ((fst (run fn w), sh), snd (run fn w)))"

locale cached_app = user_app E P R view ok + cache_store C cmap
  for E :: "'w env" and P R view ok and C :: "('w, GetOutput) cache" and cmap +
  assumes now_frame: "cmap (snd (env_now E w)) \<subseteq>\<^sub>m cmap w"
    and find_frame: "cmap (snd (run (repo_FindByID R i) w)) \<subseteq>\<^sub>m cmap w"
    and update_frame: "cmap (snd (run (repo_Update R u) w)) \<subseteq>\<^sub>m cmap w"
    and delete_frame: "cmap (snd (run (repo_Delete R i) w)) \<subseteq>\<^sub>m cmap w"
    and cget_frame: "view (snd (run (ca_Get C k) w)) = view w" "ok (snd (run (ca_Get C k) w)) = ok w"
    and cset_frame: "view (snd (run (ca_Set C k v) w)) = view w" "ok (snd (run (ca_Set C k v) w)) = ok w"
    and cdel_frame: "view (snd (run (ca_Delete C k) w)) = view w" "ok (snd (run (ca_Delete C k) w)) = ok w"
begin

lemma run_get_load:
  assumes "\<And>fg. flight = Some fg \<Longrightarrow> flight_ok fg" and "run (repo_FindByID R i) w = (f, w1)"
  shows "\<exists>sp'. run (get_load R flight sp s i key) w
    = ((case f of Inl e \<Rightarrow> Inl (userToAppError e) | Inr u \<Rightarrow> Inr u, sp'), w1)"
proof (cases flight)
  case None
  then show ?thesis using assms(2) by (cases f) (auto simp: get_load_def run_pbind)
next
  case (Some fg)
  let ?fn = "pbind (repo_FindByID R i) (\<lambda>f. Return (map_sum id FlightUser f))"
  have fn: "run ?fn w = (map_sum id FlightUser f, w1)" using assms(2) by (simp add: run_pbind)
  obtain sh where "run (FlightGroup_Do fg s ?fn) w = ((fst (run ?fn w), sh), snd (run ?fn w))"
    using assms(1) [OF Some] unfolding flight_ok_def by blast
  then have "run (FlightGroup_Do fg s ?fn) w = ((map_sum id FlightUser f, sh), w1)" by (simp add: fn)
  then show ?thesis using Some by (cases f) (auto simp: get_load_def run_pbind Let_def)
qed

lemma get_user:
  assumes ok: "ok w" and coh: "coherent E P (view w) (cmap w)" and C: "c = None \<or> c = Some C"
    and fl: "\<And>fg. flight = Some fg \<Longrightarrow> flight_ok fg"
    and run: "run (GetUseCase_Execute E R c flight sp input) w = ((res, sp'), w')"
  shows "ok w' \<and> view w' = view w \<and> coherent E P (view w') (cmap w') \<and>
    (\<not> env_uuid_ok E (ugi_ID input) \<and> (\<exists>e. res = Inl e \<and> app_code e = CodeInvalidRequest)
     \<or> (\<exists>i u. pg_uuid P (ugi_ID input) = Some i \<and> view w i = Some u \<and> res = Inr (user_output E u))
     \<or> (\<exists>i. pg_uuid P (ugi_ID input) = Some i \<and> view w i = None
          \<and> (\<exists>e. res = Inl e \<and> app_code e = CodeNotFound))
     \<or> (\<exists>e. res = Inl e \<and> app_code e = CodeInternalError))" (is "?goal")
proof (cases "env_uuid_ok E (ugi_ID input)")
  case False
  then show ?thesis using run ok coh by (auto simp: GetUseCase_Execute_def ParseID_def)
next
  case True
  let ?s = "ugi_ID input" and ?key = "''user:'' @ ugi_ID input"
  have load: ?goal if "ok w0" "view w0 = view w" "cmap w0 \<subseteq>\<^sub>m cmap w"
    and tail: "run (repo_FindByID R ?s) w0 = (f, w1)"
      "case f of
         Inl e \<Rightarrow> res = Inl (userToAppError e) \<and> w' = w1
       | Inr u \<Rightarrow> res = Inr (user_output E u) \<and>
           (w' = w1 \<or> w' = snd (run (ca_Set C ?key (user_output E u)) w1))" for w0 f w1
  proof -
    have f: "ok w1" "view w1 = view w" "find_spec P ?s (view w) f"
      using find_law [OF that(1) tail(1)] that(2) by auto
    have c1: "cmap w1 \<subseteq>\<^sub>m cmap w" using find_frame [of ?s w0] tail(1) that(3) by (auto intro: map_le_trans)
    have coh1: "coherent E P (view w) (cmap w1)" using coherent_mono [OF c1 coh] .
    show ?thesis
    proof (cases f)
      case (Inl e)
      then show ?thesis using tail(2) f coh1 by (auto simp: find_spec_def)
    next
      case (Inr u)
      then obtain i where i: "pg_uuid P ?s = Some i" "view w i = Some u"
        using f(3) by (auto simp: find_spec_def)
      let ?w = "snd (run (ca_Set C ?key (user_output E u)) w1)"
      have "cmap ?w \<subseteq>\<^sub>m (cmap w1)(?key \<mapsto> user_output E u) \<or> cmap ?w \<subseteq>\<^sub>m cmap w1"
        using cset_law [of ?key "user_output E u" w1] by (metis prod.collapse)
      then have "coherent E P (view w) (cmap ?w)"
        using coherent_put [OF coh1 i] coh1 by (auto intro: coherent_mono)
      then show ?thesis using tail(2) Inr i f coh1 cset_frame [of ?key "user_output E u" w1] by auto
    qed
  qed
  show ?thesis
  proof (cases c)
    case None
    obtain f w1 where f: "run (repo_FindByID R ?s) w = (f, w1)" by fastforce
    obtain sp1 where "run (get_load R flight sp ?s ?s ?key) w
        = ((case f of Inl e \<Rightarrow> Inl (userToAppError e) | Inr u \<Rightarrow> Inr u, sp1), w1)"
      using run_get_load [OF fl f] by blast
    then have "case f of Inl e \<Rightarrow> res = Inl (userToAppError e) \<and> w' = w1
        | Inr u \<Rightarrow> res = Inr (user_output E u) \<and> w' = w1"
      using run True None by (auto simp: GetUseCase_Execute_def ParseID_def run_pbind Let_def split: sum.splits)
    then show ?thesis using load [OF ok refl map_le_refl f] by (auto split: sum.splits)
  next
    case (Some c')
    with C have c: "c = Some C" by simp
    obtain g w0 where g: "run (ca_Get C ?key) w = (g, w0)" by fastforce
    have w0: "ok w0" "view w0 = view w" "cmap w0 \<subseteq>\<^sub>m cmap w" "\<And>v. g = Inr v \<Longrightarrow> cmap w ?key = Some v"
      using cget_law [OF g] cget_frame [of ?key w] g ok by auto
    show ?thesis
    proof (cases g)
      case (Inr v)
      then have "res = Inr v" "w' = w0"
        using run True c g by (auto simp: GetUseCase_Execute_def ParseID_def run_pbind Let_def)
      moreover obtain i u where "pg_uuid P ?s = Some i" "view w i = Some u" "v = user_output E u"
        using coherentD [OF coh w0(4) [OF Inr]] by blast
      ultimately show ?thesis using w0 coherent_mono [OF w0(3) coh] by auto
    next
      case (Inl ge)
      obtain f w1 where f: "run (repo_FindByID R ?s) w0 = (f, w1)" by fastforce
      obtain sp1 where sp1: "run (get_load R flight (RecordEvent sp ''cache.miss'' [cache_key_attr ?key]) ?s ?s ?key) w0
          = ((case f of Inl e \<Rightarrow> Inl (userToAppError e) | Inr u \<Rightarrow> Inr u, sp1), w1)"
        using run_get_load [OF fl f] by blast
      have "case f of
         Inl e \<Rightarrow> res = Inl (userToAppError e) \<and> w' = w1
       | Inr u \<Rightarrow> res = Inr (user_output E u) \<and>
           (w' = w1 \<or> w' = snd (run (ca_Set C ?key (user_output E u)) w1))"
        using run True c g Inl sp1
        by (cases f) (auto simp: GetUseCase_Execute_def ParseID_def run_pbind Let_def split: option.splits)
      then show ?thesis using load [OF w0(1-3) f] by blast
    qed
  qed
qed

lemma invalidate_run:
  assumes "c = None \<or> c = Some C" and "run (invalidate c s sp) w = (sp', w')"
  shows "view w' = view w \<and> ok w' = ok w \<and> (c = None \<longrightarrow> sp' = sp \<and> w' = w) \<and> cmap w' \<subseteq>\<^sub>m cmap w
    \<and> (c = Some C \<longrightarrow> invalidation_reported sp sp' s (cmap w' (''user:'' @ s) = None))"
proof (cases c)
  case None
  then show ?thesis using assms(2) by (simp add: invalidate_def)
next
  case (Some c')
  with assms(1) have c: "c = Some C" by simp
  obtain err w1 where d: "run (ca_Delete C (''user:'' @ s)) w = (err, w1)" by fastforce
  have "w' = w1" using assms(2) c d by (auto simp: invalidate_def run_pbind Let_def split: option.splits)
  moreover have "view w1 = view w" "ok w1 = ok w" using cdel_frame [of "''user:'' @ s" w] d by simp_all
  ultimately show ?thesis using cdel_law [OF d] assms(2) c d
    by (cases err) (auto simp: invalidate_def run_pbind Let_def invalidation_reported_def)
qed

lemma delete_user:
  assumes ok: "ok w" and coh: "coherent E P (view w) (cmap w)" and C: "c = None \<or> c = Some C"
    and run: "run (DeleteUseCase_Execute E R c sp input) w = ((res, sp'), w')"
  shows "ok w' \<and> cmap w' \<subseteq>\<^sub>m cmap w \<and>
    (\<not> env_uuid_ok E (udi_ID input) \<and> w' = w \<and> (\<exists>e. res = Inl e \<and> app_code e = CodeInvalidRequest)
     \<or> env_uuid_ok E (udi_ID input) \<and>
       (\<exists>r. delete_spec P (udi_ID input) (view w) r (view w') \<and>
          (case r of
             Some e \<Rightarrow> res = Inl (userToAppError e)
           | None \<Rightarrow> res = Inr \<lparr>udo_ID = udi_ID input\<rparr> \<and>
               (c = Some C \<longrightarrow> invalidation_reported sp sp' (udi_ID input)
                  (entry_coherent E P (view w') (cmap w') (udi_ID input))))))"
proof (cases "env_uuid_ok E (udi_ID input)")
  case False
  then show ?thesis using run ok by (auto simp: DeleteUseCase_Execute_def ParseID_def)
next
  case True
  let ?s = "udi_ID input"
  obtain r w1 where r: "run (repo_Delete R ?s) w = (r, w1)" by fastforce
  have d: "ok w1" "delete_spec P ?s (view w) r (view w1)" "cmap w1 \<subseteq>\<^sub>m cmap w"
    using delete_law [OF ok r] delete_frame [of ?s w] r by auto
  show ?thesis
  proof (cases r)
    case (Some e)
    then show ?thesis using run r True d
      by (auto simp: DeleteUseCase_Execute_def ParseID_def run_pbind intro!: exI [of _ "Some e"])
  next
    case None
    obtain sp1 w2 where i: "run (invalidate c ?s sp) w1 = (sp1, w2)" by fastforce
    have eq: "w' = w2" "sp' = sp1" "res = Inr \<lparr>udo_ID = ?s\<rparr>"
      using run r True None i by (auto simp: DeleteUseCase_Execute_def ParseID_def run_pbind)
    from invalidate_run [OF C i] have v: "view w2 = view w1" "ok w2" "cmap w2 \<subseteq>\<^sub>m cmap w"
      using d by (auto intro: map_le_trans)
    have "c = Some C \<longrightarrow> invalidation_reported sp sp' ?s (entry_coherent E P (view w') (cmap w') ?s)"
      using invalidate_run [OF C i] invalidation_reported_coherent unfolding eq by blast
    then show ?thesis using eq v d(2) True None by (intro conjI disjI2 exI [of _ r]) simp_all
  qed
qed

end

definition changed :: "'w env \<Rightarrow> UpdateInput \<Rightarrow> User \<Rightarrow> User \<Rightarrow> bool" where
  "changed E input e0 e \<longleftrightarrow>
     u_ID e = u_ID e0 \<and> u_Active e = u_Active e0 \<and> u_CreatedAt e = u_CreatedAt e0
     \<and> u_Name e = (case uui_Name input of None \<Rightarrow> u_Name e0 | Some n \<Rightarrow> n)
     \<and> u_Email e = (case uui_Email input of None \<Rightarrow> u_Email e0 | Some m \<Rightarrow> \<lparr>email_value = m\<rparr>)
     \<and> (\<forall>m. uui_Email input = Some m \<longrightarrow> env_mail_ok E m)"

lemma run_apply_update:
  "fst (run (apply_update E e0 input) w) = Inl err \<Longrightarrow>
     err = Sentinel ErrInvalidEmail \<and> (\<exists>m. uui_Email input = Some m \<and> \<not> env_mail_ok E m)"
  "fst (run (apply_update E e0 input) w) = Inr e \<Longrightarrow> changed E input e0 e"
  by (auto simp: apply_update_def changed_def run_pbind run_User_mutators NewEmail_def
      split: option.splits if_splits)

lemma apply_update_frame:
  assumes "\<And>w. Q w \<Longrightarrow> Q (snd (env_now E w))" and "Q w"
  shows "Q (snd (run (apply_update E e0 input) w))"
  using assms
  by (auto simp: apply_update_def run_pbind run_User_mutators NewEmail_def split: option.splits)

context cached_app
begin

lemma update_user:
  assumes ok: "ok w" and coh: "coherent E P (view w) (cmap w)" and C: "c = None \<or> c = Some C"
    and run: "run (UpdateUseCase_Execute E R c sp input) w = ((res, sp'), w')"
  shows "ok w' \<and> cmap w' \<subseteq>\<^sub>m cmap w \<and>
    (view w' = view w \<and> (\<exists>e. res = Inl e \<and>
        (app_code e = CodeInvalidRequest \<and> (\<not> env_uuid_ok E (uui_ID input) \<or>
             (\<exists>m. uui_Email input = Some m \<and> \<not> env_mail_ok E m))
         \<or> app_code e = CodeNotFound \<and> (\<exists>i. pg_uuid P (uui_ID input) = Some i \<and> view w i = None)
         \<or> app_code e = CodeInternalError))
     \<or> (\<exists>i old u r. pg_uuid P (uui_ID input) = Some i \<and> view w i = Some old \<and> changed E input old u
          \<and> update_spec P u (view w) r (view w')
          \<and> (case r of
               Some e \<Rightarrow> res = Inl (userToAppError e)
             | None \<Rightarrow> res = Inr \<lparr>uuo_ID = u_ID u, uuo_Name = u_Name u,
                   uuo_Email = email_value (u_Email u), uuo_Active = u_Active u,
                   uuo_UpdatedAt = env_rfc3339 E (u_UpdatedAt u)\<rparr> \<and>
               (c = Some C \<longrightarrow> invalidation_reported sp sp' (uui_ID input)
                  (entry_coherent E P (view w') (cmap w') (uui_ID input))))))"
    (is "_ \<and> _ \<and> (?fail \<or> ?done)")
proof (cases "env_uuid_ok E (uui_ID input)")
  case False
  then show ?thesis using run ok by (auto simp: UpdateUseCase_Execute_def ParseID_def)
next
  case True
  let ?s = "uui_ID input"
  obtain f w1 where f: "run (repo_FindByID R ?s) w = (f, w1)" by fastforce
  have w1: "ok w1" "view w1 = view w" "find_spec P ?s (view w) f" "cmap w1 \<subseteq>\<^sub>m cmap w"
    using find_law [OF ok f] find_frame [of ?s w] f by auto
  show ?thesis
  proof (cases f)
    case (Inl e)
    then show ?thesis using run True f w1
      by (auto simp: UpdateUseCase_Execute_def ParseID_def run_pbind find_spec_def)
  next
    case (Inr e0)
    then obtain i where i: "pg_uuid P ?s = Some i" "view w i = Some e0"
      using w1(3) by (auto simp: find_spec_def)
    obtain u w2 where u: "run (apply_update E e0 input) w1 = (u, w2)" by fastforce
    have "ok w2 \<and> view w2 = view w \<and> cmap w2 \<subseteq>\<^sub>m cmap w"
      using apply_update_frame [of "\<lambda>x. ok x \<and> view x = view w \<and> cmap x \<subseteq>\<^sub>m cmap w" E w1 e0 input]
        w1 u now_frame by (auto intro: map_le_trans)
    then have w2: "ok w2" "view w2 = view w" "cmap w2 \<subseteq>\<^sub>m cmap w" by simp_all
    show ?thesis
    proof (cases u)
      case (Inl e)
      then show ?thesis using run True f \<open>f = Inr e0\<close> u w2 run_apply_update(1) [of E e0 input w1 e]
        by (auto simp: UpdateUseCase_Execute_def ParseID_def run_pbind)
    next
      case (Inr e)
      have ch: "changed E input e0 e" using run_apply_update(2) [of E e0 input w1 e] u Inr by simp
      have "user_valid E e"
        using ch view_law [OF ok i(2)] by (auto simp: user_valid_def changed_def split: option.splits)
      obtain r w3 where r: "run (repo_Update R e) w2 = (r, w3)" by fastforce
      have w3: "ok w3" "update_spec P e (view w) r (view w3)" "cmap w3 \<subseteq>\<^sub>m cmap w"
        using update_law [OF w2(1) \<open>user_valid E e\<close> r] update_frame [of e w2] r w2
        by (auto intro: map_le_trans)
      show ?thesis
      proof (cases r)
        case (Some err)
        then have "w' = w3" "res = Inl (userToAppError err)"
          using run True f \<open>f = Inr e0\<close> u Inr r
          by (auto simp: UpdateUseCase_Execute_def ParseID_def run_pbind)
        then have "?done" using Some w3(2) ch i by (intro exI [of _ i] exI [of _ e0] exI [of _ e] exI [of _ r]) simp
        then show ?thesis using w3 \<open>w' = w3\<close> by simp
      next
        case None
        obtain sp1 w4 where inv: "run (invalidate c ?s sp) w3 = (sp1, w4)" by fastforce
        have eq: "w' = w4" "sp' = sp1" "res = Inr \<lparr>uuo_ID = u_ID e, uuo_Name = u_Name e,
                   uuo_Email = email_value (u_Email e), uuo_Active = u_Active e,
                   uuo_UpdatedAt = env_rfc3339 E (u_UpdatedAt e)\<rparr>"
          using run True f \<open>f = Inr e0\<close> u Inr r None inv
          by (auto simp: UpdateUseCase_Execute_def ParseID_def run_pbind ID_String_def Email_String_def)
        from invalidate_run [OF C inv] have v: "view w4 = view w3" "ok w4" "cmap w4 \<subseteq>\<^sub>m cmap w"
          using w3 by (auto intro: map_le_trans)
        have "c = Some C \<longrightarrow> invalidation_reported sp sp' ?s (entry_coherent E P (view w') (cmap w') ?s)"
          using invalidate_run [OF C inv] invalidation_reported_coherent unfolding eq by blast
        then have "?done" using eq v w3(2) None ch i
          by (intro exI [of _ i] exI [of _ e0] exI [of _ e] exI [of _ r]) simp
        then show ?thesis using v eq by simp
      qed
    qed
  qed
qed

end

end
