(* ===== verification/UserService.thy ===== *)
theory UserService
  imports UserUseCases
begin

text \<open>
  The user use cases over the PostgreSQL repository and the Redis cache: the contracts of the
  layers below put together, their instance on the concrete world, and what a caller of the five
  use cases can observe.
\<close>

section \<open>The assembled back end\<close>

text \<open>
  \<open>backend\<close>: writer and reader are handles on one server whose tables are \<open>tbl\<close>, the clock and the
  ID source do not touch them, and PostgreSQL and \<open>google/uuid\<close> agree on canonical IDs.
\<close>

definition backend ::
  "'w env \<Rightarrow> pg \<Rightarrow> 'w sqlx_db \<Rightarrow> 'w sqlx_db \<Rightarrow> ('w \<Rightarrow> tables) \<Rightarrow> bool" where
  "backend E P hw hr tbl \<longleftrightarrow>
     sql_server P hw tbl \<and> sql_server P hr tbl \<and> env_pg E P \<and> env_frame E tbl"

abbreviation pg_users :: "'w env \<Rightarrow> 'w sqlx_db \<Rightarrow> 'w sqlx_db \<Rightarrow> 'w user_repo" where
  "pg_users E hw hr \<equiv> postgres_users E (NewUserRepository hw hr)"

lemma backend_user_app:
  assumes "backend E P hw hr tbl"
  shows "user_app E P (pg_users E hw hr) (\<lambda>w. users_view (tbl w)) (\<lambda>w. store_ok E P (tbl w))"
proof -
  have "user_store E P (pg_users E hw hr) (\<lambda>w. users_view (tbl w)) (\<lambda>w. store_ok E P (tbl w))"
    using assms by (intro postgres_user_store) (simp_all add: backend_def)
  then show ?thesis
    using assms by (simp add: user_app_def user_app_axioms_def backend_def env_frame_def)
qed

text \<open>
  \<open>cache_backend\<close>: a Redis client on a server that holds \<open>kv\<close>, separate from the tables; while a
  statement runs entries may expire.
\<close>

definition cache_backend ::
  "'w env \<Rightarrow> 'w sqlx_db \<Rightarrow> 'w sqlx_db \<Rightarrow> ('w \<Rightarrow> tables) \<Rightarrow> GetOutput codec \<Rightarrow> 'w RedisClient
    \<Rightarrow> ('w \<Rightarrow> string \<Rightarrow> string option) \<Rightarrow> bool" where
  "cache_backend E hw hr tbl cd c kv \<longleftrightarrow>
     redis_server (rcl_client c) kv \<and> codec_ok cd
     \<and> (\<forall>st w. kv (snd (x_exec hw st w)) \<subseteq>\<^sub>m kv w \<and> kv (snd (x_exec hr st w)) \<subseteq>\<^sub>m kv w)
     \<and> (\<forall>w. kv (snd (env_now E w)) \<subseteq>\<^sub>m kv w)
     \<and> (\<forall>k w. tbl (snd (rd_Get (rcl_client c) k w)) = tbl w \<and> tbl (snd (rd_Del (rcl_client c) k w)) = tbl w)
     \<and> (\<forall>k v d w. tbl (snd (rd_Set (rcl_client c) k v d w)) = tbl w)"

lemma run_redis_cache:
  "tbl (snd (rd_Get (rcl_client c) k w)) = tbl w \<Longrightarrow> tbl (snd (run (ca_Get (redis_cache cd (Some c)) k) w)) = tbl w"
  "(\<And>s. tbl (snd (rd_Set (rcl_client c) k s (rcl_ttl c) w)) = tbl w) \<Longrightarrow>
     tbl (snd (run (ca_Set (redis_cache cd (Some c)) k v) w)) = tbl w"
  "tbl (snd (rd_Del (rcl_client c) k w)) = tbl w \<Longrightarrow> tbl (snd (run (ca_Delete (redis_cache cd (Some c)) k) w)) = tbl w"
  by (auto simp: redis_cache_def RedisClient_Get_def RedisClient_Set_def RedisClient_Delete_def run_pbind
      split: sum.split)

lemma backend_cached_app:
  assumes b: "backend E P hw hr tbl" and c: "cache_backend E hw hr tbl cd c kv"
  shows "cached_app E P (pg_users E hw hr) (\<lambda>w. users_view (tbl w)) (\<lambda>w. store_ok E P (tbl w))
    (redis_cache cd (Some c)) (\<lambda>w. cached cd (kv w))"
proof -
  have "cache_store (redis_cache cd (Some c)) (\<lambda>w. cached cd (kv w))"
    using c by (intro redis_cache_store) (simp_all add: cache_backend_def)
  moreover have "tbl (snd (run (ca_Get (redis_cache cd (Some c)) k) w)) = tbl w"
    "tbl (snd (run (ca_Set (redis_cache cd (Some c)) k v) w)) = tbl w"
    "tbl (snd (run (ca_Delete (redis_cache cd (Some c)) k) w)) = tbl w" for k v w
    using c by (simp_all add: run_redis_cache cache_backend_def)
  moreover have "cached cd (kv (snd (x_exec hw st w))) \<subseteq>\<^sub>m cached cd (kv w)"
    "cached cd (kv (snd (x_exec hr st w))) \<subseteq>\<^sub>m cached cd (kv w)"
    "cached cd (kv (snd (env_now E w))) \<subseteq>\<^sub>m cached cd (kv w)" for st w
    using c by (simp_all add: cached_mono cache_backend_def)
  moreover have "snd (run (find_user E r q) w) = snd (x_exec (ur_reader r) q w)" for r q w
    by (simp add: run_find_user split: prod.split)
  ultimately show ?thesis using backend_user_app [OF b]
    by (simp add: cached_app_def cached_app_axioms_def postgres_users_def UserRepository_FindByID_def
        run_UserRepository_Update run_UserRepository_Delete NewUserRepository_def)
qed

section \<open>The concrete back end\<close>

definition nul :: char where "nul = CHR 0x00"

definition output_fields :: "GetOutput \<Rightarrow> string list" where
  "output_fields r =
     [ugo_ID r, ugo_Name r, ugo_Email r, (if ugo_Active r then ''true'' else ''false''),
      ugo_CreatedAt r, ugo_UpdatedAt r]"

definition world_codec :: "GetOutput codec" where
  "world_codec =
     \<lparr>cd_marshal = (\<lambda>r.
        if list_all (\<lambda>f. nul \<notin> set f) (output_fields r) then Inr (Join (output_fields r) [nul])
        else Inl (Opaque ''*json.MarshalerError'' ''unsupported character'')),
      cd_unmarshal = (\<lambda>s.
        case Split s nul of
          [i, n, m, a, c, u] \<Rightarrow>
            Inr \<lparr>ugo_ID = i, ugo_Name = n, ugo_Email = m, ugo_Active = (a = ''true''),
                 ugo_CreatedAt = c, ugo_UpdatedAt = u\<rparr>
        | _ \<Rightarrow> Inl (Opaque ''*json.SyntaxError'' ''invalid character''))\<rparr>"

lemma world_codec_ok: "codec_ok world_codec"
  unfolding codec_ok_def
proof (intro allI impI)
  fix v s
  assume m: "cd_marshal world_codec v = Inr s"
  then have f: "list_all (\<lambda>f. nul \<notin> set f) (output_fields v)" "s = Join (output_fields v) [nul]"
    by (simp_all add: world_codec_def split: if_splits)
  have "Split s nul = output_fields v" unfolding f(2)
    by (rule Split_Join) (use f(1) in \<open>simp_all add: list_all_iff output_fields_def\<close>)
  then show "cd_unmarshal world_codec s = Inr v"
    by (cases v) (simp add: world_codec_def output_fields_def)
qed

definition world_client :: "world RedisClient" where
  "world_client = \<lparr>rcl_client = world_redis, rcl_ttl = 300 * 10 ^ 9\<rparr>"

definition world_cache :: "(world, GetOutput) cache" where
  "world_cache = redis_cache world_codec (Some world_client)"

definition world_cmap :: "world \<Rightarrow> string \<Rightarrow> GetOutput option" where
  "world_cmap w = cached world_codec (world_kv w)"

lemma world_exec_frame [simp]:
  "w_redis (snd (world_exec st w)) = w_redis w" "w_clock (snd (world_exec st w)) = w_clock w"
  by (auto simp: world_exec_def split: list.split prod.split bool.split)

lemma world_backend: "backend world_env world_pg world_db world_db w_tables"
proof -
  have "env_frame world_env w_tables" by (simp add: env_frame_def world_env_def)
  then show ?thesis by (simp add: backend_def wdb.sql_server_axioms world_env_pg)
qed

lemma world_cache_backend:
  "cache_backend world_env world_db world_db w_tables world_codec world_client world_kv"
proof -
  have "world_kv (snd (x_exec world_db st w)) = world_kv w" "world_kv (snd (env_now world_env w)) = world_kv w"
    for st w by (simp_all add: world_db_def world_kv_def world_env_def)
  moreover have "w_tables (snd (rd_Get world_redis k w)) = w_tables w"
    "w_tables (snd (rd_Del world_redis k w)) = w_tables w"
    "w_tables (snd (rd_Set world_redis k v d w)) = w_tables w" for k v d w
    by (simp_all add: world_redis_def)
  ultimately show ?thesis
    by (simp add: cache_backend_def world_client_def wredis.redis_server_axioms world_codec_ok)
qed

interpretation wapp: user_app world_env world_pg world_users world_view world_ok
  unfolding world_users_def world_view_def world_ok_def by (rule backend_user_app [OF world_backend])

interpretation wcached: cached_app world_env world_pg world_users world_view world_ok world_cache world_cmap
  unfolding world_users_def world_view_def world_ok_def world_cache_def world_cmap_def
  by (rule backend_cached_app [OF world_backend world_cache_backend])

lemma ana_coherent:
  "coherent world_env world_pg (users_view (w_tables ana_world)) (cached world_codec (world_kv ana_world))"
  by (simp add: coherent_def entry_coherent_def cached_def world_kv_def ana_world_def empty_world_def)

interpretation wnil: cache_store "redis_cache world_codec None" "\<lambda>w k. None"
  by (rule nil_cache_store)

section \<open>Properties\<close>







text \<open>
  C7: Updating a user.  A success means the stored user now has exactly the given fields, with the
  others untouched, its email belongs to nobody else, and the answer repeats the new values; the
  cached entry under the same ID is gone unless the span records that the invalidation failed.
  A failed update changes nothing, or it is an \<open>INTERNAL_ERROR\<close> of a statement that may have been
  carried out; an email that belongs to another user is such an internal error, not a conflict.
\<close>

theorem update_user_correct:
  assumes "backend E P hw hr tbl" and "cache_backend E hw hr tbl cd rc kv"
    and "store_ok E P (tbl w)" and "coherent E P (users_view (tbl w)) (cached cd (kv w))"
    and "c = Some (redis_cache cd (Some rc))"
    and "run (UpdateUseCase_Execute E (pg_users E hw hr) c sp input) w = ((res, sp'), w')"
  shows "store_ok E P (tbl w') \<and>
    (case res of
       Inr out \<Rightarrow>
         (\<exists>i old u. pg_uuid P (uui_ID input) = Some i \<and> users_view (tbl w) i = Some old
            \<and> changed E input old u \<and> \<not> email_taken (users_view (tbl w)) i (u_Email u)
            \<and> users_view (tbl w') = (users_view (tbl w))(i \<mapsto> updated P u old)
            \<and> out = \<lparr>uuo_ID = i, uuo_Name = u_Name u, uuo_Email = email_value (u_Email u),
                     uuo_Active = u_Active old, uuo_UpdatedAt = env_rfc3339 E (u_UpdatedAt u)\<rparr>
            \<and> invalidation_reported sp sp' (uui_ID input)
                (entry_coherent E P (users_view (tbl w')) (cached cd (kv w')) (uui_ID input)))
     | Inl e \<Rightarrow>
         app_code e = CodeInvalidRequest \<and> users_view (tbl w') = users_view (tbl w)
           \<and> (\<not> env_uuid_ok E (uui_ID input) \<or> (\<exists>m. uui_Email input = Some m \<and> \<not> env_mail_ok E m))
         \<or> app_code e = CodeNotFound \<and> users_view (tbl w') = users_view (tbl w)
           \<and> (\<exists>i. pg_uuid P (uui_ID input) = Some i \<and> users_view (tbl w) i = None)
         \<or> app_code e = CodeInternalError \<and>
           (users_view (tbl w') = users_view (tbl w)
            \<or> (\<exists>i old u. pg_uuid P (uui_ID input) = Some i \<and> users_view (tbl w) i = Some old
                 \<and> changed E input old u
                 \<and> users_view (tbl w') = (users_view (tbl w))(i \<mapsto> updated P u old))))"
proof -
  note app = backend_cached_app [OF assms(1,2)]
  have c: "c = None \<or> c = Some (redis_cache cd (Some rc))" using assms(5) by blast
  have id: "u_ID old = i \<and> pg_uuid P i = Some i" if "users_view (tbl w) i = Some old" for i old
    using user_store.view_law [OF user_app.axioms(1) [OF backend_user_app [OF assms(1)]] assms(3) that] by blast
  from cached_app.update_user [OF app assms(3,4) c assms(6)] consider
    (fail) e where "store_ok E P (tbl w')" "users_view (tbl w') = users_view (tbl w)" "res = Inl e"
      "app_code e = CodeInvalidRequest \<and> (\<not> env_uuid_ok E (uui_ID input) \<or>
             (\<exists>m. uui_Email input = Some m \<and> \<not> env_mail_ok E m))
         \<or> app_code e = CodeNotFound \<and> (\<exists>i. pg_uuid P (uui_ID input) = Some i \<and> users_view (tbl w) i = None)
         \<or> app_code e = CodeInternalError"
  | (act) i old u r where "store_ok E P (tbl w')" "pg_uuid P (uui_ID input) = Some i"
      "users_view (tbl w) i = Some old" "changed E input old u"
      "update_spec P u (users_view (tbl w)) r (users_view (tbl w'))"
      "case r of
               Some e \<Rightarrow> res = Inl (userToAppError e)
             | None \<Rightarrow> res = Inr \<lparr>uuo_ID = u_ID u, uuo_Name = u_Name u,
                   uuo_Email = email_value (u_Email u), uuo_Active = u_Active u,
                   uuo_UpdatedAt = env_rfc3339 E (u_UpdatedAt u)\<rparr> \<and>
               (c = Some (redis_cache cd (Some rc)) \<longrightarrow> invalidation_reported sp sp' (uui_ID input)
                  (entry_coherent E P (users_view (tbl w')) (cached cd (kv w')) (uui_ID input)))"
    by blast
  then show ?thesis
  proof cases
    case fail
    then show ?thesis by auto
  next
    case act
    have u: "u_ID u = i" "u_Active u = u_Active old" "pg_uuid P (u_ID u) = Some i"
      using act(3,4) id by (auto simp: changed_def)
    show ?thesis
    proof (cases r)
      case None
      then show ?thesis using act u assms(5) by (auto simp: update_spec_def)
    next
      case (Some e)
      then have "opaque_error e" using act(3,5) u by (auto simp: update_spec_def)
      moreover have "users_view (tbl w') = users_view (tbl w)
          \<or> users_view (tbl w') = (users_view (tbl w))(i \<mapsto> updated P u old)"
        using act(3,5) u by (auto simp: update_spec_def)
      ultimately show ?thesis using Some act by auto
    qed
  qed
qed

theorem update_user_correct_witness:
  "case fst (fst (run (UpdateUseCase_Execute world_env (pg_users world_env world_db world_db)
        (Some (redis_cache world_codec (Some world_client))) None
        \<lparr>uui_ID = ana_id, uui_Name = Some ''Ana B'', uui_Email = None\<rparr>) ana_world)) of
     Inr out \<Rightarrow> uuo_ID out = ana_id \<and> uuo_Name out = ''Ana B'' \<and> uuo_Email out = ''ana@x.org''
   | Inl e \<Rightarrow> app_code e = CodeInternalError"
proof -
  obtain res sp' w' where r: "run (UpdateUseCase_Execute world_env (pg_users world_env world_db world_db)
        (Some (redis_cache world_codec (Some world_client))) None
        \<lparr>uui_ID = ana_id, uui_Name = Some ''Ana B'', uui_Email = None\<rparr>) ana_world = ((res, sp'), w')"
    by (metis prod.exhaust)
  from update_user_correct [OF world_backend world_cache_backend ana_world_ok ana_coherent refl r]
  show ?thesis unfolding r fst_conv
    by (cases res) (auto simp: ana_view changed_def ana_row_def split: if_splits)
qed

text \<open>
  C9: Deleting a user is a soft deletion.  A success means an active user with that ID is now inactive
  and keeps its other fields, no other user changed, and the cached entry under the same ID is gone
  unless the span records that the invalidation failed; deleting an unknown or an already deleted
  user is \<open>NOT_FOUND\<close> without a change.
\<close>

theorem delete_user_correct:
  assumes "backend E P hw hr tbl" and "cache_backend E hw hr tbl cd rc kv"
    and "store_ok E P (tbl w)" and "coherent E P (users_view (tbl w)) (cached cd (kv w))"
    and "c = Some (redis_cache cd (Some rc))"
    and "run (DeleteUseCase_Execute E (pg_users E hw hr) c sp input) w = ((res, sp'), w')"
  shows "store_ok E P (tbl w') \<and>
    (case res of
       Inr out \<Rightarrow>
         (\<exists>i old t. pg_uuid P (udi_ID input) = Some i \<and> users_view (tbl w) i = Some old \<and> u_Active old
            \<and> users_view (tbl w') = (users_view (tbl w))(i \<mapsto> old\<lparr>u_Active := False, u_UpdatedAt := t\<rparr>)
            \<and> out = \<lparr>udo_ID = udi_ID input\<rparr>
            \<and> invalidation_reported sp sp' (udi_ID input)
                (entry_coherent E P (users_view (tbl w')) (cached cd (kv w')) (udi_ID input)))
     | Inl e \<Rightarrow>
         app_code e = CodeInvalidRequest \<and> users_view (tbl w') = users_view (tbl w)
           \<and> \<not> env_uuid_ok E (udi_ID input)
         \<or> app_code e = CodeNotFound \<and> users_view (tbl w') = users_view (tbl w)
           \<and> (\<exists>i. pg_uuid P (udi_ID input) = Some i
                \<and> (\<forall>old. users_view (tbl w) i = Some old \<longrightarrow> \<not> u_Active old))
         \<or> app_code e = CodeInternalError \<and>
           (users_view (tbl w') = users_view (tbl w)
            \<or> (\<exists>i old t. pg_uuid P (udi_ID input) = Some i \<and> users_view (tbl w) i = Some old \<and> u_Active old
                 \<and> users_view (tbl w') =
                     (users_view (tbl w))(i \<mapsto> old\<lparr>u_Active := False, u_UpdatedAt := t\<rparr>))))"
proof -
  have c: "c = None \<or> c = Some (redis_cache cd (Some rc))" using assms(5) by blast
  from cached_app.delete_user [OF backend_cached_app [OF assms(1,2)] assms(3,4) c assms(6)] consider
    (bad) e where "\<not> env_uuid_ok E (udi_ID input)" "w' = w" "res = Inl e" "app_code e = CodeInvalidRequest"
  | (act) r where "store_ok E P (tbl w')"
      "delete_spec P (udi_ID input) (users_view (tbl w)) r (users_view (tbl w'))"
      "case r of
         Some e \<Rightarrow> res = Inl (userToAppError e)
       | None \<Rightarrow> res = Inr \<lparr>udo_ID = udi_ID input\<rparr> \<and>
           (c = Some (redis_cache cd (Some rc)) \<longrightarrow> invalidation_reported sp sp' (udi_ID input)
              (entry_coherent E P (users_view (tbl w')) (cached cd (kv w')) (udi_ID input)))"
    by blast
  then show ?thesis
  proof cases
    case bad
    then show ?thesis using assms(3) by simp
  next
    case act
    show ?thesis
    proof (cases r)
      case None
      then show ?thesis using act assms(5) by (auto simp: delete_spec_def)
    next
      case (Some e)
      then show ?thesis using act by (auto simp: delete_spec_def)
    qed
  qed
qed

theorem delete_user_correct_witness:
  "case fst (fst (run (DeleteUseCase_Execute world_env (pg_users world_env world_db world_db)
        (Some (redis_cache world_codec (Some world_client))) None \<lparr>udi_ID = bob_id\<rparr>) ana_world)) of
     Inr out \<Rightarrow> False
   | Inl e \<Rightarrow> app_code e \<in> {CodeNotFound, CodeInternalError}"
proof -
  obtain res sp' w' where r: "run (DeleteUseCase_Execute world_env (pg_users world_env world_db world_db)
        (Some (redis_cache world_codec (Some world_client))) None \<lparr>udi_ID = bob_id\<rparr>) ana_world
      = ((res, sp'), w')"
    by (metis prod.exhaust)
  from delete_user_correct [OF world_backend world_cache_backend ana_world_ok ana_coherent refl r]
  show ?thesis unfolding r fst_conv by (cases res) (auto simp: ana_view)
qed

section \<open>Listings\<close>

text \<open>The page count is the exact ceiling, although it is computed in floating point.\<close>

lemma total_pages_exact:
  assumes "1 \<le> sint l" and "sint l \<le> 100" and "n \<le> 2 ^ 46"
  shows "sint (total_pages (gint (int n)) l) = max 1 ((int n + sint l - 1) div sint l)"
proof (cases "n = 0")
  case True
  then show ?thesis using assms by (simp add: total_pages_def sint_gint)
next
  case False
  let ?l = "sint l"
  define k where "k = (int n + ?l - 1) div ?l"
  have n: "0 < int n" "int n \<le> 2 ^ 46" using False assms(3) by simp_all
  have sn: "sint (gint (int n)) = int n" using n by (intro sint_gint) simp_all
  have "int n + ?l - 1 = k * ?l + (int n + ?l - 1) mod ?l" by (simp add: k_def)
  moreover have "0 \<le> (int n + ?l - 1) mod ?l" "(int n + ?l - 1) mod ?l < ?l" using assms(1) by simp_all
  ultimately have k: "(k - 1) * ?l < int n" "int n \<le> k * ?l" by (simp_all add: algebra_simps)
  have c: "f64_ceil (f64_div (f64_of_int (int n)) (f64_of_int ?l)) = k"
    using f64_ceil_div [OF n _ assms(2) k] assms(1) by simp
  have k1: "1 \<le> k"
  proof (rule ccontr)
    assume "\<not> 1 \<le> k"
    then have "k * ?l \<le> 0" using assms(1) by (simp add: mult_nonpos_nonneg)
    then show False using k(2) n(1) by linarith
  qed
  have "k - 1 \<le> (k - 1) * ?l" using k1 assms(1) mult_left_mono [of 1 ?l "k - 1"] by simp
  then have "k \<le> int n" using k(1) by linarith
  then have "sint (gint k) = k" using k1 n(2) by (intro sint_gint) simp_all
  then show ?thesis using n assms(1) c sn k1 by (simp add: total_pages_def k_def)
qed

text \<open>
  C10: Listing users.  A successful listing changes nothing and shows the requested page of an
  enumeration, newest first and without repetition, of exactly the users the filter selects; the
  page and limit are the normalised ones, the total counts all selected users, and the number of
  pages is the exact quotient rounded up, at least one.
\<close>

theorem list_users_correct:
  assumes "backend E P hw hr tbl" and "store_ok E P (tbl w)"
    and "run (ListUseCase_Execute E (pg_users E hw hr) sp input) w = ((res, sp'), w')"
    and "f = UserFilter_Normalize \<lparr>uf_Page = uli_Page input, uf_Limit = uli_Limit input,
           uf_Name = uli_Name input, uf_Email = uli_Email input, uf_ActiveOnly = uli_ActiveOnly input\<rparr>"
  shows "store_ok E P (tbl w') \<and> users_view (tbl w') = users_view (tbl w) \<and>
    (case res of
       Inr out \<Rightarrow>
         (\<exists>us. distinct (map u_ID us) \<and> set us = {u \<in> ran (users_view (tbl w)). user_selected P f u}
            \<and> sorted (map (\<lambda>u. - u_CreatedAt u) us)
            \<and> ulo_Data out = map (user_output E)
                (take (nat (sint (uf_Limit f))) (drop (nat (sint (UserFilter_Offset f))) us))
            \<and> po_Page (ulo_Pagination out) = uf_Page f \<and> po_Limit (ulo_Pagination out) = uf_Limit f
            \<and> po_Total (ulo_Pagination out) = gint (int (length us))
            \<and> (length us \<le> 2 ^ 46 \<longrightarrow>
                 sint (po_TotalPages (ulo_Pagination out))
                   = max 1 ((int (length us) + sint (uf_Limit f) - 1) div sint (uf_Limit f))))
     | Inl e \<Rightarrow> app_code e = CodeInternalError)"
proof -
  let ?f0 = "\<lparr>uf_Page = uli_Page input, uf_Limit = uli_Limit input,
           uf_Name = uli_Name input, uf_Email = uli_Email input, uf_ActiveOnly = uli_ActiveOnly input\<rparr>"
  from user_app.list_users [OF backend_user_app [OF assms(1)] assms(2,3)]
  obtain l where l: "store_ok E P (tbl w')" "users_view (tbl w') = users_view (tbl w)"
    "list_spec P ?f0 (users_view (tbl w)) l"
    "case l of
          Inl e \<Rightarrow> opaque_error e \<and> res = Inl (userToAppError e)
        | Inr l \<Rightarrow> res = Inr \<lparr>ulo_Data = map (user_output E) (ulr_Users l),
             ulo_Pagination = \<lparr>po_Page = ulr_Page l, po_Limit = ulr_Limit l, po_Total = ulr_Total l,
               po_TotalPages = total_pages (ulr_Total l) (ulr_Limit l)\<rparr>\<rparr>" by blast
  have lim: "1 \<le> sint (uf_Limit f)" "sint (uf_Limit f) \<le> 100"
    unfolding assms(4) by (rule UserFilter_Normalize_range)+
  show ?thesis
  proof (cases l)
    case (Inl e)
    then show ?thesis using l by simp
  next
    case (Inr lr)
    then obtain us where us: "distinct (map u_ID us)" "set us = {u \<in> ran (users_view (tbl w)). user_selected P f u}"
        "sorted (map (\<lambda>u. - u_CreatedAt u) us)"
        "lr = \<lparr>ulr_Users = take (nat (sint (uf_Limit f))) (drop (nat (sint (UserFilter_Offset f))) us),
                    ulr_Total = gint (int (length us)), ulr_Page = uf_Page f, ulr_Limit = uf_Limit f\<rparr>"
      using l(3) by (auto simp: list_spec_def Let_def assms(4) [symmetric])
    show ?thesis using l(1,2,4) us(1-3) total_pages_exact [OF lim, of "length us"]
      by (auto simp: Inr us(4) intro!: exI [of _ us])
  qed
qed

theorem list_users_correct_witness:
  "case fst (fst (run (ListUseCase_Execute world_env (pg_users world_env world_db world_db) None
        \<lparr>uli_Page = 0, uli_Limit = 500, uli_Name = [], uli_Email = [], uli_ActiveOnly = False\<rparr>) ana_world)) of
     Inr out \<Rightarrow> sint (po_Limit (ulo_Pagination out)) = 20
   | Inl e \<Rightarrow> app_code e = CodeInternalError"
proof -
  obtain res sp' w' where r: "run (ListUseCase_Execute world_env (pg_users world_env world_db world_db) None
        \<lparr>uli_Page = 0, uli_Limit = 500, uli_Name = [], uli_Email = [], uli_ActiveOnly = False\<rparr>) ana_world
      = ((res, sp'), w')"
    by (metis prod.exhaust)
  from list_users_correct [OF world_backend ana_world_ok r refl]
  show ?thesis unfolding r fst_conv by (cases res) (auto simp: UserFilter_Normalize_def)
qed

lemma sorted_unique:
  fixes key :: "'a \<Rightarrow> int"
  assumes "distinct xs" and "distinct ys" and "set xs = set ys" and "inj_on key (set xs)"
    and "sorted (map key xs)" and "sorted (map key ys)"
  shows "xs = ys"
proof -
  have "map key xs = map key ys"
    by (rule sorted_distinct_set_unique) (use assms in \<open>simp_all add: distinct_map\<close>)
  then show ?thesis using assms(3,4) by (metis inj_on_map_eq_map sup.idem)
qed

lemma concat_pages:
  "concat (map (\<lambda>p. take l (drop (p * l) xs)) [0..<n]) = take (n * l) xs"
proof (induction n)
  case 0
  then show ?case by simp
next
  case (Suc n)
  have "take (n * l) xs @ take l (drop (n * l) xs) = take (Suc n * l) xs"
    using take_add [of "n * l" l xs] by (simp add: add.commute)
  then show ?case using Suc by simp
qed

text \<open>
  C11: The pages of a listing partition the selected users.  Reading pages 1..n one after the other,
  while no user changes and no two selected users were created at the same instant, yields every
  selected user exactly once, newest first, as soon as n pages of that size can hold them all.
\<close>

theorem pages_partition:
  assumes "backend E P hw hr tbl"
    and "\<And>p. p < n \<Longrightarrow> store_ok E P (tbl (ws p)) \<and> users_view (tbl (ws p)) = m"
    and "\<And>p. p < n \<Longrightarrow> run (ListUseCase_Execute E (pg_users E hw hr) sp
            \<lparr>uli_Page = gint (int p + 1), uli_Limit = gint (int l), uli_Name = name, uli_Email = email,
             uli_ActiveOnly = active\<rparr>) (ws p) = ((Inr (outs p), sps p), ws' p)"
    and "1 \<le> l" and "l \<le> 100" and "0 < n" and "n \<le> 2 ^ 55"
    and "selected = {u \<in> ran m. user_selected P
            \<lparr>uf_Page = 1, uf_Limit = 1, uf_Name = name, uf_Email = email, uf_ActiveOnly = active\<rparr> u}"
    and "inj_on u_CreatedAt selected" and "card selected \<le> n * l"
  shows "\<exists>us. distinct us \<and> set us = selected \<and> sorted (map (\<lambda>u. - u_CreatedAt u) us)
    \<and> concat (map (\<lambda>p. ulo_Data (outs p)) [0..<n]) = map (user_output E) us"
proof -
  have key: "inj_on (\<lambda>u. - u_CreatedAt u) selected" using assms(9) by (simp add: inj_on_def)
  have page: "\<exists>us. distinct us \<and> set us = selected \<and> sorted (map (\<lambda>u. - u_CreatedAt u) us)
      \<and> ulo_Data (outs p) = map (user_output E) (take l (drop (p * l) us))" if p: "p < n" for p
  proof -
    let ?f = "\<lparr>uf_Page = gint (int p + 1), uf_Limit = gint (int l), uf_Name = name, uf_Email = email,
        uf_ActiveOnly = active\<rparr>"
    have sp: "sint (gint (int p + 1)) = int p + 1" "sint (gint (int l)) = int l"
      using p assms(5,7) by (auto intro!: sint_gint)
    then have norm: "UserFilter_Normalize ?f = ?f" using assms(4,5) by (intro UserFilter_Normalize_id) simp_all
    have off: "nat (sint (UserFilter_Offset ?f)) = p * l"
      using sint_offset [of "gint (int p + 1)" "gint (int l)"] sp p assms(4,5,7)
      by (simp add: UserFilter_Offset_def nat_mult_distrib)
    from list_users_correct [OF assms(1) _ assms(3) [OF p] refl] assms(2) [OF p]
    obtain us where us: "distinct (map u_ID us)" "set us = {u \<in> ran m. user_selected P ?f u}"
      "sorted (map (\<lambda>u. - u_CreatedAt u) us)"
      "ulo_Data (outs p) = map (user_output E) (take (nat (sint (uf_Limit ?f))) (drop (nat (sint (UserFilter_Offset ?f))) us))"
      by (auto simp: norm)
    moreover have "{u \<in> ran m. user_selected P ?f u} = selected"
      unfolding assms(8) by (simp add: user_selected_def)
    moreover have "distinct us" using us(1) by (simp add: distinct_map)
    ultimately show ?thesis using sp off by auto
  qed
  from page [OF assms(6)] obtain us where us: "distinct us" "set us = selected"
    "sorted (map (\<lambda>u. - u_CreatedAt u) us)" by blast
  have "ulo_Data (outs p) = map (user_output E) (take l (drop (p * l) us))" if "p < n" for p
    using page [OF that] sorted_unique [OF us(1) _ _ _ us(3)] us(2) key by metis
  then have "concat (map (\<lambda>p. ulo_Data (outs p)) [0..<n])
      = concat (map (\<lambda>p. map (user_output E) (take l (drop (p * l) us))) [0..<n])"
    by (intro arg_cong [of _ _ concat] map_cong) simp_all
  also have "\<dots> = map (user_output E) (take (n * l) us)"
    unfolding concat_pages [symmetric] by (simp add: map_concat o_def)
  finally show ?thesis using us assms(10) distinct_card [OF us(1)] by (intro exI [of _ us]) simp
qed

lemma ana_listing:
  "\<exists>out sp' w'. run (ListUseCase_Execute world_env (pg_users world_env world_db world_db) None
      \<lparr>uli_Page = 1, uli_Limit = 1, uli_Name = [], uli_Email = [], uli_ActiveOnly = False\<rparr>) ana_world
    = ((Inr out, sp'), w')"
proof -
  have "\<not> isl (fst (fst (run (ListUseCase_Execute world_env (pg_users world_env world_db world_db) None
      \<lparr>uli_Page = 1, uli_Limit = 1, uli_Name = [], uli_Email = [], uli_ActiveOnly = False\<rparr>) ana_world)))"
    by code_simp
  then show ?thesis by (metis prod.collapse sum.collapse(2))
qed

theorem pages_partition_witness:
  "\<exists>out sp' w'. run (ListUseCase_Execute world_env (pg_users world_env world_db world_db) None
      \<lparr>uli_Page = 1, uli_Limit = 1, uli_Name = [], uli_Email = [], uli_ActiveOnly = False\<rparr>) ana_world
      = ((Inr out, sp'), w') \<and> map ugo_ID (ulo_Data out) = [ana_id]"
proof -
  obtain out sp' w' where r: "run (ListUseCase_Execute world_env (pg_users world_env world_db world_db) None
      \<lparr>uli_Page = 1, uli_Limit = 1, uli_Name = [], uli_Email = [], uli_ActiveOnly = False\<rparr>) ana_world
      = ((Inr out, sp'), w')" using ana_listing by blast
  let ?sel = "{u \<in> ran (users_view (w_tables ana_world)). user_selected world_pg
      \<lparr>uf_Page = 1, uf_Limit = 1, uf_Name = [], uf_Email = [], uf_ActiveOnly = False\<rparr> u}"
  have sel: "?sel = {user_of ana_row}" by (auto simp: ana_view user_selected_def)
  have one: "gint 1 = 1" by (simp add: gint_def)
  have "\<exists>us. distinct us \<and> set us = ?sel \<and> sorted (map (\<lambda>u. - u_CreatedAt u) us)
    \<and> concat (map (\<lambda>p. ulo_Data out) [0..<1]) = map (user_output world_env) us"
    using pages_partition [where n = 1 and l = 1 and selected = ?sel, OF world_backend, of "\<lambda>_. ana_world" _ None
        "[]" "[]" False "\<lambda>_. out" "\<lambda>_. sp'" "\<lambda>_. w'"]
    by (simp add: ana_world_ok one r, simp add: sel)
  then obtain us where us: "distinct us" "set us = {user_of ana_row}" "ulo_Data out = map (user_output world_env) us"
    by (auto simp: sel)
  from us(1,2) have "us = [user_of ana_row]"
    by (cases us) (auto simp: neq_Nil_conv dest!: subset_singletonD)
  then have "map ugo_ID (ulo_Data out) = [ana_id]" using us(3) by (simp add: user_output_def ID_String_def ana_row_def)
  then show ?thesis using r
    by (intro exI [of _ out] exI [of _ sp'] exI [of _ w'] conjI)
qed

end
