(* ===== verification/Json.thy ===== *)
theory Json
  imports AppErrors "HOL-Library.List_Lexorder"
begin

text \<open>
  \<open>encoding/json\<close> as the responses use it: the encoder, with its string escaping, over the dynamic
  values of the program.  The fields of a struct keep their order; \<open>gomap\<close> sorts the keys of a map
  the way the encoder does.
\<close>

section \<open>Numbers\<close>

fun nat_digits :: "nat \<Rightarrow> string" where
  "nat_digits n = (if n < 10 then [char_of (48 + n)] else nat_digits (n div 10) @ [char_of (48 + n mod 10)])"

declare nat_digits.simps [simp del]

definition int_text :: "int \<Rightarrow> string" where
  "int_text i = (if i < 0 then ''-'' @ nat_digits (nat (- i)) else nat_digits (nat i))"

section \<open>Strings\<close>

definition hex_char :: "nat \<Rightarrow> char" where
  "hex_char n = ''0123456789abcdef'' ! n"

definition bs :: char where "bs = CHR 0x5C"

text \<open>
  The escape of one code point: quote and backslash, the short escapes, other control characters,
  the HTML-sensitive characters and the two JavaScript line terminators.
\<close>

definition json_rune :: "nat \<Rightarrow> string" where
  "json_rune r =
     (if r = 34 \<or> r = 92 then [bs, char_of r]
      else if r = 8 then [bs, CHR ''b'']
      else if r = 12 then [bs, CHR ''f'']
      else if r = 10 then [bs, CHR ''n'']
      else if r = 13 then [bs, CHR ''r'']
      else if r = 9 then [bs, CHR ''t'']
      else if r < 32 \<or> r \<in> {60, 62, 38} then bs # ''u00'' @ [hex_char (r div 16), hex_char (r mod 16)]
      else if r = 8232 then bs # ''u2028''
      else if r = 8233 then bs # ''u2029''
      else encode_rune r)"

text \<open>An invalid byte is written as the escape of the replacement character.\<close>

function json_chars :: "string \<Rightarrow> string" where
  "json_chars s = (case s of [] \<Rightarrow> [] | a # t \<Rightarrow>
     (case decode_rune s of (r, n) \<Rightarrow>
        (if r = RuneError \<and> n = 1 then bs # ''ufffd'' else json_rune r) @ json_chars (drop n s)))"
  by pat_completeness auto
termination
  by (relation "measure length") (auto dest: decode_rune_width_eq)

declare json_chars.simps [simp del]

definition json_quote :: "string \<Rightarrow> string" where
  "json_quote s = [CHR 0x22] @ json_chars s @ [CHR 0x22]"

section \<open>Values\<close>

fun json_encode :: "goany \<Rightarrow> string" where
  "json_encode ANil = ''null''"
| "json_encode (ABool b) = (if b then ''true'' else ''false'')"
| "json_encode (AInt i) = int_text i"
| "json_encode (AString s) = json_quote s"
| "json_encode (AList xs) = ''['' @ Join (map json_encode xs) '','' @ '']''"
| "json_encode (AMap kvs) =
     ''{'' @ Join (map (\<lambda>(k, v). json_quote k @ '':'' @ json_encode v) kvs) '','' @ ''}''"

definition gomap :: "(string \<times> goany) list \<Rightarrow> goany" where
  "gomap kvs = AMap (sort_key (\<lambda>kv. map (of_char :: char \<Rightarrow> nat) (fst kv)) kvs)"

text \<open>A struct field with \<open>omitempty\<close>.\<close>

definition omit_empty :: "string \<Rightarrow> string \<Rightarrow> (string \<times> goany) list" where
  "omit_empty k v = (if v = [] then [] else [(k, AString v)])"

end
