(* ===== verification/Logutil.thy ===== *)
theory Logutil
  imports Json
begin

text \<open>
  Structured logging (\<open>pkg/logutil\<close>): the log context that travels with a request, the masking of
  personal data in payloads and log records, and the fan-out of a record to several handlers.
  The sinks at the bottom of a handler tree (the JSON and the OpenTelemetry handlers) are parameters.
\<close>

section \<open>The log context\<close>

record LogContext =
  lc_RequestID :: string
  lc_TraceID :: string
  lc_CallerService :: string
  lc_Step :: string
  lc_Resource :: string
  lc_Action :: string
  lc_Extra :: "(string \<times> goany) list"

definition empty_LogContext :: LogContext where
  "empty_LogContext =
     \<lparr>lc_RequestID = [], lc_TraceID = [], lc_CallerService = [], lc_Step = [], lc_Resource = [],
      lc_Action = [], lc_Extra = []\<rparr>"

text \<open>The context value under the package's private key: \<open>None\<close> if none was injected.\<close>

definition logutil_Inject :: "LogContext option \<Rightarrow> LogContext \<Rightarrow> LogContext option" where
  "logutil_Inject ctx lc = Some lc"

definition logutil_Extract :: "LogContext option \<Rightarrow> LogContext \<times> bool" where
  "logutil_Extract ctx = (case ctx of Some lc \<Rightarrow> (lc, True) | None \<Rightarrow> (empty_LogContext, False))"

definition WithStep :: "LogContext \<Rightarrow> string \<Rightarrow> LogContext" where
  "WithStep lc step = lc\<lparr>lc_Step := step\<rparr>"

definition WithResource :: "LogContext \<Rightarrow> string \<Rightarrow> LogContext" where
  "WithResource lc resource = lc\<lparr>lc_Resource := resource\<rparr>"

definition WithAction :: "LogContext \<Rightarrow> string \<Rightarrow> LogContext" where
  "WithAction lc action = lc\<lparr>lc_Action := action\<rparr>"

definition attr_if :: "string \<Rightarrow> string \<Rightarrow> (string \<times> goany) list" where
  "attr_if k v = (if v \<noteq> [] then [(k, AString v)] else [])"

definition ToSlogAttrs :: "LogContext \<Rightarrow> (string \<times> goany) list" where
  "ToSlogAttrs lc =
     attr_if ''request_id'' (lc_RequestID lc) @ attr_if ''trace_id'' (lc_TraceID lc)
     @ attr_if ''caller_service'' (lc_CallerService lc) @ attr_if ''step'' (lc_Step lc)
     @ attr_if ''resource'' (lc_Resource lc) @ attr_if ''action'' (lc_Action lc)
     @ lc_Extra lc"

definition contextArgsFromCtx :: "LogContext option \<Rightarrow> (string \<times> goany) list" where
  "contextArgsFromCtx ctx =
     (case logutil_Extract ctx of (lc, ok) \<Rightarrow> if \<not> ok then [] else ToSlogAttrs lc)"

definition domainErrorCodes :: "string list" where
  "domainErrorCodes =
     [''NOT_FOUND'', ''INVALID_REQUEST'', ''CONFLICT'', ''VALIDATION'', ''DUPLICATE'', ''FORBIDDEN'',
      ''UNAUTHORIZED'']"

text \<open>\<open>stack\<close> is the text of the caller's stack.\<close>

definition ErrorLogFields :: "string \<Rightarrow> goerror \<Rightarrow> string \<Rightarrow> (string \<times> goany) list" where
  "ErrorLogFields stack err code =
     [(''error.message'', AString (err_text err)), (''error.code'', AString code)]
     @ (if code \<notin> set domainErrorCodes then [(''error.stack'', AString stack)] else [])"

section \<open>Mask functions\<close>

definition stars :: string where "stars = ''***''"

definition MaskEmail :: "string \<Rightarrow> string" where
  "MaskEmail email =
     (if email = [] then stars
      else
        (case LastIndexByte email CHR ''@'' of
           None \<Rightarrow> stars
         | Some atIdx \<Rightarrow>
             (if atIdx = 0 then stars
              else encode_rune (of_char (email ! 0)) @ stars @ drop atIdx email)))"

definition MaskDocument :: "string \<Rightarrow> string" where
  "MaskDocument value =
     (if length value \<le> 4 then stars else stars @ drop (length value - 4) value)"

definition MaskName :: "string \<Rightarrow> string" where
  "MaskName name0 =
     (let name = TrimSpace name0 in
      if name = [] then stars
      else
        Join (map (\<lambda>part.
          (case decode_rune part of (r, _) \<Rightarrow>
             if r = RuneError \<or> RuneCountInString part \<le> 1 then part
             else encode_rune r @ stars)) (Fields name)) '' '')"

text \<open>The loop over the runes of a phone number: the prefix and the digits.\<close>

fun phone_scan :: "bool \<Rightarrow> nat list \<Rightarrow> string \<times> string" where
  "phone_scan first [] = ([], [])"
| "phone_scan first (ch # chs) =
     (case phone_scan False chs of (pre, digits) \<Rightarrow>
        if ch = 43 \<and> first then (''+'', digits)
        else if 48 \<le> ch \<and> ch \<le> 57 then (pre, char_of ch # digits)
        else (pre, digits))"

definition MaskPhone :: "string \<Rightarrow> string" where
  "MaskPhone phone =
     (if phone = [] then stars
      else
        (case phone_scan True (runes phone) of (pre, digits) \<Rightarrow>
           if length digits < 7 then stars
           else pre @ take 2 digits @ stars @ drop (length digits - 4) digits))"

section \<open>Maskers\<close>

text \<open>A \<open>map[string]MaskFunc\<close>, and its normalisation to lower-case keys.\<close>

record MaskConfig =
  mc_Fields :: "(string \<times> (string \<Rightarrow> string)) list"

definition field_of :: "MaskConfig \<Rightarrow> string \<Rightarrow> (string \<Rightarrow> string) option" where
  "field_of c k = map_of (mc_Fields c) k"

definition lower_fields ::
  "(nat \<Rightarrow> nat) \<Rightarrow> (string \<times> (string \<Rightarrow> string)) list \<Rightarrow> (string \<times> (string \<Rightarrow> string)) list" where
  "lower_fields uni kvs = rev (map (\<lambda>(k, f). (ToLower uni k, f)) kvs)"

definition MaskConfig_Merge :: "(nat \<Rightarrow> nat) \<Rightarrow> MaskConfig \<Rightarrow> MaskConfig list \<Rightarrow> MaskConfig" where
  "MaskConfig_Merge uni c others =
     \<lparr>mc_Fields = concat (rev (map (\<lambda>o'. lower_fields uni (mc_Fields o')) others))
        @ lower_fields uni (mc_Fields c)\<rparr>"

definition NewMasker :: "(nat \<Rightarrow> nat) \<Rightarrow> MaskConfig \<Rightarrow> MaskConfig" where
  "NewMasker uni config = \<lparr>mc_Fields = lower_fields uni (mc_Fields config)\<rparr>"

definition DefaultBRConfig :: MaskConfig where
  "DefaultBRConfig =
     \<lparr>mc_Fields =
        [(''email'', MaskEmail), (''document'', MaskDocument), (''cpf'', MaskDocument),
         (''cnpj'', MaskDocument), (''name'', MaskName), (''full_name'', MaskName),
         (''first_name'', MaskName), (''last_name'', MaskName), (''phone'', MaskPhone),
         (''telefone'', MaskPhone), (''company_name'', MaskName), (''trade_name'', MaskName)]\<rparr>"

text \<open>
  \<open>maskMap\<close> and \<open>maskValue\<close>: strings under a sensitive key are masked, maps are entered, lists are
  entered one level deep for the maps they hold.
\<close>

fun maskValue :: "(nat \<Rightarrow> nat) \<Rightarrow> MaskConfig \<Rightarrow> string \<Rightarrow> goany \<Rightarrow> goany" where
  "maskValue uni m key (AString v) =
     (case field_of m (ToLower uni key) of
        Some maskFn \<Rightarrow> if v \<noteq> [] then AString (maskFn v) else AString v
      | None \<Rightarrow> AString v)"
| "maskValue uni m key (AMap kvs) = AMap (map (\<lambda>(k, v). (k, maskValue uni m k v)) kvs)"
| "maskValue uni m key (AList xs) =
     AList (map (\<lambda>x. case x of AMap kvs \<Rightarrow> maskValue uni m key (AMap kvs) | _ \<Rightarrow> x) xs)"
| "maskValue uni m key v = v"

definition maskMap :: "(nat \<Rightarrow> nat) \<Rightarrow> MaskConfig \<Rightarrow> (string \<times> goany) list \<Rightarrow> (string \<times> goany) list" where
  "maskMap uni m kvs = map (\<lambda>(k, v). (k, maskValue uni m k v)) kvs"

definition MaskPayload :: "(nat \<Rightarrow> nat) \<Rightarrow> MaskConfig \<Rightarrow> goany \<Rightarrow> goany" where
  "MaskPayload uni m input =
     (case input of ANil \<Rightarrow> ANil | AMap kvs \<Rightarrow> AMap (maskMap uni m kvs) | _ \<Rightarrow> input)"

definition MaskSensitivePayload :: "(nat \<Rightarrow> nat) \<Rightarrow> goany \<Rightarrow> goany" where
  "MaskSensitivePayload uni input = MaskPayload uni (NewMasker uni DefaultBRConfig) input"

section \<open>Handlers of log records\<close>

datatype slog_value = VString string | VGroup "(string \<times> slog_value) list" | VOther goany

type_synonym slog_attr = "string \<times> slog_value"

datatype slog_op = WithAttrsOp "slog_attr list" | WithGroupOp string

record slog_record =
  lr_Time :: time
  lr_Level :: int
  lr_Message :: string
  lr_PC :: nat
  lr_Attrs :: "slog_attr list"

text \<open>
  A tree of handlers: the masking handler and the fan-out of this package over sinks, each a
  handler of another package with the attributes and groups that were added to it.
\<close>

datatype slog_handler =
    Sink nat "slog_op list"
  | MaskingHandler MaskConfig slog_handler
  | FanoutHandler slog_handler "slog_handler list"

record 'w slog_sinks =
  sk_enabled :: "nat \<Rightarrow> int \<Rightarrow> bool"
  sk_handle :: "nat \<Rightarrow> slog_op list \<Rightarrow> slog_record \<Rightarrow> 'w \<Rightarrow> goerror option \<times> 'w"
  sk_stderr :: "string \<Rightarrow> 'w \<Rightarrow> unit \<times> 'w"

fun maskAttr :: "(nat \<Rightarrow> nat) \<Rightarrow> MaskConfig \<Rightarrow> slog_attr \<Rightarrow> slog_attr" where
  "maskAttr uni m (key, VGroup attrs) = (key, VGroup (map (maskAttr uni m) attrs))"
| "maskAttr uni m (key, VString v) =
     (case field_of m (ToLower uni key) of
        Some maskFn \<Rightarrow> if v \<noteq> [] then (key, VString (maskFn v)) else (key, VString v)
      | None \<Rightarrow> (key, VString v))"
| "maskAttr uni m (key, VOther v) = (key, VOther v)"

primrec slog_Enabled :: "'w slog_sinks \<Rightarrow> slog_handler \<Rightarrow> int \<Rightarrow> bool" where
  "slog_Enabled S (Sink n ops) level = sk_enabled S n level"
| "slog_Enabled S (MaskingHandler m h) level = slog_Enabled S h level"
| "slog_Enabled S (FanoutHandler p ss) level =
     (if slog_Enabled S p level then True
      else list_ex (\<lambda>f. f level) (map (slog_Enabled S) ss))"

text \<open>The secondaries in order; a failure goes to standard error with its index.\<close>

fun fan_out ::
  "'w slog_sinks \<Rightarrow> nat \<Rightarrow> (slog_record \<Rightarrow> ('w, goerror option) prog) list \<Rightarrow> slog_record
    \<Rightarrow> ('w, goerror option) prog" where
  "fan_out S i [] r = Return None"
| "fan_out S i (h # hs) r =
     pbind (h r) (\<lambda>secErr.
     case secErr of
       Some e \<Rightarrow>
         pbind (call (sk_stderr S (''FanoutHandler: secondary['' @ nat_digits i @ ''] failed: '' @ err_text e)))
           (\<lambda>_. fan_out S (i + 1) hs r)
     | None \<Rightarrow> fan_out S (i + 1) hs r)"

primrec slog_Handle ::
  "'w slog_sinks \<Rightarrow> (nat \<Rightarrow> nat) \<Rightarrow> slog_handler \<Rightarrow> slog_record \<Rightarrow> ('w, goerror option) prog" where
  "slog_Handle S uni (Sink n ops) r = call (sk_handle S n ops r)"
| "slog_Handle S uni (MaskingHandler m h) r =
     slog_Handle S uni h (r\<lparr>lr_Attrs := map (maskAttr uni m) (lr_Attrs r)\<rparr>)"
| "slog_Handle S uni (FanoutHandler p ss) r =
     pbind (slog_Handle S uni p r) (\<lambda>primaryErr.
     case primaryErr of
       Some e \<Rightarrow> Return (Some e)
     | None \<Rightarrow> fan_out S 0 (map (slog_Handle S uni) ss) r)"

primrec slog_WithAttrs :: "(nat \<Rightarrow> nat) \<Rightarrow> slog_handler \<Rightarrow> slog_attr list \<Rightarrow> slog_handler" where
  "slog_WithAttrs uni (Sink n ops) attrs = Sink n (ops @ [WithAttrsOp attrs])"
| "slog_WithAttrs uni (MaskingHandler m h) attrs =
     MaskingHandler m (slog_WithAttrs uni h (map (maskAttr uni m) attrs))"
| "slog_WithAttrs uni (FanoutHandler p ss) attrs =
     FanoutHandler (slog_WithAttrs uni p attrs) (map (\<lambda>f. f attrs) (map (slog_WithAttrs uni) ss))"

primrec slog_WithGroup :: "slog_handler \<Rightarrow> string \<Rightarrow> slog_handler" where
  "slog_WithGroup (Sink n ops) name = Sink n (ops @ [WithGroupOp name])"
| "slog_WithGroup (MaskingHandler m h) name = MaskingHandler m (slog_WithGroup h name)"
| "slog_WithGroup (FanoutHandler p ss) name =
     FanoutHandler (slog_WithGroup p name) (map (\<lambda>f. f name) (map slog_WithGroup ss))"

section \<open>What the mask functions reveal\<close>

definition is_digit :: "char \<Rightarrow> bool" where
  "is_digit c \<longleftrightarrow> 48 \<le> (of_char c :: nat) \<and> of_char c \<le> (57 :: nat)"

lemma decode_rune_high:
  assumes "decode_rune (a # s) = (r, n)" and "\<not> of_char a < (128::nat)"
  shows "128 \<le> r" "\<forall>c\<in>set (take n (a # s)). 128 \<le> (of_char c :: nat)"
  using assms
  by (auto simp: decode_rune.simps Let_def in_bytes_def RuneError_def split: if_splits list.splits)

lemma runes_Cons: "runes (a # s) = fst (decode_rune (a # s)) # runes (drop (snd (decode_rune (a # s))) (a # s))"
  by (simp add: runes.simps [of "a # s"] split: prod.split)

lemma phone_digits: "snd (phone_scan f (runes s)) = filter is_digit s"
proof (induction s arbitrary: f rule: runes.induct)
  case (1 s)
  show ?case
  proof (cases s)
    case Nil
    then show ?thesis by simp
  next
    case (Cons a t)
    obtain r n where d: "decode_rune (a # t) = (r, n)" by fastforce
    have IH: "snd (phone_scan False (runes (drop n s))) = filter is_digit (drop n s)"
      by (rule 1) (simp_all add: Cons d)
    have run: "runes s = r # runes (drop n s)" using d by (simp add: Cons runes_Cons)
    show ?thesis
    proof (cases "of_char a < (128::nat)")
      case True
      then have "r = of_char a" "n = 1" using d decode_rune_ascii by auto
      moreover have "is_digit a \<longleftrightarrow> 48 \<le> (of_char a :: nat) \<and> of_char a \<le> (57 :: nat)" by (simp add: is_digit_def)
      ultimately show ?thesis using IH run Cons by (auto split: prod.splits)
    next
      case False
      note hi = decode_rune_high [OF d False]
      have "filter is_digit (take n s) = []" using hi(2) by (force simp: Cons is_digit_def filter_empty_conv)
      then have "filter is_digit s = filter is_digit (drop n s)"
        by (metis append_Nil append_take_drop_id filter_append)
      then show ?thesis using IH run hi(1) by (auto split: prod.splits)
    qed
  qed
qed

lemma phone_prefix: "fst (phone_scan f rs) = [] \<or> fst (phone_scan f rs) = ''+''"
  by (induction rs arbitrary: f) (auto split: prod.splits, (metis fst_conv)+)

lemma MaskPhone_form:
  "\<exists>pre. pre \<in> {[], ''+''} \<and> MaskPhone p =
    (if p = [] \<or> length (filter is_digit p) < 7 then stars
     else pre @ take 2 (filter is_digit p) @ stars
       @ drop (length (filter is_digit p) - 4) (filter is_digit p))"
proof -
  have "snd (phone_scan True (runes p)) = filter is_digit p" by (rule phone_digits)
  then show ?thesis using phone_prefix [of True "runes p"]
    by (intro exI [of _ "fst (phone_scan True (runes p))"]) (auto simp: MaskPhone_def split: prod.splits)
qed

lemma digits_of_stars [simp]: "filter is_digit stars = []"
  by code_simp

lemma digits_of_plus: "filter is_digit ''+'' = []"
  by code_simp



section \<open>What reaches the sinks\<close>

text \<open>Every string under a sensitive key, at any depth of the groups, is empty or a mask's output.\<close>

fun attr_masked :: "(nat \<Rightarrow> nat) \<Rightarrow> MaskConfig \<Rightarrow> slog_attr \<Rightarrow> bool" where
  "attr_masked uni m (key, VGroup attrs) = list_all (attr_masked uni m) attrs"
| "attr_masked uni m (key, VString v) =
     (case field_of m (ToLower uni key) of Some maskFn \<Rightarrow> v = [] \<or> v \<in> range maskFn | None \<Rightarrow> True)"
| "attr_masked uni m (key, VOther v) = True"

fun op_masked :: "(nat \<Rightarrow> nat) \<Rightarrow> MaskConfig \<Rightarrow> slog_op \<Rightarrow> bool" where
  "op_masked uni m (WithAttrsOp attrs) = list_all (attr_masked uni m) attrs"
| "op_masked uni m (WithGroupOp name) = True"

definition record_masked :: "(nat \<Rightarrow> nat) \<Rightarrow> MaskConfig \<Rightarrow> slog_record \<Rightarrow> bool" where
  "record_masked uni m r \<longleftrightarrow> list_all (attr_masked uni m) (lr_Attrs r)"

lemma maskAttr_masked: "attr_masked uni m (maskAttr uni m a)"
  by (induction uni m a rule: maskAttr.induct) (auto simp: list_all_iff split: option.split)

text \<open>A tree of sinks and fan-outs that holds masked attributes only.\<close>

primrec plain_masked :: "(nat \<Rightarrow> nat) \<Rightarrow> MaskConfig \<Rightarrow> slog_handler \<Rightarrow> bool" where
  "plain_masked uni m (Sink n ops) = list_all (op_masked uni m) ops"
| "plain_masked uni m (MaskingHandler m' h) = False"
| "plain_masked uni m (FanoutHandler p ss) =
     (plain_masked uni m p \<and> list_all id (map (plain_masked uni m) ss))"

text \<open>Two families of sinks that differ on unmasked input only.\<close>

definition sinks_agree :: "(nat \<Rightarrow> nat) \<Rightarrow> MaskConfig \<Rightarrow> 'w slog_sinks \<Rightarrow> 'w slog_sinks \<Rightarrow> bool" where
  "sinks_agree uni m S S' \<longleftrightarrow> sk_stderr S = sk_stderr S'
     \<and> (\<forall>n ops r. list_all (op_masked uni m) ops \<longrightarrow> record_masked uni m r
          \<longrightarrow> sk_handle S n ops r = sk_handle S' n ops r)"

lemma fan_out_cong:
  assumes "sk_stderr S = sk_stderr S'" and "\<And>s. s \<in> set ss \<Longrightarrow> f s r = g s r"
  shows "fan_out S i (map f ss) r = fan_out S' i (map g ss) r"
  using assms by (induction ss arbitrary: i) (simp_all cong: option.case_cong)

lemma plain_agree:
  assumes "sinks_agree uni m S S'" and "record_masked uni m r"
  shows "plain_masked uni m h \<Longrightarrow> slog_Handle S uni h r = slog_Handle S' uni h r"
proof (induction h)
  case (Sink n ops)
  then show ?case using assms by (simp add: sinks_agree_def)
next
  case (MaskingHandler m' h)
  then show ?case by simp
next
  case (FanoutHandler p ss)
  have "fan_out S 0 (map (slog_Handle S uni) ss) r = fan_out S' 0 (map (slog_Handle S' uni) ss) r"
    by (rule fan_out_cong) (use assms(1) FanoutHandler in \<open>auto simp: sinks_agree_def list_all_iff\<close>)
  then show ?case using FanoutHandler by (simp cong: option.case_cong)
qed

lemma plain_WithAttrs:
  "plain_masked uni m h \<Longrightarrow> list_all (attr_masked uni m) attrs \<Longrightarrow> plain_masked uni m (slog_WithAttrs uni h attrs)"
  by (induction h) (auto simp: list_all_iff)

lemma plain_WithGroup: "plain_masked uni m h \<Longrightarrow> plain_masked uni m (slog_WithGroup h name)"
  by (induction h) (auto simp: list_all_iff)

fun apply_op :: "(nat \<Rightarrow> nat) \<Rightarrow> slog_op \<Rightarrow> slog_handler \<Rightarrow> slog_handler" where
  "apply_op uni (WithAttrsOp attrs) h = slog_WithAttrs uni h attrs"
| "apply_op uni (WithGroupOp name) h = slog_WithGroup h name"

lemma fold_masking:
  "plain_masked uni m h \<Longrightarrow>
    \<exists>h'. fold (apply_op uni) ops (MaskingHandler m h) = MaskingHandler m h' \<and> plain_masked uni m h'"
proof (induction ops arbitrary: h)
  case Nil
  then show ?case by simp
next
  case (Cons x xs)
  obtain h' where "apply_op uni x (MaskingHandler m h) = MaskingHandler m h'" "plain_masked uni m h'"
  proof (cases x)
    case (WithAttrsOp attrs)
    have "list_all (attr_masked uni m) (map (maskAttr uni m) attrs)"
      by (simp add: list_all_iff maskAttr_masked)
    then show ?thesis using that WithAttrsOp plain_WithAttrs [OF Cons.prems] by simp
  next
    case (WithGroupOp name)
    then show ?thesis using that plain_WithGroup [OF Cons.prems] by simp
  qed
  then show ?case using Cons.IH by simp
qed

text \<open>
  C23: The sinks below a masking handler never see a sensitive value.  Whatever attributes and groups
  are added to it and whatever is logged through it, two families of sinks that behave alike on
  masked input behave alike: a sink cannot tell, and so cannot leak, what the masks hide.
\<close>

theorem masking_confines_sinks:
  assumes "plain_masked uni m h" and "sinks_agree uni m S S'"
  shows "slog_Handle S uni (fold (apply_op uni) ops (MaskingHandler m h)) r
    = slog_Handle S' uni (fold (apply_op uni) ops (MaskingHandler m h)) r"
proof -
  obtain h' where h': "fold (apply_op uni) ops (MaskingHandler m h) = MaskingHandler m h'"
    "plain_masked uni m h'" using fold_masking [OF assms(1)] by blast
  have "record_masked uni m (r\<lparr>lr_Attrs := map (maskAttr uni m) (lr_Attrs r)\<rparr>)"
    by (simp add: record_masked_def list_all_iff maskAttr_masked)
  from plain_agree [OF assms(2) this h'(2)] show ?thesis by (simp add: h'(1))
qed

theorem masking_confines_sinks_witness:
  "run (slog_Handle
      \<lparr>sk_enabled = \<lambda>n l. True,
       sk_handle = \<lambda>n ops r w. (None, if record_masked id (NewMasker id DefaultBRConfig) r then w + 1 else w),
       sk_stderr = \<lambda>t w. ((), w)\<rparr> id
      (MaskingHandler (NewMasker id DefaultBRConfig) (FanoutHandler (Sink 0 []) [Sink 1 []]))
      \<lparr>lr_Time = 0, lr_Level = 0, lr_Message = ''login'', lr_PC = 0,
       lr_Attrs = [(''Email'', VString ''ana@x.org'')]\<rparr>) (0::nat) = (None, 2)"
proof -
  let ?m = "NewMasker id DefaultBRConfig"
  let ?S = "\<lparr>sk_enabled = \<lambda>n l. True,
       sk_handle = \<lambda>n ops r w. (None, if record_masked id ?m r then w + 1 else w),
       sk_stderr = \<lambda>t w. ((), w)\<rparr> :: nat slog_sinks"
  let ?T = "\<lparr>sk_enabled = \<lambda>n l. True, sk_handle = \<lambda>n ops r w. (None, w + 1),
       sk_stderr = \<lambda>t w. ((), w)\<rparr> :: nat slog_sinks"
  have p: "plain_masked id ?m (FanoutHandler (Sink 0 []) [Sink 1 []])" by simp
  have a: "sinks_agree id ?m ?S ?T" by (simp add: sinks_agree_def)
  have "slog_Handle ?S id (MaskingHandler ?m (FanoutHandler (Sink 0 []) [Sink 1 []])) r
      = slog_Handle ?T id (MaskingHandler ?m (FanoutHandler (Sink 0 []) [Sink 1 []])) r" for r
    using masking_confines_sinks [OF p a, of "[]" r] by (simp only: fold.simps id_apply)
  then show ?thesis by (simp only:) (simp add: run_pbind)
qed

end
