(* ===== verification/Http.thy ===== *)
theory Http
  imports Logutil Telemetry Domain
begin

text \<open>
  The HTTP side of the service up to its middlewares: a gin request context with its response
  writer, handlers as programs over it, the response envelopes of \<open>pkg/httputil\<close> and
  \<open>pkg/httputil/httpgin\<close>, and the translation of application errors to status codes.
\<close>

section \<open>Requests, responses and contexts\<close>

text \<open>
  A body is what reading it to the end yields: the bytes and the error that ends them (\<open>None\<close> for
  the regular end).  \<open>rq_Header\<close> is \<open>GetHeader\<close>: the empty string for an absent header.
\<close>

record http_request =
  rq_Method :: string
  rq_Path :: string
  rq_FullPath :: string
  rq_Param :: "string \<Rightarrow> string"
  rq_Header :: "string \<Rightarrow> string"
  rq_RawQuery :: string
  rq_ContentLength :: int
  rq_Body :: "string \<times> goerror option"
  rq_ClientIP :: string

record http_response =
  rs_Status :: int
  rs_Written :: bool
  rs_Body :: string
  rs_ContentType :: string
  rs_RequestID :: string

record gin_context =
  cx_Request :: http_request
  cx_Writer :: http_response
  cx_Aborted :: bool
  cx_Log :: "LogContext option"
  cx_Span :: "span option"
  cx_TraceID :: string

text \<open>A handler returns with the context or panics with a value and the context at that moment.\<close>

datatype outcome = Done gin_context | Panic goany gin_context

type_synonym 'w handler = "gin_context \<Rightarrow> ('w, outcome) prog"

text \<open>
  A middleware gets what \<open>c.Next()\<close> runs; \<open>chain\<close> composes a route's middlewares, and an aborted
  context runs nothing more.
\<close>

type_synonym 'w middleware = "'w handler \<Rightarrow> 'w handler"

definition Next :: "'w handler \<Rightarrow> 'w handler" where
  "Next next c = (if cx_Aborted c then Return (Done c) else next c)"

fun chain :: "'w middleware list \<Rightarrow> 'w handler \<Rightarrow> 'w handler" where
  "chain [] h = h"
| "chain (m # ms) h = m (Next (chain ms h))"

text \<open>What follows \<open>c.Next()\<close> in a middleware does not run after a panic.\<close>

definition after :: "('w, outcome) prog \<Rightarrow> (gin_context \<Rightarrow> ('w, outcome) prog) \<Rightarrow> ('w, outcome) prog" where
  "after p k = pbind p (\<lambda>r. case r of Done c \<Rightarrow> k c | Panic v c \<Rightarrow> Return (Panic v c))"

fun outcome_ctx :: "outcome \<Rightarrow> gin_context" where
  "outcome_ctx (Done c) = c"
| "outcome_ctx (Panic v c) = c"

section \<open>The response writer\<close>

text \<open>A status after the header was written is ignored; bodies are appended.\<close>

definition WriteHeader :: "int \<Rightarrow> http_response \<Rightarrow> http_response" where
  "WriteHeader code r =
     (if code > 0 \<and> rs_Status r \<noteq> code \<and> \<not> rs_Written r then r\<lparr>rs_Status := code\<rparr> else r)"

definition write_body :: "string \<Rightarrow> http_response \<Rightarrow> http_response" where
  "write_body d r = r\<lparr>rs_Written := True, rs_Body := rs_Body r @ d\<rparr>"

text \<open>Headers set after the first byte do not reach the client.\<close>

definition set_content_type :: "string \<Rightarrow> http_response \<Rightarrow> http_response" where
  "set_content_type t r = (if rs_Written r then r else r\<lparr>rs_ContentType := t\<rparr>)"

definition json_type :: string where
  "json_type = ''application/json; charset=utf-8''"

definition Abort :: "gin_context \<Rightarrow> gin_context" where
  "Abort c = c\<lparr>cx_Aborted := True\<rparr>"

text \<open>\<open>c.JSON\<close>, \<open>c.AbortWithStatusJSON\<close> and \<open>c.Data\<close> of gin.\<close>

definition gin_Data :: "int \<Rightarrow> string \<Rightarrow> string \<Rightarrow> gin_context \<Rightarrow> gin_context" where
  "gin_Data code ctype body c =
     c\<lparr>cx_Writer := write_body body (set_content_type ctype (WriteHeader code (cx_Writer c)))\<rparr>"

definition AbortWithStatusJSON :: "int \<Rightarrow> goany \<Rightarrow> gin_context \<Rightarrow> gin_context" where
  "AbortWithStatusJSON code v c = gin_Data code json_type (json_encode v) (Abort c)"

section \<open>pkg/httputil\<close>

record SuccessResponse =
  sr_Data :: goany
  sr_Meta :: goany
  sr_Links :: goany

record ErrorDetail =
  ed_Message :: string
  ed_Code :: string
  ed_Details :: "(string \<times> goany) list option"

definition omit_nil :: "string \<Rightarrow> goany \<Rightarrow> (string \<times> goany) list" where
  "omit_nil k v = (if v = ANil then [] else [(k, v)])"

definition success_json :: "SuccessResponse \<Rightarrow> goany" where
  "success_json s = AMap ([(''data'', sr_Data s)] @ omit_nil ''meta'' (sr_Meta s) @ omit_nil ''links'' (sr_Links s))"

definition error_json :: "ErrorDetail \<Rightarrow> goany" where
  "error_json d =
     AMap [(''errors'', AMap ([(''message'', AString (ed_Message d))] @ omit_empty ''code'' (ed_Code d)
       @ (case ed_Details d of None \<Rightarrow> [] | Some [] \<Rightarrow> [] | Some kvs \<Rightarrow> [(''details'', gomap kvs)])))]"

definition newline :: string where "newline = [CHR 0x0A]"

definition writeJSON :: "int \<Rightarrow> goany \<Rightarrow> http_response \<Rightarrow> http_response" where
  "writeJSON status v r =
     write_body (json_encode v @ newline) (WriteHeader status (set_content_type json_type r))"

definition WriteSuccess :: "int \<Rightarrow> goany \<Rightarrow> http_response \<Rightarrow> http_response" where
  "WriteSuccess status data r = writeJSON status (success_json \<lparr>sr_Data = data, sr_Meta = ANil, sr_Links = ANil\<rparr>) r"

definition WriteSuccessWithMeta :: "int \<Rightarrow> goany \<Rightarrow> goany \<Rightarrow> goany \<Rightarrow> http_response \<Rightarrow> http_response" where
  "WriteSuccessWithMeta status data meta links r =
     writeJSON status (success_json \<lparr>sr_Data = data, sr_Meta = meta, sr_Links = links\<rparr>) r"

definition WriteError :: "int \<Rightarrow> string \<Rightarrow> http_response \<Rightarrow> http_response" where
  "WriteError status message r =
     writeJSON status (error_json \<lparr>ed_Message = message, ed_Code = [], ed_Details = None\<rparr>) r"

definition WriteErrorWithCode :: "int \<Rightarrow> string \<Rightarrow> string \<Rightarrow> http_response \<Rightarrow> http_response" where
  "WriteErrorWithCode status code message r =
     writeJSON status (error_json \<lparr>ed_Message = message, ed_Code = code, ed_Details = None\<rparr>) r"

definition WriteErrorWithDetails ::
  "int \<Rightarrow> string \<Rightarrow> string \<Rightarrow> (string \<times> goany) list option \<Rightarrow> http_response \<Rightarrow> http_response" where
  "WriteErrorWithDetails status code message details r =
     writeJSON status (error_json \<lparr>ed_Message = message, ed_Code = code, ed_Details = details\<rparr>) r"

section \<open>pkg/httputil/httpgin\<close>

definition SendSuccess :: "int \<Rightarrow> goany \<Rightarrow> gin_context \<Rightarrow> gin_context" where
  "SendSuccess status data c = c\<lparr>cx_Writer := WriteSuccess status data (cx_Writer c)\<rparr>"

definition SendSuccessWithMeta :: "int \<Rightarrow> goany \<Rightarrow> goany \<Rightarrow> goany \<Rightarrow> gin_context \<Rightarrow> gin_context" where
  "SendSuccessWithMeta status data meta links c =
     c\<lparr>cx_Writer := WriteSuccessWithMeta status data meta links (cx_Writer c)\<rparr>"

definition SendError :: "int \<Rightarrow> string \<Rightarrow> gin_context \<Rightarrow> gin_context" where
  "SendError status message c = c\<lparr>cx_Writer := WriteError status message (cx_Writer c)\<rparr>"

definition SendErrorWithCode :: "int \<Rightarrow> string \<Rightarrow> string \<Rightarrow> gin_context \<Rightarrow> gin_context" where
  "SendErrorWithCode status code message c =
     c\<lparr>cx_Writer := WriteErrorWithCode status code message (cx_Writer c)\<rparr>"

definition SendErrorWithDetails ::
  "int \<Rightarrow> string \<Rightarrow> string \<Rightarrow> (string \<times> goany) list option \<Rightarrow> gin_context \<Rightarrow> gin_context" where
  "SendErrorWithDetails status code message details c =
     c\<lparr>cx_Writer := WriteErrorWithDetails status code message details (cx_Writer c)\<rparr>"

section \<open>Errors\<close>

definition codeToStatus :: "string \<Rightarrow> int option" where
  "codeToStatus code = map_of
     [(CodeInvalidRequest, 400), (CodeValidationError, 400), (CodeNotFound, 404), (CodeConflict, 409),
      (CodeUnauthorized, 401), (CodeForbidden, 403), (CodeUnprocessableEntity, 422),
      (CodeInternalError, 500)] code"

definition HandleError :: "goerror \<Rightarrow> gin_context \<Rightarrow> gin_context" where
  "HandleError err c =
     (case errors_As_App err of
        Some appErr \<Rightarrow>
          (let status = (case codeToStatus (app_code appErr) of Some s \<Rightarrow> s | None \<Rightarrow> 500)
           in SendError status (app_message appErr) c)
      | None \<Rightarrow> SendError 500 ''internal server error'' c)"

section \<open>Facts about the writer\<close>

definition unwritten :: "gin_context \<Rightarrow> bool" where
  "unwritten c \<longleftrightarrow> \<not> rs_Written (cx_Writer c)"

lemma writeJSON_fresh:
  "\<not> rs_Written r \<Longrightarrow> 0 < status \<Longrightarrow>
    writeJSON status v r = r\<lparr>rs_Status := status, rs_Written := True,
      rs_ContentType := json_type, rs_Body := rs_Body r @ json_encode v @ newline\<rparr>"
  by (simp add: writeJSON_def write_body_def WriteHeader_def set_content_type_def)

lemma writeJSON_written:
  "rs_Written r \<Longrightarrow> writeJSON status v r = r\<lparr>rs_Body := rs_Body r @ json_encode v @ newline\<rparr>"
  by (simp add: writeJSON_def write_body_def WriteHeader_def set_content_type_def)

lemma SendError_frame [simp]:
  "cx_Request (SendError s m c) = cx_Request c" "cx_Aborted (SendError s m c) = cx_Aborted c"
  "cx_Log (SendError s m c) = cx_Log c" "cx_Span (SendError s m c) = cx_Span c"
  by (simp_all add: SendError_def)

lemma Abort_sel [simp]:
  "cx_Request (Abort c) = cx_Request c" "cx_Aborted (Abort c)" "cx_Writer (Abort c) = cx_Writer c"
  by (simp_all add: Abort_def)

lemma SendError_status:
  "unwritten c \<Longrightarrow> 0 < s \<Longrightarrow> rs_Status (cx_Writer (SendError s m c)) = s"
  by (simp add: SendError_def WriteError_def writeJSON_fresh unwritten_def)

lemma SendSuccess_status:
  "unwritten c \<Longrightarrow> 0 < s \<Longrightarrow> rs_Status (cx_Writer (SendSuccess s v c)) = s"
  by (simp add: SendSuccess_def WriteSuccess_def writeJSON_fresh unwritten_def)

section \<open>An empty request\<close>

definition blank_request :: http_request where
  "blank_request = \<lparr>rq_Method = ''GET'', rq_Path = ''/'', rq_FullPath = ''/'', rq_Param = (\<lambda>_. []),
     rq_Header = (\<lambda>_. []), rq_RawQuery = [], rq_ContentLength = 0, rq_Body = ([], None), rq_ClientIP = ''10.0.0.1''\<rparr>"

definition blank_context :: "http_request \<Rightarrow> gin_context" where
  "blank_context q = \<lparr>cx_Request = q,
     cx_Writer = \<lparr>rs_Status = 200, rs_Written = False, rs_Body = [], rs_ContentType = [], rs_RequestID = []\<rparr>,
     cx_Aborted = False, cx_Log = None, cx_Span = None, cx_TraceID = []\<rparr>"

end
