(* ===== verification/Middleware.thy ===== *)
theory Middleware
  imports Http "HOL-Library.AList"
begin

text \<open>
  The HTTP middlewares (\<open>internal/infrastructure/web/middleware\<close>) except the idempotency one: panic
  recovery, the body cap, span renaming, metrics, request logging and the service-key
  authentication.
\<close>

section \<open>The surroundings of a request\<close>

text \<open>
  \<open>wb_metrics\<close> applies a change to the HTTP metrics, \<open>wb_log\<close> is a call of the default \<open>slog\<close> logger
  with its level, \<open>wb_uuid\<close> is \<open>uuid.New().String()\<close>, \<open>wb_uni\<close> is \<open>unicode.ToLower\<close> outside ASCII.
\<close>

record 'w web =
  wb_env :: "'w env"
  wb_metrics :: "(HTTPMetrics option \<Rightarrow> HTTPMetrics option) \<Rightarrow> 'w \<Rightarrow> unit \<times> 'w"
  wb_log :: "int \<Rightarrow> string \<Rightarrow> (string \<times> goany) list \<Rightarrow> 'w \<Rightarrow> unit \<times> 'w"
  wb_uuid :: "'w \<Rightarrow> string \<times> 'w"
  wb_uni :: "nat \<Rightarrow> nat"

definition LevelInfo :: int where "LevelInfo = 0"
definition LevelWarn :: int where "LevelWarn = 4"
definition LevelError :: int where "LevelError = 8"

definition LogWarn ::
  "'w web \<Rightarrow> LogContext option \<Rightarrow> string \<Rightarrow> (string \<times> goany) list \<Rightarrow> ('w, unit) prog" where
  "LogWarn W ctx msg extraArgs = call (wb_log W LevelWarn msg (contextArgsFromCtx ctx @ extraArgs))"

definition LogInfo ::
  "'w web \<Rightarrow> LogContext option \<Rightarrow> string \<Rightarrow> (string \<times> goany) list \<Rightarrow> ('w, unit) prog" where
  "LogInfo W ctx msg extraArgs = call (wb_log W LevelInfo msg (contextArgsFromCtx ctx @ extraArgs))"

definition LogError ::
  "'w web \<Rightarrow> LogContext option \<Rightarrow> string \<Rightarrow> (string \<times> goany) list \<Rightarrow> ('w, unit) prog" where
  "LogError W ctx msg extraArgs = call (wb_log W LevelError msg (contextArgsFromCtx ctx @ extraArgs))"

section \<open>Recovery and body limit\<close>

text \<open>The recovery of gin calls the handler below with the recovered value; \<open>stack\<close> is the stack text.\<close>

definition CustomRecovery :: "'w web \<Rightarrow> string \<Rightarrow> 'w middleware" where
  "CustomRecovery W stack next c =
     pbind (next c) (\<lambda>r.
     case r of
       Done c' \<Rightarrow> Return (Done c')
     | Panic recovered c' \<Rightarrow>
         pbind (call (wb_log W LevelError ''panic recovered'' [(''error'', recovered), (''stack'', AString stack)]))
           (\<lambda>_. Return (Done (Abort (SendError 500 ''internal server error'' c')))))"

text \<open>\<open>http.MaxBytesReader\<close>: at most \<open>n\<close> bytes, then an error if there would be more.\<close>

definition MaxBytesReader :: "int \<Rightarrow> string \<times> goerror option \<Rightarrow> string \<times> goerror option" where
  "MaxBytesReader n b =
     (if int (length (fst b)) > n then (take (nat n) (fst b), Some MaxBytesError) else b)"

definition set_body :: "string \<times> goerror option \<Rightarrow> gin_context \<Rightarrow> gin_context" where
  "set_body b c = c\<lparr>cx_Request := (cx_Request c)\<lparr>rq_Body := b\<rparr>\<rparr>"

definition BodyLimit :: "int \<Rightarrow> 'w middleware" where
  "BodyLimit maxBytes next c =
     (if maxBytes \<le> 0 then next c
      else if rq_ContentLength (cx_Request c) > maxBytes
      then Return (Done (Abort (SendError 413 ''request body too large'' c)))
      else next (set_body (MaxBytesReader maxBytes (rq_Body (cx_Request c))) c))"

section \<open>Tracing, metrics and logging\<close>

definition SpanRename :: "'w web \<Rightarrow> 'w middleware" where
  "SpanRename W next c =
     after (next c) (\<lambda>c'.
     case cx_Span c' of
       None \<Rightarrow> Return (Done c')
     | Some s \<Rightarrow>
         Return (Done (c'\<lparr>cx_Span := Some (s\<lparr>sp_name :=
           HTTPSpanName (wb_uni W) (rq_Method (cx_Request c')) (rq_FullPath (cx_Request c'))\<rparr>)\<rparr>)))"

definition Metrics_mw :: "'w web \<Rightarrow> bool \<Rightarrow> 'w middleware" where
  "Metrics_mw W have_metrics next c =
     (let path = rq_Path (cx_Request c) in
      if HasPrefix path ''/health'' \<or> HasPrefix path ''/ready'' then next c
      else
        pbind (call (env_now (wb_env W))) (\<lambda>start.
        after (next c) (\<lambda>c'.
        if \<not> have_metrics then Return (Done c')
        else
          pbind (call (env_now (wb_env W))) (\<lambda>now.
          let route0 = rq_FullPath (cx_Request c');
              route = (if route0 = [] then path else route0)
          in pbind (call (wb_metrics W (\<lambda>m. RecordRequest m (rq_Method (cx_Request c')) route
                     (rs_Status (cx_Writer c')) (now - start))))
               (\<lambda>_. Return (Done c'))))))"

definition requestIDMaxLen :: nat where "requestIDMaxLen = 64"

definition request_id_char :: "char \<Rightarrow> bool" where
  "request_id_char c \<longleftrightarrow>
     c \<in> set (''abcdefghijklmnopqrstuvwxyzABCDEFGHIJKLMNOPQRSTUVWXYZ0123456789'' @ ''-'')"

definition validRequestID :: "string \<Rightarrow> bool" where
  "validRequestID s \<longleftrightarrow> s \<noteq> [] \<and> list_all request_id_char s"

definition Logger_mw :: "'w web \<Rightarrow> 'w middleware" where
  "Logger_mw W next c =
     pbind (call (env_now (wb_env W))) (\<lambda>start.
     let given = rq_Header (cx_Request c) ''X-Request-ID'' in
     pbind (if given = [] \<or> length given > requestIDMaxLen \<or> \<not> validRequestID given
            then call (wb_uuid W) else Return given) (\<lambda>requestID.
     let traceID = cx_TraceID c;
         lc = empty_LogContext\<lparr>lc_RequestID := requestID, lc_TraceID := traceID, lc_Step := ''middleware''\<rparr>;
         c1 = c\<lparr>cx_Writer := (cx_Writer c)\<lparr>rs_RequestID :=
                   (if rs_Written (cx_Writer c) then rs_RequestID (cx_Writer c) else requestID)\<rparr>,
                cx_Log := logutil_Inject (cx_Log c) lc\<rparr>;
         q = cx_Request c1
     in
     pbind (call (wb_log W LevelInfo ''request started''
       [(''method'', AString (rq_Method q)), (''path'', AString (rq_Path q)),
        (''request_id'', AString requestID), (''trace_id'', AString traceID),
        (''client_ip'', AString (rq_ClientIP q))])) (\<lambda>_.
     after (next c1) (\<lambda>c2.
     pbind (call (env_now (wb_env W))) (\<lambda>now.
     let status = rs_Status (cx_Writer c2);
         level = (if status \<ge> 500 then LevelError else if status \<ge> 400 then LevelWarn else LevelInfo)
     in
     pbind (call (wb_log W level ''request completed''
       [(''method'', AString (rq_Method (cx_Request c2))), (''path'', AString (rq_Path (cx_Request c2))),
        (''status'', AInt status), (''duration_ms'', AInt ((now - start) div 10 ^ 6)),
        (''request_id'', AString requestID), (''trace_id'', AString traceID)]))
       (\<lambda>_. Return (Done c2)))))))"

section \<open>Service keys\<close>

record ServiceKeyConfig =
  sk_Enabled :: bool
  sk_Keys :: "(string \<times> string) list"
  sk_ServiceNameHeader :: string
  sk_ServiceKeyHeader :: string

definition add_service_key :: "(string \<times> string) list \<Rightarrow> string \<Rightarrow> (string \<times> string) list" where
  "add_service_key keys pair =
     (case SplitN2 (TrimSpace pair) CHR '':'' of
        [p0, p1] \<Rightarrow>
          (let serviceName = TrimSpace p0; serviceKey = TrimSpace p1 in
           if serviceName \<noteq> [] \<and> serviceKey \<noteq> [] then AList.update serviceName serviceKey keys else keys)
      | _ \<Rightarrow> keys)"

definition ParseServiceKeys :: "string \<Rightarrow> (string \<times> string) list" where
  "ParseServiceKeys raw =
     (if raw = [] then [] else foldl add_service_key [] (Split raw CHR '',''))"

definition DefaultServiceKeyConfig :: ServiceKeyConfig where
  "DefaultServiceKeyConfig =
     \<lparr>sk_Enabled = False, sk_Keys = [], sk_ServiceNameHeader = ''X-Service-Name'',
      sk_ServiceKeyHeader = ''X-Service-Key''\<rparr>"

definition dummyServiceKey :: string where
  "dummyServiceKey = ''unknown-service-constant-time-dummy''"

text \<open>\<open>subtle.ConstantTimeCompare\<close>.\<close>

definition ConstantTimeCompare :: "string \<Rightarrow> string \<Rightarrow> int" where
  "ConstantTimeCompare a b = (if a = b then 1 else 0)"

definition ServiceKeyAuth :: "ServiceKeyConfig \<Rightarrow> 'w middleware" where
  "ServiceKeyAuth config next c =
     (let nameHeader = (if sk_ServiceNameHeader config = [] then ''X-Service-Name''
                        else sk_ServiceNameHeader config);
          keyHeader = (if sk_ServiceKeyHeader config = [] then ''X-Service-Key''
                       else sk_ServiceKeyHeader config)
      in
      if \<not> sk_Enabled config then next c
      else if sk_Keys config = [] then
        Return (Done (Abort (SendError 503 ''service authentication not configured'' c)))
      else
        (let serviceName = rq_Header (cx_Request c) nameHeader;
             serviceKey = rq_Header (cx_Request c) keyHeader
         in
         if serviceName = [] \<or> serviceKey = [] then
           Return (Done (Abort (SendError 401 ''unauthorized'' c)))
         else
           (let found = map_of (sk_Keys config) serviceName;
                expectedKey = (case found of Some k \<Rightarrow> k | None \<Rightarrow> dummyServiceKey);
                keyMatch = (ConstantTimeCompare expectedKey serviceKey = 1)
            in
            if found = None \<or> \<not> keyMatch then
              Return (Done (Abort (SendError 401 ''unauthorized'' c)))
            else
              (let lc = fst (logutil_Extract (cx_Log c)) in
               next (c\<lparr>cx_Log := logutil_Inject (cx_Log c) (lc\<lparr>lc_CallerService := serviceName\<rparr>)\<rparr>)))))"

end
