(* ===== verification/ServiceAuth.thy ===== *)
theory ServiceAuth
  imports Middleware
begin

text \<open>
  The service-key middleware with the configuration string it is built from: which requests of a
  deployment that lists its services pass.
\<close>

section \<open>The configuration string\<close>

definition service_entry :: "string \<times> string \<Rightarrow> string" where
  "service_entry p = fst p @ '':'' @ snd p"

definition render_service_keys :: "(string \<times> string) list \<Rightarrow> string" where
  "render_service_keys ps = Join (map service_entry ps) '',''"

text \<open>A name or key without separators whose ends are not white space.\<close>

definition clean_token :: "string \<Rightarrow> bool" where
  "clean_token s \<longleftrightarrow> s \<noteq> [] \<and> printable (hd s) \<and> printable (last s) \<and> CHR '','' \<notin> set s"

definition clean_service :: "string \<times> string \<Rightarrow> bool" where
  "clean_service p \<longleftrightarrow> clean_token (fst p) \<and> CHR '':'' \<notin> set (fst p) \<and> clean_token (snd p)"

lemma add_service_key_entry:
  assumes "clean_service p"
  shows "add_service_key keys (service_entry p) = AList.update (fst p) (snd p) keys"
proof -
  have "TrimSpace (service_entry p) = service_entry p"
    using assms by (intro TrimSpace_printable) (auto simp: clean_service_def clean_token_def service_entry_def)
  moreover have "SplitN2 (service_entry p) CHR '':'' = [fst p, snd p]"
    using assms SplitN2_append [of "CHR '':''" "fst p" "snd p"] by (simp add: clean_service_def service_entry_def)
  moreover have "TrimSpace (fst p) = fst p" "TrimSpace (snd p) = snd p"
    using assms by (auto intro!: TrimSpace_printable simp: clean_service_def clean_token_def)
  ultimately show ?thesis
    using assms by (simp add: add_service_key_def Let_def clean_service_def clean_token_def)
qed

lemma foldl_add_service_key:
  assumes "list_all clean_service ps"
  shows "foldl add_service_key keys (map service_entry ps) = foldl (\<lambda>m p. AList.update (fst p) (snd p) m) keys ps"
  using assms by (induction ps arbitrary: keys) (simp_all add: add_service_key_entry)

lemma map_of_foldl_update:
  "map_of (foldl (\<lambda>m p. AList.update (fst p) (snd p) m) keys ps) = map_of keys ++ map_of (rev ps)"
proof (induction ps arbitrary: keys)
  case Nil
  then show ?case by simp
next
  case (Cons p ps)
  show ?case
    by (simp add: Cons.IH AList.update_conv' map_of_append fun_upd_def) (auto simp: fun_eq_iff map_add_def split: option.split)
qed

lemma parse_render:
  assumes "list_all clean_service ps"
  shows "map_of (ParseServiceKeys (render_service_keys ps)) = map_of (rev ps)"
proof (cases ps)
  case Nil
  then show ?thesis by (simp add: ParseServiceKeys_def render_service_keys_def)
next
  case (Cons p qs)
  have "CHR '','' \<notin> set (service_entry q)" if "q \<in> set ps" for q
    using assms that by (auto simp: list_all_iff clean_service_def clean_token_def service_entry_def)
  then have "Split (render_service_keys ps) CHR '','' = map service_entry ps"
    unfolding render_service_keys_def using Cons by (intro Split_Join) auto
  moreover have "render_service_keys ps \<noteq> []"
    using Cons by (cases qs) (simp_all add: render_service_keys_def service_entry_def)
  ultimately show ?thesis
    by (simp add: ParseServiceKeys_def foldl_add_service_key [OF assms] map_of_foldl_update)
qed

lemma distinct_foldl_update:
  "distinct (map fst keys) \<Longrightarrow> distinct (map fst (foldl (\<lambda>m p. AList.update (fst p) (snd p) m) keys ps))"
  by (induction ps arbitrary: keys) (simp_all add: distinct_update)

section \<open>Correctness\<close>

text \<open>
  C31: The map parsed from a rendered list of services is that list: every service has its key, a
  service listed twice the later one, and there are no others.
\<close>

theorem service_keys_roundtrip:
  assumes "list_all clean_service ps"
  shows "map_of (ParseServiceKeys (render_service_keys ps)) = map_of (rev ps)"
  by (rule parse_render [OF assms])

theorem service_keys_roundtrip_witness:
  "map_of (ParseServiceKeys (render_service_keys [(''shop'', ''s3cret''), (''mail'', ''a:b''), (''shop'', ''newer'')]))
    = [''shop'' \<mapsto> ''newer'', ''mail'' \<mapsto> ''a:b'']"
proof -
  have "list_all clean_service [(''shop'', ''s3cret''), (''mail'', ''a:b''), (''shop'', ''newer'')]"
    by (simp add: clean_service_def clean_token_def printable_def)
  from service_keys_roundtrip [OF this] show ?thesis by (simp add: fun_eq_iff)
qed

lemma parsed_keys:
  assumes "list_all clean_service ps" and "distinct (map fst ps)"
  shows "map_of (ParseServiceKeys (render_service_keys ps)) n = Some k \<longleftrightarrow> (n, k) \<in> set ps"
    and "ParseServiceKeys (render_service_keys ps) = [] \<longleftrightarrow> ps = []"
proof -
  let ?keys = "ParseServiceKeys (render_service_keys ps)"
  show look: "map_of ?keys n = Some k \<longleftrightarrow> (n, k) \<in> set ps" for n k
    using assms(2) parse_render [OF assms(1)] by (simp add: rev_map [symmetric])
  have "(\<exists>n k. map_of ?keys n = Some k) \<longleftrightarrow> ps \<noteq> []" using look by (cases ps) auto
  moreover have "(\<exists>n k. map_of ?keys n = Some k) \<longleftrightarrow> ?keys \<noteq> []" by (cases ?keys) auto
  ultimately show "?keys = [] \<longleftrightarrow> ps = []" by blast
qed

text \<open>
  C4: With authentication enabled and the services of a deployment configured, a request reaches
  the protected handlers exactly if it names a configured service and carries that service's key;
  every other request is aborted with 401, or 503 if no service is configured, without any effect.
\<close>

theorem service_key_guard:
  assumes "list_all clean_service ps" and "distinct (map fst ps)" and "unwritten c"
    and "config = \<lparr>sk_Enabled = True, sk_Keys = ParseServiceKeys (render_service_keys ps),
           sk_ServiceNameHeader = [], sk_ServiceKeyHeader = []\<rparr>"
    and "name = rq_Header (cx_Request c) ''X-Service-Name''"
  shows "if (name, rq_Header (cx_Request c) ''X-Service-Key'') \<in> set ps
    then run (ServiceKeyAuth config next c) w
      = run (next (c\<lparr>cx_Log := Some ((fst (logutil_Extract (cx_Log c)))\<lparr>lc_CallerService := name\<rparr>)\<rparr>)) w
    else \<exists>d. run (ServiceKeyAuth config next c) w = (Done d, w) \<and> cx_Aborted d
      \<and> rs_Status (cx_Writer d) = (if ps = [] then 503 else 401)"
proof -
  let ?key = "rq_Header (cx_Request c) ''X-Service-Key''"
  note keys = parsed_keys [OF assms(1,2)]
  have look: "map_of (sk_Keys config) n = Some k \<longleftrightarrow> (n, k) \<in> set ps" for n k
    using keys(1) assms(4) by simp
  have empty: "sk_Keys config = [] \<longleftrightarrow> ps = []"
    using keys(2) assms(4) by simp
  have clean: "(n, k) \<in> set ps \<Longrightarrow> n \<noteq> [] \<and> k \<noteq> []" for n k
    using assms(1) by (auto simp: list_all_iff clean_service_def clean_token_def)
  show ?thesis
  proof (cases "(name, ?key) \<in> set ps")
    case True
    then have "map_of (sk_Keys config) name = Some ?key" "name \<noteq> []" "?key \<noteq> []" "ps \<noteq> []"
      using look clean by auto
    then show ?thesis using assms(4,5) True empty
      by (simp add: ServiceKeyAuth_def Let_def ConstantTimeCompare_def logutil_Inject_def)
  next
    case False
    have out: "\<exists>d. Done (Abort (SendError s m c)) = Done d \<and> cx_Aborted d \<and> rs_Status (cx_Writer d) = s"
      if "0 < s" for s m using SendError_status [OF assms(3) that] by simp
    have miss: "map_of (sk_Keys config) name \<noteq> Some ?key" using look False by blast
    have "run (ServiceKeyAuth config next c) w =
        (Done (Abort (if ps = [] then SendError 503 ''service authentication not configured'' c
           else SendError 401 ''unauthorized'' c)), w)"
      using miss assms(4,5) empty
      by (auto simp: ServiceKeyAuth_def Let_def ConstantTimeCompare_def split: option.splits)
    then show ?thesis using False SendError_status [OF assms(3)] by simp
  qed
qed

definition header_request :: "string \<Rightarrow> string \<Rightarrow> http_request" where
  "header_request n k = blank_request
     \<lparr>rq_Header := (\<lambda>h. if h = ''X-Service-Name'' then n else if h = ''X-Service-Key'' then k else [])\<rparr>"

definition shop_config :: ServiceKeyConfig where
  "shop_config = \<lparr>sk_Enabled = True, sk_Keys = ParseServiceKeys (render_service_keys [(''shop'', ''s3cret'')]),
     sk_ServiceNameHeader = [], sk_ServiceKeyHeader = []\<rparr>"

theorem service_key_guard_witness:
  "run (ServiceKeyAuth shop_config (\<lambda>c. Return (Panic (AString ''reached'') c))
        (blank_context (header_request ''shop'' ''s3cret''))) (0::nat)
     = (Panic (AString ''reached'')
          ((blank_context (header_request ''shop'' ''s3cret''))
             \<lparr>cx_Log := Some ((fst (logutil_Extract None))\<lparr>lc_CallerService := ''shop''\<rparr>)\<rparr>), 0)
   \<and> (\<exists>d. run (ServiceKeyAuth shop_config (\<lambda>c. Return (Panic (AString ''reached'') c))
        (blank_context (header_request ''shop'' ''guess''))) (0::nat) = (Done d, 0)
        \<and> cx_Aborted d \<and> rs_Status (cx_Writer d) = 401)"
proof -
  have ps: "list_all clean_service [(''shop'', ''s3cret'')]" "distinct (map fst [(''shop'', ''s3cret'')])"
    by (simp_all add: clean_service_def clean_token_def printable_def)
  have unw: "unwritten (blank_context q)" for q by (simp add: unwritten_def blank_context_def)
  note guard = service_key_guard [OF ps unw shop_config_def refl]
  show ?thesis
    using guard [of "header_request ''shop'' ''s3cret''" "\<lambda>c. Return (Panic (AString ''reached'') c)" "0::nat"]
      guard [of "header_request ''shop'' ''guess''" "\<lambda>c. Return (Panic (AString ''reached'') c)" "0::nat"]
    by (simp add: header_request_def blank_request_def blank_context_def)
qed

end
