(* ===== verification/Concurrency.thy ===== *)
theory Concurrency
  imports Prelude
begin

text \<open>
  Concurrent requests: the interleavings of programs, at the granularity of their atomic calls and
  with arbitrary steps of the surroundings between them, and a typestate method to prove invariants
  of them.  A program \<open>follows\<close> a protocol if each of its atomic calls is an allowed change of its
  state and of the world.
\<close>

inductive conc_step ::
  "('w \<Rightarrow> 'w \<Rightarrow> bool) \<Rightarrow> ('w, 'r) prog list \<times> 'w \<Rightarrow> ('w, 'r) prog list \<times> 'w \<Rightarrow> bool" for Env where
  thread: "i < length ps \<Longrightarrow> ps ! i = Atomic f \<Longrightarrow> conc_step Env (ps, w) (ps[i := fst (f w)], snd (f w))"
| env: "Env w w' \<Longrightarrow> conc_step Env (ps, w) (ps, w')"

inductive_cases conc_stepE: "conc_step Env (ps, w) cfg"

definition conc_reachable ::
  "('w \<Rightarrow> 'w \<Rightarrow> bool) \<Rightarrow> ('w, 'r) prog list \<times> 'w \<Rightarrow> ('w, 'r) prog list \<times> 'w \<Rightarrow> bool" where
  "conc_reachable Env = (conc_step Env)\<^sup>*\<^sup>*"

lemma conc_reachable_length:
  assumes "conc_reachable Env cfg cfg'"
  shows "length (fst cfg') = length (fst cfg)"
  using assms unfolding conc_reachable_def
  by (induction rule: rtranclp_induct) (auto elim!: conc_step.cases)

lemma conc_reachable_run:
  assumes "i < length ps"
  shows "conc_reachable Env (ps, w) (ps[i := Return (fst (run (ps ! i) w))], snd (run (ps ! i) w))"
proof -
  have "i < length ps \<Longrightarrow> ps ! i = p
      \<Longrightarrow> conc_reachable Env (ps, w) (ps[i := Return (fst (run p w))], snd (run p w))" for p
  proof (induction p arbitrary: ps w rule: prog_induct)
    case (Return r)
    then have "ps[i := Return r] = ps" by (metis list_update_id)
    then show ?case by (simp add: conc_reachable_def)
  next
    case (Atomic f)
    have "conc_step Env (ps, w) (ps[i := fst (f w)], snd (f w))" by (rule thread [OF Atomic.prems])
    moreover have "conc_reachable Env (ps[i := fst (f w)], snd (f w))
        (ps[i := Return (fst (run (fst (f w)) (snd (f w))))], snd (run (fst (f w)) (snd (f w))))"
      using Atomic.IH [of "ps[i := fst (f w)]" w "snd (f w)"] Atomic.prems by simp
    ultimately show ?case unfolding conc_reachable_def run_Atomic by (rule converse_rtranclp_into_rtranclp)
  qed
  then show ?thesis using assms by blast
qed

text \<open>
  \<open>good s w\<close> is what a thread in state \<open>s\<close> may rely on, \<open>allowed s w s' w'\<close> the calls it may make,
  \<open>Q s r\<close> the states in which it may return \<open>r\<close>.
\<close>

inductive follows ::
  "('s \<Rightarrow> 'w \<Rightarrow> bool) \<Rightarrow> ('s \<Rightarrow> 'w \<Rightarrow> 's \<Rightarrow> 'w \<Rightarrow> bool) \<Rightarrow> 's \<Rightarrow> ('w, 'r) prog
    \<Rightarrow> ('s \<Rightarrow> 'r \<Rightarrow> bool) \<Rightarrow> bool" for good allowed where
  f_return: "Q s r \<Longrightarrow> follows good allowed s (Return r) Q"
| f_atomic: "(\<And>w. good s w \<Longrightarrow> \<exists>s'. allowed s w s' (snd (f w)) \<and> follows good allowed s' (fst (f w)) Q)
    \<Longrightarrow> follows good allowed s (Atomic f) Q"

inductive_simps follows_Return [simp]: "follows good allowed s (Return r) Q"
inductive_cases follows_AtomicE: "follows good allowed s (Atomic f) Q"

lemma follows_bind:
  assumes "follows good allowed s p Q" and "\<And>s' r. Q s' r \<Longrightarrow> follows good allowed s' (k r) Q'"
  shows "follows good allowed s (pbind p k) Q'"
  using assms
proof (induction rule: follows.induct)
  case (f_return Q s r)
  then show ?case by simp
next
  case (f_atomic s f Q)
  show ?case unfolding pbind_Atomic_eq
  proof (rule follows.f_atomic)
    fix w
    assume "good s w"
    then obtain s' where "allowed s w s' (snd (f w))" "follows good allowed s' (pbind (fst (f w)) k) Q'"
      using f_atomic.IH [of w] f_atomic.prems by blast
    then show "\<exists>s'. allowed s w s' (snd (pbind (fst (f w)) k, snd (f w)))
        \<and> follows good allowed s' (fst (pbind (fst (f w)) k, snd (f w))) Q'" by auto
  qed
qed

lemma follows_call:
  assumes "\<And>w. good s w \<Longrightarrow> \<exists>s'. allowed s w s' (snd (f w)) \<and> Q s' (fst (f w))"
  shows "follows good allowed s (call f) Q"
  unfolding call_def
proof (rule f_atomic)
  fix w
  assume "good s w"
  then show "\<exists>s'. allowed s w s' (snd ((map_prod Return id \<circ> f) w))
      \<and> follows good allowed s' (fst ((map_prod Return id \<circ> f) w)) Q"
    using assms [of w] by (cases "f w") auto
qed

lemma follows_mono: "follows good allowed s p Q \<Longrightarrow> (\<And>s r. Q s r \<Longrightarrow> Q' s r) \<Longrightarrow> follows good allowed s p Q'"
  by (subst pbind_Return [symmetric]) (rule follows_bind, assumption, simp)

lemma follows_call_bind:
  assumes "\<And>w. good s w \<Longrightarrow> \<exists>s'. allowed s w s' (snd (f w)) \<and> follows good allowed s' (k (fst (f w))) Q"
  shows "follows good allowed s (pbind (call f) k) Q"
  by (rule follows_bind [where Q = "\<lambda>s' r. follows good allowed s' (k r) Q"])
    (rule follows_call, rule assms)

text \<open>
  Every thread follows the protocol and the states of all threads are related to the world by
  \<open>Inv\<close>: then so they are in every reachable configuration.
\<close>

definition protocol_inv ::
  "('s \<Rightarrow> 'w \<Rightarrow> bool) \<Rightarrow> ('s \<Rightarrow> 'w \<Rightarrow> 's \<Rightarrow> 'w \<Rightarrow> bool) \<Rightarrow> ('s list \<Rightarrow> 'w \<Rightarrow> bool)
    \<Rightarrow> ('s \<Rightarrow> 'r \<Rightarrow> bool) \<Rightarrow> ('w, 'r) prog list \<times> 'w \<Rightarrow> bool" where
  "protocol_inv good allowed Inv Q cfg \<longleftrightarrow>
     (\<exists>ss. length ss = length (fst cfg) \<and> Inv ss (snd cfg)
        \<and> (\<forall>i<length ss. follows good allowed (ss ! i) (fst cfg ! i) Q))"

locale protocol =
  fixes good :: "'s \<Rightarrow> 'w \<Rightarrow> bool" and allowed :: "'s \<Rightarrow> 'w \<Rightarrow> 's \<Rightarrow> 'w \<Rightarrow> bool"
    and Inv :: "'s list \<Rightarrow> 'w \<Rightarrow> bool" and Env :: "'w \<Rightarrow> 'w \<Rightarrow> bool"
  assumes rely: "Inv ss w \<Longrightarrow> i < length ss \<Longrightarrow> good (ss ! i) w"
    and keep: "Inv ss w \<Longrightarrow> i < length ss \<Longrightarrow> allowed (ss ! i) w s' w' \<Longrightarrow> Inv (ss[i := s']) w'"
    and env_keep: "Inv ss w \<Longrightarrow> Env w w' \<Longrightarrow> Inv ss w'"
begin

lemma protocol_step:
  assumes inv: "protocol_inv good allowed Inv Q cfg" and step: "conc_step Env cfg cfg'"
  shows "protocol_inv good allowed Inv Q cfg'"
proof -
  obtain ss where ss: "length ss = length (fst cfg)" "Inv ss (snd cfg)"
    "\<And>i. i < length ss \<Longrightarrow> follows good allowed (ss ! i) (fst cfg ! i) Q"
    using inv by (auto simp: protocol_inv_def)
  from step show ?thesis
  proof cases
    case (thread i ps f w)
    have i: "i < length ss" using thread ss(1) by simp
    have "follows good allowed (ss ! i) (Atomic f) Q" using ss(3) [OF i] thread by simp
    then obtain s' where s': "allowed (ss ! i) w s' (snd (f w))" "follows good allowed s' (fst (f w)) Q"
      using rely [OF ss(2) i] thread by (elim follows_AtomicE) auto
    have "Inv (ss[i := s']) (snd (f w))" using keep [OF _ i s'(1)] ss(2) thread by simp
    then show ?thesis unfolding protocol_inv_def using thread ss s'(2)
      by (intro exI [of _ "ss[i := s']"]) (auto simp: nth_list_update)
  next
    case (env w w' ps)
    then show ?thesis unfolding protocol_inv_def using ss env_keep by (intro exI [of _ ss]) auto
  qed
qed

lemma protocol_reachable:
  assumes "conc_reachable Env cfg cfg'" and "protocol_inv good allowed Inv Q cfg"
  shows "protocol_inv good allowed Inv Q cfg'"
  using assms unfolding conc_reachable_def
  by (induction rule: rtranclp_induct) (auto intro: protocol_step)

end

end
