(* ===== verification/Idempotency.thy ===== *)
theory Idempotency
  imports Middleware Cache Concurrency
begin

text \<open>
  Idempotent POST requests: the store interface of \<open>pkg/idempotency\<close>, its Redis implementation
  (\<open>redisstore\<close>) and the middleware.  SHA-256 and the JSON form of an entry are parameters.
\<close>

section \<open>The store\<close>

record Entry =
  ie_Status :: string
  ie_StatusCode :: int
  ie_Body :: string
  ie_Fingerprint :: string

definition StatusProcessing :: string where "StatusProcessing = ''PROCESSING''"
definition StatusCompleted :: string where "StatusCompleted = ''COMPLETED''"

record 'w idem_store =
  is_Lock :: "string \<Rightarrow> string \<Rightarrow> ('w, goerror + bool) prog"
  is_Get :: "string \<Rightarrow> ('w, goerror + Entry option) prog"
  is_Complete :: "string \<Rightarrow> Entry \<Rightarrow> ('w, goerror option) prog"
  is_Unlock :: "string \<Rightarrow> ('w, goerror option) prog"

section \<open>redisstore\<close>

record 'w RedisStore =
  rst_client :: "'w redis"
  rst_ttl :: duration
  rst_lockTTL :: duration

definition NewRedisStore :: "'w redis \<Rightarrow> duration \<Rightarrow> duration \<Rightarrow> 'w RedisStore" where
  "NewRedisStore client ttl lockTTL = \<lparr>rst_client = client, rst_ttl = ttl, rst_lockTTL = lockTTL\<rparr>"

definition RedisStore_Lock ::
  "Entry codec \<Rightarrow> 'w RedisStore \<Rightarrow> string \<Rightarrow> string \<Rightarrow> ('w, goerror + bool) prog" where
  "RedisStore_Lock cd s key fingerprint =
     (let entry = \<lparr>ie_Status = StatusProcessing, ie_StatusCode = 0, ie_Body = [], ie_Fingerprint = fingerprint\<rparr> in
      case cd_marshal cd entry of
        Inl marshalErr \<Rightarrow> Return (Inl marshalErr)
      | Inr data \<Rightarrow>
          pbind (call (rd_SetNX (rst_client s) key data (rst_lockTTL s))) (\<lambda>r.
          case r of
            Inl setErr \<Rightarrow> Return (Inl setErr)
          | Inr acquired \<Rightarrow> Return (Inr acquired)))"

definition RedisStore_Get ::
  "Entry codec \<Rightarrow> 'w RedisStore \<Rightarrow> string \<Rightarrow> ('w, goerror + Entry option) prog" where
  "RedisStore_Get cd s key =
     pbind (call (rd_Get (rst_client s) key)) (\<lambda>r.
     case r of
       Inl getErr \<Rightarrow> (if errors_Is getErr RedisNil then Return (Inr None) else Return (Inl getErr))
     | Inr val \<Rightarrow>
         (case cd_unmarshal cd val of
            Inl unmarshalErr \<Rightarrow> Return (Inl unmarshalErr)
          | Inr entry \<Rightarrow> Return (Inr (Some entry))))"

definition RedisStore_Complete ::
  "Entry codec \<Rightarrow> 'w RedisStore \<Rightarrow> string \<Rightarrow> Entry \<Rightarrow> ('w, goerror option) prog" where
  "RedisStore_Complete cd s key entry0 =
     (let entry = entry0\<lparr>ie_Status := StatusCompleted\<rparr> in
      case cd_marshal cd entry of
        Inl marshalErr \<Rightarrow> Return (Some marshalErr)
      | Inr data \<Rightarrow> call (rd_Set (rst_client s) key data (rst_ttl s)))"

definition RedisStore_Unlock :: "'w RedisStore \<Rightarrow> string \<Rightarrow> ('w, goerror option) prog" where
  "RedisStore_Unlock s key = call (rd_Del (rst_client s) key)"

definition redis_store :: "Entry codec \<Rightarrow> 'w RedisStore \<Rightarrow> 'w idem_store" where
  "redis_store cd s =
     \<lparr>is_Lock = RedisStore_Lock cd s, is_Get = RedisStore_Get cd s,
      is_Complete = RedisStore_Complete cd s, is_Unlock = RedisStore_Unlock s\<rparr>"

section \<open>The middleware\<close>

definition buildIdempotencyKey :: "string \<Rightarrow> string \<Rightarrow> string" where
  "buildIdempotencyKey serviceName key =
     (if serviceName \<noteq> [] then ''idempotency:'' @ serviceName @ '':'' @ key else ''idempotency:'' @ key)"

definition shouldStoreResponse :: "int \<Rightarrow> bool" where
  "shouldStoreResponse statusCode \<longleftrightarrow> statusCode \<ge> 200 \<and> statusCode < 500"

definition span_event_mw :: "string \<Rightarrow> (string \<times> goany) list \<Rightarrow> gin_context \<Rightarrow> gin_context" where
  "span_event_mw name attrs c = c\<lparr>cx_Span := RecordEvent (cx_Span c) name attrs\<rparr>"

definition error_message_json :: "string \<Rightarrow> goany" where
  "error_message_json m = error_json \<lparr>ed_Message = m, ed_Code = [], ed_Details = None\<rparr>"

text \<open>
  After the handler: \<open>before\<close> is what had been written when the capturing writer was installed, so
  the captured body is what was appended since.
\<close>

definition store_response ::
  "'w web \<Rightarrow> 'w idem_store \<Rightarrow> string \<Rightarrow> string \<Rightarrow> string \<Rightarrow> string \<Rightarrow> gin_context \<Rightarrow> ('w, outcome) prog" where
  "store_response W store key fullKey fingerprint before c =
     (let keyAttr = (''idempotency.key'', AString key);
          statusCode = rs_Status (cx_Writer c);
          captured = drop (length before) (rs_Body (cx_Writer c))
      in
      if shouldStoreResponse statusCode then
        pbind (is_Complete store fullKey
          \<lparr>ie_Status = [], ie_StatusCode = statusCode, ie_Body = captured, ie_Fingerprint = fingerprint\<rparr>) (\<lambda>completeErr.
        case completeErr of
          Some e \<Rightarrow>
            pbind (LogWarn W (cx_Log c) ''failed to store idempotency response''
              [(''error'', AString (err_text e)), (''idempotency_key'', AString key)]) (\<lambda>_. Return (Done c))
        | None \<Rightarrow>
            Return (Done (span_event_mw ''idempotency.stored''
              [keyAttr, (''idempotency.status_code'', AInt statusCode)] c)))
      else
        pbind (is_Unlock store fullKey) (\<lambda>unlockErr.
        case unlockErr of
          Some e \<Rightarrow>
            pbind (LogWarn W (cx_Log c) ''failed to unlock idempotency key''
              [(''error'', AString (err_text e)), (''idempotency_key'', AString key)]) (\<lambda>_. Return (Done c))
        | None \<Rightarrow> Return (Done (span_event_mw ''idempotency.released'' [keyAttr] c))))"

text \<open>The answer to a request whose key is taken.\<close>

definition answer_taken ::
  "'w web \<Rightarrow> 'w handler \<Rightarrow> string \<Rightarrow> string \<Rightarrow> gin_context \<Rightarrow> goerror + Entry option \<Rightarrow> ('w, outcome) prog" where
  "answer_taken W next key fingerprint c res =
     (let keyAttr = (''idempotency.key'', AString key) in
      case res of
        Inl getErr \<Rightarrow>
          pbind (LogWarn W (cx_Log c) ''idempotency store get failed, proceeding without''
            [(''error'', AString (err_text getErr)), (''idempotency_key'', AString key)]) (\<lambda>_. next c)
      | Inr None \<Rightarrow> next c
      | Inr (Some entry) \<Rightarrow>
          (if ie_Status entry = StatusProcessing then
             Return (Done (AbortWithStatusJSON 409
               (error_message_json ''A request with this Idempotency-Key is already being processed'')
               (span_event_mw ''idempotency.locked'' [keyAttr] c)))
           else if ie_Fingerprint entry \<noteq> [] \<and> fingerprint \<noteq> ie_Fingerprint entry then
             Return (Done (AbortWithStatusJSON 422
               (error_message_json ''Idempotency-Key already used with a different request body'')
               (span_event_mw ''idempotency.fingerprint_mismatch'' [keyAttr] c)))
           else
             Return (Done (Abort (gin_Data (ie_StatusCode entry) json_type (ie_Body entry)
               (span_event_mw ''idempotency.replayed''
                 [keyAttr, (''idempotency.status_code'', AInt (ie_StatusCode entry))] c))))))"

definition Idempotency_mw ::
  "'w web \<Rightarrow> (string \<Rightarrow> string) \<Rightarrow> 'w idem_store \<Rightarrow> 'w middleware" where
  "Idempotency_mw W bodyFingerprint store next c =
     (let q = cx_Request c; key = rq_Header q ''Idempotency-Key'' in
      if rq_Method q \<noteq> ''POST'' then next c
      else if key = [] then next c
      else
        (case rq_Body q of
           (reqBody, Some readErr) \<Rightarrow>
             (if errors_As_MaxBytes readErr then
                Return (Done (AbortWithStatusJSON 413 (error_message_json ''request body too large'')
                  (set_body ([], Some readErr) c)))
              else next (set_body ([], Some readErr) c))
         | (reqBody, None) \<Rightarrow>
             (let c1 = set_body (reqBody, None) c;
                  fingerprint = bodyFingerprint reqBody;
                  fullKey = buildIdempotencyKey (rq_Header q ''X-Service-Name'') key;
                  keyAttr = (''idempotency.key'', AString key)
              in
              pbind (is_Lock store fullKey fingerprint) (\<lambda>locked.
              case locked of
                Inl lockErr \<Rightarrow>
                  (let c2 = span_event_mw ''idempotency.store_unavailable'' [keyAttr] c1 in
                   pbind (LogWarn W (cx_Log c2) ''idempotency store unavailable, proceeding without''
                     [(''error'', AString (err_text lockErr)), (''idempotency_key'', AString key)]) (\<lambda>_. next c2))
              | Inr False \<Rightarrow>
                  pbind (is_Get store fullKey) (answer_taken W next key fingerprint c1)
              | Inr True \<Rightarrow>
                  (let c2 = span_event_mw ''idempotency.key_acquired'' [keyAttr] c1 in
                   after (next c2)
                     (store_response W store key fullKey fingerprint (rs_Body (cx_Writer c2))))))))"

section \<open>A steady server\<close>

text \<open>
  The server answers, and the entry under \<open>k\<close> does not expire while the requests are served; \<open>cnt\<close> is
  something no Redis command and no log call changes.
\<close>

definition steady_SetNX ::
  "'w redis \<Rightarrow> ('w \<Rightarrow> string \<Rightarrow> string option) \<Rightarrow> ('w \<Rightarrow> nat) \<Rightarrow> string \<Rightarrow> string \<Rightarrow> duration \<Rightarrow> 'w \<Rightarrow> bool" where
  "steady_SetNX R kv cnt k v d w \<longleftrightarrow>
     (case rd_SetNX R k v d w of (r, w') \<Rightarrow>
        r = Inr (kv w k = None)
        \<and> kv w' k = (case kv w k of None \<Rightarrow> Some v | Some u \<Rightarrow> Some u) \<and> cnt w' = cnt w)"

definition steady_Get ::
  "'w redis \<Rightarrow> ('w \<Rightarrow> string \<Rightarrow> string option) \<Rightarrow> ('w \<Rightarrow> nat) \<Rightarrow> string \<Rightarrow> 'w \<Rightarrow> bool" where
  "steady_Get R kv cnt k w \<longleftrightarrow>
     (case rd_Get R k w of (r, w') \<Rightarrow>
        r = (case kv w k of None \<Rightarrow> Inl (Sentinel RedisNil) | Some v \<Rightarrow> Inr v)
        \<and> kv w' k = kv w k \<and> cnt w' = cnt w)"

definition steady_Set ::
  "'w redis \<Rightarrow> ('w \<Rightarrow> string \<Rightarrow> string option) \<Rightarrow> ('w \<Rightarrow> nat) \<Rightarrow> string \<Rightarrow> string \<Rightarrow> duration \<Rightarrow> 'w \<Rightarrow> bool" where
  "steady_Set R kv cnt k v d w \<longleftrightarrow>
     (case rd_Set R k v d w of (r, w') \<Rightarrow> r = None \<and> kv w' k = Some v \<and> cnt w' = cnt w)"

definition steady_Del ::
  "'w redis \<Rightarrow> ('w \<Rightarrow> string \<Rightarrow> string option) \<Rightarrow> ('w \<Rightarrow> nat) \<Rightarrow> string \<Rightarrow> 'w \<Rightarrow> bool" where
  "steady_Del R kv cnt k w \<longleftrightarrow>
     (case rd_Del R k w of (r, w') \<Rightarrow> r = None \<and> kv w' k = None \<and> cnt w' = cnt w)"

definition steady_redis ::
  "'w redis \<Rightarrow> ('w \<Rightarrow> string \<Rightarrow> string option) \<Rightarrow> ('w \<Rightarrow> nat) \<Rightarrow> string \<Rightarrow> bool" where
  "steady_redis R kv cnt k \<longleftrightarrow>
     (\<forall>v d w. steady_SetNX R kv cnt k v d w) \<and> (\<forall>w. steady_Get R kv cnt k w)
     \<and> (\<forall>v d w. steady_Set R kv cnt k v d w) \<and> (\<forall>w. steady_Del R kv cnt k w)"

lemma steady_redisD:
  assumes "steady_redis R kv cnt k"
  shows "fst (rd_SetNX R k v d w) = Inr (kv w k = None)"
    and "kv (snd (rd_SetNX R k v d w)) k = (case kv w k of None \<Rightarrow> Some v | Some u \<Rightarrow> Some u)"
    and "cnt (snd (rd_SetNX R k v d w)) = cnt w"
    and "fst (rd_Get R k w) = (case kv w k of None \<Rightarrow> Inl (Sentinel RedisNil) | Some v \<Rightarrow> Inr v)"
    and "kv (snd (rd_Get R k w)) k = kv w k" and "cnt (snd (rd_Get R k w)) = cnt w"
    and "fst (rd_Set R k v d w) = None" and "kv (snd (rd_Set R k v d w)) k = Some v"
    and "cnt (snd (rd_Set R k v d w)) = cnt w"
    and "fst (rd_Del R k w) = None" and "kv (snd (rd_Del R k w)) k = None" and "cnt (snd (rd_Del R k w)) = cnt w"
proof -
  have "steady_SetNX R kv cnt k v d w" "steady_Get R kv cnt k w" "steady_Set R kv cnt k v d w" "steady_Del R kv cnt k w"
    using assms unfolding steady_redis_def by blast+
  then show "fst (rd_SetNX R k v d w) = Inr (kv w k = None)"
    "kv (snd (rd_SetNX R k v d w)) k = (case kv w k of None \<Rightarrow> Some v | Some u \<Rightarrow> Some u)"
    "cnt (snd (rd_SetNX R k v d w)) = cnt w"
    "fst (rd_Get R k w) = (case kv w k of None \<Rightarrow> Inl (Sentinel RedisNil) | Some v \<Rightarrow> Inr v)"
    "kv (snd (rd_Get R k w)) k = kv w k" "cnt (snd (rd_Get R k w)) = cnt w"
    "fst (rd_Set R k v d w) = None" "kv (snd (rd_Set R k v d w)) k = Some v"
    "cnt (snd (rd_Set R k v d w)) = cnt w"
    "fst (rd_Del R k w) = None" "kv (snd (rd_Del R k w)) k = None" "cnt (snd (rd_Del R k w)) = cnt w"
    by (simp_all add: steady_SetNX_def steady_Get_def steady_Set_def steady_Del_def split: prod.splits)
qed

definition total_codec :: "'v codec \<Rightarrow> bool" where
  "total_codec cd \<longleftrightarrow> (\<forall>v. \<exists>s. cd_marshal cd v = Inr s \<and> cd_unmarshal cd s = Inr v)"

text \<open>Nothing has been written to the response yet.\<close>

definition fresh_writer :: "gin_context \<Rightarrow> bool" where
  "fresh_writer c \<longleftrightarrow> \<not> rs_Written (cx_Writer c) \<and> rs_Body (cx_Writer c) = []"

text \<open>A POST with a key whose full key is \<open>k\<close>, and whose body can be read.\<close>

definition keyed_post :: "string \<Rightarrow> string \<Rightarrow> gin_context \<Rightarrow> bool" where
  "keyed_post k b c \<longleftrightarrow> rq_Method (cx_Request c) = ''POST''
     \<and> rq_Header (cx_Request c) ''Idempotency-Key'' \<noteq> []
     \<and> buildIdempotencyKey (rq_Header (cx_Request c) ''X-Service-Name'')
         (rq_Header (cx_Request c) ''Idempotency-Key'') = k
     \<and> rq_Body (cx_Request c) = (b, None) \<and> fresh_writer c"

lemma keyed_post_mw:
  assumes "keyed_post k b c"
  shows "\<exists>c1 c2 key. Idempotency_mw W fp store next c =
      pbind (is_Lock store k (fp b)) (\<lambda>locked.
        case locked of
          Inl lockErr \<Rightarrow>
            (let c2 = span_event_mw ''idempotency.store_unavailable'' [(''idempotency.key'', AString key)] c1 in
             pbind (LogWarn W (cx_Log c2) ''idempotency store unavailable, proceeding without''
               [(''error'', AString (err_text lockErr)), (''idempotency_key'', AString key)]) (\<lambda>_. next c2))
        | Inr False \<Rightarrow> pbind (is_Get store k) (answer_taken W next key (fp b) c1)
        | Inr True \<Rightarrow> after (next c2) (store_response W store key k (fp b) (rs_Body (cx_Writer c2))))
    \<and> cx_Writer c1 = cx_Writer c \<and> cx_Writer c2 = cx_Writer c"
  using assms unfolding keyed_post_def Idempotency_mw_def Let_def
  by (intro exI [of _ "set_body (b, None) c"]
        exI [of _ "span_event_mw ''idempotency.key_acquired''
          [(''idempotency.key'', AString (rq_Header (cx_Request c) ''Idempotency-Key''))] (set_body (b, None) c)"]
        exI [of _ "rq_Header (cx_Request c) ''Idempotency-Key''"])
    (simp add: span_event_mw_def set_body_def cong: sum.case_cong bool.case_cong)

end
