(* ===== verification/IdempotencyProofs.thy ===== *)
theory IdempotencyProofs
  imports Idempotency
begin

text \<open>
  What idempotency keys guarantee: concurrently, at most one of the requests with a key has an
  effect (a typestate proof over the protocol of \<open>Concurrency\<close>); one after the other, the later ones
  replay the answer of the first, and a server error releases the key.
\<close>

section \<open>At most one effect\<close>

text \<open>Where a request is: it does not hold the key, it knows the key is taken, it owns it, or it has run.\<close>

datatype phase = Wait | Seen | Own | Ran

text \<open>\<open>D v\<close> is that the stored \<open>v\<close> decodes.\<close>

fun phase_good ::
  "('w \<Rightarrow> string \<Rightarrow> string option) \<Rightarrow> (string \<Rightarrow> bool) \<Rightarrow> string \<Rightarrow> phase \<Rightarrow> 'w \<Rightarrow> bool" where
  "phase_good kv D k Wait w = pred_option D (kv w k)"
| "phase_good kv D k s w = (\<exists>v. kv w k = Some v \<and> D v)"

definition phase_allowed ::
  "('w \<Rightarrow> string \<Rightarrow> string option) \<Rightarrow> (string \<Rightarrow> bool) \<Rightarrow> ('w \<Rightarrow> nat) \<Rightarrow> string
    \<Rightarrow> phase \<Rightarrow> 'w \<Rightarrow> phase \<Rightarrow> 'w \<Rightarrow> bool" where
  "phase_allowed kv D cnt k s w s' w' \<longleftrightarrow>
     pred_option D (kv w' k)
     \<and> (kv w' k \<noteq> None \<or> kv w k = None \<and> s = Wait \<and> s' = Wait)
     \<and> (s' = s \<and> cnt w' = cnt w \<and> (kv w' k = None \<longleftrightarrow> kv w k = None)
        \<or> s = Wait \<and> s' = Seen \<and> kv w k \<noteq> None \<and> cnt w' = cnt w
        \<or> s = Wait \<and> s' = Own \<and> kv w k = None \<and> cnt w' = cnt w
        \<or> s = Own \<and> s' = Ran \<and> cnt w' = cnt w + 1)"

definition phase_inv ::
  "('w \<Rightarrow> string \<Rightarrow> string option) \<Rightarrow> (string \<Rightarrow> bool) \<Rightarrow> ('w \<Rightarrow> nat) \<Rightarrow> string
    \<Rightarrow> phase list \<Rightarrow> 'w \<Rightarrow> bool" where
  "phase_inv kv D cnt k ss w \<longleftrightarrow> pred_option D (kv w k) \<and>
     (if kv w k = None then list_all (\<lambda>s. s = Wait) ss \<and> cnt w = 0
      else length (filter (\<lambda>s. s = Own) ss) + cnt w = 1)"

lemma filter_update_length:
  "i < length xs \<Longrightarrow>
    length (filter P (xs[i := x])) + of_bool (P (xs ! i)) = length (filter P xs) + of_bool (P x)"
proof (induction xs arbitrary: i)
  case Nil
  then show ?case by simp
next
  case (Cons y ys)
  then show ?case by (cases i) auto
qed

lemma phase_keep:
  assumes "phase_inv kv D cnt k ss w" and "i < length ss" and "phase_allowed kv D cnt k (ss ! i) w s' w'"
  shows "phase_inv kv D cnt k (ss[i := s']) w'"
proof -
  have f: "length (filter (\<lambda>s. s = Own) (ss[i := s'])) + of_bool (ss ! i = Own)
      = length (filter (\<lambda>s. s = Own) ss) + of_bool (s' = Own)"
    using filter_update_length [OF assms(2), of "\<lambda>s. s = Own" s'] .
  show ?thesis
  proof (cases "kv w k = None")
    case True
    then have all: "list_all (\<lambda>s. s = Wait) ss" "cnt w = 0" using assms(1) by (simp_all add: phase_inv_def)
    then have "ss ! i = Wait" using assms(2) by (simp add: list_all_length)
    moreover have "filter (\<lambda>s. s = Own) ss = []" using all(1) by (auto simp: filter_empty_conv list_all_iff)
    moreover have "s' = Wait \<Longrightarrow> ss[i := s'] = ss" using calculation(1) by (metis list_update_id)
    ultimately show ?thesis using assms(3) f all True
      by (auto simp: phase_inv_def phase_allowed_def)
  next
    case False
    define n where "n = length (filter (\<lambda>s. s = Own) ss)"
    define n' where "n' = length (filter (\<lambda>s. s = Own) (ss[i := s']))"
    have "n + cnt w = 1" using assms(1) False by (simp only: phase_inv_def n_def if_False)
    moreover have "n' + of_bool (ss ! i = Own) = n + of_bool (s' = Own)" using f by (simp only: n_def n'_def)
    ultimately have "n' + cnt w' = 1" using assms(3) False by (auto simp: phase_allowed_def)
    moreover have "kv w' k \<noteq> None" "pred_option D (kv w' k)" using assms(3) False by (auto simp: phase_allowed_def)
    ultimately show ?thesis by (simp only: phase_inv_def n'_def if_False simp_thms)
  qed
qed

text \<open>
  A handler with one effect: it performs it once, leaves the key alone, and answers with a status
  that is stored.
\<close>

definition one_effect ::
  "('w \<Rightarrow> string \<Rightarrow> string option) \<Rightarrow> ('w \<Rightarrow> nat) \<Rightarrow> string \<Rightarrow> 'w handler \<Rightarrow> bool" where
  "one_effect kv cnt k next \<longleftrightarrow>
     (\<forall>c. fresh_writer c \<longrightarrow> follows (\<lambda>s w. True)
        (\<lambda>s w s' w'. kv w' k = kv w k \<and> (s' = s \<and> cnt w' = cnt w \<or> \<not> s \<and> s' \<and> cnt w' = cnt w + 1))
        False (next c)
        (\<lambda>s r. s \<and> (\<exists>c'. r = Done c' \<and> shouldStoreResponse (rs_Status (cx_Writer c')))))"

lemma follows_own:
  assumes "follows (\<lambda>s w. True)
      (\<lambda>s w s' w'. kv w' k = kv w k \<and> (s' = s \<and> cnt w' = cnt w \<or> \<not> s \<and> s' \<and> cnt w' = cnt w + 1)) b p Q"
  shows "follows (phase_good kv D k) (phase_allowed kv D cnt k) (if b then Ran else Own) p
      (\<lambda>s r. \<exists>b'. s = (if b' then Ran else Own) \<and> Q b' r)"
  using assms
proof (induction rule: follows.induct)
  case (f_return Q s r)
  then show ?case by (intro follows.f_return exI [of _ s]) simp
next
  case (f_atomic s f Q)
  show ?case
  proof (rule follows.f_atomic)
    fix w
    assume "phase_good kv D k (if s then Ran else Own) w"
    then obtain v where k: "kv w k = Some v" "D v" by (cases s) auto
    obtain s' where s': "kv (snd (f w)) k = kv w k"
      "s' = s \<and> cnt (snd (f w)) = cnt w \<or> \<not> s \<and> s' \<and> cnt (snd (f w)) = cnt w + 1"
      "follows (phase_good kv D k) (phase_allowed kv D cnt k) (if s' then Ran else Own) (fst (f w))
         (\<lambda>s r. \<exists>b'. s = (if b' then Ran else Own) \<and> Q b' r)"
      using f_atomic.IH [of w] by blast
    then show "\<exists>s'. phase_allowed kv D cnt k (if s then Ran else Own) w s' (snd (f w)) \<and>
        follows (phase_good kv D k) (phase_allowed kv D cnt k) s' (fst (f w))
          (\<lambda>s r. \<exists>b'. s = (if b' then Ran else Own) \<and> Q b' r)"
      using k by (intro exI [of _ "if s' then Ran else Own"]) (auto simp: phase_allowed_def)
  qed
qed

lemma follows_quiet:
  assumes "\<And>w. kv (snd (f w)) k = kv w k \<and> cnt (snd (f w)) = cnt w" and "s \<noteq> Wait" and "\<And>r. Q s r"
  shows "follows (phase_good kv D k) (phase_allowed kv D cnt k) s (call f) Q"
proof (rule follows_call)
  fix w
  assume "phase_good kv D k s w"
  then obtain v where "kv w k = Some v" "D v" using assms(2) by (cases s) auto
  then show "\<exists>s'. phase_allowed kv D cnt k s w s' (snd (f w)) \<and> Q s' (fst (f w))"
    using assms(1) [of w] assms(3) by (intro exI [of _ s]) (simp add: phase_allowed_def)
qed

text \<open>The middleware over the Redis store follows the protocol.\<close>

definition decodable :: "'v codec \<Rightarrow> string \<Rightarrow> bool" where
  "decodable cd s \<longleftrightarrow> (\<exists>v. cd_unmarshal cd s = Inr v)"

lemma total_codecD:
  assumes "total_codec cd"
  obtains data where "cd_marshal cd v = Inr data" and "decodable cd data"
  using assms unfolding total_codec_def decodable_def by blast

lemma lock_follows:
  assumes st: "steady_redis (rst_client s) kv cnt k" and cd: "total_codec cd"
  shows "follows (phase_good kv (decodable cd) k) (phase_allowed kv (decodable cd) cnt k) Wait
    (RedisStore_Lock cd s k f) (\<lambda>s' r. r = Inr True \<and> s' = Own \<or> r = Inr False \<and> s' = Seen)"
proof -
  obtain data where data: "cd_marshal cd \<lparr>ie_Status = StatusProcessing, ie_StatusCode = 0, ie_Body = [],
      ie_Fingerprint = f\<rparr> = Inr data" "decodable cd data" using total_codecD [OF cd] .
  show ?thesis
    unfolding RedisStore_Lock_def Let_def data(1) sum.case
  proof (rule follows_call_bind)
    fix w
    assume "phase_good kv (decodable cd) k Wait w"
    then have d: "pred_option (decodable cd) (kv w k)" by simp
    note nx = steady_redisD(1-3) [OF st, of data "rst_lockTTL s" w]
    show "\<exists>s'. phase_allowed kv (decodable cd) cnt k Wait w s' (snd (rd_SetNX (rst_client s) k data (rst_lockTTL s) w)) \<and>
        follows (phase_good kv (decodable cd) k) (phase_allowed kv (decodable cd) cnt k) s'
          (case fst (rd_SetNX (rst_client s) k data (rst_lockTTL s) w) of
            Inl setErr \<Rightarrow> Return (Inl setErr) | Inr acquired \<Rightarrow> Return (Inr acquired))
          (\<lambda>s' r. r = Inr True \<and> s' = Own \<or> r = Inr False \<and> s' = Seen)"
    proof (cases "kv w k")
      case None
      then show ?thesis using nx data(2)
        by (intro exI [of _ Own]) (simp add: phase_allowed_def)
    next
      case (Some v)
      then show ?thesis using nx d
        by (intro exI [of _ Seen]) (simp add: phase_allowed_def)
    qed
  qed
qed

lemma get_follows:
  assumes st: "steady_redis (rst_client s) kv cnt k"
  shows "follows (phase_good kv (decodable cd) k) (phase_allowed kv (decodable cd) cnt k) Seen
    (RedisStore_Get cd s k) (\<lambda>s' r. s' = Seen \<and> (\<exists>e. r = Inr (Some e)))"
  unfolding RedisStore_Get_def
proof (rule follows_call_bind)
  fix w
  assume "phase_good kv (decodable cd) k Seen w"
  then obtain v e where v: "kv w k = Some v" "cd_unmarshal cd v = Inr e" by (auto simp: decodable_def)
  note g = steady_redisD(4-6) [OF st, of w]
  show "\<exists>s'. phase_allowed kv (decodable cd) cnt k Seen w s' (snd (rd_Get (rst_client s) k w)) \<and>
      follows (phase_good kv (decodable cd) k) (phase_allowed kv (decodable cd) cnt k) s'
        (case fst (rd_Get (rst_client s) k w) of
          Inl getErr \<Rightarrow> (if errors_Is getErr RedisNil then Return (Inr None) else Return (Inl getErr))
        | Inr val \<Rightarrow>
            (case cd_unmarshal cd val of Inl unmarshalErr \<Rightarrow> Return (Inl unmarshalErr)
             | Inr entry \<Rightarrow> Return (Inr (Some entry))))
        (\<lambda>s' r. s' = Seen \<and> (\<exists>e. r = Inr (Some e)))"
    using g v by (intro exI [of _ Seen]) (simp add: phase_allowed_def decodable_def)
qed

lemma answer_taken_follows:
  "follows good allowed s (answer_taken W next key f c (Inr (Some e))) (\<lambda>s' _. s' = s)"
  by (simp add: answer_taken_def Let_def)

lemma store_follows:
  assumes st: "steady_redis (rst_client s) kv cnt k" and cd: "total_codec cd"
    and log: "\<And>l m a w. kv (snd (wb_log W l m a w)) k = kv w k \<and> cnt (snd (wb_log W l m a w)) = cnt w"
    and status: "shouldStoreResponse (rs_Status (cx_Writer c))"
  shows "follows (phase_good kv (decodable cd) k) (phase_allowed kv (decodable cd) cnt k) Ran
    (store_response W (redis_store cd s) key k f before c) (\<lambda>s' _. s' = Ran)"
proof -
  have complete: "follows (phase_good kv (decodable cd) k) (phase_allowed kv (decodable cd) cnt k) Ran
      (RedisStore_Complete cd s k entry) (\<lambda>s' r. s' = Ran)" for entry
  proof -
    obtain data where data: "cd_marshal cd (entry\<lparr>ie_Status := StatusCompleted\<rparr>) = Inr data" "decodable cd data"
      using total_codecD [OF cd] .
    have "\<exists>s'. phase_allowed kv (decodable cd) cnt k Ran w s' (snd (rd_Set (rst_client s) k data (rst_ttl s) w))
        \<and> s' = Ran" if "phase_good kv (decodable cd) k Ran w" for w
      using steady_redisD(7-9) [OF st, of data "rst_ttl s" w] data(2) that
      by (intro exI [of _ Ran]) (auto simp: phase_allowed_def)
    then show ?thesis unfolding RedisStore_Complete_def Let_def data(1) sum.case by (intro follows_call)
  qed
  have warn: "follows (phase_good kv (decodable cd) k) (phase_allowed kv (decodable cd) cnt k) Ran
      (pbind (LogWarn W lc m a) (\<lambda>_. Return d)) (\<lambda>s' _. s' = Ran)" for lc m a d
    unfolding LogWarn_def
    by (rule follows_bind [where Q = "\<lambda>s' _. s' = Ran"], rule follows_quiet) (simp_all add: log)
  show ?thesis
    unfolding store_response_def Let_def if_P [OF status]
    unfolding redis_store_def idem_store.simps
    by (rule follows_bind [OF complete]) (simp add: warn split: option.split)
qed

lemma mw_follows:
  assumes st: "steady_redis (rst_client s) kv cnt k" and cd: "total_codec cd"
    and log: "\<And>l m a w. kv (snd (wb_log W l m a w)) k = kv w k \<and> cnt (snd (wb_log W l m a w)) = cnt w"
    and nxt: "one_effect kv cnt k next" and req: "keyed_post k b c"
  shows "follows (phase_good kv (decodable cd) k) (phase_allowed kv (decodable cd) cnt k) Wait
    (Idempotency_mw W fp (redis_store cd s) next c) (\<lambda>s' _. s' = Seen \<or> s' = Ran)"
proof -
  have own: "follows (phase_good kv (decodable cd) k) (phase_allowed kv (decodable cd) cnt k) Own
      (after (next c2) (store_response W (redis_store cd s) key k f before)) (\<lambda>s' _. s' = Seen \<or> s' = Ran)"
    if fresh: "fresh_writer c2" for c2 key f before
  proof -
    have "follows (phase_good kv (decodable cd) k) (phase_allowed kv (decodable cd) cnt k) Own (next c2)
        (\<lambda>s r. s = Ran \<and> (\<exists>c'. r = Done c' \<and> shouldStoreResponse (rs_Status (cx_Writer c'))))"
    proof -
      have "follows (phase_good kv (decodable cd) k) (phase_allowed kv (decodable cd) cnt k) (if False then Ran else Own)
          (next c2) (\<lambda>s r. \<exists>b'. s = (if b' then Ran else Own)
            \<and> (b' \<and> (\<exists>c'. r = Done c' \<and> shouldStoreResponse (rs_Status (cx_Writer c')))))"
        by (rule follows_own) (use nxt fresh in \<open>simp add: one_effect_def\<close>)
      then show ?thesis unfolding if_False by (rule follows_mono) auto
    qed
    then show ?thesis unfolding after_def
    proof (rule follows_bind)
      fix s' r
      assume "s' = Ran \<and> (\<exists>c'. r = Done c' \<and> shouldStoreResponse (rs_Status (cx_Writer c')))"
      then obtain c' where "s' = Ran" "r = Done c'" "shouldStoreResponse (rs_Status (cx_Writer c'))" by blast
      then show "follows (phase_good kv (decodable cd) k) (phase_allowed kv (decodable cd) cnt k) s'
          (case r of Done c \<Rightarrow> store_response W (redis_store cd s) key k f before c | Panic v c \<Rightarrow> Return (Panic v c))
          (\<lambda>s' _. s' = Seen \<or> s' = Ran)"
        by (simp add: follows_mono [OF store_follows [OF st cd log]])
    qed
  qed
  obtain c1 c2 key where mw: "Idempotency_mw W fp (redis_store cd s) next c =
      pbind (is_Lock (redis_store cd s) k (fp b)) (\<lambda>locked.
        case locked of
          Inl lockErr \<Rightarrow>
            (let c2 = span_event_mw ''idempotency.store_unavailable'' [(''idempotency.key'', AString key)] c1 in
             pbind (LogWarn W (cx_Log c2) ''idempotency store unavailable, proceeding without''
               [(''error'', AString (err_text lockErr)), (''idempotency_key'', AString key)]) (\<lambda>_. next c2))
        | Inr False \<Rightarrow> pbind (is_Get (redis_store cd s) k) (answer_taken W next key (fp b) c1)
        | Inr True \<Rightarrow> after (next c2) (store_response W (redis_store cd s) key k (fp b) (rs_Body (cx_Writer c2))))"
    and c2: "fresh_writer c2"
    using keyed_post_mw [OF req, of W fp "redis_store cd s" "next"] req
    unfolding keyed_post_def fresh_writer_def by (elim exE conjE) simp
  have seen: "follows (phase_good kv (decodable cd) k) (phase_allowed kv (decodable cd) cnt k) Seen
      (pbind (is_Get (redis_store cd s) k) (answer_taken W next key (fp b) c1)) (\<lambda>s' _. s' = Seen \<or> s' = Ran)"
    unfolding redis_store_def idem_store.simps
    by (rule follows_bind [OF get_follows [OF st]]) (elim conjE exE, simp add: follows_mono [OF answer_taken_follows])
  have lock: "follows (phase_good kv (decodable cd) k) (phase_allowed kv (decodable cd) cnt k) Wait
      (is_Lock (redis_store cd s) k (fp b)) (\<lambda>s' r. r = Inr True \<and> s' = Own \<or> r = Inr False \<and> s' = Seen)"
    unfolding redis_store_def idem_store.simps by (rule lock_follows [OF st cd])
  show ?thesis unfolding mw
    by (rule follows_bind [OF lock]) (elim disjE conjE, simp_all add: own [OF c2] seen)
qed

text \<open>The surroundings (other keys, other clients) do not touch the key.\<close>

definition leaves_key :: "('w \<Rightarrow> string \<Rightarrow> string option) \<Rightarrow> ('w \<Rightarrow> nat) \<Rightarrow> string \<Rightarrow> 'w \<Rightarrow> 'w \<Rightarrow> bool" where
  "leaves_key kv cnt k w w' \<longleftrightarrow> kv w' k = kv w k \<and> cnt w' = cnt w"

interpretation idem: protocol "phase_good kv D k" "phase_allowed kv D cnt k" "phase_inv kv D cnt k"
  "leaves_key kv cnt k" for kv D cnt k
proof unfold_locales
  fix ss w i
  assume a: "phase_inv kv D cnt k ss w" "i < length ss"
  show "phase_good kv D k (ss ! i) w"
  proof (cases "kv w k")
    case None
    then show ?thesis using a by (simp add: phase_inv_def list_all_length)
  next
    case (Some v)
    then show ?thesis using a by (cases "ss ! i") (simp_all add: phase_inv_def)
  qed
next
  fix ss w i s' w'
  assume "phase_inv kv D cnt k ss w" "i < length ss" "phase_allowed kv D cnt k (ss ! i) w s' w'"
  then show "phase_inv kv D cnt k (ss[i := s']) w'" by (rule phase_keep)
next
  fix ss w w'
  assume "phase_inv kv D cnt k ss w" "leaves_key kv cnt k w w'"
  then show "phase_inv kv D cnt k ss w'" by (simp add: phase_inv_def leaves_key_def)
qed

text \<open>
  C1: However many POST requests with one idempotency key run concurrently, and however their Redis
  commands, log calls and handler calls interleave with each other and with the rest of the system,
  the handler's effect happens at most once; and once all of them have been answered, it has happened
  exactly once.  (The store answers, the key does not expire meanwhile, the handler answers below 500.)
\<close>

theorem idempotent_effect_at_most_once:
  assumes "steady_redis (rst_client s) kv cnt k" and "total_codec cd"
    and "\<And>l m a w. leaves_key kv cnt k w (snd (wb_log W l m a w))"
    and "one_effect kv cnt k next"
    and "\<And>c. c \<in> set cs \<Longrightarrow> \<exists>b. keyed_post k b c"
    and "kv w k = None" and "cnt w = 0"
    and "conc_reachable (leaves_key kv cnt k)
      (map (Idempotency_mw W fp (redis_store cd s) next) cs, w) (ps, w')"
  shows "cnt w' \<le> 1 \<and> (cs \<noteq> [] \<and> (\<forall>p\<in>set ps. \<exists>r. p = Return r) \<longrightarrow> cnt w' = 1)"
proof -
  define D where "D = decodable cd"
  let ?Q = "\<lambda>(s' :: phase) (_ :: outcome). s' = Seen \<or> s' = Ran"
  have "follows (phase_good kv D k) (phase_allowed kv D cnt k) Wait
      (Idempotency_mw W fp (redis_store cd s) next c) ?Q" if c: "c \<in> set cs" for c
    using assms(5) [OF c] assms(3) unfolding D_def leaves_key_def
    by (auto intro!: mw_follows [OF assms(1,2) _ assms(4)])
  then have "protocol_inv (phase_good kv D k) (phase_allowed kv D cnt k) (phase_inv kv D cnt k) ?Q
      (map (Idempotency_mw W fp (redis_store cd s) next) cs, w)"
    unfolding protocol_inv_def
    by (intro exI [of _ "replicate (length cs) Wait"])
      (simp add: phase_inv_def assms(6,7) list_all_iff)
  from idem.protocol_reachable [OF assms(8) this]
  obtain ss where ss: "length ss = length ps" "phase_inv kv D cnt k ss w'"
    "\<And>i. i < length ss \<Longrightarrow> follows (phase_good kv D k) (phase_allowed kv D cnt k) (ss ! i) (ps ! i) ?Q"
    by (auto simp: protocol_inv_def)
  have most: "cnt w' \<le> 1" using ss(2) by (auto simp: phase_inv_def split: if_splits)
  have len: "length ps = length cs" using conc_reachable_length [OF assms(8)] by simp
  have "cnt w' = 1" if ne: "cs \<noteq> []" and ret: "\<And>p. p \<in> set ps \<Longrightarrow> \<exists>r. p = Return r"
  proof -
    have fin: "ss ! i = Seen \<or> ss ! i = Ran" if i: "i < length ss" for i
    proof -
      obtain r where "ps ! i = Return r" using ret [of "ps ! i"] i ss(1) by auto
      then show ?thesis using ss(3) [OF i] by simp
    qed
    have "kv w' k \<noteq> None"
      using ss(1,2) fin [of 0] ne len by (auto simp: phase_inv_def list_all_length split: if_splits)
    moreover have "filter (\<lambda>s. s = Own) ss = []"
      using fin by (fastforce simp: filter_empty_conv in_set_conv_nth)
    ultimately show "cnt w' = 1" using ss(2) by (cases "kv w' k") (simp_all add: phase_inv_def)
  qed
  then show ?thesis using most by blast
qed

section \<open>Sequential requests\<close>

text \<open>A handler that leaves the key alone.\<close>

definition leaves_entry :: "('w \<Rightarrow> string \<Rightarrow> string option) \<Rightarrow> string \<Rightarrow> 'w handler \<Rightarrow> bool" where
  "leaves_entry kv k h \<longleftrightarrow> (\<forall>c w. kv (snd (run (h c) w)) k = kv w k)"

lemma total_codec_unmarshal:
  "total_codec cd \<Longrightarrow> cd_marshal cd v = Inr d \<Longrightarrow> cd_unmarshal cd d = Inr v"
  unfolding total_codec_def by (metis sum.inject(2))

lemma run_lock_free:
  assumes "steady_redis (rst_client s) kv cnt k" and "total_codec cd" and "kv w k = None"
  obtains w' where "run (is_Lock (redis_store cd s) k f) w = (Inr True, w')" and "cnt w' = cnt w"
proof -
  obtain data where data: "cd_marshal cd \<lparr>ie_Status = StatusProcessing, ie_StatusCode = 0, ie_Body = [],
      ie_Fingerprint = f\<rparr> = Inr data" using total_codecD [OF assms(2)] by metis
  have "run (is_Lock (redis_store cd s) k f) w
      = (Inr True, snd (rd_SetNX (rst_client s) k data (rst_lockTTL s) w))"
    using steady_redisD(1) [OF assms(1), of data "rst_lockTTL s" w] assms(3)
    by (simp add: redis_store_def RedisStore_Lock_def data run_simps)
  moreover have "cnt (snd (rd_SetNX (rst_client s) k data (rst_lockTTL s) w)) = cnt w"
    using steady_redisD(3) [OF assms(1)] .
  ultimately show thesis using that by blast
qed

lemma run_lock_taken:
  assumes "steady_redis (rst_client s) kv cnt k" and "total_codec cd" and "kv w k = Some v"
  obtains w' where "run (is_Lock (redis_store cd s) k f) w = (Inr False, w')" and "kv w' k = Some v"
proof -
  obtain data where data: "cd_marshal cd \<lparr>ie_Status = StatusProcessing, ie_StatusCode = 0, ie_Body = [],
      ie_Fingerprint = f\<rparr> = Inr data" using total_codecD [OF assms(2)] by metis
  have "run (is_Lock (redis_store cd s) k f) w
      = (Inr False, snd (rd_SetNX (rst_client s) k data (rst_lockTTL s) w))"
    using steady_redisD(1) [OF assms(1), of data "rst_lockTTL s" w] assms(3)
    by (simp add: redis_store_def RedisStore_Lock_def data run_simps)
  moreover have "kv (snd (rd_SetNX (rst_client s) k data (rst_lockTTL s) w)) k = Some v"
    using steady_redisD(2) [OF assms(1), of data "rst_lockTTL s" w] assms(3) by simp
  ultimately show thesis using that by blast
qed

lemma run_get_taken:
  assumes "steady_redis (rst_client s) kv cnt k" and "kv w k = Some v" and "cd_unmarshal cd v = Inr e"
  shows "fst (run (is_Get (redis_store cd s) k) w) = Inr (Some e)"
  using steady_redisD(4) [OF assms(1), of w] assms(2,3)
  by (simp add: redis_store_def RedisStore_Get_def run_simps)

lemma run_complete:
  assumes "steady_redis (rst_client s) kv cnt k" and "total_codec cd"
  obtains w' data where "run (is_Complete (redis_store cd s) k e) w = (None, w')" and "kv w' k = Some data"
    and "cnt w' = cnt w" and "cd_unmarshal cd data = Inr (e\<lparr>ie_Status := StatusCompleted\<rparr>)"
proof -
  obtain data where data: "cd_marshal cd (e\<lparr>ie_Status := StatusCompleted\<rparr>) = Inr data"
    using total_codecD [OF assms(2)] by metis
  have "run (is_Complete (redis_store cd s) k e) w = (None, snd (rd_Set (rst_client s) k data (rst_ttl s) w))"
    using steady_redisD(7) [OF assms(1), of data "rst_ttl s" w]
    by (simp add: redis_store_def RedisStore_Complete_def data prod_eq_iff)
  then show thesis
    using that steady_redisD(8,9) [OF assms(1), of data "rst_ttl s" w] total_codec_unmarshal [OF assms(2) data]
    by blast
qed

text \<open>What a request amounts to when its key is free, and when an entry is stored under it.\<close>

lemma mw_free:
  assumes st: "steady_redis (rst_client s) kv cnt k" and cd: "total_codec cd" and req: "keyed_post k b c"
    and free: "kv w k = None"
  shows "\<exists>c2 key w'. fresh_writer c2 \<and> cnt w' = cnt w
    \<and> run (Idempotency_mw W fp (redis_store cd s) next c) w
      = run (after (next c2) (store_response W (redis_store cd s) key k (fp b) [])) w'"
proof -
  obtain w' where lock: "run (is_Lock (redis_store cd s) k (fp b)) w = (Inr True, w')" "cnt w' = cnt w"
    using run_lock_free [OF st cd free] by metis
  obtain c1 c2 key where mw: "Idempotency_mw W fp (redis_store cd s) next c =
      pbind (is_Lock (redis_store cd s) k (fp b)) (\<lambda>locked.
        case locked of
          Inl lockErr \<Rightarrow>
            (let c2 = span_event_mw ''idempotency.store_unavailable'' [(''idempotency.key'', AString key)] c1 in
             pbind (LogWarn W (cx_Log c2) ''idempotency store unavailable, proceeding without''
               [(''error'', AString (err_text lockErr)), (''idempotency_key'', AString key)]) (\<lambda>_. next c2))
        | Inr False \<Rightarrow> pbind (is_Get (redis_store cd s) k) (answer_taken W next key (fp b) c1)
        | Inr True \<Rightarrow> after (next c2) (store_response W (redis_store cd s) key k (fp b) (rs_Body (cx_Writer c2))))"
    and c2: "fresh_writer c2"
    using keyed_post_mw [OF req, of W fp "redis_store cd s" "next"] req
    unfolding keyed_post_def fresh_writer_def by (elim exE conjE) simp
  have "rs_Body (cx_Writer c2) = []" using c2 by (simp add: fresh_writer_def)
  then have "run (Idempotency_mw W fp (redis_store cd s) next c) w
      = run (after (next c2) (store_response W (redis_store cd s) key k (fp b) [])) w'"
    by (simp add: mw run_pbind lock(1))
  then show ?thesis using c2 lock(2) by blast
qed

lemma mw_taken:
  assumes st: "steady_redis (rst_client s) kv cnt k" and cd: "total_codec cd" and req: "keyed_post k b c"
    and taken: "kv w k = Some data" "cd_unmarshal cd data = Inr e"
  shows "\<exists>c1 key w'. fresh_writer c1
    \<and> fst (run (Idempotency_mw W fp (redis_store cd s) next c) w)
      = fst (run (answer_taken W next key (fp b) c1 (Inr (Some e))) w')"
proof -
  obtain w' where lock: "run (is_Lock (redis_store cd s) k (fp b)) w = (Inr False, w')" "kv w' k = Some data"
    using run_lock_taken [OF st cd taken(1)] .
  note get = run_get_taken [OF st lock(2) taken(2)]
  obtain c1 c2 key where mw: "Idempotency_mw W fp (redis_store cd s) next c =
      pbind (is_Lock (redis_store cd s) k (fp b)) (\<lambda>locked.
        case locked of
          Inl lockErr \<Rightarrow>
            (let c2 = span_event_mw ''idempotency.store_unavailable'' [(''idempotency.key'', AString key)] c1 in
             pbind (LogWarn W (cx_Log c2) ''idempotency store unavailable, proceeding without''
               [(''error'', AString (err_text lockErr)), (''idempotency_key'', AString key)]) (\<lambda>_. next c2))
        | Inr False \<Rightarrow> pbind (is_Get (redis_store cd s) k) (answer_taken W next key (fp b) c1)
        | Inr True \<Rightarrow> after (next c2) (store_response W (redis_store cd s) key k (fp b) (rs_Body (cx_Writer c2))))"
    and c1: "fresh_writer c1"
    using keyed_post_mw [OF req, of W fp "redis_store cd s" "next"] req
    unfolding keyed_post_def fresh_writer_def by (elim exE conjE) simp
  have "fst (run (Idempotency_mw W fp (redis_store cd s) next c) w)
      = fst (run (answer_taken W next key (fp b) c1 (Inr (Some e))) w')"
    using get by (simp add: mw run_pbind lock(1) answer_taken_def Let_def)
  then show ?thesis using c1 by blast
qed

lemma first_request:
  assumes st: "steady_redis (rst_client s) kv cnt k" and cd: "total_codec cd" and req: "keyed_post k b c"
    and free: "kv w k = None"
    and ran: "run (Idempotency_mw W fp (redis_store cd s) next c) w = (Done d, w1)"
  shows "\<exists>c3 w3 key. run (store_response W (redis_store cd s) key k (fp b) [] c3) w3 = (Done d, w1)"
proof -
  obtain c2 key w' where "run (after (next c2) (store_response W (redis_store cd s) key k (fp b) [])) w' = (Done d, w1)"
    using mw_free [OF st cd req free, of W fp "next"] ran by auto
  then show ?thesis unfolding after_def
    by (cases "run (next c2) w'") (simp add: run_pbind split: outcome.splits, blast)
qed

lemma store_writer:
  assumes "run (store_response W store key k f b0 c) w = (Done d, w')"
  shows "cx_Writer d = cx_Writer c"
  using assms unfolding store_response_def Let_def
  by (auto simp: run_simps span_event_mw_def LogWarn_def split: if_splits option.splits)

lemma store_returns: "\<exists>d w'. run (store_response W store key k f b0 c) w = (Done d, w')"
  by (cases "shouldStoreResponse (rs_Status (cx_Writer c))")
    (auto simp: store_response_def Let_def run_simps LogWarn_def split: option.split)

text \<open>
  C15: A request that ends with a status from 200 to 499 settles its key: any later request with the
  key, on whichever server and whatever its handler, is answered without running the handler, with
  the stored status and body if the body's fingerprint is the same (or none was recorded) and with
  422 otherwise.
\<close>

theorem idempotent_replay:
  assumes st: "steady_redis (rst_client s) kv cnt k" and cd: "total_codec cd"
    and req: "keyed_post k b c" and free: "kv w k = None"
    and ran: "run (Idempotency_mw W fp (redis_store cd s) next c) w = (Done d, w1)"
    and status: "shouldStoreResponse (rs_Status (cx_Writer d))"
    and req': "keyed_post k b' c'" and kept: "kv w2 k = kv w1 k"
  shows "case fst (run (Idempotency_mw W' fp (redis_store cd s) next' c') w2) of
      Panic v d' \<Rightarrow> False
    | Done d' \<Rightarrow> cx_Aborted d' \<and>
        (if fp b = [] \<or> fp b' = fp b
         then rs_Status (cx_Writer d') = rs_Status (cx_Writer d) \<and> rs_Body (cx_Writer d') = rs_Body (cx_Writer d)
         else rs_Status (cx_Writer d') = 422)"
proof -
  obtain c3 w3 key where stored: "run (store_response W (redis_store cd s) key k (fp b) [] c3) w3 = (Done d, w1)"
    using first_request [OF st cd req free ran] by blast
  have wr: "cx_Writer c3 = cx_Writer d" using store_writer [OF stored] by simp
  define e where "e = \<lparr>ie_Status = [], ie_StatusCode = rs_Status (cx_Writer d), ie_Body = rs_Body (cx_Writer d),
    ie_Fingerprint = fp b\<rparr>"
  obtain w4 data where comp: "run (is_Complete (redis_store cd s) k e) w3 = (None, w4)" "kv w4 k = Some data"
    and "cnt w4 = cnt w3" and unm: "cd_unmarshal cd data = Inr (e\<lparr>ie_Status := StatusCompleted\<rparr>)" using run_complete [OF st cd] .
  have "w1 = w4"
    using stored comp(1) status unfolding store_response_def Let_def wr e_def by (simp add: run_simps)
  then have kv2: "kv w2 k = Some data" using comp(2) kept by simp
  obtain c1 key' w5 where "fresh_writer c1" and "fst (run (Idempotency_mw W' fp (redis_store cd s) next' c') w2)
      = fst (run (answer_taken W' next' key' (fp b') c1 (Inr (Some (e\<lparr>ie_Status := StatusCompleted\<rparr>)))) w5)"
    using mw_taken [OF st cd req' kv2 unm, of W' fp next'] by blast
  then show ?thesis
    using status
    by (simp add: answer_taken_def Let_def e_def StatusCompleted_def StatusProcessing_def fresh_writer_def
        AbortWithStatusJSON_def gin_Data_def Abort_def WriteHeader_def write_body_def set_content_type_def
        span_event_mw_def shouldStoreResponse_def)
qed

text \<open>
  C14: A request that ends with a status outside 200 to 499 releases its key, so that a retry runs
  the handler again.
\<close>

theorem server_error_releases_key:
  assumes st: "steady_redis (rst_client s) kv cnt k" and cd: "total_codec cd"
    and req: "keyed_post k b c" and free: "kv w k = None"
    and log: "\<And>l m a w. leaves_key kv cnt k w (snd (wb_log W l m a w))"
    and ran: "run (Idempotency_mw W fp (redis_store cd s) next c) w = (Done d, w1)"
    and status: "\<not> shouldStoreResponse (rs_Status (cx_Writer d))"
  shows "kv w1 k = None"
proof -
  obtain c3 w3 key where stored: "run (store_response W (redis_store cd s) key k (fp b) [] c3) w3 = (Done d, w1)"
    using first_request [OF st cd req free ran] by blast
  have wr: "cx_Writer c3 = cx_Writer d" using store_writer [OF stored] by simp
  show ?thesis
    using stored status steady_redisD(10,11) [OF st, of w3]
    unfolding store_response_def Let_def wr redis_store_def RedisStore_Unlock_def
    by (auto simp: run_simps)
qed

section \<open>A concrete server\<close>

text \<open>A server that never fails, with a counter beside it, and a handler that counts its runs.\<close>

type_synonym kv_world = "(string \<rightharpoonup> string) \<times> nat"

definition kv_redis :: "kv_world redis" where
  "kv_redis =
     \<lparr>rd_Get = (\<lambda>k w. (case fst w k of None \<Rightarrow> Inl (Sentinel RedisNil) | Some v \<Rightarrow> Inr v, w)),
      rd_Set = (\<lambda>k v d w. (None, ((fst w)(k \<mapsto> v), snd w))),
      rd_SetNX = (\<lambda>k v d w. (Inr (fst w k = None), (if fst w k = None then (fst w)(k \<mapsto> v) else fst w, snd w))),
      rd_Del = (\<lambda>k w. (None, ((fst w)(k := None), snd w))),
      rd_Ping = (\<lambda>w. (None, w)),
      rd_Close = (\<lambda>w. (None, w))\<rparr>"

lemma kv_redis_steady: "steady_redis kv_redis fst snd k"
  by (simp add: steady_redis_def steady_SetNX_def steady_Get_def steady_Set_def steady_Del_def kv_redis_def
      split: option.split)

definition kv_web :: "kv_world web" where
  "kv_web =
     \<lparr>wb_env = \<lparr>env_now = (\<lambda>w. (0, w)), env_uuid_v7 = (\<lambda>w. ([], w)), env_uuid_ok = (\<lambda>_. False),
        env_mail_ok = (\<lambda>_. False), env_rfc3339 = (\<lambda>_. [])\<rparr>,
      wb_metrics = (\<lambda>f w. ((), w)), wb_log = (\<lambda>l m a w. ((), w)), wb_uuid = (\<lambda>w. ([], w)), wb_uni = id\<rparr>"

text \<open>An entry as text: the two strings and the body, each with its length in unary, and the status.\<close>

definition unary :: "nat \<Rightarrow> string" where
  "unary n = replicate n CHR ''1'' @ ''.''"

definition chunk :: "string \<Rightarrow> string" where
  "chunk s = unary (length s) @ s"

definition read_unary :: "string \<Rightarrow> nat \<times> string" where
  "read_unary s = (length (takeWhile (\<lambda>c. c = CHR ''1'') s), drop 1 (dropWhile (\<lambda>c. c = CHR ''1'') s))"

definition read_chunk :: "string \<Rightarrow> string \<times> string" where
  "read_chunk s = (case read_unary s of (n, r) \<Rightarrow> (take n r, drop n r))"

lemma read_unary: "read_unary (unary n @ r) = (n, r)"
  by (induction n) (auto simp: read_unary_def unary_def)

lemma read_chunk: "read_chunk (chunk s @ r) = (s, r)"
  by (simp add: read_chunk_def chunk_def read_unary)

definition entry_codec :: "Entry codec" where
  "entry_codec =
     \<lparr>cd_marshal = (\<lambda>e. Inr (chunk (ie_Status e) @ chunk (ie_Body e) @ chunk (ie_Fingerprint e)
        @ (if ie_StatusCode e < 0 then ''-'' else ''+'') @ unary (nat \<bar>ie_StatusCode e\<bar>))),
      cd_unmarshal = (\<lambda>s0. case read_chunk s0 of (st, s1) \<Rightarrow> (case read_chunk s1 of (b, s2) \<Rightarrow>
        (case read_chunk s2 of (f, s3) \<Rightarrow> (case read_unary (drop 1 s3) of (n, r) \<Rightarrow>
          Inr \<lparr>ie_Status = st, ie_StatusCode = (if take 1 s3 = ''-'' then - int n else int n), ie_Body = b,
               ie_Fingerprint = f\<rparr>))))\<rparr>"

lemma entry_codec_total: "total_codec entry_codec"
proof -
  have "read_unary (unary n) = (n, [])" for n using read_unary [of n "[]"] by simp
  then show ?thesis by (simp add: total_codec_def entry_codec_def read_chunk)
qed

definition counting_handler :: "int \<Rightarrow> kv_world handler" where
  "counting_handler status c =
     pbind (call (\<lambda>w. ((), (fst w, snd w + 1)))) (\<lambda>_. Return (Done (gin_Data status json_type ''{}'' c)))"

definition key_headers :: "string \<Rightarrow> string" where
  "key_headers h = (if h = ''Idempotency-Key'' then ''k1'' else if h = ''X-Service-Name'' then ''shop'' else [])"

definition post_k1 :: "string \<Rightarrow> gin_context" where
  "post_k1 b = blank_context (blank_request\<lparr>rq_Method := ''POST'', rq_Header := key_headers, rq_Body := (b, None)\<rparr>)"

definition kv_store :: "kv_world RedisStore" where
  "kv_store = NewRedisStore kv_redis 86400 30"

definition full_k1 :: string where "full_k1 = ''idempotency:shop:k1''"

lemma post_k1_keyed: "keyed_post full_k1 b (post_k1 b)"
  by (simp add: keyed_post_def post_k1_def blank_context_def blank_request_def key_headers_def full_k1_def
      buildIdempotencyKey_def fresh_writer_def)

lemma kv_store_steady: "steady_redis (rst_client kv_store) fst snd k"
  by (simp add: kv_store_def NewRedisStore_def kv_redis_steady)

lemma kv_web_quiet: "leaves_key fst snd k w (snd (wb_log kv_web l m a w))"
  by (simp add: leaves_key_def kv_web_def)

lemma counting_one_effect: "one_effect fst snd k (counting_handler 201)"
  by (auto simp: one_effect_def counting_handler_def fresh_writer_def shouldStoreResponse_def gin_Data_def
      write_body_def set_content_type_def WriteHeader_def intro!: follows_call_bind)

abbreviation kv_serve :: "int \<Rightarrow> string \<Rightarrow> (kv_world, outcome) prog" where
  "kv_serve status b \<equiv>
     Idempotency_mw kv_web id (redis_store entry_codec kv_store) (counting_handler status) (post_k1 b)"

lemma kv_serve_first:
  assumes "status > 0"
  shows "\<exists>d w. run (kv_serve status b) (Map.empty, n) = (Done d, w)
     \<and> rs_Status (cx_Writer d) = status \<and> rs_Body (cx_Writer d) = ''{}''"
proof -
  have none: "fst (Map.empty :: string \<rightharpoonup> string, n) full_k1 = None" by simp
  obtain c2 key w' where c2: "fresh_writer c2" and mw: "run (kv_serve status b) (Map.empty, n)
      = run (after (counting_handler status c2) (store_response kv_web (redis_store entry_codec kv_store) key full_k1 b [])) w'"
    using mw_free [OF kv_store_steady entry_codec_total post_k1_keyed none, of kv_web id "counting_handler status" b]
    by auto
  define c3 where "c3 = gin_Data status json_type ''{}'' c2"
  have c3: "rs_Status (cx_Writer c3) = status" "rs_Body (cx_Writer c3) = ''{}''"
    using c2 assms by (auto simp: c3_def fresh_writer_def gin_Data_def WriteHeader_def write_body_def set_content_type_def)
  obtain w3 where "run (counting_handler status c2) w' = (Done c3, w3)"
    by (simp add: counting_handler_def run_simps c3_def)
  then have mw': "run (kv_serve status b) (Map.empty, n)
      = run (store_response kv_web (redis_store entry_codec kv_store) key full_k1 b [] c3) w3"
    by (simp add: mw after_def run_pbind)
  obtain d w where d: "run (store_response kv_web (redis_store entry_codec kv_store) key full_k1 b [] c3) w3 = (Done d, w)"
    using store_returns [of kv_web "redis_store entry_codec kv_store" key full_k1 b "[]" c3 w3] by blast
  then show ?thesis using mw' c3 store_writer [OF d] by auto
qed

theorem idempotent_replay_witness:
  "\<exists>d w. run (kv_serve 201 ''a'') (Map.empty, 0) = (Done d, w)
     \<and> (\<exists>d' w'. run (kv_serve 500 ''a'') w = (Done d', w') \<and> rs_Status (cx_Writer d') = 201
        \<and> rs_Body (cx_Writer d') = ''{}'')
     \<and> (\<exists>d' w'. run (kv_serve 201 ''b'') w = (Done d', w') \<and> rs_Status (cx_Writer d') = 422)"
proof -
  obtain d w where r: "run (kv_serve 201 ''a'') (Map.empty, 0) = (Done d, w)"
    "rs_Status (cx_Writer d) = 201" "rs_Body (cx_Writer d) = ''{}''"
    using kv_serve_first [of 201 "''a''" 0] by auto
  have stored: "shouldStoreResponse (rs_Status (cx_Writer d))" by (simp add: r(2) shouldStoreResponse_def)
  have none: "fst (Map.empty :: string \<rightharpoonup> string, 0 :: nat) full_k1 = None" by simp
  obtain r1 w1 where r1: "run (kv_serve 500 ''a'') w = (r1, w1)" by (cases "run (kv_serve 500 ''a'') w")
  obtain r2 w2 where r2: "run (kv_serve 201 ''b'') w = (r2, w2)" by (cases "run (kv_serve 201 ''b'') w")
  have "\<exists>d'. r1 = Done d' \<and> rs_Status (cx_Writer d') = 201 \<and> rs_Body (cx_Writer d') = ''{}''"
    using idempotent_replay [where W' = kv_web and next' = "counting_handler 500" and b' = "''a''",
        OF kv_store_steady entry_codec_total post_k1_keyed none r(1) stored post_k1_keyed refl, unfolded r1 fst_conv]
      r(2,3)
    by (cases r1) simp_all
  moreover have "\<exists>d'. r2 = Done d' \<and> rs_Status (cx_Writer d') = 422"
    using idempotent_replay [where W' = kv_web and next' = "counting_handler 201" and b' = "''b''",
        OF kv_store_steady entry_codec_total post_k1_keyed none r(1) stored post_k1_keyed refl, unfolded r2 fst_conv]
      r(2,3)
    by (cases r2) simp_all
  ultimately show ?thesis using r(1) r1 r2 by blast
qed

theorem server_error_releases_key_witness:
  "\<exists>d w. run (kv_serve 503 ''a'') (Map.empty, 0) = (Done d, w) \<and> fst w full_k1 = None"
proof -
  obtain d w where r: "run (kv_serve 503 ''a'') (Map.empty, 0) = (Done d, w)" "rs_Status (cx_Writer d) = 503"
    using kv_serve_first [of 503 "''a''" 0] by auto
  have "fst w full_k1 = None"
    by (rule server_error_releases_key [OF kv_store_steady entry_codec_total post_k1_keyed _ kv_web_quiet r(1)])
      (simp_all add: r(2) shouldStoreResponse_def)
  then show ?thesis using r(1) by blast
qed

text \<open>Two concurrent requests, and the execution that runs them one after the other.\<close>

theorem idempotent_effect_at_most_once_witness:
  "Collect (conc_reachable (leaves_key fst snd full_k1) ([kv_serve 201 ''a'', kv_serve 201 ''a''], (Map.empty, 0)))
     \<subseteq> {cfg. snd (snd cfg) \<le> 1}
   \<and> (\<exists>r1 r2 m. conc_reachable (leaves_key fst snd full_k1)
        ([kv_serve 201 ''a'', kv_serve 201 ''a''], (Map.empty, 0)) ([Return r1, Return r2], (m, 1)))"
proof -
  let ?ps = "[kv_serve 201 ''a'', kv_serve 201 ''a'']"
  have once: "snd w' \<le> 1 \<and> ([post_k1 ''a'', post_k1 ''a''] \<noteq> [] \<and> (\<forall>p\<in>set ps. \<exists>r. p = Return r) \<longrightarrow> snd w' = 1)"
    if r: "conc_reachable (leaves_key fst snd full_k1) (?ps, (Map.empty, 0)) (ps, w')" for ps w'
    by (rule idempotent_effect_at_most_once [where cs = "[post_k1 ''a'', post_k1 ''a'']" and W = kv_web and fp = id, OF kv_store_steady entry_codec_total kv_web_quiet counting_one_effect])
      (use r post_k1_keyed in auto)
  obtain r1 w1 where r1: "run (kv_serve 201 ''a'') (Map.empty, 0) = (r1, w1)"
    by (cases "run (kv_serve 201 ''a'') (Map.empty, 0)")
  obtain r2 w2 where r2: "run (kv_serve 201 ''a'') w1 = (r2, w2)" by (cases "run (kv_serve 201 ''a'') w1")
  have "conc_reachable (leaves_key fst snd full_k1) (?ps, (Map.empty, 0)) ([Return r1, kv_serve 201 ''a''], w1)"
    using conc_reachable_run [of 0 ?ps _ "(Map.empty, 0)"] r1 by simp
  moreover have "conc_reachable (leaves_key fst snd full_k1) ([Return r1, kv_serve 201 ''a''], w1)
      ([Return r1, Return r2], w2)"
    using conc_reachable_run [of 1 "[Return r1, kv_serve 201 ''a'']" _ w1] r2 by simp
  ultimately have reach: "conc_reachable (leaves_key fst snd full_k1) (?ps, (Map.empty, 0)) ([Return r1, Return r2], w2)"
    unfolding conc_reachable_def by (rule rtranclp_trans)
  have "snd w2 = 1" using once [OF reach] by simp
  then have "\<exists>r1 r2 m. conc_reachable (leaves_key fst snd full_k1) (?ps, (Map.empty, 0)) ([Return r1, Return r2], (m, 1))"
    using reach by (metis prod.collapse)
  moreover have "Collect (conc_reachable (leaves_key fst snd full_k1) (?ps, (Map.empty, 0))) \<subseteq> {cfg. snd (snd cfg) \<le> 1}"
    using once by force
  ultimately show ?thesis by blast
qed

end
