(* ===== verification/RoleStore.thy ===== *)
theory RoleStore
  imports World
begin

text \<open>
  The contract between the role use cases and the role repository: \<open>role_repo\<close> is
  \<open>interfaces.Repository\<close> of \<open>internal/usecases/role\<close>, \<open>role_store\<close> the abstract contract (a finite
  map from IDs to roles with unique names), which the PostgreSQL repository over a \<open>sql_server\<close>
  satisfies.
\<close>

section \<open>The interface\<close>

record 'w role_repo =
  rrepo_Create :: "Role \<Rightarrow> ('w, goerror option) prog"
  rrepo_List :: "RoleFilter \<Rightarrow> ('w, goerror + RoleListResult) prog"
  rrepo_Delete :: "ID \<Rightarrow> ('w, goerror option) prog"
  rrepo_FindByName :: "string \<Rightarrow> ('w, goerror + Role) prog"

definition NewRoleRepository :: "'w sqlx_db \<Rightarrow> 'w sqlx_db \<Rightarrow> 'w RoleRepository" where
  "NewRoleRepository writer reader = \<lparr>rr_writer = writer, rr_reader = reader\<rparr>"

definition postgres_roles :: "'w env \<Rightarrow> 'w RoleRepository \<Rightarrow> 'w role_repo" where
  "postgres_roles E r =
     \<lparr>rrepo_Create = RoleRepository_Create r,
      rrepo_List = RoleRepository_List E r,
      rrepo_Delete = RoleRepository_Delete r,
      rrepo_FindByName = RoleRepository_FindByName E r\<rparr>"

section \<open>The abstract store\<close>

definition role_of :: "roleDB \<Rightarrow> Role" where
  "role_of r =
     \<lparr>r_ID = rdb_ID r, r_Name = rdb_Name r, r_Description = rdb_Description r,
      r_CreatedAt = rdb_CreatedAt r, r_UpdatedAt = rdb_UpdatedAt r\<rparr>"

type_synonym role_map = "ID \<Rightarrow> Role option"

definition roles_view :: "tables \<Rightarrow> role_map" where
  "roles_view t = map_of (map (\<lambda>r. (rdb_ID r, role_of r)) (t_roles t))"

definition role_named :: "role_map \<Rightarrow> string \<Rightarrow> bool" where
  "role_named m n \<longleftrightarrow> (\<exists>i r. m i = Some r \<and> r_Name r = n)"

definition stored_role :: "pg \<Rightarrow> ID \<Rightarrow> Role \<Rightarrow> Role" where
  "stored_role P i r =
     r\<lparr>r_ID := i, r_CreatedAt := pg_ts P (r_CreatedAt r), r_UpdatedAt := pg_ts P (r_UpdatedAt r)\<rparr>"

definition create_role_spec ::
  "pg \<Rightarrow> Role \<Rightarrow> role_map \<Rightarrow> goerror option \<Rightarrow> role_map \<Rightarrow> bool" where
  "create_role_spec P u m r m' \<longleftrightarrow>
     (\<exists>i. pg_uuid P (r_ID u) = Some i \<and> m i = None \<and> \<not> role_named m (r_Name u)
        \<and> m' = m(i \<mapsto> stored_role P i u) \<and> (\<forall>e. r = Some e \<longrightarrow> opaque_error e))
     \<or> (\<exists>i. pg_uuid P (r_ID u) = Some i \<and> (m i \<noteq> None \<or> role_named m (r_Name u))
        \<and> r = Some (Sentinel ErrDuplicateRoleName) \<and> m' = m)
     \<or> (\<exists>e. r = Some e \<and> opaque_error e \<and> m' = m)"

definition find_role_spec :: "string \<Rightarrow> role_map \<Rightarrow> goerror + Role \<Rightarrow> bool" where
  "find_role_spec n m r \<longleftrightarrow>
     (\<exists>i u. m i = Some u \<and> r_Name u = n \<and> r = Inr u)
     \<or> \<not> role_named m n \<and> r = Inl (Sentinel ErrRoleNotFound)
     \<or> (\<exists>e. r = Inl e \<and> opaque_error e)"

definition delete_role_spec :: "pg \<Rightarrow> ID \<Rightarrow> role_map \<Rightarrow> goerror option \<Rightarrow> role_map \<Rightarrow> bool" where
  "delete_role_spec P s m r m' \<longleftrightarrow>
     (\<exists>i old. pg_uuid P s = Some i \<and> m i = Some old \<and> m' = m(i := None)
        \<and> (\<forall>e. r = Some e \<longrightarrow> opaque_error e))
     \<or> (\<exists>i. pg_uuid P s = Some i \<and> m i = None \<and> r = Some (Sentinel ErrRoleNotFound) \<and> m' = m)
     \<or> (\<exists>e. r = Some e \<and> opaque_error e \<and> m' = m)"

definition role_selected :: "pg \<Rightarrow> RoleFilter \<Rightarrow> Role \<Rightarrow> bool" where
  "role_selected P f u \<longleftrightarrow> (rf_Name f \<noteq> [] \<longrightarrow> pg_ilike P (r_Name u) (''%'' @ rf_Name f @ ''%''))"

definition list_roles_spec :: "pg \<Rightarrow> RoleFilter \<Rightarrow> role_map \<Rightarrow> goerror + RoleListResult \<Rightarrow> bool" where
  "list_roles_spec P f0 m r \<longleftrightarrow>
     (let f = RoleFilter_Normalize f0 in
      (\<exists>us. distinct (map r_ID us) \<and> set us = {u \<in> ran m. role_selected P f u}
         \<and> sorted (map (\<lambda>u. - r_CreatedAt u) us)
         \<and> 0 \<le> sint (RoleFilter_Offset f)
         \<and> r = Inr \<lparr>rlr_Roles = take (nat (sint (rf_Limit f))) (drop (nat (sint (RoleFilter_Offset f))) us),
                    rlr_Total = gint (int (length us)),
                    rlr_Page = rf_Page f, rlr_Limit = rf_Limit f\<rparr>)
      \<or> (\<exists>e. r = Inl e \<and> opaque_error e))"

locale role_store =
  fixes P :: pg and R :: "'w role_repo"
    and view :: "'w \<Rightarrow> role_map" and ok :: "'w \<Rightarrow> bool"
  assumes create_law: "ok w \<Longrightarrow> run (rrepo_Create R u) w = (r, w') \<Longrightarrow>
          ok w' \<and> create_role_spec P u (view w) r (view w')"
    and find_law: "ok w \<Longrightarrow> run (rrepo_FindByName R n) w = (f, w') \<Longrightarrow>
          ok w' \<and> view w' = view w \<and> find_role_spec n (view w) f"
    and list_law: "ok w \<Longrightarrow> run (rrepo_List R flt) w = (l, w') \<Longrightarrow>
          ok w' \<and> view w' = view w \<and> list_roles_spec P flt (view w) l"
    and delete_law: "ok w \<Longrightarrow> run (rrepo_Delete R i) w = (r, w') \<Longrightarrow>
          ok w' \<and> delete_role_spec P i (view w) r (view w')"

section \<open>Tables and the store\<close>

lemma role_of_sel [simp]:
  "r_ID (role_of r) = rdb_ID r" "r_Name (role_of r) = rdb_Name r" "r_CreatedAt (role_of r) = rdb_CreatedAt r"
  by (simp_all add: role_of_def)

lemma fromDomainRole_sel [simp]:
  "rdb_ID (fromDomainRole r) = r_ID r" "rdb_Name (fromDomainRole r) = r_Name r"
  "rdb_Description (fromDomainRole r) = r_Description r"
  "rdb_CreatedAt (fromDomainRole r) = r_CreatedAt r" "rdb_UpdatedAt (fromDomainRole r) = r_UpdatedAt r"
  by (simp_all add: fromDomainRole_def ID_String_def)

lemma role_of_fromDomainRole: "role_of (fromDomainRole r) = r"
  by (cases r) (simp add: role_of_def)

lemma toRole_ok: "env_uuid_ok E (rdb_ID r) \<Longrightarrow> toRole E r = Inr (role_of r)"
  by (simp add: toRole_def ParseID_def role_of_def)

lemma roles_view_None: "roles_view t i = None \<longleftrightarrow> i \<notin> rdb_ID ` set (t_roles t)"
  by (simp add: roles_view_def map_of_eq_None_iff image_image)

lemma roles_view_Some:
  assumes "tables_ok P t"
  shows "roles_view t i = Some u \<longleftrightarrow> (\<exists>r\<in>set (t_roles t). rdb_ID r = i \<and> role_of r = u)"
proof -
  have "distinct (map fst (map (\<lambda>r. (rdb_ID r, role_of r)) (t_roles t)))"
    using assms by (simp add: tables_ok_def o_def)
  from map_of_eq_Some_iff [OF this, of i u] show ?thesis by (auto simp: roles_view_def)
qed

lemma role_named_rows:
  assumes "tables_ok P t"
  shows "role_named (roles_view t) n \<longleftrightarrow> (\<exists>x\<in>set (t_roles t). rdb_Name x = n)"
  unfolding role_named_def roles_view_Some [OF assms] by force

lemma roles_view_append:
  "roles_view t (rdb_ID r) = None \<Longrightarrow>
    roles_view (t\<lparr>t_roles := t_roles t @ [r]\<rparr>) = (roles_view t)(rdb_ID r \<mapsto> role_of r)"
  by (auto simp: roles_view_def fun_eq_iff map_add_def split: option.split)

lemma roles_view_remove:
  "roles_view (t\<lparr>t_roles := filter (\<lambda>x. rdb_ID x \<noteq> i) (t_roles t)\<rparr>) = (roles_view t)(i := None)"
proof -
  have "map_of (map (\<lambda>r. (rdb_ID r, role_of r)) (filter (\<lambda>x. rdb_ID x \<noteq> i) xs))
      = (map_of (map (\<lambda>r. (rdb_ID r, role_of r)) xs))(i := None)" for xs
    by (induction xs) (auto simp: fun_eq_iff)
  then show ?thesis by (simp add: roles_view_def)
qed

section \<open>The PostgreSQL repository keeps the contract\<close>

definition create_role_result :: "goerror + sql_answer \<Rightarrow> goerror option" where
  "create_role_result res =
     (case res of
        Inl execErr \<Rightarrow>
         (case errors_As_Pq execErr of
            Some pqErr \<Rightarrow> (if pq_code pqErr = ''23505'' then Some (Sentinel ErrDuplicateRoleName) else Some execErr)
          | None \<Rightarrow> Some execErr)
      | Inr _ \<Rightarrow> None)"

lemma create_role_result_simps [simp]:
  "create_role_result (Inr a) = None"
  "create_role_result (Inl unique_violation) = Some (Sentinel ErrDuplicateRoleName)"
  "infra_error e \<Longrightarrow> create_role_result (Inl e) = Some e"
  by (auto simp: create_role_result_def infra_error_def split: option.split)

lemma run_RoleRepository_Create [run_simps]:
  "run (RoleRepository_Create r u) w =
    (create_role_result (fst (x_exec (rr_writer r) (InsertRole (fromDomainRole u)) w)),
     snd (x_exec (rr_writer r) (InsertRole (fromDomainRole u)) w))"
  by (simp add: RoleRepository_Create_def run_pbind create_role_result_def split: sum.split option.split)

lemma insert_role_cases:
  assumes "tables_ok P t"
  obtains (bad_id) "sql_insert_role P (fromDomainRole u) t = (Inl invalid_uuid, t)"
  | (rejected) e where "pg_reject_role P (fromDomainRole u) = Some e"
      "sql_insert_role P (fromDomainRole u) t = (Inl e, t)"
  | (conflict) i where "pg_uuid P (r_ID u) = Some i"
      "roles_view t i \<noteq> None \<or> role_named (roles_view t) (r_Name u)"
      "sql_insert_role P (fromDomainRole u) t = (Inl unique_violation, t)"
  | (inserted) i t' where "pg_uuid P (r_ID u) = Some i" "roles_view t i = None"
      "\<not> role_named (roles_view t) (r_Name u)"
      "roles_view t' = (roles_view t)(i \<mapsto> stored_role P i u)"
      "sql_insert_role P (fromDomainRole u) t = (Inr (Affected (Inr 1)), t')"
proof (cases "pg_uuid P (r_ID u)")
  case None
  then show ?thesis using bad_id by (simp add: sql_insert_role_def)
next
  case (Some i)
  note id = this
  show ?thesis
  proof (cases "pg_reject_role P (fromDomainRole u)")
    case (Some e)
    then show ?thesis using rejected id by (simp add: sql_insert_role_def)
  next
    case None
    have taken: "list_ex (\<lambda>x. rdb_ID x = i \<or> rdb_Name x = r_Name u) (t_roles t)
        \<longleftrightarrow> roles_view t i \<noteq> None \<or> role_named (roles_view t) (r_Name u)"
      unfolding role_named_rows [OF assms] roles_view_None list_ex_iff by auto
    show ?thesis
    proof (cases "list_ex (\<lambda>x. rdb_ID x = i \<or> rdb_Name x = r_Name u) (t_roles t)")
      case True
      then show ?thesis using conflict [of i] id None taken by (simp add: sql_insert_role_def)
    next
      case False
      let ?r = "(fromDomainRole u)\<lparr>rdb_ID := i, rdb_CreatedAt := pg_ts P (r_CreatedAt u),
          rdb_UpdatedAt := pg_ts P (r_UpdatedAt u)\<rparr>"
      have "role_of ?r = stored_role P i u"
        using role_of_fromDomainRole [of u] by (cases u) (simp add: role_of_def stored_role_def)
      moreover have "rdb_ID ?r = i" by simp
      ultimately have "roles_view (t\<lparr>t_roles := t_roles t @ [?r]\<rparr>) = (roles_view t)(i \<mapsto> stored_role P i u)"
        using roles_view_append [of t ?r] False taken by simp
      then show ?thesis using inserted [of i] taken id None False by (simp add: sql_insert_role_def)
    qed
  qed
qed

lemma create_role_step:
  assumes ok: "tables_ok P t" and rej: "\<And>e. pg_reject_role P (fromDomainRole u) = Some e \<Longrightarrow> infra_error e"
    and step: "sql_step P (InsertRole (fromDomainRole u)) t r t'"
  shows "create_role_spec P u (roles_view t) (create_role_result r) (roles_view t')"
  by (rule insert_role_cases [OF ok, of u];
      use step rej in \<open>fastforce simp: sql_step_def create_role_spec_def\<close>)

definition delete_role_result :: "goerror + sql_answer \<Rightarrow> goerror option" where
  "delete_role_result res =
     (case affected_of res of
       Inl execErr \<Rightarrow> Some execErr
     | Inr (Inl rowsErr) \<Rightarrow> Some rowsErr
     | Inr (Inr n) \<Rightarrow> if n = 0 then Some (Sentinel ErrRoleNotFound) else None)"

lemma run_RoleRepository_Delete [run_simps]:
  "run (RoleRepository_Delete r i) w =
    (delete_role_result (fst (x_exec (rr_writer r) (DeleteRole (ID_String i)) w)),
     snd (x_exec (rr_writer r) (DeleteRole (ID_String i)) w))"
  by (simp add: RoleRepository_Delete_def run_pbind delete_role_result_def split: sum.split)

lemma delete_role_step:
  assumes ok: "tables_ok P t" and step: "sql_step P (DeleteRole (ID_String s)) t r t'"
  shows "delete_role_spec P s (roles_view t) (delete_role_result r) (roles_view t')"
proof (cases "pg_uuid P s")
  case None
  then show ?thesis using step
    by (auto simp: sql_step_def sql_delete_role_def ID_String_def delete_role_spec_def delete_role_result_def)
next
  case (Some i)
  let ?n = "length (filter (\<lambda>x. rdb_ID x = i) (t_roles t))"
  let ?t = "t\<lparr>t_roles := filter (\<lambda>x. rdb_ID x \<noteq> i) (t_roles t)\<rparr>"
  have ex: "sql_delete_role P s t = (Inr (Affected (Inr ?n)), ?t)" using Some by (simp add: sql_delete_role_def)
  have n: "?n = 0 \<longleftrightarrow> roles_view t i = None" by (auto simp: roles_view_None filter_empty_conv)
  have gone: "roles_view t i = None \<Longrightarrow> roles_view ?t = roles_view t"
    by (simp add: roles_view_remove fun_eq_iff)
  show ?thesis
  proof (cases "roles_view t i")
    case None
    then show ?thesis using step Some ex n gone
      by (auto simp: sql_step_def ID_String_def delete_role_spec_def delete_role_result_def)
  next
    case (Some old)
    then show ?thesis using step \<open>pg_uuid P s = Some i\<close> ex n roles_view_remove [of i t]
      by (auto simp: sql_step_def ID_String_def delete_role_spec_def delete_role_result_def)
  qed
qed

lemma find_role_step:
  assumes ok: "store_ok E P t" and step: "sql_step P (SelectRoleByName n) t r t'"
    and x: "x_exec (rr_reader R) (SelectRoleByName n) w = (r, w')"
    and run: "run (RoleRepository_FindByName E R n) w = (f, w')"
  shows "t' = t \<and> find_role_spec n (roles_view t) f"
proof -
  have tok: "tables_ok P t" using ok by (simp add: store_ok_def)
  have t': "t' = t" using step by (auto simp: sql_step_def)
  have f: "f = (case first_role r of
         Inl e \<Rightarrow> if errors_Is e ErrNoRows then Inl (Sentinel ErrRoleNotFound) else Inl e
       | Inr d \<Rightarrow> toRole E d)"
    using run x by (auto simp: RoleRepository_FindByName_def run_pbind split: sum.splits if_splits)
  show ?thesis
  proof (cases "\<exists>e. r = Inl e \<and> infra_error e")
    case True
    then show ?thesis using t' f by (auto simp: find_role_spec_def)
  next
    case False
    then have r: "r = Inr (RoleRows (filter (\<lambda>r. rdb_Name r = n) (t_roles t)))"
      using step by (auto simp: sql_step_def)
    show ?thesis
    proof (cases "filter (\<lambda>r. rdb_Name r = n) (t_roles t)")
      case Nil
      then have "\<not> role_named (roles_view t) n"
        unfolding role_named_rows [OF tok] by (auto simp: filter_empty_conv)
      then show ?thesis using t' f r Nil by (auto simp: find_role_spec_def)
    next
      case (Cons d ds)
      then have d: "d \<in> set (t_roles t)" "rdb_Name d = n" by (rule filter_ConsD)+
      then have "roles_view t (rdb_ID d) = Some (role_of d)" "r_Name (role_of d) = n"
        using roles_view_Some [OF tok] by auto
      moreover have "f = Inr (role_of d)"
        using f r Cons ok d(1) toRole_ok [of E d] by (simp add: store_ok_def)
      ultimately show ?thesis using t' unfolding find_role_spec_def by blast
    qed
  qed
qed

lemma count_roles_step:
  "sql_step P (CountRoles cs) t r t' \<Longrightarrow> t' = t \<and>
    ((\<exists>e. r = Inl e \<and> infra_error e) \<or> r = Inr (CountRow (gint (int (length (matching_roles P cs t))))))"
  by (auto simp: sql_step_def)

lemma select_roles_step:
  "sql_step P (SelectRoles cs l off) t r t' \<Longrightarrow> t' = t \<and>
    ((\<exists>e. r = Inl e \<and> infra_error e) \<or>
     0 \<le> sint off \<and> r = Inr (RoleRows (take (nat (sint l)) (drop (nat (sint off))
       (pg_order_roles P (matching_roles P cs t))))))"
  by (auto simp: sql_step_def page_def split: if_splits)

lemma RoleRepository_List_page:
  "RoleRepository_List E r f0 =
    read_page (rr_reader r) (CountRoles (role_conditions (RoleFilter_Normalize f0)))
      (SelectRoles (role_conditions (RoleFilter_Normalize f0)) (rf_Limit (RoleFilter_Normalize f0))
        (RoleFilter_Offset (RoleFilter_Normalize f0))) role_rows (toRole E)
      (\<lambda>tot us. \<lparr>rlr_Roles = us, rlr_Total = tot, rlr_Page = rf_Page (RoleFilter_Normalize f0),
         rlr_Limit = rf_Limit (RoleFilter_Normalize f0)\<rparr>)"
  by (simp only: RoleRepository_List_def read_page_def Let_def)

lemma matching_roles_view:
  assumes "tables_ok P t" and "mset rs = mset (matching_roles P (role_conditions f) t)"
  shows "distinct (map r_ID (map role_of rs))"
    "set (map role_of rs) = {u \<in> ran (roles_view t). role_selected P f u}"
proof -
  have "distinct (map rdb_ID (matching_roles P (role_conditions f) t))"
    using assms(1) by (simp add: matching_roles_def tables_ok_def distinct_map_filter)
  then show "distinct (map r_ID (map role_of rs))"
    using assms(2) by (metis (no_types, lifting) list.map_comp map_cong mset_eq_imp_distinct_iff mset_map
        o_apply role_of_sel(1))
  have "set rs = set (matching_roles P (role_conditions f) t)" using assms(2) by (rule mset_eq_setD)
  then show "set (map role_of rs) = {u \<in> ran (roles_view t). role_selected P f u}"
    using roles_view_Some [OF assms(1)]
    by (auto simp: matching_roles_def role_conditions_def role_selected_def ran_def)
qed

context sql_server
begin

lemma list_roles_run:
  assumes ok: "store_ok E P (tbl w)" and R: "rr_reader R = h"
    and run: "run (RoleRepository_List E R f0) w = (l, w')"
  shows "tbl w' = tbl w \<and> list_roles_spec P f0 (roles_view (tbl w)) l"
proof -
  let ?f = "RoleFilter_Normalize f0" and ?t = "tbl w"
  let ?cs = "role_conditions ?f" and ?l = "nat (sint (rf_Limit ?f))" and ?o = "nat (sint (RoleFilter_Offset ?f))"
  let ?rows = "pg_order_roles P (matching_roles P ?cs ?t)"
  have order: "mset ?rows = mset (matching_roles P ?cs ?t)" "sorted (map (\<lambda>r. - rdb_CreatedAt r) ?rows)"
    using order_roles_law by blast+
  have tok: "tables_ok P ?t" using ok by (simp add: store_ok_def)
  have conv: "convert_all (toRole E) (take ?l (drop ?o ?rows)) = Inr (map role_of (take ?l (drop ?o ?rows)))"
  proof (rule convert_all_map)
    fix x assume "x \<in> set (take ?l (drop ?o ?rows))"
    then have "x \<in> set ?rows" by (meson in_set_dropD in_set_takeD)
    then have "x \<in> set (t_roles ?t)" using mset_eq_setD [OF order(1)] by (auto simp: matching_roles_def)
    then show "toRole E x = Inr (role_of x)" using ok by (intro toRole_ok) (auto simp: store_ok_def)
  qed
  have "tbl w' = ?t \<and> (0 \<le> sint (RoleFilter_Offset ?f)
      \<and> l = Inr \<lparr>rlr_Roles = map role_of (take ?l (drop ?o ?rows)),
          rlr_Total = gint (int (length (matching_roles P ?cs ?t))), rlr_Page = rf_Page ?f, rlr_Limit = rf_Limit ?f\<rparr>
      \<or> (\<exists>e. l = Inl e \<and> infra_error e))"
    by (rule read_page_run [OF run [unfolded RoleRepository_List_page R] count_roles_step select_roles_step _ _ conv])
      simp_all
  moreover have "list_roles_spec P f0 (roles_view ?t) (Inr
      \<lparr>rlr_Roles = map role_of (take ?l (drop ?o ?rows)),
       rlr_Total = gint (int (length (matching_roles P ?cs ?t))),
       rlr_Page = rf_Page ?f, rlr_Limit = rf_Limit ?f\<rparr>)" if "0 \<le> sint (RoleFilter_Offset ?f)"
    unfolding list_roles_spec_def Let_def
    by (rule disjI1, rule exI [of _ "map role_of ?rows"])
      (use matching_roles_view [OF tok order(1)] order that mset_eq_length [OF order(1)] in
        \<open>simp add: take_map drop_map o_def\<close>)
  moreover have "infra_error e \<Longrightarrow> list_roles_spec P f0 (roles_view ?t) (Inl e)" for e
    by (auto simp: list_roles_spec_def Let_def)
  ultimately show ?thesis by blast
qed

end

lemma postgres_role_store:
  assumes W: "sql_server P hw tbl" and R: "sql_server P hr tbl" and pg: "env_pg E P"
  shows "role_store P (postgres_roles E (NewRoleRepository hw hr))
    (\<lambda>w. roles_view (tbl w)) (\<lambda>w. store_ok E P (tbl w))"
proof -
  let ?r = "NewRoleRepository hw hr"
  have sel: "rr_writer ?r = hw" "rr_reader ?r = hr" by (simp_all add: NewRoleRepository_def)
  have pgok: "pg_ok P" using W by (simp add: sql_server_def)
  have rej: "pg_reject_role P (fromDomainRole u) = Some e \<Longrightarrow> infra_error e" for u e
    using W by (auto simp: sql_server_def)
  note stepW = sql_server.exec_law [OF W] and stepR = sql_server.exec_law [OF R]
  note keepW = store_ok_step [OF pgok pg _ _ stepW] and keepR = store_ok_step [OF pgok pg _ _ stepR]
  show ?thesis
  proof (unfold_locales, goal_cases)
    case (1 w u r w')
    then show ?case using keepW [of w "InsertRole (fromDomainRole u)"]
      create_role_step [OF _ rej stepW, of w u]
      by (auto simp: postgres_roles_def run_RoleRepository_Create sel store_ok_def)
  next
    case (2 w n f w')
    have w': "w' = snd (x_exec hr (SelectRoleByName n) w)" using 2
      by (auto simp: postgres_roles_def RoleRepository_FindByName_def run_pbind sel split: sum.splits if_splits)
    then show ?case using 2 keepR [of w "SelectRoleByName n"]
        find_role_step [where n = n and R = ?r and w = w and f = f and w' = w', OF _ stepR]
      by (auto simp: postgres_roles_def sel)
  next
    case (3 w flt l w')
    then show ?case using sql_server.list_roles_run [OF R, of E w ?r flt l w'] sel
      by (auto simp: postgres_roles_def)
  next
    case (4 w i r w')
    then show ?case using keepW [of w "DeleteRole (ID_String i)"] delete_role_step [OF _ stepW, of w i]
      by (auto simp: postgres_roles_def run_RoleRepository_Delete sel store_ok_def)
  qed
qed

definition world_roles :: "world role_repo" where
  "world_roles = postgres_roles world_env (NewRoleRepository world_db world_db)"

definition world_roles_view :: "world \<Rightarrow> role_map" where
  "world_roles_view w = roles_view (w_tables w)"

interpretation wroles: role_store world_pg world_roles world_roles_view world_ok
  unfolding world_roles_def world_roles_view_def world_ok_def
  by (rule postgres_role_store [OF wdb.sql_server_axioms wdb.sql_server_axioms world_env_pg])

end
