(* ===== verification/RoleService.thy ===== *)
theory RoleService
  imports RoleStore UserService
begin

text \<open>
  The role use cases (\<open>internal/usecases/role\<close>): DTOs, error translation, the three \<open>Execute\<close>
  methods over the role repository, and what a caller can observe of them on PostgreSQL.
\<close>

section \<open>DTOs\<close>

record RoleCreateInput =
  rci_Name :: string
  rci_Description :: string

record RoleCreateOutput =
  rco_ID :: string
  rco_CreatedAt :: string

record RoleDeleteInput =
  rdi_ID :: string

record RoleDeleteOutput =
  rdo_ID :: string

record RoleListInput =
  rli_Page :: gint
  rli_Limit :: gint
  rli_Name :: string

record RoleOutput =
  rou_ID :: string
  rou_Name :: string
  rou_Description :: string
  rou_CreatedAt :: string
  rou_UpdatedAt :: string

record RoleListOutput =
  rlo_Data :: "RoleOutput list"
  rlo_Pagination :: PaginationOutput

section \<open>Errors\<close>

definition roleCreateExpectedErrors :: "ExpectedError list" where
  "roleCreateExpectedErrors =
     [\<lparr>ee_Err = ErrDuplicateRoleName, ee_AttrKey = AttrKeyAppResult, ee_AttrValue = ''duplicate_role_name''\<rparr>]"

definition roleDeleteExpectedErrors :: "ExpectedError list" where
  "roleDeleteExpectedErrors =
     [\<lparr>ee_Err = ErrInvalidID, ee_AttrKey = AttrKeyAppValidationError, ee_AttrValue = []\<rparr>,
      \<lparr>ee_Err = ErrRoleNotFound, ee_AttrKey = AttrKeyAppResult, ee_AttrValue = ''not_found''\<rparr>]"

definition roleToAppError :: "goerror \<Rightarrow> goerror" where
  "roleToAppError err =
     (if errors_Is err ErrInvalidID then apperror_Wrap err CodeInvalidRequest ''invalid role ID''
      else if errors_Is err ErrRoleNotFound then apperror_Wrap err CodeNotFound ''role not found''
      else if errors_Is err ErrDuplicateRoleName then apperror_Wrap err CodeConflict ''role name already exists''
      else apperror_Wrap err CodeInternalError ''internal server error'')"

section \<open>The use cases\<close>

definition RoleCreateUseCase_Execute ::
  "'w env \<Rightarrow> 'w role_repo \<Rightarrow> span option \<Rightarrow> RoleCreateInput
    \<Rightarrow> ('w, (goerror + RoleCreateOutput) \<times> span option) prog" where
  "RoleCreateUseCase_Execute E repo sp input =
     pbind (rrepo_FindByName repo (rci_Name input)) (\<lambda>f.
     (let create =
        pbind (NewRole E (rci_Name input) (rci_Description input)) (\<lambda>r.
        pbind (rrepo_Create repo r) (\<lambda>createErr.
        case createErr of
          Some err \<Rightarrow>
            (let wrappedErr = Wrapf ''creating role: '' err in
             Return (Inl (roleToAppError wrappedErr),
               ClassifyError sp (Some err) roleCreateExpectedErrors (err_text wrappedErr)))
        | None \<Rightarrow>
            Return (Inr \<lparr>rco_ID = ID_String (r_ID r), rco_CreatedAt = env_rfc3339 E (r_CreatedAt r)\<rparr>, sp)))
      in
      case f of
        Inl findErr \<Rightarrow>
          (if \<not> errors_Is findErr ErrRoleNotFound then
             (let wrappedErr = Wrapf ''creating role: '' findErr in
              Return (Inl (roleToAppError wrappedErr),
                ClassifyError sp (Some findErr) roleCreateExpectedErrors (err_text wrappedErr)))
           else create)
      | Inr existingRole \<Rightarrow>
          Return (Inl (roleToAppError (Sentinel ErrDuplicateRoleName)),
            ClassifyError sp (Some (Sentinel ErrDuplicateRoleName)) roleCreateExpectedErrors ''creating role'')))"

definition role_output :: "'w env \<Rightarrow> Role \<Rightarrow> RoleOutput" where
  "role_output E r =
     \<lparr>rou_ID = ID_String (r_ID r), rou_Name = r_Name r, rou_Description = r_Description r,
      rou_CreatedAt = env_rfc3339 E (r_CreatedAt r), rou_UpdatedAt = env_rfc3339 E (r_UpdatedAt r)\<rparr>"

definition RoleListUseCase_Execute ::
  "'w env \<Rightarrow> 'w role_repo \<Rightarrow> span option \<Rightarrow> RoleListInput
    \<Rightarrow> ('w, (goerror + RoleListOutput) \<times> span option) prog" where
  "RoleListUseCase_Execute E repo sp input =
     (let filter = \<lparr>rf_Page = rli_Page input, rf_Limit = rli_Limit input, rf_Name = rli_Name input\<rparr> in
      pbind (rrepo_List repo filter) (\<lambda>r.
      case r of
        Inl listErr \<Rightarrow>
          (let wrappedErr = Wrapf ''listing roles: '' listErr in
           Return (Inl (roleToAppError wrappedErr), ClassifyError sp (Some wrappedErr) [] ''listing roles''))
      | Inr result \<Rightarrow>
          (let items = map (role_output E) (rlr_Roles result) in
           Return (Inr \<lparr>rlo_Data = items,
             rlo_Pagination = \<lparr>po_Page = rlr_Page result, po_Limit = rlr_Limit result,
               po_Total = rlr_Total result,
               po_TotalPages = total_pages (rlr_Total result) (rlr_Limit result)\<rparr>\<rparr>, sp))))"

definition RoleDeleteUseCase_Execute ::
  "'w env \<Rightarrow> 'w role_repo \<Rightarrow> span option \<Rightarrow> RoleDeleteInput
    \<Rightarrow> ('w, (goerror + RoleDeleteOutput) \<times> span option) prog" where
  "RoleDeleteUseCase_Execute E repo sp input =
     (case ParseID E (rdi_ID input) of
        Inl parseErr \<Rightarrow>
          Return (Inl (roleToAppError parseErr),
            ClassifyError sp (Some parseErr) roleDeleteExpectedErrors ''deleting role: invalid ID'')
      | Inr i \<Rightarrow>
          pbind (rrepo_Delete repo i) (\<lambda>deleteErr.
          case deleteErr of
            Some err \<Rightarrow>
              (let wrappedErr = Wrapf ''deleting role: '' err in
               Return (Inl (roleToAppError wrappedErr),
                 ClassifyError sp (Some err) roleDeleteExpectedErrors (err_text wrappedErr)))
          | None \<Rightarrow> Return (Inr \<lparr>rdo_ID = rdi_ID input\<rparr>, sp)))"

lemma roleToAppError_simps [simp]:
  "app_code (roleToAppError (Sentinel ErrInvalidID)) = CodeInvalidRequest"
  "app_code (roleToAppError (Sentinel ErrRoleNotFound)) = CodeNotFound"
  "app_code (roleToAppError (Sentinel ErrDuplicateRoleName)) = CodeConflict"
  "app_code (roleToAppError (Wrapf p (Sentinel ErrRoleNotFound))) = CodeNotFound"
  "app_code (roleToAppError (Wrapf p (Sentinel ErrDuplicateRoleName))) = CodeConflict"
  "opaque_error e \<Longrightarrow> app_code (roleToAppError (Wrapf p e)) = CodeInternalError"
  by (simp_all add: roleToAppError_def apperror_Wrap_def)

section \<open>The use cases over the contract\<close>

locale role_app = role_store P R view ok for P :: pg and R :: "'w role_repo" and view ok +
  fixes E :: "'w env"
  assumes env_law: "env_frame E view" "env_frame E ok"
begin

lemma run_NewRole_frame:
  assumes "run (NewRole E n d) w = (r, w')"
  shows "view w' = view w \<and> ok w' = ok w \<and> r_Name r = n \<and> r_Description r = d"
  using assms env_law unfolding env_frame_def
  by (auto simp: run_NewRole Let_def split: prod.splits) (metis snd_conv)+

lemma create_role:
  assumes ok: "ok w" and run: "run (RoleCreateUseCase_Execute E R sp input) w = ((res, sp'), w')"
  shows "ok w' \<and>
    (res = Inl (roleToAppError (Sentinel ErrDuplicateRoleName)) \<and> role_named (view w) (rci_Name input) \<and> view w' = view w
     \<or> (\<exists>e. opaque_error e \<and> res = Inl (roleToAppError (Wrapf ''creating role: '' e)) \<and> view w' = view w)
     \<or> \<not> role_named (view w) (rci_Name input) \<and>
       (\<exists>u r. r_Name u = rci_Name input \<and> r_Description u = rci_Description input
         \<and> create_role_spec P u (view w) r (view w')
         \<and> (case r of None \<Rightarrow> res = Inr \<lparr>rco_ID = r_ID u, rco_CreatedAt = env_rfc3339 E (r_CreatedAt u)\<rparr>
            | Some e \<Rightarrow> res = Inl (roleToAppError (Wrapf ''creating role: '' e)))))"
proof -
  obtain f w1 where f: "run (rrepo_FindByName R (rci_Name input)) w = (f, w1)" by fastforce
  note find = find_law [OF ok f]
  obtain u w2 where u: "run (NewRole E (rci_Name input) (rci_Description input)) w1 = (u, w2)" by fastforce
  note uf = run_NewRole_frame [OF u]
  obtain r w3 where r: "run (rrepo_Create R u) w2 = (r, w3)" by fastforce
  have create: "ok w3 \<and> create_role_spec P u (view w) r (view w3)" using create_law [OF _ r] uf find by simp
  have "find_role_spec (rci_Name input) (view w) f" using find by blast
  then consider (dup) v where "f = Inr v" "role_named (view w) (rci_Name input)"
    | (free) "f = Inl (Sentinel ErrRoleNotFound)" "\<not> role_named (view w) (rci_Name input)"
    | (err) e where "f = Inl e" "opaque_error e"
    by (auto simp: find_role_spec_def role_named_def)
  then show ?thesis
  proof cases
    case dup
    then show ?thesis using run f find by (simp add: RoleCreateUseCase_Execute_def run_pbind Let_def)
  next
    case err
    then show ?thesis using run f find by (auto simp: RoleCreateUseCase_Execute_def run_pbind Let_def)
  next
    case free
    have "w' = w3" and "case r of None \<Rightarrow> res = Inr \<lparr>rco_ID = r_ID u, rco_CreatedAt = env_rfc3339 E (r_CreatedAt u)\<rparr>
        | Some e \<Rightarrow> res = Inl (roleToAppError (Wrapf ''creating role: '' e))"
      using run f free u r
      by (auto simp: RoleCreateUseCase_Execute_def run_pbind Let_def ID_String_def split: option.splits)
    then show ?thesis using create free(2) uf by blast
  qed
qed

end

lemma backend_role_app:
  assumes "backend E P hw hr tbl"
  shows "role_app P (postgres_roles E (NewRoleRepository hw hr)) (\<lambda>w. roles_view (tbl w)) (\<lambda>w. store_ok E P (tbl w)) E"
proof -
  have "role_store P (postgres_roles E (NewRoleRepository hw hr)) (\<lambda>w. roles_view (tbl w)) (\<lambda>w. store_ok E P (tbl w))"
    using assms by (intro postgres_role_store) (simp_all add: backend_def)
  then show ?thesis using assms by (simp add: role_app_def role_app_axioms_def backend_def env_frame_def)
qed

interpretation wrole_app: role_app world_pg world_roles world_roles_view world_ok world_env
  unfolding world_roles_def world_roles_view_def world_ok_def by (rule backend_role_app [OF world_backend])

abbreviation pg_roles :: "'w env \<Rightarrow> 'w sqlx_db \<Rightarrow> 'w sqlx_db \<Rightarrow> 'w role_repo" where
  "pg_roles E hw hr \<equiv> postgres_roles E (NewRoleRepository hw hr)"

section \<open>Properties\<close>



text \<open>
  Creating a role.  Success means exactly one new role with the given name and description, and
  the name was free; a name in use is a \<open>CONFLICT\<close> without any change; anything else is an
  \<open>INTERNAL_ERROR\<close>.
\<close>

theorem create_role_correct:
  assumes "backend E P hw hr tbl" and "store_ok E P (tbl w)"
    and "run (RoleCreateUseCase_Execute E (pg_roles E hw hr) sp input) w = ((res, sp'), w')"
  shows "store_ok E P (tbl w') \<and>
    (case res of
       Inr out \<Rightarrow>
         (\<exists>i u. rco_ID out = r_ID u \<and> r_Name u = rci_Name input \<and> r_Description u = rci_Description input
            \<and> \<not> role_named (roles_view (tbl w)) (rci_Name input) \<and> roles_view (tbl w) i = None
            \<and> pg_uuid P (r_ID u) = Some i
            \<and> roles_view (tbl w') = (roles_view (tbl w))(i \<mapsto> stored_role P i u))
     | Inl e \<Rightarrow>
         app_code e = CodeConflict \<and> roles_view (tbl w') = roles_view (tbl w)
           \<and> (role_named (roles_view (tbl w)) (rci_Name input) \<or> (\<exists>i. roles_view (tbl w) i \<noteq> None))
         \<or> app_code e = CodeInternalError
           \<and> (roles_view (tbl w') = roles_view (tbl w)
              \<or> (\<exists>i u. r_Name u = rci_Name input \<and> r_Description u = rci_Description input
                   \<and> roles_view (tbl w') = (roles_view (tbl w))(i \<mapsto> stored_role P i u))))"
proof -
  from role_app.create_role [OF backend_role_app [OF assms(1)] assms(2,3)] consider
    (dup) "store_ok E P (tbl w')" "res = Inl (roleToAppError (Sentinel ErrDuplicateRoleName))"
      "role_named (roles_view (tbl w)) (rci_Name input)" "roles_view (tbl w') = roles_view (tbl w)"
  | (err) e where "store_ok E P (tbl w')" "opaque_error e" "res = Inl (roleToAppError (Wrapf ''creating role: '' e))"
      "roles_view (tbl w') = roles_view (tbl w)"
  | (run) u r where "store_ok E P (tbl w')" "\<not> role_named (roles_view (tbl w)) (rci_Name input)"
      "r_Name u = rci_Name input" "r_Description u = rci_Description input"
      "create_role_spec P u (roles_view (tbl w)) r (roles_view (tbl w'))"
      "case r of None \<Rightarrow> res = Inr \<lparr>rco_ID = r_ID u, rco_CreatedAt = env_rfc3339 E (r_CreatedAt u)\<rparr>
       | Some e \<Rightarrow> res = Inl (roleToAppError (Wrapf ''creating role: '' e))"
    by blast
  then show ?thesis
  proof cases
    case dup
    then show ?thesis by simp
  next
    case err
    then show ?thesis by simp
  next
    case run
    from run(5) consider
      (ins) i where "pg_uuid P (r_ID u) = Some i" "roles_view (tbl w) i = None"
        "roles_view (tbl w') = (roles_view (tbl w))(i \<mapsto> stored_role P i u)" "\<forall>e. r = Some e \<longrightarrow> opaque_error e"
    | (clash) i where "roles_view (tbl w) i \<noteq> None" "r = Some (Sentinel ErrDuplicateRoleName)"
        "roles_view (tbl w') = roles_view (tbl w)"
    | (err) e where "r = Some e" "opaque_error e" "roles_view (tbl w') = roles_view (tbl w)"
      using run(2,3) by (auto simp: create_role_spec_def)
    then show ?thesis
    proof cases
      case ins
      then show ?thesis using run(1-4,6) by (cases r) (auto intro!: exI [of _ i] exI [of _ u])
    next
      case clash
      then show ?thesis using run by auto
    next
      case err
      then show ?thesis using run by simp
    qed
  qed
qed

theorem create_role_correct_witness:
  "case fst (fst (run (RoleCreateUseCase_Execute world_env (pg_roles world_env world_db world_db) None
        \<lparr>rci_Name = ''admin'', rci_Description = ''all rights''\<rparr>) ana_world)) of
     Inr out \<Rightarrow> rco_ID out = new_id
   | Inl e \<Rightarrow> app_code e = CodeInternalError"
proof -
  obtain res sp' w' where r: "run (RoleCreateUseCase_Execute world_env (pg_roles world_env world_db world_db) None
        \<lparr>rci_Name = ''admin'', rci_Description = ''all rights''\<rparr>) ana_world = ((res, sp'), w')"
    by (metis prod.exhaust)
  have "roles_view (w_tables ana_world) = Map.empty" by (simp add: roles_view_def ana_world_def)
  moreover have "case res of Inr out \<Rightarrow> rco_ID out = new_id | Inl e \<Rightarrow> True"
  proof -
    have "case fst (fst (run (RoleCreateUseCase_Execute world_env (pg_roles world_env world_db world_db) None
        \<lparr>rci_Name = ''admin'', rci_Description = ''all rights''\<rparr>) ana_world)) of
        Inr out \<Rightarrow> rco_ID out = new_id | Inl e \<Rightarrow> True" by code_simp
    then show ?thesis by (simp add: r)
  qed
  ultimately show ?thesis using create_role_correct [OF world_backend ana_world_ok r]
    unfolding r fst_conv by (cases res) (auto simp: role_named_def)
qed

text \<open>
  Deleting a role.  Success means that the role the ID names existed and is gone; \<open>NOT_FOUND\<close> means
  that there was none, \<open>INVALID_REQUEST\<close> that the ID is malformed; no other role is ever touched.
\<close>

theorem delete_role_correct:
  assumes "backend E P hw hr tbl" and "store_ok E P (tbl w)"
    and "run (RoleDeleteUseCase_Execute E (pg_roles E hw hr) sp input) w = ((res, sp'), w')"
  shows "store_ok E P (tbl w') \<and>
    (case res of
       Inr out \<Rightarrow> rdo_ID out = rdi_ID input \<and>
         (\<exists>i old. pg_uuid P (rdi_ID input) = Some i \<and> roles_view (tbl w) i = Some old
            \<and> roles_view (tbl w') = (roles_view (tbl w))(i := None))
     | Inl e \<Rightarrow>
         app_code e = CodeInvalidRequest \<and> \<not> env_uuid_ok E (rdi_ID input) \<and> w' = w
         \<or> app_code e = CodeNotFound \<and> roles_view (tbl w') = roles_view (tbl w)
             \<and> (\<exists>i. pg_uuid P (rdi_ID input) = Some i \<and> roles_view (tbl w) i = None)
         \<or> app_code e = CodeInternalError
             \<and> (roles_view (tbl w') = roles_view (tbl w)
                \<or> (\<exists>i. pg_uuid P (rdi_ID input) = Some i \<and> roles_view (tbl w') = (roles_view (tbl w))(i := None))))"
proof (cases "env_uuid_ok E (rdi_ID input)")
  case False
  then show ?thesis using assms(2,3) by (auto simp: RoleDeleteUseCase_Execute_def ParseID_def)
next
  case True
  have st: "role_store P (pg_roles E hw hr) (\<lambda>w. roles_view (tbl w)) (\<lambda>w. store_ok E P (tbl w))"
    using backend_role_app [OF assms(1)] by (simp add: role_app_def)
  obtain r w1 where r: "run (rrepo_Delete (pg_roles E hw hr) (rdi_ID input)) w = (r, w1)" by fastforce
  from role_store.delete_law [OF st assms(2) r]
  have "store_ok E P (tbl w1)" "delete_role_spec P (rdi_ID input) (roles_view (tbl w)) r (roles_view (tbl w1))"
    by simp_all
  moreover have "w' = w1" "case r of None \<Rightarrow> res = Inr \<lparr>rdo_ID = rdi_ID input\<rparr>
      | Some e \<Rightarrow> res = Inl (roleToAppError (Wrapf ''deleting role: '' e))"
    using assms(3) r True
    by (auto simp: RoleDeleteUseCase_Execute_def ParseID_def run_pbind Let_def split: option.splits)
  ultimately show ?thesis by (cases r) (auto simp: delete_role_spec_def)
qed

definition admin_row :: roleDB where
  "admin_row =
     \<lparr>rdb_ID = bob_id, rdb_Name = ''admin'', rdb_Description = [], rdb_CreatedAt = 1000000, rdb_UpdatedAt = 1000000\<rparr>"

definition admin_world :: world where
  "admin_world = empty_world\<lparr>w_tables := \<lparr>t_users = [], t_roles = [admin_row]\<rparr>\<rparr>"

lemma admin_world_ok: "store_ok world_env world_pg (w_tables admin_world)"
  by (simp add: store_ok_def tables_ok_def admin_world_def admin_row_def world_pg_def world_env_def)

lemma admin_view: "roles_view (w_tables admin_world) = [bob_id \<mapsto> role_of admin_row]"
  by (simp add: roles_view_def admin_world_def admin_row_def)

theorem delete_role_correct_witness:
  "case run (RoleDeleteUseCase_Execute world_env (pg_roles world_env world_db world_db) None \<lparr>rdi_ID = bob_id\<rparr>)
      admin_world of
     ((Inr out, sp), w') \<Rightarrow> roles_view (w_tables w') = Map.empty
   | ((Inl e, sp), w') \<Rightarrow> app_code e = CodeInternalError"
proof -
  obtain res sp' w' where r: "run (RoleDeleteUseCase_Execute world_env (pg_roles world_env world_db world_db) None
      \<lparr>rdi_ID = bob_id\<rparr>) admin_world = ((res, sp'), w')" by (metis prod.exhaust)
  from delete_role_correct [OF world_backend admin_world_ok r]
  show ?thesis unfolding r by (cases res) (auto simp: admin_view)
qed

text \<open>
  Listing roles changes nothing and shows the requested page of an enumeration, newest first and
  without repetition, of exactly the roles whose name matches, with the exact total and number of
  pages.
\<close>

theorem list_roles_correct:
  assumes "backend E P hw hr tbl" and "store_ok E P (tbl w)"
    and "run (RoleListUseCase_Execute E (pg_roles E hw hr) sp input) w = ((res, sp'), w')"
    and "f = RoleFilter_Normalize \<lparr>rf_Page = rli_Page input, rf_Limit = rli_Limit input, rf_Name = rli_Name input\<rparr>"
  shows "store_ok E P (tbl w') \<and> roles_view (tbl w') = roles_view (tbl w) \<and>
    (case res of
       Inr out \<Rightarrow>
         (\<exists>us. distinct (map r_ID us) \<and> set us = {u \<in> ran (roles_view (tbl w)). role_selected P f u}
            \<and> sorted (map (\<lambda>u. - r_CreatedAt u) us)
            \<and> rlo_Data out = map (role_output E)
                (take (nat (sint (rf_Limit f))) (drop (nat (sint (RoleFilter_Offset f))) us))
            \<and> po_Page (rlo_Pagination out) = rf_Page f \<and> po_Limit (rlo_Pagination out) = rf_Limit f
            \<and> po_Total (rlo_Pagination out) = gint (int (length us))
            \<and> (length us \<le> 2 ^ 46 \<longrightarrow>
                 sint (po_TotalPages (rlo_Pagination out))
                   = max 1 ((int (length us) + sint (rf_Limit f) - 1) div sint (rf_Limit f))))
     | Inl e \<Rightarrow> app_code e = CodeInternalError)"
proof -
  let ?f0 = "\<lparr>rf_Page = rli_Page input, rf_Limit = rli_Limit input, rf_Name = rli_Name input\<rparr>"
  have st: "role_store P (pg_roles E hw hr) (\<lambda>w. roles_view (tbl w)) (\<lambda>w. store_ok E P (tbl w))"
    using backend_role_app [OF assms(1)] by (simp add: role_app_def)
  obtain l w1 where l: "run (rrepo_List (pg_roles E hw hr) ?f0) w = (l, w1)" by fastforce
  from role_store.list_law [OF st assms(2) l]
  have spec: "store_ok E P (tbl w1)" "roles_view (tbl w1) = roles_view (tbl w)"
    "list_roles_spec P ?f0 (roles_view (tbl w)) l" by simp_all
  have w': "w' = w1" using assms(3) l by (auto simp: RoleListUseCase_Execute_def run_pbind Let_def split: sum.splits)
  have lim: "1 \<le> sint (rf_Limit f)" "sint (rf_Limit f) \<le> 100"
    unfolding assms(4) by (rule RoleFilter_Normalize_range)+
  show ?thesis
  proof (cases l)
    case (Inl e)
    then have "opaque_error e" using spec(3) by (auto simp: list_roles_spec_def Let_def)
    then show ?thesis using assms(3) l Inl spec w'
      by (auto simp: RoleListUseCase_Execute_def run_pbind Let_def)
  next
    case (Inr lr)
    then obtain us where us: "distinct (map r_ID us)" "set us = {u \<in> ran (roles_view (tbl w)). role_selected P f u}"
        "sorted (map (\<lambda>u. - r_CreatedAt u) us)"
        "lr = \<lparr>rlr_Roles = take (nat (sint (rf_Limit f))) (drop (nat (sint (RoleFilter_Offset f))) us),
                    rlr_Total = gint (int (length us)), rlr_Page = rf_Page f, rlr_Limit = rf_Limit f\<rparr>"
      using spec(3) by (auto simp: list_roles_spec_def Let_def assms(4) [symmetric])
    have "res = Inr \<lparr>rlo_Data = map (role_output E) (rlr_Roles lr),
             rlo_Pagination = \<lparr>po_Page = rlr_Page lr, po_Limit = rlr_Limit lr, po_Total = rlr_Total lr,
               po_TotalPages = total_pages (rlr_Total lr) (rlr_Limit lr)\<rparr>\<rparr>"
      using assms(3) l Inr by (auto simp: RoleListUseCase_Execute_def run_pbind Let_def)
    then show ?thesis using spec(1,2) w' us total_pages_exact [OF lim, of "length us"]
      by (auto intro!: exI [of _ us])
  qed
qed

theorem list_roles_correct_witness:
  "case fst (fst (run (RoleListUseCase_Execute world_env (pg_roles world_env world_db world_db) None
        \<lparr>rli_Page = 0, rli_Limit = 500, rli_Name = []\<rparr>) admin_world)) of
     Inr out \<Rightarrow> sint (po_Total (rlo_Pagination out)) = 1 \<and> map rou_Name (rlo_Data out) = [''admin'']
   | Inl e \<Rightarrow> app_code e = CodeInternalError"
proof -
  obtain res sp' w' where r: "run (RoleListUseCase_Execute world_env (pg_roles world_env world_db world_db) None
        \<lparr>rli_Page = 0, rli_Limit = 500, rli_Name = []\<rparr>) admin_world = ((res, sp'), w')"
    by (metis prod.exhaust)
  have f: "RoleFilter_Normalize \<lparr>rf_Page = 0, rf_Limit = 500, rf_Name = []\<rparr> = \<lparr>rf_Page = 1, rf_Limit = 20, rf_Name = []\<rparr>"
    by (simp add: RoleFilter_Normalize_def)
  have one: "us = [role_of admin_row]" if "distinct (map r_ID us)" "set us = {role_of admin_row}" for us
  proof (cases us)
    case (Cons a as)
    then show ?thesis using that by (cases as) auto
  qed (use that in simp)
  from list_roles_correct [OF world_backend admin_world_ok r refl]
  show ?thesis unfolding r fst_conv
    by (cases res) (auto simp: f admin_view role_selected_def RoleFilter_Offset_def role_output_def
        admin_row_def [symmetric] sint_gint dest!: one, simp_all add: role_of_def admin_row_def)
qed

end
