(* ===== verification/Handlers.thy ===== *)
theory Handlers
  imports Middleware RoleService
begin

text \<open>
  The HTTP handlers of users and roles (\<open>internal/infrastructure/web/handler\<close>): binding, the child
  span, the use case, the business counter, and the response.  gin's binding with its validator and
  the tracer are parameters.
\<close>

section \<open>JSON of the DTOs\<close>

definition create_json :: "CreateOutput \<Rightarrow> goany" where
  "create_json o1 = AMap [(''id'', AString (uco_ID o1)), (''created_at'', AString (uco_CreatedAt o1))]"

definition get_json :: "GetOutput \<Rightarrow> goany" where
  "get_json o1 = AMap [(''id'', AString (ugo_ID o1)), (''name'', AString (ugo_Name o1)),
     (''email'', AString (ugo_Email o1)), (''active'', ABool (ugo_Active o1)),
     (''created_at'', AString (ugo_CreatedAt o1)), (''updated_at'', AString (ugo_UpdatedAt o1))]"

definition update_json :: "UpdateOutput \<Rightarrow> goany" where
  "update_json o1 = AMap [(''id'', AString (uuo_ID o1)), (''name'', AString (uuo_Name o1)),
     (''email'', AString (uuo_Email o1)), (''active'', ABool (uuo_Active o1)),
     (''updated_at'', AString (uuo_UpdatedAt o1))]"

definition pagination_json :: "PaginationOutput \<Rightarrow> goany" where
  "pagination_json p = AMap [(''page'', AInt (sint (po_Page p))), (''limit'', AInt (sint (po_Limit p))),
     (''total'', AInt (sint (po_Total p))), (''total_pages'', AInt (sint (po_TotalPages p)))]"

definition id_json :: "string \<Rightarrow> goany" where
  "id_json i = AMap [(''id'', AString i)]"

definition role_json :: "RoleOutput \<Rightarrow> goany" where
  "role_json o1 = AMap [(''id'', AString (rou_ID o1)), (''name'', AString (rou_Name o1)),
     (''description'', AString (rou_Description o1)), (''created_at'', AString (rou_CreatedAt o1)),
     (''updated_at'', AString (rou_UpdatedAt o1))]"

section \<open>What the handlers hold\<close>

text \<open>
  \<open>ShouldBindJSON\<close> and \<open>ShouldBindQuery\<close> at the input DTOs; \<open>Start\<close> of the tracer and \<open>End\<close> of a span;
  the change of the business counters, \<open>None\<close> for nil metrics.
\<close>

record gin_binding =
  bd_UserCreate :: "gin_context \<Rightarrow> goerror + CreateInput"
  bd_UserList :: "gin_context \<Rightarrow> goerror + ListInput"
  bd_UserUpdate :: "gin_context \<Rightarrow> goerror + UpdateInput"
  bd_RoleCreate :: "gin_context \<Rightarrow> goerror + RoleCreateInput"
  bd_RoleList :: "gin_context \<Rightarrow> goerror + RoleListInput"

record 'w tracer =
  tr_start :: "string \<Rightarrow> 'w \<Rightarrow> span option \<times> 'w"
  tr_end :: "span option \<Rightarrow> 'w \<Rightarrow> unit \<times> 'w"

record 'w UserHandler =
  uh_CreateUC :: "span option \<Rightarrow> CreateInput \<Rightarrow> ('w, (goerror + CreateOutput) \<times> span option) prog"
  uh_GetUC :: "span option \<Rightarrow> GetInput \<Rightarrow> ('w, (goerror + GetOutput) \<times> span option) prog"
  uh_ListUC :: "span option \<Rightarrow> ListInput \<Rightarrow> ('w, (goerror + ListOutput) \<times> span option) prog"
  uh_UpdateUC :: "span option \<Rightarrow> UpdateInput \<Rightarrow> ('w, (goerror + UpdateOutput) \<times> span option) prog"
  uh_DeleteUC :: "span option \<Rightarrow> DeleteInput \<Rightarrow> ('w, (goerror + DeleteOutput) \<times> span option) prog"
  uh_Metrics :: "((Metrics option \<Rightarrow> Metrics option) \<Rightarrow> 'w \<Rightarrow> unit \<times> 'w) option"

definition NewUserHandler where
  "NewUserHandler createUC getUC listUC updateUC deleteUC metrics =
     \<lparr>uh_CreateUC = createUC, uh_GetUC = getUC, uh_ListUC = listUC, uh_UpdateUC = updateUC,
      uh_DeleteUC = deleteUC, uh_Metrics = metrics\<rparr>"

record 'w RoleHandler =
  rh_CreateUC :: "span option \<Rightarrow> RoleCreateInput \<Rightarrow> ('w, (goerror + RoleCreateOutput) \<times> span option) prog"
  rh_ListUC :: "span option \<Rightarrow> RoleListInput \<Rightarrow> ('w, (goerror + RoleListOutput) \<times> span option) prog"
  rh_DeleteUC :: "span option \<Rightarrow> RoleDeleteInput \<Rightarrow> ('w, (goerror + RoleDeleteOutput) \<times> span option) prog"

definition NewRoleHandler where
  "NewRoleHandler createUC listUC deleteUC =
     \<lparr>rh_CreateUC = createUC, rh_ListUC = listUC, rh_DeleteUC = deleteUC\<rparr>"

text \<open>\<open>defer span.End()\<close>, then the response.\<close>

definition finish :: "'w tracer \<Rightarrow> span option \<Rightarrow> gin_context \<Rightarrow> ('w, outcome) prog" where
  "finish T sp c = pbind (call (tr_end T sp)) (\<lambda>_. Return (Done c))"

definition count_if ::
  "((Metrics option \<Rightarrow> Metrics option) \<Rightarrow> 'w \<Rightarrow> unit \<times> 'w) option \<Rightarrow> (Metrics option \<Rightarrow> Metrics option)
    \<Rightarrow> ('w, unit) prog" where
  "count_if m f = (case m of None \<Rightarrow> Return () | Some upd \<Rightarrow> call (upd f))"

section \<open>User handlers\<close>

definition UserHandler_Create :: "'w tracer \<Rightarrow> gin_binding \<Rightarrow> 'w UserHandler \<Rightarrow> 'w handler" where
  "UserHandler_Create T B h c =
     pbind (call (tr_start T ''UserHandler.Create'')) (\<lambda>sp.
     case bd_UserCreate B c of
       Inl bindErr \<Rightarrow> finish T sp (SendError 400 ''invalid request body'' c)
     | Inr req \<Rightarrow>
         pbind (uh_CreateUC h sp req) (\<lambda>(res, sp1).
         case res of
           Inl execErr \<Rightarrow> finish T sp1 (HandleError execErr c)
         | Inr out \<Rightarrow>
             (let sp2 = SetAttributes sp1 [(''user.id'', AString (uco_ID out))] in
              pbind (count_if (uh_Metrics h) RecordCreate) (\<lambda>_.
              finish T sp2 (SendSuccess 201 (create_json out) c)))))"

definition UserHandler_GetByID :: "'w tracer \<Rightarrow> 'w UserHandler \<Rightarrow> 'w handler" where
  "UserHandler_GetByID T h c =
     pbind (call (tr_start T ''UserHandler.GetByID'')) (\<lambda>sp0.
     let i = rq_Param (cx_Request c) ''id'';
         sp = SetAttributes sp0 [(''user.id'', AString i)] in
     pbind (uh_GetUC h sp \<lparr>ugi_ID = i\<rparr>) (\<lambda>(res, sp1).
     case res of
       Inl execErr \<Rightarrow> finish T sp1 (HandleError execErr c)
     | Inr out \<Rightarrow> finish T sp1 (SendSuccess 200 (get_json out) c)))"

definition UserHandler_List :: "'w tracer \<Rightarrow> gin_binding \<Rightarrow> 'w UserHandler \<Rightarrow> 'w handler" where
  "UserHandler_List T B h c =
     pbind (call (tr_start T ''UserHandler.List'')) (\<lambda>sp0.
     case bd_UserList B c of
       Inl bindErr \<Rightarrow> finish T sp0 (SendError 400 ''invalid query parameters'' c)
     | Inr req \<Rightarrow>
         (let sp = SetAttributes sp0 [(''filter.page'', AInt (sint (uli_Page req))),
                     (''filter.limit'', AInt (sint (uli_Limit req)))] in
          pbind (uh_ListUC h sp req) (\<lambda>(res, sp1).
          case res of
            Inl execErr \<Rightarrow> finish T sp1 (HandleError execErr c)
          | Inr out \<Rightarrow>
              finish T (SetAttributes sp1 [(''result.total'', AInt (sint (po_Total (ulo_Pagination out))))])
                (SendSuccessWithMeta 200 (AList (map get_json (ulo_Data out)))
                  (pagination_json (ulo_Pagination out)) ANil c))))"

definition UserHandler_Update :: "'w tracer \<Rightarrow> gin_binding \<Rightarrow> 'w UserHandler \<Rightarrow> 'w handler" where
  "UserHandler_Update T B h c =
     pbind (call (tr_start T ''UserHandler.Update'')) (\<lambda>sp0.
     let i = rq_Param (cx_Request c) ''id'';
         sp = SetAttributes sp0 [(''user.id'', AString i)] in
     case bd_UserUpdate B c of
       Inl bindErr \<Rightarrow> finish T sp (SendError 400 ''invalid request body'' c)
     | Inr req0 \<Rightarrow>
         (let req = req0\<lparr>uui_ID := i\<rparr> in
          pbind (uh_UpdateUC h sp req) (\<lambda>(res, sp1).
          case res of
            Inl execErr \<Rightarrow> finish T sp1 (HandleError execErr c)
          | Inr out \<Rightarrow>
              pbind (count_if (uh_Metrics h) RecordUpdate) (\<lambda>_.
              finish T sp1 (SendSuccess 200 (update_json out) c)))))"

definition UserHandler_Delete :: "'w tracer \<Rightarrow> 'w UserHandler \<Rightarrow> 'w handler" where
  "UserHandler_Delete T h c =
     pbind (call (tr_start T ''UserHandler.Delete'')) (\<lambda>sp0.
     let i = rq_Param (cx_Request c) ''id'';
         sp = SetAttributes sp0 [(''user.id'', AString i)] in
     pbind (uh_DeleteUC h sp \<lparr>udi_ID = i\<rparr>) (\<lambda>(res, sp1).
     case res of
       Inl execErr \<Rightarrow> finish T sp1 (HandleError execErr c)
     | Inr out \<Rightarrow>
         pbind (count_if (uh_Metrics h) RecordDelete) (\<lambda>_.
         finish T sp1 (SendSuccess 200 (id_json (udo_ID out)) c))))"

section \<open>Role handlers\<close>

definition RoleHandler_Create :: "'w tracer \<Rightarrow> gin_binding \<Rightarrow> 'w RoleHandler \<Rightarrow> 'w handler" where
  "RoleHandler_Create T B h c =
     pbind (call (tr_start T ''RoleHandler.Create'')) (\<lambda>sp.
     case bd_RoleCreate B c of
       Inl bindErr \<Rightarrow> finish T sp (SendError 400 ''invalid request body'' c)
     | Inr req \<Rightarrow>
         pbind (rh_CreateUC h sp req) (\<lambda>(res, sp1).
         case res of
           Inl execErr \<Rightarrow> finish T sp1 (HandleError execErr c)
         | Inr out \<Rightarrow>
             finish T (SetAttributes sp1 [(''role.id'', AString (rco_ID out))])
               (SendSuccess 201 (AMap [(''id'', AString (rco_ID out)),
                  (''created_at'', AString (rco_CreatedAt out))]) c)))"

definition RoleHandler_List :: "'w tracer \<Rightarrow> gin_binding \<Rightarrow> 'w RoleHandler \<Rightarrow> 'w handler" where
  "RoleHandler_List T B h c =
     pbind (call (tr_start T ''RoleHandler.List'')) (\<lambda>sp0.
     case bd_RoleList B c of
       Inl bindErr \<Rightarrow> finish T sp0 (SendError 400 ''invalid query parameters'' c)
     | Inr req \<Rightarrow>
         (let sp = SetAttributes sp0 [(''filter.page'', AInt (sint (rli_Page req))),
                     (''filter.limit'', AInt (sint (rli_Limit req)))] in
          pbind (rh_ListUC h sp req) (\<lambda>(res, sp1).
          case res of
            Inl execErr \<Rightarrow> finish T sp1 (HandleError execErr c)
          | Inr out \<Rightarrow>
              finish T (SetAttributes sp1 [(''result.total'', AInt (sint (po_Total (rlo_Pagination out))))])
                (SendSuccessWithMeta 200 (AList (map role_json (rlo_Data out)))
                  (pagination_json (rlo_Pagination out)) ANil c))))"

definition RoleHandler_Delete :: "'w tracer \<Rightarrow> 'w RoleHandler \<Rightarrow> 'w handler" where
  "RoleHandler_Delete T h c =
     pbind (call (tr_start T ''RoleHandler.Delete'')) (\<lambda>sp0.
     let i = rq_Param (cx_Request c) ''id'';
         sp = SetAttributes sp0 [(''role.id'', AString i)] in
     pbind (rh_DeleteUC h sp \<lparr>rdi_ID = i\<rparr>) (\<lambda>(res, sp1).
     case res of
       Inl execErr \<Rightarrow> finish T sp1 (HandleError execErr c)
     | Inr out \<Rightarrow> finish T sp1 (SendSuccess 200 (id_json (rdo_ID out)) c)))"

section \<open>Responses\<close>

text \<open>A handler's answer to a use-case error: the status of its code, never the error's own text.\<close>

lemma HandleError_status:
  assumes "unwritten c" and "errors_As_App e = Some a" and "codeToStatus (app_code a) = Some s" and "0 < s"
  shows "rs_Status (cx_Writer (HandleError e c)) = s"
  using assms by (simp add: HandleError_def Let_def SendError_status)

lemma app_errors [simp]:
  "errors_As_App (userToAppError e) = Some (userToAppError e)"
  "errors_As_App (roleToAppError e) = Some (roleToAppError e)"
  by (simp_all add: userToAppError_def roleToAppError_def apperror_Wrap_def)

lemma codeToStatus_simps [simp]:
  "codeToStatus CodeInvalidRequest = Some 400" "codeToStatus CodeNotFound = Some 404"
  "codeToStatus CodeConflict = Some 409" "codeToStatus CodeInternalError = Some 500"
  by (simp_all add: codeToStatus_def code_defs)

lemma run_finish [run_simps]: "run (finish T sp c) w = (Done c, snd (tr_end T sp w))"
  by (simp add: finish_def run_simps)

text \<open>What an error response is: the status, and a body that depends on the message only.\<close>

definition error_body :: "string \<Rightarrow> string" where
  "error_body m = json_encode (error_json \<lparr>ed_Message = m, ed_Code = [], ed_Details = None\<rparr>) @ newline"

definition responds :: "gin_context \<Rightarrow> gin_context \<Rightarrow> int \<Rightarrow> string \<Rightarrow> bool" where
  "responds c d status body \<longleftrightarrow> rs_Status (cx_Writer d) = status
     \<and> rs_Body (cx_Writer d) = rs_Body (cx_Writer c) @ body \<and> rs_Written (cx_Writer d)"

lemma SendError_responds:
  "unwritten c \<Longrightarrow> 0 < s \<Longrightarrow> responds c (SendError s m c) s (error_body m)"
  by (simp add: SendError_def WriteError_def writeJSON_fresh unwritten_def responds_def error_body_def)

lemma HandleError_responds:
  assumes "unwritten c" and "errors_As_App e = Some a" and "codeToStatus (app_code a) = Some s" and "0 < s"
  shows "responds c (HandleError e c) s (error_body (app_message a))"
  using assms by (simp add: HandleError_def Let_def SendError_responds)

lemma SendSuccess_responds:
  "unwritten c \<Longrightarrow> 0 < s \<Longrightarrow> responds c (SendSuccess s v c) s
     (json_encode (success_json \<lparr>sr_Data = v, sr_Meta = ANil, sr_Links = ANil\<rparr>) @ newline)"
  by (simp add: SendSuccess_def WriteSuccess_def writeJSON_fresh unwritten_def responds_def)

section \<open>The service behind the handlers\<close>

text \<open>Tracing and counting do not touch the tables.\<close>

definition quiet_observers ::
  "'w tracer \<Rightarrow> ((Metrics option \<Rightarrow> Metrics option) \<Rightarrow> 'w \<Rightarrow> unit \<times> 'w) option \<Rightarrow> ('w \<Rightarrow> tables) \<Rightarrow> bool" where
  "quiet_observers T M tbl \<longleftrightarrow>
     (\<forall>n w. tbl (snd (tr_start T n w)) = tbl w) \<and> (\<forall>sp w. tbl (snd (tr_end T sp w)) = tbl w)
     \<and> (\<forall>upd f w. M = Some upd \<longrightarrow> tbl (snd (upd f w)) = tbl w)"

lemma quiet_simps:
  assumes "quiet_observers T M tbl"
  shows "tbl (snd (tr_start T n w)) = tbl w" "tbl (snd (tr_end T sp w)) = tbl w"
    "tbl (snd (run (count_if M f) w)) = tbl w"
  using assms by (auto simp: quiet_observers_def count_if_def split: option.split)

text \<open>The handlers of the service, over PostgreSQL and without a cache, as the container builds them.\<close>

definition service_users ::
  "'w env \<Rightarrow> 'w sqlx_db \<Rightarrow> 'w sqlx_db \<Rightarrow> ((Metrics option \<Rightarrow> Metrics option) \<Rightarrow> 'w \<Rightarrow> unit \<times> 'w) option
    \<Rightarrow> 'w UserHandler" where
  "service_users E hw hr M =
     (let repo = postgres_users E (NewUserRepository hw hr) in
      NewUserHandler (CreateUseCase_Execute E repo) (GetUseCase_Execute E repo None None)
        (ListUseCase_Execute E repo) (UpdateUseCase_Execute E repo None) (DeleteUseCase_Execute E repo None) M)"

definition service_roles :: "'w env \<Rightarrow> 'w sqlx_db \<Rightarrow> 'w sqlx_db \<Rightarrow> 'w RoleHandler" where
  "service_roles E hw hr =
     (let repo = postgres_roles E (NewRoleRepository hw hr) in
      NewRoleHandler (RoleCreateUseCase_Execute E repo) (RoleListUseCase_Execute E repo)
        (RoleDeleteUseCase_Execute E repo))"


definition world_tracer :: "world tracer" where
  "world_tracer = \<lparr>tr_start = (\<lambda>n w. (Some (new_span n), w)), tr_end = (\<lambda>sp w. ((), w))\<rparr>"

definition const_binding :: "CreateInput \<Rightarrow> gin_binding" where
  "const_binding i =
     \<lparr>bd_UserCreate = (\<lambda>c. Inr i), bd_UserList = (\<lambda>c. Inl (Opaque ''*errors.errorString'' ''EOF'')),
      bd_UserUpdate = (\<lambda>c. Inl (Opaque ''*errors.errorString'' ''EOF'')),
      bd_RoleCreate = (\<lambda>c. Inl (Opaque ''*errors.errorString'' ''EOF'')),
      bd_RoleList = (\<lambda>c. Inl (Opaque ''*errors.errorString'' ''EOF''))\<rparr>"

lemma blank_unwritten: "unwritten (blank_context q)"
  by (simp add: unwritten_def blank_context_def)

lemma world_tracer_quiet: "quiet_observers world_tracer None tbl"
  by (simp add: quiet_observers_def world_tracer_def)


end
