(* ===== verification/Grpc.thy ===== *)
theory Grpc
  imports Handlers ServiceAuth
begin

text \<open>
  The gRPC transport (\<open>internal/infrastructure/grpc\<close>): the handlers of users and roles, the translation of
  errors, the interceptors and the server that chains them.  The messages are those of
  \<open>proto/appmax\<close>; the span of a call, the clock and the log are parameters as for HTTP.
\<close>

section \<open>Statuses and messages\<close>

datatype grpc_code =
    InvalidArgument | code_NotFound | AlreadyExists | PermissionDenied | Internal | Unavailable | Unauthenticated

fun code_String :: "grpc_code \<Rightarrow> string" where
  "code_String InvalidArgument = ''InvalidArgument''"
| "code_String code_NotFound = ''NotFound''"
| "code_String AlreadyExists = ''AlreadyExists''"
| "code_String PermissionDenied = ''PermissionDenied''"
| "code_String Internal = ''Internal''"
| "code_String Unavailable = ''Unavailable''"
| "code_String Unauthenticated = ''Unauthenticated''"

text \<open>What \<open>status.Error\<close> carries.\<close>

record grpc_status =
  st_Code :: grpc_code
  st_Message :: string

record Pagination =
  pp_Page :: "32 word"
  pp_Limit :: "32 word"
  pp_Total :: "32 word"
  pp_TotalPages :: "32 word"

record proto_user =
  pu_Id :: string
  pu_Name :: string
  pu_Email :: string
  pu_Active :: bool
  pu_CreatedAt :: string
  pu_UpdatedAt :: string

record proto_role =
  pr_Id :: string
  pr_Name :: string
  pr_CreatedAt :: string
  pr_UpdatedAt :: string

datatype rpc_request =
    CreateUserRequest string string
  | GetUserRequest string
  | ListUsersRequest "32 word" "32 word" string string bool
  | UpdateUserRequest string "string option" "string option"
  | DeleteUserRequest string
  | CreateRoleRequest string
  | ListRolesRequest "32 word" "32 word"
  | DeleteRoleRequest string

datatype rpc_response =
    CreateUserResponse string string
  | GetUserResponse proto_user
  | ListUsersResponse "proto_user list" Pagination
  | UpdateUserResponse proto_user
  | DeleteUserResponse string
  | CreateRoleResponse string string
  | ListRolesResponse "proto_role list" Pagination
  | DeleteRoleResponse string

section \<open>Errors\<close>

definition codeToGRPCStatus :: "string \<Rightarrow> grpc_code option" where
  "codeToGRPCStatus code = map_of
     [(CodeInvalidRequest, InvalidArgument), (CodeValidationError, InvalidArgument),
      (CodeNotFound, code_NotFound), (CodeConflict, AlreadyExists), (CodeUnauthorized, Unauthenticated),
      (CodeForbidden, PermissionDenied), (CodeUnprocessableEntity, InvalidArgument),
      (CodeInternalError, Internal)] code"

definition toGRPCStatus :: "goerror \<Rightarrow> grpc_status" where
  "toGRPCStatus err =
     (case errors_As_App err of
        Some appErr \<Rightarrow>
          (let code = (case codeToGRPCStatus (app_code appErr) of Some c \<Rightarrow> c | None \<Rightarrow> Internal)
           in \<lparr>st_Code = code, st_Message = app_message appErr\<rparr>)
      | None \<Rightarrow> \<lparr>st_Code = Internal, st_Message = ''internal server error''\<rparr>)"

definition toInt32 :: "gint \<Rightarrow> 32 word" where
  "toInt32 v =
     (if v <s 0 then 0
      else if 2147483647 <s v then 2147483647
      else scast v)"

text \<open>\<open>int(x)\<close> of an \<open>int32\<close>.\<close>

definition int_of_int32 :: "32 word \<Rightarrow> gint" where
  "int_of_int32 x = scast x"

section \<open>User handlers\<close>

type_synonym ('w, 'r) rpc = "('w, grpc_status + 'r) prog"

definition grpc_finish :: "'w tracer \<Rightarrow> span option \<Rightarrow> grpc_status + 'r \<Rightarrow> ('w, 'r) rpc" where
  "grpc_finish T sp r = pbind (call (tr_end T sp)) (\<lambda>_. Return r)"

definition toProtoUser :: "GetOutput \<Rightarrow> proto_user" where
  "toProtoUser u =
     \<lparr>pu_Id = ugo_ID u, pu_Name = ugo_Name u, pu_Email = ugo_Email u, pu_Active = ugo_Active u,
      pu_CreatedAt = ugo_CreatedAt u, pu_UpdatedAt = ugo_UpdatedAt u\<rparr>"

definition pagination_proto :: "PaginationOutput \<Rightarrow> Pagination" where
  "pagination_proto p =
     \<lparr>pp_Page = toInt32 (po_Page p), pp_Limit = toInt32 (po_Limit p), pp_Total = toInt32 (po_Total p),
      pp_TotalPages = toInt32 (po_TotalPages p)\<rparr>"

definition grpc_CreateUser :: "'w tracer \<Rightarrow> 'w UserHandler \<Rightarrow> string \<Rightarrow> string \<Rightarrow> ('w, rpc_response) rpc" where
  "grpc_CreateUser T h name email =
     pbind (call (tr_start T ''UserHandler.CreateUser'')) (\<lambda>sp.
     let input = \<lparr>uci_Name = name, uci_Email = email\<rparr> in
     pbind (uh_CreateUC h sp input) (\<lambda>(res, sp1).
     case res of
       Inl execErr \<Rightarrow> grpc_finish T sp1 (Inl (toGRPCStatus execErr))
     | Inr out \<Rightarrow>
         (let sp2 = SetAttributes sp1 [(''user.id'', AString (uco_ID out))] in
          pbind (count_if (uh_Metrics h) RecordCreate) (\<lambda>_.
          grpc_finish T sp2 (Inr (CreateUserResponse (uco_ID out) (uco_CreatedAt out)))))))"

definition grpc_GetUser :: "'w tracer \<Rightarrow> 'w UserHandler \<Rightarrow> string \<Rightarrow> ('w, rpc_response) rpc" where
  "grpc_GetUser T h i =
     pbind (call (tr_start T ''UserHandler.GetUser'')) (\<lambda>sp0.
     let sp = SetAttributes sp0 [(''user.id'', AString i)] in
     pbind (uh_GetUC h sp \<lparr>ugi_ID = i\<rparr>) (\<lambda>(res, sp1).
     case res of
       Inl execErr \<Rightarrow> grpc_finish T sp1 (Inl (toGRPCStatus execErr))
     | Inr out \<Rightarrow> grpc_finish T sp1 (Inr (GetUserResponse (toProtoUser out)))))"

definition grpc_ListUsers ::
  "'w tracer \<Rightarrow> 'w UserHandler \<Rightarrow> 32 word \<Rightarrow> 32 word \<Rightarrow> string \<Rightarrow> string \<Rightarrow> bool \<Rightarrow> ('w, rpc_response) rpc" where
  "grpc_ListUsers T h pageNo limit name email activeOnly =
     pbind (call (tr_start T ''UserHandler.ListUsers'')) (\<lambda>sp0.
     let input = \<lparr>uli_Page = int_of_int32 pageNo, uli_Limit = int_of_int32 limit, uli_Name = name,
                  uli_Email = email, uli_ActiveOnly = activeOnly\<rparr>;
         sp = SetAttributes sp0 [(''filter.page'', AInt (sint (uli_Page input))),
                (''filter.limit'', AInt (sint (uli_Limit input)))] in
     pbind (uh_ListUC h sp input) (\<lambda>(res, sp1).
     case res of
       Inl execErr \<Rightarrow> grpc_finish T sp1 (Inl (toGRPCStatus execErr))
     | Inr out \<Rightarrow>
         grpc_finish T (SetAttributes sp1 [(''result.total'', AInt (sint (po_Total (ulo_Pagination out))))])
           (Inr (ListUsersResponse (map toProtoUser (ulo_Data out)) (pagination_proto (ulo_Pagination out))))))"

definition grpc_UpdateUser ::
  "'w tracer \<Rightarrow> 'w UserHandler \<Rightarrow> string \<Rightarrow> string option \<Rightarrow> string option \<Rightarrow> ('w, rpc_response) rpc" where
  "grpc_UpdateUser T h i name email =
     pbind (call (tr_start T ''UserHandler.UpdateUser'')) (\<lambda>sp0.
     let sp = SetAttributes sp0 [(''user.id'', AString i)];
         input = \<lparr>uui_ID = i, uui_Name = name, uui_Email = email\<rparr> in
     pbind (uh_UpdateUC h sp input) (\<lambda>(res, sp1).
     case res of
       Inl execErr \<Rightarrow> grpc_finish T sp1 (Inl (toGRPCStatus execErr))
     | Inr out \<Rightarrow>
         pbind (count_if (uh_Metrics h) RecordUpdate) (\<lambda>_.
         grpc_finish T sp1 (Inr (UpdateUserResponse
           \<lparr>pu_Id = uuo_ID out, pu_Name = uuo_Name out, pu_Email = uuo_Email out, pu_Active = uuo_Active out,
            pu_CreatedAt = [], pu_UpdatedAt = uuo_UpdatedAt out\<rparr>)))))"

definition grpc_DeleteUser :: "'w tracer \<Rightarrow> 'w UserHandler \<Rightarrow> string \<Rightarrow> ('w, rpc_response) rpc" where
  "grpc_DeleteUser T h i =
     pbind (call (tr_start T ''UserHandler.DeleteUser'')) (\<lambda>sp0.
     let sp = SetAttributes sp0 [(''user.id'', AString i)] in
     pbind (uh_DeleteUC h sp \<lparr>udi_ID = i\<rparr>) (\<lambda>(res, sp1).
     case res of
       Inl execErr \<Rightarrow> grpc_finish T sp1 (Inl (toGRPCStatus execErr))
     | Inr out \<Rightarrow>
         pbind (count_if (uh_Metrics h) RecordDelete) (\<lambda>_.
         grpc_finish T sp1 (Inr (DeleteUserResponse (udo_ID out))))))"

section \<open>Role handlers\<close>

definition grpc_CreateRole :: "'w tracer \<Rightarrow> 'w RoleHandler \<Rightarrow> string \<Rightarrow> ('w, rpc_response) rpc" where
  "grpc_CreateRole T h name =
     pbind (call (tr_start T ''RoleHandler.CreateRole'')) (\<lambda>sp.
     let input = \<lparr>rci_Name = name, rci_Description = []\<rparr> in
     pbind (rh_CreateUC h sp input) (\<lambda>(res, sp1).
     case res of
       Inl execErr \<Rightarrow> grpc_finish T sp1 (Inl (toGRPCStatus execErr))
     | Inr out \<Rightarrow>
         grpc_finish T (SetAttributes sp1 [(''role.id'', AString (rco_ID out))])
           (Inr (CreateRoleResponse (rco_ID out) (rco_CreatedAt out)))))"

definition toProtoRole :: "RoleOutput \<Rightarrow> proto_role" where
  "toProtoRole r =
     \<lparr>pr_Id = rou_ID r, pr_Name = rou_Name r, pr_CreatedAt = rou_CreatedAt r, pr_UpdatedAt = rou_UpdatedAt r\<rparr>"

definition grpc_ListRoles :: "'w tracer \<Rightarrow> 'w RoleHandler \<Rightarrow> 32 word \<Rightarrow> 32 word \<Rightarrow> ('w, rpc_response) rpc" where
  "grpc_ListRoles T h pageNo limit =
     pbind (call (tr_start T ''RoleHandler.ListRoles'')) (\<lambda>sp.
     let input = \<lparr>rli_Page = int_of_int32 pageNo, rli_Limit = int_of_int32 limit, rli_Name = []\<rparr> in
     pbind (rh_ListUC h sp input) (\<lambda>(res, sp1).
     case res of
       Inl execErr \<Rightarrow> grpc_finish T sp1 (Inl (toGRPCStatus execErr))
     | Inr out \<Rightarrow>
         (let roles = map toProtoRole (rlo_Data out) in
          grpc_finish T (SetAttributes sp1 [(''role.count'', AInt (int (length roles)))])
            (Inr (ListRolesResponse roles (pagination_proto (rlo_Pagination out)))))))"

definition grpc_DeleteRole :: "'w tracer \<Rightarrow> 'w RoleHandler \<Rightarrow> string \<Rightarrow> ('w, rpc_response) rpc" where
  "grpc_DeleteRole T h i =
     pbind (call (tr_start T ''RoleHandler.DeleteRole'')) (\<lambda>sp.
     pbind (rh_DeleteUC h sp \<lparr>rdi_ID = i\<rparr>) (\<lambda>(res, sp1).
     case res of
       Inl execErr \<Rightarrow> grpc_finish T sp1 (Inl (toGRPCStatus execErr))
     | Inr out \<Rightarrow>
         grpc_finish T (SetAttributes sp1 [(''role.id'', AString (rdo_ID out))])
           (Inr (DeleteRoleResponse (rdo_ID out)))))"

section \<open>Interceptors\<close>

text \<open>
  The incoming context of a call: its method and its metadata, if it has any.  A call returns or panics;
  the streaming calls of the server (health, reflection) return an error or nothing.
\<close>

record rpc_context =
  rx_FullMethod :: string
  rx_Metadata :: "(string \<Rightarrow> string list) option"

datatype 'r rpc_outcome = Returned "grpc_status + 'r" | Panicked goany

type_synonym ('w, 'q, 'r) unary_handler = "rpc_context \<Rightarrow> 'q \<Rightarrow> ('w, 'r rpc_outcome) prog"
type_synonym 'w stream_handler = "rpc_context \<Rightarrow> ('w, unit rpc_outcome) prog"

record AuthConfig =
  ac_Enabled :: bool
  ac_Keys :: "(string \<times> string) list"

definition validateAuth :: "rpc_context \<Rightarrow> AuthConfig \<Rightarrow> grpc_status option" where
  "validateAuth ctx cfg =
     (let unauthorized = Some \<lparr>st_Code = Unauthenticated, st_Message = ''unauthorized''\<rparr> in
      if HasPrefix (rx_FullMethod ctx) ''/grpc.health.v1.Health/'' then None
      else if \<not> ac_Enabled cfg then None
      else if ac_Keys cfg = [] then
        Some \<lparr>st_Code = Unavailable, st_Message = ''service authentication not configured''\<rparr>
      else
        (case rx_Metadata ctx of
           None \<Rightarrow> unauthorized
         | Some md \<Rightarrow>
             (case (md ''x-service-name'', md ''x-service-key'') of
                (serviceName # _, serviceKey # _) \<Rightarrow>
                  (let expected = map_of (ac_Keys cfg) serviceName;
                       expectedKey = (case expected of Some k \<Rightarrow> k | None \<Rightarrow> dummyServiceKey);
                       keyMatch = (ConstantTimeCompare expectedKey serviceKey = 1)
                   in if expected = None \<or> \<not> keyMatch then unauthorized else None)
              | _ \<Rightarrow> unauthorized)))"

definition AuthUnary :: "AuthConfig \<Rightarrow> ('w, 'q, 'r) unary_handler \<Rightarrow> ('w, 'q, 'r) unary_handler" where
  "AuthUnary cfg handler ctx req =
     (case validateAuth ctx cfg of
        Some authErr \<Rightarrow> Return (Returned (Inl authErr))
      | None \<Rightarrow> handler ctx req)"

definition AuthStream :: "AuthConfig \<Rightarrow> 'w stream_handler \<Rightarrow> 'w stream_handler" where
  "AuthStream cfg handler ctx =
     (case validateAuth ctx cfg of
        Some authErr \<Rightarrow> Return (Returned (Inl authErr))
      | None \<Rightarrow> handler ctx)"

text \<open>\<open>Duration.String\<close>, and the lines of the log: the level, the message and its arguments.\<close>

definition fmt_frac :: "nat \<Rightarrow> nat \<Rightarrow> string" where
  "fmt_frac prec v =
     (let ds = nat_digits (v mod 10 ^ prec);
          padded = replicate (prec - length ds) CHR ''0'' @ ds;
          kept = rev (dropWhile (\<lambda>c. c = CHR ''0'') (rev padded))
      in if prec = 0 \<or> kept = [] then [] else CHR ''.'' # kept)"

definition small_duration :: "nat \<Rightarrow> nat \<Rightarrow> string \<Rightarrow> string" where
  "small_duration prec u unit = nat_digits (u div 10 ^ prec) @ fmt_frac prec u @ unit"

definition duration_String :: "duration \<Rightarrow> string" where
  "duration_String d =
     (let u = nat \<bar>d\<bar>; s = u div 10 ^ 9 in
      (if d < 0 then ''-'' else []) @
      (if u = 0 then ''0s''
       else if u < 10 ^ 3 then small_duration 0 u ''ns''
       else if u < 10 ^ 6 then small_duration 3 u [CHR 0xC2, CHR 0xB5, CHR ''s'']
       else if u < 10 ^ 9 then small_duration 6 u ''ms''
       else (if s < 60 * 60 then [] else nat_digits (s div 3600) @ ''h'')
         @ (if s < 60 then [] else nat_digits (s div 60 mod 60) @ ''m'')
         @ nat_digits (s mod 60) @ fmt_frac 9 u @ ''s''))"

definition log_call ::
  "'w web \<Rightarrow> string \<Rightarrow> rpc_context \<Rightarrow> time \<Rightarrow> grpc_status + 'r \<Rightarrow> ('w, unit) prog" where
  "log_call W msg ctx start r =
     pbind (call (env_now (wb_env W))) (\<lambda>t.
     call (wb_log W (case r of Inl e \<Rightarrow> LevelError | Inr x \<Rightarrow> LevelInfo) msg
       [(''grpc.method'', AString (rx_FullMethod ctx)),
        (''grpc.code'', AString (case r of Inl e \<Rightarrow> code_String (st_Code e) | Inr x \<Rightarrow> ''OK'')),
        (''duration'', AString (duration_String (t - start)))]))"

definition LoggingUnary :: "'w web \<Rightarrow> ('w, 'q, 'r) unary_handler \<Rightarrow> ('w, 'q, 'r) unary_handler" where
  "LoggingUnary W handler ctx req =
     pbind (call (env_now (wb_env W))) (\<lambda>start.
     pbind (handler ctx req) (\<lambda>out.
     case out of
       Panicked v \<Rightarrow> Return (Panicked v)
     | Returned r \<Rightarrow> pbind (log_call W ''gRPC request'' ctx start r) (\<lambda>_. Return (Returned r))))"

definition LoggingStream :: "'w web \<Rightarrow> 'w stream_handler \<Rightarrow> 'w stream_handler" where
  "LoggingStream W handler ctx =
     pbind (call (env_now (wb_env W))) (\<lambda>start.
     pbind (handler ctx) (\<lambda>out.
     case out of
       Panicked v \<Rightarrow> Return (Panicked v)
     | Returned r \<Rightarrow> pbind (log_call W ''gRPC stream'' ctx start r) (\<lambda>_. Return (Returned r))))"

definition recovered :: "'w web \<Rightarrow> string \<Rightarrow> rpc_context \<Rightarrow> 'r rpc_outcome \<Rightarrow> ('w, 'r rpc_outcome) prog" where
  "recovered W stack ctx out =
     (case out of
        Returned r \<Rightarrow> Return (Returned r)
      | Panicked v \<Rightarrow>
          pbind (call (wb_log W LevelError ''gRPC panic recovered''
            [(''method'', AString (rx_FullMethod ctx)), (''panic'', v), (''stack'', AString stack)])) (\<lambda>_.
          Return (Returned (Inl \<lparr>st_Code = Internal, st_Message = ''internal server error''\<rparr>))))"

definition RecoveryUnary :: "'w web \<Rightarrow> string \<Rightarrow> ('w, 'q, 'r) unary_handler \<Rightarrow> ('w, 'q, 'r) unary_handler" where
  "RecoveryUnary W stack handler ctx req = pbind (handler ctx req) (recovered W stack ctx)"

definition RecoveryStream :: "'w web \<Rightarrow> string \<Rightarrow> 'w stream_handler \<Rightarrow> 'w stream_handler" where
  "RecoveryStream W stack handler ctx = pbind (handler ctx) (recovered W stack ctx)"

section \<open>The server\<close>

text \<open>
  The registered services: the method of a message and the handler it goes to.  A panic inside a
  handler is an outcome of \<open>panics\<close>, which wraps what the generated code calls.
\<close>

fun full_method :: "rpc_request \<Rightarrow> string" where
  "full_method (CreateUserRequest n e) = ''/appmax.user.v1.UserService/CreateUser''"
| "full_method (GetUserRequest i) = ''/appmax.user.v1.UserService/GetUser''"
| "full_method (ListUsersRequest p l n e a) = ''/appmax.user.v1.UserService/ListUsers''"
| "full_method (UpdateUserRequest i n e) = ''/appmax.user.v1.UserService/UpdateUser''"
| "full_method (DeleteUserRequest i) = ''/appmax.user.v1.UserService/DeleteUser''"
| "full_method (CreateRoleRequest n) = ''/appmax.role.v1.RoleService/CreateRole''"
| "full_method (ListRolesRequest p l) = ''/appmax.role.v1.RoleService/ListRoles''"
| "full_method (DeleteRoleRequest i) = ''/appmax.role.v1.RoleService/DeleteRole''"

fun dispatch :: "'w tracer \<Rightarrow> 'w UserHandler \<Rightarrow> 'w RoleHandler \<Rightarrow> rpc_request \<Rightarrow> ('w, rpc_response) rpc" where
  "dispatch T u r (CreateUserRequest n e) = grpc_CreateUser T u n e"
| "dispatch T u r (GetUserRequest i) = grpc_GetUser T u i"
| "dispatch T u r (ListUsersRequest p l n e a) = grpc_ListUsers T u p l n e a"
| "dispatch T u r (UpdateUserRequest i n e) = grpc_UpdateUser T u i n e"
| "dispatch T u r (DeleteUserRequest i) = grpc_DeleteUser T u i"
| "dispatch T u r (CreateRoleRequest n) = grpc_CreateRole T r n"
| "dispatch T u r (ListRolesRequest p l) = grpc_ListRoles T r p l"
| "dispatch T u r (DeleteRoleRequest i) = grpc_DeleteRole T r i"

text \<open>
  \<open>NewServer\<close>: how the server serves a unary call to a registered service, and a stream of one of the
  library's own services (health, reflection), which are a parameter.
\<close>

record 'w grpc_server =
  gs_Unary :: "(string \<Rightarrow> string list) option \<Rightarrow> rpc_request \<Rightarrow> ('w, rpc_response rpc_outcome) prog"
  gs_Stream :: "'w stream_handler \<Rightarrow> 'w stream_handler"
  gs_Serving :: "string list"
  gs_Reflection :: bool

record GrpcConfig =
  gc_ReflectionEnabled :: bool
  gc_AuthConfig :: AuthConfig

definition NewServer ::
  "'w web \<Rightarrow> string \<Rightarrow> 'w tracer \<Rightarrow> GrpcConfig \<Rightarrow> 'w UserHandler \<Rightarrow> 'w RoleHandler \<Rightarrow> 'w grpc_server" where
  "NewServer W stack T cfg userHandler roleHandler =
     \<lparr>gs_Unary = (\<lambda>md req.
        RecoveryUnary W stack (LoggingUnary W (AuthUnary (gc_AuthConfig cfg)
          (\<lambda>ctx q. pbind (dispatch T userHandler roleHandler q) (\<lambda>r. Return (Returned r)))))
          \<lparr>rx_FullMethod = full_method req, rx_Metadata = md\<rparr> req),
      gs_Stream = (\<lambda>handler. RecoveryStream W stack (LoggingStream W (AuthStream (gc_AuthConfig cfg) handler))),
      gs_Serving = [[], ''appmax.user.v1.UserService'', ''appmax.role.v1.RoleService''],
      gs_Reflection = gc_ReflectionEnabled cfg\<rparr>"

end
