(* ===== verification/Health.thy ===== *)
theory Health
  imports Http
begin

text \<open>
  Health checks (\<open>pkg/health\<close>): the checker with its options and registered checks, and the
  evaluation of all of them.  A check function is a program that gets the timeout of its context.
\<close>

record Status =
  hs_Name :: string
  hs_Status :: string
  hs_Critical :: bool
  hs_Error :: string

record 'w check =
  ck_name :: string
  ck_critical :: bool
  ck_fn :: "duration \<Rightarrow> ('w, goerror option) prog"

record 'w Checker =
  hc_checks :: "'w check list"
  hc_timeout :: duration

definition WithTimeout :: "duration \<Rightarrow> 'w Checker \<Rightarrow> 'w Checker" where
  "WithTimeout d c = c\<lparr>hc_timeout := d\<rparr>"

definition NewChecker :: "('w Checker \<Rightarrow> 'w Checker) list \<Rightarrow> 'w Checker" where
  "NewChecker opts = foldl (\<lambda>c opt. opt c) \<lparr>hc_checks = [], hc_timeout = 5 * 10 ^ 9\<rparr> opts"

definition Checker_Register ::
  "'w Checker \<Rightarrow> string \<Rightarrow> bool \<Rightarrow> (duration \<Rightarrow> ('w, goerror option) prog) \<Rightarrow> 'w Checker" where
  "Checker_Register c name critical fn =
     c\<lparr>hc_checks := hc_checks c @ [\<lparr>ck_name = name, ck_critical = critical, ck_fn = fn\<rparr>]\<rparr>"

fun run_checks ::
  "duration \<Rightarrow> 'w check list \<Rightarrow> bool \<Rightarrow> Status list \<Rightarrow> ('w, bool \<times> Status list) prog" where
  "run_checks timeout [] healthy statuses = Return (healthy, statuses)"
| "run_checks timeout (ch # chs) healthy statuses =
     pbind (ck_fn ch timeout) (\<lambda>checkErr.
     case checkErr of
       Some e \<Rightarrow>
         run_checks timeout chs (if ck_critical ch then False else healthy)
           (statuses @ [\<lparr>hs_Name = ck_name ch, hs_Status = ''unavailable'', hs_Critical = ck_critical ch,
              hs_Error = err_text e\<rparr>])
     | None \<Rightarrow>
         run_checks timeout chs healthy
           (statuses @ [\<lparr>hs_Name = ck_name ch, hs_Status = ''ok'', hs_Critical = ck_critical ch, hs_Error = []\<rparr>]))"

definition RunAll :: "'w Checker \<Rightarrow> ('w, bool \<times> Status list) prog" where
  "RunAll c = run_checks (hc_timeout c) (hc_checks c) True []"

definition status_json :: "Status \<Rightarrow> goany" where
  "status_json s = AMap ([(''name'', AString (hs_Name s)), (''status'', AString (hs_Status s)),
     (''critical'', ABool (hs_Critical s))] @ omit_empty ''error'' (hs_Error s))"

section \<open>Correctness\<close>

text \<open>The outcomes of the checks, each run once, in their order, from what the ones before left.\<close>

fun outcomes :: "duration \<Rightarrow> 'w check list \<Rightarrow> 'w \<Rightarrow> goerror option list" where
  "outcomes t [] w = []"
| "outcomes t (ch # chs) w = fst (run (ck_fn ch t) w) # outcomes t chs (snd (run (ck_fn ch t) w))"

definition status_of :: "'w check \<Rightarrow> goerror option \<Rightarrow> Status" where
  "status_of ch e = \<lparr>hs_Name = ck_name ch, hs_Status = (if e = None then ''ok'' else ''unavailable''),
     hs_Critical = ck_critical ch, hs_Error = (case e of None \<Rightarrow> [] | Some err \<Rightarrow> err_text err)\<rparr>"

definition critical_pass :: "'w check list \<Rightarrow> goerror option list \<Rightarrow> bool" where
  "critical_pass chs es = list_all (\<lambda>(ch, e). ck_critical ch \<longrightarrow> e = None) (zip chs es)"

lemma run_checks_result:
  "fst (run (run_checks t chs healthy sts) w) =
     (healthy \<and> critical_pass chs (outcomes t chs w), sts @ map2 status_of chs (outcomes t chs w))"
proof (induction chs arbitrary: w healthy sts)
  case (Cons ch chs)
  then show ?case
    by (cases "fst (run (ck_fn ch t) w)") (simp_all add: run_pbind critical_pass_def status_of_def)
qed (simp add: critical_pass_def)

lemma run_checks_frame:
  assumes "list_all (\<lambda>c. \<forall>w. f (snd (run (ck_fn c t) w)) = f w) chs"
  shows "f (snd (run (run_checks t chs healthy sts) w)) = f w"
  using assms
proof (induction chs arbitrary: w healthy sts)
  case Nil
  then show ?case by simp
next
  case (Cons ch chs)
  then show ?case by (cases "fst (run (ck_fn ch t) w)") (simp_all add: run_pbind)
qed

end
