(* ===== verification/Router.thy ===== *)
theory Router
  imports Handlers Health ServiceAuth IdempotencyProofs
begin

text \<open>
  The router (\<open>internal/infrastructure/web/router\<close>): the middleware chain in its order, the public and
  the protected routes, and what follows for requests that do not authenticate.  gin's dispatch,
  otelgin and the swagger handler are not code of the repository: the dispatch is written down as gin
  documents it (exact segments, \<open>:name\<close> for one non-empty segment, \<open>*name\<close> for the rest; its
  trailing-slash redirects are left out), the other two are parameters.
\<close>

section \<open>Routes and dispatch\<close>

record 'w route =
  rt_Method :: string
  rt_Path :: string
  rt_Use :: "'w middleware list"
  rt_Handler :: "'w handler"

record 'w engine =
  en_Use :: "'w middleware list"
  en_Routes :: "'w route list"

fun path_match :: "string list \<Rightarrow> string list \<Rightarrow> (string \<times> string) list option" where
  "path_match [] [] = Some []"
| "path_match [] (x # xs) = None"
| "path_match (p # ps) xs =
     (if p \<noteq> [] \<and> hd p = CHR ''*'' then Some [(tl p, ''/'' @ Join xs ''/'')]
      else (case xs of
              [] \<Rightarrow> None
            | x # xs' \<Rightarrow>
                (if p \<noteq> [] \<and> hd p = CHR '':'' then
                   (if x = [] then None else map_option (Cons (tl p, x)) (path_match ps xs'))
                 else if p = x then path_match ps xs' else None)))"

definition route_match :: "http_request \<Rightarrow> 'w route \<Rightarrow> (string \<times> string) list option" where
  "route_match q rt =
     (if rt_Method rt = rq_Method q
      then path_match (Split (rt_Path rt) CHR ''/'') (Split (rq_Path q) CHR ''/'') else None)"

definition with_route :: "string \<Rightarrow> (string \<times> string) list \<Rightarrow> gin_context \<Rightarrow> gin_context" where
  "with_route full params c =
     c\<lparr>cx_Request := (cx_Request c)\<lparr>rq_FullPath := full,
         rq_Param := (\<lambda>k. case map_of params k of None \<Rightarrow> [] | Some v \<Rightarrow> v)\<rparr>\<rparr>"

definition not_found :: "'w handler" where
  "not_found c = Return (Done (gin_Data 404 ''text/plain'' ''404 page not found'' c))"

definition ServeHTTP :: "'w engine \<Rightarrow> 'w handler" where
  "ServeHTTP en c =
     (case find (\<lambda>rt. route_match (cx_Request c) rt \<noteq> None) (en_Routes en) of
        None \<Rightarrow> chain (en_Use en) not_found (with_route [] [] c)
      | Some rt \<Rightarrow>
          chain (en_Use en @ rt_Use rt) (rt_Handler rt)
            (with_route (rt_Path rt) (the (route_match (cx_Request c) rt)) c))"

section \<open>Setup\<close>

record Config =
  rc_ServiceName :: string
  rc_ServiceKeysEnabled :: bool
  rc_ServiceKeys :: string
  rc_SwaggerEnabled :: bool
  rc_MaxBodySize :: int

record 'w Dependencies =
  de_HealthChecker :: "'w Checker"
  de_RoleHandler :: "'w RoleHandler"
  de_UserHandler :: "'w UserHandler"
  de_HTTPMetrics :: bool
  de_IdempotencyStore :: "'w idem_store option"
  de_Config :: Config

text \<open>The surroundings that are not in the dependencies: libraries and globals.\<close>

record 'w libs =
  lb_web :: "'w web"
  lb_stack :: string
  lb_otelgin :: "string \<Rightarrow> 'w middleware"
  lb_sha256 :: "string \<Rightarrow> string"
  lb_swagger :: "'w handler"
  lb_tracer :: "'w tracer"
  lb_binding :: gin_binding

definition RegisterRoleRoutes :: "'w libs \<Rightarrow> 'w middleware list \<Rightarrow> 'w RoleHandler \<Rightarrow> 'w route list" where
  "RegisterRoleRoutes L rg h =
     [\<lparr>rt_Method = ''POST'', rt_Path = ''/roles'', rt_Use = rg,
        rt_Handler = RoleHandler_Create (lb_tracer L) (lb_binding L) h\<rparr>,
      \<lparr>rt_Method = ''GET'', rt_Path = ''/roles'', rt_Use = rg,
        rt_Handler = RoleHandler_List (lb_tracer L) (lb_binding L) h\<rparr>,
      \<lparr>rt_Method = ''DELETE'', rt_Path = ''/roles/:id'', rt_Use = rg,
        rt_Handler = RoleHandler_Delete (lb_tracer L) h\<rparr>]"

definition RegisterUserRoutes :: "'w libs \<Rightarrow> 'w middleware list \<Rightarrow> 'w UserHandler \<Rightarrow> 'w route list" where
  "RegisterUserRoutes L rg h =
     [\<lparr>rt_Method = ''POST'', rt_Path = ''/users'', rt_Use = rg,
        rt_Handler = UserHandler_Create (lb_tracer L) (lb_binding L) h\<rparr>,
      \<lparr>rt_Method = ''GET'', rt_Path = ''/users'', rt_Use = rg,
        rt_Handler = UserHandler_List (lb_tracer L) (lb_binding L) h\<rparr>,
      \<lparr>rt_Method = ''GET'', rt_Path = ''/users/:id'', rt_Use = rg,
        rt_Handler = UserHandler_GetByID (lb_tracer L) h\<rparr>,
      \<lparr>rt_Method = ''PUT'', rt_Path = ''/users/:id'', rt_Use = rg,
        rt_Handler = UserHandler_Update (lb_tracer L) (lb_binding L) h\<rparr>,
      \<lparr>rt_Method = ''DELETE'', rt_Path = ''/users/:id'', rt_Use = rg,
        rt_Handler = UserHandler_Delete (lb_tracer L) h\<rparr>]"

definition registerSwaggerRoutes :: "'w libs \<Rightarrow> 'w route list" where
  "registerSwaggerRoutes L =
     [\<lparr>rt_Method = ''GET'', rt_Path = ''/swagger/*any'', rt_Use = [], rt_Handler = lb_swagger L\<rparr>]"

definition health_handler :: "string \<Rightarrow> 'w handler" where
  "health_handler service c =
     Return (Done (SendSuccess 200 (gomap [(''status'', AString ''ok''), (''service'', AString service)]) c))"

definition ready_handler :: "'w Checker \<Rightarrow> 'w handler" where
  "ready_handler checker c =
     pbind (RunAll checker) (\<lambda>(healthy, statuses).
     let result = gomap [(''status'', AString (if healthy then ''ready'' else ''not ready'')),
                         (''checks'', AList (map status_json statuses))];
         status = (if healthy then 200 else 503)
     in Return (Done (SendSuccess status result c)))"

definition registerHealthRoutes :: "'w Dependencies \<Rightarrow> 'w route list" where
  "registerHealthRoutes deps =
     [\<lparr>rt_Method = ''GET'', rt_Path = ''/health'', rt_Use = [],
        rt_Handler = health_handler (rc_ServiceName (de_Config deps))\<rparr>,
      \<lparr>rt_Method = ''GET'', rt_Path = ''/ready'', rt_Use = [],
        rt_Handler = ready_handler (de_HealthChecker deps)\<rparr>]"

definition Setup :: "'w libs \<Rightarrow> 'w Dependencies \<Rightarrow> 'w engine" where
  "Setup L deps =
     (let W = lb_web L;
          cfg = de_Config deps;
          authConfig = \<lparr>sk_Enabled = rc_ServiceKeysEnabled cfg, sk_Keys = ParseServiceKeys (rc_ServiceKeys cfg),
                        sk_ServiceNameHeader = [], sk_ServiceKeyHeader = []\<rparr>;
          protected = [ServiceKeyAuth authConfig]
      in
      \<lparr>en_Use =
         [CustomRecovery W (lb_stack L), BodyLimit (rc_MaxBodySize cfg), lb_otelgin L (rc_ServiceName cfg),
          SpanRename W, Metrics_mw W (de_HTTPMetrics deps), Logger_mw W]
         @ (case de_IdempotencyStore deps of None \<Rightarrow> [] | Some st \<Rightarrow> [Idempotency_mw W (lb_sha256 L) st]),
       en_Routes =
         (if rc_SwaggerEnabled cfg then registerSwaggerRoutes L else [])
         @ registerHealthRoutes deps
         @ RegisterRoleRoutes L protected (de_RoleHandler deps)
         @ RegisterUserRoutes L protected (de_UserHandler deps)\<rparr>)"

section \<open>Handlers that leave the tables alone\<close>

text \<open>
  \<open>safe H f h\<close>: on any request with the headers \<open>H\<close>, \<open>h\<close> does not change the part \<open>f\<close> of the world.
  A middleware \<open>preserves\<close> safety if it is safe whenever what it calls is.
\<close>

definition safe :: "(string \<Rightarrow> string) \<Rightarrow> ('w \<Rightarrow> 'a) \<Rightarrow> 'w handler \<Rightarrow> bool" where
  "safe H f h \<longleftrightarrow> (\<forall>c. rq_Header (cx_Request c) = H \<longrightarrow> frames f (h c))"

definition preserves :: "(string \<Rightarrow> string) \<Rightarrow> ('w \<Rightarrow> 'a) \<Rightarrow> 'w middleware \<Rightarrow> bool" where
  "preserves H f m \<longleftrightarrow> (\<forall>h. safe H f h \<longrightarrow> safe H f (m h))"

lemma preservesI:
  assumes "\<And>h c. (\<And>c'. rq_Header (cx_Request c') = H \<Longrightarrow> frames f (h c')) \<Longrightarrow> rq_Header (cx_Request c) = H
    \<Longrightarrow> frames f (m h c)"
  shows "preserves H f m"
  using assms by (simp add: preserves_def safe_def)

lemma safe_Return [simp]: "safe H f (\<lambda>c. Return (r c))"
  by (simp add: safe_def)

lemma safe_chain: "list_all (preserves H f) ms \<Longrightarrow> safe H f h \<Longrightarrow> safe H f (chain ms h)"
proof (induction ms)
  case (Cons m ms)
  then have "safe H f (Next (chain ms h))" by (simp add: safe_def Next_def)
  then show ?case using Cons by (simp add: preserves_def)
qed simp

lemma frames_after [frame_intros]: "frames f p \<Longrightarrow> (\<And>c. frames f (k c)) \<Longrightarrow> frames f (after p k)"
  unfolding after_def by (rule frames_pbind) (auto split: outcome.split)

text \<open>What the surroundings of a request may change.\<close>

definition quiet_web :: "'w web \<Rightarrow> ('w \<Rightarrow> 'a) \<Rightarrow> bool" where
  "quiet_web W f \<longleftrightarrow>
     (\<forall>g w. f (snd (wb_metrics W g w)) = f w) \<and> (\<forall>l m a w. f (snd (wb_log W l m a w)) = f w)
     \<and> (\<forall>w. f (snd (wb_uuid W w)) = f w) \<and> (\<forall>w. f (snd (env_now (wb_env W) w)) = f w)"

lemma quiet_calls [frame_intros]:
  assumes "quiet_web W f"
  shows "frames f (call (wb_metrics W g))" "frames f (call (wb_log W l m a))" "frames f (call (wb_uuid W))"
    "frames f (call (env_now (wb_env W)))" "frames f (LogWarn W lc m a)"
  using assms by (auto simp: quiet_web_def LogWarn_def intro!: frames_call)

lemma set_body_header [simp]: "rq_Header (cx_Request (set_body b c)) = rq_Header (cx_Request c)"
  by (simp add: set_body_def)

lemma span_event_header [simp]: "cx_Request (span_event_mw n a c) = cx_Request c"
  by (simp add: span_event_mw_def)

lemma frames_case_outcome [frame_intros]:
  "(\<And>c. frames f (p c)) \<Longrightarrow> (\<And>v c. frames f (q v c)) \<Longrightarrow> frames f (case r of Done c \<Rightarrow> p c | Panic v c \<Rightarrow> q v c)"
  by (cases r) simp_all

lemma preserves_CustomRecovery: "quiet_web W f \<Longrightarrow> preserves H f (CustomRecovery W stack)"
  by (rule preservesI) (auto simp: CustomRecovery_def intro!: frame_intros)

lemma preserves_BodyLimit: "preserves H f (BodyLimit n)"
  by (rule preservesI) (auto simp: BodyLimit_def)

lemma preserves_SpanRename: "preserves H f (SpanRename W)"
  by (rule preservesI) (auto simp: SpanRename_def intro!: frame_intros)

lemma preserves_Metrics: "quiet_web W f \<Longrightarrow> preserves H f (Metrics_mw W b)"
  by (rule preservesI) (auto simp: Metrics_mw_def Let_def intro!: frame_intros)

lemma preserves_Logger: "quiet_web W f \<Longrightarrow> preserves H f (Logger_mw W)"
  by (rule preservesI) (auto simp: Logger_mw_def Let_def intro!: frame_intros)

text \<open>The idempotency store lives in Redis.\<close>

definition quiet_redis :: "'w redis \<Rightarrow> ('w \<Rightarrow> 'a) \<Rightarrow> bool" where
  "quiet_redis R f \<longleftrightarrow>
     (\<forall>k v d w. f (snd (rd_SetNX R k v d w)) = f w) \<and> (\<forall>k w. f (snd (rd_Get R k w)) = f w)
     \<and> (\<forall>k v d w. f (snd (rd_Set R k v d w)) = f w) \<and> (\<forall>k w. f (snd (rd_Del R k w)) = f w)"

lemma quiet_store [frame_intros]:
  assumes "quiet_redis (rst_client s) f"
  shows "frames f (is_Lock (redis_store cd s) k fp)" "frames f (is_Get (redis_store cd s) k)"
    "frames f (is_Complete (redis_store cd s) k e)" "frames f (is_Unlock (redis_store cd s) k)"
  using assms
  by (auto simp: redis_store_def RedisStore_Lock_def RedisStore_Get_def RedisStore_Complete_def RedisStore_Unlock_def
      quiet_redis_def Let_def intro!: frame_intros frames_call)

lemma frames_store_response [frame_intros]:
  "quiet_web W f \<Longrightarrow> quiet_redis (rst_client s) f \<Longrightarrow> frames f (store_response W (redis_store cd s) key k fp b c)"
  unfolding store_response_def Let_def by (intro frame_intros)

lemma frames_case_bool [frame_intros]:
  "(x \<Longrightarrow> frames f p) \<Longrightarrow> (\<not> x \<Longrightarrow> frames f q) \<Longrightarrow> frames f (case x of True \<Rightarrow> p | False \<Rightarrow> q)"
  by (cases x) simp_all

lemma preserves_Idempotency:
  assumes "quiet_web W f" and "quiet_redis (rst_client s) f"
  shows "preserves H f (Idempotency_mw W fp (redis_store cd s))"
proof (rule preservesI)
  fix h :: "'a handler" and c :: gin_context
  assume h: "\<And>c'. rq_Header (cx_Request c') = H \<Longrightarrow> frames f (h c')" and c: "rq_Header (cx_Request c) = H"
  have taken: "frames f (answer_taken W h key fp' c' r)" if "rq_Header (cx_Request c') = H" for key fp' c' r
    unfolding answer_taken_def Let_def by (intro frame_intros assms h that)
  show "frames f (Idempotency_mw W fp (redis_store cd s) h c)"
    unfolding Idempotency_mw_def Let_def
    by (intro frame_intros assms taken h) (simp_all add: c)
qed

section \<open>Requests that do not authenticate\<close>

lemma chain_append: "chain (ms @ ns) h = chain ms (chain ns h)"
  by (induction ms) simp_all

lemma safe_ServiceKeyAuth:
  assumes "list_all clean_service ps" and "distinct (map fst ps)"
    and "config = \<lparr>sk_Enabled = True, sk_Keys = ParseServiceKeys (render_service_keys ps),
           sk_ServiceNameHeader = [], sk_ServiceKeyHeader = []\<rparr>"
    and "(H ''X-Service-Name'', H ''X-Service-Key'') \<notin> set ps"
  shows "safe H f (ServiceKeyAuth config next)"
  unfolding safe_def frames_def
proof (intro allI impI)
  fix c :: gin_context and w
  assume H: "rq_Header (cx_Request c) = H"
  have look: "map_of (sk_Keys config) (H ''X-Service-Name'') \<noteq> Some (H ''X-Service-Key'')"
    using assms(2-4) parse_render [OF assms(1)] by (simp add: rev_map [symmetric])
  have "snd (run (ServiceKeyAuth config next c) w) = w"
    using look assms(3) H
    by (auto simp: ServiceKeyAuth_def Let_def ConstantTimeCompare_def split: option.splits)
  then show "f (snd (run (ServiceKeyAuth config next c) w)) = f w" by simp
qed

lemma unauth_frame:
  assumes "list_all clean_service ps" and "distinct (map fst ps)"
    and "rc_ServiceKeysEnabled (de_Config deps)"
    and "rc_ServiceKeys (de_Config deps) = render_service_keys ps"
    and "H = rq_Header (cx_Request c)" and "(H ''X-Service-Name'', H ''X-Service-Key'') \<notin> set ps"
    and "quiet_web (lb_web L) f" and "preserves H f (lb_otelgin L (rc_ServiceName (de_Config deps)))"
    and "safe H f (lb_swagger L)"
    and "list_all (\<lambda>ch. \<forall>t. frames f (ck_fn ch t)) (hc_checks (de_HealthChecker deps))"
    and "\<And>st. de_IdempotencyStore deps = Some st \<Longrightarrow>
      \<exists>cd s. st = redis_store cd s \<and> quiet_redis (rst_client s) f"
  shows "f (snd (run (ServeHTTP (Setup L deps) c) w)) = f w"
proof -
  let ?W = "lb_web L"
  let ?cfg = "\<lparr>sk_Enabled = True, sk_Keys = ParseServiceKeys (render_service_keys ps),
           sk_ServiceNameHeader = [], sk_ServiceKeyHeader = []\<rparr>"
  have mws: "list_all (preserves H f) (en_Use (Setup L deps))"
    using assms(7,8,11)
    by (cases "de_IdempotencyStore deps")
      (auto simp: Setup_def Let_def intro!: preserves_CustomRecovery preserves_BodyLimit preserves_SpanRename
        preserves_Metrics preserves_Logger preserves_Idempotency)
  have guard: "safe H f (ServiceKeyAuth ?cfg h)" for h
    by (rule safe_ServiceKeyAuth [OF assms(1,2) refl assms(6)])
  have ready: "safe H f (ready_handler (de_HealthChecker deps))"
    using run_checks_frame [of f "hc_timeout (de_HealthChecker deps)" "hc_checks (de_HealthChecker deps)"] assms(10)
    by (auto simp: safe_def ready_handler_def RunAll_def Let_def frames_def list_all_iff run_pbind split: prod.split)
  have routes: "safe H f (chain (rt_Use rt) (rt_Handler rt))" if "rt \<in> set (en_Routes (Setup L deps))" for rt
    using that assms(3,4,9) ready guard
    by (auto simp: Setup_def Let_def registerSwaggerRoutes_def registerHealthRoutes_def RegisterRoleRoutes_def
        RegisterUserRoutes_def health_handler_def safe_def split: if_splits)
  have H': "rq_Header (cx_Request (with_route p q c)) = H" for p q by (simp add: with_route_def assms(5))
  show ?thesis
  proof (cases "find (\<lambda>rt. route_match (cx_Request c) rt \<noteq> None) (en_Routes (Setup L deps))")
    case None
    have "safe H f (chain (en_Use (Setup L deps)) not_found)"
      by (rule safe_chain [OF mws]) (simp add: safe_def not_found_def)
    then show ?thesis using None H' by (simp add: ServeHTTP_def safe_def frames_def)
  next
    case (Some rt)
    then have "rt \<in> set (en_Routes (Setup L deps))" by (auto simp: find_Some_iff)
    then have "safe H f (chain (en_Use (Setup L deps)) (chain (rt_Use rt) (rt_Handler rt)))"
      by (intro safe_chain [OF mws] routes)
    then show ?thesis using Some H' by (simp add: ServeHTTP_def chain_append safe_def frames_def)
  qed
qed

text \<open>
  C2: With authentication enabled, a request whose service name and key are not a configured pair
  changes nothing in the store, whatever its method, path and body, and whether or not it carries an
  idempotency key: it can run the public handlers, be answered 404, or be rejected, but no handler of
  users or roles runs.
\<close>

theorem unauthenticated_requests_change_nothing:
  assumes "list_all clean_service ps" and "distinct (map fst ps)"
    and "rc_ServiceKeysEnabled (de_Config deps)"
    and "rc_ServiceKeys (de_Config deps) = render_service_keys ps"
    and "H = rq_Header (cx_Request c)" and "(H ''X-Service-Name'', H ''X-Service-Key'') \<notin> set ps"
    and "quiet_web (lb_web L) f" and "preserves H f (lb_otelgin L (rc_ServiceName (de_Config deps)))"
    and "safe H f (lb_swagger L)"
    and "list_all (\<lambda>ch. \<forall>t. frames f (ck_fn ch t)) (hc_checks (de_HealthChecker deps))"
    and "\<And>st. de_IdempotencyStore deps = Some st \<Longrightarrow>
      \<exists>cd s. st = redis_store cd s \<and> quiet_redis (rst_client s) f"
  shows "f (snd (run (ServeHTTP (Setup L deps) c) w)) = f w"
  by (rule unauth_frame [OF assms])

text \<open>
  C33: The readiness probe runs every registered check once, in order; it answers 200 exactly if no critical
  check failed and 503 otherwise, and its body lists every check with its outcome and its error.
\<close>

theorem ready_iff_critical_checks_pass:
  assumes "unwritten c"
  shows "let outs = outcomes (hc_timeout checker) (hc_checks checker) w; ok = critical_pass (hc_checks checker) outs
     in \<exists>d. fst (run (ready_handler checker c) w) = Done d
       \<and> responds c d (if ok then 200 else 503)
         (json_encode (success_json \<lparr>sr_Data = gomap
            [(''status'', AString (if ok then ''ready'' else ''not ready'')),
             (''checks'', AList (map status_json (map2 status_of (hc_checks checker) outs)))],
            sr_Meta = ANil, sr_Links = ANil\<rparr>) @ newline)"
proof -
  have "responds c (SendSuccess s body c) s
     (json_encode (success_json \<lparr>sr_Data = body, sr_Meta = ANil, sr_Links = ANil\<rparr>) @ newline)"
    if "0 < s" for s body
    by (rule SendSuccess_responds [OF assms that])
  then show ?thesis
    by (simp add: ready_handler_def RunAll_def run_pbind run_checks_result Let_def split: prod.split)
qed

section \<open>Witnesses\<close>

definition db_check :: "bool \<Rightarrow> world check" where
  "db_check up = \<lparr>ck_name = ''database'', ck_critical = True,
     ck_fn = (\<lambda>t. Return (if up then None else Some net_error))\<rparr>"

definition redis_check :: "bool \<Rightarrow> world check" where
  "redis_check up = \<lparr>ck_name = ''redis'', ck_critical = False,
     ck_fn = (\<lambda>t. Return (if up then None else Some net_error))\<rparr>"

definition probe :: "bool \<Rightarrow> bool \<Rightarrow> world Checker" where
  "probe db rd = \<lparr>hc_checks = [db_check db, redis_check rd], hc_timeout = 5 * 10 ^ 9\<rparr>"

definition probe_status :: "bool \<Rightarrow> bool \<Rightarrow> int" where
  "probe_status db rd = (case fst (run (ready_handler (probe db rd) (blank_context blank_request)) empty_world) of
      Done d \<Rightarrow> rs_Status (cx_Writer d) | Panic v d \<Rightarrow> 0)"

theorem ready_iff_critical_checks_pass_witness:
  "probe_status True False = 200 \<and> probe_status False True = 503"
  using ready_iff_critical_checks_pass [OF blank_unwritten, of "probe True False" empty_world blank_request]
    ready_iff_critical_checks_pass [OF blank_unwritten, of "probe False True" empty_world blank_request]
  by (auto simp: probe_status_def responds_def Let_def critical_pass_def probe_def db_check_def redis_check_def)

definition world_web :: "world web" where
  "world_web = \<lparr>wb_env = world_env, wb_metrics = (\<lambda>g w. ((), w)), wb_log = (\<lambda>l m a w. ((), w)),
     wb_uuid = (\<lambda>w. (new_id, w)), wb_uni = id\<rparr>"

definition world_libs :: "world libs" where
  "world_libs = \<lparr>lb_web = world_web, lb_stack = [], lb_otelgin = (\<lambda>n h. h), lb_sha256 = id,
     lb_swagger = not_found, lb_tracer = world_tracer,
     lb_binding = const_binding \<lparr>uci_Name = ''Eve'', uci_Email = ''bob@x.org''\<rparr>\<rparr>"

definition world_deps :: "world Dependencies" where
  "world_deps = \<lparr>de_HealthChecker = probe True True, de_RoleHandler = service_roles world_env world_db world_db,
     de_UserHandler = service_users world_env world_db world_db None, de_HTTPMetrics = True,
     de_IdempotencyStore = Some (redis_store entry_codec (NewRedisStore world_redis (86400 * 10 ^ 9) (30 * 10 ^ 9))),
     de_Config = \<lparr>rc_ServiceName = ''users'', rc_ServiceKeysEnabled = True,
       rc_ServiceKeys = render_service_keys [(''shop'', ''s3cret'')], rc_SwaggerEnabled = False,
       rc_MaxBodySize = 1048576\<rparr>\<rparr>"

definition delete_ana :: "string \<Rightarrow> gin_context" where
  "delete_ana key = blank_context ((header_request ''shop'' key)\<lparr>rq_Method := ''DELETE'', rq_Path := ''/users/'' @ ana_id\<rparr>)"

theorem unauthenticated_requests_change_nothing_witness:
  "w_tables (snd (run (ServeHTTP (Setup world_libs world_deps) (delete_ana ''guess'')) ana_world)) = w_tables ana_world"
proof (rule unauthenticated_requests_change_nothing [where ps = "[(''shop'', ''s3cret'')]", OF _ _ _ _ refl])
  show "list_all clean_service [(''shop'', ''s3cret'')]"
    by (simp add: clean_service_def clean_token_def printable_def)
  show "quiet_web (lb_web world_libs) w_tables"
    by (simp add: quiet_web_def world_libs_def world_web_def world_env_def)
  show "preserves H w_tables (lb_otelgin world_libs (rc_ServiceName (de_Config world_deps)))" for H
    by (simp add: preserves_def world_libs_def)
  show "safe H w_tables (lb_swagger world_libs)" for H
    by (simp add: world_libs_def safe_def not_found_def)
  show "list_all (\<lambda>ch. \<forall>t. frames w_tables (ck_fn ch t)) (hc_checks (de_HealthChecker world_deps))"
    by (simp add: world_deps_def probe_def db_check_def redis_check_def)
  show "\<exists>cd s. st = redis_store cd s \<and> quiet_redis (rst_client s) w_tables"
    if "de_IdempotencyStore world_deps = Some st" for st
    by (rule exI [of _ entry_codec], rule exI [of _ "NewRedisStore world_redis (86400 * 10 ^ 9) (30 * 10 ^ 9)"])
        (use that in \<open>simp add: world_deps_def quiet_redis_def NewRedisStore_def world_redis_def\<close>)
qed (simp_all add: world_deps_def delete_ana_def header_request_def blank_context_def)

end
