(* ===== verification/Transports.thy ===== *)
theory Transports
  imports Grpc Router
begin

text \<open>
  HTTP and gRPC over the same use cases: both transports have the same effect and answer with
  corresponding statuses and contents.
\<close>

section \<open>Use cases do not look at their span\<close>

text \<open>
  A use case returns the same result and has the same effect whatever span it is given, and its errors
  are application errors of the codes that the transports know.
\<close>

definition http_error :: "goerror \<Rightarrow> bool" where
  "http_error e \<longleftrightarrow> (case errors_As_App e of
     None \<Rightarrow> False
   | Some a \<Rightarrow> app_code a \<in> {CodeInvalidRequest, CodeNotFound, CodeConflict, CodeInternalError})"

definition span_blind :: "(span option \<Rightarrow> ('w, (goerror + 'a) \<times> span option) prog) \<Rightarrow> bool" where
  "span_blind p \<longleftrightarrow> (\<forall>w. \<exists>r w'. (\<forall>sp. \<exists>sp'. run (p sp) w = ((r, sp'), w')) \<and> (\<forall>e. r = Inl e \<longrightarrow> http_error e))"

named_theorems blind_intros \<open>programs that do not look at their span\<close>

lemma blind_Inr [blind_intros]: "span_blind (\<lambda>sp. Return (Inr x, g sp))"
  by (simp add: span_blind_def)

lemma blind_Inl [blind_intros]: "http_error e \<Longrightarrow> span_blind (\<lambda>sp. Return (Inl e, g sp))"
  by (simp add: span_blind_def)

lemma blind_pbind [blind_intros]: "(\<And>x. span_blind (k x)) \<Longrightarrow> span_blind (\<lambda>sp. pbind p (\<lambda>x. k x sp))"
  by (simp add: span_blind_def run_pbind)

lemma blind_option [blind_intros]:
  "span_blind p \<Longrightarrow> (\<And>y. span_blind (q y)) \<Longrightarrow> span_blind (\<lambda>sp. case x of None \<Rightarrow> p sp | Some y \<Rightarrow> q y sp)"
  by (cases x) simp_all

lemma blind_sum [blind_intros]:
  "(\<And>y. span_blind (p y)) \<Longrightarrow> (\<And>y. span_blind (q y)) \<Longrightarrow> span_blind (\<lambda>sp. case x of Inl y \<Rightarrow> p y sp | Inr y \<Rightarrow> q y sp)"
  by (cases x) simp_all

lemma blind_if [blind_intros]:
  "span_blind p \<Longrightarrow> span_blind q \<Longrightarrow> span_blind (\<lambda>sp. if b then p sp else q sp)"
  by (cases b) simp_all

lemma http_errors [blind_intros]: "http_error (userToAppError e)" "http_error (roleToAppError e)"
  by (auto simp: http_error_def userToAppError_def roleToAppError_def)

lemma blind_users:
  "span_blind (\<lambda>sp. CreateUseCase_Execute E repo sp ci)"
  "span_blind (\<lambda>sp. ListUseCase_Execute E repo sp li)"
  "span_blind (\<lambda>sp. UpdateUseCase_Execute E repo None sp ui)"
  "span_blind (\<lambda>sp. DeleteUseCase_Execute E repo None sp di)"
  unfolding CreateUseCase_Execute_def ListUseCase_Execute_def UpdateUseCase_Execute_def
    DeleteUseCase_Execute_def invalidate_def Let_def option.case pbind.simps
  by (intro blind_intros)+

lemma blind_get: "span_blind (\<lambda>sp. GetUseCase_Execute E repo None None sp gi)"
proof (cases "ParseID E (ugi_ID gi)")
  case (Inl e)
  then show ?thesis by (simp add: GetUseCase_Execute_def blind_Inl http_errors)
next
  case (Inr i)
  have "span_blind (\<lambda>sp. pbind (repo_FindByID repo i) (\<lambda>f.
     case f of
       Inl e \<Rightarrow> Return (Inl (userToAppError e), ClassifyError sp (Some e) getExpectedErrors (err_text (Wrapf ''getting user: '' e)))
     | Inr u \<Rightarrow> Return (Inr (user_output E u), sp)))"
    by (intro blind_intros)
  moreover have "GetUseCase_Execute E repo None None sp gi = pbind (repo_FindByID repo i) (\<lambda>f.
     case f of
       Inl e \<Rightarrow> Return (Inl (userToAppError e), ClassifyError sp (Some e) getExpectedErrors (err_text (Wrapf ''getting user: '' e)))
     | Inr u \<Rightarrow> Return (Inr (user_output E u), sp))" for sp
    unfolding GetUseCase_Execute_def get_load_def Let_def option.case pbind_assoc Inr sum.case
    by (rule arg_cong [where f = "pbind (repo_FindByID repo i)"]) (auto simp: fun_eq_iff split: sum.split)
  ultimately show ?thesis by simp
qed

lemma blind_roles:
  "span_blind (\<lambda>sp. RoleCreateUseCase_Execute E repo' sp ri)"
  "span_blind (\<lambda>sp. RoleListUseCase_Execute E repo' sp rl)"
  "span_blind (\<lambda>sp. RoleDeleteUseCase_Execute E repo' sp rd)"
  unfolding RoleCreateUseCase_Execute_def RoleListUseCase_Execute_def RoleDeleteUseCase_Execute_def Let_def
  by (intro blind_intros)+

lemma blindE:
  assumes "span_blind p"
  obtains r w' where "\<And>sp. \<exists>sp'. run (p sp) w = ((r, sp'), w')" "\<And>e. r = Inl e \<Longrightarrow> http_error e"
  using assms unfolding span_blind_def by metis

section \<open>The two transports agree\<close>

fun http_status :: "grpc_code \<Rightarrow> int" where
  "http_status InvalidArgument = 400"
| "http_status code_NotFound = 404"
| "http_status AlreadyExists = 409"
| "http_status PermissionDenied = 403"
| "http_status Internal = 500"
| "http_status Unavailable = 503"
| "http_status Unauthenticated = 401"

lemma errors_agree:
  "http_error e \<Longrightarrow> HandleError e c = SendError (http_status (st_Code (toGRPCStatus e))) (st_Message (toGRPCStatus e)) c"
  by (auto simp: http_error_def HandleError_def toGRPCStatus_def codeToGRPCStatus_def code_defs codeToStatus_def
      split: option.splits)

text \<open>The HTTP request of an RPC: the handler that serves it and what its binding and its path must give.\<close>

fun http_handler ::
  "'w tracer \<Rightarrow> gin_binding \<Rightarrow> 'w UserHandler \<Rightarrow> 'w RoleHandler \<Rightarrow> rpc_request \<Rightarrow> 'w handler" where
  "http_handler T B u r (CreateUserRequest n e) = UserHandler_Create T B u"
| "http_handler T B u r (GetUserRequest i) = UserHandler_GetByID T u"
| "http_handler T B u r (ListUsersRequest p l n e a) = UserHandler_List T B u"
| "http_handler T B u r (UpdateUserRequest i n e) = UserHandler_Update T B u"
| "http_handler T B u r (DeleteUserRequest i) = UserHandler_Delete T u"
| "http_handler T B u r (CreateRoleRequest n) = RoleHandler_Create T B r"
| "http_handler T B u r (ListRolesRequest p l) = RoleHandler_List T B r"
| "http_handler T B u r (DeleteRoleRequest i) = RoleHandler_Delete T r"

fun same_request :: "gin_binding \<Rightarrow> gin_context \<Rightarrow> rpc_request \<Rightarrow> bool" where
  "same_request B c (CreateUserRequest n e) \<longleftrightarrow> bd_UserCreate B c = Inr \<lparr>uci_Name = n, uci_Email = e\<rparr>"
| "same_request B c (GetUserRequest i) \<longleftrightarrow> rq_Param (cx_Request c) ''id'' = i"
| "same_request B c (ListUsersRequest p l n e a) \<longleftrightarrow> bd_UserList B c = Inr
     \<lparr>uli_Page = int_of_int32 p, uli_Limit = int_of_int32 l, uli_Name = n, uli_Email = e, uli_ActiveOnly = a\<rparr>"
| "same_request B c (UpdateUserRequest i n e) \<longleftrightarrow> rq_Param (cx_Request c) ''id'' = i
     \<and> bd_UserUpdate B c = Inr \<lparr>uui_ID = [], uui_Name = n, uui_Email = e\<rparr>"
| "same_request B c (DeleteUserRequest i) \<longleftrightarrow> rq_Param (cx_Request c) ''id'' = i"
| "same_request B c (CreateRoleRequest n) \<longleftrightarrow> bd_RoleCreate B c = Inr \<lparr>rci_Name = n, rci_Description = []\<rparr>"
| "same_request B c (ListRolesRequest p l) \<longleftrightarrow> bd_RoleList B c = Inr
     \<lparr>rli_Page = int_of_int32 p, rli_Limit = int_of_int32 l, rli_Name = []\<rparr>"
| "same_request B c (DeleteRoleRequest i) \<longleftrightarrow> rq_Param (cx_Request c) ''id'' = i"

text \<open>
  The HTTP answer and the RPC answer to the same use-case output.  A page of a list is
  reported as it is by HTTP and clamped to 32 bits by gRPC, and a role loses its description.
\<close>

definition same_answer :: "gin_context \<Rightarrow> gin_context \<Rightarrow> rpc_response \<Rightarrow> bool" where
  "same_answer c d resp \<longleftrightarrow>
     (case resp of
        CreateUserResponse i t \<Rightarrow> d = SendSuccess 201 (create_json \<lparr>uco_ID = i, uco_CreatedAt = t\<rparr>) c
      | GetUserResponse u \<Rightarrow> \<exists>out. u = toProtoUser out \<and> d = SendSuccess 200 (get_json out) c
      | ListUsersResponse us p \<Rightarrow> \<exists>outs q. us = map toProtoUser outs \<and> p = pagination_proto q
          \<and> d = SendSuccessWithMeta 200 (AList (map get_json outs)) (pagination_json q) ANil c
      | UpdateUserResponse u \<Rightarrow> d = SendSuccess 200 (update_json \<lparr>uuo_ID = pu_Id u, uuo_Name = pu_Name u,
          uuo_Email = pu_Email u, uuo_Active = pu_Active u, uuo_UpdatedAt = pu_UpdatedAt u\<rparr>) c
      | DeleteUserResponse i \<Rightarrow> d = SendSuccess 200 (id_json i) c
      | CreateRoleResponse i t \<Rightarrow> d = SendSuccess 201 (AMap [(''id'', AString i), (''created_at'', AString t)]) c
      | ListRolesResponse rs p \<Rightarrow> \<exists>outs q. rs = map toProtoRole outs \<and> p = pagination_proto q
          \<and> d = SendSuccessWithMeta 200 (AList (map role_json outs)) (pagination_json q) ANil c
      | DeleteRoleResponse i \<Rightarrow> d = SendSuccess 200 (id_json i) c)"

definition silent_tracer :: "'w tracer \<Rightarrow> bool" where
  "silent_tracer T \<longleftrightarrow> (\<forall>n w. snd (tr_start T n w) = w) \<and> (\<forall>sp w. snd (tr_end T sp w) = w)"

definition agree :: "gin_context \<Rightarrow> outcome \<times> 'w \<Rightarrow> (grpc_status + rpc_response) \<times> 'w \<Rightarrow> bool" where
  "agree c H G \<longleftrightarrow> snd H = snd G \<and> (\<exists>d. fst H = Done d \<and>
     (case fst G of
        Inl st \<Rightarrow> d = SendError (http_status (st_Code st)) (st_Message st) c
      | Inr resp \<Rightarrow> same_answer c d resp))"

lemma run_silent:
  assumes "silent_tracer T"
  shows "run (finish T sp c) w = (Done c, w)" "run (grpc_finish T sp r) w = (r, w)"
    "run (pbind (call (tr_start T n)) k) w = run (k (fst (tr_start T n w))) w"
  using assms by (simp_all add: silent_tracer_def grpc_finish_def run_simps)

lemmas http_handlers = UserHandler_Create_def UserHandler_GetByID_def UserHandler_List_def UserHandler_Update_def
  UserHandler_Delete_def RoleHandler_Create_def RoleHandler_List_def RoleHandler_Delete_def

lemmas grpc_handlers = grpc_CreateUser_def grpc_GetUser_def grpc_ListUsers_def grpc_UpdateUser_def
  grpc_DeleteUser_def grpc_CreateRole_def grpc_ListRoles_def grpc_DeleteRole_def

text \<open>
  A handler of either kind starts its span, runs the use case, counts, and finishes.
\<close>

lemma agree_handlers:
  assumes "span_blind p" and "silent_tracer T"
    and "\<And>sp e w'. run (kh (Inl e) sp) w' = (Done (HandleError e c), w')"
    and "\<And>sp e w'. run (kg (Inl e) sp) w' = (Inl (toGRPCStatus e), w')"
    and "\<And>sp sp' x w'. \<exists>d resp w2. run (kh (Inr x) sp) w' = (Done d, w2) \<and> run (kg (Inr x) sp') w' = (Inr resp, w2)
       \<and> same_answer c d resp"
  shows "agree c (run (pbind (p sp1) (\<lambda>(r, sp). kh r sp)) w) (run (pbind (p sp2) (\<lambda>(r, sp). kg r sp)) w)"
proof -
  obtain r w' where r: "\<And>sp. \<exists>sp'. run (p sp) w = ((r, sp'), w')" "\<And>e. r = Inl e \<Longrightarrow> http_error e"
    using blindE [OF assms(1)] by metis
  obtain sp1' sp2' where "run (p sp1) w = ((r, sp1'), w')" "run (p sp2) w = ((r, sp2'), w')"
    using r(1) by metis
  then have eqs: "run (pbind (p sp1) (\<lambda>(r, sp). kh r sp)) w = run (kh r sp1') w'"
    "run (pbind (p sp2) (\<lambda>(r, sp). kg r sp)) w = run (kg r sp2') w'"
    by (simp_all add: run_pbind)
  show ?thesis
  proof (cases r)
    case (Inl e)
    then show ?thesis unfolding eqs using r(2) [OF Inl] by (simp add: agree_def assms(3,4) errors_agree)
  next
    case (Inr x)
    obtain d resp w2 where "run (kh (Inr x) sp1') w' = (Done d, w2)" "run (kg (Inr x) sp2') w' = (Inr resp, w2)"
      "same_answer c d resp"
      using assms(5) by blast
    then show ?thesis unfolding eqs Inr by (simp add: agree_def)
  qed
qed

lemma agree_core:
  assumes T: "silent_tracer T" and "same_request B c req"
    and u: "\<And>i. span_blind (\<lambda>sp. uh_CreateUC u sp i)" "\<And>i. span_blind (\<lambda>sp. uh_GetUC u sp i)"
      "\<And>i. span_blind (\<lambda>sp. uh_ListUC u sp i)" "\<And>i. span_blind (\<lambda>sp. uh_UpdateUC u sp i)"
      "\<And>i. span_blind (\<lambda>sp. uh_DeleteUC u sp i)"
    and r: "\<And>i. span_blind (\<lambda>sp. rh_CreateUC r sp i)" "\<And>i. span_blind (\<lambda>sp. rh_ListUC r sp i)"
      "\<And>i. span_blind (\<lambda>sp. rh_DeleteUC r sp i)"
  shows "agree c (run (http_handler T B u r req c) w) (run (dispatch T u r req) w)"
proof -
  note both = u [THEN agree_handlers, OF T] r [THEN agree_handlers, OF T]
  show ?thesis using assms(2)
    by (cases req; simp add: http_handlers grpc_handlers run_silent(3) [OF T] Let_def)
      ((rule both)[1]; auto simp: run_silent [OF T] run_pbind same_answer_def create_json_def update_json_def)+
qed

text \<open>
  C12: Over the same service and apart from tracing, every gRPC call and the HTTP request that stands for it
  leave the world in the same state and answer correspondingly: the same error message under the
  corresponding status (400, 404, 409, 500 for InvalidArgument, NotFound, AlreadyExists,
  Internal), or the same contents of the same output.
\<close>

theorem transports_agree:
  assumes "silent_tracer T" and "same_request B c req"
  shows "agree c (run (http_handler T B (service_users E hw hr M) (service_roles E hw hr) req c) w)
     (run (dispatch T (service_users E hw hr M) (service_roles E hw hr) req) w)"
  by (rule agree_core [OF assms])
    (simp_all add: service_users_def service_roles_def Let_def NewUserHandler_def NewRoleHandler_def
      blind_users blind_get blind_roles)

theorem transports_agree_witness:
  "agree (blank_context blank_request)
     (run (UserHandler_Create world_tracer (const_binding \<lparr>uci_Name = ''Eve'', uci_Email = ''eve@x.org''\<rparr>)
        (service_users world_env world_db world_db None) (blank_context blank_request)) ana_world)
     (run (grpc_CreateUser world_tracer (service_users world_env world_db world_db None) ''Eve'' ''eve@x.org'') ana_world)"
  using transports_agree [where req = "CreateUserRequest ''Eve'' ''eve@x.org''" and T = world_tracer and c = "blank_context blank_request"
     and B = "const_binding \<lparr>uci_Name = ''Eve'', uci_Email = ''eve@x.org''\<rparr>" and E = world_env and hw = world_db and hr = world_db
     and M = None and w = ana_world]
  by (simp add: silent_tracer_def world_tracer_def const_binding_def)

section \<open>Pages in 32 bits\<close>

lemma sint_toInt32: "sint (toInt32 v) = max 0 (min (2 ^ 31 - 1) (sint v))"
proof -
  have c: "(v <s 0) = (sint v < 0)" "(2147483647 <s v) = (2147483647 < sint v)" by (simp_all add: word_sless_alt)
  have "sint (scast v :: 32 word) = sint v" if "0 \<le> sint v" "sint v \<le> 2147483647"
    using that by (simp add: signed_take_bit_int_eq_self_iff signed_scast_eq)
  then show ?thesis by (auto simp: toInt32_def c)
qed

text \<open>
  C34: A page of users over gRPC: the page and the limit that are reported are the ones the listing
  used, and every number is the listing's own as long as that fits in 31 bits, and
  2147483647 beyond; none is negative.
\<close>

theorem grpc_pagination_bounds:
  "let p = pagination_proto q in list_all (\<lambda>(x, v). sint x = max 0 (min (2 ^ 31 - 1) (sint v)))
     [(pp_Page p, po_Page q), (pp_Limit p, po_Limit q), (pp_Total p, po_Total q), (pp_TotalPages p, po_TotalPages q)]"
  by (simp add: pagination_proto_def sint_toInt32)

section \<open>Service keys over gRPC\<close>

definition credentials :: "(string \<Rightarrow> string list) option \<Rightarrow> (string \<times> string) option" where
  "credentials md =
     (case md of None \<Rightarrow> None
      | Some m \<Rightarrow> (case (m ''x-service-name'', m ''x-service-key'') of
          (n # _, k # _) \<Rightarrow> Some (n, k) | _ \<Rightarrow> None))"

lemma validateAuth_iff:
  assumes "list_all clean_service ps" and "distinct (map fst ps)"
    and "cfg = \<lparr>ac_Enabled = True, ac_Keys = ParseServiceKeys (render_service_keys ps)\<rparr>"
    and "\<not> HasPrefix (rx_FullMethod ctx) ''/grpc.health.v1.Health/''"
  shows "validateAuth ctx cfg =
     (if ps = [] then Some \<lparr>st_Code = Unavailable, st_Message = ''service authentication not configured''\<rparr>
      else if \<exists>q\<in>set ps. credentials (rx_Metadata ctx) = Some q then None
      else Some \<lparr>st_Code = Unauthenticated, st_Message = ''unauthorized''\<rparr>)"
proof -
  note keys = parsed_keys [OF assms(1,2)]
  have uniq: "(n, k) \<in> set ps \<Longrightarrow> (n, k') \<in> set ps \<Longrightarrow> k = k'" for n k k'
    using assms(2) by (metis map_of_is_SomeI option.inject)
  have none: "map_of (ac_Keys cfg) n = None \<Longrightarrow> (n, k) \<notin> set ps" for n k
    using keys(1) assms(3) by (metis AuthConfig.select_convs(2) option.distinct(1))
  show ?thesis
    using assms(3,4) keys none uniq
    by (auto simp: validateAuth_def Let_def credentials_def ConstantTimeCompare_def
        split: option.splits list.splits)
qed

lemma run_logging:
  assumes "quiet_web W f"
  shows "\<exists>w'. run (LoggingUnary W h ctx req) w = (fst (run (h ctx req) (snd (env_now (wb_env W) w))), w')
     \<and> f w' = f (snd (run (h ctx req) (snd (env_now (wb_env W) w))))"
proof -
  let ?w1 = "snd (env_now (wb_env W) w)"
  obtain out w2 where "run (h ctx req) ?w1 = (out, w2)" by fastforce
  then show ?thesis
    using assms by (cases out) (auto simp: LoggingUnary_def log_call_def run_pbind quiet_web_def)
qed

lemma rpc_guard:
  assumes "list_all clean_service ps" and "distinct (map fst ps)" and "quiet_web W f"
    and "gc_AuthConfig cfg = \<lparr>ac_Enabled = True, ac_Keys = ParseServiceKeys (render_service_keys ps)\<rparr>"
    and "run (gs_Unary (NewServer W stack T cfg u r) md req) w = (out, w')"
  shows "if \<exists>q\<in>set ps. credentials md = Some q
    then out = Returned (fst (run (dispatch T u r req) (snd (env_now (wb_env W) w))))
       \<and> f w' = f (snd (run (dispatch T u r req) (snd (env_now (wb_env W) w))))
    else f w' = f w \<and> (\<exists>m. out = Returned (Inl \<lparr>st_Code = (if ps = [] then Unavailable else Unauthenticated), st_Message = m\<rparr>))"
proof -
  let ?ctx = "\<lparr>rx_FullMethod = full_method req, rx_Metadata = md\<rparr>"
  let ?h = "AuthUnary (gc_AuthConfig cfg) (\<lambda>ctx q. pbind (dispatch T u r q) (\<lambda>x. Return (Returned x)))"
  have "\<not> HasPrefix (rx_FullMethod ?ctx) ''/grpc.health.v1.Health/''"
    by (cases req) (simp_all add: HasPrefix_code)
  note auth = validateAuth_iff [OF assms(1,2,4) this]
  obtain w2 where w2: "run (LoggingUnary W ?h ?ctx req) w = (fst (run (?h ?ctx req) (snd (env_now (wb_env W) w))), w2)"
    "f w2 = f (snd (run (?h ?ctx req) (snd (env_now (wb_env W) w))))"
    using run_logging [OF assms(3), of ?h ?ctx req w] by blast
  have h: "\<exists>x. fst (run (?h ?ctx req) v) = Returned x" for v
    by (simp add: AuthUnary_def run_pbind split: option.split)
  then obtain x where x: "fst (run (?h ?ctx req) (snd (env_now (wb_env W) w))) = Returned x" by blast
  have "out = Returned x" "w' = w2"
    using assms(5) w2(1) x by (simp_all add: NewServer_def RecoveryUnary_def run_pbind recovered_def)
  moreover have "f (snd (env_now (wb_env W) w)) = f w" using assms(3) by (simp add: quiet_web_def)
  ultimately show ?thesis
    using w2(2) x auth by (auto simp: AuthUnary_def run_pbind)
qed

lemma unauth_rpc_frame:
  assumes "list_all clean_service ps" and "distinct (map fst ps)" and "quiet_web W f"
    and "gc_AuthConfig cfg = \<lparr>ac_Enabled = True, ac_Keys = ParseServiceKeys (render_service_keys ps)\<rparr>"
    and "\<not> (\<exists>q\<in>set ps. credentials md = Some q)"
  shows "f (snd (run (gs_Unary (NewServer W stack T cfg u r) md req) w)) = f w"
proof -
  obtain out w' where "run (gs_Unary (NewServer W stack T cfg u r) md req) w = (out, w')" by fastforce
  from rpc_guard [OF assms(1-4) this] assms(5) this show ?thesis by simp
qed

text \<open>
  C13: With authentication enabled, a gRPC call reaches its service exactly if the first service name and
  key of its metadata are a configured pair, and then its result is the service's own; every other
  call gets Unauthenticated (Unavailable if no service is configured) and changes nothing but the log.
\<close>

theorem grpc_guard:
  assumes "list_all clean_service ps" and "distinct (map fst ps)" and "quiet_web W f"
    and "gc_AuthConfig cfg = \<lparr>ac_Enabled = True, ac_Keys = ParseServiceKeys (render_service_keys ps)\<rparr>"
    and "run (gs_Unary (NewServer W stack T cfg u r) md req) w = (out, w')"
  shows "if \<exists>q\<in>set ps. credentials md = Some q
    then out = Returned (fst (run (dispatch T u r req) (snd (env_now (wb_env W) w))))
       \<and> f w' = f (snd (run (dispatch T u r req) (snd (env_now (wb_env W) w))))
    else f w' = f w \<and> (\<exists>m. out = Returned (Inl \<lparr>st_Code = (if ps = [] then Unavailable else Unauthenticated), st_Message = m\<rparr>))"
  by (rule rpc_guard [OF assms])

text \<open>
  A panic in a streaming service never leaves the server: the call returns Internal with a fixed
  message, and a call that does not panic returns what the service returned; the same holds of
  the recovery interceptor around any unary handler.
\<close>

theorem grpc_panics_become_internal:
  "fst (run (gs_Stream (NewServer W stack T cfg u r) handler ctx) w) = Returned
     (case validateAuth ctx (gc_AuthConfig cfg) of
        Some e \<Rightarrow> Inl e
      | None \<Rightarrow> (case fst (run (handler ctx) (snd (env_now (wb_env W) w))) of
          Returned x \<Rightarrow> x
        | Panicked v \<Rightarrow> Inl \<lparr>st_Code = Internal, st_Message = ''internal server error''\<rparr>))
   \<and> fst (run (RecoveryUnary W stack h ctx req) w) = Returned
     (case fst (run (h ctx req) w) of
        Returned x \<Rightarrow> x
      | Panicked v \<Rightarrow> Inl \<lparr>st_Code = Internal, st_Message = ''internal server error''\<rparr>)"
  by (auto simp: NewServer_def RecoveryStream_def LoggingStream_def AuthStream_def RecoveryUnary_def run_pbind
      recovered_def log_call_def split: option.split rpc_outcome.split)

definition shop_metadata :: "string \<Rightarrow> (string \<Rightarrow> string list) option" where
  "shop_metadata key = Some (\<lambda>k. if k = ''x-service-name'' then [''shop''] else if k = ''x-service-key'' then [key] else [])"

definition shop_server :: "world grpc_server" where
  "shop_server = NewServer world_web [] world_tracer \<lparr>gc_ReflectionEnabled = False, gc_AuthConfig =
     \<lparr>ac_Enabled = True, ac_Keys = ParseServiceKeys (render_service_keys [(''shop'', ''s3cret'')])\<rparr>\<rparr>
     (service_users world_env world_db world_db None) (service_roles world_env world_db world_db)"

theorem grpc_guard_witness:
  "\<exists>m. fst (run (gs_Unary shop_server (shop_metadata ''guess'') (DeleteUserRequest ana_id)) ana_world)
      = Returned (Inl \<lparr>st_Code = Unauthenticated, st_Message = m\<rparr>)
   \<and> w_tables (snd (run (gs_Unary shop_server (shop_metadata ''guess'') (DeleteUserRequest ana_id)) ana_world)) = w_tables ana_world"
proof -
  obtain out w' where r: "run (gs_Unary shop_server (shop_metadata ''guess'') (DeleteUserRequest ana_id)) ana_world = (out, w')"
    by fastforce
  have "list_all clean_service [(''shop'', ''s3cret'')]" "distinct (map fst [(''shop'', ''s3cret'')])"
    by (simp_all add: clean_service_def clean_token_def printable_def)
  moreover have "quiet_web world_web w_tables" by (simp add: quiet_web_def world_web_def world_env_def)
  ultimately show ?thesis
    using grpc_guard [OF _ _ _ _ r [unfolded shop_server_def]] r
    by (fastforce simp: credentials_def shop_metadata_def)
qed

end
