(* ===== verification/Strconv.thy ===== *)
theory Strconv
  imports Float64 Json
begin

text \<open>
  The parsers and the quoting of \<open>strconv\<close> and \<open>time\<close> that the program uses.
\<close>

section \<open>Parsers of the standard library\<close>

definition ParseBool :: "string \<Rightarrow> bool option" where
  "ParseBool s =
     (if s \<in> {''1'', ''t'', ''T'', ''true'', ''TRUE'', ''True''} then Some True
      else if s \<in> {''0'', ''f'', ''F'', ''false'', ''FALSE'', ''False''} then Some False
      else None)"

definition digit_val :: "char \<Rightarrow> nat" where
  "digit_val c = (of_char c :: nat) - 48"

definition is_digit :: "char \<Rightarrow> bool" where
  "is_digit c \<longleftrightarrow> 48 \<le> (of_char c :: nat) \<and> (of_char c :: nat) \<le> 57"

fun decimal_value :: "nat \<Rightarrow> string \<Rightarrow> nat" where
  "decimal_value acc [] = acc"
| "decimal_value acc (c # cs) = decimal_value (10 * acc + digit_val c) cs"

text \<open>A sign, then digits only, within 64 bits.\<close>

definition Atoi :: "string \<Rightarrow> gint option" where
  "Atoi s =
     (let (neg, ds) = (case s of
            [] \<Rightarrow> (False, [])
          | c # cs \<Rightarrow> if c = CHR ''-'' then (True, cs) else if c = CHR ''+'' then (False, cs) else (False, s));
          n = int (decimal_value 0 ds);
          v = (if neg then - n else n)
      in if ds = [] \<or> \<not> list_all is_digit ds then None
         else if v < - (2 ^ 63) \<or> 2 ^ 63 \<le> v then None
         else Some (gint v))"

text \<open>
  \<open>time.ParseDuration\<close>: numbers with units, each number an integer and a fraction; the products and
  sums are 64 bits wide with the checks of the library, the fraction goes through binary64.
\<close>

fun leadingInt :: "nat \<Rightarrow> string \<Rightarrow> (nat \<times> string) option" where
  "leadingInt x [] = Some (x, [])"
| "leadingInt x (c # cs) =
     (if \<not> is_digit c then Some (x, c # cs)
      else if x > 2 ^ 63 div 10 then None
      else if 10 * x + digit_val c > 2 ^ 63 then None
      else leadingInt (10 * x + digit_val c) cs)"

fun leadingFraction :: "nat \<Rightarrow> nat \<Rightarrow> bool \<Rightarrow> string \<Rightarrow> nat \<times> nat \<times> string" where
  "leadingFraction x scale ov [] = (x, scale, [])"
| "leadingFraction x scale ov (c # cs) =
     (if \<not> is_digit c then (x, scale, c # cs)
      else if ov \<or> x > (2 ^ 63 - 1) div 10 \<or> 10 * x + digit_val c > 2 ^ 63 then leadingFraction x scale True cs
      else leadingFraction (10 * x + digit_val c) (10 * scale) False cs)"

definition unitMap :: "string \<Rightarrow> nat option" where
  "unitMap = map_of [(''ns'', 1), (''us'', 10 ^ 3), ([CHR 0xC2, CHR 0xB5, CHR ''s''], 10 ^ 3),
     ([CHR 0xCE, CHR 0xBC, CHR ''s''], 10 ^ 3), (''ms'', 10 ^ 6), (''s'', 10 ^ 9), (''m'', 60 * 10 ^ 9),
     (''h'', 3600 * 10 ^ 9)]"

definition f64_mul :: "float64 \<Rightarrow> float64 \<Rightarrow> float64" where
  "f64_mul x y =
     (let e = f_exp x + f_exp y in
      if 0 \<le> e then f64_ratio (f_mant x * f_mant y * 2 ^ nat e) 1
      else f64_ratio (f_mant x * f_mant y) (2 ^ nat (- e)))"

definition f64_floor :: "float64 \<Rightarrow> int" where
  "f64_floor x =
     (if 0 \<le> f_exp x then f_mant x * 2 ^ nat (f_exp x) else f_mant x div 2 ^ nat (- f_exp x))"

text \<open>\<open>uint64(float64(f) * (float64(unit) / scale))\<close>.\<close>

definition fraction_of_unit :: "nat \<Rightarrow> nat \<Rightarrow> nat \<Rightarrow> nat" where
  "fraction_of_unit f unit scale =
     nat (f64_floor (f64_mul (f64_of_int (int f)) (f64_div (f64_of_int (int unit)) (f64_of_int (int scale)))))"

definition unit_stop :: "char \<Rightarrow> bool" where
  "unit_stop c \<longleftrightarrow> c = CHR ''.'' \<or> is_digit c"

definition duration_error :: "string \<Rightarrow> goerror" where
  "duration_error m = Opaque ''*errors.errorString'' (''time: '' @ m)"

definition hex_digit :: "nat \<Rightarrow> char" where
  "hex_digit n = ''0123456789abcdef'' ! n"

definition time_quote :: "string \<Rightarrow> string" where
  "time_quote s = [CHR 0x22] @ concat (map (\<lambda>c.
     (let n = of_char c :: nat in
      if 128 \<le> n \<or> n < 32 then [bs, CHR ''x'', hex_digit (n div 16), hex_digit (n mod 16)]
      else if c = CHR 0x22 \<or> c = bs then [bs, c] else [c])) s) @ [CHR 0x22]"

text \<open>One round of the loop: the number and the unit at the front, in nanoseconds.\<close>

definition duration_part :: "string \<Rightarrow> string \<Rightarrow> goerror + (nat \<times> string)" where
  "duration_part orig s =
     (let invalid = Inl (duration_error (''invalid duration '' @ time_quote orig)) in
      if s = [] \<or> \<not> unit_stop (hd s) then invalid
      else (case leadingInt 0 s of
        None \<Rightarrow> invalid
      | Some (v, s1) \<Rightarrow>
          (let pre = length s1 \<noteq> length s;
               (f, scale, s2) = (if s1 \<noteq> [] \<and> hd s1 = CHR ''.'' then leadingFraction 0 1 False (tl s1) else (0, 1, s1));
               post = s1 \<noteq> [] \<and> hd s1 = CHR ''.'' \<and> length s2 \<noteq> length (tl s1)
           in
           if \<not> pre \<and> \<not> post then invalid
           else
             (let u = takeWhile (\<lambda>c. \<not> unit_stop c) s2; s3 = dropWhile (\<lambda>c. \<not> unit_stop c) s2 in
              if u = [] then Inl (duration_error (''missing unit in duration '' @ time_quote orig))
              else (case unitMap u of
                None \<Rightarrow> Inl (duration_error (''unknown unit '' @ time_quote u @ '' in duration '' @ time_quote orig))
              | Some unit \<Rightarrow>
                  if v > 2 ^ 63 div unit then invalid
                  else
                    (let v1 = v * unit; v2 = (if f > 0 then v1 + fraction_of_unit f unit scale else v1) in
                     if v2 > 2 ^ 63 then invalid else Inr (v2, s3)))))))"

lemma leadingInt_length: "leadingInt x s = Some (v, t) \<Longrightarrow> length t \<le> length s"
  by (induction x s rule: leadingInt.induct) (auto split: if_splits)

lemma leadingFraction_length: "leadingFraction x sc ov s = (f, sc', t) \<Longrightarrow> length t \<le> length s"
  by (induction x sc ov s rule: leadingFraction.induct) (auto split: if_splits)

lemma duration_part_shorter:
  assumes "duration_part orig s = Inr (v, t)"
  shows "length t < length s"
proof -
  have drop: "length (dropWhile P xs) < length xs" if "takeWhile P xs \<noteq> []" for P and xs :: string
    using that length_append [of "takeWhile P xs" "dropWhile P xs"] by (simp add: length_greater_0_conv [symmetric] del: length_greater_0_conv)
  show ?thesis
    using assms drop
    by (fastforce simp: duration_part_def Let_def split: if_splits option.splits prod.splits
        dest!: leadingInt_length leadingFraction_length)
qed

function duration_loop :: "string \<Rightarrow> nat \<Rightarrow> string \<Rightarrow> goerror + nat" where
  "duration_loop orig d s =
     (if s = [] then Inr d
      else (case duration_part orig s of
        Inl e \<Rightarrow> Inl e
      | Inr (v, t) \<Rightarrow>
          (let d1 = (d + v) mod 2 ^ 64 in
           if d1 > 2 ^ 63 then Inl (duration_error (''invalid duration '' @ time_quote orig))
           else duration_loop orig d1 t)))"
  by pat_completeness auto
termination
  by (relation "measure (\<lambda>(orig, d, s). length s)") (auto dest: duration_part_shorter)

declare duration_loop.simps [simp del]

definition ParseDuration :: "string \<Rightarrow> goerror + duration" where
  "ParseDuration orig =
     (let neg = (orig \<noteq> [] \<and> hd orig = CHR ''-'');
          s = (if orig \<noteq> [] \<and> (hd orig = CHR ''-'' \<or> hd orig = CHR ''+'') then tl orig else orig);
          invalid = Inl (duration_error (''invalid duration '' @ time_quote orig))
      in if s = ''0'' then Inr 0
         else if s = [] then invalid
         else (case duration_loop orig 0 s of
           Inl e \<Rightarrow> Inl e
         | Inr d \<Rightarrow>
             if neg then Inr (- int d)
             else if d > 2 ^ 63 - 1 then invalid
             else Inr (int d)))"

text \<open>The verb \<open>%q\<close>, where \<open>printable\<close> is \<open>strconv.IsPrint\<close> beyond ASCII.\<close>

fun hex_padded :: "nat \<Rightarrow> nat \<Rightarrow> string" where
  "hex_padded 0 r = []"
| "hex_padded (Suc k) r = hex_padded k (r div 16) @ [hex_digit (r mod 16)]"

definition quote_rune :: "(nat \<Rightarrow> bool) \<Rightarrow> nat \<Rightarrow> string" where
  "quote_rune is_print r =
     (if r = 34 \<or> r = 92 then [bs, char_of r]
      else if 32 \<le> r \<and> r < 127 \<or> 128 \<le> r \<and> is_print r then encode_rune r
      else if r = 7 then [bs, CHR ''a''] else if r = 8 then [bs, CHR ''b'']
      else if r = 12 then [bs, CHR ''f''] else if r = 10 then [bs, CHR ''n'']
      else if r = 13 then [bs, CHR ''r''] else if r = 9 then [bs, CHR ''t'']
      else if r = 11 then [bs, CHR ''v'']
      else if r < 32 \<or> r = 127 then bs # CHR ''x'' # hex_padded 2 r
      else if r < 65536 then bs # CHR ''u'' # hex_padded 4 r
      else bs # CHR ''U'' # hex_padded 8 r)"

function quote_chars :: "(nat \<Rightarrow> bool) \<Rightarrow> string \<Rightarrow> string" where
  "quote_chars is_print s = (case s of [] \<Rightarrow> [] | a # t \<Rightarrow>
     (case decode_rune s of (r, n) \<Rightarrow>
        (if r = RuneError \<and> n = 1 then bs # CHR ''x'' # hex_padded 2 (of_char a) else quote_rune is_print r)
          @ quote_chars is_print (drop n s)))"
  by pat_completeness auto
termination
  by (relation "measure (\<lambda>(p, s). length s)") (auto dest: decode_rune_width_eq)

declare quote_chars.simps [simp del]

definition strconv_Quote :: "(nat \<Rightarrow> bool) \<Rightarrow> string \<Rightarrow> string" where
  "strconv_Quote is_print s = [CHR 0x22] @ quote_chars is_print s @ [CHR 0x22]"

end
