(* ===== verification/Config.thy ===== *)
theory Config
  imports Strconv
begin

text \<open>
  The configuration (\<open>config/config.go\<close>): the settings and their defaults, read from the environment,
  the connection strings and the validation at startup.  The environment is a function, with \<open>[]\<close> for an unset variable as \<open>os.Getenv\<close> answers.
\<close>

section \<open>The settings\<close>

record ServerConfig =
  sc_Port :: string
  sc_Env :: string
  sc_GinMode :: string
  sc_MaxBodySize :: gint

record GRPCConfig =
  gcfg_Enabled :: bool
  gcfg_Port :: string
  gcfg_ReflectionEnabled :: bool

record DBConfig =
  db_Host :: string
  db_Port :: string
  db_User :: string
  db_Password :: string
  db_Name :: string
  db_SSLMode :: string
  db_MaxOpenConns :: gint
  db_MaxIdleConns :: gint
  db_ConnMaxLifetime :: duration
  db_ConnMaxIdleTime :: duration
  db_ReplicaEnabled :: bool
  db_ReplicaHost :: string
  db_ReplicaPort :: string
  db_ReplicaUser :: string
  db_ReplicaPassword :: string
  db_ReplicaName :: string
  db_ReplicaSSLMode :: string
  db_ReplicaMaxOpenConns :: gint
  db_ReplicaMaxIdleConns :: gint
  db_ReplicaConnMaxLifetime :: duration
  db_ReplicaConnMaxIdleTime :: duration

record OtelConfig =
  ot_ServiceName :: string
  ot_CollectorURL :: string
  ot_Insecure :: bool

record RedisSettings =
  rs_URL :: string
  rs_TTL :: string
  rs_Enabled :: bool
  rs_PoolSize :: gint
  rs_MinIdleConns :: gint
  rs_DialTimeout :: duration
  rs_ReadTimeout :: duration
  rs_WriteTimeout :: duration

record AuthSettings =
  au_Enabled :: bool
  au_ServiceKeys :: string

record SwaggerConfig =
  sw_Enabled :: bool
  sw_Host :: string

record IdempotencyConfig =
  ic_Enabled :: bool
  ic_TTL :: string
  ic_LockTTL :: string

record AppConfig =
  cfg_Server :: ServerConfig
  cfg_GRPC :: GRPCConfig
  cfg_DB :: DBConfig
  cfg_Otel :: OtelConfig
  cfg_Redis :: RedisSettings
  cfg_Auth :: AuthSettings
  cfg_Swagger :: SwaggerConfig
  cfg_Idempotency :: IdempotencyConfig

section \<open>Connection strings\<close>

definition dsn :: "string \<Rightarrow> string \<Rightarrow> string \<Rightarrow> string \<Rightarrow> string \<Rightarrow> string \<Rightarrow> string" where
  "dsn host port user password name sslMode =
     ''host='' @ host @ '' port='' @ port @ '' user='' @ user @ '' password='' @ password
       @ '' dbname='' @ name @ '' sslmode='' @ sslMode"

definition GetWriterDSN :: "DBConfig \<Rightarrow> string" where
  "GetWriterDSN c =
     dsn (db_Host c) (db_Port c) (db_User c) (db_Password c) (db_Name c) (db_SSLMode c)"

definition GetReaderDSN :: "DBConfig \<Rightarrow> string" where
  "GetReaderDSN c =
     (let host = (if db_ReplicaHost c = [] then db_Host c else db_ReplicaHost c);
          port = (if db_ReplicaPort c = [] then db_Port c else db_ReplicaPort c);
          user = (if db_ReplicaUser c = [] then db_User c else db_ReplicaUser c);
          password = (if db_ReplicaPassword c = [] then db_Password c else db_ReplicaPassword c);
          name = (if db_ReplicaName c = [] then db_Name c else db_ReplicaName c);
          sslMode = (if db_ReplicaSSLMode c = [] then db_SSLMode c else db_ReplicaSSLMode c)
      in dsn host port user password name sslMode)"

section \<open>Reading the environment\<close>

type_synonym environment = "string \<Rightarrow> string"

definition getEnv :: "environment \<Rightarrow> string \<Rightarrow> string \<Rightarrow> string" where
  "getEnv env key fallback = (if env key \<noteq> [] then env key else fallback)"

definition getEnvBool :: "environment \<Rightarrow> string \<Rightarrow> bool \<Rightarrow> bool" where
  "getEnvBool env key fallback =
     (if env key \<noteq> [] then (case ParseBool (env key) of None \<Rightarrow> fallback | Some parsed \<Rightarrow> parsed) else fallback)"

definition getEnvInt :: "environment \<Rightarrow> string \<Rightarrow> gint \<Rightarrow> gint" where
  "getEnvInt env key fallback =
     (if env key \<noteq> [] then (case Atoi (env key) of None \<Rightarrow> fallback | Some parsed \<Rightarrow> parsed) else fallback)"

definition getEnvDuration :: "environment \<Rightarrow> string \<Rightarrow> duration \<Rightarrow> duration" where
  "getEnvDuration env key fallback =
     (if env key \<noteq> [] then (case ParseDuration (env key) of Inl _ \<Rightarrow> fallback | Inr parsed \<Rightarrow> parsed) else fallback)"

definition Load :: "environment \<Rightarrow> AppConfig" where
  "Load env =
    \<lparr>cfg_Server =
      \<lparr>sc_Port = getEnv env ''SERVER_PORT'' ''8080'',
       sc_Env = getEnv env ''APP_ENV'' ''development'',
       sc_GinMode = getEnv env ''GIN_MODE'' [],
       sc_MaxBodySize = getEnvInt env ''HTTP_MAX_BODY_SIZE'' 1048576\<rparr>,
     cfg_GRPC =
      \<lparr>gcfg_Enabled = getEnvBool env ''GRPC_ENABLED'' False,
       gcfg_Port = getEnv env ''GRPC_PORT'' ''50051'',
       gcfg_ReflectionEnabled = getEnvBool env ''GRPC_REFLECTION_ENABLED'' True\<rparr>,
     cfg_DB =
      \<lparr>db_Host = getEnv env ''DB_HOST'' ''localhost'',
       db_Port = getEnv env ''DB_PORT'' ''5432'',
       db_User = getEnv env ''DB_USER'' ''user'',
       db_Password = getEnv env ''DB_PASSWORD'' ''password'',
       db_Name = getEnv env ''DB_NAME'' ''gopherplate'',
       db_SSLMode = getEnv env ''DB_SSLMODE'' ''disable'',
       db_MaxOpenConns = getEnvInt env ''DB_MAX_OPEN_CONNS'' 25,
       db_MaxIdleConns = getEnvInt env ''DB_MAX_IDLE_CONNS'' 10,
       db_ConnMaxLifetime = getEnvDuration env ''DB_CONN_MAX_LIFETIME'' (5 * 60 * 10 ^ 9),
       db_ConnMaxIdleTime = getEnvDuration env ''DB_CONN_MAX_IDLE_TIME'' (90 * 10 ^ 9),
       db_ReplicaEnabled = getEnvBool env ''DB_REPLICA_ENABLED'' False,
       db_ReplicaHost = env ''DB_REPLICA_HOST'',
       db_ReplicaPort = env ''DB_REPLICA_PORT'',
       db_ReplicaUser = env ''DB_REPLICA_USER'',
       db_ReplicaPassword = env ''DB_REPLICA_PASSWORD'',
       db_ReplicaName = env ''DB_REPLICA_NAME'',
       db_ReplicaSSLMode = env ''DB_REPLICA_SSLMODE'',
       db_ReplicaMaxOpenConns = getEnvInt env ''DB_REPLICA_MAX_OPEN_CONNS'' 40,
       db_ReplicaMaxIdleConns = getEnvInt env ''DB_REPLICA_MAX_IDLE_CONNS'' 20,
       db_ReplicaConnMaxLifetime = getEnvDuration env ''DB_REPLICA_CONN_MAX_LIFETIME'' (5 * 60 * 10 ^ 9),
       db_ReplicaConnMaxIdleTime = getEnvDuration env ''DB_REPLICA_CONN_MAX_IDLE_TIME'' (90 * 10 ^ 9)\<rparr>,
     cfg_Otel =
      \<lparr>ot_ServiceName = getEnv env ''OTEL_SERVICE_NAME'' ''gopherplate'',
       ot_CollectorURL = getEnv env ''OTEL_COLLECTOR_URL'' [],
       ot_Insecure = getEnvBool env ''OTEL_INSECURE'' True\<rparr>,
     cfg_Redis =
      \<lparr>rs_URL = getEnv env ''REDIS_URL'' ''redis://localhost:6379'',
       rs_TTL = getEnv env ''REDIS_TTL'' ''5m'',
       rs_Enabled = getEnvBool env ''REDIS_ENABLED'' False,
       rs_PoolSize = getEnvInt env ''REDIS_POOL_SIZE'' 30,
       rs_MinIdleConns = getEnvInt env ''REDIS_MIN_IDLE_CONNS'' 5,
       rs_DialTimeout = getEnvDuration env ''REDIS_DIAL_TIMEOUT'' (500 * 10 ^ 6),
       rs_ReadTimeout = getEnvDuration env ''REDIS_READ_TIMEOUT'' (200 * 10 ^ 6),
       rs_WriteTimeout = getEnvDuration env ''REDIS_WRITE_TIMEOUT'' (200 * 10 ^ 6)\<rparr>,
     cfg_Auth =
      \<lparr>au_Enabled = getEnvBool env ''SERVICE_KEYS_ENABLED'' False,
       au_ServiceKeys = getEnv env ''SERVICE_KEYS'' []\<rparr>,
     cfg_Swagger =
      \<lparr>sw_Enabled = getEnvBool env ''SWAGGER_ENABLED'' False,
       sw_Host = getEnv env ''SWAGGER_HOST'' []\<rparr>,
     cfg_Idempotency =
      \<lparr>ic_Enabled = getEnvBool env ''IDEMPOTENCY_ENABLED'' False,
       ic_TTL = getEnv env ''IDEMPOTENCY_TTL'' ''24h'',
       ic_LockTTL = getEnv env ''IDEMPOTENCY_LOCK_TTL'' ''30s''\<rparr>\<rparr>"

section \<open>Validation\<close>

text \<open>
  The error of an invalid configuration, if any, and whether the warning about an unencrypted database is
  printed.
\<close>

definition Validate :: "(nat \<Rightarrow> bool) \<Rightarrow> AppConfig \<Rightarrow> goerror option \<times> bool" where
  "Validate is_print c =
     (let warned = (sc_Env (cfg_Server c) \<noteq> ''development'' \<and> db_SSLMode (cfg_DB c) = ''disable'');
          i = cfg_Idempotency c
      in
      (if ic_Enabled i \<and> \<not> rs_Enabled (cfg_Redis c) then
         Some (Opaque ''*errors.errorString'' ''IDEMPOTENCY_ENABLED=true requires REDIS_ENABLED=true'')
       else
         (let ttl = (if ic_Enabled i then ParseDuration (ic_TTL i) else Inr 0);
              lock = (if ic_Enabled i then ParseDuration (ic_LockTTL i) else Inr 0)
          in
          case ttl of
            Inl parseErr \<Rightarrow> Some (Wrapf (''IDEMPOTENCY_TTL='' @ strconv_Quote is_print (ic_TTL i)
              @ '' is not a valid duration: '') parseErr)
          | Inr _ \<Rightarrow>
              (case lock of
                 Inl parseErr \<Rightarrow> Some (Wrapf (''IDEMPOTENCY_LOCK_TTL='' @ strconv_Quote is_print (ic_LockTTL i)
                   @ '' is not a valid duration: '') parseErr)
               | Inr _ \<Rightarrow>
                   if sint (sc_MaxBodySize (cfg_Server c)) < 0 then
                     Some (Opaque ''*errors.errorString'' (''HTTP_MAX_BODY_SIZE must be >= 0, got ''
                       @ int_text (sint (sc_MaxBodySize (cfg_Server c)))))
                   else None)), warned))"

end
