(* ===== verification/Bootstrap.thy ===== *)
theory Bootstrap
  imports Transports Config
begin

text \<open>
  The composition of the service: the container (\<open>internal/bootstrap/container.go\<close>) and the assembly of
  the dependencies of both servers from the configuration (\<open>cmd/api/server.go\<close>).
\<close>

section \<open>The container\<close>

record 'w Repos =
  rp_Role :: "'w RoleRepository"
  rp_User :: "'w UserRepository"

record 'w RoleUseCases =
  ru_Create :: "span option \<Rightarrow> RoleCreateInput \<Rightarrow> ('w, (goerror + RoleCreateOutput) \<times> span option) prog"
  ru_List :: "span option \<Rightarrow> RoleListInput \<Rightarrow> ('w, (goerror + RoleListOutput) \<times> span option) prog"
  ru_Delete :: "span option \<Rightarrow> RoleDeleteInput \<Rightarrow> ('w, (goerror + RoleDeleteOutput) \<times> span option) prog"

record 'w UserUseCases =
  uu_Create :: "span option \<Rightarrow> CreateInput \<Rightarrow> ('w, (goerror + CreateOutput) \<times> span option) prog"
  uu_Get :: "span option \<Rightarrow> GetInput \<Rightarrow> ('w, (goerror + GetOutput) \<times> span option) prog"
  uu_List :: "span option \<Rightarrow> ListInput \<Rightarrow> ('w, (goerror + ListOutput) \<times> span option) prog"
  uu_Update :: "span option \<Rightarrow> UpdateInput \<Rightarrow> ('w, (goerror + UpdateOutput) \<times> span option) prog"
  uu_Delete :: "span option \<Rightarrow> DeleteInput \<Rightarrow> ('w, (goerror + DeleteOutput) \<times> span option) prog"

record 'w HandlerGroup =
  hg_Role :: "'w RoleHandler"
  hg_User :: "'w UserHandler"

record 'w Container =
  co_repos :: "'w Repos"
  co_roleUseCases :: "'w RoleUseCases"
  co_userUseCases :: "'w UserUseCases"
  co_Handlers :: "'w HandlerGroup"
  co_GRPCHandlers :: "'w HandlerGroup"

type_synonym 'w business_metrics = "((Metrics option \<Rightarrow> Metrics option) \<Rightarrow> 'w \<Rightarrow> unit \<times> 'w) option"

definition buildRepos :: "'w sqlx_db \<Rightarrow> 'w sqlx_db \<Rightarrow> 'w Repos" where
  "buildRepos writer reader =
     \<lparr>rp_Role = NewRoleRepository writer reader, rp_User = NewUserRepository writer reader\<rparr>"

text \<open>The cache client is not used: the user use cases get neither a cache nor a flight group.\<close>

definition buildUseCases :: "'w env \<Rightarrow> 'w Repos \<Rightarrow> 'w RoleUseCases \<times> 'w UserUseCases" where
  "buildUseCases E repos =
     (let role = postgres_roles E (rp_Role repos); user = postgres_users E (rp_User repos) in
      (\<lparr>ru_Create = RoleCreateUseCase_Execute E role, ru_List = RoleListUseCase_Execute E role,
        ru_Delete = RoleDeleteUseCase_Execute E role\<rparr>,
       \<lparr>uu_Create = CreateUseCase_Execute E user, uu_Get = GetUseCase_Execute E user None None,
        uu_List = ListUseCase_Execute E user, uu_Update = UpdateUseCase_Execute E user None,
        uu_Delete = DeleteUseCase_Execute E user None\<rparr>))"

definition buildHandlers :: "'w RoleUseCases \<Rightarrow> 'w UserUseCases \<Rightarrow> 'w business_metrics \<Rightarrow> 'w HandlerGroup" where
  "buildHandlers role user metrics =
     \<lparr>hg_Role = NewRoleHandler (ru_Create role) (ru_List role) (ru_Delete role),
      hg_User = NewUserHandler (uu_Create user) (uu_Get user) (uu_List user) (uu_Update user) (uu_Delete user) metrics\<rparr>"

definition buildGRPCHandlers :: "'w RoleUseCases \<Rightarrow> 'w UserUseCases \<Rightarrow> 'w business_metrics \<Rightarrow> 'w HandlerGroup" where
  "buildGRPCHandlers role user metrics =
     \<lparr>hg_Role = NewRoleHandler (ru_Create role) (ru_List role) (ru_Delete role),
      hg_User = NewUserHandler (uu_Create user) (uu_Get user) (uu_List user) (uu_Update user) (uu_Delete user) metrics\<rparr>"

definition container_New :: "'w env \<Rightarrow> 'w sqlx_db \<Rightarrow> 'w sqlx_db \<Rightarrow> 'w business_metrics \<Rightarrow> 'w Container" where
  "container_New E writer reader metrics =
     (let repos = buildRepos writer reader;
          (role, user) = buildUseCases E repos
      in \<lparr>co_repos = repos, co_roleUseCases = role, co_userUseCases = user,
          co_Handlers = buildHandlers role user metrics, co_GRPCHandlers = buildGRPCHandlers role user metrics\<rparr>)"

lemma container_handlers:
  "co_Handlers (container_New E hw hr M) = \<lparr>hg_Role = service_roles E hw hr, hg_User = service_users E hw hr M\<rparr>"
  "co_GRPCHandlers (container_New E hw hr M) = \<lparr>hg_Role = service_roles E hw hr, hg_User = service_users E hw hr M\<rparr>"
  by (simp_all add: container_New_def buildRepos_def buildUseCases_def buildHandlers_def buildGRPCHandlers_def
      service_users_def service_roles_def Let_def)

section \<open>The connections\<close>

definition writerCfg :: "AppConfig \<Rightarrow> DBConfigPool" where
  "writerCfg cfg =
     (let db = cfg_DB cfg in
      \<lparr>dbc_Driver = ''postgres'', dbc_DSN = GetWriterDSN db,
       dbc_Pool = \<lparr>pc_MaxOpenConns = db_MaxOpenConns db, pc_MaxIdleConns = db_MaxIdleConns db,
         pc_ConnMaxLifetime = db_ConnMaxLifetime db, pc_ConnMaxIdleTime = db_ConnMaxIdleTime db\<rparr>\<rparr>)"

definition readerCfg :: "AppConfig \<Rightarrow> DBConfigPool option" where
  "readerCfg cfg =
     (let db = cfg_DB cfg in
      if db_ReplicaEnabled db then
        Some \<lparr>dbc_Driver = ''postgres'', dbc_DSN = GetReaderDSN db,
          dbc_Pool = \<lparr>pc_MaxOpenConns = db_ReplicaMaxOpenConns db, pc_MaxIdleConns = db_ReplicaMaxIdleConns db,
            pc_ConnMaxLifetime = db_ReplicaConnMaxLifetime db, pc_ConnMaxIdleTime = db_ReplicaConnMaxIdleTime db\<rparr>\<rparr>
      else None)"

section \<open>The dependencies of the servers\<close>

text \<open>
  The libraries behind the assembly: \<open>redis.ParseURL\<close> and \<open>redis.NewClient\<close>, the JSON of idempotency entries,
  and what the servers themselves use.
\<close>

record 'w start_libs =
  sl_libs :: "'w libs"
  sl_parse_url :: "string \<Rightarrow> goerror + redis_options"
  sl_new_client :: "redis_options \<Rightarrow> 'w redis"
  sl_codec :: "Entry codec"

definition redisConfig :: "AppConfig \<Rightarrow> RedisConfig" where
  "redisConfig cfg =
     (let r = cfg_Redis cfg in
      \<lparr>rc_URL = rs_URL r, rc_TTL = rs_TTL r, rc_Enabled = rs_Enabled r, rc_PoolSize = rs_PoolSize r,
       rc_MinIdleConns = rs_MinIdleConns r, rc_DialTimeout = rs_DialTimeout r, rc_ReadTimeout = rs_ReadTimeout r,
       rc_WriteTimeout = rs_WriteTimeout r\<rparr>)"

definition health_checker :: "'w DBCluster \<Rightarrow> 'w RedisClient option \<Rightarrow> 'w Checker" where
  "health_checker cluster redisClient =
     (let c0 = NewChecker [];
          c1 = Checker_Register c0 ''database_writer'' True (\<lambda>t. call (x_ping (Writer cluster)));
          c2 = (if HasSeparateReader cluster
                then Checker_Register c1 ''database_reader'' False (\<lambda>t. call (x_ping (Reader cluster))) else c1)
      in if redisClient \<noteq> None \<and> UnderlyingClient redisClient \<noteq> None
         then Checker_Register c2 ''redis'' False (\<lambda>t. RedisClient_Ping redisClient) else c2)"

definition parsed_or_zero :: "string \<Rightarrow> duration" where
  "parsed_or_zero s = (case ParseDuration s of Inl _ \<Rightarrow> 0 | Inr d \<Rightarrow> d)"

definition idempotency_store :: "'w start_libs \<Rightarrow> AppConfig \<Rightarrow> 'w RedisClient option \<Rightarrow> 'w idem_store option" where
  "idempotency_store S cfg redisClient =
     (if ic_Enabled (cfg_Idempotency cfg) then
        (case UnderlyingClient redisClient of
           None \<Rightarrow> None
         | Some rc \<Rightarrow>
             (let ttl = parsed_or_zero (ic_TTL (cfg_Idempotency cfg));
                  lockTTL = parsed_or_zero (ic_LockTTL (cfg_Idempotency cfg))
              in Some (redis_store (sl_codec S) (NewRedisStore rc ttl lockTTL))))
      else None)"

definition grpc_config :: "AppConfig \<Rightarrow> GrpcConfig" where
  "grpc_config cfg =
     \<lparr>gc_ReflectionEnabled = gcfg_ReflectionEnabled (cfg_GRPC cfg),
      gc_AuthConfig = \<lparr>ac_Enabled = au_Enabled (cfg_Auth cfg),
        ac_Keys = ParseServiceKeys (au_ServiceKeys (cfg_Auth cfg))\<rparr>\<rparr>"

definition router_config :: "AppConfig \<Rightarrow> Router.Config" where
  "router_config cfg =
     \<lparr>rc_ServiceName = ot_ServiceName (cfg_Otel cfg), rc_ServiceKeysEnabled = au_Enabled (cfg_Auth cfg),
      rc_ServiceKeys = au_ServiceKeys (cfg_Auth cfg), rc_SwaggerEnabled = sw_Enabled (cfg_Swagger cfg),
      rc_MaxBodySize = sint (sc_MaxBodySize (cfg_Server cfg))\<rparr>"

definition buildDependencies ::
  "'w start_libs \<Rightarrow> 'w DBCluster \<Rightarrow> AppConfig \<Rightarrow> bool \<Rightarrow> 'w business_metrics
    \<Rightarrow> ('w, 'w Dependencies \<times> 'w grpc_server option) prog" where
  "buildDependencies S cluster cfg httpMetrics businessMetrics =
     (let L = sl_libs S; W = lb_web L in
      pbind (NewRedisClient (sl_parse_url S) (sl_new_client S) ParseDuration (redisConfig cfg)) (\<lambda>r.
      pbind (case r of Inl cacheErr \<Rightarrow> call (wb_log W LevelWarn ''Redis cache disabled'' [(''error'', AString (err_text cacheErr))])
             | Inr _ \<Rightarrow> Return ()) (\<lambda>_.
      let redisClient = (case r of Inl _ \<Rightarrow> None | Inr c \<Rightarrow> c);
          c = container_New (wb_env W) (Writer cluster) (Reader cluster) businessMetrics;
          grpcSrv = (if gcfg_Enabled (cfg_GRPC cfg)
                     then Some (NewServer W (lb_stack L) (lb_tracer L) (grpc_config cfg)
                            (hg_User (co_GRPCHandlers c)) (hg_Role (co_GRPCHandlers c)))
                     else None)
      in Return (\<lparr>de_HealthChecker = health_checker cluster redisClient,
                 de_RoleHandler = hg_Role (co_Handlers c), de_UserHandler = hg_User (co_Handlers c),
                 de_HTTPMetrics = httpMetrics, de_IdempotencyStore = idempotency_store S cfg redisClient,
                 de_Config = router_config cfg\<rparr>, grpcSrv))))"

section \<open>Correctness\<close>

lemma run_NewRedisClient:
  "run (NewRedisClient pu nc pd rcfg) w = (r, w') \<Longrightarrow>
     (case r of Inr (Some rcl) \<Rightarrow> \<exists>opts. rcl_client rcl = nc opts | _ \<Rightarrow> True)"
  by (auto simp: NewRedisClient_def run_pbind Let_def split: if_splits sum.splits option.splits)


lemma quiet_ping:
  assumes "\<And>o1. quiet_redis (sl_new_client S o1) f" "\<And>o1 w. f (snd (rd_Ping (sl_new_client S o1) w)) = f w"
    and "\<And>w. f (snd (x_ping (Writer cluster) w)) = f w" "\<And>w. f (snd (x_ping (Reader cluster) w)) = f w"
    and "case r of Inr (Some rcl) \<Rightarrow> \<exists>opts. rcl_client rcl = sl_new_client S opts | _ \<Rightarrow> True"
  shows "list_all (\<lambda>ch. \<forall>t. frames f (ck_fn ch t)) (hc_checks (health_checker cluster (case r of Inl _ \<Rightarrow> None | Inr c \<Rightarrow> c)))"
  using assms
  by (auto simp: health_checker_def NewChecker_def Checker_Register_def Let_def RedisClient_Ping_def frames_def
      split: sum.splits option.splits)

text \<open>
  C3: With authentication enabled in the configuration, and whatever else it says, neither the HTTP server nor the
  gRPC server that are built from it changes the store for a request whose service name and key
  are not one of the configured pairs: both transports check the same keys.
\<close>

theorem configured_keys_guard_both_servers:
  assumes "list_all clean_service ps" and "distinct (map fst ps)"
    and "au_Enabled (cfg_Auth cfg)" and "au_ServiceKeys (cfg_Auth cfg) = render_service_keys ps"
    and "run (buildDependencies S cluster cfg hm M) w0 = ((deps, g), w1)"
    and "quiet_web (lb_web (sl_libs S)) f"
    and "preserves H f (lb_otelgin (sl_libs S) (ot_ServiceName (cfg_Otel cfg)))" and "safe H f (lb_swagger (sl_libs S))"
    and "\<And>o1. quiet_redis (sl_new_client S o1) f" and "\<And>o1 w. f (snd (rd_Ping (sl_new_client S o1) w)) = f w"
    and "\<And>w. f (snd (x_ping (Writer cluster) w)) = f w" and "\<And>w. f (snd (x_ping (Reader cluster) w)) = f w"
    and "H = rq_Header (cx_Request c)" and "(H ''X-Service-Name'', H ''X-Service-Key'') \<notin> set ps"
    and "\<not> (\<exists>q\<in>set ps. credentials md = Some q)"
  shows "f (snd (run (ServeHTTP (Setup (sl_libs S) deps) c) w)) = f w
    \<and> (case g of None \<Rightarrow> \<not> gcfg_Enabled (cfg_GRPC cfg) | Some srv \<Rightarrow> f (snd (run (gs_Unary srv md req) w)) = f w)"
proof -
  let ?L = "sl_libs S"
  obtain r w2 where r: "run (NewRedisClient (sl_parse_url S) (sl_new_client S) ParseDuration (redisConfig cfg)) w0 = (r, w2)"
    by fastforce
  let ?rcl = "case r of Inl _ \<Rightarrow> None | Inr cl \<Rightarrow> cl"
  let ?c = "container_New (wb_env (lb_web ?L)) (Writer cluster) (Reader cluster) M"
  note nc = run_NewRedisClient [OF r]
  have deps: "de_HealthChecker deps = health_checker cluster ?rcl" "de_IdempotencyStore deps = idempotency_store S cfg ?rcl"
    "de_Config deps = router_config cfg"
    "g = (if gcfg_Enabled (cfg_GRPC cfg) then Some (NewServer (lb_web ?L) (lb_stack ?L) (lb_tracer ?L) (grpc_config cfg)
       (hg_User (co_GRPCHandlers ?c)) (hg_Role (co_GRPCHandlers ?c))) else None)"
    using assms(5) r by (auto simp: buildDependencies_def Let_def run_pbind split: sum.splits)
  have "f (snd (run (ServeHTTP (Setup ?L deps) c) w)) = f w"
  proof (rule unauth_frame [OF assms(1,2) _ _ assms(13,14,6) _ assms(8)])
    show "rc_ServiceKeysEnabled (de_Config deps)" "rc_ServiceKeys (de_Config deps) = render_service_keys ps"
      "preserves H f (lb_otelgin ?L (rc_ServiceName (de_Config deps)))"
      using assms(3,4,7) by (simp_all add: deps router_config_def)
    show "list_all (\<lambda>ch. \<forall>t. frames f (ck_fn ch t)) (hc_checks (de_HealthChecker deps))"
      unfolding deps by (rule quiet_ping [OF assms(9-12) nc])
    show "\<exists>cd s. st = redis_store cd s \<and> quiet_redis (rst_client s) f" if st: "de_IdempotencyStore deps = Some st" for st
    proof -
      obtain rcl where "?rcl = Some rcl" "st = redis_store (sl_codec S) (NewRedisStore (rcl_client rcl)
          (parsed_or_zero (ic_TTL (cfg_Idempotency cfg))) (parsed_or_zero (ic_LockTTL (cfg_Idempotency cfg))))"
        using st unfolding deps
        by (cases ?rcl) (auto simp: idempotency_store_def UnderlyingClient_def Let_def split: if_splits)
      moreover have "quiet_redis (rcl_client rcl) f"
        using nc assms(9) \<open>?rcl = Some rcl\<close> by (auto split: sum.splits)
      ultimately show ?thesis by (intro exI) (auto simp: NewRedisStore_def)
    qed
  qed
  moreover have "f (snd (run (gs_Unary srv md req) w)) = f w" if "g = Some srv" for srv
  proof -
    let ?u = "hg_User (co_GRPCHandlers ?c)" and ?r = "hg_Role (co_GRPCHandlers ?c)"
    have srv: "srv = NewServer (lb_web ?L) (lb_stack ?L) (lb_tracer ?L) (grpc_config cfg) ?u ?r"
      using that by (simp add: deps split: if_splits)
    have "gc_AuthConfig (grpc_config cfg) = \<lparr>ac_Enabled = True, ac_Keys = ParseServiceKeys (render_service_keys ps)\<rparr>"
      using assms(3,4) by (simp add: grpc_config_def)
    from unauth_rpc_frame [OF assms(1,2,6) this assms(15)] show ?thesis unfolding srv .
  qed
  ultimately show ?thesis using deps(4) by (auto split: option.split if_splits)
qed

section \<open>Witnesses\<close>

definition no_redis :: "string \<Rightarrow> goerror + redis_options" where
  "no_redis url = Inl (Opaque ''*errors.errorString'' ''redis: invalid URL scheme'')"

definition world_start :: "world start_libs" where
  "world_start = \<lparr>sl_libs = world_libs, sl_parse_url = no_redis, sl_new_client = (\<lambda>o1. world_redis), sl_codec = entry_codec\<rparr>"

definition shop_env :: environment where
  "shop_env k = (if k \<in> {''GRPC_ENABLED'', ''SERVICE_KEYS_ENABLED'', ''REDIS_ENABLED''} then ''true''
     else if k = ''SERVICE_KEYS'' then render_service_keys [(''shop'', ''s3cret'')] else [])"

lemma shop_auth: "cfg_Auth (Load shop_env) = \<lparr>au_Enabled = True, au_ServiceKeys = render_service_keys [(''shop'', ''s3cret'')]\<rparr>"
  by (simp add: Load_def shop_env_def getEnvBool_def getEnv_def ParseBool_def render_service_keys_def service_entry_def)

theorem configured_keys_guard_both_servers_witness:
  "\<exists>deps srv w1. run (buildDependencies world_start (NewDBClusterFromDB world_db) (Load shop_env) True None) ana_world
       = ((deps, Some srv), w1)
     \<and> w_tables (snd (run (ServeHTTP (Setup world_libs deps) (delete_ana ''guess'')) ana_world)) = w_tables ana_world
     \<and> w_tables (snd (run (gs_Unary srv None (DeleteUserRequest ana_id)) ana_world)) = w_tables ana_world"
proof -
  obtain deps g w1 where r: "run (buildDependencies world_start (NewDBClusterFromDB world_db) (Load shop_env) True None) ana_world
       = ((deps, g), w1)" by (metis prod.exhaust)
  have "w_tables (snd (run (ServeHTTP (Setup (sl_libs world_start) deps) (delete_ana ''guess'')) ana_world)) = w_tables ana_world
    \<and> (case g of None \<Rightarrow> \<not> gcfg_Enabled (cfg_GRPC (Load shop_env)) | Some srv \<Rightarrow>
          w_tables (snd (run (gs_Unary srv None (DeleteUserRequest ana_id)) ana_world)) = w_tables ana_world)"
  proof (rule configured_keys_guard_both_servers [OF _ _ _ _ r _ _ _ _ _ _ _ refl, where ps = "[(''shop'', ''s3cret'')]"])
    show "list_all clean_service [(''shop'', ''s3cret'')]"
      by (simp add: clean_service_def clean_token_def printable_def)
    show "quiet_web (lb_web (sl_libs world_start)) w_tables"
      by (simp add: quiet_web_def world_start_def world_libs_def world_web_def world_env_def)
    show "preserves H w_tables (lb_otelgin (sl_libs world_start) n)" for H n
      by (simp add: preserves_def world_start_def world_libs_def)
    show "safe H w_tables (lb_swagger (sl_libs world_start))" for H
      by (simp add: world_start_def world_libs_def safe_def not_found_def)
    show "quiet_redis (sl_new_client world_start o1) w_tables" "w_tables (snd (rd_Ping (sl_new_client world_start o1) w)) = w_tables w" for o1 w
      by (simp_all add: world_start_def quiet_redis_def world_redis_def)
    show "w_tables (snd (x_ping (Writer (NewDBClusterFromDB world_db)) w)) = w_tables w"
      "w_tables (snd (x_ping (Reader (NewDBClusterFromDB world_db)) w)) = w_tables w" for w
      by (simp_all add: Writer_def Reader_def NewDBClusterFromDB_def world_db_def)
  qed (simp_all add: shop_auth delete_ana_def header_request_def blank_context_def credentials_def)
  moreover have "gcfg_Enabled (cfg_GRPC (Load shop_env))"
    by (simp add: Load_def shop_env_def getEnvBool_def ParseBool_def)
  ultimately show ?thesis using r
    by (cases g) (auto simp: world_start_def)
qed

definition idem_env :: environment where
  "idem_env k = (if k \<in> {''IDEMPOTENCY_ENABLED'', ''REDIS_ENABLED''} then ''true'' else [])"

lemmas parse_defs = ParseDuration_def duration_loop.simps duration_part_def unit_stop_def is_digit_def digit_val_def
  unitMap_def Let_def

lemma idem_durations: "ParseDuration ''24h'' = Inr (86400 * 10 ^ 9)" "ParseDuration ''30s'' = Inr (30 * 10 ^ 9)"
  by (simp_all add: parse_defs)

lemma idem_settings:
  "cfg_Idempotency (Load idem_env) = \<lparr>ic_Enabled = True, ic_TTL = ''24h'', ic_LockTTL = ''30s''\<rparr>"
  "rs_Enabled (cfg_Redis (Load idem_env))" "sc_MaxBodySize (cfg_Server (Load idem_env)) = 1048576"
  by (simp_all add: Load_def idem_env_def getEnvBool_def getEnv_def getEnvInt_def ParseBool_def)

definition local_redis :: "string \<Rightarrow> goerror + redis_options" where
  "local_redis url = Inr \<lparr>ro_Addr = ''localhost:6379'', ro_PoolSize = 10, ro_MinIdleConns = 0,
     ro_DialTimeout = 5 * 10 ^ 9, ro_ReadTimeout = 3 * 10 ^ 9, ro_WriteTimeout = 3 * 10 ^ 9\<rparr>"


end
