(* ===== verification/Regex.thy ===== *)
theory Regex
  imports GoStrings
begin

text \<open>
  The package \<open>regexp\<close> for the expressions the tools use: classes of bytes, sequences, alternatives, greedy
  repetition, groups, anchors and word boundaries.  A match is leftmost, and of the matches at one
  position the one that a backtracking search finds first, as the package specifies.
  Strings are bytes: on UTF-8 text the classes used here match the same substrings bytewise.
\<close>

datatype re =
    Eps
  | Cls "char \<Rightarrow> bool"
  | Seq re re
  | Alt re re
  | Star re
  | Grp nat re
  | Bol
  | Eol
  | WordB

text \<open>Where a match stands: the byte before, the rest of the input and the groups captured so far.\<close>

type_synonym mstate = "char option \<times> string \<times> (nat \<times> string) list"

definition m_rest :: "mstate \<Rightarrow> string" where
  "m_rest st = fst (snd st)"

lemma m_rest_simp [simp]: "m_rest (p, s, cs) = s"
  by (simp add: m_rest_def)

definition word_char :: "char \<Rightarrow> bool" where
  "word_char c \<longleftrightarrow> (let n = of_char c :: nat in 48 \<le> n \<and> n \<le> 57 \<or> 65 \<le> n \<and> n \<le> 90 \<or> n = 95 \<or> 97 \<le> n \<and> n \<le> 122)"

definition at_word :: "char option \<Rightarrow> bool" where
  "at_word p = (case p of None \<Rightarrow> False | Some c \<Rightarrow> word_char c)"

fun first_char :: "string \<Rightarrow> char option" where
  "first_char [] = None"
| "first_char (c # cs) = Some c"

text \<open>All ways an expression matches at one place, in the order of preference.\<close>

function ms :: "re \<Rightarrow> mstate \<Rightarrow> mstate list" where
  "ms Eps st = [st]"
| "ms (Cls p) st = (case st of
     (pv, c # s, cs) \<Rightarrow> if p c then [(Some c, s, cs)] else []
   | (pv, [], cs) \<Rightarrow> [])"
| "ms (Seq a b) st = concat (map (ms b) (ms a st))"
| "ms (Alt a b) st = ms a st @ ms b st"
| "ms (Star a) st =
     concat (map (\<lambda>st'. if length (m_rest st') < length (m_rest st) then ms (Star a) st' else []) (ms a st)) @ [st]"
| "ms (Grp n a) st =
     map (\<lambda>(pv, s, cs). (pv, s, (n, take (length (m_rest st) - length s) (m_rest st)) # cs)) (ms a st)"
| "ms Bol st = (if fst st = None then [st] else [])"
| "ms Eol st = (if m_rest st = [] then [st] else [])"
| "ms WordB st = (if at_word (fst st) \<noteq> at_word (first_char (m_rest st)) then [st] else [])"
  by pat_completeness auto
termination
  by (relation "measures [\<lambda>(r, st). size r, \<lambda>(r, st). length (m_rest st)]") auto

declare ms.simps(5) [simp del]

text \<open>The leftmost match: what it matched and its groups.\<close>

fun re_search :: "re \<Rightarrow> char option \<Rightarrow> string \<Rightarrow> (string \<times> (nat \<times> string) list) option" where
  "re_search r pv [] = (case ms r (pv, [], []) of [] \<Rightarrow> None | (q, t, cs) # _ \<Rightarrow> Some ([], cs))"
| "re_search r pv (c # s) =
     (case ms r (pv, c # s, []) of
        [] \<Rightarrow> re_search r (Some c) s
      | (q, t, cs) # _ \<Rightarrow> Some (take (length (c # s) - length t) (c # s), cs))"

definition FindStringSubmatch :: "re \<Rightarrow> string \<Rightarrow> (string \<times> (nat \<times> string) list) option" where
  "FindStringSubmatch r s = re_search r None s"

definition MatchString :: "re \<Rightarrow> string \<Rightarrow> bool" where
  "MatchString r s \<longleftrightarrow> re_search r None s \<noteq> None"

text \<open>Group \<open>n\<close> of a match, empty if it did not take part.\<close>

definition submatch :: "nat \<Rightarrow> string \<times> (nat \<times> string) list \<Rightarrow> string" where
  "submatch n m = (case map_of (snd m) n of None \<Rightarrow> [] | Some t \<Rightarrow> t)"

section \<open>Common expressions\<close>

definition chr_re :: "char \<Rightarrow> re" where
  "chr_re c = Cls (\<lambda>d. d = c)"

fun lit :: "string \<Rightarrow> re" where
  "lit [] = Eps"
| "lit (c # cs) = Seq (chr_re c) (lit cs)"

fun alts :: "re list \<Rightarrow> re" where
  "alts [] = Cls (\<lambda>c. False)"
| "alts [r] = r"
| "alts (r # rs) = Alt r (alts rs)"

fun seqs :: "re list \<Rightarrow> re" where
  "seqs [] = Eps"
| "seqs (r # rs) = Seq r (seqs rs)"

definition plus_re :: "re \<Rightarrow> re" where
  "plus_re r = Seq r (Star r)"

definition opt_re :: "re \<Rightarrow> re" where
  "opt_re r = Alt r Eps"

definition upper :: "char \<Rightarrow> bool" where
  "upper c \<longleftrightarrow> (let n = of_char c :: nat in 65 \<le> n \<and> n \<le> 90)"

definition lower :: "char \<Rightarrow> bool" where
  "lower c \<longleftrightarrow> (let n = of_char c :: nat in 97 \<le> n \<and> n \<le> 122)"

definition digit :: "char \<Rightarrow> bool" where
  "digit c \<longleftrightarrow> (let n = of_char c :: nat in 48 \<le> n \<and> n \<le> 57)"

definition alnum :: "char \<Rightarrow> bool" where
  "alnum c \<longleftrightarrow> upper c \<or> lower c \<or> digit c"

text \<open>The class \<open>\s\<close>.\<close>

definition re_space :: "char \<Rightarrow> bool" where
  "re_space c \<longleftrightarrow> c \<in> {CHR 0x09, CHR 0x0A, CHR 0x0C, CHR 0x0D, CHR '' ''}"

section \<open>What a match is\<close>

lemma ms_suffix: "st' \<in> set (ms r st) \<Longrightarrow> suffix (m_rest st') (m_rest st)"
proof (induction r st arbitrary: st' rule: ms.induct)
  case (3 a b st)
  from 3(3) obtain st1 where "st1 \<in> set (ms a st)" "st' \<in> set (ms b st1)" by auto
  then show ?case using 3(1,2) suffix_order.trans by blast
next
  case (4 a b st)
  from 4(3) have "st' \<in> set (ms a st) \<or> st' \<in> set (ms b st)" by simp
  then show ?case using 4(1,2) by blast
next
  case (5 a st)
  have "st' = st \<or> (\<exists>st1\<in>set (ms a st). length (m_rest st1) < length (m_rest st) \<and> st' \<in> set (ms (Star a) st1))"
    using 5(3) by (subst (asm) ms.simps(5)) (simp split: if_splits, blast)
  then show ?case using 5(1,2) suffix_order.trans by blast
next
  case (2 p st)
  then show ?case by (cases st) (auto simp: suffix_ConsI split: if_splits list.splits)
next
  case (6 n a st)
  from 6(2) obtain p s cs where st: "(p, s, cs) \<in> set (ms a st)" "m_rest st' = s" by auto
  show ?case using 6(1) [OF st(1)] st(2) by simp
qed (simp_all split: if_splits)

lemma re_search_anchored: "re_search (Seq Bol r) (Some c) s = None"
  by (induction s arbitrary: c) simp_all

lemma FindStringSubmatch_anchored:
  "FindStringSubmatch (Seq Bol r) s = (case ms r (None, s, []) of
     [] \<Rightarrow> None | (q, t, cs) # _ \<Rightarrow> Some (take (length s - length t) s, cs))"
proof (cases s)
  case Nil
  then show ?thesis by (auto simp: FindStringSubmatch_def split: list.split)
next
  case (Cons c cs)
  then show ?thesis by (auto simp: FindStringSubmatch_def re_search_anchored split: list.split)
qed

lemma FindStringSubmatch_anchoredE:
  assumes "FindStringSubmatch (Seq Bol r) s = Some m"
  obtains q t cs where "(q, t, cs) \<in> set (ms r (None, s, []))" "snd m = cs"
proof (cases "ms r (None, s, [])")
  case Nil
  then show ?thesis using assms by (simp add: FindStringSubmatch_anchored)
next
  case (Cons st sts)
  obtain q t cs where st: "st = (q, t, cs)" by (cases st)
  show ?thesis by (rule that [of q t cs]) (use Cons st assms in \<open>auto simp: FindStringSubmatch_anchored\<close>)
qed

lemma ms_lit: "(q, t, cs') \<in> set (ms (lit x) (p, s, cs)) \<Longrightarrow> s = x @ t \<and> cs' = cs"
proof (induction x arbitrary: p s)
  case (Cons c x)
  then show ?case by (cases s) (auto simp: chr_re_def split: if_splits)
qed simp

fun group_free :: "re \<Rightarrow> bool" where
  "group_free (Seq a b) \<longleftrightarrow> group_free a \<and> group_free b"
| "group_free (Alt a b) \<longleftrightarrow> group_free a \<and> group_free b"
| "group_free (Star a) \<longleftrightarrow> group_free a"
| "group_free (Grp n a) \<longleftrightarrow> False"
| "group_free _ \<longleftrightarrow> True"

lemma ms_group_free: "st' \<in> set (ms r st) \<Longrightarrow> group_free r \<Longrightarrow> snd (snd st') = snd (snd st)"
proof (induction r st arbitrary: st' rule: ms.induct)
  case (3 a b st)
  from 3(3) obtain st1 where "st1 \<in> set (ms a st)" "st' \<in> set (ms b st1)" by auto
  then show ?case using 3(1,2,4) by simp
next
  case (4 a b st)
  from 4(3) have "st' \<in> set (ms a st) \<or> st' \<in> set (ms b st)" by simp
  then show ?case using 4(1,2,4) by (meson group_free.simps(2))
next
  case (5 a st)
  have "st' = st \<or> (\<exists>st1\<in>set (ms a st). length (m_rest st1) < length (m_rest st) \<and> st' \<in> set (ms (Star a) st1))"
    using 5(3) by (subst (asm) ms.simps(5)) (simp split: if_splits, blast)
  then show ?case
  proof
    assume "\<exists>st1\<in>set (ms a st). length (m_rest st1) < length (m_rest st) \<and> st' \<in> set (ms (Star a) st1)"
    then obtain st1 where "st1 \<in> set (ms a st)" "length (m_rest st1) < length (m_rest st)" "st' \<in> set (ms (Star a) st1)"
      by blast
    from 5(1) [OF this(1)] 5(2) [OF this] 5(4) show ?thesis by simp
  qed simp
next
  case (2 p st)
  then show ?case by (cases st) (auto split: if_splits list.splits)
qed (simp_all split: if_splits)

lemma ms_Grp:
  assumes "(q, t, cs') \<in> set (ms (Grp n a) (p, s, cs))" and "group_free a"
  obtains u where "s = u @ t" "cs' = (n, u) # cs" "(q, t, cs) \<in> set (ms a (p, s, cs))"
proof -
  from assms(1) obtain cs2 where m: "(q, t, cs2) \<in> set (ms a (p, s, cs))" "cs' = (n, take (length s - length t) s) # cs2"
    by auto
  have "suffix t s" using ms_suffix [OF m(1)] by simp
  then obtain u where "s = u @ t" by (auto elim: suffixE)
  moreover have "cs2 = cs" using ms_group_free [OF m(1) assms(2)] by simp
  ultimately show ?thesis using m that by simp
qed

lemma ms_Seq: "(q, t, cs') \<in> set (ms (Seq a b) st) \<Longrightarrow> \<exists>p s cs. (p, s, cs) \<in> set (ms a st) \<and> (q, t, cs') \<in> set (ms b (p, s, cs))"
  by auto

lemma ms_Eol: "(q, t, cs') \<in> set (ms (seqs [Eol]) (p, s, cs)) \<Longrightarrow> s = [] \<and> t = [] \<and> cs' = cs"
  by (auto split: if_splits)

lemma group_free_lit [simp]: "group_free (lit x)"
  by (induction x) (simp_all add: chr_re_def)

text \<open>Runs of a class.\<close>

lemma ms_Cls: "(q, t, cs') \<in> set (ms (Cls P) (p, s, cs)) \<longleftrightarrow> (\<exists>c. s = c # t \<and> P c \<and> cs' = cs \<and> q = Some c)"
  by (cases s) auto

lemma ms_Star_Cls: "(q, t, cs') \<in> set (ms (Star (Cls P)) (p, s, cs)) \<Longrightarrow> \<exists>u. s = u @ t \<and> list_all P u"
proof (induction s arbitrary: p cs)
  case Nil
  then show ?case by (subst (asm) ms.simps(5)) auto
next
  case (Cons c s)
  from Cons.prems have "t = c # s \<or> P c \<and> (q, t, cs') \<in> set (ms (Star (Cls P)) (Some c, s, cs))"
    by (subst (asm) ms.simps(5)) (auto split: if_splits)
  then show ?case
  proof
    assume "P c \<and> (q, t, cs') \<in> set (ms (Star (Cls P)) (Some c, s, cs))"
    then obtain u where "s = u @ t" "list_all P u" "P c" using Cons.IH by blast
    then show ?thesis by (intro exI [of _ "c # u"]) simp
  qed simp
qed

lemma ms_plus_Cls: "(q, t, cs') \<in> set (ms (plus_re (Cls P)) (p, s, cs)) \<Longrightarrow> \<exists>u. s = u @ t \<and> u \<noteq> [] \<and> list_all P u"
proof -
  assume "(q, t, cs') \<in> set (ms (plus_re (Cls P)) (p, s, cs))"
  then obtain p1 s1 cs1 where 1: "(p1, s1, cs1) \<in> set (ms (Cls P) (p, s, cs))" "(q, t, cs') \<in> set (ms (Star (Cls P)) (p1, s1, cs1))"
    unfolding plus_re_def by (blast dest: ms_Seq)
  from 1(1) obtain c where "s = c # s1" "P c" unfolding ms_Cls by blast
  moreover obtain u where "s1 = u @ t" "list_all P u" using ms_Star_Cls [OF 1(2)] by blast
  ultimately show ?thesis by (intro exI [of _ "c # u"]) simp
qed

end
