(* ===== verification/SpecParser.thy ===== *)
theory SpecParser
  imports Regex Strconv
begin

text \<open>
  The parser of specification documents (\<open>tools/validate-spec/parser.go\<close>): a scan over the lines of a
  Markdown file that keeps the state of code fences and comments, the current section and the task
  being read.
\<close>

section \<open>The model of a document\<close>

record requirement =
  rq_id :: string
  rq_line :: gint
  rq_noTestPresent :: bool
  rq_noTestReason :: string

record testCase =
  tc_id :: string
  tc_reqRef :: string
  tc_line :: gint

record task =
  tk_id :: string
  tk_files :: "string list"
  tk_tests :: "string list"
  tk_depends :: "string list"
  tk_line :: gint
  tk_execOnly :: bool

record batch =
  b_index :: gint
  b_taskIDs :: "string list"
  b_sharedAdditive :: "string list"
  b_line :: gint

record model =
  m_status :: string
  m_slug :: string
  m_statusLineCount :: nat
  m_slugLineCount :: nat
  m_statusRaw :: string
  m_sections :: "string list"
  m_reqs :: "requirement list"
  m_tcs :: "testCase list"
  m_tasks :: "task list"
  m_batches :: "batch list"
  m_bodyStripped :: string
  m_statusLine :: gint
  m_slugLine :: gint

definition empty_model :: model where
  "empty_model =
     \<lparr>m_status = [], m_slug = [], m_statusLineCount = 0, m_slugLineCount = 0, m_statusRaw = [], m_sections = [],
      m_reqs = [], m_tcs = [], m_tasks = [], m_batches = [], m_bodyStripped = [], m_statusLine = 0, m_slugLine = 0\<rparr>"

section \<open>The expressions\<close>

definition checkbox_re :: re where
  "checkbox_re = seqs [Bol, lit ''- ['', Cls (\<lambda>c. c = CHR '' '' \<or> c = CHR ''x''), lit ''] '']"

definition id_tail :: re where
  "id_tail = Star (Cls (\<lambda>c. alnum c \<or> c = CHR ''_'' \<or> c = CHR ''-''))"

definition digits_re :: re where
  "digits_re = plus_re (Cls digit)"

definition upper_word :: re where
  "upper_word = Seq (Cls upper) (Star (Cls (\<lambda>c. upper c \<or> digit c)))"

definition type_re :: re where
  "type_re = plus_re (Cls (\<lambda>c. upper c \<or> digit c))"

definition reReqDecl :: re where
  "reReqDecl = seqs [checkbox_re, Grp 1 (Seq (Cls alnum) id_tail), lit '': '']"

definition reNoTest :: re where
  "reNoTest = seqs [lit ''(no-test:'', Grp 1 (Star (Cls (\<lambda>c. c \<noteq> CHR '')''))), lit '')'']"

definition column_re :: re where
  "column_re = plus_re (Cls (\<lambda>c. c \<noteq> CHR ''|''))"

definition reTCRow :: re where
  "reTCRow = seqs [Bol, lit ''| '', Grp 1 column_re, lit '' | '', Grp 2 column_re, lit '' |'']"

definition reTaskDecl :: re where
  "reTaskDecl = seqs [checkbox_re,
     Grp 1 (Seq (lit ''TASK-'') (Alt digits_re (Seq upper_word (Star (Seq (lit ''-'') upper_word))))), lit '': '']"

definition reBatchLine :: re where
  "reBatchLine = seqs [Bol, lit ''Batch '', Grp 1 digits_re, lit '': ['', Grp 2 (Star (Cls (\<lambda>c. c \<noteq> CHR '']''))), lit '']'']"

definition reSharedAdd :: re where
  "reSharedAdd = seqs [lit ''shared-additive:'', Star (Cls re_space), Grp 1 (plus_re (Cls (\<lambda>c. c \<noteq> CHR 0x0A)))]"

definition reReqID :: re where
  "reReqID = Alt (seqs [Bol, Cls alnum, id_tail, lit ''-REQ-'', digits_re, Eol]) (seqs [Bol, lit ''REQ-'', digits_re, Eol])"

definition reTCID :: re where
  "reTCID = Alt (seqs [Bol, Cls alnum, id_tail, lit ''-TC-'', type_re, lit ''-'', digits_re, Eol])
     (seqs [Bol, lit ''TC-'', type_re, lit ''-'', digits_re, Eol])"

section \<open>Lines\<close>

fun parseInt_from :: "gint \<Rightarrow> string \<Rightarrow> gint" where
  "parseInt_from n [] = n"
| "parseInt_from n (c # cs) =
     (if \<not> digit c then 0 else parseInt_from (n * 10 + gint (int (of_char c) - 48)) cs)"

definition parseInt :: "string \<Rightarrow> gint" where
  "parseInt s = parseInt_from 0 s"

definition parseCommaList :: "string \<Rightarrow> string list" where
  "parseCommaList s = filter (\<lambda>p. p \<noteq> []) (map TrimSpace (Split s CHR '',''))"

definition parseBracketList :: "string \<Rightarrow> string list" where
  "parseBracketList s = parseCommaList s"

definition parseFileList :: "string \<Rightarrow> string list" where
  "parseFileList s =
     (if Contains s '','' then parseCommaList s else filter (\<lambda>p. p \<noteq> []) (Fields s))"

text \<open>The text of a line outside comments, and whether a comment is open at its end.\<close>

function strip_from :: "string \<Rightarrow> string \<Rightarrow> bool \<Rightarrow> string \<times> bool" where
  "strip_from b work inComment =
     (if inComment then
        (case Index work ''-->'' of
           None \<Rightarrow> (b, True)
         | Some i \<Rightarrow> strip_from b (drop (i + 3) work) False)
      else
        (case Index work ''<!--'' of
           None \<Rightarrow> (b @ work, False)
         | Some i \<Rightarrow> strip_from (b @ take i work) (drop (i + 4) work) True))"
  by pat_completeness auto
termination
proof (relation "measure (\<lambda>(b, work, c). length work)")
  have len: "Index s (x # t) = Some i \<Longrightarrow> length (drop (i + k) s) < length s" if "0 < k" for s x t i k
    using that by (cases s) (auto split: if_splits)
  show "((b, drop (i + 3) work, False), b, work, c) \<in> measure (\<lambda>(b, work, c). length work)"
    if "c" "Index work ''-->'' = Some i" for b work i c using that len [of 3 work] by simp
  show "((b @ take i work, drop (i + 4) work, True), b, work, c) \<in> measure (\<lambda>(b, work, c). length work)"
    if "\<not> c" "Index work ''<!--'' = Some i" for b work i c using that len [of 4 work] by simp
qed simp

declare strip_from.simps [simp del]

definition stripComments :: "string \<Rightarrow> bool \<Rightarrow> string \<times> bool" where
  "stripComments line inComment = strip_from [] line inComment"

definition parseReqLine :: "string \<Rightarrow> gint \<Rightarrow> model \<Rightarrow> model" where
  "parseReqLine line lineNo m =
     (case FindStringSubmatch reReqDecl line of
        None \<Rightarrow> m
      | Some match \<Rightarrow>
          (let reqID = submatch 1 match in
           if \<not> MatchString reReqID reqID then m
           else
             (let r = (case FindStringSubmatch reNoTest line of
                  None \<Rightarrow> \<lparr>rq_id = reqID, rq_line = lineNo, rq_noTestPresent = False, rq_noTestReason = []\<rparr>
                | Some ntm \<Rightarrow> \<lparr>rq_id = reqID, rq_line = lineNo, rq_noTestPresent = True,
                    rq_noTestReason = TrimSpace (submatch 1 ntm)\<rparr>)
              in m\<lparr>m_reqs := m_reqs m @ [r]\<rparr>)))"

definition parseTCLine :: "string \<Rightarrow> gint \<Rightarrow> model \<Rightarrow> model" where
  "parseTCLine line lineNo m =
     (case FindStringSubmatch reTCRow line of
        None \<Rightarrow> m
      | Some match \<Rightarrow>
          (let tcID = TrimSpace (submatch 1 match); reqRef = TrimSpace (submatch 2 match) in
           if tcID = ''TC-ID'' \<or> tcID = ''TC'' \<or> HasPrefix tcID ''---'' \<or> HasPrefix tcID ''==='' then m
           else if \<not> MatchString reTCID tcID then m
           else m\<lparr>m_tcs := m_tcs m @ [\<lparr>tc_id = tcID, tc_reqRef = reqRef, tc_line = lineNo\<rparr>]\<rparr>))"

text \<open>The dash in the note of a task without files is U+2014.\<close>

definition execution_only :: string where
  "execution_only = ''(none '' @ [CHR 0xE2, CHR 0x80, CHR 0x94] @ '' execution only)''"

definition parseTaskSubItem :: "string \<Rightarrow> task \<Rightarrow> task" where
  "parseTaskSubItem line t =
     (let trimmed = TrimSpace line in
      case CutPrefix trimmed ''- files:'' of
        Some after \<Rightarrow>
          (let val = TrimSpace after in
           if val = execution_only \<or> val = ''(none)'' then t\<lparr>tk_execOnly := True\<rparr>
           else if val \<noteq> [] then t\<lparr>tk_files := tk_files t @ parseFileList val\<rparr> else t)
      | None \<Rightarrow>
          (case CutPrefix trimmed ''- tests:'' of
             Some after \<Rightarrow> t\<lparr>tk_tests := tk_tests t @ parseCommaList (TrimSpace after)\<rparr>
           | None \<Rightarrow>
               (case CutPrefix trimmed ''- depends:'' of
                  Some after \<Rightarrow> t\<lparr>tk_depends := tk_depends t @ parseCommaList (TrimSpace after)\<rparr>
                | None \<Rightarrow> t)))"

section \<open>The scan\<close>

record scan =
  sn_inFence :: bool
  sn_fenceMarker :: string
  sn_inComment :: bool
  sn_body :: string
  sn_section :: string
  sn_task :: "task option"
  sn_model :: model

definition finalizeTask :: "scan \<Rightarrow> scan" where
  "finalizeTask s =
     (case sn_task s of
        None \<Rightarrow> s
      | Some t \<Rightarrow> s\<lparr>sn_model := (sn_model s)\<lparr>m_tasks := m_tasks (sn_model s) @ [t]\<rparr>, sn_task := None\<rparr>)"

definition new_task :: "string \<Rightarrow> gint \<Rightarrow> task" where
  "new_task i lineNo = \<lparr>tk_id = i, tk_files = [], tk_tests = [], tk_depends = [], tk_line = lineNo, tk_execOnly = False\<rparr>"

text \<open>A line that opens or closes a fence.\<close>

definition scan_fence :: "scan \<Rightarrow> nat \<Rightarrow> string \<Rightarrow> scan option" where
  "scan_fence s leadingSpaces trimmed =
     (if leadingSpaces \<le> 3 then
        (if \<not> sn_inFence s then
           (if HasPrefix trimmed ''```'' then Some (s\<lparr>sn_inFence := True, sn_fenceMarker := ''```''\<rparr>)
            else if HasPrefix trimmed ''~~~'' then Some (s\<lparr>sn_inFence := True, sn_fenceMarker := ''~~~''\<rparr>)
            else None)
         else if sn_fenceMarker s = ''```'' \<and> HasPrefix trimmed ''```'' then
           Some (s\<lparr>sn_inFence := False, sn_fenceMarker := []\<rparr>)
         else if sn_fenceMarker s = ''~~~'' \<and> HasPrefix trimmed ''~~~'' then
           Some (s\<lparr>sn_inFence := False, sn_fenceMarker := []\<rparr>)
         else None)
      else None)"

definition scan_heading :: "gint \<Rightarrow> string \<Rightarrow> scan \<Rightarrow> scan" where
  "scan_heading lineNo heading s =
     (let m = sn_model s in
      if HasPrefix heading ''Status: '' then
        (let m1 = m\<lparr>m_statusLineCount := Suc (m_statusLineCount m)\<rparr>;
             raw = TrimPrefix heading ''Status: '';
             m2 = (if m_statusLineCount m1 = 1 then
                     m1\<lparr>m_statusLine := lineNo, m_statusRaw := raw,
                        m_status := (case Fields raw of [] \<Rightarrow> m_status m1 | f # fs \<Rightarrow> f)\<rparr>
                   else m1)
         in finalizeTask (s\<lparr>sn_model := m2\<rparr>))
      else if HasPrefix heading ''Slug: '' then
        (let m1 = m\<lparr>m_slugLineCount := Suc (m_slugLineCount m)\<rparr>;
             m2 = (if m_slugLineCount m1 = 1 then
                     m1\<lparr>m_slugLine := lineNo, m_slug := TrimSpace (TrimPrefix heading ''Slug: '')\<rparr> else m1)
         in finalizeTask (s\<lparr>sn_model := m2\<rparr>))
      else
        (let s1 = finalizeTask s in
         s1\<lparr>sn_model := (sn_model s1)\<lparr>m_sections := heading # m_sections (sn_model s1)\<rparr>, sn_section := heading\<rparr>))"

fun add_shared :: "string list \<Rightarrow> batch list \<Rightarrow> batch list" where
  "add_shared files [] = []"
| "add_shared files [b] = [b\<lparr>b_sharedAdditive := b_sharedAdditive b @ files\<rparr>]"
| "add_shared files (b # rest) = b # add_shared files rest"

definition scan_content :: "gint \<Rightarrow> string \<Rightarrow> scan \<Rightarrow> scan" where
  "scan_content lineNo trimmed s =
     (if sn_section s = ''Requirements'' then s\<lparr>sn_model := parseReqLine trimmed lineNo (sn_model s)\<rparr>
      else if sn_section s = ''Test Plan'' then s\<lparr>sn_model := parseTCLine trimmed lineNo (sn_model s)\<rparr>
      else if sn_section s = ''Tasks'' then
        (case FindStringSubmatch reTaskDecl trimmed of
           Some tm \<Rightarrow> (finalizeTask s)\<lparr>sn_task := Some (new_task (submatch 1 tm) lineNo)\<rparr>
         | None \<Rightarrow> s\<lparr>sn_task := map_option (parseTaskSubItem trimmed) (sn_task s)\<rparr>)
      else if sn_section s = ''Parallel Batches'' then
        (case FindStringSubmatch reSharedAdd trimmed of
           Some sm \<Rightarrow> s\<lparr>sn_model := (sn_model s)\<lparr>m_batches := add_shared (parseFileList (submatch 1 sm)) (m_batches (sn_model s))\<rparr>\<rparr>
         | None \<Rightarrow> s)
      else s)"

definition scan_line :: "gint \<Rightarrow> string \<Rightarrow> scan \<Rightarrow> scan" where
  "scan_line lineNo rawLine0 s0 =
     (let trimmed0 = TrimLeft rawLine0 [CHR '' '', CHR 0x09];
          leadingSpaces = length rawLine0 - length trimmed0
      in
      case scan_fence s0 leadingSpaces trimmed0 of
        Some s \<Rightarrow> s
      | None \<Rightarrow>
          (let (rawLine, inC) = (if sn_inFence s0 then (rawLine0, sn_inComment s0)
                                 else stripComments rawLine0 (sn_inComment s0));
               trimmed = (if sn_inFence s0 then trimmed0 else TrimLeft rawLine [CHR '' '', CHR 0x09]);
               s1 = s0\<lparr>sn_inComment := inC, sn_body := sn_body s0 @ rawLine @ [CHR 0x0A]\<rparr>;
               s2 = (case FindStringSubmatch reBatchLine trimmed of
                   None \<Rightarrow> s1
                 | Some bm \<Rightarrow> s1\<lparr>sn_model := (sn_model s1)\<lparr>m_batches := m_batches (sn_model s1) @
                     [\<lparr>b_index = parseInt (submatch 1 bm), b_taskIDs = parseBracketList (submatch 2 bm),
                       b_sharedAdditive = [], b_line = lineNo\<rparr>]\<rparr>\<rparr>)
           in
           if sn_inFence s2 \<or> sn_inComment s2 then s2
           else if HasPrefix trimmed ''## '' then scan_heading lineNo (TrimPrefix trimmed ''## '') s2
           else if TrimSpace rawLine = [] then s2
           else scan_content lineNo trimmed s2))"

fun scan_lines :: "gint \<Rightarrow> string list \<Rightarrow> scan \<Rightarrow> scan" where
  "scan_lines lineNo [] s = s"
| "scan_lines lineNo (l # ls) s = scan_lines (lineNo + 1) ls (scan_line lineNo l s)"

definition initial_scan :: scan where
  "initial_scan = \<lparr>sn_inFence = False, sn_fenceMarker = [], sn_inComment = False, sn_body = [], sn_section = [],
     sn_task = None, sn_model = empty_model\<rparr>"

definition parseSpec :: "string \<Rightarrow> goerror + model" where
  "parseSpec content =
     (let s = finalizeTask (scan_lines 1 (Split content CHR 0x0A) initial_scan)
      in Inr ((sn_model s)\<lparr>m_bodyStripped := sn_body s\<rparr>))"

end
