(* ===== verification/ByteOrder.thy ===== *)
theory ByteOrder
  imports GoStrings "HOL-Library.List_Lexorder" "HOL-Library.Product_Lexorder" "HOL-Library.Multiset"
begin

text \<open>
  The order of Go strings, byte by byte, \<open>sort.Strings\<close>, and the facts about sorting by a key
  that the tools share.
\<close>

definition bytes :: "string \<Rightarrow> nat list" where
  "bytes s = map of_char s"

definition sort_Strings :: "string list \<Rightarrow> string list" where
  "sort_Strings xs = sort_key bytes xs"

lemma inj_bytes: "inj bytes"
  by (auto simp: bytes_def inj_def intro: inj_mapD inj_of_char)

lemma bytes_eq [simp]: "bytes s = bytes t \<longleftrightarrow> s = t"
  using inj_bytes by (auto simp: inj_eq)

text \<open>Sorting by a key that is different for different elements.\<close>

lemma sort_key_strict:
  fixes f :: "'a \<Rightarrow> 'k::linorder"
  assumes "distinct (map f xs)"
  shows "sorted_wrt (\<lambda>x y. f x < f y) (sort_key f xs)"
proof -
  have "distinct xs" "inj_on f (set xs)" using assms by (simp_all add: distinct_map)
  then have "distinct (map f (sort_key f xs))" by (simp add: distinct_map)
  then have "sorted_wrt (<) (map f (sort_key f xs))" by (simp add: strict_sorted_iff)
  then show ?thesis by (simp add: sorted_wrt_map)
qed

lemma sort_Strings_strict: "distinct xs \<Longrightarrow> sorted_wrt (\<lambda>s t. bytes s < bytes t) (sort_Strings xs)"
  unfolding sort_Strings_def by (rule sort_key_strict) (simp add: distinct_map inj_on_def)

lemma filter_singleton: "distinct zs \<Longrightarrow> k \<in> set zs \<Longrightarrow> filter (\<lambda>x. k = x) zs = [k]"
  by (induction zs) (auto simp: filter_empty_conv)

lemma sort_key_unique:
  assumes "mset xs = mset ys" and "distinct (map f xs)"
  shows "sort_key f xs = sort_key f ys"
proof (rule properties_for_sort_key)
  show "mset (sort_key f ys) = mset xs" using assms(1) by simp
  show "sorted (map f (sort_key f ys))" by simp
  show "filter (\<lambda>x. f k = f x) (sort_key f ys) = filter (\<lambda>x. f k = f x) xs" if k: "k \<in> set (sort_key f ys)" for k
  proof -
    have inj: "inj_on f (set xs)" "distinct xs" using assms(2) by (simp_all add: distinct_map)
    have "k \<in> set xs" using k mset_eq_setD [OF assms(1)] by simp
    have one: "filter (\<lambda>x. f k = f x) zs = [k]" if zs: "mset zs = mset xs" for zs
    proof -
      have "distinct zs" "set zs = set xs"
        using mset_eq_imp_distinct_iff [OF zs] inj(2) mset_eq_setD [OF zs] by simp_all
      then have "filter (\<lambda>x. f k = f x) zs = filter (\<lambda>x. k = x) zs"
        using inj(1) \<open>k \<in> set xs\<close> by (intro filter_cong) (auto simp: inj_on_def)
      also have "\<dots> = [k]"
        using \<open>distinct zs\<close> \<open>k \<in> set xs\<close> \<open>set zs = set xs\<close> filter_singleton by metis
      finally show ?thesis .
    qed
    show ?thesis using one [of "sort_key f ys"] one [of xs] assms(1) by simp
  qed
qed

end
