(* ===== verification/PathsLines.thy ===== *)
theory PathsLines
  imports GoStrings
begin

text \<open>
  What the tools use of \<open>path/filepath\<close>, with the separator of Unix, and of \<open>bufio.Scanner\<close>.
\<close>

section \<open>Paths\<close>

text \<open>\<open>filepath.Clean\<close> and \<open>filepath.Join\<close> of two elements.\<close>

fun clean_elems :: "bool \<Rightarrow> string list \<Rightarrow> string list \<Rightarrow> string list" where
  "clean_elems rooted stack [] = rev stack"
| "clean_elems rooted stack (e # es) =
     (if e = [] \<or> e = ''.'' then clean_elems rooted stack es
      else if e = ''..'' then
        (case stack of
           [] \<Rightarrow> clean_elems rooted (if rooted then [] else [''..'']) es
         | s # ss \<Rightarrow> clean_elems rooted (if s = ''..'' then ''..'' # stack else ss) es)
      else clean_elems rooted (e # stack) es)"

definition path_Clean :: "string \<Rightarrow> string" where
  "path_Clean p =
     (let rooted = HasPrefix p ''/'';
          out = (if rooted then ''/'' else []) @ Join (clean_elems rooted [] (Split p CHR ''/'')) ''/''
      in if out = [] then ''.'' else out)"

definition path_Join :: "string \<Rightarrow> string \<Rightarrow> string" where
  "path_Join dir name =
     (if dir = [] then (if name = [] then [] else path_Clean name) else path_Clean (dir @ ''/'' @ name))"

text \<open>\<open>filepath.Base\<close> with the separator of Unix.\<close>

definition path_Base :: "string \<Rightarrow> string" where
  "path_Base p =
     (if p = [] then ''.''
      else (let q = rev (dropWhile (\<lambda>c. c = CHR ''/'') (rev p));
                b = rev (takeWhile (\<lambda>c. c \<noteq> CHR ''/'') (rev q))
            in if b = [] then ''/'' else b))"

text \<open>The directory of a path, and the suffix of its last element from the last dot on.\<close>

definition path_Dir :: "string \<Rightarrow> string" where
  "path_Dir p = path_Clean (rev (dropWhile (\<lambda>c. c \<noteq> CHR ''/'') (rev p)))"

definition path_Ext :: "string \<Rightarrow> string" where
  "path_Ext p =
     (let name = rev (takeWhile (\<lambda>c. c \<noteq> CHR ''/'') (rev p)) in
      case LastIndexByte name CHR ''.'' of None \<Rightarrow> [] | Some i \<Rightarrow> drop i name)"

section \<open>Lines\<close>

definition eol :: string where "eol = [CHR 0x0A]"

text \<open>
  The lines of a scanner; \<open>scan_fits\<close> is false for a text with a line as long as the buffer, at which the scanner
  stops with an error.
\<close>

definition drop_cr :: "string \<Rightarrow> string" where
  "drop_cr l = (if l \<noteq> [] \<and> last l = CHR 0x0D then butlast l else l)"

definition scanner_lines :: "string \<Rightarrow> string list" where
  "scanner_lines data =
     (let ls = Split data CHR 0x0A in map drop_cr (if last ls = [] then butlast ls else ls))"

definition scan_fits :: "nat \<Rightarrow> string \<Rightarrow> bool" where
  "scan_fits limit data \<longleftrightarrow> list_all (\<lambda>l. length l < limit) (Split data CHR 0x0A)"

definition one_line :: "string \<Rightarrow> bool" where
  "one_line s \<longleftrightarrow> CHR 0x0A \<notin> set s"

lemma Split_lines: "list_all one_line ls \<Longrightarrow> Split (concat (map (\<lambda>l. l @ eol) ls)) CHR 0x0A = ls @ [[]]"
  by (induction ls) (auto simp: one_line_def eol_def Split_append_sep)

text \<open>A scanner reads back the lines of a text.\<close>

definition scan_line_ok :: "string \<Rightarrow> bool" where
  "scan_line_ok l \<longleftrightarrow> one_line l \<and> (l = [] \<or> last l \<noteq> CHR 0x0D)"

lemma scanner_lines_render:
  assumes "list_all scan_line_ok ls"
  shows "scanner_lines (concat (map (\<lambda>l. l @ eol) ls)) = ls"
proof -
  have "list_all one_line ls" using assms by (auto simp: list_all_iff scan_line_ok_def)
  moreover have "map drop_cr ls = ls" using assms by (induction ls) (auto simp: drop_cr_def scan_line_ok_def)
  ultimately show ?thesis by (simp add: scanner_lines_def Split_lines)
qed

end
