(* ===== verification/SpecLint.thy ===== *)
theory SpecLint
  imports SpecParser ByteOrder PathsLines
begin

text \<open>
  The checks on a parsed specification (\<open>tools/validate-spec/validate.go\<close>), one definition per check.
  Sets and maps keyed by strings are lists and functions; \<open>isp\<close> is \<open>strconv.IsPrint\<close> beyond ASCII, for \<open>%q\<close>.
\<close>

section \<open>Findings\<close>

datatype severity = severityWarn | severityError

fun severity_String :: "severity \<Rightarrow> string" where
  "severity_String severityWarn = ''warning''"
| "severity_String severityError = ''error''"

record finding =
  fi_line :: gint
  fi_sev :: severity
  fi_msg :: string

definition err_at :: "gint \<Rightarrow> string \<Rightarrow> finding" where
  "err_at lineNo msg = \<lparr>fi_line = lineNo, fi_sev = severityError, fi_msg = msg\<rparr>"

definition warn_at :: "gint \<Rightarrow> string \<Rightarrow> finding" where
  "warn_at lineNo msg = \<lparr>fi_line = lineNo, fi_sev = severityWarn, fi_msg = msg\<rparr>"

definition requiredSectionNames :: "string list" where
  "requiredSectionNames = [''Status'', ''Context'', ''Requirements'', ''Test Plan'', ''Design'', ''Tasks'',
     ''Parallel Batches'', ''Validation Criteria'', ''Execution Log'']"

definition validStatuses :: "string list" where
  "validStatuses = [''DRAFT'', ''APPROVED'', ''IN_PROGRESS'', ''DONE'', ''FAILED'', ''SUPERSEDED'', ''ARCHIVED'']"

definition registeredTCTypes :: "string list" where
  "registeredTCTypes = [''D'', ''UC'', ''E2E'', ''S'', ''SH'', ''CT'']"

definition reSlugFormat :: re where
  "reSlugFormat = seqs [Bol, upper_word, Eol]"

definition reCapLink :: re where
  "reCapLink = seqs [lit ''docs/capabilities/'', plus_re (Cls (\<lambda>c. c \<noteq> CHR ''/'' \<and> \<not> re_space c)), lit ''.md'']"

section \<open>Header and coverage\<close>

definition validateRequiredSections :: "model \<Rightarrow> finding list" where
  "validateRequiredSections m =
     (if m_statusLineCount m = 0 then [err_at 1 ''missing required section: Status''] else []) @
     concat (map (\<lambda>name. if name = ''Status'' then []
       else if name \<notin> set (m_sections m) then [err_at 1 (''missing required section: '' @ name)] else [])
       requiredSectionNames)"

definition validateStatusHeader :: "(nat \<Rightarrow> bool) \<Rightarrow> model \<Rightarrow> finding list" where
  "validateStatusHeader isp m =
     (let lineNo = (if m_statusLine m = 0 then 1 else m_statusLine m) in
      if m_statusLineCount m = 0 then [err_at 1 ''no ## Status: line found'']
      else if m_statusLineCount m > 1 then
        [err_at lineNo (''duplicate ## Status: lines ('' @ int_text (int (m_statusLineCount m)) @ '' found, expected 1)'')]
      else if m_status m \<notin> set validStatuses then
        [err_at lineNo (''unknown status '' @ strconv_Quote isp (m_status m)
           @ '' (must be one of DRAFT, APPROVED, IN_PROGRESS, DONE, FAILED, SUPERSEDED, ARCHIVED)'')]
      else
        (let raw = TrimSpace (m_statusRaw m) in
         if raw \<noteq> m_status m then
           [err_at lineNo (''status '' @ strconv_Quote isp (m_status m) @ '' has trailing inline qualifier ''
              @ strconv_Quote isp (TrimPrefix raw (m_status m @ '' '')) @ '' (must be bare state token only)'')]
         else []))"

definition validateSlugDeclared :: "(nat \<Rightarrow> bool) \<Rightarrow> model \<Rightarrow> finding list" where
  "validateSlugDeclared isp m =
     (if m_slug m = [] \<and> m_slugLineCount m = 0 then []
      else
        (let lineNo = (if m_slugLine m = 0 then 1 else m_slugLine m) in
         if m_slugLineCount m > 1 then
           [err_at lineNo (''duplicate ## Slug: lines ('' @ int_text (int (m_slugLineCount m)) @ '' found, expected 1)'')]
         else if \<not> MatchString reSlugFormat (m_slug m) then
           [err_at lineNo (''slug '' @ strconv_Quote isp (m_slug m) @ '' is invalid (must match ^[A-Z][A-Z0-9]*$)'')]
         else []))"

definition validateReqCovered :: "model \<Rightarrow> finding list" where
  "validateReqCovered m =
     (let covered = map tc_reqRef (m_tcs m) in
      concat (map (\<lambda>req.
        if rq_noTestPresent req then
          (if rq_noTestReason req = [] then
             [err_at (rq_line req) (''req '' @ rq_id req @ '' has (no-test:) annotation with empty reason'')]
           else [])
        else if rq_id req \<notin> set covered then
          [err_at (rq_line req) (''req '' @ rq_id req @ '' has no test coverage (add a TC or annotate with (no-test: reason))'')]
        else []) (m_reqs m)))"

definition validateTaskHasFiles :: "model \<Rightarrow> finding list" where
  "validateTaskHasFiles m =
     concat (map (\<lambda>t. if tk_execOnly t then []
       else if tk_files t = [] then [err_at (tk_line t) (''task '' @ tk_id t @ '' has no files: entry'')] else [])
       (m_tasks m))"

definition validateTestsRefValid :: "(nat \<Rightarrow> bool) \<Rightarrow> model \<Rightarrow> finding list" where
  "validateTestsRefValid isp m =
     (if m_slug m = [] then []
      else
        (let tcSet = map tc_id (m_tcs m) in
         concat (map (\<lambda>t. concat (map (\<lambda>ref. if ref \<notin> set tcSet then
             [err_at (tk_line t) (''task '' @ tk_id t @ '' tests: references undeclared TC '' @ strconv_Quote isp ref)]
           else []) (tk_tests t))) (m_tasks m))))"

definition validateTCReferenced :: "model \<Rightarrow> finding list" where
  "validateTCReferenced m =
     (if m_slug m = [] then []
      else
        (let referenced = concat (map tk_tests (m_tasks m)) in
         concat (map (\<lambda>tc. if tc_id tc \<notin> set referenced then
             [err_at (tc_line tc) (''TC '' @ tc_id tc @ '' is declared but referenced by no task's tests:'')]
           else []) (m_tcs m))))"

section \<open>Files of a task\<close>

definition excludedByPath :: "string \<Rightarrow> bool" where
  "excludedByPath path \<longleftrightarrow>
     HasSuffix (path_Base path) ''_test.go''
     \<or> list_ex (\<lambda>suffix. path = suffix \<or> HasSuffix path (''/'' @ suffix))
         [''cmd/api/server.go'', ''cmd/api/container.go'', ''cmd/api/router.go'']
     \<or> Contains path ''/migration/''"

definition validateGoProdTaskHasTests :: "model \<Rightarrow> finding list" where
  "validateGoProdTaskHasTests m =
     concat (map (\<lambda>t. if tk_tests t \<noteq> [] then []
       else if list_ex (\<lambda>f. HasSuffix f ''.go'' \<and> \<not> excludedByPath f) (tk_files t) then
         [warn_at (tk_line t) (''task '' @ tk_id t @ '' has production .go file(s) but no tests: entry'')]
       else []) (m_tasks m))"

section \<open>Dependencies\<close>

datatype color = White | Gray | Black

text \<open>The adjacency of the last task of each name, as the map built over the tasks.\<close>

definition task_map :: "model \<Rightarrow> (task \<Rightarrow> 'a) \<Rightarrow> string \<Rightarrow> 'a option" where
  "task_map m g i = map_of (rev (map (\<lambda>t. (tk_id t, g t)) (m_tasks m))) i"

definition adj :: "model \<Rightarrow> string \<Rightarrow> string list" where
  "adj m i = (case task_map m tk_depends i of None \<Rightarrow> [] | Some ds \<Rightarrow> ds)"

text \<open>
  The depth-first search from a white node: the edge that closes a cycle, if it meets one, and the colors
  afterwards.  The recursion goes to white nodes only; the fuel bounds its depth, and
  running out of it is \<open>None\<close>.
\<close>

fun dfs :: "nat \<Rightarrow> (string \<Rightarrow> string list) \<Rightarrow> string \<Rightarrow> (string \<Rightarrow> color) \<Rightarrow> (string option \<times> (string \<Rightarrow> color)) option"
and dfs_deps :: "nat \<Rightarrow> (string \<Rightarrow> string list) \<Rightarrow> string \<Rightarrow> string list \<Rightarrow> (string \<Rightarrow> color)
    \<Rightarrow> (string option \<times> (string \<Rightarrow> color)) option" where
  "dfs 0 g node col = None"
| "dfs (Suc k) g node col =
     (case dfs_deps k g node (g node) (col(node := Gray)) of
        None \<Rightarrow> None
      | Some (Some cyc, col1) \<Rightarrow> Some (Some cyc, col1)
      | Some (None, col1) \<Rightarrow> Some (None, col1(node := Black)))"
| "dfs_deps k g node [] col = Some (None, col)"
| "dfs_deps k g node (dep # deps) col =
     (if col dep = Gray then Some (Some (node @ ''->'' @ dep), col)
      else if col dep = White then
        (case dfs k g dep col of
           None \<Rightarrow> None
         | Some (Some cyc, col1) \<Rightarrow> Some (Some cyc, col1)
         | Some (None, col1) \<Rightarrow> dfs_deps k g node deps col1)
      else dfs_deps k g node deps col)"

text \<open>Every node that has a color becomes black after a cycle was reported.\<close>

definition blacken :: "(string \<Rightarrow> color) \<Rightarrow> string \<Rightarrow> color" where
  "blacken col n = (if col n = White then White else Black)"

fun dag_loop :: "nat \<Rightarrow> (string \<Rightarrow> string list) \<Rightarrow> task list \<Rightarrow> (string \<Rightarrow> color) \<Rightarrow> finding list option" where
  "dag_loop k g [] col = Some []"
| "dag_loop k g (t # ts) col =
     (if col (tk_id t) = White then
        (case dfs k g (tk_id t) col of
           None \<Rightarrow> None
         | Some (Some cyc, col1) \<Rightarrow>
             map_option (\<lambda>fs. err_at (tk_line t) (''dependency cycle detected: '' @ cyc) # fs)
               (dag_loop k g ts (blacken col1))
         | Some (None, col1) \<Rightarrow> dag_loop k g ts col1)
      else dag_loop k g ts col)"

text \<open>The nodes of the graph; the search is never deeper than their number.\<close>

definition dag_nodes :: "model \<Rightarrow> string list" where
  "dag_nodes m = map tk_id (m_tasks m) @ concat (map tk_depends (m_tasks m))"

definition validateDependsDAG :: "model \<Rightarrow> finding list option" where
  "validateDependsDAG m = dag_loop (Suc (length (dag_nodes m))) (adj m) (m_tasks m) (\<lambda>n. White)"

definition validateDependsExist :: "model \<Rightarrow> finding list" where
  "validateDependsExist m =
     (let taskIDs = map tk_id (m_tasks m) in
      concat (map (\<lambda>t. concat (map (\<lambda>dep. if dep \<notin> set taskIDs then
          [err_at (tk_line t) (''task '' @ tk_id t @ '' depends on '' @ dep @ '' which does not exist'')]
        else []) (tk_depends t))) (m_tasks m)))"

section \<open>Batches\<close>

definition validateBatchMembership :: "model \<Rightarrow> finding list" where
  "validateBatchMembership m =
     concat (map (\<lambda>t.
       let count = length (filter (\<lambda>tid. tid = tk_id t) (concat (map b_taskIDs (m_batches m)))) in
       if count = 0 then [err_at (tk_line t) (''task '' @ tk_id t @ '' is not in any batch'')]
       else if count > 1 then
         [err_at (tk_line t) (''task '' @ tk_id t @ '' appears in '' @ int_text (int count) @ '' batches (expected exactly 1)'')]
       else []) (m_tasks m))"

text \<open>The scan of the files of one batch, with the first task that claimed each file.\<close>

fun overlap_files ::
  "(nat \<Rightarrow> bool) \<Rightarrow> batch \<Rightarrow> string \<Rightarrow> string list \<Rightarrow> (string \<rightharpoonup> string) \<Rightarrow> finding list \<times> (string \<rightharpoonup> string)" where
  "overlap_files isp b tid [] owner = ([], owner)"
| "overlap_files isp b tid (f # fs) owner =
     (if f \<in> set (b_sharedAdditive b) then overlap_files isp b tid fs owner
      else (case owner f of
        Some o1 \<Rightarrow>
          (let (rest, owner1) = overlap_files isp b tid fs owner in
           (err_at (b_line b) (''batch '' @ int_text (sint (b_index b)) @ '': tasks '' @ o1 @ '' and '' @ tid
              @ '' both list file '' @ strconv_Quote isp f @ '' (not in shared-additive)'') # rest, owner1))
      | None \<Rightarrow> overlap_files isp b tid fs (owner(f \<mapsto> tid))))"

fun overlap_tasks ::
  "(nat \<Rightarrow> bool) \<Rightarrow> (string \<Rightarrow> string list) \<Rightarrow> batch \<Rightarrow> string list \<Rightarrow> (string \<rightharpoonup> string) \<Rightarrow> finding list" where
  "overlap_tasks isp taskFiles b [] owner = []"
| "overlap_tasks isp taskFiles b (tid # tids) owner =
     (let (fs, owner1) = overlap_files isp b tid (taskFiles tid) owner
      in fs @ overlap_tasks isp taskFiles b tids owner1)"

definition task_files :: "model \<Rightarrow> string \<Rightarrow> string list" where
  "task_files m i = (case task_map m tk_files i of None \<Rightarrow> [] | Some fs \<Rightarrow> fs)"

definition validateBatchFileOverlap :: "(nat \<Rightarrow> bool) \<Rightarrow> model \<Rightarrow> finding list" where
  "validateBatchFileOverlap isp m =
     concat (map (\<lambda>b. overlap_tasks isp (task_files m) b (b_taskIDs b) Map.empty) (m_batches m))"

definition taskBatchIdx :: "model \<Rightarrow> string \<Rightarrow> gint option" where
  "taskBatchIdx m i = map_of (rev (concat (map (\<lambda>b. map (\<lambda>tid. (tid, b_index b)) (b_taskIDs b)) (m_batches m)))) i"

definition validateBatchOrder :: "model \<Rightarrow> finding list" where
  "validateBatchOrder m =
     concat (map (\<lambda>t.
       case taskBatchIdx m (tk_id t) of
         None \<Rightarrow> []
       | Some tBatch \<Rightarrow>
           concat (map (\<lambda>dep.
             case taskBatchIdx m dep of
               None \<Rightarrow> []
             | Some depBatch \<Rightarrow>
                 if sint depBatch \<ge> sint tBatch then
                   [err_at (tk_line t) (''task '' @ tk_id t @ '' (batch '' @ int_text (sint tBatch) @ '') depends on '' @ dep
                      @ '' (batch '' @ int_text (sint depBatch) @ ''): dependency must be in an earlier batch'')]
                 else []) (tk_depends t))) (m_tasks m))"

section \<open>Identifiers\<close>

definition reSlugTCID :: re where
  "reSlugTCID = seqs [Bol, Grp 1 upper_word, lit ''-TC-'', Grp 2 type_re, lit ''-'', Grp 3 digits_re, Eol]"

definition reSlugREQID :: re where
  "reSlugREQID = seqs [Bol, Grp 1 upper_word, lit ''-REQ-'', Grp 2 digits_re, Eol]"

definition reLegacyTCID :: re where
  "reLegacyTCID = seqs [Bol, lit ''TC-'', Grp 1 type_re, lit ''-'', Grp 2 digits_re, Eol]"

definition req_format :: "(nat \<Rightarrow> bool) \<Rightarrow> string \<Rightarrow> requirement \<Rightarrow> finding list" where
  "req_format isp slug req =
     (case FindStringSubmatch reSlugREQID (rq_id req) of
        None \<Rightarrow> [err_at (rq_line req) (''req id '' @ strconv_Quote isp (rq_id req)
          @ '' does not match expected format '' @ slug @ ''-REQ-N'')]
      | Some match \<Rightarrow>
          if submatch 1 match \<noteq> slug then
            [err_at (rq_line req) (''req id '' @ strconv_Quote isp (rq_id req) @ '' has wrong slug prefix ''
               @ strconv_Quote isp (submatch 1 match) @ '' (expected '' @ slug @ '')'')]
          else [])"

text \<open>The checks on the type and the number of a test case.\<close>

definition tc_suffix :: "(nat \<Rightarrow> bool) \<Rightarrow> testCase \<Rightarrow> string \<Rightarrow> string \<Rightarrow> finding list" where
  "tc_suffix isp tc tcType digits =
     (if tcType \<notin> set registeredTCTypes then
        [err_at (tc_line tc) (''tc id '' @ strconv_Quote isp (tc_id tc) @ '' has unregistered type ''
           @ strconv_Quote isp tcType @ '' (must be one of D, UC, E2E, S, SH, CT)'')]
      else []) @
     (if length digits < 2 then
        [err_at (tc_line tc) (''tc id '' @ strconv_Quote isp (tc_id tc) @ '' suffix '' @ strconv_Quote isp digits
           @ '' must have at least 2 digits'')]
      else [])"

definition tc_format :: "(nat \<Rightarrow> bool) \<Rightarrow> string \<Rightarrow> testCase \<Rightarrow> finding list" where
  "tc_format isp slug tc =
     (case FindStringSubmatch reSlugTCID (tc_id tc) of
        None \<Rightarrow> [err_at (tc_line tc) (''tc id '' @ strconv_Quote isp (tc_id tc)
          @ '' does not match expected format '' @ slug @ ''-TC-TYPE-NN'')]
      | Some match \<Rightarrow>
          (if submatch 1 match \<noteq> slug then
             [err_at (tc_line tc) (''tc id '' @ strconv_Quote isp (tc_id tc) @ '' has wrong slug prefix ''
                @ strconv_Quote isp (submatch 1 match) @ '' (expected '' @ slug @ '')'')]
           else []) @ tc_suffix isp tc (submatch 2 match) (submatch 3 match))"

definition tc_legacy_format :: "(nat \<Rightarrow> bool) \<Rightarrow> testCase \<Rightarrow> finding list" where
  "tc_legacy_format isp tc =
     (case FindStringSubmatch reSlugTCID (tc_id tc) of
        Some match \<Rightarrow> tc_suffix isp tc (submatch 2 match) (submatch 3 match)
      | None \<Rightarrow>
          (case FindStringSubmatch reLegacyTCID (tc_id tc) of
             Some match \<Rightarrow> tc_suffix isp tc (submatch 1 match) (submatch 2 match)
           | None \<Rightarrow> [err_at (tc_line tc) (''tc id '' @ strconv_Quote isp (tc_id tc)
               @ '' does not match any recognized TC ID format'')]))"

definition validateIDFormat :: "(nat \<Rightarrow> bool) \<Rightarrow> model \<Rightarrow> finding list" where
  "validateIDFormat isp m =
     (if m_slug m \<noteq> [] then
        concat (map (req_format isp (m_slug m)) (m_reqs m)) @ concat (map (tc_format isp (m_slug m)) (m_tcs m))
      else concat (map (tc_legacy_format isp) (m_tcs m)))"

text \<open>Duplicates, with the line of the first declaration.\<close>

fun duplicates :: "(nat \<Rightarrow> bool) \<Rightarrow> string \<Rightarrow> (string \<rightharpoonup> gint) \<Rightarrow> (string \<times> gint) list \<Rightarrow> finding list" where
  "duplicates isp kind seen [] = []"
| "duplicates isp kind seen ((i, lineNo) # ids) =
     (case seen i of
        Some prev \<Rightarrow>
          err_at lineNo (''duplicate '' @ kind @ '' id '' @ strconv_Quote isp i @ '' (first declared at line ''
            @ int_text (sint prev) @ '')'') # duplicates isp kind seen ids
      | None \<Rightarrow> duplicates isp kind (seen(i \<mapsto> lineNo)) ids)"

definition validateIDUnique :: "(nat \<Rightarrow> bool) \<Rightarrow> model \<Rightarrow> finding list" where
  "validateIDUnique isp m =
     duplicates isp ''req'' Map.empty (map (\<lambda>r. (rq_id r, rq_line r)) (m_reqs m)) @
     duplicates isp ''tc'' Map.empty (map (\<lambda>t. (tc_id t, tc_line t)) (m_tcs m))"

definition validateTCRefValid :: "(nat \<Rightarrow> bool) \<Rightarrow> model \<Rightarrow> finding list" where
  "validateTCRefValid isp m =
     (let reqIDs = map rq_id (m_reqs m) in
      concat (map (\<lambda>tc. if tc_reqRef tc \<notin> set reqIDs then
          [err_at (tc_line tc) (''tc '' @ tc_id tc @ '' references req '' @ strconv_Quote isp (tc_reqRef tc) @ '' which does not exist'')]
        else []) (m_tcs m)))"

definition validateCapabilityLinked :: "model \<Rightarrow> finding list" where
  "validateCapabilityLinked m =
     (if m_slug m = [] then []
      else if MatchString reCapLink (m_bodyStripped m) then []
      else [warn_at 1 ''spec body does not reference any docs/capabilities/*.md file''])"

section \<open>All checks\<close>

definition validate :: "(nat \<Rightarrow> bool) \<Rightarrow> model \<Rightarrow> finding list option" where
  "validate isp m =
     (case validateDependsDAG m of
        None \<Rightarrow> None
      | Some dag \<Rightarrow>
          (let all_findings = validateRequiredSections m @ validateStatusHeader isp m @ validateSlugDeclared isp m
               @ validateReqCovered m @ validateTaskHasFiles m @ validateGoProdTaskHasTests m @ dag
               @ validateDependsExist m @ validateBatchMembership m @ validateBatchFileOverlap isp m
               @ validateBatchOrder m @ validateIDFormat isp m @ validateIDUnique isp m @ validateTCRefValid isp m
               @ validateTestsRefValid isp m @ validateTCReferenced m @ validateCapabilityLinked m
           in Some (sort_key (\<lambda>f. (sint (fi_line f), bytes (fi_msg f))) all_findings)))"

end
