(* ===== verification/SpecPlan.thy ===== *)
theory SpecPlan
  imports SpecLint "HOL-Library.Multiset"
begin

text \<open>
  What the checks on a specification establish: the search for dependency cycles ends and is exact, and a
  document without error findings describes a plan that can be executed and traced.
\<close>

section \<open>The search for cycles\<close>

definition edges :: "(string \<Rightarrow> string list) \<Rightarrow> (string \<times> string) set" where
  "edges g = {(x, y). y \<in> set (g x)}"

lemma edges_iff [simp]: "(x, y) \<in> edges g \<longleftrightarrow> y \<in> set (g x)"
  by (simp add: edges_def)

lemma dfs_SucE:
  assumes "dfs (Suc k) g node col = Some (r, col1)"
  obtains (cycle) c where "r = Some c" "dfs_deps k g node (g node) (col(node := Gray)) = Some (Some c, col1)"
  | (clear) col2 where "r = None" "dfs_deps k g node (g node) (col(node := Gray)) = Some (None, col2)" "col1 = col2(node := Black)"
  using assms by (auto split: option.splits prod.splits)

lemma dfs_never_whitens:
  "dfs k g node col = Some (r, col1) \<Longrightarrow> col x \<noteq> White \<Longrightarrow> col1 x \<noteq> White"
  "dfs_deps k g node deps col = Some (r, col1) \<Longrightarrow> col x \<noteq> White \<Longrightarrow> col1 x \<noteq> White"
proof (induction k g node col and k g node deps col arbitrary: r col1 and r col1 rule: dfs_dfs_deps.induct)
  case (2 k g node col)
  from 2(2) show ?case
  proof (cases rule: dfs_SucE)
    case cycle
    from 2(1) [OF cycle(2)] 2(3) show ?thesis by simp
  next
    case clear
    from 2(1) [OF clear(2)] 2(3) clear(3) show ?thesis by simp
  qed
next
  case (4 k g node dep deps col)
  then show ?case by (auto split: option.splits if_splits prod.splits)
qed simp_all

lemma dfs_keeps_gray:
  "dfs k g node col = Some (None, col1) \<Longrightarrow> col node = White \<Longrightarrow> col1 x = Gray \<longleftrightarrow> col x = Gray"
  "dfs_deps k g node deps col = Some (None, col1) \<Longrightarrow> col1 x = Gray \<longleftrightarrow> col x = Gray"
proof (induction k g node col and k g node deps col arbitrary: col1 and col1 rule: dfs_dfs_deps.induct)
  case (2 k g node col)
  from 2(2) show ?case
  proof (cases rule: dfs_SucE)
    case clear
    from 2(1) [OF clear(2)] 2(3) clear(3) show ?thesis by auto
  qed simp
next
  case (4 k g node dep deps col)
  then show ?case by (auto split: option.splits if_splits prod.splits)
qed simp_all

text \<open>The black nodes have only black successors and none of them is on a cycle.\<close>

definition settled :: "(string \<Rightarrow> string list) \<Rightarrow> (string \<Rightarrow> color) \<Rightarrow> bool" where
  "settled g col \<longleftrightarrow> (\<forall>x. col x = Black \<longrightarrow> (\<forall>y\<in>set (g x). col y = Black) \<and> (x, x) \<notin> (edges g)\<^sup>+)"

lemma settled_reach:
  assumes "settled g col" and "(x, y) \<in> (edges g)\<^sup>*" and "col x = Black"
  shows "col y = Black"
  using assms(2,3)
proof (induction rule: converse_rtrancl_induct)
  case (step x z)
  then show ?case using assms(1) by (auto simp: settled_def)
qed

lemma settled_gray: "settled g col \<Longrightarrow> col node \<noteq> Black \<Longrightarrow> settled g (col(node := Gray))"
  by (auto simp: settled_def)

lemma settled_black:
  assumes "settled g col" and "\<forall>y\<in>set (g node). col y = Black" and "col node \<noteq> Black"
  shows "settled g (col(node := Black))"
proof -
  have "(node, node) \<notin> (edges g)\<^sup>+"
  proof
    assume "(node, node) \<in> (edges g)\<^sup>+"
    then obtain y where "y \<in> set (g node)" "(y, node) \<in> (edges g)\<^sup>*" by (auto dest: tranclD)
    then show False using settled_reach [OF assms(1)] assms(2,3) by blast
  qed
  then show ?thesis using assms by (auto simp: settled_def)
qed

lemma dfs_settles:
  "dfs k g node col = Some (None, col1) \<Longrightarrow> col node = White \<Longrightarrow> settled g col
    \<Longrightarrow> settled g col1 \<and> col1 node = Black \<and> (\<forall>x. col x = Black \<longrightarrow> col1 x = Black)"
  "dfs_deps k g node deps col = Some (None, col1) \<Longrightarrow> settled g col
    \<Longrightarrow> settled g col1 \<and> (\<forall>y\<in>set deps. col1 y = Black) \<and> (\<forall>x. col x = Black \<longrightarrow> col1 x = Black)"
proof (induction k g node col and k g node deps col arbitrary: col1 and col1 rule: dfs_dfs_deps.induct)
  case (2 k g node col)
  then obtain col2 where d: "dfs_deps k g node (g node) (col(node := Gray)) = Some (None, col2)" "col1 = col2(node := Black)"
    by (auto split: option.splits prod.splits)
  have "settled g (col(node := Gray))" using 2(3,4) by (intro settled_gray) simp_all
  then have s: "settled g col2" "\<forall>y\<in>set (g node). col2 y = Black" "\<forall>x. (col(node := Gray)) x = Black \<longrightarrow> col2 x = Black"
    using 2(1) [OF d(1)] by blast+
  have "col2 node = Gray" using dfs_keeps_gray(2) [OF d(1), of node] by simp
  then have "settled g col1" unfolding d(2) using s(1,2) by (intro settled_black) simp_all
  moreover have "col1 node = Black" "\<forall>x. col x = Black \<longrightarrow> col1 x = Black" using s(3) 2(3) d(2) by auto
  ultimately show ?case by blast
next
  case (4 k g node dep deps col)
  show ?case
  proof (cases "col dep")
    case White
    then obtain col2 where d: "dfs k g dep col = Some (None, col2)" "dfs_deps k g node deps col2 = Some (None, col1)"
      using 4(4) by (auto split: option.splits prod.splits if_splits)
    from 4(1) [OF _ _ d(1)] White 4(5) have s: "settled g col2" "col2 dep = Black" "\<forall>x. col x = Black \<longrightarrow> col2 x = Black"
      by auto
    from 4(2) [OF _ _ d(1) refl refl d(2) s(1)] White s(2,3) show ?thesis by auto
  next
    case Gray
    then show ?thesis using 4(4) by simp
  next
    case Black
    then show ?thesis using 4 by auto
  qed
qed simp_all

lemma dfs_finds_cycle:
  "dfs k g node col = Some (Some c, col1) \<Longrightarrow> col node = White \<Longrightarrow> \<forall>x. col x = Gray \<longrightarrow> (x, node) \<in> (edges g)\<^sup>*
    \<Longrightarrow> \<not> acyclic (edges g)"
  "dfs_deps k g node deps col = Some (Some c, col1) \<Longrightarrow> set deps \<subseteq> set (g node)
    \<Longrightarrow> \<forall>x. col x = Gray \<longrightarrow> (x, node) \<in> (edges g)\<^sup>* \<Longrightarrow> \<not> acyclic (edges g)"
proof (induction k g node col and k g node deps col arbitrary: c col1 and c col1 rule: dfs_dfs_deps.induct)
  case (2 k g node col)
  from 2(2) show ?case
  proof (cases rule: dfs_SucE)
    case cycle
    from 2(1) [OF cycle(2)] 2(3,4) show ?thesis by simp
  qed simp
next
  case (4 k g node dep deps col)
  show ?case
  proof (cases "col dep")
    case White
    show ?thesis
    proof (cases "dfs k g dep col")
      case None
      then show ?thesis using 4(4) White by simp
    next
      case (Some r)
      have reach: "\<forall>x. col x = Gray \<longrightarrow> (x, dep) \<in> (edges g)\<^sup>*"
        using 4(5,6) by (auto intro: rtrancl_into_rtrancl)
      show ?thesis
      proof (cases "fst r")
        case None
        then obtain col2 where d: "dfs k g dep col = Some (None, col2)" using Some by (cases r) auto
        then have "dfs_deps k g node deps col2 = Some (Some c, col1)" using 4(4) White by simp
        moreover have "\<forall>x. col2 x = Gray \<longrightarrow> (x, node) \<in> (edges g)\<^sup>*"
          using dfs_keeps_gray(1) [OF d White] 4(6) by blast
        ultimately show ?thesis using 4(2) [OF _ _ d refl refl] White 4(5) by auto
      next
        case (Some c2)
        then obtain col2 where "dfs k g dep col = Some (Some c2, col2)" using \<open>dfs k g dep col = Some r\<close> by (cases r) auto
        then show ?thesis using 4(1) White reach by auto
      qed
    qed
  next
    case Gray
    then have "(dep, node) \<in> (edges g)\<^sup>*" "(node, dep) \<in> edges g" using 4(5,6) by auto
    then have "(dep, dep) \<in> (edges g)\<^sup>+" by (rule rtrancl_into_trancl1)
    then show ?thesis by (auto simp: acyclic_def)
  next
    case Black
    then show ?thesis using 4 by auto
  qed
qed simp_all

text \<open>Fuel: the search never goes deeper than there are white nodes.\<close>

definition whites :: "string set \<Rightarrow> (string \<Rightarrow> color) \<Rightarrow> nat" where
  "whites N col = card {n \<in> N. col n = White}"

lemma whites_mono: "finite N \<Longrightarrow> (\<And>x. col x \<noteq> White \<Longrightarrow> col1 x \<noteq> White) \<Longrightarrow> whites N col1 \<le> whites N col"
  unfolding whites_def by (rule card_mono) auto

lemma whites_gray:
  assumes "finite N" and "node \<in> N" and "col node = White" and "c \<noteq> White"
  shows "whites N (col(node := c)) < whites N col"
  unfolding whites_def using assms by (intro psubset_card_mono) auto

lemma dfs_fuel:
  assumes "finite N" and "\<And>x. set (g x) \<subseteq> N"
  shows "node \<in> N \<Longrightarrow> col node = White \<Longrightarrow> whites N col \<le> k \<Longrightarrow> dfs k g node col \<noteq> None"
    and "set deps \<subseteq> N \<Longrightarrow> whites N col \<le> k \<Longrightarrow> dfs_deps k g node deps col \<noteq> None"
  using assms(2)
proof (induction k g node col and k g node deps col rule: dfs_dfs_deps.induct)
  case (1 g node col)
  then have "{n \<in> N. col n = White} \<noteq> {}" by auto
  then show ?case using 1(3) assms(1) by (auto simp: whites_def)
next
  case (2 k g node col)
  have "whites N (col(node := Gray)) \<le> k" using whites_gray [of N node col Gray] assms(1) 2(2-4) by simp
  then have "dfs_deps k g node (g node) (col(node := Gray)) \<noteq> None" using 2(1,5) by blast
  then show ?case by (auto split: option.split)
next
  case (3 k g node col)
  then show ?case by simp
next
  case (4 k g node dep deps col)
  show ?case
  proof (cases "col dep = White")
    case True
    then have "dfs k g dep col \<noteq> None" using 4 by auto
    then obtain r col2 where d: "dfs k g dep col = Some (r, col2)" by auto
    have "whites N col2 \<le> whites N col" by (rule whites_mono [OF assms(1)]) (rule dfs_never_whitens(1) [OF d])
    then show ?thesis using 4 d True by (cases r) auto
  next
    case False
    then show ?thesis using 4 by (cases "col dep") auto
  qed
qed

lemma dag_loop_fuel:
  assumes "finite N" and "\<And>x. set (g x) \<subseteq> N" and "set (map tk_id ts) \<subseteq> N" and "card N \<le> k"
  shows "dag_loop k g ts col \<noteq> None"
  using assms(3)
proof (induction ts arbitrary: col)
  case (Cons t ts)
  have k: "whites N c \<le> k" for c
    using card_mono [OF assms(1), of "{n \<in> N. c n = White}"] assms(4) by (auto simp: whites_def)
  show ?case
  proof (cases "col (tk_id t) = White")
    case True
    then obtain r col1 where "dfs k g (tk_id t) col = Some (r, col1)"
      using dfs_fuel(1) [of N g "tk_id t" col k] assms(1,2) k [of col] Cons.prems by auto
    then show ?thesis using Cons True by (cases r) auto
  next
    case False
    then show ?thesis using Cons by simp
  qed
qed simp

lemma dag_loop_exact:
  assumes "dag_loop k g ts col = Some fs" and "\<forall>x. col x \<noteq> Gray"
  shows "fs \<noteq> [] \<longrightarrow> \<not> acyclic (edges g)"
    and "fs = [] \<Longrightarrow> settled g col \<Longrightarrow> \<forall>t\<in>set ts. (tk_id t, tk_id t) \<notin> (edges g)\<^sup>+"
proof -
  show "fs \<noteq> [] \<longrightarrow> \<not> acyclic (edges g)"
    using assms
  proof (induction ts arbitrary: col fs)
    case (Cons t ts)
    show ?case
    proof (cases "col (tk_id t) = White")
      case True
      then obtain r col1 where d: "dfs k g (tk_id t) col = Some (r, col1)" using Cons.prems(1) by (auto split: option.splits)
      show ?thesis
      proof (cases r)
        case None
        then have "dag_loop k g ts col1 = Some fs" "\<forall>x. col1 x \<noteq> Gray"
          using Cons.prems d True dfs_keeps_gray(1) by auto
        then show ?thesis using Cons.IH by blast
      next
        case (Some c)
        then show ?thesis using dfs_finds_cycle(1) [of k g "tk_id t" col c col1] d True Cons.prems(2) by simp
      qed
    next
      case False
      then have "dag_loop k g ts col = Some fs" using Cons.prems(1) by (cases "col (tk_id t)") simp_all
      then show ?thesis using Cons.IH Cons.prems(2) by blast
    qed
  qed simp
  show "\<forall>t\<in>set ts. (tk_id t, tk_id t) \<notin> (edges g)\<^sup>+" if "fs = []" "settled g col"
    using assms that
  proof (induction ts arbitrary: col fs)
    case (Cons t ts)
    show ?case
    proof (cases "col (tk_id t) = White")
      case True
      then obtain col1 where d: "dfs k g (tk_id t) col = Some (None, col1)" "dag_loop k g ts col1 = Some fs"
        using Cons.prems(1,3) by (auto split: option.splits prod.splits)
      have s: "settled g col1" "col1 (tk_id t) = Black" using dfs_settles(1) [OF d(1) True Cons.prems(4)] by blast+
      have "\<forall>x. col1 x \<noteq> Gray" using dfs_keeps_gray(1) [OF d(1) True] Cons.prems(2) by simp
      then show ?thesis using Cons.IH [OF d(2) _ Cons.prems(3) s(1)] s by (auto simp: settled_def)
    next
      case False
      then have b: "col (tk_id t) = Black" using Cons.prems(2) by (cases "col (tk_id t)") simp_all
      then have "dag_loop k g ts col = Some fs" using Cons.prems(1) by simp
      then show ?thesis using Cons.IH [OF _ Cons.prems(2-4)] b Cons.prems(4) by (auto simp: settled_def)
    qed
  qed simp
qed

lemma task_map_Some: "task_map m g i = Some v \<Longrightarrow> \<exists>t\<in>set (m_tasks m). tk_id t = i \<and> g t = v"
  unfolding task_map_def by (drule map_of_SomeD) auto

lemma adj_nodes: "set (adj m x) \<subseteq> set (dag_nodes m)"
  unfolding adj_def dag_nodes_def by (cases "task_map m tk_depends x") (auto dest!: task_map_Some)

lemma cycle_node:
  assumes "(x, x) \<in> (edges (adj m))\<^sup>+"
  shows "x \<in> tk_id ` set (m_tasks m)"
proof -
  obtain y where "y \<in> set (adj m x)" using assms by (auto dest: tranclD)
  then show ?thesis unfolding adj_def by (cases "task_map m tk_depends x") (auto dest!: task_map_Some)
qed

lemma dag_loop_check:
  "\<exists>fs. validateDependsDAG m = Some fs \<and> (fs = [] \<longleftrightarrow> acyclic (edges (adj m)))"
proof -
  have "card (set (dag_nodes m)) \<le> Suc (length (dag_nodes m))" using card_length le_Suc_eq by blast
  then have "validateDependsDAG m \<noteq> None"
    unfolding validateDependsDAG_def
    by (intro dag_loop_fuel [where N = "set (dag_nodes m)"]) (use adj_nodes in \<open>auto simp: dag_nodes_def\<close>)
  then obtain fs where fs: "validateDependsDAG m = Some fs" by blast
  note exact = dag_loop_exact [OF fs [unfolded validateDependsDAG_def]]
  have "acyclic (edges (adj m))" if "fs = []"
    using exact(2) [OF _ that] cycle_node by (fastforce simp: settled_def acyclic_def)
  then show ?thesis using fs exact(1) by auto
qed

text \<open>
  C19: The check for dependency cycles always ends, and it reports something exactly if the graph of the
  dependencies of the tasks has a cycle.
\<close>

theorem dependency_check_exact:
  "\<exists>fs. validateDependsDAG m = Some fs \<and> (fs = [] \<longleftrightarrow> acyclic (edges (adj m)))"
  by (rule dag_loop_check)

section \<open>When a check is silent\<close>

lemma concat_map_nil: "concat (map f xs) = [] \<longleftrightarrow> (\<forall>x\<in>set xs. f x = [])"
  by (induction xs) auto

lemma depends_exist_silent:
  "validateDependsExist m = [] \<longleftrightarrow> (\<forall>t\<in>set (m_tasks m). set (tk_depends t) \<subseteq> tk_id ` set (m_tasks m))"
  by (auto simp: validateDependsExist_def Let_def concat_map_nil split: if_splits)

lemma membership_silent:
  "validateBatchMembership m = [] \<longleftrightarrow>
     (\<forall>t\<in>set (m_tasks m). length (filter (\<lambda>i. i = tk_id t) (concat (map b_taskIDs (m_batches m)))) = 1)"
proof -
  have one: "(n::nat) = 1 \<longleftrightarrow> n \<noteq> 0 \<and> \<not> n > 1" for n by auto
  show ?thesis unfolding validateBatchMembership_def Let_def concat_map_nil one by (auto split: if_splits)
qed

lemma order_silent:
  "validateBatchOrder m = [] \<longleftrightarrow> (\<forall>t\<in>set (m_tasks m). \<forall>tb. taskBatchIdx m (tk_id t) = Some tb \<longrightarrow>
     (\<forall>d\<in>set (tk_depends t). \<forall>db. taskBatchIdx m d = Some db \<longrightarrow> sint db < sint tb))"
  unfolding validateBatchOrder_def concat_map_nil
  by (simp add: concat_map_nil split: option.splits) (meson not_le)

lemma overlap_files_owner:
  "dom (snd (overlap_files isp b tid fs owner)) = dom owner \<union> {f \<in> set fs. f \<notin> set (b_sharedAdditive b)}"
proof (induction fs arbitrary: owner)
  case (Cons f fs)
  show ?case
  proof (cases "f \<in> set (b_sharedAdditive b) \<or> owner f \<noteq> None")
    case True
    then have "snd (overlap_files isp b tid (f # fs) owner) = snd (overlap_files isp b tid fs owner)"
      by (auto split: prod.split)
    then show ?thesis using Cons.IH [of owner] True by auto
  next
    case False
    then show ?thesis using Cons.IH [of "owner(f \<mapsto> tid)"] by (auto simp: fun_upd_def split: if_splits)
  qed
qed simp

lemma overlap_files_silent:
  "fst (overlap_files isp b tid fs owner) = [] \<longleftrightarrow>
     distinct (filter (\<lambda>f. f \<notin> set (b_sharedAdditive b)) fs) \<and> (\<forall>f\<in>set fs. f \<notin> set (b_sharedAdditive b) \<longrightarrow> owner f = None)"
proof (induction fs arbitrary: owner)
  case (Cons f fs)
  show ?case
  proof (cases "f \<in> set (b_sharedAdditive b)")
    case True
    then show ?thesis using Cons.IH [of owner] by simp
  next
    case False
    then show ?thesis
      using Cons.IH [of "owner(f \<mapsto> tid)"] by (cases "owner f") (auto simp: fun_upd_def split: prod.split)
  qed
qed simp

lemma overlap_tasks_silent:
  "overlap_tasks isp tf b tids owner = [] \<longleftrightarrow>
     (let keep = filter (\<lambda>f. f \<notin> set (b_sharedAdditive b)) (concat (map tf tids)) in
      distinct keep \<and> (\<forall>f\<in>set keep. owner f = None))"
proof (induction tids arbitrary: owner)
  case (Cons tid tids)
  obtain fs o1 where f: "overlap_files isp b tid (tf tid) owner = (fs, o1)" by fastforce
  show ?case
  proof (cases "fs = []")
    case True
    have "dom o1 = dom owner \<union> {f \<in> set (tf tid). f \<notin> set (b_sharedAdditive b)}"
      using overlap_files_owner [of isp b tid "tf tid" owner] f by simp
    then have none: "o1 f = None \<longleftrightarrow> owner f = None \<and> \<not> (f \<in> set (tf tid) \<and> f \<notin> set (b_sharedAdditive b))" for f
      by (metis (mono_tags, lifting) UnCI UnE domD domIff mem_Collect_eq)
    show ?thesis using Cons.IH [of o1] f True overlap_files_silent [of isp b tid "tf tid" owner]
      by (auto simp: Let_def none)
  next
    case False
    then show ?thesis using f overlap_files_silent [of isp b tid "tf tid" owner] by (auto simp: Let_def)
  qed
qed simp

text \<open>The files that the tasks of a batch list besides the shared ones.\<close>

definition exclusive_files :: "model \<Rightarrow> batch \<Rightarrow> string list" where
  "exclusive_files m b = filter (\<lambda>f. f \<notin> set (b_sharedAdditive b)) (concat (map (task_files m) (b_taskIDs b)))"

lemma overlap_silent:
  "validateBatchFileOverlap isp m = [] \<longleftrightarrow> (\<forall>b\<in>set (m_batches m). distinct (exclusive_files m b))"
  by (auto simp: validateBatchFileOverlap_def concat_map_nil overlap_tasks_silent Let_def exclusive_files_def)

section \<open>Plans\<close>

text \<open>
  The batches in the order of their numbers, and what it takes to execute them one after the other,
  the tasks of a batch at the same time: every task runs exactly once, a task starts when its
  dependencies are done, and no file is written by two tasks of a batch unless it is shared.
\<close>

definition in_order :: "model \<Rightarrow> batch list" where
  "in_order m = sort_key (\<lambda>b. sint (b_index b)) (m_batches m)"

definition executable_plan :: "model \<Rightarrow> bool" where
  "executable_plan m \<longleftrightarrow>
     (\<forall>t\<in>set (m_tasks m). length (filter (\<lambda>i. i = tk_id t) (concat (map b_taskIDs (in_order m)))) = 1)
     \<and> (\<forall>k<length (in_order m). \<forall>t\<in>set (m_tasks m). tk_id t \<in> set (b_taskIDs (in_order m ! k)) \<longrightarrow>
          set (tk_depends t) \<subseteq> set (concat (map b_taskIDs (take k (in_order m)))))
     \<and> (\<forall>b\<in>set (in_order m). distinct (exclusive_files m b))"

lemma filter_concat_length:
  "length (filter P (concat (map f xs))) = sum_list (map (\<lambda>x. length (filter P (f x))) xs)"
  by (induction xs) auto

lemma count_in_order:
  "length (filter P (concat (map b_taskIDs (in_order m)))) = length (filter P (concat (map b_taskIDs (m_batches m))))"
  unfolding filter_concat_length in_order_def
  by (simp add: sum_mset_sum_list [symmetric] del: sum_mset_sum_list)

lemma map_of_single: "filter (\<lambda>p. fst p = i) ps = [(i, v)] \<Longrightarrow> map_of ps i = Some v"
  by (induction ps) (auto split: if_splits)

lemma batch_index:
  assumes "length (filter (\<lambda>j. j = i) (concat (map b_taskIDs (m_batches m)))) = 1"
    and "b \<in> set (m_batches m)" and "i \<in> set (b_taskIDs b)"
  shows "taskBatchIdx m i = Some (b_index b)"
proof -
  define ps where "ps = concat (map (\<lambda>b. map (\<lambda>tid. (tid, b_index b)) (b_taskIDs b)) (m_batches m))"
  have "map fst ps = concat (map b_taskIDs (m_batches m))" by (simp add: ps_def map_concat comp_def)
  then have "length (filter (\<lambda>j. j = i) (map fst ps)) = 1" using assms(1) by simp
  then have "length (filter (\<lambda>p. fst p = i) ps) = 1" by (simp add: filter_map comp_def)
  then obtain p where p: "filter (\<lambda>p. fst p = i) ps = [p]"
    by (auto simp: length_Suc_conv)
  have "(i, b_index b) \<in> set ps" using assms(2,3) by (auto simp: ps_def)
  then have "(i, b_index b) \<in> set (filter (\<lambda>p. fst p = i) ps)" by simp
  then have "filter (\<lambda>p. fst p = i) (rev ps) = [(i, b_index b)]" using p by (simp add: rev_filter [symmetric])
  then show ?thesis unfolding taskBatchIdx_def ps_def [symmetric] by (rule map_of_single)
qed

lemma silent_plan:
  assumes "validateDependsExist m = []" "validateBatchMembership m = []" "validateBatchOrder m = []"
    and "validateBatchFileOverlap isp m = []"
  shows "executable_plan m"
proof -
  have one: "length (filter (\<lambda>i. i = tk_id t) (concat (map b_taskIDs (m_batches m)))) = 1" if "t \<in> set (m_tasks m)" for t
    using assms(2) that by (simp add: membership_silent)
  have before: "d \<in> set (concat (map b_taskIDs (take k (in_order m))))"
    if k: "k < length (in_order m)" and t: "t \<in> set (m_tasks m)" "tk_id t \<in> set (b_taskIDs (in_order m ! k))" "d \<in> set (tk_depends t)"
    for k t d
  proof -
    let ?b = "in_order m ! k"
    obtain t' where t': "t' \<in> set (m_tasks m)" "tk_id t' = d" using assms(1) t(1,3) by (auto simp: depends_exist_silent)
    have "filter (\<lambda>i. i = d) (concat (map b_taskIDs (m_batches m))) \<noteq> []" using one [OF t'(1)] t'(2) by auto
    then obtain b' where b': "b' \<in> set (m_batches m)" "d \<in> set (b_taskIDs b')" by (auto simp: filter_empty_conv)
    have "?b \<in> set (m_batches m)" using k nth_mem [OF k] by (simp add: in_order_def)
    then have "taskBatchIdx m (tk_id t) = Some (b_index ?b)" "taskBatchIdx m d = Some (b_index b')"
      using batch_index [OF one [OF t(1)] _ t(2)] batch_index [OF one [OF t'(1)], of b'] b' t'(2) by auto
    then have less: "sint (b_index b') < sint (b_index ?b)"
      using assms(3) t(1,3) by (auto simp: order_silent)
    obtain j where j: "j < length (in_order m)" "in_order m ! j = b'"
      using b'(1) by (metis in_order_def in_set_conv_nth set_sort)
    have sorted: "sorted (map (\<lambda>b. sint (b_index b)) (in_order m))" by (simp add: in_order_def)
    have "j < k"
    proof (rule ccontr)
      assume "\<not> j < k"
      then have "sint (b_index ?b) \<le> sint (b_index b')"
        using sorted_nth_mono [OF sorted, of k j] j k by simp
      then show False using less by simp
    qed
    then have "b' \<in> set (take k (in_order m))" using j by (auto simp: in_set_conv_nth)
    then show ?thesis using b'(2) by auto
  qed
  show ?thesis
    unfolding executable_plan_def count_in_order
    using one before assms(4) by (auto simp: overlap_silent in_order_def)
qed

definition no_errors :: "finding list \<Rightarrow> bool" where
  "no_errors fs \<longleftrightarrow> list_all (\<lambda>f. fi_sev f = severityWarn) fs"

lemma no_errors_append [simp]: "no_errors (xs @ ys) \<longleftrightarrow> no_errors xs \<and> no_errors ys"
  by (simp add: no_errors_def)

section \<open>Identifiers\<close>

lemma upper_word_free [simp]: "group_free upper_word" "group_free digits_re" "group_free type_re"
  by (simp_all add: upper_word_def digits_re_def type_re_def plus_re_def)

lemma REQ_ID_match:
  assumes "FindStringSubmatch reSlugREQID s = Some m"
  obtains u n where "s = u @ ''-REQ-'' @ n" "submatch 1 m = u" "n \<noteq> []" "list_all digit n"
proof -
  from assms obtain q t cs where m: "(q, t, cs) \<in> set (ms (seqs [Grp 1 upper_word, lit ''-REQ-'', Grp 2 digits_re, Eol]) (None, s, []))"
    "snd m = cs"
    unfolding reSlugREQID_def seqs.simps(2) [of Bol] by (rule FindStringSubmatch_anchoredE)
  from m(1) obtain p1 s1 c1 p2 s2 c2 p3 s3 c3 where
    1: "(p1, s1, c1) \<in> set (ms (Grp 1 upper_word) (None, s, []))" and 2: "(p2, s2, c2) \<in> set (ms (lit ''-REQ-'') (p1, s1, c1))"
    and 3: "(p3, s3, c3) \<in> set (ms (Grp 2 digits_re) (p2, s2, c2))" and 4: "(q, t, cs) \<in> set (ms (seqs [Eol]) (p3, s3, c3))"
    unfolding seqs.simps(2) [of "Grp 1 upper_word"] seqs.simps(2) [of "lit _"] seqs.simps(2) [of "Grp 2 digits_re"]
    by (blast dest!: ms_Seq)
  from 1 obtain u where u: "s = u @ s1" "c1 = [(1, u)]" by (rule ms_Grp) simp_all
  from ms_lit [OF 2] have s1: "s1 = ''-REQ-'' @ s2" "c2 = c1" by blast+
  from 3 obtain n where n: "s2 = n @ s3" "c3 = (2, n) # c2" "(p3, s3, c2) \<in> set (ms digits_re (p2, s2, c2))"
    by (rule ms_Grp) simp_all
  from ms_Eol [OF 4] have e: "s3 = []" "cs = c3" by blast+
  from ms_plus_Cls [OF n(3) [unfolded digits_re_def]] have "n \<noteq> []" "list_all digit n" using n(1) e(1) by auto
  then show ?thesis using that [of u n] u s1 n e m(2) by (simp add: submatch_def)
qed

lemma TC_ID_match:
  assumes "FindStringSubmatch reSlugTCID s = Some m"
  obtains u ty n where "s = u @ ''-TC-'' @ ty @ ''-'' @ n" "submatch 1 m = u" "submatch 2 m = ty" "submatch 3 m = n" "list_all digit n"
proof -
  from assms obtain q t cs where m: "(q, t, cs) \<in> set (ms (seqs [Grp 1 upper_word, lit ''-TC-'', Grp 2 type_re, lit ''-'', Grp 3 digits_re, Eol]) (None, s, []))"
    "snd m = cs"
    unfolding reSlugTCID_def seqs.simps(2) [of Bol] by (rule FindStringSubmatch_anchoredE)
  from m(1) obtain p1 s1 c1 p2 s2 c2 p3 s3 c3 p4 s4 c4 p5 s5 c5 where
    1: "(p1, s1, c1) \<in> set (ms (Grp 1 upper_word) (None, s, []))" and 2: "(p2, s2, c2) \<in> set (ms (lit ''-TC-'') (p1, s1, c1))"
    and 3: "(p3, s3, c3) \<in> set (ms (Grp 2 type_re) (p2, s2, c2))" and 4: "(p4, s4, c4) \<in> set (ms (lit ''-'') (p3, s3, c3))"
    and 5: "(p5, s5, c5) \<in> set (ms (Grp 3 digits_re) (p4, s4, c4))" and 6: "(q, t, cs) \<in> set (ms (seqs [Eol]) (p5, s5, c5))"
    unfolding seqs.simps(2) [of "Grp 1 upper_word"] seqs.simps(2) [of "lit _"] seqs.simps(2) [of "Grp 2 type_re"]
      seqs.simps(2) [of "Grp 3 digits_re"]
    by (blast dest!: ms_Seq)
  from 1 obtain u where u: "s = u @ s1" "c1 = [(1, u)]" by (rule ms_Grp) simp_all
  from ms_lit [OF 2] have s1: "s1 = ''-TC-'' @ s2" "c2 = c1" by blast+
  from 3 obtain ty where ty: "s2 = ty @ s3" "c3 = (2, ty) # c2" by (rule ms_Grp) simp_all
  from ms_lit [OF 4] have s3: "s3 = ''-'' @ s4" "c4 = c3" by blast+
  from 5 obtain n where n: "s4 = n @ s5" "c5 = (3, n) # c4" "(p5, s5, c4) \<in> set (ms digits_re (p4, s4, c4))"
    by (rule ms_Grp) simp_all
  from ms_Eol [OF 6] have e: "s5 = []" "cs = c5" by blast+
  from ms_plus_Cls [OF n(3) [unfolded digits_re_def]] have "list_all digit n" using n(1) e(1) by auto
  then show ?thesis using that [of u ty n] u s1 ty s3 n e m(2) by (simp add: submatch_def)
qed

text \<open>The format that a slug gives its identifiers.\<close>

definition req_form :: "string \<Rightarrow> string \<Rightarrow> bool" where
  "req_form slug i \<longleftrightarrow> (\<exists>n. i = slug @ ''-REQ-'' @ n \<and> n \<noteq> [] \<and> list_all digit n)"

definition tc_form :: "string \<Rightarrow> string \<Rightarrow> bool" where
  "tc_form slug i \<longleftrightarrow> (\<exists>ty n. i = slug @ ''-TC-'' @ ty @ ''-'' @ n \<and> ty \<in> set registeredTCTypes
     \<and> 2 \<le> length n \<and> list_all digit n)"

lemma no_errors_Nil_simps [simp]: "no_errors []" "\<not> no_errors (err_at l m # fs)"
  by (simp_all add: no_errors_def err_at_def)

lemma no_errors_concat: "no_errors (concat (map f xs)) \<longleftrightarrow> (\<forall>x\<in>set xs. no_errors (f x))"
  by (induction xs) simp_all

lemma req_format_form: "no_errors (req_format isp slug req) \<Longrightarrow> req_form slug (rq_id req)"
  by (auto simp: req_format_def req_form_def split: option.splits if_splits elim!: REQ_ID_match)

lemma tc_format_form:
  assumes "no_errors (tc_format isp slug tc)"
  shows "tc_form slug (tc_id tc)"
proof (cases "FindStringSubmatch reSlugTCID (tc_id tc)")
  case (Some m)
  obtain u ty n where m: "tc_id tc = u @ ''-TC-'' @ ty @ ''-'' @ n" "submatch 1 m = u" "submatch 2 m = ty" "submatch 3 m = n" "list_all digit n"
    by (rule TC_ID_match [OF Some])
  have "u = slug" "ty \<in> set registeredTCTypes" "2 \<le> length n"
    using assms Some m(2-4) by (auto simp: tc_format_def tc_suffix_def split: if_splits)
  then show ?thesis unfolding tc_form_def using m(1,5) by blast
qed (use assms in \<open>simp add: tc_format_def\<close>)

lemma duplicates_silent:
  "no_errors (duplicates isp kind seen ids) \<longleftrightarrow> distinct (map fst ids) \<and> (\<forall>i\<in>set (map fst ids). seen i = None)"
proof (induction ids arbitrary: seen)
  case (Cons p ids)
  obtain i n where p: "p = (i, n)" by (cases p)
  show ?case using Cons.IH [of "seen(i \<mapsto> n)"] by (auto simp: p fun_upd_def split: option.splits if_splits)
qed simp

text \<open>
  Every requirement is tested or says why not, every test case is of a requirement and in the
  tests of a task, every test a task names is declared, and all identifiers are unique and carry the slug.
\<close>

definition traceable :: "model \<Rightarrow> bool" where
  "traceable m \<longleftrightarrow>
     (\<forall>r\<in>set (m_reqs m). req_form (m_slug m) (rq_id r)
        \<and> (if rq_noTestPresent r then rq_noTestReason r \<noteq> [] else rq_id r \<in> tc_reqRef ` set (m_tcs m)))
     \<and> (\<forall>tc\<in>set (m_tcs m). tc_form (m_slug m) (tc_id tc) \<and> tc_reqRef tc \<in> rq_id ` set (m_reqs m)
        \<and> (\<exists>t\<in>set (m_tasks m). tc_id tc \<in> set (tk_tests t)))
     \<and> (\<forall>t\<in>set (m_tasks m). set (tk_tests t) \<subseteq> tc_id ` set (m_tcs m))
     \<and> distinct (map rq_id (m_reqs m)) \<and> distinct (map tc_id (m_tcs m))"

lemma no_errors_validate:
  assumes "validate isp m = Some fs" and "no_errors fs"
  shows "\<exists>dag. validateDependsDAG m = Some dag \<and> no_errors dag"
    and "list_all no_errors [validateReqCovered m, validateDependsExist m, validateBatchMembership m,
      validateBatchFileOverlap isp m, validateBatchOrder m, validateIDFormat isp m, validateIDUnique isp m,
      validateTCRefValid isp m, validateTestsRefValid isp m, validateTCReferenced m]"
  using assms by (auto simp: validate_def no_errors_def list_all_iff split: option.splits)

text \<open>A check that only produces errors has none exactly if it is silent.\<close>

definition only_errors :: "finding list \<Rightarrow> bool" where
  "only_errors fs \<longleftrightarrow> list_all (\<lambda>f. fi_sev f = severityError) fs"

lemma only_errors_silent: "only_errors fs \<Longrightarrow> no_errors fs \<longleftrightarrow> fs = []"
  by (cases fs) (auto simp: only_errors_def no_errors_def)

lemma only_errors_simps [simp]:
  "only_errors []" "only_errors (err_at l msg # fs) \<longleftrightarrow> only_errors fs" "only_errors (fs @ gs) \<longleftrightarrow> only_errors fs \<and> only_errors gs"
  by (simp_all add: only_errors_def err_at_def)

lemma only_errors_concat: "(\<And>x. only_errors (f x)) \<Longrightarrow> only_errors (concat (map f xs))"
  by (induction xs) simp_all

lemma dag_only_errors: "dag_loop k g ts col = Some fs \<Longrightarrow> only_errors fs"
  by (induction k g ts col arbitrary: fs rule: dag_loop.induct) (auto split: if_splits option.splits prod.splits)

lemma overlap_files_only_errors: "only_errors (fst (overlap_files isp b tid fs owner))"
proof (induction fs arbitrary: owner)
  case (Cons f fs)
  show ?case using Cons.IH [of owner] Cons.IH [of "owner(f \<mapsto> tid)"]
    by (cases "owner f") (auto simp: fun_upd_def split: prod.split)
qed simp

lemma overlap_tasks_only_errors: "only_errors (overlap_tasks isp tf b tids owner)"
proof (induction tids arbitrary: owner)
  case (Cons tid tids)
  show ?case using overlap_files_only_errors [of isp b tid "tf tid" owner] Cons.IH by (auto split: prod.split)
qed simp

lemma checks_only_errors:
  "only_errors (validateDependsExist m)" "only_errors (validateBatchMembership m)"
  "only_errors (validateBatchFileOverlap isp m)" "only_errors (validateBatchOrder m)"
  by (auto simp: validateDependsExist_def validateBatchMembership_def validateBatchFileOverlap_def
      validateBatchOrder_def Let_def overlap_tasks_only_errors intro!: only_errors_concat split: option.split)


text \<open>
  C26: A specification with a slug in which the validator finds no error is traceable from its requirements to
  its tasks and back.
\<close>

theorem accepted_spec_traceable:
  assumes "validate isp m = Some fs" and "no_errors fs" and "m_slug m \<noteq> []"
  shows "traceable m"
proof -
  note ok = no_errors_validate(2) [OF assms(1,2)]
  have "no_errors (validateIDFormat isp m)" using ok by simp
  then have "\<forall>r\<in>set (m_reqs m). req_form (m_slug m) (rq_id r)" "\<forall>tc\<in>set (m_tcs m). tc_form (m_slug m) (tc_id tc)"
    using assms(3) by (auto simp: validateIDFormat_def no_errors_concat dest: req_format_form tc_format_form)
  moreover have "\<forall>r\<in>set (m_reqs m). if rq_noTestPresent r then rq_noTestReason r \<noteq> [] else rq_id r \<in> tc_reqRef ` set (m_tcs m)"
    using ok by (auto simp: validateReqCovered_def Let_def no_errors_concat split: if_splits)
  moreover have "\<forall>tc\<in>set (m_tcs m). tc_reqRef tc \<in> rq_id ` set (m_reqs m)"
    using ok by (auto simp: validateTCRefValid_def Let_def no_errors_concat split: if_splits)
  moreover have "\<forall>tc\<in>set (m_tcs m). \<exists>t\<in>set (m_tasks m). tc_id tc \<in> set (tk_tests t)"
    using ok assms(3) by (auto simp: validateTCReferenced_def Let_def no_errors_concat split: if_splits)
  moreover have "\<forall>t\<in>set (m_tasks m). set (tk_tests t) \<subseteq> tc_id ` set (m_tcs m)"
    using ok assms(3) by (auto simp: validateTestsRefValid_def Let_def no_errors_concat split: if_splits)
  moreover have "distinct (map rq_id (m_reqs m))" "distinct (map tc_id (m_tcs m))"
    using ok by (simp_all add: validateIDUnique_def duplicates_silent comp_def)
  ultimately show ?thesis unfolding traceable_def by simp
qed

section \<open>A document that is accepted\<close>

definition users_spec :: model where
  "users_spec = empty_model\<lparr>m_status := ''DRAFT'', m_statusRaw := ''DRAFT'', m_statusLineCount := 1, m_statusLine := 3,
     m_slug := ''USR'', m_slugLineCount := 1, m_slugLine := 4, m_sections := requiredSectionNames,
     m_reqs := [\<lparr>rq_id = ''USR-REQ-1'', rq_line = 8, rq_noTestPresent = False, rq_noTestReason = []\<rparr>,
                \<lparr>rq_id = ''USR-REQ-2'', rq_line = 9, rq_noTestPresent = True, rq_noTestReason = ''docs only''\<rparr>],
     m_tcs := [\<lparr>tc_id = ''USR-TC-UC-01'', tc_reqRef = ''USR-REQ-1'', tc_line = 13\<rparr>],
     m_tasks := [\<lparr>tk_id = ''TASK-1'', tk_files = [''entity.go''], tk_tests = [''USR-TC-UC-01''], tk_depends = [],
                   tk_line = 20, tk_execOnly = False\<rparr>,
                 \<lparr>tk_id = ''TASK-2'', tk_files = [''router.go''], tk_tests = [], tk_depends = [''TASK-1''],
                   tk_line = 24, tk_execOnly = False\<rparr>,
                 \<lparr>tk_id = ''TASK-3'', tk_files = [''router.go'', ''README.md''], tk_tests = [''USR-TC-UC-01''],
                   tk_depends = [''TASK-1''], tk_line = 28, tk_execOnly = False\<rparr>],
     m_batches := [\<lparr>b_index = 2, b_taskIDs = [''TASK-2'', ''TASK-3''], b_sharedAdditive = [''router.go''], b_line = 33\<rparr>,
                   \<lparr>b_index = 1, b_taskIDs = [''TASK-1''], b_sharedAdditive = [], b_line = 34\<rparr>]\<rparr>"

lemma users_spec_accepted: "\<exists>fs. validate (\<lambda>_. False) users_spec = Some fs \<and> no_errors fs"
proof -
  have "case validate (\<lambda>_. False) users_spec of Some fs \<Rightarrow> no_errors fs | None \<Rightarrow> False" by code_simp
  then show ?thesis by (simp split: option.splits)
qed


theorem accepted_spec_traceable_witness: "traceable users_spec"
proof -
  have "m_slug users_spec \<noteq> []" by (simp add: users_spec_def)
  then show ?thesis using users_spec_accepted accepted_spec_traceable by blast
qed

end
