(* ===== verification/GoTime.thy ===== *)
theory GoTime
  imports Strconv Regex
begin

text \<open>
  Dates and clock times in UTC, as \<open>time.Time\<close> prints them with the layouts of the program.  An instant is its number
  of nanoseconds since the start of 1970.
\<close>

section \<open>Dates\<close>

text \<open>A date, and the instant of its midnight in UTC; the zero time is January 1 of year 1.\<close>

type_synonym date = "int \<times> int \<times> int"

definition days_from_civil :: "int \<Rightarrow> int \<Rightarrow> int \<Rightarrow> int" where
  "days_from_civil y0 m d =
     (let y = (if m \<le> 2 then y0 - 1 else y0);
          era = y div 400;
          yoe = y - era * 400;
          doy = (153 * (if m > 2 then m - 3 else m + 9) + 2) div 5 + d - 1;
          doe = yoe * 365 + yoe div 4 - yoe div 100 + doy
      in era * 146097 + doe - 719468)"

definition instant :: "date \<Rightarrow> time" where
  "instant dt = (case dt of (y, m, d) \<Rightarrow> days_from_civil y m d * 86400 * 10 ^ 9)"

definition zero_date :: date where
  "zero_date = (1, 1, 1)"

definition leap :: "int \<Rightarrow> bool" where
  "leap y \<longleftrightarrow> y mod 4 = 0 \<and> (y mod 100 \<noteq> 0 \<or> y mod 400 = 0)"

definition days_in :: "int \<Rightarrow> int \<Rightarrow> int" where
  "days_in y m = (if m = 2 then (if leap y then 29 else 28) else if m \<in> {4, 6, 9, 11} then 30 else 31)"

text \<open>\<open>time.Parse\<close> with the layout \<open>2006-01-02\<close>, and \<open>Format\<close> with it.\<close>

definition parse_date :: "string \<Rightarrow> date option" where
  "parse_date s =
     (if length s = 10 \<and> s ! 4 = CHR ''-'' \<and> s ! 7 = CHR ''-''
         \<and> list_all digit (take 4 s @ take 2 (drop 5 s) @ drop 8 s) then
        (let y = int (decimal_value 0 (take 4 s)); m = int (decimal_value 0 (take 2 (drop 5 s)));
             d = int (decimal_value 0 (drop 8 s))
         in if 1 \<le> m \<and> m \<le> 12 \<and> 1 \<le> d \<and> d \<le> days_in y m then Some (y, m, d) else None)
      else None)"

definition padded :: "nat \<Rightarrow> int \<Rightarrow> string" where
  "padded n i = (let t = int_text i in replicate (n - length t) CHR ''0'' @ t)"

definition format_date :: "date \<Rightarrow> string" where
  "format_date dt = (case dt of (y, m, d) \<Rightarrow> padded 4 y @ ''-'' @ padded 2 m @ ''-'' @ padded 2 d)"

definition civil_from_days :: "int \<Rightarrow> date" where
  "civil_from_days z0 =
     (let z = z0 + 719468;
          era = z div 146097;
          doe = z mod 146097;
          yoe = (doe - doe div 1460 + doe div 36524 - doe div 146096) div 365;
          doy = doe - (365 * yoe + yoe div 4 - yoe div 100);
          mp = (5 * doy + 2) div 153;
          d = doy - (153 * mp + 2) div 5 + 1;
          m = (if mp < 10 then mp + 3 else mp - 9)
      in (yoe + era * 400 + (if m \<le> 2 then 1 else 0), m, d))"

definition date_of :: "time \<Rightarrow> date" where
  "date_of t = civil_from_days (t div (86400 * 10 ^ 9))"

text \<open>The hour, minute, second and nanosecond of an instant.\<close>

definition clock_of :: "time \<Rightarrow> int \<times> int \<times> int \<times> int" where
  "clock_of t =
     (let s = t div 10 ^ 9 mod 86400 in (s div 3600, s div 60 mod 60, s mod 60, t mod 10 ^ 9))"

section \<open>Layouts\<close>

text \<open>\<open>2006-01-02\<close>, \<open>20060102T150405Z\<close>, \<open>time.RFC3339\<close> and \<open>time.RFC3339Nano\<close>.\<close>

definition Format_date :: "time \<Rightarrow> string" where
  "Format_date t = format_date (date_of t)"

definition Format_stamp :: "time \<Rightarrow> string" where
  "Format_stamp t =
     (case (date_of t, clock_of t) of ((y, m, d), (h, mi, s, ns)) \<Rightarrow>
        padded 4 y @ padded 2 m @ padded 2 d @ ''T'' @ padded 2 h @ padded 2 mi @ padded 2 s @ ''Z'')"

definition Format_seconds :: "time \<Rightarrow> string" where
  "Format_seconds t =
     (case clock_of t of (h, mi, s, ns) \<Rightarrow>
        Format_date t @ ''T'' @ padded 2 h @ '':'' @ padded 2 mi @ '':'' @ padded 2 s)"

definition Format_RFC3339 :: "time \<Rightarrow> string" where
  "Format_RFC3339 t = Format_seconds t @ ''Z''"

definition Format_RFC3339Nano :: "time \<Rightarrow> string" where
  "Format_RFC3339Nano t =
     (case clock_of t of (h, mi, s, ns) \<Rightarrow>
        Format_seconds t
        @ (if ns = 0 then [] else ''.'' @ rev (dropWhile (\<lambda>c. c = CHR ''0'') (rev (padded 9 ns)))) @ ''Z'')"

section \<open>The bytes of numbers and dates\<close>

definition number_byte :: "char \<Rightarrow> bool" where
  "number_byte c \<longleftrightarrow> digit c \<or> c = CHR ''-''"

lemma nat_digits_bytes: "list_all digit (nat_digits n)"
proof (induction n rule: nat_digits.induct)
  case (1 n)
  have "digit (char_of (48 + k))" if "k < 10" for k :: nat using that by (simp add: digit_def)
  then show ?case using 1 by (simp add: nat_digits.simps [of n])
qed

lemma number_bytes: "list_all number_byte (padded n i)" "list_all number_byte (int_text i)"
proof -
  have "list_all number_byte (nat_digits k)" for k
    using nat_digits_bytes [of k] by (auto simp: list_all_iff number_byte_def)
  moreover show "list_all number_byte (int_text i)"
    using calculation by (simp add: int_text_def number_byte_def)
  moreover have "number_byte CHR ''0''" by (simp add: number_byte_def digit_def)
  ultimately show "list_all number_byte (padded n i)"
    by (auto simp: padded_def Let_def list_all_iff set_replicate_conv_if)
qed

lemma Format_date_bytes: "list_all number_byte (Format_date t)"
  using number_bytes by (auto simp: Format_date_def format_date_def number_byte_def split: prod.split)

lemma Format_date_printable: "Format_date t \<noteq> []" "CHR 0x0A \<notin> set (Format_date t)"
proof -
  show "CHR 0x0A \<notin> set (Format_date t)"
    using Format_date_bytes [of t] by (auto simp: list_all_iff number_byte_def digit_def)
qed (simp add: Format_date_def format_date_def split: prod.split)

end
