(* ===== verification/SpecTools.thy ===== *)
theory SpecTools
  imports SpecPlan GoTime
begin

text \<open>
  The commands of \<open>tools/validate-spec\<close>: linting, listing files, the capabilities manifest, the check of capability
  documents and their bootstrap.  The file system is a parameter; a command gives its exit
  code, what it prints, and the file it writes.
\<close>

section \<open>The surroundings\<close>

text \<open>An entry of a directory; \<open>dn_info\<close> is false if its information cannot be read.\<close>

record dir_entry =
  dn_name :: string
  dn_isDir :: bool
  dn_symlink :: bool
  dn_info :: bool

record os_files =
  os_ReadFile :: "string \<Rightarrow> goerror + string"
  os_ReadDir :: "string \<Rightarrow> goerror + dir_entry list"
  os_WriteFile :: "string \<Rightarrow> string \<Rightarrow> goerror option"
  os_Exists :: "string \<Rightarrow> bool"
  os_Abs :: "string \<Rightarrow> goerror + string"

record outcome =
  oc_code :: int
  oc_stdout :: string
  oc_stderr :: string

definition exit_with :: "int \<Rightarrow> string \<Rightarrow> string \<Rightarrow> SpecTools.outcome" where
  "exit_with code out err = \<lparr>oc_code = code, oc_stdout = out, oc_stderr = err\<rparr>"

section \<open>Lint\<close>

fun lint_lines :: "string \<Rightarrow> finding list \<Rightarrow> string" where
  "lint_lines path [] = []"
| "lint_lines path (f # fs) =
     path @ '':'' @ int_text (sint (fi_line f)) @ '': '' @ severity_String (fi_sev f) @ '': '' @ fi_msg f @ eol @ lint_lines path fs"

definition count_sev :: "severity \<Rightarrow> finding list \<Rightarrow> nat" where
  "count_sev s fs = length (filter (\<lambda>f. fi_sev f = s) fs)"

text \<open>The loop over the files: the findings so far are printed before a file that cannot be read ends it.\<close>

fun lint_files ::
  "(nat \<Rightarrow> bool) \<Rightarrow> os_files \<Rightarrow> string list \<Rightarrow> nat \<Rightarrow> nat \<Rightarrow> string \<Rightarrow> SpecTools.outcome" where
  "lint_files isp os [] errors warns out =
     exit_with (if errors \<noteq> 0 then 1 else 0) out
       (int_text (int errors) @ '' error(s), '' @ int_text (int warns) @ '' warning(s)'' @ eol)"
| "lint_files isp os (path # paths) errors warns out =
     (case os_ReadFile os path of
        Inl readErr \<Rightarrow> exit_with 2 out (''error: reading spec '' @ strconv_Quote isp path @ '': '' @ err_text readErr @ eol)
      | Inr data \<Rightarrow>
          (case parseSpec data of
             Inl parseErr \<Rightarrow> exit_with 2 out (''error: parsing spec '' @ strconv_Quote isp path @ '': '' @ err_text parseErr @ eol)
           | Inr m \<Rightarrow>
               (let findings = (case validate isp m of None \<Rightarrow> [] | Some fs \<Rightarrow> fs) in
                lint_files isp os paths (errors + count_sev severityError findings) (warns + count_sev severityWarn findings)
                  (out @ lint_lines path findings))))"

definition runLint :: "(nat \<Rightarrow> bool) \<Rightarrow> os_files \<Rightarrow> string list \<Rightarrow> SpecTools.outcome" where
  "runLint isp os paths =
     (if paths = [] then exit_with 2 [] (''error: no spec files specified'' @ eol)
      else lint_files isp os paths 0 0 [])"

section \<open>Files\<close>

definition collectFiles :: "model \<Rightarrow> string list" where
  "collectFiles m = sort_Strings (remdups (concat (map tk_files (filter (\<lambda>t. \<not> tk_execOnly t) (m_tasks m)))))"

fun files_loop :: "(nat \<Rightarrow> bool) \<Rightarrow> os_files \<Rightarrow> string list \<Rightarrow> string \<Rightarrow> SpecTools.outcome" where
  "files_loop isp os [] out = exit_with 0 out []"
| "files_loop isp os (path # paths) out =
     (case os_ReadFile os path of
        Inl readErr \<Rightarrow> exit_with 2 out (''error: reading spec '' @ strconv_Quote isp path @ '': '' @ err_text readErr @ eol)
      | Inr data \<Rightarrow>
          (case parseSpec data of
             Inl parseErr \<Rightarrow> exit_with 2 out (''error: parsing spec '' @ strconv_Quote isp path @ '': '' @ err_text parseErr @ eol)
           | Inr m \<Rightarrow> files_loop isp os paths (out @ concat (map (\<lambda>f. f @ eol) (collectFiles m)))))"

definition runFiles :: "(nat \<Rightarrow> bool) \<Rightarrow> os_files \<Rightarrow> string list \<Rightarrow> SpecTools.outcome" where
  "runFiles isp os paths =
     (if paths = [] then exit_with 2 [] (''error: files: no spec files specified'' @ eol)
      else files_loop isp os paths [])"

section \<open>The manifest of capabilities\<close>

record capability =
  cp_name :: string
  cp_slug :: string
  cp_status :: string
  cp_source :: string
  cp_guaranteedReqs :: "string list"

definition blanks :: string where
  "blanks = [CHR '' '', CHR 0x09]"

fun capability_lines :: "string list \<Rightarrow> bool \<Rightarrow> capability \<Rightarrow> capability" where
  "capability_lines [] inReqs c = c"
| "capability_lines (line # rest) inReqs c =
     (let trimmed = TrimLeft line blanks in
      if HasPrefix trimmed ''## Slug: '' then
        capability_lines rest False (c\<lparr>cp_slug := TrimSpace (TrimPrefix trimmed ''## Slug: '')\<rparr>)
      else if HasPrefix trimmed ''## Status: '' then
        capability_lines rest False (c\<lparr>cp_status := TrimSpace (TrimPrefix trimmed ''## Status: '')\<rparr>)
      else if HasPrefix trimmed ''## Guaranteed Requirements'' then capability_lines rest True c
      else if HasPrefix trimmed ''## '' then capability_lines rest False c
      else if inReqs \<and> HasPrefix trimmed ''- '' then
        (let val = TrimSpace (TrimPrefix trimmed ''- '') in
         capability_lines rest inReqs
           (if Contains val ''-REQ-'' \<or> HasPrefix val ''REQ-''
            then c\<lparr>cp_guaranteedReqs := cp_guaranteedReqs c @ [val]\<rparr> else c))
      else capability_lines rest inReqs c)"

fun capability_source :: "string list \<Rightarrow> bool \<Rightarrow> string \<Rightarrow> string" where
  "capability_source [] inSource src = src"
| "capability_source (line # rest) inSource src =
     (let trimmed = TrimLeft line blanks in
      if HasPrefix trimmed ''## Source'' then capability_source rest True src
      else if inSource then
        (if HasPrefix trimmed ''## '' then capability_source rest False src
         else if TrimSpace line \<noteq> [] then capability_source rest False (TrimSpace line)
         else capability_source rest True src)
      else capability_source rest False src)"

definition parseCapability :: "string \<Rightarrow> string \<Rightarrow> capability \<times> bool" where
  "parseCapability name content =
     (let lines = Split content CHR 0x0A;
          c0 = \<lparr>cp_name = name, cp_slug = [], cp_status = [], cp_source = [], cp_guaranteedReqs = []\<rparr>;
          c1 = capability_lines lines False c0;
          c2 = c1\<lparr>cp_source := capability_source lines False (cp_source c1)\<rparr>;
          malformed = (cp_slug c2 = [] \<or> cp_status c2 = [])
      in (c2, \<not> malformed))"

definition manifest_key :: "capability \<Rightarrow> string" where
  "manifest_key c = (if cp_slug c = [] then cp_name c else cp_slug c)"

definition manifest_row :: "capability \<Rightarrow> string" where
  "manifest_row c =
     (let slug = (if cp_slug c = [] then ''<missing>'' else cp_slug c);
          status = (if cp_status c = [] then ''<missing>'' else cp_status c);
          reqs = (let r = Join (cp_guaranteedReqs c) '', '' in if r = [] then ''-'' else r)
      in ''| '' @ cp_name c @ '' | '' @ slug @ '' | '' @ status @ '' | '' @ reqs @ '' |'' @ eol)"

text \<open>The sort of the source is not stable; with distinct keys the result is the same.\<close>

definition renderManifest :: "capability list \<Rightarrow> string" where
  "renderManifest caps =
     (let sorted = sort_key (\<lambda>c. bytes (manifest_key c)) caps in
      ''# Capabilities Manifest'' @ eol @ eol @ ''| Name | Slug | Status | Guaranteed REQs |'' @ eol
      @ ''| --- | --- | --- | --- |'' @ eol @ concat (map manifest_row sorted))"

fun manifest_caps :: "os_files \<Rightarrow> string \<Rightarrow> dir_entry list \<Rightarrow> capability list \<times> string" where
  "manifest_caps os capsDir [] = ([], [])"
| "manifest_caps os capsDir (e # es) =
     (let (caps, err) = manifest_caps os capsDir es; name = dn_name e in
      if dn_isDir e \<or> \<not> HasSuffix name ''.md'' \<or> name \<in> {''MANIFEST.md'', ''README.md'', ''TEMPLATE.md''} then (caps, err)
      else
        (let baseName = TrimSuffix name ''.md''; path = path_Join capsDir name in
         case os_ReadFile os path of
           Inl readFileErr \<Rightarrow> (caps, ''warning: skipping '' @ path @ '': '' @ err_text readFileErr @ eol @ err)
         | Inr data \<Rightarrow>
             (let (capDoc, ok) = parseCapability baseName data in
              (capDoc # caps,
               (if ok then [] else ''warning: capability doc '' @ path
                  @ '' is malformed (missing Slug or Status), using placeholders'' @ eol) @ err))))"

text \<open>The error of the command, what it prints, and the file it writes.\<close>

definition runManifest ::
  "(nat \<Rightarrow> bool) \<Rightarrow> os_files \<Rightarrow> string \<Rightarrow> string \<Rightarrow> goerror option \<times> string \<times> string \<times> (string \<times> string) option" where
  "runManifest isp os capsDir writePath =
     (case os_ReadDir os capsDir of
        Inl readErr \<Rightarrow> (Some (Wrapf (''reading capabilities dir '' @ strconv_Quote isp capsDir @ '': '') readErr), [], [], None)
      | Inr entries \<Rightarrow>
          (let (caps, err) = manifest_caps os capsDir entries; output = renderManifest caps in
           if writePath \<noteq> [] then
             (case os_WriteFile os writePath output of
                Some writeErr \<Rightarrow>
                  (Some (Wrapf (''writing manifest to '' @ strconv_Quote isp writePath @ '': '') writeErr), [], err, None)
              | None \<Rightarrow> (None, [], err, Some (writePath, output)))
           else (None, output, err, None)))"

fun manifest_args :: "(nat \<Rightarrow> bool) \<Rightarrow> string list \<Rightarrow> string \<Rightarrow> bool \<Rightarrow> bool \<Rightarrow> string + (string \<times> bool)" where
  "manifest_args isp [] capsDir write dirSet = Inr (capsDir, write)"
| "manifest_args isp (a # as) capsDir write dirSet =
     (if a = ''--write'' then manifest_args isp as capsDir True dirSet
      else if HasPrefix a ''-'' then Inl (''error: unknown flag '' @ strconv_Quote isp a @ eol)
      else if dirSet then Inl (''error: unexpected argument '' @ strconv_Quote isp a @ eol)
      else manifest_args isp as a write True)"

definition runManifestCmd :: "(nat \<Rightarrow> bool) \<Rightarrow> os_files \<Rightarrow> string list \<Rightarrow> SpecTools.outcome" where
  "runManifestCmd isp os args =
     (case manifest_args isp args ''docs/capabilities'' False False of
        Inl msg \<Rightarrow> exit_with 2 [] msg
      | Inr (capsDir, write) \<Rightarrow>
          (let writePath = (if write then path_Join capsDir ''MANIFEST.md'' else []) in
           case runManifest isp os capsDir writePath of
             (Some manifestErr, out, err, w) \<Rightarrow> exit_with 2 out (err @ ''error: '' @ err_text manifestErr @ eol)
           | (None, out, err, w) \<Rightarrow> exit_with 0 out err))"

section \<open>Capability documents\<close>

record capabilityDoc =
  cd_name :: string
  cd_codePaths :: "string list"
  cd_lastVerified :: date
  cd_hasCodeSec :: bool

definition isStale :: "time \<Rightarrow> time \<Rightarrow> bool" where
  "isStale lastVerified lastCommit \<longleftrightarrow> lastCommit > lastVerified"

text \<open>What a bullet of the code section names.\<close>

definition bullet_path :: "string \<Rightarrow> string option" where
  "bullet_path trimmed =
     (case Fields (TrimSpace (TrimPrefix trimmed ''- '')) of
        [] \<Rightarrow> None
      | f # fs \<Rightarrow> (let path = Trim f ''`'' in if path = [] then None else Some path))"

definition verified_date :: "string \<Rightarrow> date option" where
  "verified_date trimmed =
     (let rest = TrimSpace (TrimPrefix trimmed ''Last-verified:'') in
      case Index rest '' ('' of
        None \<Rightarrow> None
      | Some i \<Rightarrow> if 0 < i then parse_date (TrimSpace (take i rest)) else None)"

fun doc_lines :: "string list \<Rightarrow> bool \<Rightarrow> capabilityDoc \<Rightarrow> capabilityDoc" where
  "doc_lines [] inCode doc = doc"
| "doc_lines (line # rest) inCode doc =
     (let trimmed = TrimLeft line blanks in
      if HasPrefix trimmed ''## Code'' then doc_lines rest True (doc\<lparr>cd_hasCodeSec := True\<rparr>)
      else if inCode then
        (if HasPrefix trimmed ''## '' then doc_lines rest False doc
         else if HasPrefix trimmed ''- '' then
           doc_lines rest True (case bullet_path trimmed of
             None \<Rightarrow> doc | Some path \<Rightarrow> doc\<lparr>cd_codePaths := cd_codePaths doc @ [path]\<rparr>)
         else if HasPrefix trimmed ''Last-verified:'' then
           doc_lines rest True (case verified_date trimmed of None \<Rightarrow> doc | Some t \<Rightarrow> doc\<lparr>cd_lastVerified := t\<rparr>)
         else doc_lines rest True doc)
      else doc_lines rest False doc)"

definition parseCapabilityDoc :: "string \<Rightarrow> string \<Rightarrow> capabilityDoc" where
  "parseCapabilityDoc name content =
     doc_lines (Split content CHR 0x0A) False
       \<lparr>cd_name = name, cd_codePaths = [], cd_lastVerified = zero_date, cd_hasCodeSec = False\<rparr>"

text \<open>The check of the paths of one document: what it prints and whether it found an error.\<close>

fun check_paths ::
  "(nat \<Rightarrow> bool) \<Rightarrow> os_files \<Rightarrow> (string \<Rightarrow> time option) \<Rightarrow> string \<Rightarrow> string \<Rightarrow> capabilityDoc \<Rightarrow> string list
    \<Rightarrow> string \<times> bool" where
  "check_paths isp os lookup docPath docName doc [] = ([], False)"
| "check_paths isp os lookup docPath docName doc (codePath # paths) =
     (let (out, bad) = check_paths isp os lookup docPath docName doc paths;
          absPath = (case os_Abs os codePath of Inl _ \<Rightarrow> codePath | Inr p \<Rightarrow> p)
      in
      if \<not> os_Exists os absPath then
        (docPath @ '': error: capability '' @ docName @ '': code path '' @ strconv_Quote isp codePath @ '' does not exist'' @ eol @ out, True)
      else if cd_lastVerified doc \<noteq> zero_date then
        (case lookup absPath of
           None \<Rightarrow> (out, bad)
         | Some commitTime \<Rightarrow>
             if isStale (instant (cd_lastVerified doc)) commitTime then
               (docPath @ '': warning: capability '' @ docName @ '': code path '' @ strconv_Quote isp codePath
                  @ '' has commits newer than Last-verified '' @ format_date (cd_lastVerified doc) @ eol @ out, bad)
             else (out, bad))
      else (out, bad))"

fun capability_entries ::
  "(nat \<Rightarrow> bool) \<Rightarrow> os_files \<Rightarrow> (string \<Rightarrow> time option) \<Rightarrow> string \<Rightarrow> dir_entry list \<Rightarrow> string \<times> string \<times> bool" where
  "capability_entries isp os lookup dir [] = ([], [], False)"
| "capability_entries isp os lookup dir (e # es) =
     (let (out, err, bad) = capability_entries isp os lookup dir es; name = dn_name e in
      if dn_isDir e \<or> \<not> HasSuffix name ''.md'' \<or> name \<in> {''README.md'', ''TEMPLATE.md'', ''MANIFEST.md''} \<or> \<not> dn_info e \<or> dn_symlink e
      then (out, err, bad)
      else
        (let docPath = path_Join dir name; docName = TrimSuffix name ''.md'' in
         case os_ReadFile os docPath of
           Inl readFileErr \<Rightarrow> (out, docPath @ '': error: reading file: '' @ err_text readFileErr @ eol @ err, True)
         | Inr data \<Rightarrow>
             (let doc = parseCapabilityDoc docName data in
              if \<not> cd_hasCodeSec doc then (docPath @ '': warning: no ## Code section found'' @ eol @ out, err, bad)
              else
                (let (o1, b1) = check_paths isp os lookup docPath docName doc (cd_codePaths doc)
                 in (o1 @ out, err, b1 \<or> bad)))))"

definition runCapabilities :: "(nat \<Rightarrow> bool) \<Rightarrow> os_files \<Rightarrow> (string \<Rightarrow> time option) \<Rightarrow> string \<Rightarrow> SpecTools.outcome" where
  "runCapabilities isp os lookup dir =
     (case os_ReadDir os dir of
        Inl readErr \<Rightarrow> exit_with 2 [] (''error: reading capabilities dir '' @ strconv_Quote isp dir @ '': '' @ err_text readErr @ eol)
      | Inr entries \<Rightarrow>
          (let (out, err, hasError) = capability_entries isp os lookup dir entries
           in exit_with (if hasError then 1 else 0) out err))"

section \<open>Bootstrap of a capability\<close>

definition reSentinel :: re where
  "reSentinel = seqs [Bol, Star (Cls re_space), opt_re (Seq (lit ''var'') (plus_re (Cls re_space))),
     Grp 1 (Seq (lit ''Err'') (plus_re (Cls alnum))), Star (Cls re_space), lit ''='', Star (Cls re_space), lit ''errors.New(''] "

definition renderBootstrap :: "string \<Rightarrow> string list \<Rightarrow> string list \<Rightarrow> string \<Rightarrow> string \<Rightarrow> string" where
  "renderBootstrap name files errs date commit =
     ''# Capability: '' @ name @ eol @ eol @ ''## Slug: TODO'' @ eol @ eol @ ''## Status: Active'' @ eol @ eol
     @ ''## Source'' @ eol @ eol @ ''- Specs: TODO'' @ eol @ ''- ADRs: TODO'' @ eol @ eol @ ''## Code'' @ eol @ eol
     @ concat (map (\<lambda>f. ''- '' @ f @ eol) files)
     @ eol @ ''Last-verified: '' @ date @ '' ('' @ commit @ '')'' @ eol @ eol
     @ ''## Guarantees (current truth)'' @ eol @ eol @ ''TODO'' @ eol @ eol @ ''## Invariants'' @ eol @ eol @ ''TODO'' @ eol @ eol
     @ ''## Error Contract'' @ eol @ eol @ concat (map (\<lambda>e. ''- '' @ e @ eol) errs) @ eol @ ''## Changelog'' @ eol"

definition grepSentinels :: "os_files \<Rightarrow> string \<Rightarrow> goerror + string list" where
  "grepSentinels os path =
     (case os_ReadFile os path of
        Inl openErr \<Rightarrow> Inl openErr
      | Inr data \<Rightarrow>
          if scan_fits 65536 data then
            Inr (concat (map (\<lambda>line. case FindStringSubmatch reSentinel line of None \<Rightarrow> [] | Some m \<Rightarrow> [submatch 1 m])
              (scanner_lines data)))
          else Inl (Opaque ''*errors.errorString'' ''bufio.Scanner: token too long''))"

fun dedup_from :: "string list \<Rightarrow> string list \<Rightarrow> string list" where
  "dedup_from seen [] = []"
| "dedup_from seen (v # vs) = (if v \<in> set seen then dedup_from seen vs else v # dedup_from (v # seen) vs)"

definition dedup :: "string list \<Rightarrow> string list" where
  "dedup s = dedup_from [] s"

definition source_files :: "dir_entry list \<Rightarrow> string list" where
  "source_files entries = map dn_name (filter (\<lambda>e. \<not> dn_isDir e \<and> \<not> dn_symlink e \<and> HasSuffix (dn_name e) ''.go''
     \<and> \<not> HasSuffix (dn_name e) ''_test.go'') entries)"

definition runBootstrap :: "(nat \<Rightarrow> bool) \<Rightarrow> os_files \<Rightarrow> string \<Rightarrow> SpecTools.outcome" where
  "runBootstrap isp os pkgDir =
     (case os_ReadDir os pkgDir of
        Inl readErr \<Rightarrow> exit_with 2 [] (''error: reading package dir '' @ strconv_Quote isp pkgDir @ '': '' @ err_text readErr @ eol)
      | Inr entries \<Rightarrow>
          (let goFiles = source_files entries;
               errNames = concat (map (\<lambda>name. case grepSentinels os (path_Join pkgDir name) of Inl _ \<Rightarrow> [] | Inr ns \<Rightarrow> ns) goFiles)
           in exit_with 0 (renderBootstrap (path_Base pkgDir) (sort_Strings goFiles) (dedup (sort_Strings errNames))
                ''TODO'' ''TODO'') []))"

section \<open>The entry point\<close>

definition usage :: string where
  "usage = ''usage: validate-spec <spec.md> [spec.md ...] | manifest [caps-dir] [--write] | files <spec.md> [spec.md ...] | capabilities [dir] | bootstrap-capability <pkg>''"

definition run_tool :: "(nat \<Rightarrow> bool) \<Rightarrow> os_files \<Rightarrow> (string \<Rightarrow> time option) \<Rightarrow> string list \<Rightarrow> SpecTools.outcome" where
  "run_tool isp os lookup args =
     (case args of
        prog # subcommand # rest \<Rightarrow>
          (if subcommand = ''manifest'' then runManifestCmd isp os rest
           else if subcommand = ''files'' then runFiles isp os rest
           else if subcommand = ''capabilities'' then
             runCapabilities isp os lookup (case rest of [] \<Rightarrow> ''docs/capabilities'' | d # ds \<Rightarrow> d)
           else if subcommand = ''bootstrap-capability'' then
             (case rest of
                [] \<Rightarrow> exit_with 2 [] (''error: bootstrap-capability: missing <pkg> argument'' @ eol)
              | pkg # others \<Rightarrow> runBootstrap isp os pkg)
           else if subcommand \<in> {''--help'', ''-h'', ''help''} then exit_with 0 [] (usage @ eol)
           else runLint isp os (subcommand # rest))
      | _ \<Rightarrow> exit_with 2 [] (usage @ eol))"

end
