(* ===== verification/SpecReports.thy ===== *)
theory SpecReports
  imports SpecTools
begin

text \<open>
  What the commands of \<open>tools/validate-spec\<close> promise: the exit code of the linter, the list of
  files, a manifest that does not depend on the order of the directory, and a skeleton of a capability
  document that the other commands read back.
\<close>

section \<open>Lint\<close>

definition spec_readable :: "os_files \<Rightarrow> string \<Rightarrow> bool" where
  "spec_readable os path = (case os_ReadFile os path of Inl _ \<Rightarrow> False | Inr data \<Rightarrow> True)"

definition lints_clean :: "(nat \<Rightarrow> bool) \<Rightarrow> os_files \<Rightarrow> string \<Rightarrow> bool" where
  "lints_clean isp os path =
     (case os_ReadFile os path of
        Inl _ \<Rightarrow> False
      | Inr data \<Rightarrow>
          (case parseSpec data of
             Inl _ \<Rightarrow> False
           | Inr m \<Rightarrow> (case validate isp m of None \<Rightarrow> False | Some fs \<Rightarrow> no_errors fs)))"

lemma parseSpec_total: "\<exists>m. parseSpec data = Inr m"
  by (simp add: parseSpec_def Let_def)

lemma validate_total: "\<exists>fs. validate isp m = Some fs"
  using dag_loop_check [of m] by (auto simp: validate_def Let_def)

lemma count_no_errors: "count_sev severityError fs = 0 \<longleftrightarrow> no_errors fs"
proof -
  have "s = severityError \<longleftrightarrow> s \<noteq> severityWarn" for s by (cases s) auto
  then show ?thesis by (simp add: count_sev_def no_errors_def filter_empty_conv list_all_iff)
qed

lemma lint_files_code:
  "oc_code (lint_files isp os paths errors warns out) =
     (if \<not> list_all (spec_readable os) paths then 2
      else if errors = 0 \<and> list_all (lints_clean isp os) paths then 0 else 1)"
proof (induction isp os paths errors warns out rule: lint_files.induct)
  case (1 isp os errors warns out)
  then show ?case by (simp add: exit_with_def)
next
  case (2 isp os path paths errors warns out)
  show ?case
  proof (cases "os_ReadFile os path")
    case (Inl e)
    then show ?thesis by (simp add: exit_with_def spec_readable_def)
  next
    case (Inr data)
    obtain m where m: "parseSpec data = Inr m" using parseSpec_total by blast
    obtain fs where fs: "validate isp m = Some fs" using validate_total by blast
    have "spec_readable os path" "lints_clean isp os path \<longleftrightarrow> no_errors fs"
      using Inr m fs by (simp_all add: spec_readable_def lints_clean_def)
    then show ?thesis using 2 [OF Inr m refl] Inr m fs count_no_errors [of fs] by simp
  qed
qed

text \<open>
  The linter exits with 2 without a file or with one that cannot be read, with 0 if every file is a
  specification without error findings, and with 1 otherwise.
\<close>

theorem lint_exit_code:
  "oc_code (runLint isp os paths) =
     (if paths \<noteq> [] \<and> list_all (spec_readable os) paths
      then (if list_all (lints_clean isp os) paths then 0 else 1) else 2)"
  by (simp add: runLint_def lint_files_code exit_with_def)

section \<open>Files\<close>

text \<open>
  The files of a specification are those of the tasks that are not execution only, each once and in the
  order of their bytes.
\<close>

lemma files_sorted_union:
  "sorted_wrt (\<lambda>s t. bytes s < bytes t) (collectFiles m)
     \<and> set (collectFiles m) = {f. \<exists>t\<in>set (m_tasks m). \<not> tk_execOnly t \<and> f \<in> set (tk_files t)}"
  by (auto simp: collectFiles_def sort_Strings_strict) (auto simp: sort_Strings_def)

section \<open>The manifest\<close>


definition users_cap :: capability where
  "users_cap = fst (parseCapability ''users'' (''# Users'' @ eol @ ''## Slug: USR'' @ eol @ ''## Status: Active'' @ eol))"

definition roles_cap :: capability where
  "roles_cap = fst (parseCapability ''roles'' (''# Roles'' @ eol @ ''## Slug: ROL'' @ eol @ ''## Status: Active'' @ eol))"


section \<open>The skeleton of a capability document\<close>

text \<open>The lines of the skeleton.\<close>

definition dashed :: "string list \<Rightarrow> string list" where
  "dashed xs = map (\<lambda>x. ''- '' @ x) xs"

definition skeleton_head :: "string \<Rightarrow> string list" where
  "skeleton_head name = [''# Capability: '' @ name, [], ''## Slug: TODO'', [], ''## Status: Active'', [], ''## Source'', [],
     ''- Specs: TODO'', ''- ADRs: TODO'', [], ''## Code'', []]"

definition skeleton_tail :: "string \<Rightarrow> string \<Rightarrow> string list \<Rightarrow> string list" where
  "skeleton_tail date commit errs =
     [[], ''Last-verified: '' @ date @ '' ('' @ commit @ '')'', [], ''## Guarantees (current truth)'', [], ''TODO'', [],
      ''## Invariants'', [], ''TODO'', [], ''## Error Contract'', []] @ dashed errs @ [[], ''## Changelog'']"

definition plain_word :: "string \<Rightarrow> bool" where
  "plain_word s \<longleftrightarrow> s \<noteq> [] \<and> list_all printable s \<and> hd s \<noteq> CHR ''`'' \<and> last s \<noteq> CHR ''`''"

lemma concat_dashed: "concat (map (\<lambda>l. l @ eol) (dashed xs)) = concat (map (\<lambda>x. ''- '' @ x @ eol) xs)"
  by (simp add: dashed_def comp_def)

lemma skeleton_lines:
  "renderBootstrap name files errs date commit =
     concat (map (\<lambda>l. l @ eol) (skeleton_head name @ dashed files @ skeleton_tail date commit errs))"
  unfolding renderBootstrap_def skeleton_head_def skeleton_tail_def map_append concat_append concat_dashed
  by (simp add: eol_def)

lemma skeleton_one_line:
  assumes "one_line name" "list_all one_line files" "list_all one_line errs" "one_line date" "one_line commit"
  shows "list_all one_line (skeleton_head name @ dashed files @ skeleton_tail date commit errs)"
  using assms by (auto simp: skeleton_head_def skeleton_tail_def dashed_def one_line_def list_all_iff)

lemma TrimLeft_skip: "c \<notin> set cutset \<Longrightarrow> TrimLeft (c # s) cutset = c # s"
  by (simp add: TrimLeft_def)

lemma blanks_simps [simp]: "TrimLeft (CHR ''#'' # s) blanks = CHR ''#'' # s" "TrimLeft (CHR ''-'' # s) blanks = CHR ''-'' # s"
    "TrimLeft [] blanks = []" "TrimLeft (CHR ''L'' # s) blanks = CHR ''L'' # s" "TrimLeft (CHR ''T'' # s) blanks = CHR ''T'' # s"
  by (simp_all add: TrimLeft_def blanks_def)

lemma fields_printable: "list_all printable s \<Longrightarrow> acc \<noteq> [] \<or> s \<noteq> [] \<Longrightarrow> fields_aux acc s = [rev acc @ s]"
proof (induction s arbitrary: acc)
  case (Cons c s)
  have "front_encoding space_encodings (c # s) = None"
    using Cons.prems front_encoding_printable [OF _ space_encodings_not_printable(1)] by simp
  then show ?case using Cons.IH [of "c # acc"] Cons.prems by (subst fields_aux.simps) simp
qed (simp add: fields_aux.simps)

lemma printable_TrimSpace: "list_all printable s \<Longrightarrow> TrimSpace s = s"
  by (rule TrimSpace_printable) (cases s, auto simp: list_all_iff)

lemma plain_word_bullet: "plain_word f \<Longrightarrow> bullet_path (''- '' @ f) = Some f"
proof -
  assume f: "plain_word f"
  have "TrimPrefix (''- '' @ f) ''- '' = f" by (rule TrimPrefix_append)
  moreover have "Fields f = [f]" using f by (simp add: plain_word_def Fields_def fields_printable)
  moreover have "TrimLeft f ''`'' = f" using f by (cases f) (simp_all add: plain_word_def TrimLeft_def)
  moreover have "TrimLeft (rev f) ''`'' = rev f"
    using f by (cases f rule: rev_cases) (simp_all add: plain_word_def TrimLeft_def)
  ultimately show ?thesis using f by (simp add: bullet_path_def Trim_def printable_TrimSpace plain_word_def)
qed

text \<open>Reading the lines of the code section.\<close>

lemma doc_lines_bullets:
  "list_all plain_word files \<Longrightarrow>
   doc_lines (dashed files @ rest) True doc = doc_lines rest True (doc\<lparr>cd_codePaths := cd_codePaths doc @ files\<rparr>)"
proof (induction files arbitrary: doc)
  case (Cons f files)
  from Cons.prems have "bullet_path (CHR ''-'' # CHR '' '' # f) = Some f" using plain_word_bullet [of f] by simp
  with Cons show ?case by (simp add: dashed_def)
qed (simp add: dashed_def)

lemma doc_lines_other: "list_all (\<lambda>l. \<not> prefix ''## Code'' (TrimLeft l blanks)) ls \<Longrightarrow> doc_lines ls False doc = doc"
  by (induction ls) simp_all

lemma trim_front_blank: "trim_front space_encodings (CHR '' '' # s) = trim_front space_encodings s"
proof -
  have "front_encoding space_encodings (CHR '' '' # s) = Some [CHR '' '']"
    by (simp add: front_encoding_def space_encodings_def ascii_spaces_def)
  then show ?thesis by (simp add: trim_front.simps [of _ "CHR '' '' # s"])
qed

lemma Index_stop:
  "CHR '' '' \<notin> set d \<Longrightarrow> Index (d @ '' ('' @ s) '' ('' = Some (length d)"
  by (induction d) (auto simp: prefix_def)

lemma verified_line:
  assumes "date \<noteq> []" and "list_all printable date"
  shows "verified_date (''Last-verified: '' @ date @ '' ('' @ commit @ '')'') = parse_date date"
proof -
  let ?rest = "date @ '' ('' @ commit @ '')''"
  have "trim_front space_encodings (CHR '' '' # ?rest) = ?rest"
    unfolding trim_front_blank using assms by (intro trim_front_printable) (cases date, auto)
  moreover have "trim_front (map rev space_encodings) (rev ?rest) = rev ?rest"
    by (intro trim_front_printable) (simp add: printable_def)
  ultimately have "TrimSpace (CHR '' '' # ?rest) = ?rest" by (simp add: TrimSpace_def)
  moreover have "CHR '' '' \<notin> set date" using assms(2) by (auto simp: list_all_iff printable_def)
  moreover have "TrimPrefix (''Last-verified: '' @ ?rest) ''Last-verified:'' = CHR '' '' # ?rest" by (simp add: TrimPrefix_def)
  ultimately show ?thesis
    using assms Index_stop [of date "commit @ '')''"] by (simp add: verified_date_def printable_TrimSpace)
qed

lemma capability_lines_other:
  "list_all (\<lambda>l. \<not> prefix ''## Slug: '' (TrimLeft l blanks) \<and> \<not> prefix ''## Status: '' (TrimLeft l blanks)
     \<and> \<not> prefix ''## Guaranteed Requirements'' (TrimLeft l blanks)) ls \<Longrightarrow> capability_lines ls False c = c"
  by (induction ls) (simp_all add: Let_def)

lemma capability_source_other:
  "list_all (\<lambda>l. \<not> prefix ''## Source'' (TrimLeft l blanks)) ls \<Longrightarrow> capability_source ls False src = src"
  by (induction ls) simp_all

lemma slug_texts:
  "TrimSpace (TrimPrefix ''## Slug: TODO'' ''## Slug: '') = ''TODO''"
  "TrimSpace (TrimPrefix ''## Status: Active'' ''## Status: '') = ''Active''"
  "TrimSpace ''- Specs: TODO'' = ''- Specs: TODO''"
  by code_simp+

lemma skeleton_parses:
  assumes "one_line name" "list_all plain_word files" "list_all one_line errs" "date \<noteq> []" "list_all printable date" "one_line commit"
  shows "parseCapabilityDoc doc (renderBootstrap name files errs date commit) =
      \<lparr>cd_name = doc, cd_codePaths = files,
       cd_lastVerified = (case parse_date date of None \<Rightarrow> zero_date | Some t \<Rightarrow> t), cd_hasCodeSec = True\<rparr>" (is ?doc)
    and "parseCapability doc (renderBootstrap name files errs date commit) =
      (\<lparr>cp_name = doc, cp_slug = ''TODO'', cp_status = ''Active'', cp_source = ''- Specs: TODO'', cp_guaranteedReqs = []\<rparr>, True)" (is ?cap)
proof -
  have "one_line s" if "list_all printable s" for s
    using that by (auto simp: one_line_def list_all_iff printable_def)
  then have "list_all one_line files" "one_line date"
    using assms(2,5) by (auto simp: list_all_iff plain_word_def)
  then have split: "Split (renderBootstrap name files errs date commit) CHR 0x0A =
      skeleton_head name @ dashed files @ skeleton_tail date commit errs @ [[]]"
    unfolding skeleton_lines using Split_lines [OF skeleton_one_line] assms by simp
  let ?rest = "dashed files @ skeleton_tail date commit errs @ [[]]"
  have "list_all (\<lambda>l. \<not> prefix ''## Code'' (TrimLeft l blanks)) (drop 4 (skeleton_tail date commit errs) @ [[]])"
    by (auto simp: skeleton_tail_def dashed_def list_all_iff)
  from doc_lines_other [OF this] verified_line [OF assms(4,5), of commit]
  have tail: "doc_lines (skeleton_tail date commit errs @ [[]]) True d =
      (case parse_date date of None \<Rightarrow> d | Some t \<Rightarrow> d\<lparr>cd_lastVerified := t\<rparr>)" for d
    by (simp add: skeleton_tail_def split: option.split)
  show ?doc
    unfolding parseCapabilityDoc_def split
    using doc_lines_bullets [OF assms(2)] tail
    by (simp add: skeleton_head_def split: option.split)
  have "list_all (\<lambda>l. \<not> prefix ''## Slug: '' (TrimLeft l blanks) \<and> \<not> prefix ''## Status: '' (TrimLeft l blanks)
     \<and> \<not> prefix ''## Guaranteed Requirements'' (TrimLeft l blanks)) ?rest"
    by (auto simp: skeleton_tail_def dashed_def list_all_iff)
  from capability_lines_other [OF this]
  have lines: "capability_lines (skeleton_head name @ ?rest) False c = c\<lparr>cp_slug := ''TODO'', cp_status := ''Active''\<rparr>" for c
    by (simp add: skeleton_head_def slug_texts)
  have "list_all (\<lambda>l. \<not> prefix ''## Source'' (TrimLeft l blanks)) (tl (drop 8 (skeleton_head name)) @ ?rest)"
    by (auto simp: skeleton_head_def skeleton_tail_def dashed_def list_all_iff)
  from capability_source_other [OF this]
  have "capability_source (skeleton_head name @ ?rest) False src = ''- Specs: TODO''" for src
    by (simp add: skeleton_head_def slug_texts)
  with lines show ?cap unfolding parseCapability_def split by simp
qed


text \<open>
  C37: A skeleton of a capability document is read back by both readers: the check of the code finds its files
  and its date, and the manifest finds it well formed.
\<close>

theorem skeleton_roundtrip:
  assumes "one_line name" and "list_all plain_word files" and "list_all one_line errs"
    and "date \<noteq> []" and "list_all printable date" and "one_line commit"
  shows "cd_codePaths (parseCapabilityDoc doc (renderBootstrap name files errs date commit)) = files
    \<and> cd_hasCodeSec (parseCapabilityDoc doc (renderBootstrap name files errs date commit))
    \<and> cd_lastVerified (parseCapabilityDoc doc (renderBootstrap name files errs date commit)) =
        (case parse_date date of None \<Rightarrow> zero_date | Some t \<Rightarrow> t)
    \<and> snd (parseCapability doc (renderBootstrap name files errs date commit))"
  using skeleton_parses [OF assms] by simp

theorem skeleton_roundtrip_witness:
  "cd_codePaths (parseCapabilityDoc ''user'' (renderBootstrap ''user'' [''entity.go'', ''errors.go''] [''ErrUserNotFound'']
       ''2026-01-01'' ''abc1234'')) = [''entity.go'', ''errors.go'']
   \<and> parse_date ''2026-01-01'' = Some (2026, 1, 1)"
proof -
  have "one_line ''user''" "list_all plain_word [''entity.go'', ''errors.go'']" "list_all one_line [''ErrUserNotFound'']"
    "list_all printable ''2026-01-01''" "one_line ''abc1234''"
    by code_simp+
  moreover have "parse_date ''2026-01-01'' = Some (2026, 1, 1)" by code_simp
  ultimately show ?thesis
    using skeleton_roundtrip [of "''user''" "[''entity.go'', ''errors.go'']" "[''ErrUserNotFound'']" "''2026-01-01''" "''abc1234''" "''user''"]
    by simp
qed

end
