(* ===== verification/LearnErr.thy ===== *)
theory LearnErr
  imports AppErrors
begin

text \<open>
  The typed errors of the learning tool (\<open>tools/learn/learnerr.go\<close>) and the exit codes they stand for.
\<close>

section \<open>Errors\<close>

text \<open>
  The two typed errors with their optional cause, \<open>fmt.Errorf\<close> around an error, and any
  other error.
\<close>

datatype lerror =
    usageError (le_Msg: string) (le_Err: "lerror option")
  | runtimeError (le_Msg: string) (le_Err: "lerror option")
  | WrapErr string lerror
  | OtherErr goerror

primrec lerr_text :: "lerror \<Rightarrow> string" where
  "lerr_text (usageError m oe) = (case map_option lerr_text oe of Some t \<Rightarrow> m @ '': '' @ t | None \<Rightarrow> m)"
| "lerr_text (runtimeError m oe) = (case map_option lerr_text oe of Some t \<Rightarrow> m @ '': '' @ t | None \<Rightarrow> m)"
| "lerr_text (WrapErr p e) = p @ lerr_text e"
| "lerr_text (OtherErr e) = err_text e"

fun lerr_Unwrap :: "lerror \<Rightarrow> lerror option" where
  "lerr_Unwrap (usageError m oe) = oe"
| "lerr_Unwrap (runtimeError m oe) = oe"
| "lerr_Unwrap (WrapErr p e) = Some e"
| "lerr_Unwrap (OtherErr e) = map_option OtherErr (AppError_Unwrap e)"

text \<open>\<open>errors.As\<close> to each of the types.\<close>

primrec as_usage :: "lerror \<Rightarrow> bool" where
  "as_usage (usageError m oe) = True"
| "as_usage (runtimeError m oe) = (case map_option as_usage oe of Some b \<Rightarrow> b | None \<Rightarrow> False)"
| "as_usage (WrapErr p e) = as_usage e"
| "as_usage (OtherErr e) = False"

primrec as_runtime :: "lerror \<Rightarrow> bool" where
  "as_runtime (usageError m oe) = (case map_option as_runtime oe of Some b \<Rightarrow> b | None \<Rightarrow> False)"
| "as_runtime (runtimeError m oe) = True"
| "as_runtime (WrapErr p e) = as_runtime e"
| "as_runtime (OtherErr e) = False"

text \<open>
  A format with \<open>%w\<close> at its end: the message of the wrapped error, and the message without the cause.
\<close>

definition splitWrapped :: "string \<Rightarrow> lerror option \<Rightarrow> string \<times> lerror option" where
  "splitWrapped full cause =
     (case cause of
        None \<Rightarrow> (full, None)
      | Some c \<Rightarrow>
          (let suffix = '': '' @ lerr_text c in
           if length full > length suffix \<and> drop (length full - length suffix) full = suffix
           then (take (length full - length suffix) full, Some c)
           else (full, None)))"

definition usagef :: "string \<Rightarrow> lerror" where
  "usagef msg = (case splitWrapped msg None of (m, c) \<Rightarrow> usageError m c)"

definition runtimef :: "string \<Rightarrow> lerror" where
  "runtimef msg = (case splitWrapped msg None of (m, c) \<Rightarrow> runtimeError m c)"

definition usagef_w :: "string \<Rightarrow> lerror \<Rightarrow> lerror" where
  "usagef_w pre e = (case splitWrapped (pre @ '': '' @ lerr_text e) (Some e) of (m, c) \<Rightarrow> usageError m c)"

definition runtimef_w :: "string \<Rightarrow> lerror \<Rightarrow> lerror" where
  "runtimef_w pre e = (case splitWrapped (pre @ '': '' @ lerr_text e) (Some e) of (m, c) \<Rightarrow> runtimeError m c)"

definition exitCode :: "lerror option \<Rightarrow> int" where
  "exitCode err =
     (case err of
        None \<Rightarrow> 0
      | Some e \<Rightarrow> if as_usage e then 1 else if as_runtime e then 2 else 2)"

definition wrapCobraError :: "lerror option \<Rightarrow> lerror option" where
  "wrapCobraError err =
     (case err of
        None \<Rightarrow> None
      | Some e \<Rightarrow>
          if as_usage e \<or> as_runtime e then Some e
          else (let msg = lerr_text e in
                if Contains msg ''unknown command'' \<or> Contains msg ''required flag'' then Some (usagef msg)
                else Some e))"

text \<open>What \<open>RunCmd\<close> makes of the error of the command: the code and the line on the error stream.\<close>

definition RunCmd :: "lerror option \<Rightarrow> int \<times> string" where
  "RunCmd execErr =
     (case execErr of
        None \<Rightarrow> (0, [])
      | Some _ \<Rightarrow>
          (case wrapCobraError execErr of
             None \<Rightarrow> (0, [])
           | Some e \<Rightarrow> (exitCode (Some e), ''Error: '' @ lerr_text e @ [CHR 0x0A])))"

section \<open>Correctness\<close>

text \<open>The text of a wrapped error is what the format would have printed, and the cause stays reachable.\<close>

lemma runtimef_w_text [simp]: "lerr_text (runtimef_w p e) = p @ '': '' @ lerr_text e"
  by (cases p) (simp_all add: runtimef_w_def splitWrapped_def Let_def)

lemma usagef_w_text [simp]: "lerr_text (usagef_w p e) = p @ '': '' @ lerr_text e"
  by (cases p) (simp_all add: usagef_w_def splitWrapped_def Let_def)

lemma as_usage_simps [simp]:
  "as_usage (usagef m)" "as_usage (usagef_w p e)" "\<not> as_usage (runtimef m)"
  "p \<noteq> [] \<Longrightarrow> as_usage (runtimef_w p e) \<longleftrightarrow> as_usage e"
  by (auto simp: usagef_def runtimef_def usagef_w_def runtimef_w_def splitWrapped_def split: prod.split)

lemma as_runtime_simps [simp]: "as_runtime (runtimef m)" "as_runtime (runtimef_w p e)"
  by (auto simp: runtimef_def runtimef_w_def splitWrapped_def split: prod.split)

lemma exitCode_range: "exitCode (Some e) = 1 \<or> exitCode (Some e) = 2"
  by (simp add: exitCode_def)

lemma wrapCobra_keeps: "as_usage e \<Longrightarrow> exitCode (wrapCobraError (Some e)) = 1"
  by (simp add: wrapCobraError_def exitCode_def)

end
