(* ===== verification/Similar.thy ===== *)
theory Similar
  imports LearnErr Strconv Complex_Main
begin

text \<open>
  String similarity of the learning tool (\<open>tools/learn/similar.go\<close>): the edit distance computed in one row,
  and the query of a full-text index.  The score of a hit is a finite float, which is a rational number that
  is only negated and compared.
\<close>

section \<open>Edit distance\<close>

definition minInt :: "nat \<Rightarrow> nat \<Rightarrow> nat" where
  "minInt a b = (if a < b then a else b)"

text \<open>
  The inner loop: \<open>prevDiag\<close> is the old value on the left, \<open>left\<close> the new one, and the row ahead still holds the
  old values.
\<close>

fun lev_cells :: "'a \<Rightarrow> nat \<Rightarrow> nat \<Rightarrow> 'a list \<Rightarrow> nat list \<Rightarrow> nat list" where
  "lev_cells a prevDiag left (b # rb) (save # ahead) =
     (let cost = (if a = b then 0 else 1); del = save + 1; ins = left + 1; sub = prevDiag + cost;
          cell = minInt del (minInt ins sub)
      in cell # lev_cells a save cell rb ahead)"
| "lev_cells a prevDiag left rb ahead = []"

text \<open>The outer loop over the longer string, \<open>i\<close> counting from one.\<close>

fun lev_rows :: "nat \<Rightarrow> 'a list \<Rightarrow> 'a list \<Rightarrow> nat list \<Rightarrow> nat list" where
  "lev_rows i [] rb prev = prev"
| "lev_rows i (a # ra) rb prev = lev_rows (Suc i) ra rb (i # lev_cells a (hd prev) i rb (tl prev))"

definition lev_runes :: "'a list \<Rightarrow> 'a list \<Rightarrow> nat" where
  "lev_runes ra0 rb0 =
     (let (ra, rb) = (if length ra0 < length rb0 then (rb0, ra0) else (ra0, rb0)); n = length rb in
      if n = 0 then length ra
      else lev_rows 1 ra rb [0..<Suc n] ! n)"

definition levenshteinDistance :: "string \<Rightarrow> string \<Rightarrow> nat" where
  "levenshteinDistance a b = lev_runes (runes a) (runes b)"

definition runeLen :: "string \<Rightarrow> nat" where
  "runeLen s = length (runes s)"

definition normalizedLevenshteinDistance :: "string \<Rightarrow> string \<Rightarrow> float64" where
  "normalizedLevenshteinDistance a b =
     (let la = runeLen a; lb = runeLen b; maxLen = (if lb > la then lb else la) in
      if maxLen = 0 then f64_of_int 0
      else f64_div (f64_of_int (int (levenshteinDistance a b))) (f64_of_int (int maxLen)))"

section \<open>Full-text queries\<close>

definition escapeFTSMatch :: "string \<Rightarrow> string" where
  "escapeFTSMatch s =
     (if s = [] then []
      else [CHR 0x22] @ concat (map (\<lambda>c. if c = CHR 0x22 then [c, c] else [c]) s) @ [CHR 0x22])"

definition indexSkill :: string where "indexSkill = ''skill_fts''"
definition indexMemory :: string where "indexMemory = ''memory_fts''"
definition indexPattern :: string where "indexPattern = ''pattern_fts''"

definition isKnownIndex :: "string \<Rightarrow> bool" where
  "isKnownIndex i \<longleftrightarrow> i \<in> {indexSkill, indexMemory, indexPattern}"

record similarMatch =
  sm_index :: string
  sm_path :: string
  sm_score :: rat

record ftsQueryOpts =
  fo_index :: string
  fo_query :: string
  fo_limit :: int
  fo_minScore :: rat

text \<open>
  The statement and its arguments; the database answers with rows of a path and a raw score, or with the error of
  the query, of a row or of the iteration.
\<close>

datatype fts_error = QueryErr goerror | ScanErr goerror | RowsErr goerror

type_synonym fts_db = "string \<Rightarrow> string \<Rightarrow> int \<Rightarrow> fts_error + (string \<times> rat) list"

definition fts_statement :: "string \<Rightarrow> string" where
  "fts_statement index =
     (let table = index; pathExpr = (if index = indexPattern then [CHR 0x27, CHR 0x27] else ''path'') in
      ''SELECT '' @ pathExpr @ '', bm25('' @ table @ '') FROM '' @ table @ '' WHERE '' @ table
      @ '' MATCH ? ORDER BY bm25('' @ table @ '') ASC, '' @ pathExpr @ '' ASC LIMIT ?'')"

fun fts_rows :: "string \<Rightarrow> rat \<Rightarrow> (string \<times> rat) list \<Rightarrow> similarMatch list" where
  "fts_rows index minScore [] = []"
| "fts_rows index minScore ((path, bm25) # rows) =
     (let score0 = - bm25; score = (if score0 < 0 then 0 else score0) in
      if score < minScore then fts_rows index minScore rows
      else \<lparr>sm_index = index, sm_path = path, sm_score = score\<rparr> # fts_rows index minScore rows)"

definition queryFTSIndex :: "(nat \<Rightarrow> bool) \<Rightarrow> fts_db option \<Rightarrow> ftsQueryOpts \<Rightarrow> lerror + similarMatch list" where
  "queryFTSIndex isp db opts =
     (case db of
        None \<Rightarrow> Inl (runtimef ''similar: bm25 query: nil *sql.DB'')
      | Some query \<Rightarrow>
          if fo_limit opts < 1 then Inl (usagef (''similar: bm25 query: Limit must be >= 1, got '' @ int_text (fo_limit opts)))
          else if \<not> isKnownIndex (fo_index opts) then
            Inl (usagef (''similar: bm25 query: unknown index '' @ strconv_Quote isp (fo_index opts)))
          else if TrimSpace (fo_query opts) = [] then Inr []
          else
            (case query (fts_statement (fo_index opts)) (fo_query opts) (fo_limit opts) of
               Inl (QueryErr e) \<Rightarrow> Inl (runtimef_w ''similar: bm25 query'' (OtherErr e))
             | Inl (ScanErr e) \<Rightarrow> Inl (runtimef_w ''similar: bm25 scan'' (OtherErr e))
             | Inl (RowsErr e) \<Rightarrow> Inl (runtimef_w ''similar: bm25 rows'' (OtherErr e))
             | Inr rows \<Rightarrow> Inr (fts_rows (fo_index opts) (fo_minScore opts) rows)))"

end
