(* ===== verification/EditDistance.thy ===== *)
theory EditDistance
  imports Similar
begin

text \<open>
  The distance computed in one row is the least number of insertions, deletions and replacements of single
  code points that turn one string into the other.
\<close>

section \<open>Edits\<close>

inductive edit :: "'a list \<Rightarrow> 'a list \<Rightarrow> bool" where
  ins: "edit (p @ s) (p @ y # s)"
| del: "edit (p @ x # s) (p @ s)"
| sub: "edit (p @ x # s) (p @ y # s)"

definition edits :: "nat \<Rightarrow> 'a list \<Rightarrow> 'a list \<Rightarrow> bool" where
  "edits n = edit ^^ n"

lemma edits_SucD: "edits (Suc n) xs ys \<Longrightarrow> \<exists>us. edit xs us \<and> edits n us ys"
  unfolding edits_def by (rule relpowp_Suc_D2)

text \<open>The textbook recursion.\<close>

fun lev :: "'a list \<Rightarrow> 'a list \<Rightarrow> nat" where
  "lev [] ys = length ys"
| "lev (x # xs) [] = Suc (length xs)"
| "lev (x # xs) (y # ys) =
     min (Suc (lev xs (y # ys))) (min (Suc (lev (x # xs) ys)) ((if x = y then 0 else 1) + lev xs ys))"

lemma lev_Nil [simp]: "lev xs [] = length xs"
  by (cases xs) simp_all

lemma lev_sym: "lev xs ys = lev ys xs"
  by (induction xs ys rule: lev.induct) (auto simp: min.commute min.left_commute)

lemma lev_refl [simp]: "lev xs xs = 0"
  by (induction xs) (auto simp: min_def)

lemma lev_le_max: "lev xs ys \<le> max (length xs) (length ys)"
  by (induction xs ys rule: lev.induct) auto

lemma lev_del: "lev (x # s) zs \<le> Suc (lev s zs)"
  by (cases zs) auto

lemma lev_ins: "lev s zs \<le> Suc (lev (y # s) zs)"
proof (induction zs)
  case (Cons z zs)
  have "lev s (z # zs) \<le> Suc (lev s zs)" using lev_del [of z zs s] by (simp add: lev_sym)
  then show ?case using Cons by (auto simp: min_def)
qed simp

lemma lev_sub: "lev (x # s) zs \<le> Suc (lev (y # s) zs)"
  by (induction zs) (auto simp: min_def)

lemma lev_front: "(\<And>zs. lev xs zs \<le> Suc (lev ys zs)) \<Longrightarrow> lev (p @ xs) zs \<le> Suc (lev (p @ ys) zs)"
proof (induction p arbitrary: zs)
  case (Cons c p)
  note le = Cons.IH [OF Cons.prems]
  show ?case
  proof (induction zs)
    case Nil
    show ?case using le [of "[]"] by simp
  next
    case (Cons z zs)
    then show ?case using le [of "z # zs"] le [of zs] by (auto simp: min_def)
  qed
qed simp

lemma lev_edit: "edit xs ys \<Longrightarrow> lev xs zs \<le> Suc (lev ys zs)"
  by (induction rule: edit.induct) (auto intro!: lev_front lev_del lev_ins lev_sub)

lemma lev_edits: "edits n xs ys \<Longrightarrow> lev xs zs \<le> n + lev ys zs"
proof (induction n arbitrary: xs)
  case (Suc n)
  from edits_SucD [OF Suc.prems] obtain us where "edit xs us" "edits n us ys"
    by blast
  then show ?case using Suc.IH [of us] lev_edit [of xs us zs] by simp
qed (simp add: edits_def)

lemma edit_Cons: "edit xs ys \<Longrightarrow> edit (c # xs) (c # ys)"
  by (induction rule: edit.induct) (metis append_Cons edit.intros)+

lemma edits_Cons: "edits n xs ys \<Longrightarrow> edits n (c # xs) (c # ys)"
proof (induction n arbitrary: xs)
  case (Suc n)
  from edits_SucD [OF Suc.prems] obtain us where "edit xs us" "edits n us ys"
    by blast
  then show ?case using Suc.IH edit_Cons unfolding edits_def by (metis relpowp_Suc_I2)
qed (simp add: edits_def)

lemma edits_step: "edit xs us \<Longrightarrow> edits n us ys \<Longrightarrow> edits (Suc n) xs ys"
  unfolding edits_def by (metis relpowp_Suc_I2)

lemma edits_lev: "edits (lev xs ys) xs ys"
proof (induction xs ys rule: lev.induct)
  case (1 ys)
  show ?case
  proof (induction ys)
    case (Cons y ys)
    have "edit [] [y]" using ins [of "[]" "[]" y] by simp
    then show ?case using edits_step [of "[]" "[y]" "length ys" "y # ys"] edits_Cons [OF Cons] by simp
  qed (simp add: edits_def)
next
  case (2 x xs)
  have "edits (length zs) zs []" for zs :: "'a list"
  proof (induction zs)
    case (Cons z zs)
    then show ?case using edits_step [of "z # zs" zs] del [of "[]" z zs] by simp
  qed (simp add: edits_def)
  from this [of "x # xs"] show ?case by simp
next
  case (3 x xs y ys)
  have "edits (Suc (lev xs (y # ys))) (x # xs) (y # ys)"
    using edits_step [OF del [of "[]" x xs, simplified] "3.IH"(1)] .
  moreover have "edits (Suc (lev (x # xs) ys)) (x # xs) (y # ys)"
    using edits_step [OF ins [of "[]" "x # xs" y, simplified] edits_Cons [OF "3.IH"(2)]] .
  moreover have "edits ((if x = y then 0 else 1) + lev xs ys) (x # xs) (y # ys)"
    using edits_Cons [OF "3.IH"(3)] edits_step [OF sub [of "[]" x xs y, simplified] edits_Cons [OF "3.IH"(3)]] by simp
  ultimately show ?case by (simp add: min_def)
qed

lemma edit_rev: "edit xs ys \<Longrightarrow> edit (rev xs) (rev ys)"
proof (induction rule: edit.induct)
  case (ins p s y)
  show ?case using edit.ins [of "rev s" "rev p" y] by simp
next
  case (del p x s)
  show ?case using edit.del [of "rev s" x "rev p"] by simp
next
  case (sub p x s y)
  show ?case using edit.sub [of "rev s" x "rev p" y] by simp
qed

lemma edits_rev: "edits n xs ys \<Longrightarrow> edits n (rev xs) (rev ys)"
proof (induction n arbitrary: xs)
  case (Suc n)
  from edits_SucD [OF Suc.prems] obtain us where "edit xs us" "edits n us ys"
    by blast
  then show ?case using Suc.IH edit_rev edits_step by blast
qed (simp add: edits_def)

lemma lev_least: "lev xs ys = (LEAST n. edits n xs ys)"
  using edits_lev lev_edits [where zs = ys] by (intro Least_equality [symmetric]) fastforce+

lemma lev_rev: "lev (rev xs) (rev ys) = lev xs ys"
proof -
  have "edits n (rev xs) (rev ys) \<longleftrightarrow> edits n xs ys" for n
    using edits_rev [of n xs ys] edits_rev [of n "rev xs" "rev ys"] by auto
  then show ?thesis by (simp add: lev_least)
qed

text \<open>The recursion at the last elements.\<close>

lemma lev_snoc:
  "lev (xs @ [x]) (ys @ [y]) =
     min (Suc (lev xs (ys @ [y]))) (min (Suc (lev (xs @ [x]) ys)) ((if x = y then 0 else 1) + lev xs ys))"
  using lev.simps(3) [of x "rev xs" y "rev ys"] lev_rev [of "xs @ [x]" "ys @ [y]"] lev_rev [of xs "ys @ [y]"]
    lev_rev [of "xs @ [x]" ys] lev_rev [of xs ys]
  by simp

section \<open>The rows\<close>

definition row_of :: "'a list \<Rightarrow> 'a list \<Rightarrow> nat list" where
  "row_of xs ys = map (\<lambda>j. lev xs (take j ys)) [0..<Suc (length ys)]"

lemma minInt_min [simp]: "minInt a b = min a b"
  by (simp add: minInt_def min_def)

lemma lev_cells_row:
  "lev_cells x (lev xs zs) (lev (xs @ [x]) zs) ys (map (\<lambda>j. lev xs (zs @ take (Suc j) ys)) [0..<length ys]) =
     map (\<lambda>j. lev (xs @ [x]) (zs @ take (Suc j) ys)) [0..<length ys]"
proof (induction ys arbitrary: zs)
  case (Cons y ys)
  have split: "map (\<lambda>j. f (zs @ take (Suc j) (y # ys))) [0..<length (y # ys)] =
      f (zs @ [y]) # map (\<lambda>j. f ((zs @ [y]) @ take (Suc j) ys)) [0..<length ys]" for f :: "'a list \<Rightarrow> nat"
    by (simp add: upt_conv_Cons map_Suc_upt [symmetric] del: upt_Suc)
  have cell: "minInt (lev xs (zs @ [y]) + 1) (minInt (lev (xs @ [x]) zs + 1) (lev xs zs + (if x = y then 0 else 1))) =
      lev (xs @ [x]) (zs @ [y])"
    using lev_snoc [of xs x zs y] by (simp add: add.commute)
  show ?case
    unfolding split lev_cells.simps Let_def cell Cons.IH [of "zs @ [y]"] ..
qed simp

lemma row_of_Cons: "row_of xs ys = length xs # map (\<lambda>j. lev xs (take (Suc j) ys)) [0..<length ys]"
  by (simp add: row_of_def upt_conv_Cons map_Suc_upt [symmetric] del: upt_Suc)

lemma lev_rows_row: "lev_rows (Suc (length ps)) xs ys (row_of ps ys) = row_of (ps @ xs) ys"
proof (induction xs arbitrary: ps)
  case (Cons x xs)
  have "lev_cells x (length ps) (Suc (length ps)) ys (map (\<lambda>j. lev ps (take (Suc j) ys)) [0..<length ys]) =
      map (\<lambda>j. lev (ps @ [x]) (take (Suc j) ys)) [0..<length ys]"
    using lev_cells_row [of x ps "[]" ys] by simp
  then show ?case using Cons.IH [of "ps @ [x]"] by (simp add: row_of_Cons)
qed simp

lemma lev_runes_eq: "lev_runes xs ys = lev xs ys"
proof -
  have first: "[0..<Suc (length ys)] = row_of [] ys" for ys :: "'a list"
    by (auto simp: row_of_def intro: map_idI [symmetric])
  have at: "row_of xs ys ! length ys = lev xs ys" for xs ys :: "'a list"
    by (simp add: row_of_def nth_append)
  have "lev_rows 1 xs ys [0..<Suc (length ys)] ! length ys = lev xs ys" for xs ys :: "'a list"
    using lev_rows_row [of "[]" xs ys] at [of xs ys] by (simp only: first) simp
  then show ?thesis by (auto simp: lev_runes_def lev_sym Let_def)
qed

text \<open>
  C38: The distance of two strings is the least number of insertions, deletions and replacements of one code point
  that lead from one to the other.
\<close>

theorem levenshtein_least_edits:
  "levenshteinDistance a b = (LEAST n. edits n (runes a) (runes b))"
  by (simp add: levenshteinDistance_def lev_runes_eq lev_least)

lemma levenshtein_symmetric: "levenshteinDistance a b = levenshteinDistance b a"
  by (simp add: levenshteinDistance_def lev_runes_eq lev_sym)

lemma levenshtein_bound: "levenshteinDistance a b \<le> max (runeLen a) (runeLen b)"
  by (simp add: levenshteinDistance_def lev_runes_eq runeLen_def lev_le_max)

end
