(* ===== verification/GitLog.thy ===== *)
theory GitLog
  imports Regex Strconv ByteOrder PathsLines LearnErr
begin

text \<open>
  The sanitizer of the learning tool (\<open>tools/learn/sanitize.go\<close>) and its harvester of the Git history
  (\<open>tools/learn/ingest_git.go\<close>).  Compiling a configured expression, parsing a time and running Git are parameters.
\<close>

section \<open>Sanitizer\<close>

text \<open>A compiled expression is what \<open>ReplaceAllString\<close> does with it: the text, the replacement, and the result.\<close>

type_synonym replacer = "string \<Rightarrow> string \<Rightarrow> string"

record sanitizePattern =
  sp_kind :: string
  sp_re :: replacer

record secretPattern =
  se_Kind :: string
  se_Pattern :: string

type_synonym sanitizer = "sanitizePattern list"

definition needsMultiline :: "string \<Rightarrow> bool" where
  "needsMultiline raw =
     (if HasPrefix raw ''^'' then True
      else if HasSuffix raw ''$'' \<and> \<not> HasSuffix raw [bs, CHR ''$''] then True
      else False)"

fun newSanitizerFromConfig ::
  "(nat \<Rightarrow> bool) \<Rightarrow> (string \<Rightarrow> goerror + replacer) \<Rightarrow> secretPattern list \<Rightarrow> lerror + sanitizer" where
  "newSanitizerFromConfig isp compile [] = Inr []"
| "newSanitizerFromConfig isp compile (spec # specs) =
     (let raw = (if needsMultiline (se_Pattern spec) \<and> \<not> HasPrefix (se_Pattern spec) ''(?m)''
                 then ''(?m)'' @ se_Pattern spec else se_Pattern spec)
      in case compile raw of
           Inl e \<Rightarrow> Inl (WrapErr (''sanitize: compile pattern '' @ strconv_Quote isp (se_Pattern spec) @ '' (kind='' @ se_Kind spec @ ''): '')
                      (OtherErr e))
         | Inr re \<Rightarrow>
             (case newSanitizerFromConfig isp compile specs of
                Inl e \<Rightarrow> Inl e
              | Inr pats \<Rightarrow> Inr (\<lparr>sp_kind = se_Kind spec, sp_re = re\<rparr> # pats)))"

definition sanitize :: "sanitizer \<Rightarrow> string \<Rightarrow> string" where
  "sanitize s input =
     (if input = [] \<or> s = [] then input
      else fold (\<lambda>p out. sp_re p out (''<REDACTED:'' @ sp_kind p @ ''>'')) s input)"

section \<open>Records\<close>

record gitRecord =
  gr_Source :: string
  gr_Kind :: string
  gr_Tokens :: "string list"
  gr_SeenAt :: time
  gr_Body :: string

definition maxGitDirsPerCommit :: nat where "maxGitDirsPerCommit = 8"
definition fieldSep :: char where "fieldSep = CHR 0x1F"
definition blockSep :: char where "blockSep = CHR 0x1E"

definition prettyFormat :: string where
  "prettyFormat = ''%H'' @ [fieldSep] @ ''%aI'' @ [fieldSep] @ ''%s'' @ [fieldSep] @ ''%b'' @ [blockSep]"

definition conventionalRe :: re where
  "conventionalRe = seqs [Bol,
     Grp 1 (alts (map lit [''feat'', ''fix'', ''refactor'', ''chore'', ''docs'', ''test'', ''perf'', ''build'', ''ci'', ''style'', ''revert''])),
     opt_re (seqs [lit ''('', Grp 2 (plus_re (Cls (\<lambda>c. c \<noteq> CHR '')''))), lit '')'']), lit '':'']"

definition extractTypeScope :: "string \<Rightarrow> string \<times> string" where
  "extractTypeScope subject =
     (case FindStringSubmatch conventionalRe (TrimSpace subject) of
        Some m \<Rightarrow> (submatch 1 m, submatch 2 m)
      | None \<Rightarrow> (''unconventional'', []))"

definition dirTokens :: "string list \<Rightarrow> string list" where
  "dirTokens files =
     (if files = [] then []
      else take maxGitDirsPerCommit
             (sort_Strings (remdups (map (\<lambda>f. let dir = path_Dir f in if dir = [] then ''.'' else dir) files))))"

text \<open>\<open>strings.SplitN\<close> with a one-byte separator and at most \<open>n\<close> parts.\<close>

fun SplitN :: "nat \<Rightarrow> string \<Rightarrow> char \<Rightarrow> string list" where
  "SplitN 0 s sep = []"
| "SplitN (Suc 0) s sep = [s]"
| "SplitN (Suc (Suc n)) s sep =
     (if sep \<in> set s
      then takeWhile (\<lambda>c. c \<noteq> sep) s # SplitN (Suc n) (tl (dropWhile (\<lambda>c. c \<noteq> sep) s)) sep
      else [s])"

text \<open>The files of a commit, \<open>None\<close> for a binary change.\<close>

fun parseNumstat :: "string list \<Rightarrow> string list option" where
  "parseNumstat [] = Some []"
| "parseNumstat (line # rest) =
     (if line = [] then parseNumstat rest
      else
        (case SplitN 3 line CHR 0x09 of
           [added, deleted, f] \<Rightarrow>
             if added = ''-'' \<and> deleted = ''-'' then None else map_option (\<lambda>fs. f # fs) (parseNumstat rest)
         | _ \<Rightarrow> parseNumstat rest))"

text \<open>The two layouts of a date.\<close>

definition parseGitDate :: "(string \<Rightarrow> string \<Rightarrow> goerror + time) \<Rightarrow> string \<Rightarrow> goerror + time" where
  "parseGitDate parse s =
     (case parse ''2006-01-02T15:04:05Z07:00'' s of
        Inr t \<Rightarrow> Inr t
      | Inl _ \<Rightarrow> parse ''2006-01-02T15:04:05-0700'' s)"

text \<open>One commit: an error, the name of one with a binary change, or the record.\<close>

datatype built = Malformed lerror | Binary string | Built gitRecord

definition buildGitRecord ::
  "(nat \<Rightarrow> bool) \<Rightarrow> (string \<Rightarrow> string \<Rightarrow> goerror + time) \<Rightarrow> (string \<Rightarrow> string) \<Rightarrow> string \<Rightarrow> string list \<Rightarrow> built" where
  "buildGitRecord isp parse san header numstat =
     (let headerText0 = rev (dropWhile (\<lambda>c. c = CHR 0x0A) (rev header));
          headerText = takeWhile (\<lambda>c. c \<noteq> blockSep) headerText0
      in case SplitN 4 headerText fieldSep of
           [f0, f1, subject, body] \<Rightarrow>
             (let sha = TrimSpace f0; dateStr = TrimSpace f1 in
              case parseGitDate parse dateStr of
                Inl e \<Rightarrow> Malformed (runtimef_w (''parse date '' @ strconv_Quote isp dateStr) (OtherErr e))
              | Inr seenAt \<Rightarrow>
                  (case parseNumstat numstat of
                     None \<Rightarrow> Binary sha
                   | Some files \<Rightarrow>
                       (case extractTypeScope subject of (commitType, scope) \<Rightarrow>
                         (let bodyText = (if TrimSpace body \<noteq> [] then subject @ [CHR 0x0A, CHR 0x0A] @ body else subject)
                          in Built \<lparr>gr_Source = sha, gr_Kind = ''commit'', gr_Tokens = commitType # scope # dirTokens files,
                               gr_SeenAt = seenAt, gr_Body = san bodyText\<rparr>))))
         | parts \<Rightarrow> Malformed (runtimef (''expected 4 header fields, got '' @ int_text (int (length parts)) @ '': ''
             @ strconv_Quote isp headerText)))"

section \<open>The scan\<close>

record git_scan =
  gs_header :: string
  gs_numstat :: "string list"
  gs_inHeader :: bool
  gs_records :: "gitRecord list"
  gs_log :: "string list"

definition git_flush ::
  "(nat \<Rightarrow> bool) \<Rightarrow> (string \<Rightarrow> string \<Rightarrow> goerror + time) \<Rightarrow> (string \<Rightarrow> string) \<Rightarrow> git_scan \<Rightarrow> git_scan" where
  "git_flush isp parse san s =
     (let text = TrimSpace (gs_header s);
          s1 = s\<lparr>gs_header := [], gs_numstat := [], gs_inHeader := True\<rparr>
      in if text = [] then s1
         else (case buildGitRecord isp parse san text (gs_numstat s) of
                 Malformed e \<Rightarrow> s1\<lparr>gs_log := gs_log s @ [''parseGitEntries: skipping malformed entry: '' @ lerr_text e]\<rparr>
               | Binary sha \<Rightarrow> s1\<lparr>gs_log := gs_log s @ [''parseGitEntries: skipping commit '' @ sha @ '' (binary diff)'']\<rparr>
               | Built rec \<Rightarrow> s1\<lparr>gs_records := gs_records s @ [rec]\<rparr>))"

fun git_scan_lines ::
  "(nat \<Rightarrow> bool) \<Rightarrow> (string \<Rightarrow> string \<Rightarrow> goerror + time) \<Rightarrow> (string \<Rightarrow> string) \<Rightarrow> string list \<Rightarrow> git_scan \<Rightarrow> git_scan" where
  "git_scan_lines isp parse san [] s = s"
| "git_scan_lines isp parse san (line # rest) s =
     git_scan_lines isp parse san rest
       (if gs_inHeader s then
          s\<lparr>gs_header := gs_header s @ line @ [CHR 0x0A], gs_inHeader := blockSep \<notin> set line\<rparr>
        else if line = [] then git_flush isp parse san s
        else s\<lparr>gs_numstat := gs_numstat s @ [line]\<rparr>)"

definition parseGitEntries ::
  "(nat \<Rightarrow> bool) \<Rightarrow> (string \<Rightarrow> string \<Rightarrow> goerror + time) \<Rightarrow> (string \<Rightarrow> string) \<Rightarrow> string
    \<Rightarrow> lerror + gitRecord list \<times> string list" where
  "parseGitEntries isp parse san raw =
     (if TrimSpace raw = [] then Inr ([], [])
      else if \<not> scan_fits (4 * 1024 * 1024) raw then
        Inl (runtimef_w ''parseGitEntries: scan output'' (OtherErr (Opaque ''*errors.errorString'' ''bufio.Scanner: token too long'')))
      else
        (let s = git_flush isp parse san (git_scan_lines isp parse san (scanner_lines raw)
               \<lparr>gs_header = [], gs_numstat = [], gs_inHeader = True, gs_records = [], gs_log = []\<rparr>)
         in Inr (gs_records s, gs_log s)))"

section \<open>Running Git\<close>

definition itoaInt :: "gint \<Rightarrow> string" where
  "itoaInt n0 =
     (if n0 = 0 then ''0''
      else
        (let negative = (n0 <s 0); n = (if negative then - n0 else n0);
             digits = (if 0 <s n then nat_digits (nat (sint n)) else [])
         in if negative then ''-'' @ digits else digits))"

record gitOptions =
  go_Since :: string
  go_MaxCommits :: gint

datatype git_result = GitOutput string | GitExited int string goerror | GitFailed goerror

definition git_args :: "string \<Rightarrow> gitOptions \<Rightarrow> string list" where
  "git_args repoDir opts =
     [''-C'', repoDir, ''log'', ''--numstat'', ''--date=iso-strict'', ''--pretty=format:'' @ prettyFormat]
     @ (if go_Since opts \<noteq> [] then [''--since='' @ go_Since opts] else [])
     @ (if 0 <s go_MaxCommits opts then [''-n'', itoaInt (go_MaxCommits opts)] else [])"

text \<open>\<open>ctx\<close> is the error of the context after the command.\<close>

definition parseGitLog ::
  "(nat \<Rightarrow> bool) \<Rightarrow> (string \<Rightarrow> string \<Rightarrow> goerror + time) \<Rightarrow> goerror + string \<Rightarrow> (string list \<Rightarrow> git_result) \<Rightarrow> goerror option
    \<Rightarrow> string \<Rightarrow> gitOptions \<Rightarrow> (string \<Rightarrow> string) option \<Rightarrow> lerror + gitRecord list \<times> string list" where
  "parseGitLog isp parse getwd git ctx repoDir0 opts osan =
     (case osan of
        None \<Rightarrow> Inl (runtimef ''parseGitLog: sanitizer is required'')
      | Some san \<Rightarrow>
          (case (if repoDir0 = [] then getwd else Inr repoDir0) of
             Inl wdErr \<Rightarrow> Inl (runtimef_w ''parseGitLog: resolve cwd'' (OtherErr wdErr))
           | Inr repoDir \<Rightarrow>
               (case git (git_args repoDir opts) of
                  GitExited code stderr e \<Rightarrow>
                    if Contains stderr ''does not have any commits yet'' then Inr ([], [])
                    else Inl (runtimef_w (''parseGitLog: git log exited '' @ int_text code @ '': '' @ TrimSpace stderr) (OtherErr e))
                | GitFailed e \<Rightarrow> Inl (runtimef_w ''parseGitLog: run git'' (OtherErr e))
                | GitOutput out \<Rightarrow>
                    (case ctx of
                       Some e \<Rightarrow> Inl (OtherErr e)
                     | None \<Rightarrow> parseGitEntries isp parse san out))))"

end
