(* ===== verification/Patterns.thy ===== *)
theory Patterns
  imports Strconv ByteOrder LearnErr Complex_Main
begin

text \<open>
  The patterns of the learning tool (\<open>tools/learn/pattern.go\<close>): the n-grams of token sequences with
  their counts, the score of a count, and the validation of a candidate.
\<close>

section \<open>Counting\<close>

text \<open>The separator is U+2192 between blanks.\<close>

definition patternSep :: string where
  "patternSep = [CHR '' '', CHR 0xE2, CHR 0x86, CHR 0x92, CHR '' '']"

record countedNGram =
  ng_signature :: string
  ng_count :: nat

text \<open>The counters of the map; a missing one is zero.\<close>

fun bump :: "string \<Rightarrow> (string \<times> nat) list \<Rightarrow> (string \<times> nat) list" where
  "bump sig [] = [(sig, 1)]"
| "bump sig ((s, n) # counts) = (if s = sig then (s, Suc n) # counts else (s, n) # bump sig counts)"

text \<open>The windows of one sequence from position \<open>i\<close> on, \<open>k\<close> of them.\<close>

fun count_windows :: "nat \<Rightarrow> string list \<Rightarrow> nat \<Rightarrow> (string \<times> nat) list \<Rightarrow> (string \<times> nat) list" where
  "count_windows len toks 0 counts = counts"
| "count_windows len toks (Suc k) counts =
     count_windows len (tl toks) k (bump (Join (take len toks) patternSep) counts)"

fun count_sequences :: "nat \<Rightarrow> string list list \<Rightarrow> (string \<times> nat) list \<Rightarrow> (string \<times> nat) list" where
  "count_sequences len [] counts = counts"
| "count_sequences len (toks # rest) counts =
     count_sequences len rest
       (if length toks < len then counts else count_windows len toks (Suc (length toks - len)) counts)"

definition extractNGrams :: "string list list \<Rightarrow> int \<Rightarrow> int \<Rightarrow> countedNGram list" where
  "extractNGrams sequences len minFreq0 =
     (if len < 1 then []
      else
        (let minFreq = (if minFreq0 < 1 then 1 else minFreq0);
             counts = count_sequences (nat len) sequences [];
             out = map (\<lambda>(sig, n). \<lparr>ng_signature = sig, ng_count = n\<rparr>) (filter (\<lambda>(sig, n). \<not> int n < minFreq) counts)
         in sort_key (\<lambda>g. bytes (ng_signature g)) out))"

section \<open>Scores\<close>

definition f64_value :: "float64 \<Rightarrow> rat" where
  "f64_value x = (if 0 \<le> f_exp x then of_int (f_mant x) * 2 ^ nat (f_exp x) else of_int (f_mant x) / 2 ^ nat (- f_exp x))"

definition scorePattern :: "int \<Rightarrow> int \<Rightarrow> float64" where
  "scorePattern cnt maxCount =
     (if maxCount \<le> 0 \<or> cnt \<le> 0 then f64_of_int 0
      else if cnt \<ge> maxCount then f64_of_int 1
      else f64_div (f64_of_int cnt) (f64_of_int maxCount))"

section \<open>Candidates\<close>

type_synonym patternKind = string

definition kindToolSequence :: patternKind where "kindToolSequence = ''tool-sequence''"
definition kindFileSequence :: patternKind where "kindFileSequence = ''file-sequence''"
definition kindCommitPattern :: patternKind where "kindCommitPattern = ''commit-pattern''"
definition kindErrorFix :: patternKind where "kindErrorFix = ''error-fix''"

definition allPatternKinds :: "patternKind list" where
  "allPatternKinds = [kindToolSequence, kindFileSequence, kindCommitPattern, kindErrorFix]"

definition kindValid :: "patternKind \<Rightarrow> bool" where
  "kindValid k = list_ex (\<lambda>candidate. candidate = k) allPatternKinds"

text \<open>The contexts are a slice that may be nil.\<close>

record patternCandidate =
  pc_Kind :: patternKind
  pc_Signature :: string
  pc_Frequency :: int
  pc_Contexts :: "string list option"
  pc_Score :: float64
  pc_FirstSeenAt :: time
  pc_LastSeenAt :: time

definition errors_New :: "string \<Rightarrow> lerror" where
  "errors_New t = OtherErr (Opaque ''*errors.errorString'' t)"

text \<open>\<open>fmt_v\<close> prints a float and \<open>rfc3339\<close> a time.\<close>

definition Candidate_Validate ::
  "(nat \<Rightarrow> bool) \<Rightarrow> (float64 \<Rightarrow> string) \<Rightarrow> (time \<Rightarrow> string) \<Rightarrow> patternCandidate option \<Rightarrow> lerror option" where
  "Candidate_Validate isp fmt_v rfc3339 oc =
     (case oc of
        None \<Rightarrow> Some (errors_New ''candidate is nil'')
      | Some c \<Rightarrow>
          if \<not> kindValid (pc_Kind c) then
            Some (errors_New (''invalid kind '' @ strconv_Quote isp (pc_Kind c) @ '': must be one of ['' @ Join allPatternKinds '' '' @ '']''))
          else if pc_Signature c = [] then Some (errors_New ''signature must not be empty'')
          else if pc_Frequency c < 1 then Some (errors_New (''frequency must be >= 1, got '' @ int_text (pc_Frequency c)))
          else if f64_value (pc_Score c) < 0 \<or> f64_value (pc_Score c) > 1 then
            Some (errors_New (''score must be within [0.0, 1.0], got '' @ fmt_v (pc_Score c)))
          else if pc_Contexts c = None then Some (errors_New ''contexts must be a non-nil slice (use [] for empty)'')
          else if pc_FirstSeenAt c > pc_LastSeenAt c then
            Some (errors_New (''first_seen_at '' @ rfc3339 (pc_FirstSeenAt c) @ '' must be <= last_seen_at '' @ rfc3339 (pc_LastSeenAt c)))
          else None)"

section \<open>Correctness\<close>

text \<open>All signatures of a list of sequences, each as often as it occurs.\<close>

definition windows :: "nat \<Rightarrow> string list \<Rightarrow> string list" where
  "windows len toks = map (\<lambda>i. Join (take len (drop i toks)) patternSep) [0..<Suc (length toks) - len]"

definition occurrences :: "nat \<Rightarrow> string list list \<Rightarrow> string \<Rightarrow> nat" where
  "occurrences len sequences sig = count_list (concat (map (windows len) sequences)) sig"

definition tally :: "(string \<times> nat) list \<Rightarrow> string \<Rightarrow> nat" where
  "tally counts sig = (case map_of counts sig of None \<Rightarrow> 0 | Some n \<Rightarrow> n)"

definition tallied :: "(string \<times> nat) list \<Rightarrow> bool" where
  "tallied counts \<longleftrightarrow> distinct (map fst counts) \<and> (\<forall>(sig, n)\<in>set counts. 0 < n)"

lemma bump_keys: "fst ` set (bump sig counts) = insert sig (fst ` set counts)"
  by (induction sig counts rule: bump.induct) auto

lemma tallied_bump: "tallied counts \<Longrightarrow> tallied (bump sig counts)"
proof (induction sig counts rule: bump.induct)
  case (2 sig s n counts)
  then show ?case using bump_keys [of sig counts] by (auto simp: tallied_def)
qed (simp add: tallied_def)

lemma tally_bump: "tally (bump sig counts) s = (if s = sig then Suc (tally counts s) else tally counts s)"
  by (induction sig counts rule: bump.induct) (auto simp: tally_def)

lemma tallied_windows: "tallied counts \<Longrightarrow> tallied (count_windows len toks k counts)"
  by (induction len toks k counts rule: count_windows.induct) (auto intro: tallied_bump)

lemma tally_windows:
  "tally (count_windows len toks k counts) s =
     tally counts s + count_list (map (\<lambda>i. Join (take len (drop i toks)) patternSep) [0..<k]) s"
proof (induction len toks k counts rule: count_windows.induct)
  case (2 len toks k counts)
  have "map (\<lambda>i. Join (take len (drop i toks)) patternSep) [0..<Suc k] =
      Join (take len toks) patternSep # map (\<lambda>i. Join (take len (drop i (tl toks))) patternSep) [0..<k]"
    by (simp add: upt_conv_Cons map_Suc_upt [symmetric] drop_Suc del: upt_Suc)
  then show ?case using 2 by (simp add: tally_bump del: upt_Suc)
qed simp

lemma count_sequences_tally:
  "tallied counts \<Longrightarrow> tallied (count_sequences len sequences counts)
     \<and> tally (count_sequences len sequences counts) s = tally counts s + occurrences len sequences s"
proof (induction len sequences counts rule: count_sequences.induct)
  case (2 len toks rest counts)
  have "Suc (length toks - len) = Suc (length toks) - len" if "\<not> length toks < len" using that by simp
  with 2 show ?case
    by (auto simp: tallied_windows tally_windows occurrences_def windows_def)
qed (simp add: occurrences_def)

text \<open>
  The n-grams are listed in the order of their bytes, each once, exactly those that occur often enough and
  with the number of their occurrences.
\<close>

lemma extractNGrams_correct:
  assumes "1 \<le> len"
  shows "sorted_wrt (\<lambda>g h. bytes (ng_signature g) < bytes (ng_signature h)) (extractNGrams sequences len minFreq)
    \<and> set (extractNGrams sequences len minFreq) =
        {\<lparr>ng_signature = sig, ng_count = n\<rparr> | sig n. n = occurrences (nat len) sequences sig \<and> 0 < n \<and> minFreq \<le> int n}"
proof
  define counts where "counts = count_sequences (nat len) sequences []"
  have ok: "tallied counts" and n: "tally counts s = occurrences (nat len) sequences s" for s
    using count_sequences_tally [of "[]" "nat len" sequences] by (auto simp: counts_def tallied_def tally_def)
  let ?mf = "if minFreq < 1 then 1 else minFreq"
  let ?out = "map (\<lambda>(sig, n). \<lparr>ng_signature = sig, ng_count = n\<rparr>) (filter (\<lambda>(sig, n). \<not> int n < ?mf) counts)"
  have ext: "extractNGrams sequences len minFreq = sort_key (\<lambda>g. bytes (ng_signature g)) ?out"
    using assms by (simp add: extractNGrams_def counts_def)
  have "map ng_signature ?out = map fst (filter (\<lambda>(sig, n). \<not> int n < ?mf) counts)"
    by (simp add: comp_def split_def)
  then have "distinct (map (bytes \<circ> ng_signature) ?out)"
    using ok unfolding tallied_def by (metis distinct_map inj_bytes inj_on_subset distinct_map_filter map_map subset_UNIV)
  then show "sorted_wrt (\<lambda>g h. bytes (ng_signature g) < bytes (ng_signature h)) (extractNGrams sequences len minFreq)"
    unfolding ext by (intro sort_key_strict) (simp add: comp_def)
  have mem: "(sig, m) \<in> set counts \<longleftrightarrow> m = occurrences (nat len) sequences sig \<and> 0 < m" for sig m
  proof -
    have "(sig, m) \<in> set counts \<longleftrightarrow> map_of counts sig = Some m"
      using ok by (simp add: tallied_def map_of_eq_Some_iff)
    also have "\<dots> \<longleftrightarrow> m = tally counts sig \<and> 0 < m"
      using ok map_of_SomeD [of counts sig] by (fastforce simp: tally_def tallied_def split: option.splits)
    finally show ?thesis by (simp add: n)
  qed
  have "set ?out = {\<lparr>ng_signature = sig, ng_count = m\<rparr> | sig m. (sig, m) \<in> set counts \<and> ?mf \<le> int m}"
    by force
  then show "set (extractNGrams sequences len minFreq) =
      {\<lparr>ng_signature = sig, ng_count = n\<rparr> | sig n. n = occurrences (nat len) sequences sig \<and> 0 < n \<and> minFreq \<le> int n}"
    unfolding ext set_sort mem by (auto split: if_splits)
qed

end
