(* ===== verification/Recall.thy ===== *)
theory Recall
  imports Similar ByteOrder
begin

text \<open>
  The retrieval of the learning tool (\<open>tools/learn/recall.go\<close>): a prompt becomes a full-text query, the hits of
  the indexes are ranked, filtered by age, given a summary and cut to a number and a budget.  The
  database, the Unicode tables and \<open>time.Parse\<close> are parameters.
\<close>

section \<open>Queries\<close>

record recallMatch =
  rm_Kind :: string
  rm_Path :: string
  rm_Score :: rat
  rm_Summary :: string

record recallOptions =
  ro_Prompt :: string
  ro_TopK :: int
  ro_MaxTokens :: int
  ro_MinScore :: rat
  ro_KindFilter :: string
  ro_SinceMtime :: duration

record unicode_tables =
  ut_IsLetter :: "nat \<Rightarrow> bool"
  ut_IsDigit :: "nat \<Rightarrow> bool"
  ut_ToLower :: "nat \<Rightarrow> nat"

definition summaryMaxChars :: nat where "summaryMaxChars = 120"
definition recallKindSkill :: string where "recallKindSkill = ''skill''"
definition recallKindMemory :: string where "recallKindMemory = ''memory''"
definition recallKindPattern :: string where "recallKindPattern = ''pattern''"

definition flush_token :: "unicode_tables \<Rightarrow> string \<Rightarrow> string list" where
  "flush_token U cur = (if 2 \<le> length cur then [ToLower (ut_ToLower U) cur] else [])"

fun tokenize_from :: "unicode_tables \<Rightarrow> nat list \<Rightarrow> string \<Rightarrow> string list" where
  "tokenize_from U [] cur = flush_token U cur"
| "tokenize_from U (r # rs) cur =
     (if ut_IsLetter U r \<or> ut_IsDigit U r then tokenize_from U rs (cur @ encode_rune r)
      else flush_token U cur @ tokenize_from U rs [])"

definition tokenize :: "unicode_tables \<Rightarrow> string \<Rightarrow> string list" where
  "tokenize U prompt = tokenize_from U (runes prompt) []"

definition double_quotes :: "string \<Rightarrow> string" where
  "double_quotes t = concat (map (\<lambda>c. if c = CHR 0x22 then [c, c] else [c]) t)"

definition buildMatchExpr :: "unicode_tables \<Rightarrow> string \<Rightarrow> string" where
  "buildMatchExpr U prompt =
     (let tokens = tokenize U prompt in
      if tokens = [] then []
      else Join (map (\<lambda>t. [CHR 0x22] @ double_quotes t @ [CHR 0x22]) tokens) '' OR '')"

definition indexesForKind :: "string \<Rightarrow> string list option" where
  "indexesForKind kind =
     (if kind = [] then Some [indexSkill, indexMemory, indexPattern]
      else if kind = recallKindSkill then Some [indexSkill]
      else if kind = recallKindMemory then Some [indexMemory]
      else if kind = recallKindPattern then Some [indexPattern]
      else None)"

definition kindForIndex :: "string \<Rightarrow> string" where
  "kindForIndex idx =
     (if idx = indexSkill then recallKindSkill
      else if idx = indexMemory then recallKindMemory
      else if idx = indexPattern then recallKindPattern
      else idx)"

definition truncate_bytes :: "string \<Rightarrow> nat \<Rightarrow> string" where
  "truncate_bytes s n = (if length s \<le> n then s else take n s)"

section \<open>Reading the database\<close>

text \<open>One value of a row, by statement and path; no row is an empty result.\<close>

type_synonym row_db = "string \<Rightarrow> string \<Rightarrow> goerror + string option"

definition readSingleString :: "row_db \<Rightarrow> string \<Rightarrow> string \<Rightarrow> lerror + string" where
  "readSingleString db query path =
     (case db query path of
        Inl e \<Rightarrow> Inl (runtimef_w ''recall: load summary'' (OtherErr e))
      | Inr None \<Rightarrow> Inr []
      | Inr (Some s) \<Rightarrow> Inr s)"

definition loadSummary :: "row_db \<Rightarrow> recallMatch \<Rightarrow> lerror + string" where
  "loadSummary db m =
     (if rm_Kind m = recallKindSkill then readSingleString db ''SELECT body FROM skill_index WHERE path = ?'' (rm_Path m)
      else if rm_Kind m = recallKindMemory then readSingleString db ''SELECT body FROM memory_index WHERE path = ?'' (rm_Path m)
      else Inr [])"

type_synonym time_parser = "string \<Rightarrow> string \<Rightarrow> goerror + time"

definition RFC3339Nano :: string where "RFC3339Nano = ''2006-01-02T15:04:05.999999999Z07:00''"
definition RFC3339 :: string where "RFC3339 = ''2006-01-02T15:04:05Z07:00''"

definition mtime_check :: "(nat \<Rightarrow> bool) \<Rightarrow> time_parser \<Rightarrow> time \<Rightarrow> lerror + string \<Rightarrow> lerror + bool" where
  "mtime_check isp parse cutoff read =
     (case read of
        Inl e \<Rightarrow> Inl e
      | Inr raw \<Rightarrow>
          if raw = [] then Inr False
          else
            (case parse RFC3339Nano raw of
               Inr ts \<Rightarrow> Inr (\<not> ts < cutoff)
             | Inl _ \<Rightarrow>
                 (case parse RFC3339 raw of
                    Inl e \<Rightarrow> Inl (runtimef_w (''recall: parse indexed_at '' @ strconv_Quote isp raw) (OtherErr e))
                  | Inr ts \<Rightarrow> Inr (\<not> ts < cutoff))))"

definition mtimeWithin :: "(nat \<Rightarrow> bool) \<Rightarrow> time_parser \<Rightarrow> row_db \<Rightarrow> recallMatch \<Rightarrow> time \<Rightarrow> lerror + bool" where
  "mtimeWithin isp parse db m cutoff =
     (if rm_Kind m = recallKindSkill then
        mtime_check isp parse cutoff (readSingleString db ''SELECT indexed_at FROM skill_index WHERE path = ?'' (rm_Path m))
      else if rm_Kind m = recallKindMemory then
        mtime_check isp parse cutoff (readSingleString db ''SELECT indexed_at FROM memory_index WHERE path = ?'' (rm_Path m))
      else Inr True)"

section \<open>Recall\<close>

fun query_indexes ::
  "(ftsQueryOpts \<Rightarrow> lerror + similarMatch list) \<Rightarrow> string \<Rightarrow> int \<Rightarrow> rat \<Rightarrow> string list \<Rightarrow> lerror + recallMatch list" where
  "query_indexes q escaped limit minScore [] = Inr []"
| "query_indexes q escaped limit minScore (idx # indexes) =
     (case q \<lparr>fo_index = idx, fo_query = escaped, fo_limit = limit, fo_minScore = minScore\<rparr> of
        Inl e \<Rightarrow> Inl (runtimef_w (''recall: query '' @ idx) e)
      | Inr raw \<Rightarrow>
          (case query_indexes q escaped limit minScore indexes of
             Inl e \<Rightarrow> Inl e
           | Inr rest \<Rightarrow>
               Inr (map (\<lambda>r. \<lparr>rm_Kind = kindForIndex (sm_index r), rm_Path = sm_path r, rm_Score = sm_score r,
                              rm_Summary = []\<rparr>) raw @ rest)))"

fun keep_recent :: "(recallMatch \<Rightarrow> lerror + bool) \<Rightarrow> recallMatch list \<Rightarrow> lerror + recallMatch list" where
  "keep_recent win [] = Inr []"
| "keep_recent win (m # ms) =
     (case win m of
        Inl e \<Rightarrow> Inl e
      | Inr keep \<Rightarrow>
          (case keep_recent win ms of
             Inl e \<Rightarrow> Inl e
           | Inr rest \<Rightarrow> Inr (if keep then m # rest else rest)))"

fun add_summaries :: "row_db \<Rightarrow> recallMatch list \<Rightarrow> lerror + recallMatch list" where
  "add_summaries db [] = Inr []"
| "add_summaries db (m # ms) =
     (case loadSummary db m of
        Inl e \<Rightarrow> Inl e
      | Inr summary \<Rightarrow>
          (case add_summaries db ms of
             Inl e \<Rightarrow> Inl e
           | Inr rest \<Rightarrow> Inr (m\<lparr>rm_Summary := truncate_bytes summary summaryMaxChars\<rparr> # rest)))"

fun within_budget :: "int \<Rightarrow> int \<Rightarrow> int \<Rightarrow> int \<Rightarrow> recallMatch list \<Rightarrow> recallMatch list" where
  "within_budget topK budget taken used [] = []"
| "within_budget topK budget taken used (m # ms) =
     (if taken \<ge> topK then []
      else if used + int (length (rm_Summary m)) > budget then []
      else m # within_budget topK budget (taken + 1) (used + int (length (rm_Summary m))) ms)"

text \<open>Better scores first, equal ones by path; the sort is stable.\<close>

definition rank :: "recallMatch \<Rightarrow> rat \<times> nat list" where
  "rank m = (- rm_Score m, bytes (rm_Path m))"

definition recall_select :: "row_db \<Rightarrow> recallOptions \<Rightarrow> (recallMatch \<Rightarrow> lerror + bool) \<Rightarrow> recallMatch list \<Rightarrow> lerror + recallMatch list" where
  "recall_select rows opts win found =
     (let ranked = sort_key rank found in
      case (if ro_SinceMtime opts > 0 then keep_recent win ranked else Inr ranked) of
        Inl e \<Rightarrow> Inl e
      | Inr recent \<Rightarrow>
          (case add_summaries rows recent of
             Inl e \<Rightarrow> Inl e
           | Inr summarized \<Rightarrow> Inr (within_budget (ro_TopK opts) (ro_MaxTokens opts) 0 0 summarized)))"

definition recallWithQuery ::
  "(nat \<Rightarrow> bool) \<Rightarrow> unicode_tables \<Rightarrow> time_parser \<Rightarrow> time \<Rightarrow> row_db option \<Rightarrow> recallOptions
    \<Rightarrow> (ftsQueryOpts \<Rightarrow> lerror + similarMatch list) \<Rightarrow> lerror + recallMatch list" where
  "recallWithQuery isp U parse now db opts q =
     (case db of
        None \<Rightarrow> Inl (runtimef ''recall: nil *sql.DB'')
      | Some rows \<Rightarrow>
          if ro_TopK opts < 1 then Inl (usagef (''recall: TopK must be >= 1, got '' @ int_text (ro_TopK opts)))
          else if ro_MaxTokens opts < 1 then Inl (usagef (''recall: MaxTokens must be >= 1, got '' @ int_text (ro_MaxTokens opts)))
          else
            (let escaped = buildMatchExpr U (ro_Prompt opts) in
             if escaped = [] then Inr []
             else
               (case indexesForKind (ro_KindFilter opts) of
                  None \<Rightarrow> Inl (usagef (''recall: invalid KindFilter '' @ strconv_Quote isp (ro_KindFilter opts)))
                | Some indexes \<Rightarrow>
                    (let perIndexLimit = (if ro_TopK opts < 5 then 5 else ro_TopK opts) in
                     case query_indexes q escaped perIndexLimit (ro_MinScore opts) indexes of
                       Inl e \<Rightarrow> Inl e
                     | Inr found \<Rightarrow>
                         recall_select rows opts (\<lambda>m. mtimeWithin isp parse rows m (now - ro_SinceMtime opts)) found))))"

definition recallMatches ::
  "(nat \<Rightarrow> bool) \<Rightarrow> unicode_tables \<Rightarrow> time_parser \<Rightarrow> time \<Rightarrow> fts_db \<Rightarrow> row_db option \<Rightarrow> recallOptions
    \<Rightarrow> lerror + recallMatch list" where
  "recallMatches isp U parse now fts db opts =
     recallWithQuery isp U parse now db opts (queryFTSIndex isp (map_option (\<lambda>_. fts) db))"

section \<open>Correctness\<close>

definition summary_bytes :: "recallMatch list \<Rightarrow> int" where
  "summary_bytes ms = sum_list (map (\<lambda>m. int (length (rm_Summary m))) ms)"

lemma within_budget_count:
  "taken \<le> topK \<Longrightarrow> taken + int (length (within_budget topK budget taken used ms)) \<le> topK"
  by (induction topK budget taken used ms rule: within_budget.induct) auto

lemma within_budget_bytes:
  "used \<le> budget \<Longrightarrow> used + summary_bytes (within_budget topK budget taken used ms) \<le> budget"
  by (induction topK budget taken used ms rule: within_budget.induct) (auto simp: summary_bytes_def)

lemma within_budget_prefix: "prefix (within_budget topK budget taken used ms) ms"
  by (induction topK budget taken used ms rule: within_budget.induct) simp_all

lemma prefix_sorted_wrt: "prefix xs ys \<Longrightarrow> sorted_wrt R ys \<Longrightarrow> sorted_wrt R xs"
  by (auto simp: prefix_def sorted_wrt_append)

lemma keep_recent_subseq: "keep_recent win ms = Inr out \<Longrightarrow> subseq out ms"
  by (induction ms arbitrary: out) (auto split: sum.splits if_splits)

lemma subseq_sorted_wrt: "subseq xs ys \<Longrightarrow> sorted_wrt R ys \<Longrightarrow> sorted_wrt R xs"
proof (induction rule: list_emb.induct)
  case (list_emb_Cons2 x y xs ys)
  then show ?case by (auto dest: list_emb_set)
qed auto

lemma add_summaries_ok:
  assumes "add_summaries db ms = Inr out"
  shows "map rank out = map rank ms" "list_all (\<lambda>m. length (rm_Summary m) \<le> summaryMaxChars) out"
  using assms
  by (induction ms arbitrary: out)
    (auto simp: rank_def truncate_bytes_def summaryMaxChars_def split: sum.splits if_splits)

definition well_selected :: "recallOptions \<Rightarrow> recallMatch list \<Rightarrow> bool" where
  "well_selected opts out \<longleftrightarrow> int (length out) \<le> ro_TopK opts \<and> summary_bytes out \<le> ro_MaxTokens opts
     \<and> list_all (\<lambda>m. length (rm_Summary m) \<le> summaryMaxChars) out \<and> sorted_wrt (\<lambda>m n. rank m \<le> rank n) out"

lemma recall_select_ok:
  assumes "recall_select rows opts win found = Inr out" and "1 \<le> ro_TopK opts" "1 \<le> ro_MaxTokens opts"
  shows "well_selected opts out"
proof -
  from assms(1) obtain recent summarized where
      recent: "recent = sort_key rank found \<or> keep_recent win (sort_key rank found) = Inr recent"
      and summed: "add_summaries rows recent = Inr summarized"
      and out: "out = within_budget (ro_TopK opts) (ro_MaxTokens opts) 0 0 summarized"
    by (auto simp: recall_select_def Let_def split: if_splits sum.splits)
  have "sorted_wrt (\<lambda>m n. rank m \<le> rank n) (sort_key rank found)"
    using sorted_sort_key [of rank found] by (simp add: sorted_wrt_map)
  then have "sorted_wrt (\<lambda>m n. rank m \<le> rank n) recent"
    using recent by (auto dest: keep_recent_subseq subseq_sorted_wrt)
  then have "sorted_wrt (\<lambda>m n. rank m \<le> rank n) summarized"
    unfolding sorted_wrt_map [where R = "(\<le>)" and f = rank, symmetric] add_summaries_ok(1) [OF summed] .
  then have "sorted_wrt (\<lambda>m n. rank m \<le> rank n) out"
    unfolding out by (rule prefix_sorted_wrt [OF within_budget_prefix])
  moreover have "list_all (\<lambda>m. length (rm_Summary m) \<le> summaryMaxChars) out"
    using add_summaries_ok(2) [OF summed] within_budget_prefix unfolding out list_all_iff
    by (metis in_mono set_mono_prefix)
  ultimately show ?thesis
    using within_budget_count [of 0 "ro_TopK opts" "ro_MaxTokens opts" 0 summarized]
      within_budget_bytes [of 0 "ro_MaxTokens opts" "ro_TopK opts" 0 summarized] assms(2,3)
    by (simp add: well_selected_def out)
qed

text \<open>
  A successful recall keeps to the number and the budget that were asked for, its summaries are short, and the
  better hits come first.
\<close>

lemma recall_bounded:
  assumes "recallWithQuery isp U parse now db opts q = Inr out"
  shows "well_selected opts out"
proof -
  from assms obtain rows where db: "db = Some rows" by (cases db) (simp_all add: recallWithQuery_def)
  have pos: "1 \<le> ro_TopK opts" "1 \<le> ro_MaxTokens opts"
    using assms unfolding recallWithQuery_def db by (simp_all split: if_splits)
  show ?thesis
  proof (cases "buildMatchExpr U (ro_Prompt opts) = []")
    case True
    then have "out = []" using assms pos unfolding recallWithQuery_def db by simp
    then show ?thesis using pos by (simp add: well_selected_def summary_bytes_def)
  next
    case False
    note some = assms [unfolded recallWithQuery_def db]
    obtain indexes where "indexesForKind (ro_KindFilter opts) = Some indexes"
      using some pos False by (cases "indexesForKind (ro_KindFilter opts)") simp_all
    then obtain found where
        "recall_select rows opts (\<lambda>m. mtimeWithin isp parse rows m (now - ro_SinceMtime opts)) found = Inr out"
      using some pos False
      by (cases "query_indexes q (buildMatchExpr U (ro_Prompt opts)) (if ro_TopK opts < 5 then 5 else ro_TopK opts)
            (ro_MinScore opts) indexes") (simp_all add: Let_def)
    then show ?thesis by (rule recall_select_ok [OF _ pos])
  qed
qed

end
