(* ===== verification/GitLogProofs.thy ===== *)
theory GitLogProofs
  imports GitLog
begin

text \<open>
  Reading back the history that Git prints: a list of commits, rendered the way the format asks for, gives one record
  per commit.
\<close>

section \<open>What Git prints\<close>

record commit =
  cm_sha :: string
  cm_date :: string
  cm_subject :: string
  cm_body :: string
  cm_numstat :: "string list"

definition commit_header :: "commit \<Rightarrow> string" where
  "commit_header c =
     cm_sha c @ fieldSep # cm_date c @ fieldSep # cm_subject c @ fieldSep # cm_body c"

definition commit_lines :: "commit \<Rightarrow> string list" where
  "commit_lines c = Split (commit_header c @ [blockSep]) CHR 0x0A @ cm_numstat c"

text \<open>A blank line follows the list of changed files, when there is one, and another commit.\<close>

fun log_lines :: "commit list \<Rightarrow> string list" where
  "log_lines [] = []"
| "log_lines [c] = commit_lines c"
| "log_lines (c # cs) = commit_lines c @ (if cm_numstat c = [] then [] else [[]]) @ log_lines cs"

definition git_output :: "commit list \<Rightarrow> string" where
  "git_output cs = concat (map (\<lambda>l. l @ eol) (log_lines cs))"

text \<open>A commit with at least one changed file, none of them binary, whose fields do not contain the separators.\<close>

definition plain_commit :: "(string \<Rightarrow> string \<Rightarrow> goerror + time) \<Rightarrow> commit \<Rightarrow> bool" where
  "plain_commit parse c \<longleftrightarrow>
     cm_sha c \<noteq> [] \<and> list_all printable (cm_sha c) \<and> list_all printable (cm_date c)
     \<and> (case parseGitDate parse (cm_date c) of Inl _ \<Rightarrow> False | Inr _ \<Rightarrow> True)
     \<and> fieldSep \<notin> set (cm_subject c) \<and> blockSep \<notin> set (cm_subject c @ cm_body c)
     \<and> cm_numstat c \<noteq> [] \<and> list_all (\<lambda>l. l \<noteq> []) (cm_numstat c) \<and> parseNumstat (cm_numstat c) \<noteq> None
     \<and> list_all (\<lambda>l. scan_line_ok l \<and> length l < 4 * 1024 * 1024) (commit_lines c)"

definition record_of :: "(string \<Rightarrow> string \<Rightarrow> goerror + time) \<Rightarrow> (string \<Rightarrow> string) \<Rightarrow> commit \<Rightarrow> gitRecord" where
  "record_of parse san c =
     \<lparr>gr_Source = cm_sha c, gr_Kind = ''commit'',
      gr_Tokens = fst (extractTypeScope (cm_subject c)) # snd (extractTypeScope (cm_subject c))
        # dirTokens (the (parseNumstat (cm_numstat c))),
      gr_SeenAt = projr (parseGitDate parse (cm_date c)),
      gr_Body = san (if TrimSpace (cm_body c) \<noteq> [] then cm_subject c @ [CHR 0x0A, CHR 0x0A] @ cm_body c else cm_subject c)\<rparr>"

section \<open>One commit\<close>

lemma SplitN_step: "sep \<notin> set a \<Longrightarrow> SplitN (Suc (Suc n)) (a @ sep # b) sep = a # SplitN (Suc n) b sep"
  by (simp add: takeWhile_append dropWhile_append)

lemma separators [simp]: "\<not> printable fieldSep" "\<not> printable blockSep" "fieldSep \<noteq> blockSep" "blockSep \<noteq> fieldSep"
  "blockSep \<noteq> CHR 0x0A" "CHR 0x0A \<noteq> blockSep"
  by (simp_all add: fieldSep_def blockSep_def printable_def)

lemma printable_no_sep: "list_all printable s \<Longrightarrow> fieldSep \<notin> set s" "list_all printable s \<Longrightarrow> blockSep \<notin> set s"
  by (auto simp: list_all_iff)

lemma header_no_block: "plain_commit parse c \<Longrightarrow> blockSep \<notin> set (commit_header c)"
  by (auto simp: plain_commit_def commit_header_def printable_no_sep)

lemma printable_trim: "list_all printable s \<Longrightarrow> TrimSpace s = s"
  by (rule TrimSpace_printable) (cases s, auto simp: list_all_iff)

lemma rev_encodings_line: "front_encoding (map rev space_encodings) (CHR 0x0A # s) = Some [CHR 0x0A]"
  by (simp add: front_encoding_def space_encodings_def ascii_spaces_def)

lemma rev_encodings_block: "front_encoding (map rev space_encodings) (blockSep # s) = None"
proof -
  have "list_all (\<lambda>e. e \<noteq> [] \<and> hd e \<noteq> blockSep) (map rev space_encodings)"
    unfolding blockSep_def by code_simp
  then have no: "e \<noteq> [] \<and> hd e \<noteq> blockSep" if "e \<in> set (map rev space_encodings)" for e
    using that unfolding list_all_iff by blast
  show ?thesis
  proof (cases "front_encoding (map rev space_encodings) (blockSep # s)")
    case (Some e)
    then have "e \<noteq> []" "prefix e (blockSep # s)" "hd e \<noteq> blockSep" using front_encoding_Some [OF Some] no by blast+
    then show ?thesis by (cases e) simp_all
  qed
qed

lemma trim_header:
  assumes "plain_commit parse c"
  shows "TrimSpace (commit_header c @ [blockSep, CHR 0x0A]) = commit_header c @ [blockSep]"
proof -
  have "trim_front space_encodings (commit_header c @ [blockSep, CHR 0x0A]) = commit_header c @ [blockSep, CHR 0x0A]"
    using assms by (intro trim_front_printable) (cases "cm_sha c", auto simp: plain_commit_def commit_header_def)
  moreover have "trim_front (map rev space_encodings) (CHR 0x0A # blockSep # s) = blockSep # s" for s
    by (simp add: trim_front.simps [of _ "CHR 0x0A # blockSep # s"] rev_encodings_line trim_front_fix rev_encodings_block)
  ultimately show ?thesis by (simp add: TrimSpace_def)
qed

lemma build_commit:
  assumes "plain_commit parse c"
  shows "buildGitRecord isp parse san (commit_header c @ [blockSep]) (cm_numstat c) = Built (record_of parse san c)"
proof -
  have noblock: "blockSep \<notin> set (commit_header c)" by (rule header_no_block [OF assms])
  have cut: "takeWhile (\<lambda>d. d \<noteq> blockSep) (commit_header c @ [blockSep]) = commit_header c"
    using noblock by (simp add: takeWhile_append)
  have four: "(4::nat) = Suc (Suc (Suc (Suc 0)))" by simp
  have "fieldSep \<notin> set (cm_sha c)" "fieldSep \<notin> set (cm_date c)" "fieldSep \<notin> set (cm_subject c)"
    using assms printable_no_sep unfolding plain_commit_def by blast+
  then have "SplitN 4 (commit_header c) fieldSep = [cm_sha c, cm_date c, cm_subject c, cm_body c]"
    unfolding commit_header_def four by (simp only: SplitN_step SplitN.simps(2) simp_thms)
  moreover obtain t where "parseGitDate parse (cm_date c) = Inr t"
    using assms unfolding plain_commit_def by (cases "parseGitDate parse (cm_date c)") simp_all
  moreover obtain fs where "parseNumstat (cm_numstat c) = Some fs" using assms unfolding plain_commit_def by blast
  moreover have "TrimSpace (cm_sha c) = cm_sha c" "TrimSpace (cm_date c) = cm_date c"
    using assms printable_trim unfolding plain_commit_def by blast+
  moreover obtain ty sc where "extractTypeScope (cm_subject c) = (ty, sc)" by (rule prod.exhaust)
  ultimately show ?thesis by (simp add: buildGitRecord_def Let_def cut record_of_def)
qed

section \<open>The scan\<close>

text \<open>A text that starts with a printable byte is not blank.\<close>

lemma space_encodings_blank: "e \<in> set (map rev space_encodings) \<Longrightarrow> printable a \<Longrightarrow> a \<notin> set e"
proof -
  have "list_all (list_all (\<lambda>c. \<not> printable c)) (map rev space_encodings)" unfolding printable_def by code_simp
  then show "e \<in> set (map rev space_encodings) \<Longrightarrow> printable a \<Longrightarrow> a \<notin> set e" by (auto simp: list_all_iff)
qed

lemma trim_front_last: "printable a \<Longrightarrow> trim_front (map rev space_encodings) (ys @ [a]) \<noteq> []"
proof (induction ys rule: length_induct)
  case (1 ys)
  show ?case
  proof (cases "front_encoding (map rev space_encodings) (ys @ [a])")
    case None
    then show ?thesis by (simp add: trim_front_fix)
  next
    case (Some e)
    then have e: "e \<noteq> []" "prefix e (ys @ [a])" "a \<notin> set e"
      using front_encoding_Some [OF Some] space_encodings_blank 1(2) by blast+
    then have "prefix e ys" by (auto simp: prefix_snoc)
    then show ?thesis
      using 1 e Some by (auto simp: trim_front.simps [of _ "ys @ [a]"] prefix_def)
  qed
qed

lemma TrimSpace_nonempty: "printable a \<Longrightarrow> TrimSpace (a # s) \<noteq> []"
  by (simp add: TrimSpace_def trim_front_printable(1) trim_front_last)

definition scan_start :: "gitRecord list \<Rightarrow> string list \<Rightarrow> git_scan" where
  "scan_start recs lg = \<lparr>gs_header = [], gs_numstat = [], gs_inHeader = True, gs_records = recs, gs_log = lg\<rparr>"

lemma in_header_same: "gs_inHeader s \<Longrightarrow> s\<lparr>gs_header := h, gs_inHeader := True\<rparr> = s\<lparr>gs_header := h\<rparr>"
  by (cases s) simp

lemma scan_header_lines:
  assumes "list_all (\<lambda>l. blockSep \<notin> set l) ls" and "gs_inHeader s"
  shows "git_scan_lines isp parse san (ls @ rest) s =
    git_scan_lines isp parse san rest (s\<lparr>gs_header := gs_header s @ concat (map (\<lambda>l. l @ [CHR 0x0A]) ls)\<rparr>)"
  using assms by (induction ls arbitrary: s) (simp_all add: in_header_same)

lemma scan_numstat_lines:
  assumes "list_all (\<lambda>l. l \<noteq> []) ls" and "\<not> gs_inHeader s"
  shows "git_scan_lines isp parse san (ls @ rest) s =
    git_scan_lines isp parse san rest (s\<lparr>gs_numstat := gs_numstat s @ ls\<rparr>)"
  using assms by (induction ls arbitrary: s) simp_all

lemma Split_snoc: "c \<noteq> sep \<Longrightarrow> Split (s @ [c]) sep = butlast (Split s sep) @ [last (Split s sep) @ [c]]"
  by (induction s) (auto split: list.splits)

lemma Split_chars: "l \<in> set (Split s sep) \<Longrightarrow> set l \<subseteq> set s"
proof (induction s arbitrary: l)
  case (Cons c s)
  then show ?case by (cases "Split s sep") (force split: if_splits)+
qed simp

lemma lines_text: "ws \<noteq> [] \<Longrightarrow> concat (map (\<lambda>l. l @ [c]) ws) = Join ws [c] @ [c]"
  by (induction ws "[c]" rule: Join.induct) auto

lemma scan_commit:
  assumes "blockSep \<notin> set (commit_header c)" and "list_all (\<lambda>l. l \<noteq> []) (cm_numstat c)"
  shows "git_scan_lines isp parse san (commit_lines c @ rest) (scan_start recs lg) =
    git_scan_lines isp parse san rest
      \<lparr>gs_header = commit_header c @ [blockSep, CHR 0x0A], gs_numstat = cm_numstat c, gs_inHeader = False,
       gs_records = recs, gs_log = lg\<rparr>"
proof -
  let ?ws = "Split (commit_header c) CHR 0x0A"
  have "l \<in> set ?ws \<Longrightarrow> blockSep \<notin> set l" for l
    using assms(1) Split_chars by blast
  then have first: "list_all (\<lambda>l. blockSep \<notin> set l) (butlast ?ws)" by (auto simp: list_all_iff dest: in_set_butlastD)
  have "concat (map (\<lambda>l. l @ [CHR 0x0A]) (butlast ?ws)) @ last ?ws = commit_header c"
    using lines_text [of "Split (commit_header c @ [blockSep]) CHR 0x0A" "CHR 0x0A"] Join_Split [of "commit_header c @ [blockSep]" "CHR 0x0A"]
    by (simp add: Split_snoc)
  then have header: "concat (map (\<lambda>l. l @ [CHR 0x0A]) (butlast ?ws)) @ last ?ws @ xs = commit_header c @ xs" for xs
    by (metis append_assoc)
  show ?thesis
    using assms scan_header_lines [OF first, of "scan_start recs lg"]
    by (simp add: commit_lines_def Split_snoc scan_start_def scan_numstat_lines header)
qed

lemma scannable:
  "plain_commit parse c \<Longrightarrow> blockSep \<notin> set (commit_header c)"
  "plain_commit parse c \<Longrightarrow> list_all (\<lambda>l. l \<noteq> []) (cm_numstat c)"
  using header_no_block unfolding plain_commit_def by blast+

lemma flush_commit:
  assumes "plain_commit parse c"
  shows "git_flush isp parse san
      \<lparr>gs_header = commit_header c @ [blockSep, CHR 0x0A], gs_numstat = cm_numstat c, gs_inHeader = False,
       gs_records = recs, gs_log = lg\<rparr> = scan_start (recs @ [record_of parse san c]) lg"
  using trim_header [OF assms] build_commit [OF assms] by (simp add: git_flush_def scan_start_def Let_def)

lemma scan_log:
  assumes "list_all (plain_commit parse) cs" and "cs \<noteq> []"
  shows "git_flush isp parse san (git_scan_lines isp parse san (log_lines cs) (scan_start recs lg)) =
    scan_start (recs @ map (record_of parse san) cs) lg"
  using assms
proof (induction cs arbitrary: recs rule: log_lines.induct)
  case (2 c)
  then show ?case
    using scan_commit [OF scannable [of parse c], where rest = "[]"] flush_commit [of parse c] by simp
next
  case (3 c d cs)
  then have c: "plain_commit parse c" "cm_numstat c \<noteq> []" by (auto simp: plain_commit_def)
  have "git_scan_lines isp parse san (log_lines (c # d # cs)) (scan_start recs lg) =
      git_scan_lines isp parse san (log_lines (d # cs)) (scan_start (recs @ [record_of parse san c]) lg)"
    using scan_commit [OF scannable [OF c(1)]] flush_commit [OF c(1), of isp san] c(2) by simp
  then show ?case using 3 by simp
qed simp

text \<open>
  C39: A history of commits that change text files, printed the way the format asks for, is read back as one record for
  each commit, in order, with its name, date, type, scope and directories and its sanitized message.
\<close>

theorem git_log_roundtrip:
  assumes "list_all (plain_commit parse) cs" and "cs \<noteq> []"
  shows "parseGitEntries isp parse san (git_output cs) = Inr (map (record_of parse san) cs, [])"
proof -
  have lines: "list_all (\<lambda>l. scan_line_ok l \<and> length l < 4 * 1024 * 1024) (log_lines cs)"
    using assms(1) by (induction cs rule: log_lines.induct) (auto simp: plain_commit_def scan_line_ok_def one_line_def)
  then have "list_all scan_line_ok (log_lines cs)" "list_all one_line (log_lines cs)"
    by (auto simp: list_all_iff scan_line_ok_def)
  then have scanned: "scanner_lines (git_output cs) = log_lines cs" "scan_fits (4 * 1024 * 1024) (git_output cs)"
    using lines unfolding git_output_def
    by (simp_all add: scanner_lines_render scan_fits_def Split_lines list_all_iff)
  obtain c cs' where cs: "cs = c # cs'" using assms(2) by (cases cs) auto
  then obtain a sha where sha: "cm_sha c = a # sha" "printable a" using assms(1) by (cases "cm_sha c") (auto simp: plain_commit_def)
  have "\<exists>rest. git_output cs = a # rest"
    using sha unfolding cs git_output_def
    by (cases cs') (auto simp: commit_lines_def commit_header_def printable_def split: list.splits)
  then have "TrimSpace (git_output cs) \<noteq> []"
    using TrimSpace_nonempty [OF sha(2)] by auto
  then show ?thesis
    using scan_log [OF assms, of isp san "[]" "[]"] scanned by (simp add: parseGitEntries_def scan_start_def Let_def)
qed

definition sample_commits :: "commit list" where
  "sample_commits =
     [\<lparr>cm_sha = ''a1b2'', cm_date = ''2026-01-02T03:04:05+00:00'', cm_subject = ''feat(user): add name'', cm_body = [],
       cm_numstat = [''1'' @ [CHR 0x09] @ ''0'' @ [CHR 0x09] @ ''internal/user/entity.go'']\<rparr>,
      \<lparr>cm_sha = ''c3d4'', cm_date = ''2026-01-01T03:04:05+00:00'', cm_subject = ''docs: readme'', cm_body = ''more'',
       cm_numstat = [''2'' @ [CHR 0x09] @ ''2'' @ [CHR 0x09] @ ''README.md'']\<rparr>]"

theorem git_log_roundtrip_witness:
  "map gr_Source (fst (projr (parseGitEntries (\<lambda>_. True) (\<lambda>_ _. Inr 0) id (git_output sample_commits)))) = [''a1b2'', ''c3d4'']"
proof -
  have "list_all (\<lambda>c. list_all (\<lambda>l. scan_line_ok l \<and> length l < 100) (commit_lines c)) sample_commits"
    by code_simp
  then have "list_all (\<lambda>c. list_all (\<lambda>l. scan_line_ok l \<and> length l < 4 * 1024 * 1024) (commit_lines c)) sample_commits"
    by (force simp: list_all_iff)
  moreover have "list_all (\<lambda>c. cm_sha c \<noteq> [] \<and> list_all printable (cm_sha c) \<and> list_all printable (cm_date c)
      \<and> fieldSep \<notin> set (cm_subject c) \<and> blockSep \<notin> set (cm_subject c @ cm_body c) \<and> cm_numstat c \<noteq> []
      \<and> list_all (\<lambda>l. l \<noteq> []) (cm_numstat c) \<and> parseNumstat (cm_numstat c) \<noteq> None) sample_commits"
    by code_simp
  ultimately have "list_all (plain_commit (\<lambda>_ _. Inr 0)) sample_commits" "sample_commits \<noteq> []"
    by (simp_all add: list_all_iff plain_commit_def parseGitDate_def) (simp add: sample_commits_def)
  moreover have "map (\<lambda>c. gr_Source (record_of (\<lambda>_ _. Inr 0) id c)) sample_commits = [''a1b2'', ''c3d4'']"
    by (simp add: sample_commits_def record_of_def)
  ultimately show ?thesis
    using git_log_roundtrip [of "\<lambda>_ _. Inr 0" sample_commits "\<lambda>_. True" id] by (simp add: comp_def)
qed

text \<open>
  A commit without changed files, as a merge is, is followed by the next header at once: the scan reads that header and
  the files of its commit as the list of files of the merge, so the next commit is lost.
\<close>

lemma merge_swallows_next_commit:
  assumes "blockSep \<notin> set (commit_header m)" and "cm_numstat m = []" and "list_all (\<lambda>l. l \<noteq> []) (commit_lines c)"
  shows "git_scan_lines isp parse san (log_lines [m, c]) (scan_start recs lg) =
    \<lparr>gs_header = commit_header m @ [blockSep, CHR 0x0A], gs_numstat = commit_lines c, gs_inHeader = False,
     gs_records = recs, gs_log = lg\<rparr>"
  using assms scan_commit [of m isp parse san "commit_lines c"] scan_numstat_lines [of "commit_lines c" _ isp parse san "[]"]
  by simp

end
