(* ===== verification/LearnDisk.thy ===== *)
theory LearnDisk
  imports GoTime PathsLines LearnErr Float64
begin

text \<open>
  The world of the learning tool (\<open>tools/learn\<close>): its files, the tables of its SQLite store with their constraints
  (\<open>schema.sql\<close>), its output, and the faults that the coming calls meet.  Every call to the system is one step of
  a program and takes one outcome off the list of faults; a call without one succeeds.
\<close>

section \<open>State\<close>

text \<open>\<open>f_written\<close> is how much of a write reached the file, nothing if it could not be opened.\<close>

datatype fault = Fault (f_err: goerror) (f_written: "nat option")

record decision_row =
  dr_id :: int
  dr_signature :: string
  dr_action :: string
  dr_target :: "string option"
  dr_rationale :: string
  dr_diff :: "string option"
  dr_decided_at :: string

record storeEvent =
  SpecPath :: string
  SessionID :: string
  CompletedAt :: string
  CommitSHA :: string
  TasksCount :: gint
  Outcome :: string

text \<open>A row of either index; the tags of a memory stay empty.  The counters stay far below the 64 bits of SQLite.\<close>

record index_row =
  ix_path :: string
  ix_title :: string
  ix_body :: string
  ix_tags :: string
  ix_frontmatter :: string
  ix_indexed_at :: string

record usage_row =
  us_path :: string
  us_count :: int
  us_last_used :: "string option"

text \<open>A mined pattern, and a candidate of one run that refers to it.\<close>

record pattern_row =
  pr_id :: int
  pr_kind :: string
  pr_signature :: string
  pr_frequency :: int
  pr_first_seen :: string
  pr_last_seen :: string
  pr_score :: float64

record candidate_row =
  cr_id :: int
  cr_pattern :: int
  cr_contexts :: string
  cr_score :: float64
  cr_created_at :: string

record disk =
  d_files :: "string \<Rightarrow> string option"
  d_journal :: string
  d_decisions :: "decision_row list"
  d_events :: "storeEvent list"
  d_skills :: "index_row list"
  d_memories :: "index_row list"
  d_skill_usage :: "usage_row list"
  d_memory_usage :: "usage_row list"
  d_counter :: int
  d_last_nudge :: "string option"
  d_patterns :: "pattern_row list"
  d_candidates :: "candidate_row list"
  d_out :: string
  d_faults :: "fault option list"

type_synonym 'r action = "(disk, 'r) prog"

definition faulty :: "(fault option \<Rightarrow> disk \<Rightarrow> 'r \<times> disk) \<Rightarrow> 'r action" where
  "faulty f = call (\<lambda>d. case d_faults d of [] \<Rightarrow> f None d | x # xs \<Rightarrow> f x (d\<lparr>d_faults := xs\<rparr>))"

section \<open>Files\<close>

text \<open>What \<open>errors.Is(err, os.ErrNotExist)\<close> tells apart.\<close>

datatype ferror = NotExist (fe_err: goerror) | OtherIO (fe_err: goerror)

definition no_such_file :: "string \<Rightarrow> string \<Rightarrow> goerror" where
  "no_such_file operation p = Opaque ''*fs.PathError'' (operation @ '' '' @ p @ '': no such file or directory'')"

definition file_at :: "disk \<Rightarrow> string \<Rightarrow> string option" where
  "file_at d p = d_files d (path_Clean p)"

definition set_file :: "string \<Rightarrow> string option \<Rightarrow> disk \<Rightarrow> disk" where
  "set_file p c d = d\<lparr>d_files := (d_files d)(path_Clean p := c)\<rparr>"

definition os_ReadFile' :: "string \<Rightarrow> (ferror + string) action" where
  "os_ReadFile' p = faulty (\<lambda>ft d.
     (case ft of
        Some f \<Rightarrow> Inl (OtherIO (f_err f))
      | None \<Rightarrow> (case file_at d p of Some c \<Rightarrow> Inr c | None \<Rightarrow> Inl (NotExist (no_such_file ''open'' p))), d))"

definition os_Stat :: "string \<Rightarrow> ferror option action" where
  "os_Stat p = faulty (\<lambda>ft d.
     (case ft of
        Some f \<Rightarrow> Some (OtherIO (f_err f))
      | None \<Rightarrow> (case file_at d p of Some c \<Rightarrow> None | None \<Rightarrow> Some (NotExist (no_such_file ''stat'' p))), d))"

text \<open>\<open>os.WriteFile\<close> cuts the file before it writes.\<close>

definition os_WriteFile' :: "string \<Rightarrow> string \<Rightarrow> goerror option action" where
  "os_WriteFile' p c = faulty (\<lambda>ft d.
     case ft of
       None \<Rightarrow> (None, set_file p (Some c) d)
     | Some f \<Rightarrow> (Some (f_err f), case f_written f of None \<Rightarrow> d | Some n \<Rightarrow> set_file p (Some (take n c)) d))"

definition os_MkdirAll :: "string \<Rightarrow> goerror option action" where
  "os_MkdirAll p = faulty (\<lambda>ft d. (map_option f_err ft, d))"

definition os_Chmod :: "string \<Rightarrow> goerror option action" where
  "os_Chmod p = faulty (\<lambda>ft d. (map_option f_err ft, d))"

definition os_Rename :: "string \<Rightarrow> string \<Rightarrow> goerror option action" where
  "os_Rename a b = faulty (\<lambda>ft d.
     case ft of
       Some f \<Rightarrow> (Some (f_err f), d)
     | None \<Rightarrow>
         (case file_at d a of
            None \<Rightarrow> (Some (no_such_file ''rename'' a), d)
          | Some c \<Rightarrow> (None, set_file b (Some c) (set_file a None d))))"

definition os_Remove :: "string \<Rightarrow> goerror option action" where
  "os_Remove p = faulty (\<lambda>ft d.
     case ft of
       Some f \<Rightarrow> (Some (f_err f), d)
     | None \<Rightarrow>
         (case file_at d p of
            None \<Rightarrow> (Some (no_such_file ''remove'' p), d)
          | Some c \<Rightarrow> (None, set_file p None d)))"

text \<open>\<open>os.OpenFile\<close> to append, creating the file, and a write to it.\<close>

definition os_OpenAppend :: "string \<Rightarrow> goerror option action" where
  "os_OpenAppend p = faulty (\<lambda>ft d.
     case ft of
       Some f \<Rightarrow> (Some (f_err f), d)
     | None \<Rightarrow> (None, case file_at d p of None \<Rightarrow> set_file p (Some []) d | Some c \<Rightarrow> d))"

definition os_AppendWrite :: "string \<Rightarrow> string \<Rightarrow> goerror option action" where
  "os_AppendWrite p s = faulty (\<lambda>ft d.
     (let old = (case file_at d p of None \<Rightarrow> [] | Some c \<Rightarrow> c) in
      case ft of
        None \<Rightarrow> (None, set_file p (Some (old @ s)) d)
      | Some f \<Rightarrow> (Some (f_err f), case f_written f of None \<Rightarrow> d | Some n \<Rightarrow> set_file p (Some (old @ take n s)) d)))"

definition print :: "string \<Rightarrow> goerror option action" where
  "print s = faulty (\<lambda>ft d.
     case ft of
       None \<Rightarrow> (None, d\<lparr>d_out := d_out d @ s\<rparr>)
     | Some f \<Rightarrow> (Some (f_err f), case f_written f of None \<Rightarrow> d | Some n \<Rightarrow> d\<lparr>d_out := d_out d @ take n s\<rparr>))"

section \<open>SQL\<close>

text \<open>A statement: an error without an effect, or its answer and the tables after it.\<close>

definition sql :: "(disk \<Rightarrow> goerror + 'r \<times> disk) \<Rightarrow> (goerror + 'r) action" where
  "sql stmt = faulty (\<lambda>ft d.
     case ft of
       Some f \<Rightarrow> (Inl (f_err f), d)
     | None \<Rightarrow> (case stmt d of Inl e \<Rightarrow> (Inl e, d) | Inr (r, d') \<Rightarrow> (Inr r, d')))"

definition decision_actions :: "string list" where
  "decision_actions = [''new-skill'', ''new-memory'', ''update'', ''discard'', ''pending-approval'', ''applied'', ''rolled-back'']"

definition check_failed :: goerror where
  "check_failed = Opaque ''*sqlite.Error'' ''constraint failed: CHECK constraint failed''"

definition next_decision_id :: "decision_row list \<Rightarrow> int" where
  "next_decision_id rows = (if rows = [] then 1 else Max (set (map dr_id rows)) + 1)"

definition insert_decision ::
  "string \<Rightarrow> string \<Rightarrow> string option \<Rightarrow> string \<Rightarrow> string option \<Rightarrow> string \<Rightarrow> disk \<Rightarrow> goerror + int \<times> disk" where
  "insert_decision sig act target rationale diff ts d =
     (if act \<notin> set decision_actions then Inl check_failed
      else
        (let i = next_decision_id (d_decisions d) in
         Inr (i, d\<lparr>d_decisions := d_decisions d @ [\<lparr>dr_id = i, dr_signature = sig, dr_action = act, dr_target = target,
                    dr_rationale = rationale, dr_diff = diff, dr_decided_at = ts\<rparr>]\<rparr>)))"

definition select_decision :: "int \<Rightarrow> disk \<Rightarrow> goerror + decision_row option \<times> disk" where
  "select_decision i d = Inr (find (\<lambda>r. dr_id r = i) (d_decisions d), d)"

definition mark_applied :: "int \<Rightarrow> string \<Rightarrow> disk \<Rightarrow> goerror + unit \<times> disk" where
  "mark_applied i ts d =
     Inr ((), d\<lparr>d_decisions := map (\<lambda>r. if dr_id r = i then r\<lparr>dr_action := ''applied'', dr_decided_at := ts\<rparr> else r)
                 (d_decisions d)\<rparr>)"

definition delete_decision :: "int \<Rightarrow> disk \<Rightarrow> goerror + unit \<times> disk" where
  "delete_decision i d = Inr ((), d\<lparr>d_decisions := filter (\<lambda>r. dr_id r \<noteq> i) (d_decisions d)\<rparr>)"

definition nullIfEmpty :: "string \<Rightarrow> string option" where
  "nullIfEmpty s = (if s = [] then None else Some s)"

section \<open>Opening the store\<close>

definition applyPragmas :: "(nat \<Rightarrow> bool) \<Rightarrow> goerror option action" where
  "applyPragmas isp =
     pbind (sql (\<lambda>d. Inr (d_journal d, d))) (\<lambda>m.
     case m of
       Inl e \<Rightarrow> Return (Some (Wrapf ''pragma journal_mode: '' e))
     | Inr mode \<Rightarrow>
         if mode \<noteq> ''wal'' then Return (Some (Opaque ''*errors.errorString'' (''pragma journal_mode: got '' @ strconv_Quote isp mode @ '', want wal'')))
         else
           pbind (sql (\<lambda>d. Inr ((), d))) (\<lambda>b.
           case b of
             Inl e \<Rightarrow> Return (Some (Wrapf ''pragma busy_timeout: '' e))
           | Inr _ \<Rightarrow>
               pbind (sql (\<lambda>d. Inr ((), d))) (\<lambda>fk.
               case fk of
                 Inl e \<Rightarrow> Return (Some (Wrapf ''pragma foreign_keys: '' e))
               | Inr _ \<Rightarrow> Return None)))"

text \<open>The tables of the model exist from the start, so the schema changes nothing.\<close>

definition applySchema :: "goerror option action" where
  "applySchema =
     pbind (sql (\<lambda>d. Inr ((), d))) (\<lambda>r.
       case r of Inl e \<Rightarrow> Return (Some (Wrapf ''apply schema: '' e)) | Inr _ \<Rightarrow> Return None)"

definition openStore :: "(nat \<Rightarrow> bool) \<Rightarrow> string \<Rightarrow> lerror option action" where
  "openStore isp path =
     pbind (sql (\<lambda>d. Inr ((), d))) (\<lambda>opened.
     case opened of
       Inl e \<Rightarrow> Return (Some (runtimef_w (''open store '' @ strconv_Quote isp path) (OtherErr e)))
     | Inr _ \<Rightarrow>
         pbind (applyPragmas isp) (\<lambda>pr.
         case pr of
           Some e \<Rightarrow> Return (Some (runtimef_w (''open store '' @ strconv_Quote isp path) (OtherErr e)))
         | None \<Rightarrow>
             pbind applySchema (\<lambda>sc.
             case sc of
               Some e \<Rightarrow> Return (Some (runtimef_w (''open store '' @ strconv_Quote isp path) (OtherErr e)))
             | None \<Rightarrow>
                 pbind (os_Stat path) (\<lambda>st.
                 pbind (if st = None then os_Chmod path else Return None) (\<lambda>_.
                 pbind (os_Chmod (path @ ''-wal'')) (\<lambda>_.
                 pbind (os_Chmod (path @ ''-shm'')) (\<lambda>_. Return None)))))))"

end
