(* ===== verification/Decisions.thy ===== *)
theory Decisions
  imports LearnDisk
begin

text \<open>
  Decisions of the learning loop: the audit log (\<open>audit.go\<close>) and the commands that apply a decision
  (\<open>cmd_apply_decision.go\<close>), record and apply one at once (\<open>cmd_refine_apply.go\<close>) and take one back
  (\<open>cmd_rollback.go\<close>).  Decoding a JSON line is a parameter.
\<close>

section \<open>Audit log\<close>

record auditEntry =
  ae_Timestamp :: string
  ae_DecisionID :: int
  ae_Action :: string
  ae_SourcePath :: string
  ae_DeprecatedPath :: string
  ae_MergedInto :: string
  ae_CandidateSignature :: string
  ae_Rationale :: string

definition audit_json :: "auditEntry \<Rightarrow> string" where
  "audit_json e = json_encode (AMap
     ([(''timestamp'', AString (ae_Timestamp e)), (''decision_id'', AInt (ae_DecisionID e)), (''action'', AString (ae_Action e)),
       (''source_path'', AString (ae_SourcePath e))]
      @ omit_empty ''deprecated_path'' (ae_DeprecatedPath e) @ omit_empty ''merged_into'' (ae_MergedInto e)
      @ omit_empty ''candidate_signature'' (ae_CandidateSignature e) @ omit_empty ''rationale'' (ae_Rationale e)))"

definition auditFileName :: string where "auditFileName = ''audit.jsonl''"

definition auditPath :: "string \<Rightarrow> string" where
  "auditPath learningDir = path_Join learningDir auditFileName"

definition learningDirFromDB :: "string \<Rightarrow> string" where
  "learningDirFromDB dbPath = (if dbPath = [] then [] else path_Dir dbPath)"

text \<open>\<open>wall\<close> is the clock, used for an entry without a time.\<close>

definition appendAudit :: "(nat \<Rightarrow> bool) \<Rightarrow> time \<Rightarrow> string \<Rightarrow> auditEntry \<Rightarrow> lerror option action" where
  "appendAudit isp wall learningDir e0 =
     (let e = (if ae_Timestamp e0 = [] then e0\<lparr>ae_Timestamp := Format_RFC3339Nano wall\<rparr> else e0);
          line = audit_json e;
          path = auditPath learningDir
      in pbind (os_MkdirAll learningDir) (\<lambda>mk.
         case mk of
           Some mkErr \<Rightarrow> Return (Some (runtimef_w (''audit: create learning dir '' @ strconv_Quote isp learningDir) (OtherErr mkErr)))
         | None \<Rightarrow>
             pbind (os_OpenAppend path) (\<lambda>opened.
             case opened of
               Some openErr \<Rightarrow> Return (Some (runtimef_w (''audit: open '' @ strconv_Quote isp path) (OtherErr openErr)))
             | None \<Rightarrow>
                 pbind (os_AppendWrite path (line @ eol)) (\<lambda>written.
                 case written of
                   Some writeErr \<Rightarrow> Return (Some (runtimef_w (''audit: write '' @ strconv_Quote isp path) (OtherErr writeErr)))
                 | None \<Rightarrow> Return None))))"

text \<open>The entries of a log: empty and malformed lines are skipped.\<close>

definition audit_entries :: "(string \<Rightarrow> auditEntry option) \<Rightarrow> string \<Rightarrow> auditEntry list" where
  "audit_entries dec text = List.map_filter (\<lambda>l. if l = [] then None else dec l) (scanner_lines text)"

definition readAudit :: "(nat \<Rightarrow> bool) \<Rightarrow> (string \<Rightarrow> auditEntry option) \<Rightarrow> string \<Rightarrow> (lerror + auditEntry list) action" where
  "readAudit isp dec learningDir =
     (let path = auditPath learningDir in
      pbind (os_ReadFile' path) (\<lambda>opened.
      case opened of
        Inl (NotExist e) \<Rightarrow> Return (Inr [])
      | Inl (OtherIO e) \<Rightarrow> Return (Inl (runtimef_w (''audit: open '' @ strconv_Quote isp path) (OtherErr e)))
      | Inr text \<Rightarrow>
          if scan_fits (1024 * 1024) text then Return (Inr (audit_entries dec text))
          else Return (Inl (runtimef_w (''audit: scan '' @ strconv_Quote isp path)
                 (OtherErr (Opaque ''*errors.errorString'' ''bufio.Scanner: token too long''))))))"

text \<open>The last entry of a decision.\<close>

definition last_entry :: "int \<Rightarrow> auditEntry list \<Rightarrow> auditEntry option" where
  "last_entry i entries = fold (\<lambda>e found. if ae_DecisionID e = i then Some e else found) entries None"

definition findAuditByDecisionID ::
  "(nat \<Rightarrow> bool) \<Rightarrow> (string \<Rightarrow> auditEntry option) \<Rightarrow> string \<Rightarrow> int \<Rightarrow> (lerror + auditEntry option) action" where
  "findAuditByDecisionID isp dec learningDir i =
     pbind (readAudit isp dec learningDir) (\<lambda>r.
       case r of Inl readErr \<Rightarrow> Return (Inl readErr) | Inr entries \<Rightarrow> Return (Inr (last_entry i entries)))"

section \<open>The move to the deprecated directory\<close>

definition deprecation_header :: "time \<Rightarrow> string \<Rightarrow> string" where
  "deprecation_header now mergedInto =
     ''> Deprecated '' @ Format_date now @ '' by /learn-refine: merged into '' @ mergedInto @ eol @ eol"

definition deprecated_dir :: "string \<Rightarrow> string" where
  "deprecated_dir sourcePath = path_Join (path_Dir sourcePath) ''_deprecated''"

definition deprecated_path :: "string \<Rightarrow> time \<Rightarrow> string" where
  "deprecated_path sourcePath now =
     (let base = path_Base sourcePath; ext = path_Ext base; stem = TrimSuffix base ext
      in path_Join (deprecated_dir sourcePath) (stem @ ''-'' @ Format_stamp now @ (if ext = [] then ''.md'' else ext)))"

text \<open>The new path and the error, both at once when the move is incomplete.\<close>

definition moveToDeprecated :: "(nat \<Rightarrow> bool) \<Rightarrow> string \<Rightarrow> string \<Rightarrow> time \<Rightarrow> (string \<times> lerror option) action" where
  "moveToDeprecated isp sourcePath mergedInto now =
     pbind (os_ReadFile' sourcePath) (\<lambda>rd.
     case rd of
       Inl readErr \<Rightarrow> Return ([], Some (runtimef_w (''apply-decision: read source '' @ strconv_Quote isp sourcePath) (OtherErr (fe_err readErr))))
     | Inr content \<Rightarrow>
         pbind (os_MkdirAll (deprecated_dir sourcePath)) (\<lambda>mk.
         case mk of
           Some mkErr \<Rightarrow> Return ([], Some (runtimef_w (''apply-decision: mkdir '' @ strconv_Quote isp (deprecated_dir sourcePath)) (OtherErr mkErr)))
         | None \<Rightarrow>
             (let newPath = deprecated_path sourcePath now;
                  newContent = deprecation_header now mergedInto @ content
              in pbind (os_Rename sourcePath newPath) (\<lambda>renamed.
                 case renamed of
                   None \<Rightarrow>
                     pbind (os_WriteFile' newPath newContent) (\<lambda>wr.
                     case wr of
                       Some writeErr \<Rightarrow>
                         pbind (os_WriteFile' newPath content) (\<lambda>_.
                           Return (newPath, Some (runtimef_w (''apply-decision: write header to '' @ strconv_Quote isp newPath) (OtherErr writeErr))))
                     | None \<Rightarrow> Return (newPath, None))
                 | Some _ \<Rightarrow>
                     pbind (os_WriteFile' newPath newContent) (\<lambda>wr.
                     case wr of
                       Some writeErr \<Rightarrow> Return ([], Some (runtimef_w (''apply-decision: write '' @ strconv_Quote isp newPath) (OtherErr writeErr)))
                     | None \<Rightarrow>
                         pbind (os_Remove sourcePath) (\<lambda>rm.
                         case rm of
                           Some rmErr \<Rightarrow> Return (newPath, Some (runtimef_w (''apply-decision: remove source '' @ strconv_Quote isp sourcePath
                               @ '' (new path '' @ strconv_Quote isp newPath @ '' already written)'') (OtherErr rmErr)))
                         | None \<Rightarrow> Return (newPath, None)))))))"

section \<open>Applying a decision\<close>

record applyDecisionOpts =
  ao_ID :: int
  ao_DBPath :: string
  ao_DryRun :: bool

definition loadDecisionRow :: "int \<Rightarrow> (lerror + decision_row) action" where
  "loadDecisionRow i =
     pbind (sql (select_decision i)) (\<lambda>r.
       case r of
         Inl scanErr \<Rightarrow> Return (Inl (runtimef_w (''apply-decision: scan decision row '' @ int_text i) (OtherErr scanErr)))
       | Inr None \<Rightarrow> Return (Inl (usagef (''apply-decision: no decision row with id='' @ int_text i)))
       | Inr (Some row) \<Rightarrow> Return (Inr row))"

text \<open>The entry and its warning, common to the two commands that apply; a failure is printed.\<close>

definition audit_or_warn :: "(nat \<Rightarrow> bool) \<Rightarrow> time \<Rightarrow> string \<Rightarrow> auditEntry \<Rightarrow> unit action" where
  "audit_or_warn isp wall learningDir e =
     pbind (appendAudit isp wall learningDir e) (\<lambda>r.
       case r of
         Some auditErr \<Rightarrow> pbind (print (''warning: audit log append failed: '' @ lerr_text auditErr @ eol)) (\<lambda>_. Return ())
       | None \<Rightarrow> Return ())"

definition runApplyDecision :: "(nat \<Rightarrow> bool) \<Rightarrow> time \<Rightarrow> applyDecisionOpts \<Rightarrow> lerror option action" where
  "runApplyDecision isp now opts =
     (if ao_ID opts \<le> 0 then Return (Some (usagef ''apply-decision: --id must be > 0''))
      else if ao_DBPath opts = [] then Return (Some (usagef ''apply-decision: --db-path must be non-empty''))
      else
        pbind (openStore isp (ao_DBPath opts)) (\<lambda>op.
        case op of
          Some openErr \<Rightarrow> Return (Some (runtimef_w ''apply-decision: open store'' openErr))
        | None \<Rightarrow>
            pbind (loadDecisionRow (ao_ID opts)) (\<lambda>fetched.
            case fetched of
              Inl fetchErr \<Rightarrow> Return (Some fetchErr)
            | Inr row \<Rightarrow>
                if dr_action row \<noteq> ''pending-approval'' then
                  Return (Some (usagef (''apply-decision: decision '' @ int_text (ao_ID opts) @ '' has action ''
                    @ strconv_Quote isp (dr_action row) @ '' (want pending-approval)'')))
                else
                  (case dr_target row of
                     None \<Rightarrow> Return (Some (usagef (''apply-decision: decision '' @ int_text (ao_ID opts) @ '' has empty target_path'')))
                   | Some target \<Rightarrow>
                       if target = [] then
                         Return (Some (usagef (''apply-decision: decision '' @ int_text (ao_ID opts) @ '' has empty target_path'')))
                       else if ao_DryRun opts then
                         (case dr_diff row of
                            None \<Rightarrow> Return None
                          | Some diff \<Rightarrow>
                              pbind (print diff) (\<lambda>pr.
                                Return (map_option (\<lambda>e. runtimef_w ''apply-decision: write diff to stdout'' (OtherErr e)) pr)))
                       else
                         pbind (moveToDeprecated isp target target now) (\<lambda>(deprecatedPath, moved).
                         case moved of
                           Some moveErr \<Rightarrow> Return (Some moveErr)
                         | None \<Rightarrow>
                             pbind (sql (mark_applied (ao_ID opts) (Format_RFC3339Nano now))) (\<lambda>up.
                             case up of
                               Inl execErr \<Rightarrow>
                                 Return (Some (runtimef_w (''apply-decision: mark decision '' @ int_text (ao_ID opts)
                                   @ '' as applied (file already moved to '' @ strconv_Quote isp deprecatedPath @ '')'') (OtherErr execErr)))
                             | Inr _ \<Rightarrow>
                                 pbind (audit_or_warn isp now (learningDirFromDB (ao_DBPath opts))
                                   \<lparr>ae_Timestamp = Format_RFC3339Nano now, ae_DecisionID = ao_ID opts, ae_Action = ''applied'',
                                    ae_SourcePath = target, ae_DeprecatedPath = deprecatedPath, ae_MergedInto = target,
                                    ae_CandidateSignature = dr_signature row, ae_Rationale = dr_rationale row\<rparr>)
                                   (\<lambda>_. Return None)))))))"

section \<open>Recording and applying at once\<close>

record refineApplyOpts =
  fo_CandidateSignature :: string
  fo_TargetPath :: string
  fo_MergedInto :: string
  fo_Rationale :: string
  fo_DiffFile :: string
  fo_DBPath :: string
  fo_DryRun :: bool

text \<open>The content of an optional file.\<close>

definition read_diff :: "(nat \<Rightarrow> bool) \<Rightarrow> string \<Rightarrow> string \<Rightarrow> (lerror + string) action" where
  "read_diff isp cmd diffFile =
     (if diffFile = [] then Return (Inr [])
      else
        pbind (os_ReadFile' diffFile) (\<lambda>rd.
          case rd of
            Inl readErr \<Rightarrow> Return (Inl (runtimef_w (cmd @ '': read --diff-file '' @ strconv_Quote isp diffFile) (OtherErr (fe_err readErr))))
          | Inr raw \<Rightarrow> Return (Inr raw)))"

definition arrow :: string where "arrow = '' '' @ [CHR 0xE2, CHR 0x86, CHR 0x92] @ '' ''"

text \<open>What happens once the options are complete and the store is open.\<close>

definition refine_apply :: "(nat \<Rightarrow> bool) \<Rightarrow> time \<Rightarrow> refineApplyOpts \<Rightarrow> string \<Rightarrow> string \<Rightarrow> lerror option action" where
  "refine_apply isp now opts mergedInto diffContent =
     pbind (sql (insert_decision (fo_CandidateSignature opts) ''pending-approval'' (nullIfEmpty (fo_TargetPath opts)) (fo_Rationale opts)
       (nullIfEmpty diffContent) (Format_RFC3339Nano now))) (\<lambda>ins.
     case ins of
       Inl scanErr \<Rightarrow> Return (Some (runtimef_w ''refine-apply: insert decision'' (OtherErr scanErr)))
     | Inr i \<Rightarrow>
         pbind (moveToDeprecated isp (fo_TargetPath opts) mergedInto now) (\<lambda>(deprecatedPath, moved).
         case moved of
           Some moveErr \<Rightarrow> pbind (sql (delete_decision i)) (\<lambda>_. Return (Some moveErr))
         | None \<Rightarrow>
             pbind (sql (mark_applied i (Format_RFC3339Nano now))) (\<lambda>up.
             case up of
               Inl execErr \<Rightarrow>
                 Return (Some (runtimef_w (''refine-apply: mark decision '' @ int_text i @ '' applied (file already moved to ''
                   @ strconv_Quote isp deprecatedPath @ '')'') (OtherErr execErr)))
             | Inr _ \<Rightarrow>
                 pbind (audit_or_warn isp now (learningDirFromDB (fo_DBPath opts))
                   \<lparr>ae_Timestamp = Format_RFC3339Nano now, ae_DecisionID = i, ae_Action = ''applied'',
                    ae_SourcePath = fo_TargetPath opts, ae_DeprecatedPath = deprecatedPath, ae_MergedInto = mergedInto,
                    ae_CandidateSignature = fo_CandidateSignature opts, ae_Rationale = fo_Rationale opts\<rparr>) (\<lambda>_.
                 pbind (print (''applied decision '' @ int_text i @ '': '' @ fo_TargetPath opts @ arrow @ deprecatedPath @ eol))
                   (\<lambda>_. Return None)))))"

definition runRefineApply :: "(nat \<Rightarrow> bool) \<Rightarrow> time \<Rightarrow> refineApplyOpts \<Rightarrow> lerror option action" where
  "runRefineApply isp now opts =
     (if fo_CandidateSignature opts = [] then Return (Some (usagef ''refine-apply: --candidate-signature is required''))
      else if fo_TargetPath opts = [] then Return (Some (usagef ''refine-apply: --target-path is required''))
      else if fo_DBPath opts = [] then Return (Some (usagef ''refine-apply: --db-path is required''))
      else
        (let mergedInto = (if fo_MergedInto opts = [] then fo_TargetPath opts else fo_MergedInto opts) in
         pbind (read_diff isp ''refine-apply'' (fo_DiffFile opts)) (\<lambda>rd.
         case rd of
           Inl readErr \<Rightarrow> Return (Some readErr)
         | Inr diffContent \<Rightarrow>
             if fo_DryRun opts then
               pbind (print (''Would deprecate '' @ strconv_Quote isp (fo_TargetPath opts) @ '' (merged into ''
                 @ strconv_Quote isp mergedInto @ '')'' @ eol @ ''rationale: '' @ fo_Rationale opts @ eol)) (\<lambda>_.
               if diffContent \<noteq> [] then
                 pbind (print (''---'' @ eol)) (\<lambda>_. pbind (print (diffContent @ eol)) (\<lambda>_. Return None))
               else Return None)
             else
               pbind (openStore isp (fo_DBPath opts)) (\<lambda>op.
               case op of
                 Some openErr \<Rightarrow> Return (Some (runtimef_w ''refine-apply: open store'' openErr))
               | None \<Rightarrow> refine_apply isp now opts mergedInto diffContent))))"

section \<open>Taking a decision back\<close>

record rollbackOpts =
  ro_ID :: int
  ro_DBPath :: string
  ro_DryRun :: bool

definition stripDeprecationHeader :: "string \<Rightarrow> string" where
  "stripDeprecationHeader raw =
     (if \<not> HasPrefix raw ''> Deprecated '' then raw
      else (case Index raw eol of
              None \<Rightarrow> raw
            | Some idx \<Rightarrow> TrimPrefix (drop (idx + 1) raw) eol))"

text \<open>The row and the entry that record a restored file.\<close>

definition record_rollback :: "(nat \<Rightarrow> bool) \<Rightarrow> time \<Rightarrow> rollbackOpts \<Rightarrow> auditEntry \<Rightarrow> lerror option action" where
  "record_rollback isp now opts e =
     pbind (openStore isp (ro_DBPath opts)) (\<lambda>op.
     case op of
       Some openErr \<Rightarrow> Return (Some (runtimef_w ''rollback: open store'' openErr))
     | None \<Rightarrow>
         (let rollbackSig = ''rollback:decision='' @ int_text (ro_ID opts);
              rollbackRat = ''Restored '' @ strconv_Quote isp (ae_SourcePath e) @ '' from '' @ strconv_Quote isp (ae_DeprecatedPath e)
                @ '' via /learn-rollback''
          in pbind (sql (insert_decision rollbackSig ''rolled-back'' (nullIfEmpty (ae_SourcePath e)) rollbackRat None (Format_RFC3339Nano now))) (\<lambda>ins.
             case ins of
               Inl execErr \<Rightarrow> Return (Some (runtimef_w ''rollback: insert rolled-back decision'' (OtherErr execErr)))
             | Inr _ \<Rightarrow>
                 pbind (audit_or_warn isp now (learningDirFromDB (ro_DBPath opts))
                   \<lparr>ae_Timestamp = Format_RFC3339Nano now, ae_DecisionID = ro_ID opts, ae_Action = ''rolled-back'',
                    ae_SourcePath = ae_SourcePath e, ae_DeprecatedPath = ae_DeprecatedPath e, ae_MergedInto = ae_MergedInto e,
                    ae_CandidateSignature = rollbackSig, ae_Rationale = rollbackRat\<rparr>) (\<lambda>_.
                 pbind (print (''rolled back decision '' @ int_text (ro_ID opts) @ '': '' @ ae_DeprecatedPath e @ arrow @ ae_SourcePath e @ eol))
                   (\<lambda>_. Return None)))))"

definition restore_file :: "(nat \<Rightarrow> bool) \<Rightarrow> auditEntry \<Rightarrow> lerror option action" where
  "restore_file isp e =
     pbind (os_ReadFile' (ae_DeprecatedPath e)) (\<lambda>rd.
     case rd of
       Inl readErr \<Rightarrow> Return (Some (runtimef_w (''rollback: read deprecated '' @ strconv_Quote isp (ae_DeprecatedPath e)) (OtherErr (fe_err readErr))))
     | Inr raw \<Rightarrow>
         pbind (os_MkdirAll (path_Dir (ae_SourcePath e))) (\<lambda>mk.
         case mk of
           Some mkErr \<Rightarrow> Return (Some (runtimef_w (''rollback: mkdir parent of '' @ strconv_Quote isp (ae_SourcePath e)) (OtherErr mkErr)))
         | None \<Rightarrow>
             pbind (os_WriteFile' (ae_SourcePath e) (stripDeprecationHeader raw)) (\<lambda>wr.
             case wr of
               Some writeErr \<Rightarrow> Return (Some (runtimef_w (''rollback: write canonical '' @ strconv_Quote isp (ae_SourcePath e)) (OtherErr writeErr)))
             | None \<Rightarrow>
                 pbind (os_Remove (ae_DeprecatedPath e)) (\<lambda>rm.
                 Return (map_option (\<lambda>rmErr. runtimef_w (''rollback: remove deprecated '' @ strconv_Quote isp (ae_DeprecatedPath e)
                   @ '' (canonical already restored)'') (OtherErr rmErr)) rm)))))"

text \<open>The checks of the two files of an entry.\<close>

definition check_files :: "(nat \<Rightarrow> bool) \<Rightarrow> auditEntry \<Rightarrow> lerror option action" where
  "check_files isp e =
     pbind (os_Stat (ae_DeprecatedPath e)) (\<lambda>st1.
     case st1 of
       Some (NotExist _) \<Rightarrow> Return (Some (usagef (''rollback: deprecated file '' @ strconv_Quote isp (ae_DeprecatedPath e) @ '' no longer exists on disk'')))
     | Some (OtherIO statErr) \<Rightarrow> Return (Some (runtimef_w (''rollback: stat deprecated file '' @ strconv_Quote isp (ae_DeprecatedPath e)) (OtherErr statErr)))
     | None \<Rightarrow>
         pbind (os_Stat (ae_SourcePath e)) (\<lambda>st2.
         case st2 of
           None \<Rightarrow> Return (Some (usagef (''rollback: canonical path '' @ strconv_Quote isp (ae_SourcePath e)
             @ '' is occupied (another file landed there since apply); resolve manually first'')))
         | Some (OtherIO statErr) \<Rightarrow> Return (Some (runtimef_w (''rollback: stat canonical path '' @ strconv_Quote isp (ae_SourcePath e)) (OtherErr statErr)))
         | Some (NotExist _) \<Rightarrow> Return None))"

definition runRollback :: "(nat \<Rightarrow> bool) \<Rightarrow> (string \<Rightarrow> auditEntry option) \<Rightarrow> time \<Rightarrow> rollbackOpts \<Rightarrow> lerror option action" where
  "runRollback isp dec now opts =
     (if ro_ID opts \<le> 0 then Return (Some (usagef ''rollback: --id must be > 0''))
      else if ro_DBPath opts = [] then Return (Some (usagef ''rollback: --db-path is required''))
      else
        pbind (findAuditByDecisionID isp dec (learningDirFromDB (ro_DBPath opts)) (ro_ID opts)) (\<lambda>found.
        case found of
          Inl findErr \<Rightarrow> Return (Some findErr)
        | Inr None \<Rightarrow> Return (Some (usagef (''rollback: no audit entry for decision '' @ int_text (ro_ID opts))))
        | Inr (Some e) \<Rightarrow>
            if ae_Action e = ''rolled-back'' then
              Return (Some (usagef (''rollback: decision '' @ int_text (ro_ID opts)
                @ '' is already rolled back (audit entry action=rolled-back)'')))
            else if ae_DeprecatedPath e = [] \<or> ae_SourcePath e = [] then
              Return (Some (usagef (''rollback: decision '' @ int_text (ro_ID opts) @ '' has incomplete audit entry (deprecated_path=''
                @ strconv_Quote isp (ae_DeprecatedPath e) @ '' source_path='' @ strconv_Quote isp (ae_SourcePath e) @ '')'')))
            else
              pbind (check_files isp e) (\<lambda>checked.
              case checked of
                Some err \<Rightarrow> Return (Some err)
              | None \<Rightarrow>
                  if ro_DryRun opts then
                    pbind (print (''Would restore '' @ strconv_Quote isp (ae_DeprecatedPath e) @ arrow @ strconv_Quote isp (ae_SourcePath e)
                      @ '' (strip deprecation header)'' @ eol)) (\<lambda>_. Return None)
                  else
                    pbind (restore_file isp e) (\<lambda>restored.
                    case restored of
                      Some err \<Rightarrow> Return (Some err)
                    | None \<Rightarrow> record_rollback isp now opts e))))"

end
