(* ===== verification/DecisionProofs.thy ===== *)
theory DecisionProofs
  imports Decisions
begin

text \<open>
  A decision that was applied can be taken back: the file is where it was, byte for byte, and the log says so.
\<close>

section \<open>A line of the log\<close>

lemma small_byte:
  assumes "n < 256" and "n \<noteq> 10"
  shows "CHR 0x0A \<noteq> char_of (n :: nat)"
proof
  assume "CHR 0x0A = char_of n"
  then have "of_char (CHR 0x0A) = (of_char (char_of n :: char) :: nat)" by simp
  then show False using assms by (simp add: of_char_of)
qed

lemma encode_rune_newline:
  assumes "r \<noteq> 10"
  shows "CHR 0x0A \<notin> set (encode_rune r)"
proof -
  have tail: "CHR 0x0A \<noteq> char_of (128 + k mod 64 :: nat)" for k
    using mod_less_divisor [of 64 k] by (intro small_byte) linarith+
  have "CHR 0x0A \<noteq> char_of (192 + q div 64 :: nat)" if "q < 2048" for q
    using that by (intro small_byte) (simp_all add: less_mult_imp_div_less)
  moreover have "CHR 0x0A \<noteq> char_of (224 + q div 4096 :: nat)" if "q < 65536" for q
    using that by (intro small_byte) (simp_all add: less_mult_imp_div_less)
  moreover have "CHR 0x0A \<noteq> char_of (240 + q div 262144 :: nat)" if "q \<le> 1114111" for q
    using that div_le_mono [OF that, of 262144] by (intro small_byte) simp_all
  moreover have "CHR 0x0A \<noteq> char_of q" if "q < 128" "q \<noteq> 10" for q :: nat
    using that by (intro small_byte) simp_all
  ultimately show ?thesis
    using assms tail small_byte [of 239] small_byte [of 191] small_byte [of 189]
    by (simp add: encode_rune_def Let_def RuneError_def)
qed

lemma hex_char_newline: "k < 16 \<Longrightarrow> CHR 0x0A \<noteq> hex_char k"
proof -
  have "list_all (\<lambda>k. CHR 0x0A \<noteq> hex_char k) [0..<16]" unfolding hex_char_def by code_simp
  then show "k < 16 \<Longrightarrow> CHR 0x0A \<noteq> hex_char k" by (simp only: list_all_iff set_upt atLeastLessThan_iff) simp
qed

lemma json_rune_newline: "CHR 0x0A \<notin> set (json_rune r)"
proof -
  have "r mod 16 < 16" by simp
  then have "CHR 0x0A \<noteq> hex_char (r mod 16)" by (rule hex_char_newline)
  moreover have "CHR 0x0A \<noteq> hex_char (r div 16)" if "r < 32 \<or> r \<in> {60, 62, 38}"
    using that by (intro hex_char_newline) auto
  moreover have "CHR 0x0A \<noteq> char_of r" if "r = 34 \<or> r = 92"
    using that by (intro small_byte) auto
  ultimately show ?thesis
    using encode_rune_newline [of r] by (simp add: json_rune_def bs_def)
qed

lemma json_chars_newline: "CHR 0x0A \<notin> set (json_chars s)"
proof (induction s rule: json_chars.induct)
  case (1 s)
  show ?case
  proof (cases s)
    case (Cons a t)
    obtain r n where "decode_rune s = (r, n)" by force
    then show ?thesis using 1 [OF Cons] json_rune_newline by (simp add: json_chars.simps [of s]) (simp add: Cons bs_def)
  qed (simp add: json_chars.simps [of "[]"])
qed

lemma json_quote_line: "one_line (json_quote s)"
  using json_chars_newline by (simp add: json_quote_def one_line_def)

lemma number_line: "one_line (int_text i)"
  using number_bytes(2) [of i] by (auto simp: one_line_def list_all_iff number_byte_def digit_def)

lemma Join_line: "list_all one_line ws \<Longrightarrow> one_line sep \<Longrightarrow> one_line (Join ws sep)"
  by (induction ws sep rule: Join.induct) (auto simp: one_line_def)

lemma audit_json_line: "scan_line_ok (audit_json e)"
proof -
  have "one_line (audit_json e)"
    unfolding audit_json_def json_encode.simps one_line_def [of "_ @ _"]
    using Join_line json_quote_line number_line
    by (auto simp: one_line_def omit_empty_def intro!: Join_line [unfolded one_line_def] split: if_splits)
  then show ?thesis by (simp add: scan_line_ok_def audit_json_def)
qed

section \<open>Calls without faults\<close>

definition calm :: "disk \<Rightarrow> bool" where
  "calm d \<longleftrightarrow> d_faults d = [] \<and> d_journal d = ''wal''"

lemma calm_steps [simp]:
  "calm (set_file p c d) = calm d" "calm (d\<lparr>d_out := out\<rparr>) = calm d" "calm (d\<lparr>d_decisions := rows\<rparr>) = calm d"
  by (simp_all add: calm_def set_file_def)

lemma run_faulty: "calm d \<Longrightarrow> run (faulty f) d = f None d"
  by (simp add: faulty_def calm_def)

lemma file_at_steps [simp]:
  "file_at (set_file p c d) q = (if path_Clean p = path_Clean q then c else file_at d q)"
  "file_at (d\<lparr>d_out := out\<rparr>) q = file_at d q" "file_at (d\<lparr>d_decisions := rows\<rparr>) q = file_at d q"
  by (auto simp: file_at_def set_file_def)

lemma set_file_other [simp]:
  "d_decisions (set_file p c d) = d_decisions d" "d_out (set_file p c d) = d_out d"
  by (simp_all add: set_file_def)

lemmas calls = os_ReadFile'_def os_Stat_def os_WriteFile'_def os_MkdirAll_def os_Chmod_def os_Rename_def os_Remove_def
  os_OpenAppend_def os_AppendWrite_def print_def sql_def

lemma run_openStore: "calm d \<Longrightarrow> run (openStore isp p) d = (None, d)"
proof -
  assume d: "calm d"
  then have "run (applyPragmas isp) d = (None, d)" "run applySchema d = (None, d)"
    by (simp_all add: applyPragmas_def applySchema_def run_pbind sql_def run_faulty) (simp add: calm_def)
  moreover have "run (os_Stat p) d = (if file_at d p = None then Some (NotExist (no_such_file ''stat'' p)) else None, d)"
    using d by (simp add: os_Stat_def run_faulty split: option.split)
  ultimately show ?thesis
    using d by (simp add: openStore_def run_pbind sql_def run_faulty os_Chmod_def)
qed

section \<open>The move\<close>

lemma run_move:
  assumes "calm d" and "file_at d src = Some c" and "path_Clean (deprecated_path src now) \<noteq> path_Clean src"
  obtains d' where "run (moveToDeprecated isp src m now) d = ((deprecated_path src now, None), d')" and "calm d'"
    and "\<And>p. file_at d' p = (if path_Clean p = path_Clean (deprecated_path src now) then Some (deprecation_header now m @ c)
      else if path_Clean p = path_Clean src then None else file_at d p)"
  using assms by (auto simp: moveToDeprecated_def calls run_pbind run_faulty Let_def intro!: that split: if_splits)

lemma Index_eol: "CHR 0x0A \<notin> set a \<Longrightarrow> Index (a @ eol @ b) eol = Some (length a)"
  by (induction a) (auto simp: eol_def)

lemma drop_line: "drop (length a + 1) (a @ eol @ b) = b"
  by (simp add: eol_def)

lemma strip_header: "CHR 0x0A \<notin> set m \<Longrightarrow> stripDeprecationHeader (deprecation_header now m @ c) = c"
proof -
  assume m: "CHR 0x0A \<notin> set m"
  let ?first = "''> Deprecated '' @ Format_date now @ '' by /learn-refine: merged into '' @ m"
  have "Index (?first @ eol @ eol @ c) eol = Some (length ?first)"
    using m Format_date_printable(2) by (intro Index_eol) simp
  moreover have "drop (length ?first + 1) (?first @ eol @ eol @ c) = eol @ c" by (rule drop_line)
  moreover have "deprecation_header now m @ c = ?first @ eol @ eol @ c" by (simp add: deprecation_header_def)
  moreover have "HasPrefix (?first @ eol @ eol @ c) ''> Deprecated ''" by simp
  ultimately show ?thesis
    by (simp only: stripDeprecationHeader_def option.case if_False not_True_eq_False TrimPrefix_append)
qed

section \<open>The log\<close>

text \<open>The log holds the lines \<open>ls\<close>.\<close>

definition log_holds :: "disk \<Rightarrow> string \<Rightarrow> string list \<Rightarrow> bool" where
  "log_holds d dir ls \<longleftrightarrow> list_all (\<lambda>l. scan_line_ok l \<and> length l < 1024 * 1024) ls \<and>
     (case file_at d (auditPath dir) of None \<Rightarrow> ls = [] | Some t \<Rightarrow> t = concat (map (\<lambda>l. l @ eol) ls))"

lemma run_append:
  assumes "calm d" and "log_holds d dir ls" and "ae_Timestamp e \<noteq> []" and "length (audit_json e) < 1024 * 1024"
  obtains d' where "run (audit_or_warn isp wall dir e) d = ((), d')" and "calm d'" and "d_decisions d' = d_decisions d"
    and "log_holds d' dir (ls @ [audit_json e])"
    and "\<And>p. path_Clean p \<noteq> path_Clean (auditPath dir) \<Longrightarrow> file_at d' p = file_at d p"
  using assms audit_json_line [of e]
  by (cases "file_at d (auditPath dir)")
    (auto simp: audit_or_warn_def appendAudit_def calls run_pbind run_faulty Let_def log_holds_def intro!: that)

lemma run_find:
  assumes "calm d" and "log_holds d dir ls"
  shows "run (findAuditByDecisionID isp dec dir i) d =
    (Inr (last_entry i (List.map_filter (\<lambda>l. if l = [] then None else dec l) ls)), d)"
proof (cases "file_at d (auditPath dir)")
  case None
  then show ?thesis
    using assms by (simp add: findAuditByDecisionID_def readAudit_def os_ReadFile'_def run_pbind run_faulty Let_def log_holds_def
        last_entry_def map_filter_simps)
next
  case (Some t)
  then have ok: "list_all scan_line_ok ls" "list_all one_line ls" "list_all (\<lambda>l. length l < 1024 * 1024) ls"
      and t: "t = concat (map (\<lambda>l. l @ eol) ls)"
    using assms(2) by (auto simp: log_holds_def list_all_iff scan_line_ok_def)
  then have "scanner_lines t = ls" "scan_fits (1024 * 1024) t"
    by (simp_all only: t scanner_lines_render scan_fits_def Split_lines) simp
  then show ?thesis
    using assms(1) Some
    by (simp add: findAuditByDecisionID_def readAudit_def os_ReadFile'_def run_pbind run_faulty Let_def audit_entries_def)
qed

lemma last_entry_snoc:
  "dec l = Some e \<Longrightarrow> ae_DecisionID e = i \<Longrightarrow> l \<noteq> [] \<Longrightarrow>
    last_entry i (List.map_filter (\<lambda>l. if l = [] then None else dec l) (ls @ [l])) = Some e"
  by (simp add: last_entry_def map_filter_def)

lemma audit_json_not_Nil [simp]: "audit_json e \<noteq> []"
  by (simp add: audit_json_def)

section \<open>Applying and taking back\<close>

definition merged_into :: "refineApplyOpts \<Rightarrow> string" where
  "merged_into opts = (if fo_MergedInto opts = [] then fo_TargetPath opts else fo_MergedInto opts)"

definition applied_entry :: "time \<Rightarrow> refineApplyOpts \<Rightarrow> int \<Rightarrow> auditEntry" where
  "applied_entry now opts i =
     \<lparr>ae_Timestamp = Format_RFC3339Nano now, ae_DecisionID = i, ae_Action = ''applied'', ae_SourcePath = fo_TargetPath opts,
      ae_DeprecatedPath = deprecated_path (fo_TargetPath opts) now, ae_MergedInto = merged_into opts,
      ae_CandidateSignature = fo_CandidateSignature opts, ae_Rationale = fo_Rationale opts\<rparr>"

definition rollback_entry :: "(nat \<Rightarrow> bool) \<Rightarrow> time \<Rightarrow> int \<Rightarrow> auditEntry \<Rightarrow> auditEntry" where
  "rollback_entry isp now i e =
     \<lparr>ae_Timestamp = Format_RFC3339Nano now, ae_DecisionID = i, ae_Action = ''rolled-back'', ae_SourcePath = ae_SourcePath e,
      ae_DeprecatedPath = ae_DeprecatedPath e, ae_MergedInto = ae_MergedInto e,
      ae_CandidateSignature = ''rollback:decision='' @ int_text i,
      ae_Rationale = ''Restored '' @ strconv_Quote isp (ae_SourcePath e) @ '' from '' @ strconv_Quote isp (ae_DeprecatedPath e)
        @ '' via /learn-rollback''\<rparr>"

lemma entry_sel [simp]:
  "ae_Timestamp (applied_entry now opts i) = Format_RFC3339Nano now" "ae_DecisionID (applied_entry now opts i) = i"
  "ae_Action (applied_entry now opts i) = ''applied''" "ae_SourcePath (applied_entry now opts i) = fo_TargetPath opts"
  "ae_DeprecatedPath (applied_entry now opts i) = deprecated_path (fo_TargetPath opts) now"
  "ae_Timestamp (rollback_entry isp now i e) = Format_RFC3339Nano now" "ae_DecisionID (rollback_entry isp now i e) = i"
  "ae_Action (rollback_entry isp now i e) = ''rolled-back''"
  by (simp_all add: applied_entry_def rollback_entry_def)

lemma stamped [simp]: "Format_RFC3339Nano t \<noteq> []"
  by (simp add: Format_RFC3339Nano_def split: prod.split)

lemma run_refine:
  assumes calm: "calm d" and opts: "fo_CandidateSignature opts \<noteq> []" "fo_TargetPath opts \<noteq> []" "fo_DBPath opts \<noteq> []"
      "fo_DiffFile opts = []" "\<not> fo_DryRun opts"
    and held: "file_at d (fo_TargetPath opts) = Some c"
    and paths: "path_Clean (deprecated_path (fo_TargetPath opts) now) \<noteq> path_Clean (fo_TargetPath opts)"
      "path_Clean (fo_TargetPath opts) \<noteq> path_Clean (auditPath (learningDirFromDB (fo_DBPath opts)))"
      "path_Clean (deprecated_path (fo_TargetPath opts) now) \<noteq> path_Clean (auditPath (learningDirFromDB (fo_DBPath opts)))"
    and log: "log_holds d (learningDirFromDB (fo_DBPath opts)) ls"
    and len: "length (audit_json (applied_entry now opts (next_decision_id (d_decisions d)))) < 1024 * 1024"
  obtains d' where "run (runRefineApply isp now opts) d = (None, d')" and "calm d'"
    and "log_holds d' (learningDirFromDB (fo_DBPath opts))
      (ls @ [audit_json (applied_entry now opts (next_decision_id (d_decisions d)))])"
    and "\<And>p. path_Clean p \<noteq> path_Clean (auditPath (learningDirFromDB (fo_DBPath opts))) \<Longrightarrow> file_at d' p =
      (if path_Clean p = path_Clean (deprecated_path (fo_TargetPath opts) now)
       then Some (deprecation_header now (merged_into opts) @ c)
       else if path_Clean p = path_Clean (fo_TargetPath opts) then None else file_at d p)"
proof -
  let ?i = "next_decision_id (d_decisions d)" and ?dir = "learningDirFromDB (fo_DBPath opts)"
  obtain rows where ins: "run (sql (insert_decision (fo_CandidateSignature opts) ''pending-approval'' (nullIfEmpty (fo_TargetPath opts))
      (fo_Rationale opts) (nullIfEmpty []) (Format_RFC3339Nano now))) d = (Inr ?i, d\<lparr>d_decisions := rows\<rparr>)"
    using calm by (simp add: sql_def run_faulty insert_decision_def decision_actions_def Let_def)
  have d1: "calm (d\<lparr>d_decisions := rows\<rparr>)" "file_at (d\<lparr>d_decisions := rows\<rparr>) (fo_TargetPath opts) = Some c"
    using calm held by simp_all
  obtain d2 where mv: "run (moveToDeprecated isp (fo_TargetPath opts) (merged_into opts) now) (d\<lparr>d_decisions := rows\<rparr>) =
        ((deprecated_path (fo_TargetPath opts) now, None), d2)" and d2: "calm d2"
      "\<And>p. file_at d2 p = (if path_Clean p = path_Clean (deprecated_path (fo_TargetPath opts) now)
         then Some (deprecation_header now (merged_into opts) @ c)
         else if path_Clean p = path_Clean (fo_TargetPath opts) then None else file_at (d\<lparr>d_decisions := rows\<rparr>) p)"
    by (rule run_move [where isp = isp and m = "merged_into opts", OF d1 paths(1)]) (rule that)
  obtain rows2 where mark: "run (sql (mark_applied ?i (Format_RFC3339Nano now))) d2 = (Inr (), d2\<lparr>d_decisions := rows2\<rparr>)"
    using d2(1) by (simp add: sql_def run_faulty mark_applied_def)
  have "log_holds (d2\<lparr>d_decisions := rows2\<rparr>) ?dir ls"
    using log paths(2,3) by (simp add: log_holds_def d2(2))
  then obtain d3 where audit: "run (audit_or_warn isp now ?dir (applied_entry now opts ?i)) (d2\<lparr>d_decisions := rows2\<rparr>) = ((), d3)"
      and d3: "calm d3" "log_holds d3 ?dir (ls @ [audit_json (applied_entry now opts ?i)])"
        "\<And>p. path_Clean p \<noteq> path_Clean (auditPath ?dir) \<Longrightarrow> file_at d3 p = file_at d2 p"
    using run_append [of "d2\<lparr>d_decisions := rows2\<rparr>" ?dir ls "applied_entry now opts ?i" isp now] d2(1) len
    by (auto simp: applied_entry_def)
  have "run (runRefineApply isp now opts) d = (None, snd (run (print (''applied decision '' @ int_text ?i @ '': ''
      @ fo_TargetPath opts @ arrow @ deprecated_path (fo_TargetPath opts) now @ eol)) d3))"
    using opts ins mv mark audit
    by (simp add: runRefineApply_def read_diff_def run_pbind run_openStore [OF calm] refine_apply_def Let_def
        merged_into_def applied_entry_def)
  then show thesis
    by (rule that) (use d3 d2(2) in \<open>simp_all add: print_def run_faulty log_holds_def\<close>)
qed

lemma run_rollback:
  assumes calm: "calm d" and opts: "0 < i" "db \<noteq> []"
    and log: "log_holds d (learningDirFromDB db) ls"
      "last_entry i (List.map_filter (\<lambda>l. if l = [] then None else dec l) ls) = Some e"
    and entry: "ae_Action e \<noteq> ''rolled-back''" "ae_SourcePath e \<noteq> []" "ae_DeprecatedPath e \<noteq> []"
    and files: "file_at d (ae_DeprecatedPath e) = Some (deprecation_header now m @ c)" "file_at d (ae_SourcePath e) = None"
    and m: "CHR 0x0A \<notin> set m"
    and paths: "path_Clean (ae_DeprecatedPath e) \<noteq> path_Clean (ae_SourcePath e)"
      "path_Clean (ae_SourcePath e) \<noteq> path_Clean (auditPath (learningDirFromDB db))"
      "path_Clean (ae_DeprecatedPath e) \<noteq> path_Clean (auditPath (learningDirFromDB db))"
    and len: "length (audit_json (rollback_entry isp later i e)) < 1024 * 1024"
  obtains d' where "run (runRollback isp dec later \<lparr>ro_ID = i, ro_DBPath = db, ro_DryRun = False\<rparr>) d = (None, d')"
    and "calm d'" and "log_holds d' (learningDirFromDB db) (ls @ [audit_json (rollback_entry isp later i e)])"
    and "\<And>p. path_Clean p \<noteq> path_Clean (auditPath (learningDirFromDB db)) \<Longrightarrow> file_at d' p =
      (if path_Clean p = path_Clean (ae_DeprecatedPath e) then None
       else if path_Clean p = path_Clean (ae_SourcePath e) then Some c else file_at d p)"
proof -
  let ?opts = "\<lparr>ro_ID = i, ro_DBPath = db, ro_DryRun = False\<rparr>"
  let ?d1 = "set_file (ae_DeprecatedPath e) None (set_file (ae_SourcePath e) (Some c) d)"
  have find: "run (findAuditByDecisionID isp dec (learningDirFromDB db) i) d = (Inr (Some e), d)"
    using run_find [OF calm log(1), of isp dec i] log(2) by simp
  have check: "run (check_files isp e) d = (None, d)"
    using calm files by (simp add: check_files_def os_Stat_def run_pbind run_faulty)
  have restore: "run (restore_file isp e) d = (None, ?d1)"
    using calm files(1) strip_header [OF m] paths
    by (simp add: restore_file_def calls run_pbind run_faulty)
  obtain rows where ins: "run (sql (insert_decision (''rollback:decision='' @ int_text i) ''rolled-back'' (nullIfEmpty (ae_SourcePath e))
      (''Restored '' @ strconv_Quote isp (ae_SourcePath e) @ '' from '' @ strconv_Quote isp (ae_DeprecatedPath e) @ '' via /learn-rollback'')
      None (Format_RFC3339Nano later))) ?d1 = (Inr (next_decision_id (d_decisions d)), ?d1\<lparr>d_decisions := rows\<rparr>)"
    using calm by (simp add: sql_def run_faulty insert_decision_def decision_actions_def Let_def)
  have "log_holds (?d1\<lparr>d_decisions := rows\<rparr>) (learningDirFromDB db) ls"
    using log(1) paths(2,3) by (simp add: log_holds_def)
  then obtain d2 where audit: "run (audit_or_warn isp later (learningDirFromDB db) (rollback_entry isp later i e)) (?d1\<lparr>d_decisions := rows\<rparr>) = ((), d2)"
      and d2: "calm d2" "log_holds d2 (learningDirFromDB db) (ls @ [audit_json (rollback_entry isp later i e)])"
        "\<And>p. path_Clean p \<noteq> path_Clean (auditPath (learningDirFromDB db)) \<Longrightarrow> file_at d2 p = file_at ?d1 p"
    using run_append [of "?d1\<lparr>d_decisions := rows\<rparr>" "learningDirFromDB db" ls "rollback_entry isp later i e" isp later] calm len
    by (auto simp: rollback_entry_def)
  have "run (record_rollback isp later ?opts e) ?d1 = (None, snd (run (print (''rolled back decision '' @ int_text i @ '': ''
      @ ae_DeprecatedPath e @ arrow @ ae_SourcePath e @ eol)) d2))"
    using calm ins audit run_openStore [of ?d1 isp db]
    by (simp add: record_rollback_def run_pbind Let_def rollback_entry_def)
  then have "run (runRollback isp dec later ?opts) d = (None, snd (run (print (''rolled back decision '' @ int_text i @ '': ''
      @ ae_DeprecatedPath e @ arrow @ ae_SourcePath e @ eol)) d2))"
    using opts entry find check restore by (simp add: runRollback_def run_pbind)
  then show thesis
    by (rule that) (use d2 in \<open>simp_all add: print_def run_faulty log_holds_def\<close>)
qed

text \<open>
  What the two commands need: a store and files that can be used, a complete request for a file with content \<open>c\<close>, three
  different paths, and a log whose lines fit the buffer that reads them.
\<close>

definition refinable :: "(nat \<Rightarrow> bool) \<Rightarrow> time \<Rightarrow> time \<Rightarrow> refineApplyOpts \<Rightarrow> string list \<Rightarrow> string \<Rightarrow> disk \<Rightarrow> bool" where
  "refinable isp now later opts ls c d \<longleftrightarrow>
     (let target = fo_TargetPath opts; moved = deprecated_path target now; dir = learningDirFromDB (fo_DBPath opts);
          i = next_decision_id (d_decisions d); e = applied_entry now opts i
      in calm d \<and> fo_CandidateSignature opts \<noteq> [] \<and> target \<noteq> [] \<and> fo_DBPath opts \<noteq> [] \<and> fo_DiffFile opts = []
         \<and> \<not> fo_DryRun opts \<and> one_line (merged_into opts) \<and> file_at d target = Some c
         \<and> distinct [path_Clean target, path_Clean moved, path_Clean (auditPath dir)]
         \<and> log_holds d dir ls \<and> length (audit_json e) < 1024 * 1024
         \<and> length (audit_json (rollback_entry isp later i e)) < 1024 * 1024
         \<and> list_all (\<lambda>r. 0 < dr_id r) (d_decisions d))"

lemma next_id_positive: "list_all (\<lambda>r. 0 < dr_id r) rows \<Longrightarrow> 0 < next_decision_id rows"
proof (cases rows)
  case (Cons r rs)
  assume "list_all (\<lambda>r. 0 < dr_id r) rows"
  then have "0 < dr_id r" "dr_id r \<le> Max (set (map dr_id rows))" using Cons by simp_all
  then have "0 < Max (set (map dr_id rows))" by linarith
  then show ?thesis using Cons by (simp add: next_decision_id_def)
qed (simp add: next_decision_id_def)

lemma path_Clean_not_Nil [simp]: "path_Clean p \<noteq> []"
  by (simp add: path_Clean_def Let_def)

lemma path_Join_not_Nil [simp]: "dir \<noteq> [] \<Longrightarrow> path_Join dir name \<noteq> []"
  by (simp add: path_Join_def)

lemma path_Dir_not_Nil [simp]: "path_Dir p \<noteq> []"
  by (simp add: path_Dir_def)

lemma deprecated_path_not_Nil [simp]: "deprecated_path p now \<noteq> []"
  by (simp add: deprecated_path_def deprecated_dir_def Let_def)

definition take_back :: "(nat \<Rightarrow> bool) \<Rightarrow> (string \<Rightarrow> auditEntry option) \<Rightarrow> time \<Rightarrow> refineApplyOpts \<Rightarrow> int \<Rightarrow> lerror option action" where
  "take_back isp dec later opts i = runRollback isp dec later \<lparr>ro_ID = i, ro_DBPath = fo_DBPath opts, ro_DryRun = False\<rparr>"

text \<open>
  C21: A decision that is applied and then rolled back: both commands succeed, the file is gone in between and back with
  its content afterwards, every other file except the log is as it was, and a second rollback is a usage error
  that changes nothing.  The JSON decoder reads the two entries that the encoder wrote.
\<close>

theorem apply_then_rollback:
  assumes "refinable isp now later opts ls c d"
    and "dec (audit_json (applied_entry now opts i)) = Some (applied_entry now opts i)"
    and "dec (audit_json (rollback_entry isp later i (applied_entry now opts i))) = Some (rollback_entry isp later i (applied_entry now opts i))"
    and "i = next_decision_id (d_decisions d)"
  shows "let (r1, d1) = run (runRefineApply isp now opts) d; (r2, d2) = run (take_back isp dec later opts i) d1;
             (r3, d3) = run (take_back isp dec later opts i) d2
         in r1 = None \<and> file_at d1 (fo_TargetPath opts) = None \<and> r2 = None
            \<and> (\<forall>p. file_at d2 p =
                  (if path_Clean p = path_Clean (auditPath (learningDirFromDB (fo_DBPath opts))) then file_at d2 p
                   else if path_Clean p = path_Clean (deprecated_path (fo_TargetPath opts) now) then None
                   else file_at d p))
            \<and> (\<exists>e. r3 = Some e \<and> as_usage e) \<and> d3 = d2"
proof -
  let ?e1 = "applied_entry now opts i" and ?dir = "learningDirFromDB (fo_DBPath opts)"
  let ?e2 = "rollback_entry isp later i ?e1"
  note ready = assms(1) [unfolded refinable_def Let_def, folded assms(4)]
  obtain d1 where r1: "run (runRefineApply isp now opts) d = (None, d1)" and d1: "calm d1"
      "log_holds d1 ?dir (ls @ [audit_json ?e1])"
      "\<And>p. path_Clean p \<noteq> path_Clean (auditPath ?dir) \<Longrightarrow> file_at d1 p =
        (if path_Clean p = path_Clean (deprecated_path (fo_TargetPath opts) now)
         then Some (deprecation_header now (merged_into opts) @ c)
         else if path_Clean p = path_Clean (fo_TargetPath opts) then None else file_at d p)"
    by (rule run_refine [of d opts c now ls isp]) (use ready assms(4) in auto)
  obtain d2 where r2: "run (take_back isp dec later opts i) d1 = (None, d2)" and d2: "calm d2"
      "log_holds d2 ?dir ((ls @ [audit_json ?e1]) @ [audit_json ?e2])"
      "\<And>p. path_Clean p \<noteq> path_Clean (auditPath ?dir) \<Longrightarrow> file_at d2 p =
        (if path_Clean p = path_Clean (ae_DeprecatedPath ?e1) then None
         else if path_Clean p = path_Clean (ae_SourcePath ?e1) then Some c else file_at d1 p)"
    unfolding take_back_def
    by (rule run_rollback [of d1 i "fo_DBPath opts" "ls @ [audit_json ?e1]" dec ?e1 now "merged_into opts" c isp later])
      (use ready d1 last_entry_snoc [where dec = dec, OF assms(2)] next_id_positive assms(4) in \<open>auto simp: one_line_def\<close>)
  have "run (findAuditByDecisionID isp dec ?dir i) d2 = (Inr (Some ?e2), d2)"
    using run_find [OF d2(1,2), of isp dec i]
      last_entry_snoc [where dec = dec and i = i and ls = "ls @ [audit_json ?e1]", OF assms(3)] by simp
  then have "\<exists>e. run (take_back isp dec later opts i) d2 = (Some e, d2) \<and> as_usage e"
    using ready next_id_positive assms(4)
    by (simp add: take_back_def runRollback_def run_pbind)
  moreover have "file_at d2 p = (if path_Clean p = path_Clean (auditPath ?dir) then file_at d2 p
      else if path_Clean p = path_Clean (deprecated_path (fo_TargetPath opts) now) then None else file_at d p)" for p
  proof -
    have "path_Clean p = path_Clean (fo_TargetPath opts) \<Longrightarrow> file_at d p = Some c"
      using ready by (simp add: file_at_def)
    then show ?thesis using d1(3) d2(3) by simp
  qed
  moreover have "file_at d1 (fo_TargetPath opts) = None"
    using d1(3) ready by simp
  ultimately show ?thesis
    using r1 r2 unfolding Let_def by fastforce
qed

text \<open>The escaping of bytes that need none, and of a quote.\<close>

definition plain_byte :: "char \<Rightarrow> bool" where
  "plain_byte c \<longleftrightarrow> 32 \<le> (of_char c :: nat) \<and> of_char c < (127 :: nat) \<and> c \<notin> {CHR 0x22, bs, CHR ''<'', CHR ''>'', CHR ''&''}"

lemma char_codes: "of_char c = (34 :: nat) \<longleftrightarrow> c = CHR 0x22" "of_char c = (92 :: nat) \<longleftrightarrow> c = bs"
  "of_char c = (60 :: nat) \<longleftrightarrow> c = CHR ''<''" "of_char c = (62 :: nat) \<longleftrightarrow> c = CHR ''>''" "of_char c = (38 :: nat) \<longleftrightarrow> c = CHR ''&''"
proof -
  have "of_char c = (of_char d :: nat) \<longleftrightarrow> c = d" for d by simp
  from this [of "CHR 0x22"] this [of bs] this [of "CHR ''<''"] this [of "CHR ''>''"] this [of "CHR ''&''"]
  show "of_char c = (34 :: nat) \<longleftrightarrow> c = CHR 0x22" "of_char c = (92 :: nat) \<longleftrightarrow> c = bs"
    "of_char c = (60 :: nat) \<longleftrightarrow> c = CHR ''<''" "of_char c = (62 :: nat) \<longleftrightarrow> c = CHR ''>''" "of_char c = (38 :: nat) \<longleftrightarrow> c = CHR ''&''"
    by (simp_all add: bs_def del: of_char_eq_iff)
qed

lemma plain_codes: "plain_byte c \<Longrightarrow> of_char c \<notin> {34, 92, 60, 62, 38 :: nat}"
  by (simp add: plain_byte_def char_codes)

lemma char_of_quote: "char_of (34 :: nat) = CHR 0x22"
  by code_simp

lemma json_chars_step [simp]:
  "json_chars [] = []" "plain_byte c \<Longrightarrow> json_chars (c # s) = c # json_chars s"
  "json_chars (CHR 0x22 # s) = [bs, CHR 0x22] @ json_chars s"
  using plain_codes [of c]
  by (simp_all add: json_chars.simps [of "_ # _"] json_chars.simps [of "[]"] decode_rune_ascii plain_byte_def RuneError_def json_rune_def
      encode_rune_ascii char_of_quote)

lemma quote_chars_step [simp]:
  "quote_chars isp [] = []" "plain_byte c \<Longrightarrow> quote_chars isp (c # s) = c # quote_chars isp s"
  using plain_codes [of c]
  by (simp_all add: quote_chars.simps [of _ "_ # _"] quote_chars.simps [of _ "[]"] decode_rune_ascii plain_byte_def RuneError_def
      quote_rune_def encode_rune_ascii)

definition sample_request :: refineApplyOpts where
  "sample_request = \<lparr>fo_CandidateSignature = ''sig'', fo_TargetPath = ''skills/a.md'', fo_MergedInto = ''skills/b.md'',
     fo_Rationale = ''same'', fo_DiffFile = [], fo_DBPath = ''learning/db.sqlite'', fo_DryRun = False\<rparr>"

definition sample_disk :: disk where
  "sample_disk = \<lparr>d_files = (\<lambda>_. None)(''skills/a.md'' := Some ''text''), d_journal = ''wal'', d_decisions = [], d_events = [],
     d_skills = [], d_memories = [], d_skill_usage = [], d_memory_usage = [], d_counter = 0, d_last_nudge = None,
     d_patterns = [], d_candidates = [], d_out = [],
     d_faults = []\<rparr>"

definition sample_decoder :: "string \<Rightarrow> auditEntry option" where
  "sample_decoder l =
     (let e1 = applied_entry 0 sample_request 1; e2 = rollback_entry (\<lambda>_. True) 0 1 e1 in
      if l = audit_json e1 then Some e1 else if l = audit_json e2 then Some e2 else None)"

lemma sample_texts:
  "Format_RFC3339Nano 0 = ''1970-01-01T00:00:00Z''"
  "deprecated_path ''skills/a.md'' 0 = ''skills/_deprecated/a-19700101T000000Z.md''" "int_text 1 = ''1''"
  by code_simp+

lemma sample_lines:
  "length (audit_json (applied_entry 0 sample_request 1)) < 1000"
  "length (audit_json (rollback_entry (\<lambda>_. True) 0 1 (applied_entry 0 sample_request 1))) < 1000"
  "audit_json (applied_entry 0 sample_request 1) \<noteq> audit_json (rollback_entry (\<lambda>_. True) 0 1 (applied_entry 0 sample_request 1))"
  by (simp_all add: audit_json_def applied_entry_def rollback_entry_def sample_request_def merged_into_def omit_empty_def
      json_quote_def strconv_Quote_def sample_texts plain_byte_def bs_def)

theorem apply_then_rollback_witness:
  "file_at (snd (run (runRefineApply (\<lambda>_. True) 0 sample_request) sample_disk)) ''skills/a.md'' = None"
proof -
  have paths: "distinct [path_Clean ''skills/a.md'', path_Clean (deprecated_path ''skills/a.md'' 0),
       path_Clean (auditPath (learningDirFromDB ''learning/db.sqlite''))]"
    "path_Clean ''skills/a.md'' = ''skills/a.md''" "path_Clean (auditPath (learningDirFromDB ''learning/db.sqlite'')) = ''learning/audit.jsonl''"
    by code_simp+
  have "refinable (\<lambda>_. True) 0 0 sample_request [] ''text'' sample_disk"
    using paths sample_lines
    by (simp add: refinable_def Let_def calm_def log_holds_def file_at_def sample_disk_def)
      (simp add: sample_request_def next_decision_id_def one_line_def merged_into_def)
  moreover have "sample_decoder (audit_json (applied_entry 0 sample_request 1)) = Some (applied_entry 0 sample_request 1)"
    "sample_decoder (audit_json (rollback_entry (\<lambda>_. True) 0 1 (applied_entry 0 sample_request 1))) =
        Some (rollback_entry (\<lambda>_. True) 0 1 (applied_entry 0 sample_request 1))"
    using sample_lines(3) by (simp_all add: sample_decoder_def)
  moreover have "1 = next_decision_id (d_decisions sample_disk)" by (simp add: sample_disk_def next_decision_id_def)
  ultimately show ?thesis
    using apply_then_rollback [of "\<lambda>_. True" 0 0 sample_request "[]" "''text''" sample_disk sample_decoder 1]
    by (simp add: Let_def sample_request_def split: prod.splits)
qed

section \<open>Faults during a move\<close>

definition fault_at :: "disk \<Rightarrow> nat \<Rightarrow> fault option" where
  "fault_at d k = (if k < length (d_faults d) then d_faults d ! k else None)"

definition step_over :: "disk \<Rightarrow> disk" where
  "step_over d = d\<lparr>d_faults := tl (d_faults d)\<rparr>"

lemma run_faulty_any: "run (faulty f) d = f (fault_at d 0) (step_over d)"
  by (cases d; cases "d_faults d") (simp_all add: faulty_def fault_at_def step_over_def)

lemma step_over_simps [simp]:
  "file_at (step_over d) p = file_at d p" "fault_at (step_over d) k = fault_at d (Suc k)"
  "fault_at (set_file p c d) k = fault_at d k"
  by (cases "d_faults d"; simp add: file_at_def step_over_def fault_at_def set_file_def nth_tl)+

text \<open>
  C20: However the calls of a move fail, the content of the file is still there, in place or behind the header in the
  deprecated directory, unless the write of the header and the write that should repair it both fail.
\<close>

theorem move_keeps_a_copy:
  assumes "file_at d src = Some c" and "path_Clean (deprecated_path src now) \<noteq> path_Clean src"
  shows "let d' = snd (run (moveToDeprecated isp src m now) d) in
    file_at d' src = Some c \<or> file_at d' (deprecated_path src now) \<in> {Some c, Some (deprecation_header now m @ c)}
    \<or> (fault_at d 2 = None \<and> fault_at d 3 \<noteq> None \<and> fault_at d 4 \<noteq> None)"
  using assms
  by (simp add: moveToDeprecated_def calls run_pbind run_faulty_any Let_def numeral_eq_Suc split: option.split)

definition full_disk :: disk where
  "full_disk = sample_disk\<lparr>d_faults := [None, None, None, Some (Fault (Opaque ''*fs.PathError'' ''no space left'') (Some 5))]\<rparr>"

theorem move_keeps_a_copy_witness:
  "let d' = snd (run (moveToDeprecated (\<lambda>_. True) ''skills/a.md'' ''skills/b.md'' 0) full_disk) in
    file_at d' ''skills/a.md'' = Some ''text''
    \<or> file_at d' (deprecated_path ''skills/a.md'' 0) \<in> {Some ''text'', Some (deprecation_header 0 ''skills/b.md'' @ ''text'')}"
proof -
  have paths: "path_Clean ''skills/a.md'' = ''skills/a.md''"
    "path_Clean (deprecated_path ''skills/a.md'' 0) \<noteq> path_Clean ''skills/a.md''"
    by code_simp+
  then have "file_at full_disk ''skills/a.md'' = Some ''text''" "fault_at full_disk 4 = None"
    by (simp_all add: full_disk_def sample_disk_def file_at_def fault_at_def)
  then show ?thesis
    using move_keeps_a_copy [of full_disk "''skills/a.md''" "''text''" 0 "\<lambda>_. True" "''skills/b.md''"] paths(2) by (simp add: Let_def)
qed

text \<open>
  When both writes fail, the only copy is what the first of them wrote, and the row of the decision is deleted although
  the file was moved: no entry of the log names the file, so it cannot be rolled back.
\<close>

lemma both_writes_fail:
  assumes "file_at d src = Some c" and "path_Clean (deprecated_path src now) \<noteq> path_Clean src"
    and "d_faults d = [None, None, None, Some (Fault e1 (Some 0)), Some (Fault e2 None)]"
  shows "file_at (snd (run (moveToDeprecated isp src m now) d)) src = None"
    and "file_at (snd (run (moveToDeprecated isp src m now) d)) (deprecated_path src now) = Some []"
  using assms
  by (simp_all add: moveToDeprecated_def calls run_pbind run_faulty_any Let_def fault_at_def step_over_def set_file_def file_at_def)

end
