(* ===== verification/Frontmatter.thy ===== *)
theory Frontmatter
  imports Decisions GitLog
begin

text \<open>
  Markdown files with a YAML header: their parsers (\<open>ingest_memory.go\<close>, \<open>cmd_reindex.go\<close>,
  \<open>cmd_validate_skill.go\<close>) and the command that records a decision and writes such a file
  (\<open>cmd_record_decision.go\<close>).  Decoding and encoding YAML are parameters.
\<close>

section \<open>Header and body\<close>

text \<open>
  The text between the delimiters and the text after them, without the line break after the second one.  The copies
  of this code differ in the message for a missing second delimiter.
\<close>

definition split_frontmatter :: "string \<Rightarrow> string \<Rightarrow> string + string \<times> string" where
  "split_frontmatter closing text =
     (if \<not> HasPrefix text ''---'' then Inl (''missing frontmatter: file does not start with '' @ [CHR 0x27] @ ''---'' @ [CHR 0x27])
      else
        (let rest = drop 3 text in
         if \<not> HasPrefix rest eol then Inl ''missing frontmatter: opening delimiter not followed by newline''
         else
           (let rest1 = drop 1 rest in
            case Index rest1 (eol @ ''---'') of
              None \<Rightarrow> Inl (''missing frontmatter: closing '' @ [CHR 0x27] @ ''---'' @ [CHR 0x27] @ closing)
            | Some closeIdx \<Rightarrow> Inr (take closeIdx rest1, TrimPrefix (drop (closeIdx + 4) rest1) eol))))"

definition new_error :: "string \<Rightarrow> goerror" where
  "new_error t = Opaque ''*errors.errorString'' t"

text \<open>The header as a map of its keys.\<close>

type_synonym yaml_map = "(string \<times> goany) list"

definition yaml_error :: "goerror \<Rightarrow> goerror" where
  "yaml_error e = Wrapf ''invalid YAML frontmatter: '' e"

definition splitFrontmatterRaw :: "(string \<Rightarrow> goerror + yaml_map) \<Rightarrow> string \<Rightarrow> goerror + yaml_map \<times> string" where
  "splitFrontmatterRaw unmarshal raw =
     (case split_frontmatter '' not found'' raw of
        Inl msg \<Rightarrow> Inl (new_error msg)
      | Inr (yamlBlock, body) \<Rightarrow>
          (case unmarshal yamlBlock of Inl e \<Rightarrow> Inl (yaml_error e) | Inr m \<Rightarrow> Inr (m, body)))"

definition marshalFrontmatterMap :: "(yaml_map \<Rightarrow> goerror + string) \<Rightarrow> yaml_map \<Rightarrow> goerror + string" where
  "marshalFrontmatterMap marshal m =
     (case marshal m of Inl e \<Rightarrow> Inl e | Inr body \<Rightarrow> Inr (''---'' @ eol @ body @ ''---'' @ eol))"

section \<open>Validating a skill\<close>

definition requiredFrontmatterFields :: "string list" where
  "requiredFrontmatterFields = [''name'', ''description'', ''learning_provenance'', ''created_at'', ''last_reviewed_at'']"

definition parseFrontmatterOnly :: "(string \<Rightarrow> goerror + yaml_map) \<Rightarrow> string \<Rightarrow> goerror + yaml_map" where
  "parseFrontmatterOnly unmarshal raw =
     (case split_frontmatter '' not found'' raw of
        Inl msg \<Rightarrow> Inl (new_error msg)
      | Inr (yamlBlock, body) \<Rightarrow>
          (case unmarshal yamlBlock of Inl e \<Rightarrow> Inl (yaml_error e) | Inr m \<Rightarrow> Inr m))"

fun isEmptyFrontmatterValue :: "goany \<Rightarrow> bool" where
  "isEmptyFrontmatterValue ANil = True"
| "isEmptyFrontmatterValue (AString t) = (TrimSpace t = [])"
| "isEmptyFrontmatterValue (AList xs) = (xs = [])"
| "isEmptyFrontmatterValue (AMap kvs) = (kvs = [])"
| "isEmptyFrontmatterValue _ = False"

definition missing_fields :: "yaml_map \<Rightarrow> string list" where
  "missing_fields m =
     filter (\<lambda>field. case map_of m field of None \<Rightarrow> True | Some v \<Rightarrow> isEmptyFrontmatterValue v) requiredFrontmatterFields"

definition runValidateSkill :: "(nat \<Rightarrow> bool) \<Rightarrow> (string \<Rightarrow> goerror + yaml_map) \<Rightarrow> string \<Rightarrow> lerror option action" where
  "runValidateSkill isp unmarshal path =
     (if path = [] then Return (Some (usagef ''validate-skill: path is required''))
      else
        pbind (os_ReadFile' path) (\<lambda>rd.
          Return
            (case rd of
               Inl readErr \<Rightarrow> Some (runtimef_w (''validate-skill: read '' @ strconv_Quote isp path) (OtherErr (fe_err readErr)))
             | Inr raw \<Rightarrow>
                 (case parseFrontmatterOnly unmarshal raw of
                    Inl parseErr \<Rightarrow> Some (usagef_w (''validate-skill: '' @ path) (OtherErr parseErr))
                  | Inr m \<Rightarrow>
                      if missing_fields m \<noteq> [] then
                        Some (usagef (''validate-skill: '' @ path @ '': missing required frontmatter field(s): '' @ Join (missing_fields m) '', ''))
                      else None))))"

section \<open>Memory entries\<close>

definition wikilinkRe :: re where
  "wikilinkRe = seqs [lit ''[['', Grp 1 (Seq (Cls (\<lambda>c. lower c \<or> digit c)) (Star (Cls (\<lambda>c. lower c \<or> digit c \<or> c = CHR ''-'')))), lit '']]'']"

text \<open>\<open>FindAllStringSubmatch\<close> for an expression without empty matches: the first group of every match.\<close>

function find_all :: "re \<Rightarrow> char option \<Rightarrow> string \<Rightarrow> string list" where
  "find_all r pv s =
     (case s of
        [] \<Rightarrow> []
      | c # cs \<Rightarrow>
          (case ms r (pv, s, []) of
             [] \<Rightarrow> find_all r (Some c) cs
           | (q, t, caps) # _ \<Rightarrow>
               if length t < length s then submatch 1 ([], caps) # find_all r q t else find_all r (Some c) cs))"
  by pat_completeness auto
termination
  by (relation "measure (\<lambda>(r, pv, s). length s)") auto

declare find_all.simps [simp del]

definition extractWikilinks :: "string \<Rightarrow> string list" where
  "extractWikilinks body = find_all wikilinkRe None body"

record memoryFrontmatter =
  mf_Name :: string
  mf_Description :: string
  mf_Type :: string

record memoryRecord =
  me_Source :: string
  me_Kind :: string
  me_Tokens :: "string list"
  me_SeenAt :: time
  me_Body :: string
  me_Frontmatter :: memoryFrontmatter
  me_BrokenLinks :: "string list"

definition extractMemoryFrontmatter :: "(string \<Rightarrow> goerror + memoryFrontmatter) \<Rightarrow> string \<Rightarrow> goerror + memoryFrontmatter \<times> string" where
  "extractMemoryFrontmatter yaml raw =
     (case split_frontmatter '' delimiter not found'' raw of
        Inl msg \<Rightarrow> Inl (new_error msg)
      | Inr (yamlBlock, body) \<Rightarrow>
          (case yaml yamlBlock of
             Inl e \<Rightarrow> Inl (Wrapf ''invalid YAML frontmatter (line/column from yaml): '' e)
           | Inr fm \<Rightarrow> Inr (fm, body)))"

text \<open>A file that is there; errors count as absence.\<close>

definition fileExists :: "string \<Rightarrow> bool action" where
  "fileExists p = pbind (os_Stat p) (\<lambda>st. Return (st = None))"

definition under_root :: "string \<Rightarrow> string \<Rightarrow> bool action" where
  "under_root dir target =
     pbind (fileExists (path_Join dir (target @ ''.md''))) (\<lambda>there.
       if there then Return True else fileExists (path_Join (path_Join dir target) ''SKILL.md''))"

fun under_any :: "string list \<Rightarrow> string \<Rightarrow> bool action" where
  "under_any [] target = Return False"
| "under_any (dir # roots) target =
     pbind (under_root dir target) (\<lambda>there. if there then Return True else under_any roots target)"

fun broken_links :: "string list \<Rightarrow> string list \<Rightarrow> string list action" where
  "broken_links roots [] = Return []"
| "broken_links roots (t # ts) =
     pbind (under_any roots t) (\<lambda>there. pbind (broken_links roots ts) (\<lambda>rest. Return (if there then t # rest else rest)))"

text \<open>The targets without repetitions, in the order of their first occurrence.\<close>

definition first_occurrences :: "string list \<Rightarrow> string list" where
  "first_occurrences xs = rev (remdups (rev xs))"

definition auditBrokenLinks :: "string list \<Rightarrow> string list \<Rightarrow> string list action" where
  "auditBrokenLinks targets roots =
     (if targets = [] \<or> roots = [] then Return [] else broken_links roots (first_occurrences targets))"

text \<open>\<open>mtime\<close> gives the time of the last change of a file.\<close>

definition parseMemoryFile ::
  "(nat \<Rightarrow> bool) \<Rightarrow> (string \<Rightarrow> goerror + memoryFrontmatter) \<Rightarrow> (string \<Rightarrow> time) \<Rightarrow> goerror option \<Rightarrow> string \<Rightarrow> string list
    \<Rightarrow> (string \<Rightarrow> string) option \<Rightarrow> (lerror + memoryRecord) action" where
  "parseMemoryFile isp yaml mtime ctx path deprecatedRoots osan =
     (case osan of
        None \<Rightarrow> Return (Inl (usagef ''parseMemoryFile: sanitizer is nil (REQ-4 violation)''))
      | Some san \<Rightarrow>
          (case ctx of
             Some ctxErr \<Rightarrow> Return (Inl (runtimef_w ''parseMemoryFile'' (OtherErr ctxErr)))
           | None \<Rightarrow>
               pbind (os_ReadFile' path) (\<lambda>rd.
               case rd of
                 Inl readErr \<Rightarrow> Return (Inl (runtimef_w (''parseMemoryFile: read '' @ strconv_Quote isp path) (OtherErr (fe_err readErr))))
               | Inr raw \<Rightarrow>
                   pbind (os_Stat path) (\<lambda>st.
                   case st of
                     Some statErr \<Rightarrow> Return (Inl (runtimef_w (''parseMemoryFile: stat '' @ strconv_Quote isp path) (OtherErr (fe_err statErr))))
                   | None \<Rightarrow>
                       (case extractMemoryFrontmatter yaml raw of
                          Inl splitErr \<Rightarrow> Return (Inl (usagef_w (''parseMemoryFile: '' @ path) (OtherErr splitErr)))
                        | Inr (fm, body) \<Rightarrow>
                            (let wikilinks = extractWikilinks body;
                                 tokens = (if mf_Name fm \<noteq> [] then [mf_Name fm] else [])
                                   @ (if mf_Type fm \<noteq> [] then [mf_Type fm] else []) @ wikilinks
                             in pbind (auditBrokenLinks wikilinks deprecatedRoots) (\<lambda>broken.
                                Return (Inr
                                  \<lparr>me_Source = path, me_Kind = ''memory-entry'', me_Tokens = map san tokens, me_SeenAt = mtime path,
                                   me_Body = san (TrimPrefix body eol), me_Frontmatter = fm, me_BrokenLinks = broken\<rparr>))))))))"

end
