(* ===== verification/LearnConfig.thy ===== *)
theory LearnConfig
  imports LearnDisk GitLog Patterns
begin

text \<open>
  The configuration of the learning loop (\<open>tools/learn/config.go\<close>): defaults, a YAML file over them, the environment
  over both, and the ranges.  YAML, the parser of floats and their printing are parameters.
\<close>

section \<open>Values\<close>

text \<open>A float of the configuration, with the values that no binary64 number has.\<close>

datatype gofloat = NaN | Infinite bool | Num float64

definition float_below_zero :: "gofloat \<Rightarrow> bool" where
  "float_below_zero x = (case x of NaN \<Rightarrow> False | Infinite neg \<Rightarrow> neg | Num f \<Rightarrow> f64_value f < 0)"

definition float_above_one :: "gofloat \<Rightarrow> bool" where
  "float_above_one x = (case x of NaN \<Rightarrow> False | Infinite neg \<Rightarrow> \<not> neg | Num f \<Rightarrow> f64_value f > 1)"

record loopConfig =
  lc_MinPatternFreq :: gint
  lc_SimilarityThreshold :: gofloat
  lc_NudgeThreshold :: gint
  lc_TTLDays :: gint
  lc_RecallMinScore :: gofloat
  lc_MinPromptLenForRecall :: gint
  lc_RecallTopK :: gint
  lc_RecallMaxTokens :: gint
  lc_RecallTimeoutSeconds :: gint
  lc_LLMModel :: string
  lc_SecretPatterns :: "secretPattern list"

definition defaultSecretPatterns :: "secretPattern list" where
  "defaultSecretPatterns =
     [\<lparr>se_Kind = ''aws_key'', se_Pattern = ''AKIA[0-9A-Z]{16}''\<rparr>,
      \<lparr>se_Kind = ''token'', se_Pattern = ''sk-(ant|proj)?-?[A-Za-z0-9_-]{20,}''\<rparr>,
      \<lparr>se_Kind = ''token'', se_Pattern = ''ghp_[A-Za-z0-9]{36}''\<rparr>,
      \<lparr>se_Kind = ''token'', se_Pattern = ''github_pat_[A-Za-z0-9_]{82}''\<rparr>,
      \<lparr>se_Kind = ''token'', se_Pattern = ''xox[abprs]-[A-Za-z0-9-]+''\<rparr>,
      \<lparr>se_Kind = ''ssh_path'', se_Pattern = ''/'' @ [bs] @ ''.ssh/[A-Za-z0-9_.-]+''\<rparr>,
      \<lparr>se_Kind = ''env_value'', se_Pattern = ''^[A-Z][A-Z0-9_]*=.+$''\<rparr>]"

definition defaultLoopConfig :: loopConfig where
  "defaultLoopConfig =
     \<lparr>lc_MinPatternFreq = 3, lc_SimilarityThreshold = Num (f64_ratio 6 10), lc_NudgeThreshold = 5, lc_TTLDays = 90,
      lc_RecallMinScore = Num (f64_ratio 4 10), lc_MinPromptLenForRecall = 20, lc_RecallTopK = 3, lc_RecallMaxTokens = 500,
      lc_RecallTimeoutSeconds = 2, lc_LLMModel = [], lc_SecretPatterns = defaultSecretPatterns\<rparr>"

section \<open>Environment\<close>

text \<open>What the configuration takes from libraries: YAML into a configuration and into patterns, and \<open>strconv.ParseFloat\<close>.\<close>

record config_libs =
  yaml_config :: "string \<Rightarrow> loopConfig \<Rightarrow> goerror + loopConfig"
  yaml_patterns :: "string \<Rightarrow> goerror + secretPattern list"
  parse_float :: "string \<Rightarrow> gofloat option"
  print_float :: "gofloat \<Rightarrow> string"

definition config_error :: "string \<Rightarrow> lerror" where
  "config_error t = OtherErr (Opaque ''*errors.errorString'' (''config validation: '' @ t))"

definition int_overrides :: "(string \<times> (gint \<Rightarrow> loopConfig \<Rightarrow> loopConfig)) list" where
  "int_overrides =
     [(''LEARN_MIN_PATTERN_FREQ'', \<lambda>v c. c\<lparr>lc_MinPatternFreq := v\<rparr>),
      (''LEARN_NUDGE_THRESHOLD'', \<lambda>v c. c\<lparr>lc_NudgeThreshold := v\<rparr>),
      (''LEARN_TTL_DAYS'', \<lambda>v c. c\<lparr>lc_TTLDays := v\<rparr>),
      (''LEARN_MIN_PROMPT_LEN_FOR_RECALL'', \<lambda>v c. c\<lparr>lc_MinPromptLenForRecall := v\<rparr>),
      (''LEARN_RECALL_TOP_K'', \<lambda>v c. c\<lparr>lc_RecallTopK := v\<rparr>),
      (''LEARN_RECALL_MAX_TOKENS'', \<lambda>v c. c\<lparr>lc_RecallMaxTokens := v\<rparr>),
      (''LEARN_RECALL_TIMEOUT_SECONDS'', \<lambda>v c. c\<lparr>lc_RecallTimeoutSeconds := v\<rparr>)]"

definition float_overrides :: "(string \<times> (gofloat \<Rightarrow> loopConfig \<Rightarrow> loopConfig)) list" where
  "float_overrides =
     [(''LEARN_SIMILARITY_THRESHOLD'', \<lambda>v c. c\<lparr>lc_SimilarityThreshold := v\<rparr>),
      (''LEARN_RECALL_MIN_SCORE'', \<lambda>v c. c\<lparr>lc_RecallMinScore := v\<rparr>)]"

text \<open>The overrides of one kind: \<open>parse\<close> reads a value, \<open>kind\<close> names it in the error.\<close>

fun override ::
  "(nat \<Rightarrow> bool) \<Rightarrow> (string \<Rightarrow> string option) \<Rightarrow> string \<Rightarrow> (string \<Rightarrow> 'v option) \<Rightarrow> (string \<times> ('v \<Rightarrow> loopConfig \<Rightarrow> loopConfig)) list
    \<Rightarrow> loopConfig \<Rightarrow> lerror + loopConfig" where
  "override isp env kind parse [] cfg = Inr cfg"
| "override isp env kind parse ((name, assign) # rest) cfg =
     (case env name of
        None \<Rightarrow> override isp env kind parse rest cfg
      | Some raw \<Rightarrow>
          (case parse raw of
             None \<Rightarrow> Inl (config_error (''env '' @ name @ '': invalid '' @ kind @ '' '' @ strconv_Quote isp raw))
           | Some v \<Rightarrow> override isp env kind parse rest (assign v cfg)))"

definition applyEnvOverrides ::
  "(nat \<Rightarrow> bool) \<Rightarrow> config_libs \<Rightarrow> (string \<Rightarrow> string option) \<Rightarrow> loopConfig \<Rightarrow> lerror + loopConfig" where
  "applyEnvOverrides isp libs env cfg =
     (case override isp env ''integer'' Atoi int_overrides cfg of
        Inl e \<Rightarrow> Inl e
      | Inr cfg1 \<Rightarrow>
          (case override isp env ''float'' (parse_float libs) float_overrides cfg1 of
             Inl e \<Rightarrow> Inl e
           | Inr cfg2 \<Rightarrow>
               (let cfg3 = (case env ''LEARN_LLM_MODEL'' of Some v \<Rightarrow> cfg2\<lparr>lc_LLMModel := v\<rparr> | None \<Rightarrow> cfg2) in
                case env ''LEARN_SECRET_PATTERNS'' of
                  None \<Rightarrow> Inr cfg3
                | Some raw \<Rightarrow>
                    (case yaml_patterns libs raw of
                       Inl e \<Rightarrow> Inl (WrapErr ''config validation: env LEARN_SECRET_PATTERNS: '' (OtherErr e))
                     | Inr patterns \<Rightarrow> Inr (cfg3\<lparr>lc_SecretPatterns := patterns\<rparr>)))))"

section \<open>Ranges\<close>

definition int_checks :: "loopConfig \<Rightarrow> (string \<times> gint) list" where
  "int_checks cfg =
     [(''min_pattern_freq'', lc_MinPatternFreq cfg), (''nudge_threshold'', lc_NudgeThreshold cfg), (''ttl_days'', lc_TTLDays cfg),
      (''min_prompt_len_for_recall'', lc_MinPromptLenForRecall cfg), (''recall_top_k'', lc_RecallTopK cfg),
      (''recall_max_tokens'', lc_RecallMaxTokens cfg), (''recall_timeout_seconds'', lc_RecallTimeoutSeconds cfg)]"

definition float_checks :: "loopConfig \<Rightarrow> (string \<times> gofloat) list" where
  "float_checks cfg =
     [(''similarity_threshold'', lc_SimilarityThreshold cfg), (''recall_min_score'', lc_RecallMinScore cfg)]"

fun check_ints :: "(string \<times> gint) list \<Rightarrow> lerror option" where
  "check_ints [] = None"
| "check_ints ((name, val) # rest) =
     (if val <s 1 then Some (config_error (''field '' @ name @ '': value '' @ int_text (sint val) @ '' below minimum 1''))
      else check_ints rest)"

fun check_floats :: "(gofloat \<Rightarrow> string) \<Rightarrow> (string \<times> gofloat) list \<Rightarrow> lerror option" where
  "check_floats pr [] = None"
| "check_floats pr ((name, val) # rest) =
     (if float_below_zero val then Some (config_error (''field '' @ name @ '': value '' @ pr val @ '' below minimum 0''))
      else if float_above_one val then Some (config_error (''field '' @ name @ '': value '' @ pr val @ '' above maximum 1''))
      else check_floats pr rest)"

definition validate_config :: "config_libs \<Rightarrow> loopConfig \<Rightarrow> lerror option" where
  "validate_config libs cfg =
     (case check_ints (int_checks cfg) of
        Some e \<Rightarrow> Some e
      | None \<Rightarrow> check_floats (print_float libs) (float_checks cfg))"

section \<open>Loading\<close>

text \<open>The rest of \<open>loadConfig\<close> after the file.\<close>

definition finish_config :: "(nat \<Rightarrow> bool) \<Rightarrow> config_libs \<Rightarrow> (string \<Rightarrow> string option) \<Rightarrow> loopConfig \<Rightarrow> lerror + loopConfig" where
  "finish_config isp libs env cfg =
     (case applyEnvOverrides isp libs env cfg of
        Inl envErr \<Rightarrow> Inl envErr
      | Inr cfg1 \<Rightarrow> (case validate_config libs cfg1 of Some validateErr \<Rightarrow> Inl validateErr | None \<Rightarrow> Inr cfg1))"

definition loadConfig :: "(nat \<Rightarrow> bool) \<Rightarrow> config_libs \<Rightarrow> (string \<Rightarrow> string option) \<Rightarrow> string \<Rightarrow> (lerror + loopConfig) action" where
  "loadConfig isp libs env path =
     (if path = [] then Return (finish_config isp libs env defaultLoopConfig)
      else
        pbind (os_ReadFile' path) (\<lambda>rd.
          Return
            (case rd of
               Inr content \<Rightarrow>
                 (case yaml_config libs content defaultLoopConfig of
                    Inl unmarshalErr \<Rightarrow> Inl (WrapErr (''config parse '' @ path @ '': '') (OtherErr unmarshalErr))
                  | Inr cfg \<Rightarrow> finish_config isp libs env cfg)
             | Inl (NotExist _) \<Rightarrow> finish_config isp libs env defaultLoopConfig
             | Inl (OtherIO readErr) \<Rightarrow> Inl (WrapErr (''config read '' @ path @ '': '') (OtherErr readErr)))))"

section \<open>Correctness\<close>

definition in_ranges :: "loopConfig \<Rightarrow> bool" where
  "in_ranges cfg \<longleftrightarrow> (\<forall>(n, v) \<in> set (int_checks cfg). 1 \<le> sint v) \<and>
     (\<forall>(n, v) \<in> set (float_checks cfg). \<not> float_below_zero v \<and> \<not> float_above_one v)"

lemma check_ints_None: "check_ints vs = None \<longleftrightarrow> (\<forall>(n, v) \<in> set vs. 1 \<le> sint v)"
  by (induction vs rule: check_ints.induct) (auto simp: word_sless_alt)

lemma check_floats_None: "check_floats pr vs = None \<longleftrightarrow> (\<forall>(n, v) \<in> set vs. \<not> float_below_zero v \<and> \<not> float_above_one v)"
  by (induction pr vs rule: check_floats.induct) auto

lemma validate_config_iff: "validate_config libs cfg = None \<longleftrightarrow> in_ranges cfg"
  using check_ints_None [of "int_checks cfg"] check_floats_None [of "print_float libs" "float_checks cfg"]
  by (auto simp: validate_config_def in_ranges_def split: option.splits)

text \<open>A configuration that is loaded is within its ranges, wherever its values come from.\<close>

lemma loadConfig_in_ranges: "fst (run (loadConfig isp libs env path) d) = Inr cfg \<Longrightarrow> in_ranges cfg"
proof -
  have "finish_config isp libs env c = Inr cfg \<Longrightarrow> in_ranges cfg" for c
    using validate_config_iff by (auto simp: finish_config_def split: sum.splits option.splits)
  then show "fst (run (loadConfig isp libs env path) d) = Inr cfg \<Longrightarrow> in_ranges cfg"
    by (auto simp: loadConfig_def run_pbind split: if_splits sum.splits ferror.splits)
qed

text \<open>A value that is no number passes both comparisons of the check.\<close>

lemma nan_accepted: "validate_config libs (defaultLoopConfig\<lparr>lc_RecallMinScore := NaN\<rparr>) = None"
proof -
  have "in_ranges (defaultLoopConfig\<lparr>lc_RecallMinScore := NaN\<rparr>)" by code_simp
  then show ?thesis by (simp add: validate_config_iff)
qed

end
