(* ===== verification/LearnStore.thy ===== *)
theory LearnStore
  imports LearnConfig ByteOrder
begin

text \<open>
  The typed statements of the store (\<open>tools/learn/store.go\<close>) and the commands over them: counting uses
  (\<open>cmd_track_use.go\<close>), completing a task (\<open>cmd_complete_task.go\<close>), the nudge (\<open>cmd_nudge_tick.go\<close>) and the
  initialization (\<open>cmd_init.go\<close>).
\<close>

section \<open>Statements\<close>

text \<open>\<open>fmt.Errorf\<close> around the error of a statement.\<close>

definition stmt :: "string \<Rightarrow> (disk \<Rightarrow> goerror + 'r \<times> disk) \<Rightarrow> (lerror + 'r) action" where
  "stmt what f = pbind (sql f) (\<lambda>r. Return (map_sum (\<lambda>e. WrapErr (what @ '': '') (OtherErr e)) id r))"

definition InsertEvent :: "storeEvent \<Rightarrow> (lerror + unit) action" where
  "InsertEvent ev = stmt ''insert event'' (\<lambda>d. Inr ((), d\<lparr>d_events := d_events d @ [ev]\<rparr>))"

definition IncrementNudgeCounter :: "(lerror + int) action" where
  "IncrementNudgeCounter = stmt ''increment nudge counter'' (\<lambda>d. Inr (d_counter d + 1, d\<lparr>d_counter := d_counter d + 1\<rparr>))"

definition GetNudgeCounter :: "(lerror + int) action" where
  "GetNudgeCounter = stmt ''get nudge counter'' (\<lambda>d. Inr (d_counter d, d))"

text \<open>\<open>millis\<close> is the clock of SQLite, printed with milliseconds.\<close>

definition ResetNudgeCounter :: "string \<Rightarrow> (lerror + unit) action" where
  "ResetNudgeCounter millis =
     stmt ''reset nudge counter'' (\<lambda>d. Inr ((), d\<lparr>d_counter := 0, d_last_nudge := Some millis\<rparr>))"

definition MarkNudgeRun :: "string \<Rightarrow> (lerror + unit) action" where
  "MarkNudgeRun nowRFC3339 =
     stmt ''mark nudge run'' (\<lambda>d. Inr ((), d\<lparr>d_counter := 0, d_last_nudge := Some nowRFC3339\<rparr>))"

section \<open>Indexes and their uses\<close>

fun put_row :: "index_row \<Rightarrow> index_row list \<Rightarrow> index_row list" where
  "put_row e [] = [e]"
| "put_row e (r # rs) = (if ix_path r = ix_path e then e # rs else r # put_row e rs)"

definition UpsertSkillIndex :: "(nat \<Rightarrow> bool) \<Rightarrow> index_row \<Rightarrow> (lerror + unit) action" where
  "UpsertSkillIndex isp e =
     stmt (''upsert skill_index '' @ strconv_Quote isp (ix_path e)) (\<lambda>d. Inr ((), d\<lparr>d_skills := put_row e (d_skills d)\<rparr>))"

definition UpsertMemoryIndex :: "(nat \<Rightarrow> bool) \<Rightarrow> index_row \<Rightarrow> (lerror + unit) action" where
  "UpsertMemoryIndex isp e =
     stmt (''upsert memory_index '' @ strconv_Quote isp (ix_path e))
       (\<lambda>d. Inr ((), d\<lparr>d_memories := put_row (e\<lparr>ix_tags := []\<rparr>) (d_memories d)\<rparr>))"

text \<open>A row that a use refers to cannot be deleted: the foreign keys are enforced.\<close>

definition foreign_key_failed :: goerror where
  "foreign_key_failed = Opaque ''*sqlite.Error'' ''constraint failed: FOREIGN KEY constraint failed''"

definition delete_row :: "string \<Rightarrow> usage_row list \<Rightarrow> index_row list \<Rightarrow> goerror + index_row list" where
  "delete_row p uses rows =
     (if p \<in> ix_path ` set rows \<and> p \<in> us_path ` set uses then Inl foreign_key_failed
      else Inr (filter (\<lambda>r. ix_path r \<noteq> p) rows))"

definition DeleteOrphanSkill :: "(nat \<Rightarrow> bool) \<Rightarrow> string \<Rightarrow> (lerror + unit) action" where
  "DeleteOrphanSkill isp p =
     stmt (''delete orphan skill '' @ strconv_Quote isp p)
       (\<lambda>d. case delete_row p (d_skill_usage d) (d_skills d) of Inl e \<Rightarrow> Inl e | Inr rows \<Rightarrow> Inr ((), d\<lparr>d_skills := rows\<rparr>))"

definition DeleteOrphanMemory :: "(nat \<Rightarrow> bool) \<Rightarrow> string \<Rightarrow> (lerror + unit) action" where
  "DeleteOrphanMemory isp p =
     stmt (''delete orphan memory '' @ strconv_Quote isp p)
       (\<lambda>d. case delete_row p (d_memory_usage d) (d_memories d) of Inl e \<Rightarrow> Inl e | Inr rows \<Rightarrow> Inr ((), d\<lparr>d_memories := rows\<rparr>))"

fun bump_use :: "string \<Rightarrow> string \<Rightarrow> usage_row list \<Rightarrow> usage_row list" where
  "bump_use p ts [] = [\<lparr>us_path = p, us_count = 1, us_last_used = Some ts\<rparr>]"
| "bump_use p ts (u # us) =
     (if us_path u = p then u\<lparr>us_count := us_count u + 1, us_last_used := Some ts\<rparr> # us else u # bump_use p ts us)"

definition IncrementSkillUsage :: "(nat \<Rightarrow> bool) \<Rightarrow> string \<Rightarrow> string \<Rightarrow> (lerror + bool) action" where
  "IncrementSkillUsage isp p ts =
     stmt (''increment skill_usage '' @ strconv_Quote isp p)
       (\<lambda>d. if p \<in> ix_path ` set (d_skills d) then Inr (True, d\<lparr>d_skill_usage := bump_use p ts (d_skill_usage d)\<rparr>) else Inr (False, d))"

definition IncrementMemoryUsage :: "(nat \<Rightarrow> bool) \<Rightarrow> string \<Rightarrow> string \<Rightarrow> (lerror + bool) action" where
  "IncrementMemoryUsage isp p ts =
     stmt (''increment memory_usage '' @ strconv_Quote isp p)
       (\<lambda>d. if p \<in> ix_path ` set (d_memories d) then Inr (True, d\<lparr>d_memory_usage := bump_use p ts (d_memory_usage d)\<rparr>) else Inr (False, d))"

section \<open>Deprecation candidates\<close>

record deprecationCandidate =
  dc_Kind :: string
  dc_Path :: string
  dc_IndexedAt :: string
  dc_LastUsedAt :: "string option"
  dc_UsageCount :: int

text \<open>The rows of one index that are old and not used lately, joined with their uses; times are compared as text.\<close>

definition stale_rows :: "string \<Rightarrow> string \<Rightarrow> string \<Rightarrow> index_row list \<Rightarrow> usage_row list \<Rightarrow> deprecationCandidate list" where
  "stale_rows kind created used rows uses =
     List.map_filter (\<lambda>r.
       (let u = find (\<lambda>u. us_path u = ix_path r) uses; last_used = Option.bind u us_last_used in
        if bytes (ix_indexed_at r) \<le> bytes created \<and> (case last_used of None \<Rightarrow> True | Some t \<Rightarrow> bytes t \<le> bytes used)
        then Some \<lparr>dc_Kind = kind, dc_Path = ix_path r, dc_IndexedAt = ix_indexed_at r, dc_LastUsedAt = last_used,
                   dc_UsageCount = (case u of None \<Rightarrow> 0 | Some u \<Rightarrow> us_count u)\<rparr>
        else None)) rows"

definition day :: int where "day = 86400 * 10 ^ 9"

definition ListDeprecationCandidates ::
  "(nat \<Rightarrow> bool) \<Rightarrow> (string \<Rightarrow> goerror + time) \<Rightarrow> string \<Rightarrow> gint \<Rightarrow> (lerror + deprecationCandidate list) action" where
  "ListDeprecationCandidates isp parse nowRFC3339 ttlDays =
     (case parse nowRFC3339 of
        Inl parseErr \<Rightarrow> Return (Inl (WrapErr (''list deprecation candidates: parse now '' @ strconv_Quote isp nowRFC3339 @ '': '') (OtherErr parseErr)))
      | Inr now \<Rightarrow>
          (let createdThresh = Format_RFC3339 (now + sint (- 2 * ttlDays) * day);
               usedThresh = Format_RFC3339 (now + sint (- ttlDays) * day)
           in stmt ''list deprecation candidates'' (\<lambda>d. Inr
                (sort_key (\<lambda>c. (bytes (dc_Kind c), bytes (dc_Path c)))
                   (stale_rows ''skill'' createdThresh usedThresh (d_skills d) (d_skill_usage d)
                    @ stale_rows ''memory'' createdThresh usedThresh (d_memories d) (d_memory_usage d)), d))))"

section \<open>Counting uses\<close>

definition splitPaths :: "string \<Rightarrow> string list" where
  "splitPaths arg = (if arg = [] then [] else filter (\<lambda>t. t \<noteq> []) (map TrimSpace (Split arg CHR '','')))"

text \<open>The loop over the paths; the warning for an unknown path is a log line.\<close>

fun track_paths :: "(nat \<Rightarrow> bool) \<Rightarrow> (string \<Rightarrow> string) \<Rightarrow> string \<Rightarrow> string list \<Rightarrow> lerror option action" where
  "track_paths isp warning ts [] = Return None"
| "track_paths isp warning ts (p # ps) =
     pbind (IncrementSkillUsage isp p ts) (\<lambda>r1.
     case r1 of
       Inl bumpErr \<Rightarrow> Return (Some (runtimef_w (''track-use: increment skill_usage '' @ strconv_Quote isp p) bumpErr))
     | Inr True \<Rightarrow> track_paths isp warning ts ps
     | Inr False \<Rightarrow>
         pbind (IncrementMemoryUsage isp p ts) (\<lambda>r2.
         case r2 of
           Inl bumpErr \<Rightarrow> Return (Some (runtimef_w (''track-use: increment memory_usage '' @ strconv_Quote isp p) bumpErr))
         | Inr True \<Rightarrow> track_paths isp warning ts ps
         | Inr False \<Rightarrow> pbind (print (warning p)) (\<lambda>_. track_paths isp warning ts ps)))"

definition runTrackUse :: "(nat \<Rightarrow> bool) \<Rightarrow> (string \<Rightarrow> string) \<Rightarrow> time \<Rightarrow> string \<Rightarrow> string list \<Rightarrow> lerror option action" where
  "runTrackUse isp warning now dbPath paths =
     (if dbPath = [] then Return (Some (usagef ''track-use: --db-path must be non-empty''))
      else if paths = [] then Return None
      else
        pbind (openStore isp dbPath) (\<lambda>op.
        case op of
          Some openErr \<Rightarrow> Return (Some (runtimef_w ''track-use: open store'' openErr))
        | None \<Rightarrow> track_paths isp warning (Format_RFC3339 now) paths))"

section \<open>Completing a task\<close>

record completeOpts =
  co_LearningDir :: string
  co_DBPath :: string
  co_ConfigPath :: string
  co_SpecPath :: string
  co_SessionID :: string
  co_CommitSHA :: string
  co_TasksCount :: gint
  co_Config :: "loopConfig option"

text \<open>A configuration that is given, or the one of a file.\<close>

definition config_or_load ::
  "(nat \<Rightarrow> bool) \<Rightarrow> config_libs \<Rightarrow> (string \<Rightarrow> string option) \<Rightarrow> loopConfig option \<Rightarrow> string \<Rightarrow> (lerror + loopConfig) action" where
  "config_or_load isp libs env given path =
     (case given of Some cfg \<Rightarrow> Return (Inr cfg) | None \<Rightarrow> loadConfig isp libs env path)"

definition record_completion :: "(nat \<Rightarrow> bool) \<Rightarrow> time \<Rightarrow> completeOpts \<Rightarrow> loopConfig \<Rightarrow> lerror option action" where
  "record_completion isp now opts cfg =
     pbind (InsertEvent \<lparr>SpecPath = co_SpecPath opts, SessionID = co_SessionID opts, CompletedAt = Format_RFC3339 now,
              CommitSHA = co_CommitSHA opts, TasksCount = co_TasksCount opts, Outcome = ''success''\<rparr>) (\<lambda>ins.
     case ins of
       Inl insertErr \<Rightarrow> Return (Some (runtimef_w ''complete-task: insert event'' insertErr))
     | Inr _ \<Rightarrow>
         pbind IncrementNudgeCounter (\<lambda>inc.
         case inc of
           Inl incrementErr \<Rightarrow> Return (Some (runtimef_w ''complete-task: increment nudge counter'' incrementErr))
         | Inr newCounter \<Rightarrow>
             if newCounter \<ge> sint (lc_NudgeThreshold cfg) then
               pbind (print (''LEARN_NUDGE_DUE=true counter='' @ int_text newCounter @ eol)) (\<lambda>pr.
                 Return (map_option (\<lambda>e. runtimef_w ''complete-task: emit nudge signal'' (OtherErr e)) pr))
             else Return None))"

definition runCompleteTask ::
  "(nat \<Rightarrow> bool) \<Rightarrow> config_libs \<Rightarrow> (string \<Rightarrow> string option) \<Rightarrow> time \<Rightarrow> completeOpts \<Rightarrow> lerror option action" where
  "runCompleteTask isp libs env now opts =
     (if co_SpecPath opts = [] then Return (Some (usagef ''complete-task: spec path must be non-empty''))
      else if co_SessionID opts = [] then Return (Some (usagef ''complete-task: session id must be non-empty''))
      else
        (let configPath = (if co_ConfigPath opts = [] \<and> co_LearningDir opts \<noteq> [] then path_Join (co_LearningDir opts) ''config.yml''
                           else co_ConfigPath opts)
         in pbind (config_or_load isp libs env (co_Config opts) configPath) (\<lambda>ld.
            case ld of
              Inl loadErr \<Rightarrow> Return (Some (runtimef_w ''complete-task: load config'' loadErr))
            | Inr cfg \<Rightarrow>
                if co_DBPath opts = [] \<and> co_LearningDir opts = [] then
                  Return (Some (usagef ''complete-task: --db-path or --dir must be set''))
                else
                  (let dbPath = (if co_DBPath opts = [] then path_Join (co_LearningDir opts) ''db.sqlite'' else co_DBPath opts) in
                   pbind (openStore isp dbPath) (\<lambda>op.
                   case op of
                     Some openErr \<Rightarrow> Return (Some (runtimef_w ''complete-task: open store'' openErr))
                   | None \<Rightarrow> record_completion isp now opts cfg)))))"

section \<open>The nudge\<close>

record nudgeTickOpts =
  nt_DBPath :: string
  nt_ConfigPath :: string
  nt_Reset :: bool
  nt_TTLDays :: gint
  nt_Format :: string
  nt_Config :: "loopConfig option"

record nudgeTickReport =
  nr_CheckedAt :: string
  nr_TTLDays :: gint
  nr_Candidates :: "deprecationCandidate list"

text \<open>\<open>indented\<close> is the encoder of a report with its line breaks.\<close>

definition nudge_open ::
  "(nat \<Rightarrow> bool) \<Rightarrow> (string \<Rightarrow> goerror + time) \<Rightarrow> (nudgeTickReport \<Rightarrow> string) \<Rightarrow> time \<Rightarrow> nudgeTickOpts \<Rightarrow> gint \<Rightarrow> lerror option action" where
  "nudge_open isp parse indented now opts ttl =
     pbind (openStore isp (nt_DBPath opts)) (\<lambda>op.
     case op of
       Some openErr \<Rightarrow> Return (Some (runtimef_w ''nudge-tick: open store'' openErr))
     | None \<Rightarrow>
         if nt_Reset opts then
           pbind (MarkNudgeRun (Format_RFC3339 now)) (\<lambda>mk.
           case mk of
             Inl markErr \<Rightarrow> Return (Some (runtimef_w ''nudge-tick: mark nudge run'' markErr))
           | Inr _ \<Rightarrow>
               pbind (print (''{}'' @ eol)) (\<lambda>pr.
                 Return (map_option (\<lambda>e. runtimef_w ''nudge-tick: write stdout'' (OtherErr e)) pr)))
         else
           pbind (ListDeprecationCandidates isp parse (Format_RFC3339 now) ttl) (\<lambda>ls.
           case ls of
             Inl listErr \<Rightarrow> Return (Some (runtimef_w ''nudge-tick: list candidates'' listErr))
           | Inr rows \<Rightarrow>
               pbind (print (indented \<lparr>nr_CheckedAt = Format_RFC3339 now, nr_TTLDays = ttl, nr_Candidates = rows\<rparr>)) (\<lambda>pr.
                 Return (map_option (\<lambda>e. runtimef_w ''nudge-tick: encode json'' (OtherErr e)) pr))))"

definition runNudgeTick ::
  "(nat \<Rightarrow> bool) \<Rightarrow> config_libs \<Rightarrow> (string \<Rightarrow> string option) \<Rightarrow> (string \<Rightarrow> goerror + time) \<Rightarrow> (nudgeTickReport \<Rightarrow> string) \<Rightarrow> time
    \<Rightarrow> nudgeTickOpts \<Rightarrow> lerror option action" where
  "runNudgeTick isp libs env parse indented now opts =
     (if nt_DBPath opts = [] then Return (Some (usagef ''nudge-tick: --db-path must be non-empty''))
      else
        (let fmt = (if nt_Format opts = [] then ''json'' else nt_Format opts) in
         if fmt \<noteq> ''json'' then
           Return (Some (usagef (''nudge-tick: unsupported --format '' @ strconv_Quote isp fmt @ '' (only '' @ [CHR 0x27] @ ''json'' @ [CHR 0x27] @ '')'')))
         else
           pbind (config_or_load isp libs env (nt_Config opts) (nt_ConfigPath opts)) (\<lambda>ld.
           case ld of
             Inl loadErr \<Rightarrow> Return (Some (runtimef_w ''nudge-tick: load config'' loadErr))
           | Inr cfg \<Rightarrow>
               (let ttl = (if 0 <s nt_TTLDays opts then nt_TTLDays opts else lc_TTLDays cfg) in
                if ttl <s 1 then Return (Some (usagef (''nudge-tick: ttl_days must be >= 1, got '' @ int_text (sint ttl))))
                else nudge_open isp parse indented now opts ttl))))"

section \<open>Initialization\<close>

text \<open>\<open>yaml\<close> prints a configuration.\<close>

definition writeDefaultConfigIfAbsent :: "(nat \<Rightarrow> bool) \<Rightarrow> (loopConfig \<Rightarrow> goerror + string) \<Rightarrow> string \<Rightarrow> lerror option action" where
  "writeDefaultConfigIfAbsent isp yaml path =
     pbind (os_Stat path) (\<lambda>st.
     case st of
       None \<Rightarrow> Return None
     | Some (OtherIO statErr) \<Rightarrow> Return (Some (runtimef_w (''init: stat '' @ strconv_Quote isp path) (OtherErr statErr)))
     | Some (NotExist _) \<Rightarrow>
         (case yaml defaultLoopConfig of
            Inl marshalErr \<Rightarrow> Return (Some (runtimef_w ''init: marshal default config'' (OtherErr marshalErr)))
          | Inr body0 \<Rightarrow>
              (let body = (if body0 = [] \<or> last body0 \<noteq> CHR 0x0A then body0 @ eol else body0) in
               pbind (os_WriteFile' path body) (\<lambda>wr.
                 Return (map_option (\<lambda>e. runtimef_w (''init: write '' @ strconv_Quote isp path) (OtherErr e)) wr)))))"

definition writeLocalGitignoreIfAbsent :: "(nat \<Rightarrow> bool) \<Rightarrow> string \<Rightarrow> lerror option action" where
  "writeLocalGitignoreIfAbsent isp learningDir =
     (let path = path_Join learningDir ''.gitignore'' in
      pbind (os_Stat path) (\<lambda>st.
      case st of
        None \<Rightarrow> Return None
      | Some (OtherIO statErr) \<Rightarrow> Return (Some (runtimef_w (''init: stat '' @ strconv_Quote isp path) (OtherErr statErr)))
      | Some (NotExist _) \<Rightarrow>
          pbind (os_WriteFile' path (''db.sqlite'' @ eol @ ''learn.log'' @ eol)) (\<lambda>wr.
            Return (map_option (\<lambda>e. runtimef_w (''init: write '' @ strconv_Quote isp path) (OtherErr e)) wr))))"

definition runInit :: "(nat \<Rightarrow> bool) \<Rightarrow> (loopConfig \<Rightarrow> goerror + string) \<Rightarrow> string \<Rightarrow> string \<Rightarrow> string \<Rightarrow> lerror option action" where
  "runInit isp yaml learningDir dbPath0 configPath0 =
     (if learningDir = [] then Return (Some (usagef ''init: --dir must be non-empty''))
      else
        pbind (os_MkdirAll learningDir) (\<lambda>mk.
        case mk of
          Some mkdirErr \<Rightarrow> Return (Some (runtimef_w (''init: create '' @ strconv_Quote isp learningDir) (OtherErr mkdirErr)))
        | None \<Rightarrow>
            (let dbPath = (if dbPath0 = [] then path_Join learningDir ''db.sqlite'' else dbPath0);
                 configPath = (if configPath0 = [] then path_Join learningDir ''config.yml'' else configPath0)
             in pbind (writeDefaultConfigIfAbsent isp yaml configPath) (\<lambda>wr.
                case wr of
                  Some writeErr \<Rightarrow> Return (Some writeErr)
                | None \<Rightarrow>
                    pbind (openStore isp dbPath) (\<lambda>op.
                    case op of
                      Some openErr \<Rightarrow> Return (Some (runtimef_w ''init: open store'' openErr))
                    | None \<Rightarrow>
                        pbind (sql (\<lambda>d. Inr ((), d))) (\<lambda>closed.
                        case closed of
                          Inl closeErr \<Rightarrow> Return (Some (runtimef_w ''init: close store'' (OtherErr closeErr)))
                        | Inr _ \<Rightarrow> writeLocalGitignoreIfAbsent isp learningDir))))))"

end
