(* ===== verification/Reindex.thy ===== *)
theory Reindex
  imports Frontmatter LearnStore
begin

text \<open>
  Reindexing (\<open>cmd_reindex.go\<close>): the skills and memories on disk become rows of the indexes, and rows without a file
  are deleted unless a deprecated counterpart exists.  The directories are trees, the times of the files and YAML
  parameters.
\<close>

section \<open>Directories\<close>

text \<open>A directory entry, its children in the order of a walk, and a directory that cannot be read.\<close>

datatype fsnode = FsFile string | FsDir string "fsnode list" | FsUnreadable string goerror

primrec fs_name :: "fsnode \<Rightarrow> string" where
  "fs_name (FsFile n) = n"
| "fs_name (FsDir n cs) = n"
| "fs_name (FsUnreadable n e) = n"

definition deprecatedDir :: string where "deprecatedDir = ''_deprecated''"
definition skillFileName :: string where "skillFileName = ''SKILL.md''"

definition isDeprecatedPath :: "string \<Rightarrow> bool" where
  "isDeprecatedPath path \<longleftrightarrow> deprecatedDir \<in> set (Split (path_Clean path) CHR ''/'')"

definition mtimeMatches :: "(string \<Rightarrow> time option) \<Rightarrow> string \<Rightarrow> int \<Rightarrow> time \<Rightarrow> bool" where
  "mtimeMatches mtime path since now =
     (if since = 0 then True else (case mtime path of None \<Rightarrow> False | Some t \<Rightarrow> now - t \<le> since))"

text \<open>The walk below a path: the skill files that are kept, or the first error.\<close>

fun walk_skills :: "(string \<Rightarrow> bool) \<Rightarrow> string \<Rightarrow> fsnode \<Rightarrow> goerror + string list"
  and walk_children :: "(string \<Rightarrow> bool) \<Rightarrow> string \<Rightarrow> fsnode list \<Rightarrow> goerror + string list" where
  "walk_skills keep path (FsFile name) =
     Inr (if name \<noteq> skillFileName \<or> isDeprecatedPath path \<or> \<not> keep path then [] else [path])"
| "walk_skills keep path (FsUnreadable name e) = (if name = deprecatedDir then Inr [] else Inl e)"
| "walk_skills keep path (FsDir name cs) = (if name = deprecatedDir then Inr [] else walk_children keep path cs)"
| "walk_children keep path [] = Inr []"
| "walk_children keep path (c # cs) =
     (case walk_skills keep (path_Join path (fs_name c)) c of
        Inl e \<Rightarrow> Inl e
      | Inr out \<Rightarrow> (case walk_children keep path cs of Inl e \<Rightarrow> Inl e | Inr rest \<Rightarrow> Inr (out @ rest)))"

text \<open>
  What the commands see of the directories: the error of a missing or unreadable one, or its tree, the times of the files,
  and which paths are directories.
\<close>

record dir_env =
  de_tree :: "string \<Rightarrow> ferror + fsnode"
  de_mtime :: "string \<Rightarrow> time option"
  de_isdir :: "string \<Rightarrow> bool"

definition scanSkillFiles :: "(nat \<Rightarrow> bool) \<Rightarrow> dir_env \<Rightarrow> string \<Rightarrow> int \<Rightarrow> time \<Rightarrow> lerror + string list" where
  "scanSkillFiles isp E skillsDir sinceMtime now =
     (case de_tree E skillsDir of
        Inl (NotExist _) \<Rightarrow> Inr []
      | Inl (OtherIO statErr) \<Rightarrow> Inl (runtimef_w (''reindex: stat skills dir '' @ strconv_Quote isp skillsDir) (OtherErr statErr))
      | Inr tree \<Rightarrow>
          (case walk_skills (\<lambda>p. mtimeMatches (de_mtime E) p sinceMtime now) skillsDir tree of
             Inl walkErr \<Rightarrow> Inl (runtimef_w (''reindex: walk skills '' @ strconv_Quote isp skillsDir) (OtherErr walkErr))
           | Inr out \<Rightarrow> Inr (sort_Strings out)))"

fun dir_entries :: "fsnode \<Rightarrow> goerror + fsnode list" where
  "dir_entries (FsDir n cs) = Inr cs"
| "dir_entries (FsUnreadable n e) = Inl e"
| "dir_entries (FsFile n) = Inl (Opaque ''*fs.PathError'' (''open '' @ n @ '': not a directory''))"

fun is_dir_node :: "fsnode \<Rightarrow> bool" where
  "is_dir_node (FsFile n) = False"
| "is_dir_node _ = True"

definition memory_entry :: "string \<Rightarrow> fsnode \<Rightarrow> bool" where
  "memory_entry memoryDir c \<longleftrightarrow> \<not> is_dir_node c \<and> fs_name c \<noteq> ''MEMORY.md'' \<and> HasSuffix (fs_name c) ''.md''
     \<and> \<not> isDeprecatedPath (path_Join memoryDir (fs_name c))"

definition scanMemoryFiles :: "(nat \<Rightarrow> bool) \<Rightarrow> dir_env \<Rightarrow> string \<Rightarrow> int \<Rightarrow> time \<Rightarrow> lerror + string list" where
  "scanMemoryFiles isp E memoryDir sinceMtime now =
     (let readErr = (\<lambda>e. Inl (runtimef_w (''reindex: readdir memory '' @ strconv_Quote isp memoryDir) (OtherErr e))) in
      case de_tree E memoryDir of
        Inl (NotExist _) \<Rightarrow> Inr []
      | Inl (OtherIO e) \<Rightarrow> readErr e
      | Inr tree \<Rightarrow>
          (case dir_entries tree of
             Inl e \<Rightarrow> readErr e
           | Inr cs \<Rightarrow>
               Inr (sort_Strings (filter (\<lambda>p. mtimeMatches (de_mtime E) p sinceMtime now)
                 (map (\<lambda>c. path_Join memoryDir (fs_name c)) (filter (memory_entry memoryDir) cs))))))"

section \<open>The directory of memories\<close>

text \<open>A file that cannot be parsed is skipped with a warning in the log.\<close>

fun parse_each :: "(string \<Rightarrow> (lerror + memoryRecord) action) \<Rightarrow> string list \<Rightarrow> memoryRecord list action" where
  "parse_each f [] = Return []"
| "parse_each f (p # ps) =
     pbind (f p) (\<lambda>r. pbind (parse_each f ps) (\<lambda>rest. Return (case r of Inl _ \<Rightarrow> rest | Inr rec \<Rightarrow> rec # rest)))"

definition parseMemoryDir ::
  "(nat \<Rightarrow> bool) \<Rightarrow> (string \<Rightarrow> goerror + memoryFrontmatter) \<Rightarrow> (string \<Rightarrow> time) \<Rightarrow> dir_env \<Rightarrow> goerror option \<Rightarrow> string \<Rightarrow> string list
    \<Rightarrow> (string \<Rightarrow> string) option \<Rightarrow> (lerror + memoryRecord list) action" where
  "parseMemoryDir isp yaml mtime E ctx dir deprecatedRoots osan =
     (let readErr = (\<lambda>e. Return (Inl (runtimef_w (''parseMemoryDir: readdir '' @ strconv_Quote isp dir) (OtherErr e)))) in
      if osan = None then Return (Inl (usagef ''parseMemoryDir: sanitizer is nil (REQ-4 violation)''))
      else
        (case ctx of
           Some ctxErr \<Rightarrow> Return (Inl (runtimef_w ''parseMemoryDir'' (OtherErr ctxErr)))
         | None \<Rightarrow>
             (case de_tree E dir of
                Inl e \<Rightarrow> readErr (fe_err e)
              | Inr tree \<Rightarrow>
                  (case dir_entries tree of
                     Inl e \<Rightarrow> readErr e
                   | Inr cs \<Rightarrow>
                       pbind (parse_each (\<lambda>p. parseMemoryFile isp yaml mtime ctx p deprecatedRoots osan)
                           (map (\<lambda>c. path_Join dir (fs_name c)) (filter (memory_entry dir) cs))) (\<lambda>recs. Return (Inr recs))))))"

section \<open>Skill files\<close>

record skillFrontmatter =
  sf_Name :: string
  sf_Description :: string
  sf_Tags :: "string list"
  sf_ArgumentHint :: string

definition skill_json :: "skillFrontmatter \<Rightarrow> string" where
  "skill_json fm = json_encode (AMap
     (omit_empty ''name'' (sf_Name fm) @ omit_empty ''description'' (sf_Description fm)
      @ (if sf_Tags fm = [] then [] else [(''tags'', AList (map AString (sf_Tags fm)))])
      @ omit_empty ''argument-hint'' (sf_ArgumentHint fm)))"

definition memory_json :: "memoryFrontmatter \<Rightarrow> string" where
  "memory_json fm = json_encode (AMap [(''Name'', AString (mf_Name fm)), (''Description'', AString (mf_Description fm)),
     (''Metadata'', AMap [(''Type'', AString (mf_Type fm))])])"

definition extractSkillFrontmatter :: "(string \<Rightarrow> goerror + skillFrontmatter) \<Rightarrow> string \<Rightarrow> goerror + skillFrontmatter \<times> string" where
  "extractSkillFrontmatter yaml raw =
     (case split_frontmatter '' delimiter not found'' raw of
        Inl msg \<Rightarrow> Inl (new_error msg)
      | Inr (yamlBlock, body) \<Rightarrow> (case yaml yamlBlock of Inl e \<Rightarrow> Inl (yaml_error e) | Inr fm \<Rightarrow> Inr (fm, body)))"

fun first_heading :: "string list \<Rightarrow> string" where
  "first_heading [] = []"
| "first_heading (l # ls) =
     (let trimmed = TrimSpace l in
      if HasPrefix trimmed ''# '' then TrimSpace (TrimPrefix trimmed ''# '') else first_heading ls)"

definition firstH1 :: "string \<Rightarrow> string" where
  "firstH1 body = first_heading (Split body CHR 0x0A)"

text \<open>The row of a parsed skill, without its time.\<close>

definition parsed_skill :: "(string \<Rightarrow> string) \<Rightarrow> string \<Rightarrow> string \<Rightarrow> skillFrontmatter \<Rightarrow> string \<Rightarrow> index_row" where
  "parsed_skill san path ts fm body =
     (let title0 = sf_Name fm;
          title1 = (if title0 = [] then firstH1 body else title0);
          title = (if title1 = [] then path_Base (path_Dir path) else title1)
      in \<lparr>ix_path = path, ix_title = san title, ix_body = san (TrimPrefix body eol), ix_tags = san (Join (sf_Tags fm) '',''),
          ix_frontmatter = skill_json fm, ix_indexed_at = ts\<rparr>)"

definition upsertSkill ::
  "(nat \<Rightarrow> bool) \<Rightarrow> (string \<Rightarrow> goerror + skillFrontmatter) \<Rightarrow> (string \<Rightarrow> string) \<Rightarrow> string \<Rightarrow> time \<Rightarrow> lerror option action" where
  "upsertSkill isp yaml san path now =
     pbind (os_ReadFile' path) (\<lambda>rd.
     case rd of
       Inl readErr \<Rightarrow> Return (Some (runtimef_w (''reindex: read '' @ strconv_Quote isp path) (OtherErr (fe_err readErr))))
     | Inr raw \<Rightarrow>
         (case extractSkillFrontmatter yaml raw of
            Inl splitErr \<Rightarrow> Return (Some (usagef_w (''reindex: parse '' @ strconv_Quote isp path) (OtherErr splitErr)))
          | Inr (fm, body) \<Rightarrow>
              pbind (UpsertSkillIndex isp (parsed_skill san path (Format_RFC3339Nano now) fm body)) (\<lambda>up.
                Return (case up of
                    Inl upsertErr \<Rightarrow> Some (runtimef_w (''reindex: upsert skill '' @ strconv_Quote isp path) upsertErr)
                  | Inr _ \<Rightarrow> None))))"

definition upsertMemory ::
  "(nat \<Rightarrow> bool) \<Rightarrow> (string \<Rightarrow> goerror + memoryFrontmatter) \<Rightarrow> (string \<Rightarrow> time) \<Rightarrow> (string \<Rightarrow> string) \<Rightarrow> string \<Rightarrow> string list \<Rightarrow> time
    \<Rightarrow> lerror option action" where
  "upsertMemory isp yaml mtime san path deprecatedRoots now =
     pbind (parseMemoryFile isp yaml mtime None path deprecatedRoots (Some san)) (\<lambda>r.
     case r of
       Inl parseErr \<Rightarrow> Return (Some (runtimef_w (''reindex: parse memory '' @ strconv_Quote isp path) parseErr))
     | Inr rec \<Rightarrow>
         (let fm = me_Frontmatter rec;
              title = (if mf_Name fm = [] then path_Base path else mf_Name fm)
          in pbind (UpsertMemoryIndex isp \<lparr>ix_path = path, ix_title = title, ix_body = me_Body rec, ix_tags = [],
                 ix_frontmatter = memory_json fm, ix_indexed_at = Format_RFC3339Nano now\<rparr>) (\<lambda>up.
             Return (case up of
                 Inl upsertErr \<Rightarrow> Some (runtimef_w (''reindex: upsert memory '' @ strconv_Quote isp path) upsertErr)
               | Inr _ \<Rightarrow> None))))"

section \<open>Orphans\<close>

definition deprecatedCounterpartExistsForSkill :: "string \<Rightarrow> string \<Rightarrow> bool action" where
  "deprecatedCounterpartExistsForSkill origPath skillsDir =
     (let slug = path_Base (path_Dir origPath) in
      if slug = [] \<or> slug = ''.'' then Return False
      else
        pbind (fileExists (path_Join (path_Join skillsDir deprecatedDir) (slug @ ''.md''))) (\<lambda>there.
          if there then Return True
          else fileExists (path_Join (path_Join (path_Join skillsDir deprecatedDir) slug) skillFileName)))"

definition deprecatedCounterpartExistsForMemory :: "string \<Rightarrow> string \<Rightarrow> bool action" where
  "deprecatedCounterpartExistsForMemory origPath memoryDir =
     fileExists (path_Join (path_Join memoryDir deprecatedDir) (path_Base origPath))"

text \<open>The loop of either index: \<open>counterpart\<close> asks for a deprecated copy, \<open>delete\<close> removes a row.\<close>

fun prune_paths ::
  "(string \<Rightarrow> bool action) \<Rightarrow> (string \<Rightarrow> (lerror + unit) action) \<Rightarrow> (string \<Rightarrow> string) \<Rightarrow> string list \<Rightarrow> lerror option action" where
  "prune_paths counterpart delete what [] = Return None"
| "prune_paths counterpart delete what (p # ps) =
     pbind (fileExists p) (\<lambda>there.
     if there then prune_paths counterpart delete what ps
     else
       pbind (counterpart p) (\<lambda>moved.
       if moved then prune_paths counterpart delete what ps
       else
         pbind (delete p) (\<lambda>r.
         case r of
           Inl delErr \<Rightarrow> Return (Some (runtimef_w (what p) delErr))
         | Inr _ \<Rightarrow> prune_paths counterpart delete what ps)))"

definition pruneOrphanSkills :: "(nat \<Rightarrow> bool) \<Rightarrow> string \<Rightarrow> lerror option action" where
  "pruneOrphanSkills isp skillsDir =
     pbind (sql (\<lambda>d. Inr (map ix_path (d_skills d), d))) (\<lambda>q.
     case q of
       Inl queryErr \<Rightarrow> Return (Some (runtimef_w ''reindex: list skill_index'' (OtherErr queryErr)))
     | Inr paths \<Rightarrow>
         prune_paths (\<lambda>p. deprecatedCounterpartExistsForSkill p skillsDir) (DeleteOrphanSkill isp)
           (\<lambda>p. ''reindex: delete orphan skill '' @ strconv_Quote isp p) paths)"

definition pruneOrphanMemory :: "(nat \<Rightarrow> bool) \<Rightarrow> string \<Rightarrow> lerror option action" where
  "pruneOrphanMemory isp memoryDir =
     pbind (sql (\<lambda>d. Inr (map ix_path (d_memories d), d))) (\<lambda>q.
     case q of
       Inl queryErr \<Rightarrow> Return (Some (runtimef_w ''reindex: list memory_index'' (OtherErr queryErr)))
     | Inr paths \<Rightarrow>
         prune_paths (\<lambda>p. deprecatedCounterpartExistsForMemory p memoryDir) (DeleteOrphanMemory isp)
           (\<lambda>p. ''reindex: delete orphan memory '' @ strconv_Quote isp p) paths)"

section \<open>The command\<close>

record reindexOpts =
  ri_DBPath :: string
  ri_SkillsDir :: string
  ri_MemoryDir :: string
  ri_SinglePath :: string
  ri_SinceMtime :: int
  ri_ConfigPath :: string

definition computeDeprecatedRoots :: "reindexOpts \<Rightarrow> string list" where
  "computeDeprecatedRoots opts =
     (if ri_MemoryDir opts \<noteq> [] then [path_Join (ri_MemoryDir opts) deprecatedDir] else [])
     @ (if ri_SkillsDir opts \<noteq> [] then [path_Join (ri_SkillsDir opts) deprecatedDir] else [])"

text \<open>The parsers of YAML headers and the times of memory files.\<close>

record index_libs =
  il_skill :: "string \<Rightarrow> goerror + skillFrontmatter"
  il_memory :: "string \<Rightarrow> goerror + memoryFrontmatter"
  il_seen :: "string \<Rightarrow> time"

definition reindexSinglePath ::
  "(nat \<Rightarrow> bool) \<Rightarrow> index_libs \<Rightarrow> dir_env \<Rightarrow> (string \<Rightarrow> string) \<Rightarrow> time \<Rightarrow> reindexOpts \<Rightarrow> lerror option action" where
  "reindexSinglePath isp libs E san now opts =
     (let path = ri_SinglePath opts; base = path_Base path in
      if de_isdir E path then Return (Some (usagef (''reindex: --path '' @ strconv_Quote isp path @ '': is a directory, expected a file'')))
      else
        pbind (os_Stat path) (\<lambda>st.
        case st of
          Some (NotExist _) \<Rightarrow> Return (Some (usagef (''reindex: --path '' @ strconv_Quote isp path @ '': file does not exist'')))
        | Some (OtherIO statErr) \<Rightarrow> Return (Some (runtimef_w (''reindex: stat '' @ strconv_Quote isp path) (OtherErr statErr)))
        | None \<Rightarrow>
            if isDeprecatedPath path then Return None
            else if base = skillFileName then upsertSkill isp (il_skill libs) san path now
            else if HasSuffix base ''.md'' then
              upsertMemory isp (il_memory libs) (il_seen libs) san path (computeDeprecatedRoots opts) now
            else Return (Some (usagef (''reindex: --path '' @ strconv_Quote isp path @ '': unsupported file (expected SKILL.md or *.md)'')))))"

fun each :: "(string \<Rightarrow> lerror option action) \<Rightarrow> string list \<Rightarrow> lerror option action" where
  "each f [] = Return None"
| "each f (p # ps) = pbind (f p) (\<lambda>r. case r of Some e \<Rightarrow> Return (Some e) | None \<Rightarrow> each f ps)"

text \<open>The whole trees.\<close>

definition reindexAll ::
  "(nat \<Rightarrow> bool) \<Rightarrow> index_libs \<Rightarrow> dir_env \<Rightarrow> (string \<Rightarrow> string) \<Rightarrow> time \<Rightarrow> reindexOpts \<Rightarrow> lerror option action" where
  "reindexAll isp libs E san now opts =
     (case scanSkillFiles isp E (ri_SkillsDir opts) (ri_SinceMtime opts) now of
        Inl skillScanErr \<Rightarrow> Return (Some skillScanErr)
      | Inr skillsOnDisk \<Rightarrow>
          (case scanMemoryFiles isp E (ri_MemoryDir opts) (ri_SinceMtime opts) now of
             Inl memoryScanErr \<Rightarrow> Return (Some memoryScanErr)
           | Inr memoryOnDisk \<Rightarrow>
               pbind (each (\<lambda>p. upsertSkill isp (il_skill libs) san p now) skillsOnDisk) (\<lambda>r1.
               case r1 of
                 Some e \<Rightarrow> Return (Some e)
               | None \<Rightarrow>
                   pbind (each (\<lambda>p. upsertMemory isp (il_memory libs) (il_seen libs) san p (computeDeprecatedRoots opts) now) memoryOnDisk) (\<lambda>r2.
                   case r2 of
                     Some e \<Rightarrow> Return (Some e)
                   | None \<Rightarrow>
                       pbind (pruneOrphanSkills isp (ri_SkillsDir opts)) (\<lambda>r3.
                       case r3 of
                         Some e \<Rightarrow> Return (Some e)
                       | None \<Rightarrow> pruneOrphanMemory isp (ri_MemoryDir opts))))))"

text \<open>\<open>compile\<close> is \<open>regexp.Compile\<close>, the parameter of the sanitizer.\<close>

definition runReindex ::
  "(nat \<Rightarrow> bool) \<Rightarrow> config_libs \<Rightarrow> (string \<Rightarrow> string option) \<Rightarrow> (string \<Rightarrow> goerror + replacer) \<Rightarrow> index_libs \<Rightarrow> dir_env \<Rightarrow> time
    \<Rightarrow> reindexOpts \<Rightarrow> lerror option action" where
  "runReindex isp clibs env compile libs E now opts =
     (if ri_DBPath opts = [] then Return (Some (usagef ''reindex: --db-path must be non-empty''))
      else
        pbind (loadConfig isp clibs env (ri_ConfigPath opts)) (\<lambda>ld.
        case ld of
          Inl loadErr \<Rightarrow> Return (Some (runtimef_w ''reindex: load config'' loadErr))
        | Inr cfg \<Rightarrow>
            (case newSanitizerFromConfig isp compile (lc_SecretPatterns cfg) of
               Inl sanErr \<Rightarrow> Return (Some (runtimef_w ''reindex: build sanitizer'' sanErr))
             | Inr san \<Rightarrow>
                 pbind (openStore isp (ri_DBPath opts)) (\<lambda>op.
                 case op of
                   Some openErr \<Rightarrow> Return (Some (runtimef_w ''reindex: open store'' openErr))
                 | None \<Rightarrow>
                     if ri_SinglePath opts \<noteq> [] then reindexSinglePath isp libs E (sanitize san) now opts
                     else reindexAll isp libs E (sanitize san) now opts))))"

end
