(* ===== verification/RecordDecision.thy ===== *)
theory RecordDecision
  imports Frontmatter
begin

text \<open>
  Recording a decision (\<open>cmd_record_decision.go\<close>): the row, and the file of a new or changed skill or memory, which is
  taken back when the row cannot be written.
\<close>

section \<open>Options\<close>

record recordDecisionOpts =
  rd_CandidateSignature :: string
  rd_Action :: string
  rd_TargetPath :: string
  rd_Rationale :: string
  rd_DiffFile :: string
  rd_BodyFile :: string
  rd_Description :: string
  rd_Mode :: string
  rd_DBPath :: string

definition validRecordActions :: "string list" where
  "validRecordActions = [''new-skill'', ''new-memory'', ''update'', ''discard'', ''pending-approval'']"

text \<open>The header of a new file, and the YAML library: maps both ways, and the header.\<close>

record new_header =
  nh_Name :: string
  nh_Description :: string
  nh_LearningProvenance :: "string list"
  nh_CreatedAt :: string
  nh_LastReviewedAt :: string

record yaml_lib =
  yl_unmarshal :: "string \<Rightarrow> goerror + yaml_map"
  yl_marshal :: "yaml_map \<Rightarrow> goerror + string"
  yl_header :: "new_header \<Rightarrow> goerror + string"

section \<open>Texts\<close>

definition ensureTrailingNewline :: "string \<Rightarrow> string" where
  "ensureTrailingNewline s = (if s = [] then s else if last s = CHR 0x0A then s else s @ eol)"

definition deriveNameFromPath :: "string \<Rightarrow> string" where
  "deriveNameFromPath path =
     (let base = path_Base path; ext = path_Ext base in if ext = [] then base else TrimSuffix base ext)"

definition buildFrontmatter :: "yaml_lib \<Rightarrow> string \<Rightarrow> string \<Rightarrow> string \<Rightarrow> string \<Rightarrow> string" where
  "buildFrontmatter yl name description provenance ts =
     (case yl_header yl \<lparr>nh_Name = name, nh_Description = description, nh_LearningProvenance = [provenance], nh_CreatedAt = ts,
             nh_LastReviewedAt = ts\<rparr> of
        Inl _ \<Rightarrow> ''---'' @ eol @ ''name: '' @ name @ eol @ ''description: '' @ description @ eol @ ''learning_provenance:'' @ eol
          @ ''  - '' @ provenance @ eol @ ''created_at: '' @ ts @ eol @ ''last_reviewed_at: '' @ ts @ eol @ ''---'' @ eol
      | Inr body \<Rightarrow> ''---'' @ eol @ body @ ''---'' @ eol)"

fun put_key :: "string \<Rightarrow> goany \<Rightarrow> yaml_map \<Rightarrow> yaml_map" where
  "put_key k v [] = [(k, v)]"
| "put_key k v ((k', v') # m) = (if k' = k then (k, v) # m else (k', v') # put_key k v m)"

section \<open>Files\<close>

definition writeNewLearningFile :: "(nat \<Rightarrow> bool) \<Rightarrow> yaml_lib \<Rightarrow> time \<Rightarrow> recordDecisionOpts \<Rightarrow> lerror option action" where
  "writeNewLearningFile isp yl now opts =
     (if rd_BodyFile opts = [] then
        Return (Some (usagef (''record-decision: --body-file is required for action '' @ strconv_Quote isp (rd_Action opts))))
      else
        pbind (os_ReadFile' (rd_BodyFile opts)) (\<lambda>rd.
        case rd of
          Inl readErr \<Rightarrow> Return (Some (runtimef_w (''record-decision: read --body-file '' @ strconv_Quote isp (rd_BodyFile opts)) (OtherErr (fe_err readErr))))
        | Inr body \<Rightarrow>
            pbind (os_Stat (rd_TargetPath opts)) (\<lambda>st.
            case st of
              None \<Rightarrow> Return (Some (usagef (''record-decision: target '' @ strconv_Quote isp (rd_TargetPath opts) @ '' already exists (use --action=update)'')))
            | Some (OtherIO statErr) \<Rightarrow> Return (Some (runtimef_w (''record-decision: stat '' @ strconv_Quote isp (rd_TargetPath opts)) (OtherErr statErr)))
            | Some (NotExist _) \<Rightarrow>
                (let header = buildFrontmatter yl (deriveNameFromPath (rd_TargetPath opts)) (rd_Description opts)
                       (rd_CandidateSignature opts) (Format_RFC3339 now)
                 in pbind (os_MkdirAll (path_Dir (rd_TargetPath opts))) (\<lambda>mk.
                    case mk of
                      Some mkErr \<Rightarrow> Return (Some (runtimef_w (''record-decision: mkdir parent of '' @ strconv_Quote isp (rd_TargetPath opts)) (OtherErr mkErr)))
                    | None \<Rightarrow>
                        pbind (os_WriteFile' (rd_TargetPath opts) (header @ ensureTrailingNewline body)) (\<lambda>wr.
                          Return (map_option (\<lambda>e. runtimef_w (''record-decision: write '' @ strconv_Quote isp (rd_TargetPath opts)) (OtherErr e)) wr)))))))"

text \<open>The file after an update of its text.\<close>

definition updated_text :: "(nat \<Rightarrow> bool) \<Rightarrow> yaml_lib \<Rightarrow> time \<Rightarrow> recordDecisionOpts \<Rightarrow> string \<Rightarrow> string \<Rightarrow> lerror + string" where
  "updated_text isp yl now opts body existing =
     (case splitFrontmatterRaw (yl_unmarshal yl) existing of
        Inl splitErr \<Rightarrow> Inl (usagef_w (''record-decision: parse target '' @ strconv_Quote isp (rd_TargetPath opts)) (OtherErr splitErr))
      | Inr (fmMap, bodyText) \<Rightarrow>
          (let fmMap1 = put_key ''last_reviewed_at'' (AString (Format_RFC3339 now)) fmMap;
               mode = (if rd_Mode opts = [] then ''append'' else rd_Mode opts);
               newBody = (if mode = ''append'' then Some (ensureTrailingNewline bodyText @ ensureTrailingNewline body)
                          else if mode = ''replace'' then Some (ensureTrailingNewline body) else None)
           in case newBody of
                None \<Rightarrow> Inl (usagef (''record-decision: invalid --mode '' @ strconv_Quote isp mode @ '' (want append|replace)''))
              | Some text \<Rightarrow>
                  (case marshalFrontmatterMap (yl_marshal yl) fmMap1 of
                     Inl marshalErr \<Rightarrow> Inl (runtimef_w ''record-decision: marshal frontmatter'' (OtherErr marshalErr))
                   | Inr header \<Rightarrow> Inr (header @ text))))"

definition applyUpdateToLearningFile :: "(nat \<Rightarrow> bool) \<Rightarrow> yaml_lib \<Rightarrow> time \<Rightarrow> recordDecisionOpts \<Rightarrow> lerror option action" where
  "applyUpdateToLearningFile isp yl now opts =
     (if rd_BodyFile opts = [] then
        Return (Some (usagef (''record-decision: --body-file is required for action '' @ strconv_Quote isp (rd_Action opts))))
      else
        pbind (os_ReadFile' (rd_BodyFile opts)) (\<lambda>rd.
        case rd of
          Inl readErr \<Rightarrow> Return (Some (runtimef_w (''record-decision: read --body-file '' @ strconv_Quote isp (rd_BodyFile opts)) (OtherErr (fe_err readErr))))
        | Inr body \<Rightarrow>
            pbind (os_ReadFile' (rd_TargetPath opts)) (\<lambda>ex.
            case ex of
              Inl statErr \<Rightarrow> Return (Some (runtimef_w (''record-decision: read target '' @ strconv_Quote isp (rd_TargetPath opts)) (OtherErr (fe_err statErr))))
            | Inr existing \<Rightarrow>
                (case updated_text isp yl now opts body existing of
                   Inl e \<Rightarrow> Return (Some e)
                 | Inr final \<Rightarrow>
                     pbind (os_WriteFile' (rd_TargetPath opts) final) (\<lambda>wr.
                       Return (map_option (\<lambda>e. runtimef_w (''record-decision: write '' @ strconv_Quote isp (rd_TargetPath opts)) (OtherErr e)) wr))))))"

section \<open>The command\<close>

text \<open>What takes the change of a file back.\<close>

datatype undo = Nothing | RemoveFile | RestoreFile string

definition undo_file :: "string \<Rightarrow> undo \<Rightarrow> unit action" where
  "undo_file target u =
     (case u of
        Nothing \<Rightarrow> Return ()
      | RemoveFile \<Rightarrow> pbind (os_Remove target) (\<lambda>_. Return ())
      | RestoreFile orig \<Rightarrow> pbind (os_WriteFile' target orig) (\<lambda>_. Return ()))"

definition change_file :: "(nat \<Rightarrow> bool) \<Rightarrow> yaml_lib \<Rightarrow> time \<Rightarrow> recordDecisionOpts \<Rightarrow> (lerror + undo) action" where
  "change_file isp yl now opts =
     (if rd_Action opts = ''new-skill'' \<or> rd_Action opts = ''new-memory'' then
        pbind (writeNewLearningFile isp yl now opts) (\<lambda>r.
          Return (case r of Some writeErr \<Rightarrow> Inl writeErr | None \<Rightarrow> Inr RemoveFile))
      else if rd_Action opts = ''update'' then
        pbind (os_ReadFile' (rd_TargetPath opts)) (\<lambda>cap.
        case cap of
          Inl (OtherIO captureErr) \<Rightarrow>
            Return (Inl (runtimef_w (''record-decision: capture pre-update '' @ strconv_Quote isp (rd_TargetPath opts)) (OtherErr captureErr)))
        | Inl (NotExist _) \<Rightarrow>
            pbind (applyUpdateToLearningFile isp yl now opts) (\<lambda>r. Return (case r of Some updErr \<Rightarrow> Inl updErr | None \<Rightarrow> Inr RemoveFile))
        | Inr original \<Rightarrow>
            pbind (applyUpdateToLearningFile isp yl now opts) (\<lambda>r.
              Return (case r of Some updErr \<Rightarrow> Inl updErr | None \<Rightarrow> Inr (RestoreFile original))))
      else Return (Inr Nothing))"

definition record_row :: "(nat \<Rightarrow> bool) \<Rightarrow> time \<Rightarrow> recordDecisionOpts \<Rightarrow> string \<Rightarrow> undo \<Rightarrow> lerror option action" where
  "record_row isp now opts diffContent u =
     pbind (openStore isp (rd_DBPath opts)) (\<lambda>op.
     case op of
       Some openErr \<Rightarrow> pbind (undo_file (rd_TargetPath opts) u) (\<lambda>_. Return (Some (runtimef_w ''record-decision: open store'' openErr)))
     | None \<Rightarrow>
         pbind (sql (insert_decision (rd_CandidateSignature opts) (rd_Action opts) (nullIfEmpty (rd_TargetPath opts))
             (rd_Rationale opts) (nullIfEmpty diffContent) (Format_RFC3339Nano now))) (\<lambda>ins.
         case ins of
           Inl execErr \<Rightarrow> pbind (undo_file (rd_TargetPath opts) u) (\<lambda>_. Return (Some (runtimef_w ''record-decision: insert decision'' (OtherErr execErr))))
         | Inr _ \<Rightarrow> Return None))"

text \<open>The clock is read for the file and for the row.\<close>

definition runRecordDecision :: "(nat \<Rightarrow> bool) \<Rightarrow> yaml_lib \<Rightarrow> time \<Rightarrow> time \<Rightarrow> recordDecisionOpts \<Rightarrow> lerror option action" where
  "runRecordDecision isp yl now1 now2 opts =
     (if rd_CandidateSignature opts = [] then Return (Some (usagef ''record-decision: --candidate-signature is required''))
      else if rd_Action opts \<notin> set validRecordActions then
        Return (Some (usagef (''record-decision: invalid --action '' @ strconv_Quote isp (rd_Action opts)
          @ '' (want one of new-skill|new-memory|update|discard|pending-approval)'')))
      else if rd_DBPath opts = [] then Return (Some (usagef ''record-decision: --db-path must be non-empty''))
      else if rd_Action opts \<noteq> ''discard'' \<and> rd_TargetPath opts = [] then
        Return (Some (usagef (''record-decision: --target-path is required for action '' @ strconv_Quote isp (rd_Action opts))))
      else
        pbind (read_diff isp ''record-decision'' (rd_DiffFile opts)) (\<lambda>rd.
        case rd of
          Inl readErr \<Rightarrow> Return (Some readErr)
        | Inr diffContent \<Rightarrow>
            pbind (change_file isp yl now1 opts) (\<lambda>ch.
            case ch of
              Inl changeErr \<Rightarrow> Return (Some changeErr)
            | Inr u \<Rightarrow> record_row isp now2 opts diffContent u)))"

end
