(* ===== verification/IngestSpec.thy ===== *)
theory IngestSpec
  imports Frontmatter Reindex
begin

text \<open>
  The parser of specifications for the learning tool (\<open>tools/learn/ingest_spec.go\<close>): a scan over the lines that
  collects completed tasks, the entries of the execution log and the status.  A run is not cancelled.
\<close>

section \<open>Records and expressions\<close>

record specRecord =
  sr_Source :: string
  sr_Kind :: string
  sr_Tokens :: "string list"
  sr_SeenAt :: time
  sr_Body :: string

definition specKindStatusTransition :: string where "specKindStatusTransition = ''spec-status-transition''"
definition specKindTask :: string where "specKindTask = ''spec-task''"
definition specKindTDDStep :: string where "specKindTDDStep = ''spec-tdd-step''"

text \<open>\<open>strings.ToUpper\<close> of ASCII, as the states are that \<open>statusRe\<close> matches.\<close>

definition upper_ascii :: "string \<Rightarrow> string" where
  "upper_ascii = map (\<lambda>c. let n = of_char c :: nat in if 97 \<le> n \<and> n \<le> 122 then char_of (n - 32) else c)"

definition statusEmittedFor :: "string \<Rightarrow> bool" where
  "statusEmittedFor state \<longleftrightarrow> upper_ascii (TrimSpace state) \<in> {''IN_PROGRESS'', ''DONE'', ''FAILED''}"

definition any_re :: re where "any_re = Star (Cls (\<lambda>c. c \<noteq> CHR 0x0A))"
definition blanks_re :: re where "blanks_re = Star (Cls re_space)"
definition blanks1_re :: re where "blanks1_re = plus_re (Cls re_space)"

definition task_id_re :: re where
  "task_id_re = seqs [lit ''TASK-'', plus_re (Cls (\<lambda>c. upper c \<or> digit c \<or> c = CHR ''_'' \<or> c = CHR ''-''))]"

definition statusRe :: re where
  "statusRe = seqs [Bol, lit ''##'', blanks1_re, lit ''Status:'', blanks1_re,
     Grp 1 (plus_re (Cls (\<lambda>c. upper c \<or> c = CHR ''_''))), blanks_re, Eol]"

definition taskCompleteRe :: re where
  "taskCompleteRe = seqs [Bol, lit ''-'', blanks1_re, lit ''[x]'', blanks1_re, Grp 1 task_id_re, WordB, blanks_re,
     Grp 2 any_re, Eol]"

definition filesLineRe :: re where
  "filesLineRe = seqs [Bol, blanks1_re, lit ''-'', blanks1_re, lit ''files:'', blanks1_re, Grp 1 any_re, Eol]"

definition logHeaderRe :: re where
  "logHeaderRe = seqs [Bol, lit ''###'', blanks1_re,
     Grp 1 (Alt task_id_re (seqs [lit ''Batch'', Star (Cls (\<lambda>c. c \<noteq> CHR ''('' \<and> c \<noteq> CHR '')''))])), blanks_re,
     lit ''('', Grp 2 (plus_re (Cls (\<lambda>c. c \<noteq> CHR '')''))), lit '')'', blanks_re, Eol]"

definition word_re :: "string \<Rightarrow> re" where
  "word_re w = seqs [WordB, lit w, WordB]"

definition tddRe :: re where
  "tddRe = seqs [lit ''TDD:'', any_re, word_re ''RED'', any_re, word_re ''GREEN'', any_re, word_re ''REFACTOR'']"

definition canonicalSpecSource :: "string \<Rightarrow> string" where
  "canonicalSpecSource p =
     (let clean = path_Clean p in case Index clean ''.specs/'' of Some i \<Rightarrow> drop i clean | None \<Rightarrow> clean)"

text \<open>\<open>fallback\<close> is the time of the clock when no layout fits.\<close>

definition parseLogTimestamp :: "(string \<Rightarrow> string \<Rightarrow> goerror + time) \<Rightarrow> time \<Rightarrow> string \<Rightarrow> time" where
  "parseLogTimestamp parse fallback raw0 =
     (let raw = TrimSpace raw0 in
      case List.map_filter (\<lambda>layout. case parse layout raw of Inr t \<Rightarrow> Some t | Inl e \<Rightarrow> None)
             [''2006-01-02 15:04'', ''2006-01-02 15:04:05'', ''2006-01-02T15:04:05Z07:00''] of
        t # _ \<Rightarrow> t
      | [] \<Rightarrow> fallback)"

definition extractTDDTokens :: "string \<Rightarrow> string list" where
  "extractTDDTokens body = (if MatchString tddRe body then [''RED'', ''GREEN'', ''REFACTOR''] else [])"

definition splitFiles :: "string \<Rightarrow> string list" where
  "splitFiles rhs =
     filter (\<lambda>t. t \<noteq> []) (map (\<lambda>p. TrimSpace (Trim (TrimSpace p) ''`'')) (Split rhs CHR '',''))"

section \<open>The scan\<close>

text \<open>A task that is open: its identifier, its files and its text; an open entry of the log: its time and its text.\<close>

record open_task =
  ot_id :: string
  ot_files :: "string list"
  ot_text :: string

record open_log =
  ol_seen :: time
  ol_text :: string

record spec_scan =
  ss_records :: "specRecord list"
  ss_status :: string
  ss_task :: "open_task option"
  ss_in_log :: bool
  ss_log :: "open_log option"

definition spec_begin :: spec_scan where
  "spec_begin = \<lparr>ss_records = [], ss_status = [], ss_task = None, ss_in_log = False, ss_log = None\<rparr>"

definition trim_eols :: "string \<Rightarrow> string" where
  "trim_eols s = rev (dropWhile (\<lambda>c. c = CHR 0x0A) (rev s))"

definition flushTask :: "(string \<Rightarrow> string) \<Rightarrow> string \<Rightarrow> time \<Rightarrow> spec_scan \<Rightarrow> spec_scan" where
  "flushTask san source now s =
     (case ss_task s of
        None \<Rightarrow> s
      | Some tk \<Rightarrow>
          s\<lparr>ss_records := ss_records s @
               [\<lparr>sr_Source = source, sr_Kind = specKindTask, sr_Tokens = map san (ot_id tk # ot_files tk), sr_SeenAt = now,
                 sr_Body = san (trim_eols (ot_text tk))\<rparr>],
            ss_task := None\<rparr>)"

definition flushLog :: "(string \<Rightarrow> string) \<Rightarrow> string \<Rightarrow> spec_scan \<Rightarrow> spec_scan" where
  "flushLog san source s =
     (case ss_log s of
        None \<Rightarrow> s
      | Some lg \<Rightarrow>
          s\<lparr>ss_records := ss_records s @
               [\<lparr>sr_Source = source, sr_Kind = specKindTDDStep, sr_Tokens = map san (extractTDDTokens (ol_text lg)),
                 sr_SeenAt = ol_seen lg, sr_Body = san (trim_eols (ol_text lg))\<rparr>],
            ss_log := None\<rparr>)"

definition open_task_at :: "string \<times> (nat \<times> string) list \<Rightarrow> spec_scan \<Rightarrow> spec_scan" where
  "open_task_at m s =
     (let taskTitle = TrimSpace (submatch 2 m) in
      s\<lparr>ss_task := Some \<lparr>ot_id = submatch 1 m, ot_files = [],
           ot_text = submatch 1 m @ (if taskTitle \<noteq> [] then '' '' @ taskTitle else []) @ eol\<rparr>\<rparr>)"

text \<open>
  One line.  \<open>clock\<close> gives what the clock shows at a header without a time, by the number of records so far.
\<close>

definition spec_line ::
  "(string \<Rightarrow> string \<Rightarrow> goerror + time) \<Rightarrow> (nat \<Rightarrow> time) \<Rightarrow> (string \<Rightarrow> string) \<Rightarrow> string \<Rightarrow> time \<Rightarrow> string \<Rightarrow> spec_scan \<Rightarrow> spec_scan"
where
  "spec_line parse clock san source now line s =
     (if HasPrefix line ''## '' then
        (let s1 = (if ss_in_log s then flushLog san source s else s);
             s2 = flushTask san source now s1;
             s3 = s2\<lparr>ss_in_log := HasPrefix line ''## Execution Log''\<rparr>
         in case FindStringSubmatch statusRe line of Some m \<Rightarrow> s3\<lparr>ss_status := submatch 1 m\<rparr> | None \<Rightarrow> s3)
      else if ss_in_log s then
        (case FindStringSubmatch logHeaderRe line of
           Some m \<Rightarrow>
             (let s1 = flushLog san source s in
              s1\<lparr>ss_log := Some \<lparr>ol_seen = parseLogTimestamp parse (clock (length (ss_records s1))) (submatch 2 m),
                   ol_text = TrimSpace (submatch 1 m) @ eol\<rparr>\<rparr>)
         | None \<Rightarrow>
             (case ss_log s of
                Some lg \<Rightarrow> s\<lparr>ss_log := Some (lg\<lparr>ol_text := ol_text lg @ line @ eol\<rparr>)\<rparr>
              | None \<Rightarrow> s))
      else
        (case FindStringSubmatch taskCompleteRe line of
           Some m \<Rightarrow> open_task_at m (flushTask san source now s)
         | None \<Rightarrow>
             (case ss_task s of
                None \<Rightarrow> s
              | Some tk \<Rightarrow>
                  (case FindStringSubmatch filesLineRe line of
                     Some m \<Rightarrow>
                       s\<lparr>ss_task := Some (tk\<lparr>ot_files := ot_files tk @ splitFiles (submatch 1 m), ot_text := ot_text tk @ line @ eol\<rparr>)\<rparr>
                   | None \<Rightarrow>
                       if line = [] then flushTask san source now s
                       else if HasPrefix line ''- '' \<or> HasPrefix line ''#'' then
                         (let s1 = flushTask san source now s in
                          case FindStringSubmatch taskCompleteRe line of Some mm \<Rightarrow> open_task_at mm s1 | None \<Rightarrow> s1)
                       else s\<lparr>ss_task := Some (tk\<lparr>ot_text := ot_text tk @ line @ eol\<rparr>)\<rparr>))))"

fun spec_lines ::
  "(string \<Rightarrow> string \<Rightarrow> goerror + time) \<Rightarrow> (nat \<Rightarrow> time) \<Rightarrow> (string \<Rightarrow> string) \<Rightarrow> string \<Rightarrow> time \<Rightarrow> string list \<Rightarrow> spec_scan \<Rightarrow> spec_scan"
where
  "spec_lines parse clock san source now [] s = s"
| "spec_lines parse clock san source now (l # ls) s =
     spec_lines parse clock san source now ls (spec_line parse clock san source now l s)"

definition spec_records ::
  "(string \<Rightarrow> string \<Rightarrow> goerror + time) \<Rightarrow> (nat \<Rightarrow> time) \<Rightarrow> (string \<Rightarrow> string) \<Rightarrow> string \<Rightarrow> time \<Rightarrow> string list \<Rightarrow> specRecord list"
where
  "spec_records parse clock san source now ls =
     (let s1 = flushTask san source now (spec_lines parse clock san source now ls spec_begin);
          s2 = (if ss_in_log s1 then flushLog san source s1 else s1)
      in (if statusEmittedFor (ss_status s2)
          then [\<lparr>sr_Source = source, sr_Kind = specKindStatusTransition, sr_Tokens = [san (upper_ascii (ss_status s2))], sr_SeenAt = now,
                 sr_Body = san (''Status: '' @ ss_status s2)\<rparr>]
          else []) @ ss_records s2)"

text \<open>Opening a file, and reading it to the end.\<close>

definition os_Open' :: "string \<Rightarrow> goerror option action" where
  "os_Open' p = faulty (\<lambda>ft d.
     (case ft of
        Some f \<Rightarrow> Some (f_err f)
      | None \<Rightarrow> (case file_at d p of Some c \<Rightarrow> None | None \<Rightarrow> Some (no_such_file ''open'' p)), d))"

definition os_ReadAll :: "string \<Rightarrow> (goerror + string) action" where
  "os_ReadAll p = faulty (\<lambda>ft d.
     (case ft of
        Some f \<Rightarrow> Inl (f_err f)
      | None \<Rightarrow> (case file_at d p of Some c \<Rightarrow> Inr c | None \<Rightarrow> Inl (no_such_file ''read'' p)), d))"

text \<open>Opening the file and reading it fail alike; a line that does not fit into the buffer ends the scan.\<close>

definition parseSpecRecords ::
  "(string \<Rightarrow> string \<Rightarrow> goerror + time) \<Rightarrow> (nat \<Rightarrow> time) \<Rightarrow> (string \<Rightarrow> string) \<Rightarrow> time \<Rightarrow> string \<Rightarrow> (lerror + specRecord list) action"
where
  "parseSpecRecords parse clock san now specPath =
     pbind (os_Open' specPath) (\<lambda>op.
     case op of
       Some openErr \<Rightarrow> Return (Inl (runtimeError (''spec: open '' @ specPath) (Some (OtherErr openErr))))
     | None \<Rightarrow>
         pbind (os_ReadAll specPath) (\<lambda>rd.
         case rd of
           Inl scanErr \<Rightarrow> Return (Inl (runtimeError (''spec: scan '' @ specPath) (Some (OtherErr scanErr))))
         | Inr text \<Rightarrow>
             if \<not> scan_fits 1048576 text then
               Return (Inl (runtimeError (''spec: scan '' @ specPath)
                 (Some (OtherErr (Opaque ''*errors.errorString'' ''bufio.Scanner: token too long'')))))
             else Return (Inr (spec_records parse clock san (canonicalSpecSource specPath) now (scanner_lines text)))))"

end
