(* ===== verification/IngestTranscript.thy ===== *)
theory IngestTranscript
  imports IngestSpec Patterns Recall
begin

text \<open>
  The parser of transcripts (\<open>tools/learn/ingest_transcript.go\<close>): files of JSON lines, of which the messages of the
  user and the tools that the assistant calls are kept.  The JSON decoder and the parser of times are parameters;
  a run is not cancelled.
\<close>

section \<open>Lines\<close>

record transcriptRecord =
  tr_Source :: string
  tr_Kind :: string
  tr_Tokens :: "string list"
  tr_SeenAt :: time
  tr_Body :: string

definition kindToolUse :: string where "kindToolUse = ''transcript-tool-use''"
definition kindUserPrompt :: string where "kindUserPrompt = ''transcript-user-prompt''"

fun reps :: "nat \<Rightarrow> nat \<Rightarrow> re \<Rightarrow> re" where
  "reps 0 0 r = Eps"
| "reps 0 (Suc m) r = opt_re (Seq r (reps 0 m r))"
| "reps (Suc n) m r = Seq r (reps n m r)"

text \<open>32 to 36 hexadecimal digits or dashes.\<close>

definition uuidFilePattern :: re where
  "uuidFilePattern = seqs [Bol,
     reps 32 4 (Cls (\<lambda>c. digit c \<or> c = CHR ''-'' \<or> (let n = of_char c :: nat in 97 \<le> n \<and> n \<le> 102))), lit ''.jsonl'', Eol]"

record rawContentItem =
  rc_Type :: string
  rc_Text :: string
  rc_Name :: string
  rc_Input :: string

text \<open>A line without a message has no content.\<close>

record rawLine =
  rl_Type :: string
  rl_Timestamp :: string
  rl_Content :: "rawContentItem list option"

definition parseTranscriptTimestamp ::
  "(nat \<Rightarrow> bool) \<Rightarrow> (string \<Rightarrow> string \<Rightarrow> goerror + time) \<Rightarrow> string \<Rightarrow> goerror + time" where
  "parseTranscriptTimestamp isp parse s =
     (if s = [] then Inl (Opaque ''*fmt.wrapError'' ''missing timestamp'')
      else
        (case parse RFC3339Nano s of
           Inr t \<Rightarrow> Inr t
         | Inl _ \<Rightarrow>
             (case parse RFC3339 s of
                Inl e \<Rightarrow> Inl (Wrapf (''invalid timestamp '' @ strconv_Quote isp s @ '': '') e)
              | Inr t \<Rightarrow> Inr t)))"

definition ellipsis :: string where "ellipsis = [CHR 0xE2, CHR 0x80, CHR 0xA6]"

definition summarizeToolUse :: "string \<Rightarrow> string \<Rightarrow> string" where
  "summarizeToolUse name input =
     (if input = [] then name
      else name @ '': '' @ (if length input > 256 then take 256 input @ ellipsis else input))"

definition extractUserRecord :: "(string \<Rightarrow> string) \<Rightarrow> string \<Rightarrow> time \<Rightarrow> rawLine \<Rightarrow> transcriptRecord list" where
  "extractUserRecord san source ts raw =
     (case rl_Content raw of
        None \<Rightarrow> []
      | Some items \<Rightarrow>
          (let b = Join (map rc_Text (filter (\<lambda>c. rc_Type c = ''text'' \<and> rc_Text c \<noteq> []) items)) eol in
           if b = [] then []
           else [\<lparr>tr_Source = source, tr_Kind = kindUserPrompt, tr_Tokens = [], tr_SeenAt = ts, tr_Body = san b\<rparr>]))"

definition extractAssistantRecords :: "(string \<Rightarrow> string) \<Rightarrow> string \<Rightarrow> time \<Rightarrow> rawLine \<Rightarrow> transcriptRecord list" where
  "extractAssistantRecords san source ts raw =
     (case rl_Content raw of
        None \<Rightarrow> []
      | Some items \<Rightarrow>
          map (\<lambda>c. \<lparr>tr_Source = source, tr_Kind = kindToolUse, tr_Tokens = [san (rc_Name c)], tr_SeenAt = ts,
                    tr_Body = san (summarizeToolUse (rc_Name c) (rc_Input c))\<rparr>)
            (filter (\<lambda>c. rc_Type c = ''tool_use'' \<and> rc_Name c \<noteq> []) items))"

record transcript_libs =
  tl_print :: "nat \<Rightarrow> bool"
  tl_decode :: "string \<Rightarrow> goerror + rawLine"
  tl_time :: "string \<Rightarrow> string \<Rightarrow> goerror + time"

definition parseTranscriptLine ::
  "transcript_libs \<Rightarrow> (string \<Rightarrow> string) \<Rightarrow> string \<Rightarrow> string \<Rightarrow> goerror + transcriptRecord list" where
  "parseTranscriptLine L san source line =
     (case tl_decode L line of
        Inl e \<Rightarrow> Inl (Wrapf ''invalid json: '' e)
      | Inr raw \<Rightarrow>
          (case parseTranscriptTimestamp (tl_print L) (tl_time L) (rl_Timestamp raw) of
             Inl e \<Rightarrow> Inl e
           | Inr seenAt \<Rightarrow>
               Inr (if rl_Type raw = ''user'' then extractUserRecord san source seenAt raw
                    else if rl_Type raw = ''assistant'' then extractAssistantRecords san source seenAt raw
                    else [])))"

text \<open>A line that is blank, too long or malformed is skipped.\<close>

definition maxRecordBytes :: nat where "maxRecordBytes = 262144"

definition transcript_line :: "transcript_libs \<Rightarrow> (string \<Rightarrow> string) \<Rightarrow> string \<Rightarrow> string \<Rightarrow> transcriptRecord list" where
  "transcript_line L san source line =
     (if TrimSpace line = [] then []
      else if length line > maxRecordBytes then []
      else (case parseTranscriptLine L san source line of Inl e \<Rightarrow> [] | Inr recs \<Rightarrow> recs))"

section \<open>Files\<close>

definition parseTranscriptFile ::
  "transcript_libs \<Rightarrow> (string \<Rightarrow> bool) \<Rightarrow> (string \<Rightarrow> string) \<Rightarrow> string \<Rightarrow> (lerror + transcriptRecord list) action"
where
  "parseTranscriptFile L isdir san path =
     pbind (if isdir path then faulty (\<lambda>ft d. (map_option f_err ft, d)) else os_Open' path) (\<lambda>op.
     case op of
       Some openErr \<Rightarrow> Return (Inl (runtimeError (''transcript: open '' @ path) (Some (OtherErr openErr))))
     | None \<Rightarrow>
         pbind (faulty (\<lambda>ft d. (map_option f_err ft, d))) (\<lambda>st.
         case st of
           Some statErr \<Rightarrow> Return (Inl (runtimeError (''transcript: stat '' @ path) (Some (OtherErr statErr))))
         | None \<Rightarrow>
             if isdir path then Return (Inl (runtimeError (''transcript: '' @ path @ '' is a directory'') None))
             else
               pbind (os_ReadAll path) (\<lambda>rd.
               let scan_error = (\<lambda>e. Inl (runtimeError (''transcript: scan '' @ path) (Some (OtherErr e)))) in
               Return
                 (case rd of
                    Inl scanErr \<Rightarrow> scan_error scanErr
                  | Inr text \<Rightarrow>
                      if \<not> scan_fits 4194304 text then
                        scan_error (Opaque ''*errors.errorString'' ''bufio.Scanner: token too long'')
                      else
                        Inr (concat (map (transcript_line L san (TrimSuffix (path_Base path) (path_Ext path)))
                               (scanner_lines text)))))))"

fun transcript_files :: "(string \<Rightarrow> (lerror + transcriptRecord list) action) \<Rightarrow> string list \<Rightarrow> transcriptRecord list action" where
  "transcript_files f [] = Return []"
| "transcript_files f (p # ps) =
     pbind (f p) (\<lambda>r. pbind (transcript_files f ps) (\<lambda>rest. Return (case r of Inl _ \<Rightarrow> rest | Inr recs \<Rightarrow> recs @ rest)))"

definition parseTranscriptDir ::
  "transcript_libs \<Rightarrow> dir_env \<Rightarrow> (string \<Rightarrow> string) \<Rightarrow> string \<Rightarrow> (lerror + transcriptRecord list) action" where
  "parseTranscriptDir L E san dir =
     (let read_error = (\<lambda>e. Return (Inl (runtimeError (''transcript: read dir '' @ dir) (Some (OtherErr e))))) in
      case de_tree E dir of
        Inl e \<Rightarrow> read_error (fe_err e)
      | Inr tree \<Rightarrow>
          (case dir_entries tree of
             Inl e \<Rightarrow> read_error e
           | Inr cs \<Rightarrow>
               pbind (transcript_files (\<lambda>p. parseTranscriptFile L (de_isdir E) san p)
                   (map (\<lambda>c. path_Join dir (fs_name c))
                     (filter (\<lambda>c. \<not> is_dir_node c \<and> MatchString uuidFilePattern (fs_name c)) cs))) (\<lambda>recs.
               Return (Inr recs))))"

end
