(* ===== verification/Mining.thy ===== *)
theory Mining
  imports IngestTranscript LearnStore
begin

text \<open>
  The mining of patterns (\<open>tools/learn/cmd_extract.go\<close>): records grouped into one token sequence for each source, the
  n-grams of the sequences with what is known of each, and the candidates that are made of the frequent ones.
\<close>

section \<open>Sequences\<close>

text \<open>
  \<open>sort.Slice\<close> is not stable: it gives some order of the indexes in which the keys ascend, that depends on their
  comparisons alone.  \<open>order\<close> is that choice for a list of keys.
\<close>

definition by_order :: "('k list \<Rightarrow> nat list) \<Rightarrow> ('a \<Rightarrow> 'k) \<Rightarrow> 'a list \<Rightarrow> 'a list" where
  "by_order order key xs = map (\<lambda>i. xs ! i) (order (map key xs))"

record slice_orders =
  so_times :: "time list \<Rightarrow> nat list"
  so_names :: "string list \<Rightarrow> nat list"

record sourceTokens =
  st_Source :: string
  st_Tokens :: "string list"
  st_First :: time
  st_Last :: time

text \<open>The map \<open>bySource\<close>: the entries of each source in the order they come.\<close>

fun add_entry :: "string \<Rightarrow> 'e \<Rightarrow> (string \<times> 'e list) list \<Rightarrow> (string \<times> 'e list) list" where
  "add_entry src e [] = [(src, [e])]"
| "add_entry src e ((s, es) # groups) = (if s = src then (s, es @ [e]) # groups else (s, es) # add_entry src e groups)"

definition group_entries :: "(string \<times> 'e) list \<Rightarrow> (string \<times> 'e list) list" where
  "group_entries xs = fold (\<lambda>(src, e). add_entry src e) xs []"

definition tool_sequence :: "slice_orders \<Rightarrow> string \<times> (time \<times> string) list \<Rightarrow> sourceTokens" where
  "tool_sequence ords g =
     (let es = by_order (so_times ords) fst (snd g) in
      \<lparr>st_Source = fst g, st_Tokens = map snd es, st_First = fst (hd es), st_Last = fst (last es)\<rparr>)"

definition buildToolSequences :: "slice_orders \<Rightarrow> transcriptRecord list \<Rightarrow> sourceTokens list" where
  "buildToolSequences ords recs =
     sort_key (\<lambda>s. bytes (st_Source s))
       (map (tool_sequence ords)
         (group_entries (map (\<lambda>r. (tr_Source r, (tr_SeenAt r, hd (tr_Tokens r))))
           (filter (\<lambda>r. tr_Kind r = ''transcript-tool-use'' \<and> tr_Tokens r \<noteq> []) recs))))"

text \<open>The leading name of a task is dropped.\<close>

definition file_tokens :: "specRecord \<Rightarrow> string list" where
  "file_tokens r =
     (case sr_Tokens r of [] \<Rightarrow> [] | t # ts \<Rightarrow> if 5 \<le> length t \<and> take 5 t = ''TASK-'' then ts else t # ts)"

definition file_sequence :: "slice_orders \<Rightarrow> string \<times> (time \<times> string list) list \<Rightarrow> sourceTokens" where
  "file_sequence ords g =
     (let es = by_order (so_times ords) fst (snd g) in
      \<lparr>st_Source = fst g, st_Tokens = concat (map snd es), st_First = fst (hd es), st_Last = fst (last es)\<rparr>)"

definition buildFileSequences :: "slice_orders \<Rightarrow> specRecord list \<Rightarrow> sourceTokens list" where
  "buildFileSequences ords recs =
     sort_key (\<lambda>s. bytes (st_Source s))
       (map (file_sequence ords)
         (group_entries (map (\<lambda>r. (sr_Source r, (sr_SeenAt r, file_tokens r)))
           (filter (\<lambda>r. sr_Kind r = specKindTask \<and> file_tokens r \<noteq> []) recs))))"

definition buildCommitSequences :: "slice_orders \<Rightarrow> gitRecord list \<Rightarrow> sourceTokens list" where
  "buildCommitSequences ords recs =
     by_order (so_names ords) st_Source
       (map (\<lambda>r. \<lparr>st_Source = gr_Source r, st_Tokens = gr_Tokens r, st_First = gr_SeenAt r, st_Last = gr_SeenAt r\<rparr>)
         (filter (\<lambda>r. gr_Tokens r \<noteq> []) recs))"

section \<open>Times of sources\<close>

type_synonym seenAtIndex = "string \<Rightarrow> time option"

definition newSeenAtIndex :: seenAtIndex where
  "newSeenAtIndex = (\<lambda>s. None)"

definition seenAt_record :: "string \<Rightarrow> time \<Rightarrow> seenAtIndex \<Rightarrow> seenAtIndex" where
  "seenAt_record source t idx =
     (case idx source of
        Some existing \<Rightarrow> if t < existing then idx(source \<mapsto> t) else idx
      | None \<Rightarrow> idx(source \<mapsto> t))"

definition recordSourcesFromTranscripts :: "transcriptRecord list \<Rightarrow> seenAtIndex \<Rightarrow> seenAtIndex" where
  "recordSourcesFromTranscripts = fold (\<lambda>r. seenAt_record (tr_Source r) (tr_SeenAt r))"

definition recordSourcesFromSpecs :: "specRecord list \<Rightarrow> seenAtIndex \<Rightarrow> seenAtIndex" where
  "recordSourcesFromSpecs = fold (\<lambda>r. seenAt_record (sr_Source r) (sr_SeenAt r))"

definition recordSourcesFromGit :: "gitRecord list \<Rightarrow> seenAtIndex \<Rightarrow> seenAtIndex" where
  "recordSourcesFromGit = fold (\<lambda>r. seenAt_record (gr_Source r) (gr_SeenAt r))"

section \<open>Mining\<close>

definition extractNGramSizes :: "nat list" where
  "extractNGramSizes = [2, 3, 4]"

definition joinNGram :: "string list \<Rightarrow> string" where
  "joinNGram tokens =
     (case tokens of [] \<Rightarrow> [] | [t] \<Rightarrow> t | t # ts \<Rightarrow> fold (\<lambda>t buf. buf @ patternSep @ t) ts t)"

text \<open>What the zero value of \<open>time.Time\<close> is.\<close>

definition zero_time :: time where
  "zero_time = instant zero_date"

record ngram_acc =
  na_count :: int
  na_contexts :: "string list"
  na_first :: time
  na_last :: time

definition new_acc :: ngram_acc where
  "new_acc = \<lparr>na_count = 0, na_contexts = [], na_first = zero_time, na_last = zero_time\<rparr>"

definition seen_in :: "sourceTokens \<Rightarrow> ngram_acc \<Rightarrow> ngram_acc" where
  "seen_in src a =
     \<lparr>na_count = na_count a + 1,
      na_contexts = List.insert (st_Source src) (na_contexts a),
      na_first = (if na_first a = zero_time \<or> st_First src < na_first a then st_First src else na_first a),
      na_last = (if st_Last src > na_last a then st_Last src else na_last a)\<rparr>"

fun note_ngram :: "sourceTokens \<Rightarrow> string \<Rightarrow> (string \<times> ngram_acc) list \<Rightarrow> (string \<times> ngram_acc) list" where
  "note_ngram src sig [] = [(sig, seen_in src new_acc)]"
| "note_ngram src sig ((s, a) # accs) = (if s = sig then (s, seen_in src a) # accs else (s, a) # note_ngram src sig accs)"

definition note_source :: "nat \<Rightarrow> sourceTokens \<Rightarrow> (string \<times> ngram_acc) list \<Rightarrow> (string \<times> ngram_acc) list" where
  "note_source k src accs =
     (let toks = st_Tokens src in
      if length toks < k then accs
      else fold (note_ngram src) (map (\<lambda>i. joinNGram (take k (drop i toks))) [0..<Suc (length toks - k)]) accs)"

definition mine_accs :: "sourceTokens list \<Rightarrow> (string \<times> ngram_acc) list" where
  "mine_accs sources = fold (\<lambda>k. fold (note_source k) sources) extractNGramSizes []"

definition max_count :: "int \<Rightarrow> (string \<times> ngram_acc) list \<Rightarrow> int" where
  "max_count minFreq accs =
     fold (\<lambda>(s, a) m. if na_count a \<ge> minFreq \<and> na_count a > m then na_count a else m) accs 0"

definition candidate_of :: "patternKind \<Rightarrow> int \<Rightarrow> string \<times> ngram_acc \<Rightarrow> patternCandidate" where
  "candidate_of kind maxCount sa =
     (case sa of (sig, a) \<Rightarrow>
        (let first0 = (if na_first a = zero_time then na_last a else na_first a);
             (since, until) = (if first0 > na_last a then (na_last a, first0) else (first0, na_last a))
         in \<lparr>pc_Kind = kind, pc_Signature = sig, pc_Frequency = na_count a,
             pc_Contexts = Some (sort_Strings (na_contexts a)), pc_Score = scorePattern (na_count a) maxCount,
             pc_FirstSeenAt = since, pc_LastSeenAt = until\<rparr>))"

text \<open>The index of times is not used; the candidates come in no particular order, here that of their first occurrence.\<close>

definition mineKind :: "patternKind \<Rightarrow> sourceTokens list \<Rightarrow> int \<Rightarrow> seenAtIndex \<Rightarrow> patternCandidate list" where
  "mineKind kind sources minFreq idx =
     (if sources = [] then []
      else
        (let accs = mine_accs sources in
         map (candidate_of kind (max_count minFreq accs)) (filter (\<lambda>(sig, a). \<not> na_count a < minFreq) accs)))"

definition candidate_key :: "patternCandidate \<Rightarrow> nat list \<times> nat list" where
  "candidate_key c = (bytes (pc_Kind c), bytes (pc_Signature c))"

definition mine_all ::
  "slice_orders \<Rightarrow> int \<Rightarrow> transcriptRecord list \<Rightarrow> specRecord list \<Rightarrow> gitRecord list \<Rightarrow> patternCandidate list" where
  "mine_all ords minFreq transcripts specs commits =
     (let seenAt = recordSourcesFromGit commits (recordSourcesFromSpecs specs (recordSourcesFromTranscripts transcripts newSeenAtIndex))
      in sort_key candidate_key
           (mineKind kindToolSequence (buildToolSequences ords transcripts) minFreq seenAt
            @ mineKind kindFileSequence (buildFileSequences ords specs) minFreq seenAt
            @ mineKind kindCommitPattern (buildCommitSequences ords commits) minFreq seenAt))"

section \<open>Lines of candidates\<close>

text \<open>A time outside the years of four digits has no JSON.\<close>

definition json_time :: "time \<Rightarrow> goerror + string" where
  "json_time t =
     (let y = fst (date_of t) in
      if y < 0 \<or> 9999 < y then
        Inl (Opaque ''*json.MarshalerError'' (''json: error calling MarshalJSON for type time.Time: ''
          @ ''Time.MarshalJSON: year outside of range [0,9999]''))
      else Inr (json_quote (Format_RFC3339Nano t)))"

definition json_strings :: "string list option \<Rightarrow> string" where
  "json_strings ss = json_encode (case ss of None \<Rightarrow> ANil | Some xs \<Rightarrow> AList (map AString xs))"

text \<open>\<open>float\<close> is how the encoder prints a number.\<close>

definition marshalCandidate :: "(float64 \<Rightarrow> string) \<Rightarrow> patternCandidate option \<Rightarrow> lerror + string" where
  "marshalCandidate float oc =
     (case oc of
        None \<Rightarrow> Inl (errors_New ''marshal: candidate is nil'')
      | Some c \<Rightarrow>
          (let marshal_error = (\<lambda>e. Inl (WrapErr ''marshal candidate: '' (OtherErr e))) in
           case json_time (pc_FirstSeenAt c) of
             Inl e \<Rightarrow> marshal_error e
           | Inr since \<Rightarrow>
               (case json_time (pc_LastSeenAt c) of
                  Inl e \<Rightarrow> marshal_error e
                | Inr until \<Rightarrow>
                    Inr (''{'' @ json_quote ''kind'' @ '':'' @ json_quote (pc_Kind c)
                      @ '','' @ json_quote ''signature'' @ '':'' @ json_quote (pc_Signature c)
                      @ '','' @ json_quote ''frequency'' @ '':'' @ int_text (pc_Frequency c)
                      @ '','' @ json_quote ''contexts'' @ '':'' @ json_strings (pc_Contexts c)
                      @ '','' @ json_quote ''score'' @ '':'' @ float (pc_Score c)
                      @ '','' @ json_quote ''first_seen_at'' @ '':'' @ since
                      @ '','' @ json_quote ''last_seen_at'' @ '':'' @ until @ ''}'' @ eol))))"

text \<open>\<open>decode\<close> is the decoder that refuses unknown fields.\<close>

definition unmarshalCandidateStrict :: "(string \<Rightarrow> goerror + patternCandidate) \<Rightarrow> string \<Rightarrow> lerror + patternCandidate" where
  "unmarshalCandidateStrict decode line =
     (case decode (trim_eols line) of
        Inl e \<Rightarrow> Inl (WrapErr ''unmarshal candidate: '' (OtherErr e))
      | Inr c \<Rightarrow> Inr c)"

end
