(* ===== verification/Extract.thy ===== *)
theory Extract
  imports Mining
begin

text \<open>
  The command that extracts candidates (\<open>tools/learn/cmd_extract.go\<close>): it reads the four sources as far as they can be
  read, mines them, replaces the file of candidates, and stores them with their patterns.  Lines of the log are not
  modelled, and a run is not cancelled.
\<close>

section \<open>Sources\<close>

record extractOpts =
  eo_DBPath :: string
  eo_ConfigPath :: string
  eo_SpecsDir :: string
  eo_RepoDir :: string
  eo_TranscriptsDir :: string
  eo_MemoryDir :: string
  eo_Since :: duration
  eo_Out :: string
  eo_MinFreqOverride :: gint
  eo_Config :: "loopConfig option"

text \<open>
  What a run takes from outside: the libraries, the directories, Git, what the clock shows while a specification is
  parsed, the orders that sorting chooses, and the random parts of temporary names.
\<close>

record extract_env =
  ee_print :: "nat \<Rightarrow> bool"
  ee_config :: config_libs
  ee_getenv :: "string \<Rightarrow> string option"
  ee_compile :: "string \<Rightarrow> goerror + replacer"
  ee_time :: "string \<Rightarrow> string \<Rightarrow> goerror + time"
  ee_dirs :: dir_env
  ee_spec_now :: "string \<Rightarrow> time"
  ee_spec_clock :: "string \<Rightarrow> nat \<Rightarrow> time"
  ee_getwd :: "goerror + string"
  ee_git :: "string list \<Rightarrow> git_result"
  ee_transcripts :: transcript_libs
  ee_memory :: "string \<Rightarrow> goerror + memoryFrontmatter"
  ee_mtime :: "string \<Rightarrow> time"
  ee_orders :: slice_orders
  ee_float :: "float64 \<Rightarrow> string"
  ee_random :: "string list"

text \<open>A record before the window is left out; without a window its start is the zero time.\<close>

definition in_window :: "time \<Rightarrow> time \<Rightarrow> bool" where
  "in_window windowStart t \<longleftrightarrow> \<not> (windowStart \<noteq> zero_time \<and> t < windowStart)"

fun parse_specs :: "(string \<Rightarrow> (lerror + specRecord list) action) \<Rightarrow> time \<Rightarrow> string list \<Rightarrow> specRecord list action" where
  "parse_specs f windowStart [] = Return []"
| "parse_specs f windowStart (p # ps) =
     pbind (f p) (\<lambda>r. pbind (parse_specs f windowStart ps) (\<lambda>rest.
       Return (case r of Inl _ \<Rightarrow> rest | Inr recs \<Rightarrow> filter (\<lambda>r. in_window windowStart (sr_SeenAt r)) recs @ rest)))"

definition spec_entry :: "fsnode \<Rightarrow> bool" where
  "spec_entry c \<longleftrightarrow> \<not> is_dir_node c \<and> 4 \<le> length (fs_name c) \<and> HasSuffix (fs_name c) ''.md''"

definition ingestSpecs :: "extract_env \<Rightarrow> string \<Rightarrow> (string \<Rightarrow> string) \<Rightarrow> time \<Rightarrow> specRecord list action" where
  "ingestSpecs E specsDir san windowStart =
     (if specsDir = [] then Return []
      else
        (case de_tree (ee_dirs E) specsDir of
           Inl readErr \<Rightarrow> Return []
         | Inr tree \<Rightarrow>
             (case dir_entries tree of
                Inl readErr \<Rightarrow> Return []
              | Inr cs \<Rightarrow>
                  parse_specs (\<lambda>p. parseSpecRecords (ee_time E) (ee_spec_clock E p) san (ee_spec_now E p) p) windowStart
                    (map (\<lambda>c. specsDir @ ''/'' @ fs_name c) (filter spec_entry cs)))))"

text \<open>
  The whole seconds of a duration, as \<open>int64(d.Seconds())\<close> computes them: the part below a second is a float, and so is
  the sum, which may round up to the next second.
\<close>

definition whole_seconds :: "duration \<Rightarrow> int" where
  "whole_seconds d =
     (let sec = d div 10 ^ 9; nsec = d mod 10 ^ 9 in
      if nsec = 0 then sec
      else
        (let part = f64_ratio nsec (10 ^ 9); k = nat (- f_exp part);
             sum = f64_ratio (sec * 2 ^ k + f_mant part) (2 ^ k)
         in f_mant sum div 2 ^ nat (- f_exp sum)))"

definition ingestGit :: "extract_env \<Rightarrow> string \<Rightarrow> duration \<Rightarrow> (string \<Rightarrow> string) \<Rightarrow> gitRecord list" where
  "ingestGit E repoDir since san =
     (if repoDir = [] then []
      else
        (let opts = \<lparr>go_Since = (if since > 0 then int_text (whole_seconds since) @ '' seconds ago'' else []), go_MaxCommits = 0\<rparr>
         in case parseGitLog (ee_print E) (ee_time E) (ee_getwd E) (ee_git E) None repoDir opts (Some san) of
              Inl parseErr \<Rightarrow> []
            | Inr (recs, lines) \<Rightarrow> recs))"

definition ingestTranscripts :: "extract_env \<Rightarrow> string \<Rightarrow> (string \<Rightarrow> string) \<Rightarrow> time \<Rightarrow> transcriptRecord list action" where
  "ingestTranscripts E transcriptsDir san windowStart =
     (if transcriptsDir = [] then Return []
      else
        pbind (parseTranscriptDir (ee_transcripts E) (ee_dirs E) san transcriptsDir) (\<lambda>r.
        Return
          (case r of
             Inl parseErr \<Rightarrow> []
           | Inr recs \<Rightarrow>
               if windowStart = zero_time then recs else filter (\<lambda>r. \<not> tr_SeenAt r < windowStart) recs)))"

definition ingestMemory :: "extract_env \<Rightarrow> string \<Rightarrow> (string \<Rightarrow> string) \<Rightarrow> memoryRecord list action" where
  "ingestMemory E memoryDir san =
     (if memoryDir = [] then Return []
      else
        pbind (parseMemoryDir (ee_print E) (ee_memory E) (ee_mtime E) (ee_dirs E) None memoryDir [] (Some san)) (\<lambda>r.
        Return (case r of Inl parseErr \<Rightarrow> [] | Inr recs \<Rightarrow> recs)))"

section \<open>The file of candidates\<close>

definition dirOf :: "string \<Rightarrow> string" where
  "dirOf path =
     (if CHR ''/'' \<notin> set path then ''.''
      else (let before = rev (tl (dropWhile (\<lambda>c. c \<noteq> CHR ''/'') (rev path))) in if before = [] then ''/'' else before))"

text \<open>\<open>os.CreateTemp\<close> tries names until one is free.\<close>

definition temp_name :: "string \<Rightarrow> string \<Rightarrow> string" where
  "temp_name dir r = (if HasSuffix dir ''/'' then dir else dir @ ''/'') @ ''.candidates-'' @ r @ ''.tmp''"

definition os_CreateTemp :: "string list \<Rightarrow> string \<Rightarrow> (goerror + string) action" where
  "os_CreateTemp random dir = faulty (\<lambda>ft d.
     case ft of
       Some f \<Rightarrow> (Inl (f_err f), d)
     | None \<Rightarrow>
         (case find (\<lambda>r. file_at d (temp_name dir r) = None) random of
            None \<Rightarrow> (Inl (Opaque ''*fs.PathError'' (''createtemp '' @ temp_name dir ''*'' @ '': file exists'')), d)
          | Some r \<Rightarrow> (Inr (temp_name dir r), set_file (temp_name dir r) (Some []) d)))"

definition os_Sync :: "goerror option action" where
  "os_Sync = faulty (\<lambda>ft d. (map_option f_err ft, d))"

definition os_Close :: "goerror option action" where
  "os_Close = faulty (\<lambda>ft d. (map_option f_err ft, d))"

definition close_and_remove :: "string \<Rightarrow> lerror \<Rightarrow> lerror option action" where
  "close_and_remove tmpPath e = pbind os_Close (\<lambda>_. pbind (os_Remove tmpPath) (\<lambda>_. Return (Some e)))"

fun write_candidates :: "(float64 \<Rightarrow> string) \<Rightarrow> string \<Rightarrow> nat \<Rightarrow> patternCandidate list \<Rightarrow> lerror option action" where
  "write_candidates float tmpPath i [] = Return None"
| "write_candidates float tmpPath i (c # cs) =
     (case marshalCandidate float (Some c) of
        Inl marshalErr \<Rightarrow> close_and_remove tmpPath (runtimef_w (''extract: marshal candidate '' @ int_text (int i)) marshalErr)
      | Inr line \<Rightarrow>
          pbind (os_AppendWrite tmpPath line) (\<lambda>wr.
          case wr of
            Some writeErr \<Rightarrow>
              close_and_remove tmpPath (runtimef_w (''extract: write candidate '' @ int_text (int i)) (OtherErr writeErr))
          | None \<Rightarrow> write_candidates float tmpPath (Suc i) cs))"

text \<open>What follows the last line: the temporary file takes the place of the old one, or it is removed.\<close>

definition finish_candidates :: "extract_env \<Rightarrow> string \<Rightarrow> string \<Rightarrow> lerror option action" where
  "finish_candidates E path tmpPath =
     pbind os_Sync (\<lambda>sync.
     case sync of
       Some syncErr \<Rightarrow> close_and_remove tmpPath (runtimef_w ''extract: sync output'' (OtherErr syncErr))
     | None \<Rightarrow>
         pbind os_Close (\<lambda>closed.
         case closed of
           Some closeErr \<Rightarrow>
             pbind (os_Remove tmpPath) (\<lambda>_. Return (Some (runtimef_w ''extract: close output'' (OtherErr closeErr))))
         | None \<Rightarrow>
             pbind (os_Rename tmpPath path) (\<lambda>renamed.
             case renamed of
               Some renameErr \<Rightarrow>
                 pbind (os_Remove tmpPath) (\<lambda>_. Return (Some (runtimef_w
                   (''extract: rename '' @ strconv_Quote (ee_print E) tmpPath @ patternSep @ strconv_Quote (ee_print E) path)
                   (OtherErr renameErr))))
             | None \<Rightarrow> Return None)))"

definition writeCandidatesFile :: "extract_env \<Rightarrow> string \<Rightarrow> patternCandidate list \<Rightarrow> lerror option action" where
  "writeCandidatesFile E path candidates =
     pbind (os_CreateTemp (ee_random E) (dirOf path)) (\<lambda>tmp.
     case tmp of
       Inl createErr \<Rightarrow> Return (Some (runtimef_w ''extract: create temp output'' (OtherErr createErr)))
     | Inr tmpPath \<Rightarrow>
         pbind (write_candidates (ee_float E) tmpPath 0 candidates) (\<lambda>written.
         case written of
           Some e \<Rightarrow> Return (Some e)
         | None \<Rightarrow> finish_candidates E path tmpPath))"

section \<open>The tables\<close>

definition next_pattern_id :: "pattern_row list \<Rightarrow> int" where
  "next_pattern_id rows = (if rows = [] then 1 else Max (set (map pr_id rows)) + 1)"

definition next_candidate_id :: "candidate_row list \<Rightarrow> int" where
  "next_candidate_id rows = (if rows = [] then 1 else Max (set (map cr_id rows)) + 1)"

text \<open>The signature is unique; a row that is there keeps its kind and when it was first seen.\<close>

definition upsert_pattern :: "patternCandidate \<Rightarrow> disk \<Rightarrow> goerror + int \<times> disk" where
  "upsert_pattern c d =
     (case find (\<lambda>r. pr_signature r = pc_Signature c) (d_patterns d) of
        Some old \<Rightarrow>
          Inr (pr_id old, d\<lparr>d_patterns := map (\<lambda>r. if pr_signature r = pc_Signature c then
                  r\<lparr>pr_frequency := pc_Frequency c, pr_last_seen := Format_RFC3339Nano (pc_LastSeenAt c), pr_score := pc_Score c\<rparr>
                else r) (d_patterns d)\<rparr>)
      | None \<Rightarrow>
          (let i = next_pattern_id (d_patterns d) in
           Inr (i, d\<lparr>d_patterns := d_patterns d @ [\<lparr>pr_id = i, pr_kind = pc_Kind c, pr_signature = pc_Signature c,
                     pr_frequency = pc_Frequency c, pr_first_seen = Format_RFC3339Nano (pc_FirstSeenAt c),
                     pr_last_seen = Format_RFC3339Nano (pc_LastSeenAt c), pr_score = pc_Score c\<rparr>]\<rparr>)))"

definition insert_candidate :: "int \<Rightarrow> string \<Rightarrow> float64 \<Rightarrow> string \<Rightarrow> disk \<Rightarrow> goerror + unit \<times> disk" where
  "insert_candidate patternID contextsJSON score created d =
     (if patternID \<notin> pr_id ` set (d_patterns d) then Inl foreign_key_failed
      else
        Inr ((), d\<lparr>d_candidates := d_candidates d @ [\<lparr>cr_id = next_candidate_id (d_candidates d), cr_pattern = patternID,
                   cr_contexts = contextsJSON, cr_score = score, cr_created_at = created\<rparr>]\<rparr>))"

fun persist_each :: "extract_env \<Rightarrow> time \<Rightarrow> patternCandidate list \<Rightarrow> lerror option action" where
  "persist_each E now [] = Return None"
| "persist_each E now (c # cs) =
     pbind (sql (upsert_pattern c)) (\<lambda>scan.
     case scan of
       Inl scanErr \<Rightarrow>
         Return (Some (runtimef_w (''extract: upsert pattern '' @ strconv_Quote (ee_print E) (pc_Signature c)) (OtherErr scanErr)))
     | Inr patternID \<Rightarrow>
         pbind (sql (insert_candidate patternID (json_strings (pc_Contexts c)) (pc_Score c) (Format_RFC3339Nano now))) (\<lambda>ins.
         case ins of
           Inl execErr \<Rightarrow> Return (Some (runtimef_w ''extract: insert candidate row'' (OtherErr execErr)))
         | Inr _ \<Rightarrow> persist_each E now cs))"

definition persistCandidates :: "extract_env \<Rightarrow> string \<Rightarrow> patternCandidate list \<Rightarrow> time \<Rightarrow> lerror option action" where
  "persistCandidates E dbPath candidates now =
     (if dbPath = [] then Return None
      else
        pbind (openStore (ee_print E) dbPath) (\<lambda>op.
        case op of
          Some openErr \<Rightarrow> Return (Some (runtimef_w ''extract: open store'' openErr))
        | None \<Rightarrow> persist_each E now candidates))"

section \<open>The command\<close>

definition defaultOutFile :: string where
  "defaultOutFile = ''candidates.jsonl''"

text \<open>The sources as they were read.\<close>

definition ingest_all ::
  "extract_env \<Rightarrow> extractOpts \<Rightarrow> (string \<Rightarrow> string) \<Rightarrow> time \<Rightarrow> (transcriptRecord list \<times> specRecord list \<times> gitRecord list) action" where
  "ingest_all E opts san now =
     (let windowStart = (if eo_Since opts > 0 then now - eo_Since opts else zero_time) in
      pbind (ingestSpecs E (eo_SpecsDir opts) san windowStart) (\<lambda>specRecs.
      pbind (ingestTranscripts E (eo_TranscriptsDir opts) san windowStart) (\<lambda>transcriptRecs.
      pbind (ingestMemory E (eo_MemoryDir opts) san) (\<lambda>memoryRecs.
      Return (transcriptRecs, specRecs, ingestGit E (eo_RepoDir opts) (eo_Since opts) san)))))"

definition write_and_persist :: "extract_env \<Rightarrow> extractOpts \<Rightarrow> time \<Rightarrow> patternCandidate list \<Rightarrow> lerror option action" where
  "write_and_persist E opts now candidates =
     pbind (writeCandidatesFile E (if eo_Out opts = [] then defaultOutFile else eo_Out opts) candidates) (\<lambda>wr.
     case wr of
       Some writeErr \<Rightarrow> Return (Some writeErr)
     | None \<Rightarrow> persistCandidates E (eo_DBPath opts) candidates now)"

definition runExtract :: "extract_env \<Rightarrow> time \<Rightarrow> extractOpts \<Rightarrow> lerror option action" where
  "runExtract E now opts =
     pbind (config_or_load (ee_print E) (ee_config E) (ee_getenv E) (eo_Config opts) (eo_ConfigPath opts)) (\<lambda>ld.
     case ld of
       Inl loadErr \<Rightarrow> Return (Some (runtimef_w ''extract: load config'' loadErr))
     | Inr cfg \<Rightarrow>
         (let minFreq = (if 0 <s eo_MinFreqOverride opts then eo_MinFreqOverride opts else lc_MinPatternFreq cfg) in
          if minFreq <s 1 then
            Return (Some (usagef (''extract: min_pattern_freq must be >= 1, got '' @ int_text (sint minFreq))))
          else
            (case newSanitizerFromConfig (ee_print E) (ee_compile E) (lc_SecretPatterns cfg) of
               Inl sanErr \<Rightarrow> Return (Some (runtimef_w ''extract: build sanitizer'' sanErr))
             | Inr san \<Rightarrow>
                 pbind (ingest_all E opts (sanitize san) now) (\<lambda>(transcriptRecs, specRecs, gitRecs).
                 write_and_persist E opts now (mine_all (ee_orders E) (sint minFreq) transcriptRecs specRecs gitRecs)))))"

end
