(* ===== verification/StoreProofs.thy ===== *)
theory StoreProofs
  imports Reindex RecordDecision DecisionProofs Extract
begin

text \<open>
  The tables of the store stay well formed under every command and every fault, uses are counted, and what reindexing
  keeps.
\<close>

section \<open>Programs of the learning tool\<close>

lemma keeps_ferror [keep_intros]:
  "(\<And>y. keeps P (g1 y)) \<Longrightarrow> (\<And>y. keeps P (h1 y)) \<Longrightarrow> keeps P (case e of NotExist y \<Rightarrow> g1 y | OtherIO y \<Rightarrow> h1 y)"
  by (auto split: ferror.split)

section \<open>Well-formed tables\<close>

text \<open>An index and its uses: paths are keys, a use refers to a row, and a count is positive.\<close>

definition table_ok :: "index_row list \<Rightarrow> usage_row list \<Rightarrow> bool" where
  "table_ok rows uses \<longleftrightarrow> distinct (map ix_path rows) \<and> distinct (map us_path uses)
     \<and> us_path ` set uses \<subseteq> ix_path ` set rows \<and> (\<forall>u\<in>set uses. 0 < us_count u)"

lemma put_row_paths: "ix_path ` set (put_row e rs) = insert (ix_path e) (ix_path ` set rs)"
  by (induction e rs rule: put_row.induct) auto

lemma put_row_distinct: "distinct (map ix_path rs) \<Longrightarrow> distinct (map ix_path (put_row e rs))"
  by (induction e rs rule: put_row.induct) (auto simp: put_row_paths simp flip: image_set)

lemma bump_use_paths: "us_path ` set (bump_use p ts us) = insert p (us_path ` set us)"
  by (induction p ts us rule: bump_use.induct) auto

lemma bump_use_distinct: "distinct (map us_path us) \<Longrightarrow> distinct (map us_path (bump_use p ts us))"
  by (induction p ts us rule: bump_use.induct) (auto simp: bump_use_paths simp flip: image_set)

lemma bump_use_positive: "\<forall>u\<in>set us. 0 < us_count u \<Longrightarrow> \<forall>u\<in>set (bump_use p ts us). 0 < us_count u"
  by (induction p ts us rule: bump_use.induct) auto

lemma table_ok_put [simp]: "table_ok rows uses \<Longrightarrow> table_ok (put_row e rows) uses"
  by (auto simp: table_ok_def put_row_distinct put_row_paths)

lemma table_ok_bump [simp]: "table_ok rows uses \<Longrightarrow> p \<in> ix_path ` set rows \<Longrightarrow> table_ok rows (bump_use p ts uses)"
  using bump_use_positive [of uses p ts] by (simp add: table_ok_def bump_use_distinct bump_use_paths)

lemma table_ok_delete: "table_ok rows uses \<Longrightarrow> delete_row p uses rows = Inr rows' \<Longrightarrow> table_ok rows' uses"
proof -
  assume ok: "table_ok rows uses" and del: "delete_row p uses rows = Inr rows'"
  then have rows': "rows' = filter (\<lambda>r. ix_path r \<noteq> p) rows" and p: "p \<notin> us_path ` set uses"
    by (auto simp: table_ok_def delete_row_def split: if_splits)
  have "us_path ` set uses \<subseteq> ix_path ` set rows'"
  proof
    fix q assume q: "q \<in> us_path ` set uses"
    have "us_path ` set uses \<subseteq> ix_path ` set rows" using ok by (simp add: table_ok_def)
    then have "q \<in> ix_path ` set rows" using q by (rule subsetD)
    then obtain r where r: "r \<in> set rows" "ix_path r = q" by (elim imageE) simp
    have "q \<noteq> p"
      using p q by metis
    then have "r \<in> set rows'" using r unfolding rows' by simp
    then show "q \<in> ix_path ` set rows'" using r(2) by blast
  qed
  moreover have "distinct (map ix_path rows')" using ok rows' distinct_map_filter unfolding table_ok_def by blast
  ultimately show "table_ok rows' uses" using ok unfolding table_ok_def by blast
qed

text \<open>The patterns and their candidates: both are numbered, a signature occurs once, and a candidate refers to a pattern.\<close>

definition mined_ok :: "pattern_row list \<Rightarrow> candidate_row list \<Rightarrow> bool" where
  "mined_ok rows cands \<longleftrightarrow> distinct (map pr_id rows) \<and> distinct (map pr_signature rows) \<and> distinct (map cr_id cands)
     \<and> cr_pattern ` set cands \<subseteq> pr_id ` set rows"

lemma next_id_new: "finite A \<Longrightarrow> (if A = {} then 1 else Max A + 1) \<notin> A" for A :: "int set"
  by (auto dest: Max_ge)

lemma mined_ok_upsert:
  assumes "mined_ok (d_patterns d) cands" and "upsert_pattern c d = Inr (i, d')"
  shows "mined_ok (d_patterns d') cands"
proof (cases "find (\<lambda>r. pr_signature r = pc_Signature c) (d_patterns d)")
  case None
  then have "pc_Signature c \<notin> pr_signature ` set (d_patterns d)" by (auto simp: find_None_iff)
  moreover have "next_pattern_id (d_patterns d) \<notin> pr_id ` set (d_patterns d)"
    using next_id_new [of "pr_id ` set (d_patterns d)"] by (simp add: next_pattern_id_def split: if_splits)
  ultimately show ?thesis using assms None by (auto simp: upsert_pattern_def mined_ok_def Let_def)
next
  case (Some old)
  then have "map pr_id (d_patterns d') = map pr_id (d_patterns d)" "map pr_signature (d_patterns d') = map pr_signature (d_patterns d)"
    using assms(2) by (auto simp: upsert_pattern_def)
  then show ?thesis using assms(1) unfolding mined_ok_def by (metis image_set)
qed

lemma mined_ok_insert:
  assumes "mined_ok (d_patterns d) (d_candidates d)" and "insert_candidate i ctx score t d = Inr (u, d')"
  shows "mined_ok (d_patterns d') (d_candidates d')"
  using assms next_id_new [of "cr_id ` set (d_candidates d)"]
  by (auto simp: insert_candidate_def mined_ok_def next_candidate_id_def image_subset_iff split: if_splits)

definition store_ok :: "disk \<Rightarrow> bool" where
  "store_ok d \<longleftrightarrow> table_ok (d_skills d) (d_skill_usage d) \<and> table_ok (d_memories d) (d_memory_usage d)
     \<and> mined_ok (d_patterns d) (d_candidates d)"

lemma store_ok_other [simp]:
  "store_ok (d\<lparr>d_faults := fs\<rparr>) = store_ok d" "store_ok (set_file p c d) = store_ok d" "store_ok (d\<lparr>d_out := s\<rparr>) = store_ok d"
  "store_ok (d\<lparr>d_decisions := rows\<rparr>) = store_ok d" "store_ok (d\<lparr>d_events := evs\<rparr>) = store_ok d"
  "store_ok (d\<lparr>d_counter := n\<rparr>) = store_ok d" "store_ok (d\<lparr>d_counter := n, d_last_nudge := t\<rparr>) = store_ok d"
  by (simp_all add: store_ok_def set_file_def)

lemma keeps_faulty: "(\<And>ft d. store_ok d \<Longrightarrow> store_ok (snd (f ft d))) \<Longrightarrow> keeps store_ok (faulty f)"
  by (auto simp: keeps_def faulty_def split: list.split)

lemma keeps_calls [keep_intros]:
  "keeps store_ok (os_ReadFile' p)" "keeps store_ok (os_Stat p)" "keeps store_ok (os_WriteFile' p c)" "keeps store_ok (os_MkdirAll p)"
  "keeps store_ok (os_Chmod p)" "keeps store_ok (os_Rename a b)" "keeps store_ok (os_Remove p)" "keeps store_ok (os_OpenAppend p)"
  "keeps store_ok (os_AppendWrite p s)" "keeps store_ok (print s)"
  unfolding calls by (auto intro!: keeps_faulty simp: Let_def split: option.split)

lemma keeps_sql: "(\<And>d r d'. store_ok d \<Longrightarrow> f d = Inr (r, d') \<Longrightarrow> store_ok d') \<Longrightarrow> keeps store_ok (sql f)"
  unfolding sql_def by (auto intro!: keeps_faulty split: option.split sum.split)

lemma keeps_stmt: "(\<And>d r d'. store_ok d \<Longrightarrow> f d = Inr (r, d') \<Longrightarrow> store_ok d') \<Longrightarrow> keeps store_ok (stmt what f)"
  unfolding stmt_def by (intro keep_intros keeps_sql)

lemma keeps_statements [keep_intros]:
  "keeps store_ok (InsertEvent ev)" "keeps store_ok IncrementNudgeCounter" "keeps store_ok (MarkNudgeRun t)"
  "keeps store_ok (UpsertSkillIndex isp e)" "keeps store_ok (UpsertMemoryIndex isp e)"
  unfolding InsertEvent_def IncrementNudgeCounter_def MarkNudgeRun_def UpsertSkillIndex_def UpsertMemoryIndex_def
  by (rule keeps_stmt; auto simp: store_ok_def)+

lemma keeps_usage [keep_intros]:
  "keeps store_ok (IncrementSkillUsage isp p t)" "keeps store_ok (IncrementMemoryUsage isp p t)"
  "keeps store_ok (ListDeprecationCandidates isp parse now ttl)"
  unfolding IncrementSkillUsage_def IncrementMemoryUsage_def ListDeprecationCandidates_def
  by (intro keep_intros keeps_stmt; auto simp: store_ok_def Let_def split: if_splits)+

lemma keeps_deletes [keep_intros]: "keeps store_ok (DeleteOrphanSkill isp p)" "keeps store_ok (DeleteOrphanMemory isp p)"
  unfolding DeleteOrphanSkill_def DeleteOrphanMemory_def
  by (rule keeps_stmt; auto simp: store_ok_def dest: table_ok_delete split: sum.splits)+

lemma keeps_decisions [keep_intros]:
  "keeps store_ok (sql (insert_decision sig act target rationale diff ts))" "keeps store_ok (sql (delete_decision i))"
  "keeps store_ok (sql (mark_applied i ts))" "keeps store_ok (sql (select_decision i))"
  by (rule keeps_sql; auto simp: insert_decision_def delete_decision_def mark_applied_def select_decision_def Let_def split: if_splits)+

lemma keeps_patterns [keep_intros]: "keeps store_ok (sql (upsert_pattern c))" "keeps store_ok (sql (insert_candidate i ctx score t))"
proof -
  show "keeps store_ok (sql (upsert_pattern c))"
  proof (rule keeps_sql)
    fix d i d' assume "store_ok d" "upsert_pattern c d = Inr (i, d')"
    moreover from this(2) have "d_skills d' = d_skills d" "d_skill_usage d' = d_skill_usage d" "d_memories d' = d_memories d"
      "d_memory_usage d' = d_memory_usage d" "d_candidates d' = d_candidates d"
      by (auto simp: upsert_pattern_def Let_def split: option.splits)
    ultimately show "store_ok d'" using mined_ok_upsert [of d "d_candidates d" c i d'] by (simp add: store_ok_def)
  qed
  show "keeps store_ok (sql (insert_candidate i ctx score t))"
  proof (rule keeps_sql)
    fix d u d' assume "store_ok d" "insert_candidate i ctx score t d = Inr (u, d')"
    then show "store_ok d'" using mined_ok_insert [of d i ctx score t u d']
      by (auto simp: store_ok_def insert_candidate_def split: if_splits)
  qed
qed

lemma keeps_reads [keep_intros]: "keeps store_ok (sql (\<lambda>d. Inr (f d, d)))"
  by (rule keeps_sql) auto

section \<open>The commands keep the tables well formed\<close>

lemma keeps_open [keep_intros]: "keeps store_ok (openStore isp p)"
  unfolding openStore_def applyPragmas_def applySchema_def by (intro keep_intros)

lemma keeps_config [keep_intros]: "keeps store_ok (loadConfig isp libs env path)" "keeps store_ok (config_or_load isp libs env given path)"
  unfolding config_or_load_def loadConfig_def by (intro keep_intros)+

lemma keeps_track [keep_intros]: "keeps store_ok (runTrackUse isp warning now db paths)"
proof -
  have "keeps store_ok (track_paths isp warning ts ps)" for ts ps
  proof (induction ps)
    case (Cons p ps)
    then show ?case unfolding track_paths.simps by (intro keep_intros)
  qed (simp add: keep_intros)
  then show ?thesis unfolding runTrackUse_def by (intro keep_intros)
qed

lemma keeps_complete [keep_intros]: "keeps store_ok (runCompleteTask isp libs env now opts)"
  unfolding runCompleteTask_def record_completion_def by (intro keep_intros)

lemma keeps_nudge [keep_intros]: "keeps store_ok (runNudgeTick isp libs env parse indented now nopts)"
  unfolding runNudgeTick_def nudge_open_def by (intro keep_intros)

lemma keeps_audit [keep_intros]: "keeps store_ok (audit_or_warn isp wall dir e)"
  unfolding audit_or_warn_def appendAudit_def by (intro keep_intros)

lemma keeps_move [keep_intros]: "keeps store_ok (moveToDeprecated isp src m now)"
  unfolding moveToDeprecated_def by (intro keep_intros)

lemma keeps_apply [keep_intros]: "keeps store_ok (runApplyDecision isp now aopts)"
  unfolding runApplyDecision_def loadDecisionRow_def by (intro keep_intros)

lemma keeps_refine [keep_intros]: "keeps store_ok (runRefineApply isp now fopts)"
  unfolding runRefineApply_def refine_apply_def read_diff_def by (intro keep_intros)

lemma keeps_rollback [keep_intros]: "keeps store_ok (runRollback isp dec now ropts)"
  unfolding runRollback_def findAuditByDecisionID_def readAudit_def check_files_def restore_file_def record_rollback_def
  by (intro keep_intros)

lemma keeps_record [keep_intros]: "keeps store_ok (runRecordDecision isp yl now1 now2 dopts)"
proof -
  have "keeps store_ok (undo_file t u)" for t u unfolding undo_file_def by (cases u) (simp_all, (intro keep_intros)+)
  then show ?thesis
    unfolding runRecordDecision_def read_diff_def change_file_def writeNewLearningFile_def applyUpdateToLearningFile_def record_row_def
    by (intro keep_intros)
qed

lemma keeps_files [keep_intros]: "keeps store_ok (fileExists p)" "keeps store_ok (broken_links roots ts)"
proof -
  show fe: "keeps store_ok (fileExists p)" for p unfolding fileExists_def by (intro keep_intros)
  then have "keeps store_ok (under_any roots t)" for t
    by (induction roots) (auto simp: under_root_def intro!: keep_intros)
  then show "keeps store_ok (broken_links roots ts)"
    by (induction ts) (auto intro!: keep_intros)
qed

lemma keeps_upserts [keep_intros]:
  "keeps store_ok (upsertSkill isp y san p now)" "keeps store_ok (upsertMemory isp y' mtime san p roots now)"
  unfolding upsertSkill_def upsertMemory_def parseMemoryFile_def auditBrokenLinks_def by (intro keep_intros)+

lemma keeps_each [keep_intros]: "(\<And>p. keeps store_ok (f p)) \<Longrightarrow> keeps store_ok (each f ps)"
  by (induction ps) (auto intro!: keep_intros)

lemma keeps_prune [keep_intros]: "keeps store_ok (pruneOrphanSkills isp dir)" "keeps store_ok (pruneOrphanMemory isp dir)"
proof -
  have prune: "keeps store_ok (prune_paths cp del what ps)"
    if "\<And>p. keeps store_ok (cp p)" "\<And>p. keeps store_ok (del p)" for cp del what ps
    using that by (induction ps) (auto intro!: keep_intros)
  have counterparts: "keeps store_ok (deprecatedCounterpartExistsForSkill p dir)" "keeps store_ok (deprecatedCounterpartExistsForMemory p dir)" for p
    unfolding deprecatedCounterpartExistsForSkill_def deprecatedCounterpartExistsForMemory_def by (intro keep_intros)+
  show "keeps store_ok (pruneOrphanSkills isp dir)"
    unfolding pruneOrphanSkills_def by (intro keep_intros prune counterparts)
  show "keeps store_ok (pruneOrphanMemory isp dir)"
    unfolding pruneOrphanMemory_def by (intro keep_intros prune counterparts)
qed

lemma keeps_reindex [keep_intros]: "keeps store_ok (runReindex isp clibs env compile libs E now iopts)"
  unfolding runReindex_def reindexSinglePath_def reindexAll_def by (intro keep_intros)

lemma keeps_sources [keep_intros]: "keeps store_ok (ingest_all E xopts san now)"
proof -
  have spec: "keeps store_ok (parseSpecRecords parse clock san t p)" for parse clock t p
    unfolding parseSpecRecords_def os_Open'_def os_ReadAll_def by (intro keep_intros keeps_faulty; simp)
  have specs: "keeps store_ok (parse_specs (\<lambda>p. parseSpecRecords (ee_time E) (ee_spec_clock E p) san (ee_spec_now E p) p) t ps)" for t ps
    by (induction ps) (auto intro!: keep_intros spec)
  have transcript: "keeps store_ok (parseTranscriptFile L isdir san p)" for L isdir p
    unfolding parseTranscriptFile_def os_Open'_def os_ReadAll_def Let_def by (intro keep_intros keeps_faulty; simp)
  have transcripts: "keeps store_ok (transcript_files (\<lambda>p. parseTranscriptFile L isdir san p) ps)" for L isdir ps
    by (induction ps) (auto intro!: keep_intros transcript)
  have memories: "keeps store_ok (parse_each (\<lambda>p. parseMemoryFile isp yaml mtime ctx p roots osan) ps)" for isp yaml mtime ctx roots osan ps
    by (induction ps) (auto intro!: keep_intros simp: parseMemoryFile_def auditBrokenLinks_def)
  show ?thesis
    unfolding ingest_all_def ingestSpecs_def ingestTranscripts_def ingestMemory_def parseTranscriptDir_def parseMemoryDir_def Let_def
    by (intro keep_intros specs transcripts memories)
qed

lemma keeps_extract [keep_intros]: "keeps store_ok (runExtract E now xopts)"
proof -
  have "keeps store_ok (os_CreateTemp rs dir)" "keeps store_ok os_Sync" "keeps store_ok os_Close" for rs dir
    unfolding os_CreateTemp_def os_Sync_def os_Close_def by (auto intro!: keeps_faulty split: option.split)
  note calls = this
  have remove: "keeps store_ok (close_and_remove tmp e)" for tmp e
    unfolding close_and_remove_def by (intro keep_intros calls)
  have lines: "keeps store_ok (write_candidates float tmp i cs)" for float tmp i cs
    by (induction cs arbitrary: i) (auto intro!: keep_intros remove split: sum.split)
  have "keeps store_ok (writeCandidatesFile E path cs)" for path cs
    unfolding writeCandidatesFile_def finish_candidates_def by (intro keep_intros calls remove lines)
  moreover have "keeps store_ok (persist_each E now cs)" for cs
    by (induction cs) (auto intro!: keep_intros)
  ultimately show ?thesis
    unfolding runExtract_def write_and_persist_def persistCandidates_def Let_def by (intro keep_intros)
qed


definition indexed_disk :: disk where
  "indexed_disk = sample_disk\<lparr>
     d_skills := [\<lparr>ix_path = ''skills/a/SKILL.md'', ix_title = ''a'', ix_body = [], ix_tags = [], ix_frontmatter = ''{}'', ix_indexed_at = ''2026-01-01T00:00:00Z''\<rparr>],
     d_skill_usage := [\<lparr>us_path = ''skills/a/SKILL.md'', us_count = 2, us_last_used = None\<rparr>]\<rparr>"


section \<open>Uses are counted\<close>

definition count_of :: "usage_row list \<Rightarrow> string \<Rightarrow> int" where
  "count_of uses p = (case find (\<lambda>u. us_path u = p) uses of None \<Rightarrow> 0 | Some u \<Rightarrow> us_count u)"

lemma count_of_bump: "count_of (bump_use q ts uses) p = count_of uses p + (if p = q then 1 else 0)"
  by (induction q ts uses rule: bump_use.induct) (auto simp: count_of_def)

lemma calm_tables [simp]:
  "calm (d\<lparr>d_skill_usage := us\<rparr>) = calm d" "calm (d\<lparr>d_memory_usage := us\<rparr>) = calm d" "calm (d\<lparr>d_skills := rows\<rparr>) = calm d"
  by (simp_all add: calm_def)

lemma run_increments:
  assumes "calm d"
  shows "run (IncrementSkillUsage isp p t) d =
      (if p \<in> ix_path ` set (d_skills d) then (Inr True, d\<lparr>d_skill_usage := bump_use p t (d_skill_usage d)\<rparr>) else (Inr False, d))"
    and "run (IncrementMemoryUsage isp p t) d =
      (if p \<in> ix_path ` set (d_memories d) then (Inr True, d\<lparr>d_memory_usage := bump_use p t (d_memory_usage d)\<rparr>) else (Inr False, d))"
  using assms by (simp_all add: IncrementSkillUsage_def IncrementMemoryUsage_def stmt_def run_pbind sql_def run_faulty)

lemma track_paths_counts:
  assumes "calm d"
  shows "fst (run (track_paths isp warning ts ps) d) = None
    \<and> count_of (d_skill_usage (snd (run (track_paths isp warning ts ps) d))) p =
        count_of (d_skill_usage d) p + (if p \<in> ix_path ` set (d_skills d) then int (count_list ps p) else 0)
    \<and> count_of (d_memory_usage (snd (run (track_paths isp warning ts ps) d))) p =
        count_of (d_memory_usage d) p
        + (if p \<notin> ix_path ` set (d_skills d) \<and> p \<in> ix_path ` set (d_memories d) then int (count_list ps p) else 0)"
  using assms
proof (induction ps arbitrary: d)
  case (Cons q ps)
  consider "q \<in> ix_path ` set (d_skills d)" | "q \<notin> ix_path ` set (d_skills d)" "q \<in> ix_path ` set (d_memories d)"
    | "q \<notin> ix_path ` set (d_skills d)" "q \<notin> ix_path ` set (d_memories d)" by blast
  then show ?case
  proof cases
    case 1
    then show ?thesis
      using Cons.IH [of "d\<lparr>d_skill_usage := bump_use q ts (d_skill_usage d)\<rparr>"] Cons.prems
      by (simp add: run_pbind run_increments count_of_bump)
  next
    case 2
    then show ?thesis
      using Cons.IH [of "d\<lparr>d_memory_usage := bump_use q ts (d_memory_usage d)\<rparr>"] Cons.prems
      by (cases "p = q") (simp_all add: run_pbind run_increments count_of_bump)
  next
    case 3
    have "run (print (warning q)) d = (None, d\<lparr>d_out := d_out d @ warning q\<rparr>)"
      using Cons.prems by (simp add: print_def run_faulty)
    then show ?thesis
      using 3 Cons.IH [of "d\<lparr>d_out := d_out d @ warning q\<rparr>"] Cons.prems by (auto simp: run_pbind run_increments)
  qed
qed simp

text \<open>Every use is counted once, in the index that knows the path, skills first.\<close>

lemma track_use_counts:
  assumes "calm d" and "db \<noteq> []"
  shows "fst (run (runTrackUse isp warning now db paths) d) = None"
    and "count_of (d_skill_usage (snd (run (runTrackUse isp warning now db paths) d))) p =
        count_of (d_skill_usage d) p + (if p \<in> ix_path ` set (d_skills d) then int (count_list paths p) else 0)"
    and "count_of (d_memory_usage (snd (run (runTrackUse isp warning now db paths) d))) p =
        count_of (d_memory_usage d) p
        + (if p \<notin> ix_path ` set (d_skills d) \<and> p \<in> ix_path ` set (d_memories d) then int (count_list paths p) else 0)"
  using assms track_paths_counts [OF assms(1), of isp warning "Format_RFC3339 now" paths p]
  by (simp_all add: runTrackUse_def run_pbind run_openStore)

section \<open>Orphans\<close>

definition counterpart_there :: "disk \<Rightarrow> string \<Rightarrow> string \<Rightarrow> bool" where
  "counterpart_there d p dir \<longleftrightarrow>
     (let slug = path_Base (path_Dir p); old = path_Join dir deprecatedDir in
      slug \<noteq> [] \<and> slug \<noteq> ''.'' \<and> (file_at d (path_Join old (slug @ ''.md'')) \<noteq> None
        \<or> file_at d (path_Join (path_Join old slug) skillFileName) \<noteq> None))"

definition orphan :: "disk \<Rightarrow> string \<Rightarrow> string \<Rightarrow> bool" where
  "orphan d dir p \<longleftrightarrow> file_at d p = None \<and> \<not> counterpart_there d p dir"

lemma orphan_tables [simp]: "orphan (d\<lparr>d_skills := rows\<rparr>) = orphan d"
  by (simp add: orphan_def counterpart_there_def file_at_def fun_eq_iff)

lemma run_questions:
  assumes "calm d"
  shows "run (fileExists p) d = (file_at d p \<noteq> None, d)"
    and "run (deprecatedCounterpartExistsForSkill p dir) d = (counterpart_there d p dir, d)"
proof -
  show fe: "run (fileExists p) d = (file_at d p \<noteq> None, d)" for p
    using assms by (simp add: fileExists_def os_Stat_def run_pbind run_faulty split: option.split)
  show "run (deprecatedCounterpartExistsForSkill p dir) d = (counterpart_there d p dir, d)"
    by (simp add: deprecatedCounterpartExistsForSkill_def counterpart_there_def Let_def run_pbind fe)
qed

lemma run_delete:
  assumes "calm d"
  shows "run (DeleteOrphanSkill isp p) d =
    (case delete_row p (d_skill_usage d) (d_skills d) of
       Inl e \<Rightarrow> (Inl (WrapErr ((''delete orphan skill '' @ strconv_Quote isp p) @ '': '') (OtherErr e)), d)
     | Inr rows \<Rightarrow> (Inr (), d\<lparr>d_skills := rows\<rparr>))"
  using assms by (simp add: DeleteOrphanSkill_def stmt_def run_pbind sql_def run_faulty split: sum.split)

abbreviation prune_skills :: "(nat \<Rightarrow> bool) \<Rightarrow> string \<Rightarrow> string list \<Rightarrow> lerror option action" where
  "prune_skills isp dir \<equiv> prune_paths (\<lambda>p. deprecatedCounterpartExistsForSkill p dir) (DeleteOrphanSkill isp)
     (\<lambda>p. ''reindex: delete orphan skill '' @ strconv_Quote isp p)"

lemma prune_unused:
  assumes "calm d" and "\<forall>p\<in>set ps. orphan d dir p \<longrightarrow> p \<notin> us_path ` set (d_skill_usage d)"
  shows "run (prune_skills isp dir ps) d = (None, d\<lparr>d_skills := filter (\<lambda>r. ix_path r \<in> set ps \<longrightarrow> \<not> orphan d dir (ix_path r)) (d_skills d)\<rparr>)"
  using assms
proof (induction ps arbitrary: d)
  case (Cons p ps)
  show ?case
  proof (cases "orphan d dir p")
    case True
    then have "run (DeleteOrphanSkill isp p) d = (Inr (), d\<lparr>d_skills := filter (\<lambda>r. ix_path r \<noteq> p) (d_skills d)\<rparr>)"
      using Cons.prems by (simp add: run_delete delete_row_def)
    then have "run (prune_skills isp dir (p # ps)) d = run (prune_skills isp dir ps) (d\<lparr>d_skills := filter (\<lambda>r. ix_path r \<noteq> p) (d_skills d)\<rparr>)"
      using True Cons.prems(1) by (simp add: run_pbind run_questions orphan_def)
    also have "\<dots> = (None, d\<lparr>d_skills := filter (\<lambda>r. ix_path r \<in> set ps \<longrightarrow> \<not> orphan d dir (ix_path r)) (filter (\<lambda>r. ix_path r \<noteq> p) (d_skills d))\<rparr>)"
      using Cons.IH [of "d\<lparr>d_skills := filter (\<lambda>r. ix_path r \<noteq> p) (d_skills d)\<rparr>"] Cons.prems by simp
    also have "filter (\<lambda>r. ix_path r \<in> set ps \<longrightarrow> \<not> orphan d dir (ix_path r)) (filter (\<lambda>r. ix_path r \<noteq> p) (d_skills d)) =
        filter (\<lambda>r. ix_path r \<in> set (p # ps) \<longrightarrow> \<not> orphan d dir (ix_path r)) (d_skills d)"
      using True by (auto intro: filter_cong)
    finally show ?thesis .
  next
    case False
    then have "run (prune_skills isp dir (p # ps)) d = run (prune_skills isp dir ps) d"
      using Cons.prems(1) by (auto simp: run_pbind run_questions orphan_def)
    moreover have "filter (\<lambda>r. ix_path r \<in> set (p # ps) \<longrightarrow> \<not> orphan d dir (ix_path r)) (d_skills d) =
        filter (\<lambda>r. ix_path r \<in> set ps \<longrightarrow> \<not> orphan d dir (ix_path r)) (d_skills d)"
      using False by (auto intro!: filter_cong)
    ultimately show ?thesis using Cons.IH [of d] Cons.prems by simp
  qed
qed simp

text \<open>Without used orphans the pruning of the skills leaves exactly the rows with a file or a deprecated counterpart.\<close>

lemma prune_skills_exact:
  assumes "calm d" and "\<forall>p\<in>ix_path ` set (d_skills d). orphan d dir p \<longrightarrow> p \<notin> us_path ` set (d_skill_usage d)"
  shows "run (pruneOrphanSkills isp dir) d = (None, d\<lparr>d_skills := filter (\<lambda>r. \<not> orphan d dir (ix_path r)) (d_skills d)\<rparr>)"
proof -
  have "filter (\<lambda>r. ix_path r \<in> set (map ix_path (d_skills d)) \<longrightarrow> \<not> orphan d dir (ix_path r)) (d_skills d) =
      filter (\<lambda>r. \<not> orphan d dir (ix_path r)) (d_skills d)"
    by (rule filter_cong) auto
  then show ?thesis
    using assms prune_unused [OF assms(1), of "map ix_path (d_skills d)" dir isp]
    by (simp add: pruneOrphanSkills_def run_pbind sql_def run_faulty)
qed

text \<open>A skill that was used once cannot be pruned: its row of uses stays behind and the command stops with an error.\<close>

lemma used_orphan_stops_pruning:
  assumes "calm d" and "d_skills d = r # rows" and "orphan d dir (ix_path r)" and "ix_path r \<in> us_path ` set (d_skill_usage d)"
  shows "run (pruneOrphanSkills isp dir) d =
    (Some (runtimef_w (''reindex: delete orphan skill '' @ strconv_Quote isp (ix_path r))
       (WrapErr ((''delete orphan skill '' @ strconv_Quote isp (ix_path r)) @ '': '') (OtherErr foreign_key_failed))), d)"
  using assms by (simp add: pruneOrphanSkills_def run_pbind sql_def run_faulty run_questions run_delete delete_row_def orphan_def)

text \<open>
  A skill that a decision moves away is such an orphan: the file is moved below the directory of the skill, under a name with
  the time, and the counterparts are looked for elsewhere.
\<close>

lemma moved_skill_has_no_counterpart:
  "deprecated_path ''skills/a/SKILL.md'' 0 = ''skills/a/_deprecated/SKILL-19700101T000000Z.md''"
  "path_Join (path_Join ''skills'' deprecatedDir) (path_Base (path_Dir ''skills/a/SKILL.md'') @ ''.md'') = ''skills/_deprecated/a.md''"
  "path_Join (path_Join (path_Join ''skills'' deprecatedDir) (path_Base (path_Dir ''skills/a/SKILL.md''))) skillFileName =
    ''skills/_deprecated/a/SKILL.md''"
  by code_simp+

end
