(* ===== verification/ProjectTree.thy ===== *)
theory ProjectTree
  imports PathsLines ByteOrder AppErrors
begin

text \<open>
  The files the scaffolding tool (\<open>cmd/cli\<close>) works on: a tree of directories and files without links and modes, the
  working directory, what is typed at the terminal, and the faults that the coming calls meet.  Every call to the
  system is one step of a program and takes one outcome off the list of faults; a call without one succeeds or fails
  as the tree has it.  Paths are resolved element by element, without asking whether what stands before a \<open>..\<close> exists.
\<close>

section \<open>State\<close>

datatype node = Dir | File (content: string)

text \<open>\<open>io_done\<close> is how much of a call that takes several steps was done: bytes written, directories made, files removed.\<close>

datatype io_fault = IoFault (io_err: goerror) (io_done: "nat option")

type_synonym place = "string list"

record tree =
  t_nodes :: "(place \<times> node) list"
  t_cwd :: string
  t_stdin :: string
  t_faults :: "io_fault option list"

type_synonym 'r fsio = "(tree, 'r) prog"

text \<open>What \<open>os.IsNotExist\<close> tells apart.\<close>

datatype ioerror = Missing (io_cause: goerror) | Failed (io_cause: goerror)

definition fs_call :: "(io_fault option \<Rightarrow> tree \<Rightarrow> 'r \<times> tree) \<Rightarrow> 'r fsio" where
  "fs_call f = call (\<lambda>t. case t_faults t of [] \<Rightarrow> f None t | x # xs \<Rightarrow> f x (t\<lparr>t_faults := xs\<rparr>))"

definition node_at :: "tree \<Rightarrow> place \<Rightarrow> node option" where
  "node_at t p = map_of (t_nodes t) p"

definition put_node :: "place \<Rightarrow> node \<Rightarrow> tree \<Rightarrow> tree" where
  "put_node p n t = t\<lparr>t_nodes := (p, n) # filter (\<lambda>e. fst e \<noteq> p) (t_nodes t)\<rparr>"

definition del_nodes :: "(place \<Rightarrow> bool) \<Rightarrow> tree \<Rightarrow> tree" where
  "del_nodes D t = t\<lparr>t_nodes := filter (\<lambda>e. \<not> D (fst e)) (t_nodes t)\<rparr>"

section \<open>Paths\<close>

definition from_root :: "string \<Rightarrow> place" where
  "from_root p = clean_elems True [] (Split p CHR ''/'')"

definition locate :: "string \<Rightarrow> string \<Rightarrow> place" where
  "locate cwd p = from_root (if HasPrefix p ''/'' then p else cwd @ ''/'' @ p)"

definition place_of :: "tree \<Rightarrow> string \<Rightarrow> place" where
  "place_of t p = locate (t_cwd t) p"

text \<open>The path of a place, and joining several elements, of which \<open>filepath.Join\<close> leaves out the empty ones.\<close>

definition show_place :: "place \<Rightarrow> string" where
  "show_place p = ''/'' @ Join p ''/''"

definition path_Joins :: "string list \<Rightarrow> string" where
  "path_Joins ps =
     (let qs = filter (\<lambda>p. p \<noteq> []) ps in if qs = [] then [] else path_Clean (Join qs ''/''))"

section \<open>Calls\<close>

definition path_error :: "string \<Rightarrow> string \<Rightarrow> string \<Rightarrow> goerror" where
  "path_error operation p why = Opaque ''*fs.PathError'' (operation @ '' '' @ p @ '': '' @ why)"

definition is_file :: "node option \<Rightarrow> bool" where
  "is_file n = (case n of Some (File c) \<Rightarrow> True | _ \<Rightarrow> False)"

definition lookup_error :: "tree \<Rightarrow> string \<Rightarrow> string \<Rightarrow> ioerror" where
  "lookup_error t operation p =
     (let q = place_of t p in
      if list_ex (\<lambda>k. is_file (node_at t (take k q))) [0..<length q]
      then Failed (path_error operation p ''not a directory'')
      else Missing (path_error operation p ''no such file or directory''))"

text \<open>\<open>os.Stat\<close> and \<open>os.Lstat\<close>: whether it is a directory.\<close>

definition fs_Stat :: "string \<Rightarrow> (ioerror + bool) fsio" where
  "fs_Stat p = fs_call (\<lambda>ft t.
     (case ft of
        Some f \<Rightarrow> Inl (Failed (io_err f))
      | None \<Rightarrow>
          (case node_at t (place_of t p) of
             Some n \<Rightarrow> Inr (n = Dir)
           | None \<Rightarrow> Inl (lookup_error t ''stat'' p)), t))"

definition fs_ReadFile :: "string \<Rightarrow> (ioerror + string) fsio" where
  "fs_ReadFile p = fs_call (\<lambda>ft t.
     (case ft of
        Some f \<Rightarrow> Inl (Failed (io_err f))
      | None \<Rightarrow>
          (case node_at t (place_of t p) of
             Some (File c) \<Rightarrow> Inr c
           | Some Dir \<Rightarrow> Inl (Failed (path_error ''read'' p ''is a directory''))
           | None \<Rightarrow> Inl (lookup_error t ''open'' p)), t))"

text \<open>What opening a file to write it finds: an error, or the place of the file.\<close>

definition open_write :: "tree \<Rightarrow> string \<Rightarrow> ioerror + place" where
  "open_write t p =
     (let q = place_of t p in
      case node_at t q of
        Some Dir \<Rightarrow> Inl (Failed (path_error ''open'' p ''is a directory''))
      | Some (File c) \<Rightarrow> Inr q
      | None \<Rightarrow> if q \<noteq> [] \<and> node_at t (butlast q) = Some Dir then Inr q else Inl (lookup_error t ''open'' p))"

definition fs_WriteFile :: "string \<Rightarrow> string \<Rightarrow> ioerror option fsio" where
  "fs_WriteFile p c = fs_call (\<lambda>ft t.
     case open_write t p of
       Inl e \<Rightarrow> (Some e, t)
     | Inr q \<Rightarrow>
         (case ft of
            None \<Rightarrow> (None, put_node q (File c) t)
          | Some f \<Rightarrow>
              (Some (Failed (io_err f)),
               case io_done f of None \<Rightarrow> t | Some n \<Rightarrow> put_node q (File (take n c)) t)))"

text \<open>\<open>os.MkdirAll\<close> makes the directories above one after the other.\<close>

fun make_dirs :: "place list \<Rightarrow> string \<Rightarrow> tree \<Rightarrow> ioerror option \<times> tree" where
  "make_dirs [] p t = (None, t)"
| "make_dirs (q # qs) p t =
     (case node_at t q of
        Some Dir \<Rightarrow> make_dirs qs p t
      | Some (File c) \<Rightarrow> (Some (Failed (path_error ''mkdir'' p ''not a directory'')), t)
      | None \<Rightarrow> make_dirs qs p (put_node q Dir t))"

definition prefixes_of :: "place \<Rightarrow> place list" where
  "prefixes_of q = map (\<lambda>k. take k q) [0..<Suc (length q)]"

definition fs_MkdirAll :: "string \<Rightarrow> ioerror option fsio" where
  "fs_MkdirAll p = fs_call (\<lambda>ft t.
     let qs = prefixes_of (place_of t p) in
     case ft of
       None \<Rightarrow> make_dirs qs p t
     | Some f \<Rightarrow> (Some (Failed (io_err f)), case io_done f of None \<Rightarrow> t | Some n \<Rightarrow> snd (make_dirs (take n qs) p t)))"

definition fs_Remove :: "string \<Rightarrow> ioerror option fsio" where
  "fs_Remove p = fs_call (\<lambda>ft t.
     let q = place_of t p in
     case ft of
       Some f \<Rightarrow> (Some (Failed (io_err f)), t)
     | None \<Rightarrow>
         (case node_at t q of
            None \<Rightarrow> (Some (lookup_error t ''remove'' p), t)
          | Some (File c) \<Rightarrow> (None, del_nodes (\<lambda>r. r = q) t)
          | Some Dir \<Rightarrow>
              if list_ex (\<lambda>e. strict_prefix q (fst e)) (t_nodes t)
              then (Some (Failed (path_error ''remove'' p ''directory not empty'')), t)
              else (None, del_nodes (\<lambda>r. r = q) t)))"

text \<open>\<open>os.RemoveAll\<close>, which finds nothing wrong with a path that does not exist.\<close>

definition below :: "place \<Rightarrow> tree \<Rightarrow> place list" where
  "below q t = filter (prefix q) (map fst (t_nodes t))"

definition fs_RemoveAll :: "string \<Rightarrow> ioerror option fsio" where
  "fs_RemoveAll p = fs_call (\<lambda>ft t.
     let q = place_of t p in
     case ft of
       None \<Rightarrow>
         (case (node_at t q, lookup_error t ''unlinkat'' p) of
            (None, Failed e) \<Rightarrow> (Some (Failed e), t)
          | _ \<Rightarrow> (None, del_nodes (prefix q) t))
     | Some f \<Rightarrow>
         (Some (Failed (io_err f)),
          case io_done f of None \<Rightarrow> t | Some n \<Rightarrow> del_nodes (\<lambda>r. r \<in> set (take n (below q t))) t))"

text \<open>\<open>os.ReadDir\<close>: the entries by name, with whether each is a directory.\<close>

definition entries_of :: "tree \<Rightarrow> place \<Rightarrow> (string \<times> bool) list" where
  "entries_of t q =
     sort_key (\<lambda>e. bytes (fst e))
       (map (\<lambda>(p, n). (last p, n = Dir)) (filter (\<lambda>e. fst e \<noteq> [] \<and> butlast (fst e) = q) (t_nodes t)))"

definition fs_ReadDir :: "string \<Rightarrow> (ioerror + (string \<times> bool) list) fsio" where
  "fs_ReadDir p = fs_call (\<lambda>ft t.
     (case ft of
        Some f \<Rightarrow> Inl (Failed (io_err f))
      | None \<Rightarrow>
          (case node_at t (place_of t p) of
             Some Dir \<Rightarrow> Inr (entries_of t (place_of t p))
           | Some (File c) \<Rightarrow> Inl (Failed (path_error ''readdirent'' p ''not a directory''))
           | None \<Rightarrow> Inl (lookup_error t ''open'' p)), t))"

text \<open>\<open>os.Open\<close> to read, \<open>os.OpenFile\<close> with truncation, and \<open>io.Copy\<close> between the two.\<close>

definition fs_Open :: "string \<Rightarrow> ioerror option fsio" where
  "fs_Open p = fs_call (\<lambda>ft t.
     (case ft of
        Some f \<Rightarrow> Some (Failed (io_err f))
      | None \<Rightarrow> (case node_at t (place_of t p) of Some n \<Rightarrow> None | None \<Rightarrow> Some (lookup_error t ''open'' p)), t))"

definition fs_Create :: "string \<Rightarrow> ioerror option fsio" where
  "fs_Create p = fs_call (\<lambda>ft t.
     case ft of
       Some f \<Rightarrow> (Some (Failed (io_err f)), t)
     | None \<Rightarrow>
         (case open_write t p of Inl e \<Rightarrow> (Some e, t) | Inr q \<Rightarrow> (None, put_node q (File []) t)))"

definition fs_Copy :: "string \<Rightarrow> string \<Rightarrow> ioerror option fsio" where
  "fs_Copy src dst = fs_call (\<lambda>ft t.
     case node_at t (place_of t src) of
       Some (File c) \<Rightarrow>
         (case ft of
            None \<Rightarrow> (None, put_node (place_of t dst) (File c) t)
          | Some f \<Rightarrow>
              (Some (Failed (io_err f)),
               case io_done f of None \<Rightarrow> t | Some n \<Rightarrow> put_node (place_of t dst) (File (take n c)) t))
     | _ \<Rightarrow> (Some (Failed (path_error ''read'' src ''is a directory'')), t))"

text \<open>Writing a file that is open: how far the writes came.\<close>

definition fs_Write :: "string \<Rightarrow> string \<Rightarrow> goerror option fsio" where
  "fs_Write p c = fs_call (\<lambda>ft t.
     case ft of
       None \<Rightarrow> (None, put_node (place_of t p) (File c) t)
     | Some f \<Rightarrow>
         (Some (io_err f), case io_done f of None \<Rightarrow> t | Some n \<Rightarrow> put_node (place_of t p) (File (take n c)) t))"

definition fs_Getwd :: "(goerror + string) fsio" where
  "fs_Getwd = fs_call (\<lambda>ft t. (case ft of Some f \<Rightarrow> Inl (io_err f) | None \<Rightarrow> Inr (t_cwd t), t))"

definition fs_Abs :: "string \<Rightarrow> (goerror + string) fsio" where
  "fs_Abs p =
     (if HasPrefix p ''/'' then Return (Inr (path_Clean p))
      else pbind fs_Getwd (\<lambda>wd. Return (map_sum id (\<lambda>d. path_Joins [d, p]) wd)))"

text \<open>\<open>ReadString\<close> of a buffered reader, up to the next end of line.\<close>

definition read_line :: "(goerror + string) fsio" where
  "read_line = fs_call (\<lambda>ft t.
     case ft of
       Some f \<Rightarrow> (Inl (io_err f), t)
     | None \<Rightarrow>
         (case Index (t_stdin t) eol of
            None \<Rightarrow> (Inl (Opaque ''*errors.errorString'' ''EOF''), t\<lparr>t_stdin := []\<rparr>)
          | Some i \<Rightarrow> (Inr (take (Suc i) (t_stdin t)), t\<lparr>t_stdin := drop (Suc i) (t_stdin t)\<rparr>)))"

section \<open>Walking a tree\<close>

text \<open>
  \<open>filepath.Walk\<close>.  The names of a directory are read when it is visited, so a visit can add to what is visited later
  and the walk need not end: the fuel is the depth it may reach, and \<open>NoFuel\<close> is no answer of the code.
\<close>

datatype visited = Done | SkipDir | Stop goerror | NoFuel

type_synonym visitor = "string \<Rightarrow> bool \<Rightarrow> ioerror option \<Rightarrow> visited fsio"

fun walk_names :: "(string \<Rightarrow> bool \<Rightarrow> visited fsio) \<Rightarrow> visitor \<Rightarrow> string \<Rightarrow> string list \<Rightarrow> visited fsio" where
  "walk_names w fn path [] = Return Done"
| "walk_names w fn path (name # names) =
     (let filename = path_Joins [path, name] in
      pbind (fs_Stat filename) (\<lambda>st.
      case st of
        Inl e \<Rightarrow>
          pbind (fn filename False (Some e)) (\<lambda>r.
          if r = Done \<or> r = SkipDir then walk_names w fn path names else Return r)
      | Inr is_dir \<Rightarrow>
          pbind (w filename is_dir) (\<lambda>r.
          if r = Done \<or> is_dir \<and> r = SkipDir then walk_names w fn path names else Return r)))"

primrec walk :: "nat \<Rightarrow> visitor \<Rightarrow> string \<Rightarrow> bool \<Rightarrow> visited fsio" where
  "walk 0 fn = (\<lambda>path is_dir. Return NoFuel)"
| "walk (Suc n) fn = (\<lambda>path is_dir.
     if \<not> is_dir then fn path False None
     else
       pbind (fs_ReadDir path) (\<lambda>listing.
       pbind (fn path True (case listing of Inl e \<Rightarrow> Some e | Inr es \<Rightarrow> None)) (\<lambda>r.
       case listing of
         Inl e \<Rightarrow> Return r
       | Inr es \<Rightarrow> if r \<noteq> Done then Return r else walk_names (walk n fn) fn path (map fst es))))"

definition path_Walk :: "nat \<Rightarrow> string \<Rightarrow> visitor \<Rightarrow> goerror option option fsio" where
  "path_Walk fuel start fn =
     pbind (fs_Stat start) (\<lambda>st.
     pbind (case st of Inl e \<Rightarrow> fn start False (Some e) | Inr is_dir \<Rightarrow> walk fuel fn start is_dir) (\<lambda>r.
     Return (case r of Stop e \<Rightarrow> Some (Some e) | NoFuel \<Rightarrow> None | _ \<Rightarrow> Some None)))"


section \<open>Lemmas on places and paths\<close>

lemma map_of_filter_key: "map_of (filter (\<lambda>e. P (fst e)) xs) q = (if P q then map_of xs q else None)"
  by (induction xs) auto

lemma node_at_put [simp]: "node_at (put_node p n t) q = (if q = p then Some n else node_at t q)"
  by (simp add: node_at_def put_node_def map_of_filter_key [of "\<lambda>r. r \<noteq> p"])

lemma node_at_del [simp]: "node_at (del_nodes D t) q = (if D q then None else node_at t q)"
  by (simp add: node_at_def del_nodes_def map_of_filter_key [of "\<lambda>r. \<not> D r"])

lemma put_node_sel [simp]: "t_cwd (put_node p n t) = t_cwd t" "t_stdin (put_node p n t) = t_stdin t"
    "t_faults (put_node p n t) = t_faults t"
  and del_nodes_sel [simp]: "t_cwd (del_nodes D t) = t_cwd t" "t_stdin (del_nodes D t) = t_stdin t"
    "t_faults (del_nodes D t) = t_faults t"
  and node_at_upd [simp]: "node_at (t\<lparr>t_faults := fs\<rparr>) q = node_at t q" "node_at (t\<lparr>t_stdin := cs\<rparr>) q = node_at t q"
  and entries_of_upd [simp]: "entries_of (t\<lparr>t_faults := fs\<rparr>) q = entries_of t q"
  and place_of_upd [simp]: "place_of (t\<lparr>t_faults := fs\<rparr>) path = place_of t path"
  by (simp_all add: put_node_def del_nodes_def node_at_def entries_of_def place_of_def)

text \<open>A name is one element of a path.\<close>

definition name_ok :: "string \<Rightarrow> bool" where
  "name_ok n \<longleftrightarrow> n \<noteq> [] \<and> n \<noteq> ''.'' \<and> n \<noteq> ''..'' \<and> CHR ''/'' \<notin> set n"

lemma clean_elems_append:
  "clean_elems rooted st (es @ fs) = clean_elems rooted (rev (clean_elems rooted st es)) fs"
  by (induction rooted st es rule: clean_elems.induct) (auto split: list.splits)

lemma clean_elems_names: "list_all name_ok es \<Longrightarrow> clean_elems rooted st es = rev st @ es"
  by (induction rooted st es rule: clean_elems.induct) (auto simp: name_ok_def)

text \<open>The elements of a clean path: the ones that go up come first.\<close>

fun cleaned_stack :: "string list \<Rightarrow> bool" where
  "cleaned_stack [] \<longleftrightarrow> True"
| "cleaned_stack (s # ss) \<longleftrightarrow> (if s = ''..'' then list_all (\<lambda>x. x = ''..'') ss else name_ok s \<and> cleaned_stack ss)"

lemma clean_elems_twice:
  assumes "cleaned_stack stk" and "list_all (\<lambda>e. CHR ''/'' \<notin> set e) es"
  shows "clean_elems rt st (clean_elems False stk es) = clean_elems rt st (rev stk @ es)"
  using assms
proof (induction es arbitrary: stk)
  case (Cons e es)
  let ?S = "rev (clean_elems rt st (rev stk))"
  consider (skip) "e = [] \<or> e = ''.''" | (up) "e = ''..''" | (name) "name_ok e"
    using Cons.prems(2) by (auto simp: name_ok_def)
  then show ?case
  proof cases
    case skip
    with Cons show ?thesis by (simp add: clean_elems_append)
  next
    case up
    show ?thesis
    proof (cases stk)
      case Nil
      then show ?thesis using Cons.IH [of "[''..'']"] Cons.prems(2) up by simp
    next
      case (Cons s ss)
      show ?thesis
      proof (cases "s = ''..''")
        case True
        have "cleaned_stack (''..'' # stk)" using Cons.prems(1) True Cons by simp
        from Cons.IH [OF this] Cons.prems(2) up True Cons show ?thesis by simp
      next
        case False
        then have ss: "cleaned_stack ss" "name_ok s" using Cons.prems(1) Cons by auto
        have "clean_elems rt S (s # ''..'' # es) = clean_elems rt S es" for S
          using ss(2) by (auto simp: name_ok_def)
        with Cons.IH [OF ss(1)] Cons.prems(2) up False Cons show ?thesis by (simp add: clean_elems_append)
      qed
    qed
  next
    case name
    then have "cleaned_stack (e # stk)" using Cons.prems(1) by (simp add: name_ok_def)
    from Cons.IH [OF this] Cons.prems(2) name show ?thesis by (auto simp: name_ok_def)
  qed
qed simp

lemma clean_rooted_names:
  "list_all name_ok st \<Longrightarrow> list_all (\<lambda>e. CHR ''/'' \<notin> set e) es \<Longrightarrow> list_all name_ok (clean_elems True st es)"
  by (induction True st es rule: clean_elems.induct) (auto simp: name_ok_def split: list.splits)

lemma Split_slashless: "list_all (\<lambda>e. CHR ''/'' \<notin> set e) (Split p CHR ''/'')"
  using Split_parts_no_sep by (auto simp: list_all_iff)

lemma Split_append: "Split (a @ sep # b) sep = Split a sep @ Split b sep"
  by (induction a) (auto split: list.splits)

lemma from_root_names: "list_all name_ok (from_root p)"
  by (simp add: from_root_def clean_rooted_names Split_slashless)

lemma locate_names: "list_all name_ok (locate cwd p)"
  by (simp add: locate_def from_root_names)

lemma clean_False_slashless:
  "list_all (\<lambda>e. CHR ''/'' \<notin> set e \<and> e \<noteq> []) st \<Longrightarrow> list_all (\<lambda>e. CHR ''/'' \<notin> set e) es \<Longrightarrow>
    list_all (\<lambda>e. CHR ''/'' \<notin> set e \<and> e \<noteq> []) (clean_elems False st es)"
  by (induction False st es rule: clean_elems.induct) (auto split: list.splits)

definition path_elems :: "string \<Rightarrow> string list" where
  "path_elems p = clean_elems (HasPrefix p ''/'') [] (Split p CHR ''/'')"

lemma clean_again: "clean_elems rt st (clean_elems False [] es) = clean_elems rt st es"
  if "list_all (\<lambda>e. CHR ''/'' \<notin> set e) es"
  using clean_elems_twice [of "[]" es rt st] that by simp

lemma elems_Clean: "HasPrefix (path_Clean p) ''/'' = HasPrefix p ''/''" "path_elems (path_Clean p) = path_elems p"
proof -
  have "HasPrefix (path_Clean p) ''/'' = HasPrefix p ''/'' \<and> path_elems (path_Clean p) = path_elems p"
  proof (cases "HasPrefix p ''/''")
    case True
    let ?es = "clean_elems True [] (Split p CHR ''/'')"
    have names: "list_all name_ok ?es" by (rule clean_rooted_names) (simp_all add: Split_slashless)
    have eq: "path_Clean p = CHR ''/'' # Join ?es ''/''" using True by (simp add: path_Clean_def)
    moreover have "clean_elems True [] (Split (CHR ''/'' # Join ?es ''/'') CHR ''/'') = ?es"
    proof (cases "?es = []")
      case False
      then have "Split (Join ?es ''/'') CHR ''/'' = ?es"
        using names by (intro Split_Join) (auto simp: list_all_iff name_ok_def)
      then show ?thesis using clean_elems_names [OF names, of True "[]"] by simp
    qed simp
    ultimately show ?thesis using True by (simp add: path_elems_def)
  next
    case False
    let ?es = "clean_elems False [] (Split p CHR ''/'')"
    have sl: "list_all (\<lambda>e. CHR ''/'' \<notin> set e \<and> e \<noteq> []) ?es" by (rule clean_False_slashless) (simp_all add: Split_slashless)
    have again: "clean_elems False [] ?es = ?es" by (rule clean_again [OF Split_slashless])
    show ?thesis
    proof (cases "?es = []")
      case True
      then have "path_Clean p = ''.''" using False by (simp add: path_Clean_def)
      then show ?thesis using False True by (simp add: path_elems_def)
    next
      case ne: False
      have split: "Split (Join ?es ''/'') CHR ''/'' = ?es"
        using ne sl by (intro Split_Join) (auto simp: list_all_iff)
      obtain e es where e: "?es = e # es" "e \<noteq> []" "CHR ''/'' \<notin> set e" using ne sl by (cases ?es) auto
      then have np: "\<not> HasPrefix (Join ?es ''/'') ''/''" by (cases es; cases e) auto
      have "Join ?es ''/'' \<noteq> []" using e by (cases es) auto
      then have "path_Clean p = Join ?es ''/''" using False by (simp add: path_Clean_def)
      moreover have "path_elems (Join ?es ''/'') = ?es" using np split again by (simp only: path_elems_def if_False)
      moreover have "path_elems p = ?es" using False by (simp add: path_elems_def)
      ultimately show ?thesis using np False by simp
    qed
  qed
  then show "HasPrefix (path_Clean p) ''/'' = HasPrefix p ''/''" "path_elems (path_Clean p) = path_elems p" by blast+
qed

lemma locate_elems:
  "locate cwd p = (if HasPrefix p ''/'' then path_elems p else clean_elems True (rev (from_root cwd)) (path_elems p))"
  using clean_again [OF Split_slashless, of True "rev (from_root cwd)" p]
  by (simp add: locate_def from_root_def path_elems_def Split_append clean_elems_append)

lemma locate_Clean: "locate cwd (path_Clean p) = locate cwd p"
  by (simp only: locate_elems elems_Clean)

text \<open>Joining appends the elements of what is joined.\<close>

definition elems_of :: "string list \<Rightarrow> string list" where
  "elems_of ps = concat (map (\<lambda>p. Split p CHR ''/'') ps)"

lemma elems_of_simps [simp]: "elems_of [] = []" "elems_of (p # ps) = Split p CHR ''/'' @ elems_of ps"
  by (simp_all add: elems_of_def)

lemma elems_nonempty: "clean_elems True st (elems_of (filter (\<lambda>p. p \<noteq> []) ps)) = clean_elems True st (elems_of ps)"
  by (induction ps arbitrary: st) (simp_all add: clean_elems_append)

lemma Split_Join_elems: "ps \<noteq> [] \<Longrightarrow> Split (Join ps ''/'') CHR ''/'' = elems_of ps"
  by (induction ps "''/''" rule: Join.induct) (simp_all add: Split_append)

lemma locate_Join:
  assumes "p \<noteq> []"
  shows "locate cwd (Join (p # ps) ''/'') = clean_elems True (rev (locate cwd p)) (elems_of ps)"
proof -
  have "HasPrefix (Join (p # ps) ''/'') ''/'' = HasPrefix p ''/''" using assms by (cases ps; cases p) auto
  moreover have "Split (Join (p # ps) ''/'') CHR ''/'' = Split p CHR ''/'' @ elems_of ps"
    using Split_Join_elems [of "p # ps"] by simp
  ultimately show ?thesis
    by (simp add: locate_def from_root_def Split_append clean_elems_append)
qed

lemma locate_Joins:
  assumes "p \<noteq> []"
  shows "locate cwd (path_Joins (p # ps)) = clean_elems True (rev (locate cwd p)) (elems_of ps)"
  using assms locate_Join [OF assms, of cwd "filter (\<lambda>p. p \<noteq> []) ps"]
  by (simp add: path_Joins_def locate_Clean elems_nonempty)

lemma locate_below:
  assumes "p \<noteq> []" and "list_all name_ok (elems_of ps)"
  shows "locate cwd (path_Joins (p # ps)) = locate cwd p @ elems_of ps"
  using locate_Joins [OF assms(1), of cwd ps] clean_elems_names [OF assms(2), of True "rev (locate cwd p)"] by simp

lemma name_ok_elems: "name_ok n \<Longrightarrow> elems_of [n] = [n]"
  by (simp add: name_ok_def Split_no_sep)

lemma locate_child: "p \<noteq> [] \<Longrightarrow> name_ok n \<Longrightarrow> locate cwd (path_Joins [p, n]) = locate cwd p @ [n]"
  using locate_below [of p "[n]" cwd] name_ok_elems [of n] by simp

text \<open>The elements of a path below another.\<close>

lemma elems_child:
  assumes "p \<noteq> []" and "name_ok n"
  shows "HasPrefix (path_Joins [p, n]) ''/'' = HasPrefix p ''/''" "path_elems (path_Joins [p, n]) = path_elems p @ [n]"
    "path_Joins [p, n] \<noteq> []"
proof -
  have "n \<noteq> []" using assms(2) by (simp add: name_ok_def)
  then have j: "path_Joins [p, n] = path_Clean (p @ CHR ''/'' # n)" using assms(1) by (simp add: path_Joins_def)
  have "HasPrefix (p @ CHR ''/'' # n) ''/'' = HasPrefix p ''/''" using assms(1) by (cases p) auto
  moreover have "path_elems (p @ CHR ''/'' # n) = path_elems p @ [n]"
    using assms calculation clean_elems_names [of "[n]" "HasPrefix p ''/''"]
    by (simp add: path_elems_def Split_append clean_elems_append Split_no_sep name_ok_def)
  ultimately show "HasPrefix (path_Joins [p, n]) ''/'' = HasPrefix p ''/''" "path_elems (path_Joins [p, n]) = path_elems p @ [n]"
    using elems_Clean [of "p @ CHR ''/'' # n"] by (simp_all only: j)
  show "path_Joins [p, n] \<noteq> []" unfolding j by (simp add: path_Clean_def Let_def)
qed

section \<open>The directory above\<close>

definition weight :: "string list \<Rightarrow> nat" where
  "weight es = sum_list (map (\<lambda>e. length e + 1) es)"

lemma weight_simps [simp]: "weight [] = 0" "weight (e # es) = length e + 1 + weight es"
  "weight (es @ fs) = weight es + weight fs" "weight (rev es) = weight es"
  by (simp_all add: weight_def rev_map [symmetric])

lemma weight_clean: "weight (clean_elems rooted st es) \<le> weight st + weight es"
  by (induction rooted st es rule: clean_elems.induct) (auto split: list.splits)

lemma weight_Split: "weight (Split s sep) = length s + 1"
proof (induction s)
  case (Cons c s)
  then show ?case by (auto split: list.split)
qed simp

lemma length_Join: "es \<noteq> [] \<Longrightarrow> length (Join es ''/'') + 1 = weight es"
  by (induction es "''/''" rule: Join.induct) simp_all

lemma path_Clean_length:
  assumes "p \<noteq> []"
  shows "length (path_Clean p) \<le> length p"
proof (cases "HasPrefix p ''/''")
  case True
  then obtain x where p: "p = CHR ''/'' # x" by (cases p) auto
  let ?es = "clean_elems True [] (Split p CHR ''/'')"
  have "?es = clean_elems True [] (Split x CHR ''/'')" by (simp add: p)
  then have "weight ?es \<le> length x + 1" using weight_clean [of True "[]" "Split x CHR ''/''"] by (simp add: weight_Split)
  then show ?thesis using True length_Join [of ?es] by (cases "?es = []") (simp_all add: path_Clean_def p)
next
  case False
  let ?es = "clean_elems False [] (Split p CHR ''/'')"
  have "weight ?es \<le> length p + 1" using weight_clean [of False "[]" "Split p CHR ''/''"] by (simp add: weight_Split)
  then show ?thesis using False assms length_Join [of ?es] by (cases "?es = []"; cases p) (auto simp: path_Clean_def Let_def)
qed

lemma clean_elems_last_empty: "clean_elems rooted st (es @ [[]]) = clean_elems rooted st es"
  by (induction rooted st es rule: clean_elems.induct) (auto split: list.splits)

lemma path_Clean_slash:
  assumes "p = q @ ''/''" and "q \<noteq> []"
  shows "path_Clean p = path_Clean q"
proof -
  have "Split p CHR ''/'' = Split q CHR ''/'' @ [[]]" using Split_append [of q "CHR ''/''" "[]"] assms(1) by simp
  moreover have "HasPrefix p ''/'' = HasPrefix q ''/''" using assms by (cases q) auto
  ultimately show ?thesis by (simp only: path_Clean_def clean_elems_last_empty)
qed

lemma path_Clean_consts: "path_Clean [] = ''.''" "path_Clean ''/'' = ''/''"
  by code_simp+

lemma path_Dir_dot: "path_Dir ''.'' = ''.''"
  by code_simp

lemma path_Dir_shorter:
  assumes "path_Dir p \<noteq> p"
  shows "path_Dir p = ''.'' \<or> length (path_Dir p) < length p"
proof -
  let ?q = "rev (dropWhile (\<lambda>c. c \<noteq> CHR ''/'') (rev p))"
  have dir: "path_Dir p = path_Clean ?q" by (simp add: path_Dir_def)
  have p: "p = ?q @ rev (takeWhile (\<lambda>c. c \<noteq> CHR ''/'') (rev p))"
    by (metis rev_append rev_rev_ident takeWhile_dropWhile_id)
  show ?thesis
  proof (cases "dropWhile (\<lambda>c. c \<noteq> CHR ''/'') (rev p)")
    case Nil
    then have "path_Dir p = ''.''" by (simp only: dir rev.simps path_Clean_consts)
    then show ?thesis ..
  next
    case (Cons c r)
    then have "c = CHR ''/''" using hd_dropWhile [of "\<lambda>c. c \<noteq> CHR ''/''" "rev p"] by simp
    then have q: "?q = rev r @ ''/''" using Cons by simp
    show ?thesis
    proof (cases "r = []")
      case True
      then have "path_Dir p = ''/''" using path_Clean_consts(2) by (simp only: dir q rev.simps append_Nil)
      moreover have "p \<noteq> ''/''" using assms calculation by auto
      moreover have "length ?q \<le> length p" by (subst (2) p) simp
      ultimately show ?thesis using q True p by (cases "takeWhile (\<lambda>c. c \<noteq> CHR ''/'') (rev p)") auto
    next
      case False
      then have "path_Dir p = path_Clean (rev r)" using path_Clean_slash [OF q] by (simp add: dir)
      then have "length (path_Dir p) \<le> length (rev r)" using path_Clean_length [of "rev r"] False by simp
      also have "\<dots> < length ?q" using q by simp
      also have "\<dots> \<le> length p" by (subst (2) p) simp
      finally show ?thesis by simp
    qed
  qed
qed

section \<open>What calls leave as it was\<close>

text \<open>
  Outside \<open>base\<close> the tree is \<open>N\<close>, in which the directories above \<open>base\<close> exist; below it anything can be.
\<close>

definition fixed_outside :: "place \<Rightarrow> (place \<Rightarrow> node option) \<Rightarrow> string \<Rightarrow> tree \<Rightarrow> bool" where
  "fixed_outside base N cwd t \<longleftrightarrow>
     t_cwd t = cwd \<and> (\<forall>p. \<not> prefix base p \<longrightarrow> node_at t p = N p) \<and> (\<forall>(p, n)\<in>set (t_nodes t). list_all name_ok p)"

lemma fixed_outside_upd [simp]:
  "fixed_outside base N cwd (t\<lparr>t_faults := fs\<rparr>) = fixed_outside base N cwd t"
  "fixed_outside base N cwd (t\<lparr>t_stdin := cs\<rparr>) = fixed_outside base N cwd t"
  by (simp_all add: fixed_outside_def)

lemma fixed_outside_put:
  "fixed_outside base N cwd t \<Longrightarrow> prefix base p \<Longrightarrow> list_all name_ok p \<Longrightarrow> fixed_outside base N cwd (put_node p n t)"
  by (auto simp: fixed_outside_def) (auto simp: put_node_def)

lemma fixed_outside_del:
  "fixed_outside base N cwd t \<Longrightarrow> (\<And>p. D p \<Longrightarrow> prefix base p) \<Longrightarrow> fixed_outside base N cwd (del_nodes D t)"
  by (auto simp: fixed_outside_def) (auto simp: del_nodes_def)

lemma keeps_fs_call:
  assumes "\<And>ft t. P t \<Longrightarrow> P (snd (f ft t))" and "\<And>t fs. P (t\<lparr>t_faults := fs\<rparr>) \<longleftrightarrow> P t"
  shows "keeps P (fs_call f)"
  unfolding fs_call_def using assms by (intro keeps_call) (simp split: list.split)

lemmas reading_calls = fs_Stat_def fs_ReadFile_def fs_ReadDir_def fs_Open_def fs_Getwd_def

lemma keeps_reading [keep_intros]:
  assumes "\<And>t fs. P (t\<lparr>t_faults := fs\<rparr>) \<longleftrightarrow> P t"
  shows "keeps P (fs_Stat p)" "keeps P (fs_ReadFile p)" "keeps P (fs_ReadDir p)" "keeps P (fs_Open p)" "keeps P fs_Getwd"
  unfolding reading_calls by (auto intro!: keeps_fs_call simp: assms)


lemma open_write_place: "open_write t p = Inr q \<Longrightarrow> q = place_of t p"
  by (auto simp: open_write_def Let_def split: option.splits node.splits if_splits)

definition dirs_above :: "place \<Rightarrow> (place \<Rightarrow> node option) \<Rightarrow> bool" where
  "dirs_above base N \<longleftrightarrow> (\<forall>k<length base. N (take k base) = Some Dir)"

lemma fixed_above:
  assumes "fixed_outside base N cwd t" and "dirs_above base N" and "strict_prefix p base"
  shows "node_at t p = Some Dir"
proof -
  from assms(3) have "p = take (length p) base" "length p < length base"
    by (auto simp: strict_prefix_def prefix_def)
  moreover have "\<not> prefix base p" using assms(3) by (metis prefix_order.less_le_not_le)
  ultimately show ?thesis using assms(1,2) unfolding fixed_outside_def dirs_above_def by metis
qed

lemma make_dirs_fixed:
  assumes "fixed_outside base N cwd t" and "dirs_above base N" and "\<forall>q\<in>set qs. (prefix base q \<or> strict_prefix q base) \<and> list_all name_ok q"
  shows "fixed_outside base N cwd (snd (make_dirs qs p t))"
  using assms
proof (induction qs p t rule: make_dirs.induct)
  case (2 q qs p t)
  have rest: "\<forall>q\<in>set qs. (prefix base q \<or> strict_prefix q base) \<and> list_all name_ok q" using 2(5) by simp
  consider (inside) "prefix base q" "list_all name_ok q" | (above) "strict_prefix q base" using 2(5) by auto
  then show ?case
  proof cases
    case inside
    have "fixed_outside base N cwd (snd (make_dirs qs p (put_node q Dir t)))" if "node_at t q = None"
      by (rule 2(1) [OF that fixed_outside_put [OF 2(3) inside(1,2)] 2(4) rest])
    moreover have "fixed_outside base N cwd (snd (make_dirs qs p t))" if "node_at t q = Some Dir"
      by (rule 2(2) [OF that refl 2(3,4) rest])
    ultimately show ?thesis using 2(3) by (simp split: option.split node.split)
  next
    case above
    have "node_at t q = Some Dir" by (rule fixed_above [OF 2(3,4) above])
    moreover from this have "fixed_outside base N cwd (snd (make_dirs qs p t))"
      by (rule 2(2) [OF _ refl 2(3,4) rest])
    ultimately show ?thesis by simp
  qed
qed simp

lemma prefixes_comparable:
  "prefix base p \<Longrightarrow> list_all name_ok p \<Longrightarrow>
    \<forall>q\<in>set (prefixes_of p). (prefix base q \<or> strict_prefix q base) \<and> list_all name_ok q"
proof
  fix q assume b: "prefix base p" "list_all name_ok p" and q: "q \<in> set (prefixes_of p)"
  from q have "prefix q p" by (auto simp: prefixes_of_def take_is_prefix)
  with b show "(prefix base q \<or> strict_prefix q base) \<and> list_all name_ok q"
    using prefix_same_cases [of base p q] by (auto simp: strict_prefix_def prefix_def)
qed

lemma make_dirs_take: "\<forall>q\<in>set qs. P q \<Longrightarrow> \<forall>q\<in>set (take n qs). P q"
  by (meson in_set_takeD)

text \<open>A call on a path below \<open>base\<close> leaves everything else as it was, whatever fails.\<close>

lemma keeps_writing:
  assumes "prefix base (locate cwd p)"
  shows "keeps (fixed_outside base N cwd) (fs_WriteFile p c)" "keeps (fixed_outside base N cwd) (fs_Remove p)"
    "keeps (fixed_outside base N cwd) (fs_RemoveAll p)" "keeps (fixed_outside base N cwd) (fs_Create p)"
    "keeps (fixed_outside base N cwd) (fs_Copy src p)" "keeps (fixed_outside base N cwd) (fs_Write p c)"
proof -
  have place: "place_of t p = locate cwd p" if "fixed_outside base N cwd t" for t
    using that by (simp add: place_of_def fixed_outside_def)
  note put = fixed_outside_put [OF _ assms locate_names] and del = fixed_outside_del
  have opened: "prefix base q" "list_all name_ok q" if "fixed_outside base N cwd t" "open_write t p = Inr q" for t q
    using place [OF that(1)] open_write_place [OF that(2)] assms by (simp_all add: locate_names)
  show "keeps (fixed_outside base N cwd) (fs_WriteFile p c)"
    unfolding fs_WriteFile_def
    by (rule keeps_fs_call) (auto split: sum.split option.split intro: fixed_outside_put opened)
  show "keeps (fixed_outside base N cwd) (fs_Create p)"
    unfolding fs_Create_def
    by (rule keeps_fs_call) (auto split: sum.split option.split intro: fixed_outside_put opened)
  show "keeps (fixed_outside base N cwd) (fs_Copy src p)"
    unfolding fs_Copy_def by (rule keeps_fs_call) (auto simp: place put split: option.split node.split)
  show "keeps (fixed_outside base N cwd) (fs_Write p c)"
    unfolding fs_Write_def by (rule keeps_fs_call) (auto simp: place put split: option.split)
  show "keeps (fixed_outside base N cwd) (fs_Remove p)"
    unfolding fs_Remove_def Let_def
    by (rule keeps_fs_call) (auto simp: place assms split: option.split node.split intro!: del)
  show "keeps (fixed_outside base N cwd) (fs_RemoveAll p)"
    unfolding fs_RemoveAll_def Let_def
  proof (rule keeps_fs_call)
    fix ft t assume inv: "fixed_outside base N cwd t"
    have 1: "fixed_outside base N cwd (del_nodes (prefix (place_of t p)) t)"
      using assms place [OF inv] by (auto intro!: del inv dest: prefix_order.trans)
    have "r \<in> set (below (place_of t p) t) \<Longrightarrow> prefix base r" for r
      using assms place [OF inv] by (auto simp: below_def dest: prefix_order.trans)
    then have 2: "fixed_outside base N cwd (del_nodes (\<lambda>r. r \<in> set (take n (below (place_of t p) t))) t)" for n
      by (auto intro!: del inv dest: in_set_takeD)
    show "fixed_outside base N cwd (snd (case ft of
        None \<Rightarrow> (case (node_at t (place_of t p), lookup_error t ''unlinkat'' p) of
            (None, Failed e) \<Rightarrow> (Some (Failed e), t)
          | _ \<Rightarrow> (None, del_nodes (prefix (place_of t p)) t))
      | Some f \<Rightarrow> (Some (Failed (io_err f)),
          case io_done f of None \<Rightarrow> t | Some n \<Rightarrow> del_nodes (\<lambda>r. r \<in> set (take n (below (place_of t p) t))) t)))"
      using inv 1 2 by (simp split: option.split ioerror.split)
  qed simp
qed

lemma keeps_MkdirAll:
  assumes "prefix base (locate cwd p)" and "dirs_above base N"
  shows "keeps (fixed_outside base N cwd) (fs_MkdirAll p)"
  unfolding fs_MkdirAll_def Let_def
proof (rule keeps_fs_call)
  fix ft t assume inv: "fixed_outside base N cwd t"
  then have "place_of t p = locate cwd p" by (simp add: place_of_def fixed_outside_def)
  then have qs: "\<forall>q\<in>set (prefixes_of (place_of t p)). (prefix base q \<or> strict_prefix q base) \<and> list_all name_ok q"
    using prefixes_comparable [OF assms(1) locate_names] by simp
  show "fixed_outside base N cwd (snd (case ft of
        None \<Rightarrow> make_dirs (prefixes_of (place_of t p)) p t
      | Some f \<Rightarrow> (Some (Failed (io_err f)), case io_done f of
          None \<Rightarrow> t | Some n \<Rightarrow> snd (make_dirs (take n (prefixes_of (place_of t p))) p t))))"
    using inv make_dirs_fixed [OF inv assms(2)] qs make_dirs_take [OF qs] by (simp split: option.split)
qed simp


text \<open>A walk keeps an invariant if every visit does, at every path reached from the start.\<close>

lemma entries_names:
  assumes "\<forall>(p, n)\<in>set (t_nodes t). list_all name_ok p"
  shows "\<forall>n\<in>set (map fst (entries_of t q)). name_ok n"
proof
  fix n assume "n \<in> set (map fst (entries_of t q))"
  then obtain p m where "(p, m) \<in> set (t_nodes t)" "p \<noteq> []" "n = last p"
    by (auto simp: entries_of_def)
  then show "name_ok n" using assms by (fastforce simp: list_all_iff)
qed

lemma keeps_walk_names:
  assumes "\<And>path d. good path \<Longrightarrow> keeps P (w path d)" and "\<And>path d e. good path \<Longrightarrow> keeps P (fn path d e)"
    and "\<And>path n. good path \<Longrightarrow> name_ok n \<Longrightarrow> good (path_Joins [path, n])"
    and "\<And>t fs. P (t\<lparr>t_faults := fs\<rparr>) \<longleftrightarrow> P t" and "good path" and "\<forall>n\<in>set names. name_ok n"
  shows "keeps P (walk_names w fn path names)"
  using assms(6)
proof (induction names)
  case (Cons n names)
  have g: "good (path_Joins [path, n])" using Cons.prems assms(3,5) by simp
  show ?case unfolding walk_names.simps Let_def
    by (intro keep_intros keeps_reading) (use Cons g assms(1,2,4) in auto)
qed (simp add: keep_intros)

lemma keeps_walk:
  assumes "\<And>path d e. good path \<Longrightarrow> keeps P (fn path d e)"
    and "\<And>path n. good path \<Longrightarrow> name_ok n \<Longrightarrow> good (path_Joins [path, n])"
    and "\<And>t fs. P (t\<lparr>t_faults := fs\<rparr>) \<longleftrightarrow> P t" and "\<And>t. P t \<Longrightarrow> \<forall>(p, n)\<in>set (t_nodes t). list_all name_ok p"
    and "good path"
  shows "keeps P (walk fuel fn path d)"
  using assms(5)
proof (induction fuel arbitrary: path d)
  case (Suc n)
  have names: "\<forall>n\<in>set (map fst es). name_ok n" if "P t" "fst (run (fs_ReadDir path) t) = Inr es" for t es
    using entries_names [OF assms(4) [OF that(1)]] that(2)
    by (auto simp: fs_ReadDir_def fs_call_def split: list.splits option.splits node.splits)
  have go: "keeps P (walk_names (walk n fn) fn path ns)" if "\<forall>n\<in>set ns. name_ok n" for ns
    by (rule keeps_walk_names [where good = good]) (use Suc assms that in auto)
  show ?case
  proof (cases d)
    case False
    then show ?thesis using assms(1) Suc.prems by simp
  next
    case True
    show ?thesis unfolding keeps_def
    proof (intro allI impI)
      fix t assume t: "P t"
      obtain l t1 where 1: "run (fs_ReadDir path) t = (l, t1)" by (cases "run (fs_ReadDir path) t")
      have t1: "P t1" using keepsD [OF keeps_reading(3) [OF assms(3)] t, of path] 1 by simp
      let ?e = "case l of Inl e \<Rightarrow> Some e | Inr es \<Rightarrow> None"
      obtain r t2 where 2: "run (fn path True ?e) t1 = (r, t2)" by (cases "run (fn path True ?e) t1")
      have t2: "P t2" using keepsD [OF assms(1) [OF Suc.prems] t1, of True ?e] 2 by simp
      show "P (snd (run (walk (Suc n) fn path d) t))"
      proof (cases l)
        case (Inr es)
        with names [OF t] 1 have "\<forall>n\<in>set (map fst es). name_ok n" by simp
        from keepsD [OF go [OF this] t2] show ?thesis using True 1 2 t2 Inr by (simp add: run_pbind)
      qed (use True 1 2 t2 in \<open>simp add: run_pbind\<close>)
    qed
  qed
qed (simp add: keep_intros)

lemma keeps_path_Walk:
  assumes "\<And>path d e. good path \<Longrightarrow> keeps P (fn path d e)"
    and "\<And>path n. good path \<Longrightarrow> name_ok n \<Longrightarrow> good (path_Joins [path, n])"
    and "\<And>t fs. P (t\<lparr>t_faults := fs\<rparr>) \<longleftrightarrow> P t" and "\<And>t. P t \<Longrightarrow> \<forall>(p, n)\<in>set (t_nodes t). list_all name_ok p"
    and "good path"
  shows "keeps P (path_Walk fuel path fn)"
  unfolding path_Walk_def
  by (intro keep_intros keeps_reading keeps_walk [where good = good]) (use assms in auto)

end
