(* ===== verification/Naming.thy ===== *)
theory Naming
  imports Regex
begin

text \<open>
  The names of the scaffolding tool (\<open>cmd/cli/scaffold/helpers.go\<close>): English plurals and singulars, the words of a
  name, the four ways to write them, and the names a domain, an endpoint and a service may have
  (\<open>cmd/cli/commands\<close>).
\<close>

section \<open>Unicode\<close>

text \<open>The tables of the package \<open>unicode\<close> outside ASCII are a parameter.\<close>

record unicode_tables =
  ut_lower :: "nat \<Rightarrow> nat"
  ut_upper :: "nat \<Rightarrow> nat"
  ut_is_lower :: "nat \<Rightarrow> bool"
  ut_is_upper :: "nat \<Rightarrow> bool"

definition rune_lower :: "unicode_tables \<Rightarrow> nat \<Rightarrow> nat" where
  "rune_lower U r = (if r < 128 then ascii_lower_rune r else ut_lower U r)"

definition rune_upper :: "unicode_tables \<Rightarrow> nat \<Rightarrow> nat" where
  "rune_upper U r = (if r < 128 then (if 97 \<le> r \<and> r \<le> 122 then r - 32 else r) else ut_upper U r)"

definition rune_is_lower :: "unicode_tables \<Rightarrow> nat \<Rightarrow> bool" where
  "rune_is_lower U r = (if r < 128 then 97 \<le> r \<and> r \<le> 122 else ut_is_lower U r)"

definition rune_is_upper :: "unicode_tables \<Rightarrow> nat \<Rightarrow> bool" where
  "rune_is_upper U r = (if r < 128 then 65 \<le> r \<and> r \<le> 90 else ut_is_upper U r)"

definition str_lower :: "unicode_tables \<Rightarrow> string \<Rightarrow> string" where
  "str_lower U = ToLower (ut_lower U)"

definition string_of_runes :: "nat list \<Rightarrow> string" where
  "string_of_runes rs = concat (map encode_rune rs)"

section \<open>Plural and singular\<close>

definition isVowel :: "unicode_tables \<Rightarrow> nat \<Rightarrow> bool" where
  "isVowel U r \<longleftrightarrow> rune_lower U r \<in> {97, 101, 105, 111, 117}"

definition has_suffix_of :: "string \<Rightarrow> string list \<Rightarrow> bool" where
  "has_suffix_of s ends \<longleftrightarrow> list_ex (HasSuffix s) ends"

definition ToPlural :: "unicode_tables \<Rightarrow> string \<Rightarrow> string" where
  "ToPlural U s =
     (if s = [] then s
      else
        (let low = str_lower U s in
         if HasSuffix low ''ies'' \<and> \<not> HasSuffix low ''series''
            \<and> length (take (length low - 3) low @ ''y'') > 1 then s
         else if has_suffix_of low [''ses'', ''xes'', ''zes'', ''ches'', ''shes''] then s
         else if HasSuffix low ''s'' \<and> \<not> HasSuffix low ''ss'' \<and> \<not> HasSuffix low ''us''
            \<and> \<not> HasSuffix low ''is'' then s
         else if HasSuffix low ''y'' then
           (if length low \<ge> 2 \<and> \<not> isVowel U (of_char (low ! (length low - 2)))
            then take (length s - 1) s @ ''ies'' else s @ ''s'')
         else if HasSuffix low ''z'' \<and> \<not> HasSuffix low ''zz'' then s @ ''zes''
         else if has_suffix_of low [''s'', ''x'', ''zz'', ''ch'', ''sh''] then s @ ''es''
         else s @ ''s''))"

definition ToSingular :: "unicode_tables \<Rightarrow> string \<Rightarrow> string" where
  "ToSingular U s =
     (if s = [] then s
      else
        (let low = str_lower U s in
         if HasSuffix low ''ies'' \<and> length low > 3 then take (length s - 3) s @ ''y''
         else if HasSuffix low ''sses'' then take (length s - 2) s
         else if HasSuffix low ''shes'' then take (length s - 2) s
         else if HasSuffix low ''ches'' then take (length s - 2) s
         else if HasSuffix low ''xes'' then take (length s - 2) s
         else if HasSuffix low ''zes'' then take (length s - 2) s
         else if HasSuffix low ''ses'' then take (length s - 2) s
         else if HasSuffix low ''s'' \<and> \<not> HasSuffix low ''ss'' \<and> \<not> HasSuffix low ''us''
            \<and> \<not> HasSuffix low ''is'' then take (length s - 1) s
         else s))"

section \<open>Words\<close>

text \<open>
  One pass over the code points: \<open>pv\<close> is the one before, \<open>cur\<close> the word so far.  A capital starts a word after a
  small letter, and after a capital if a small letter follows.
\<close>

fun split_words :: "unicode_tables \<Rightarrow> nat \<Rightarrow> nat list \<Rightarrow> nat list \<Rightarrow> nat list list" where
  "split_words U pv cur [] = (if cur = [] then [] else [cur])"
| "split_words U pv cur (r # rs) =
     (if r = 32 then (if cur = [] then split_words U r [] rs else cur # split_words U r [] rs)
      else if rune_is_upper U r \<and> cur \<noteq> []
         \<and> (rune_is_lower U pv \<or> rune_is_upper U pv \<and> rs \<noteq> [] \<and> rune_is_lower U (hd rs))
      then cur # split_words U r [r] rs
      else split_words U r (cur @ [r]) rs)"

definition splitWords :: "unicode_tables \<Rightarrow> string \<Rightarrow> string list" where
  "splitWords U s =
     (let spaced = map (\<lambda>c. if c = CHR ''-'' then CHR '' '' else c)
                     (map (\<lambda>c. if c = CHR ''_'' then CHR '' '' else c) s) in
      map string_of_runes (split_words U 0 [] (runes spaced)))"

definition capitalizeFirst :: "unicode_tables \<Rightarrow> string \<Rightarrow> string" where
  "capitalizeFirst U s =
     (case runes s of [] \<Rightarrow> s | r # rs \<Rightarrow> string_of_runes (rune_upper U r # map (rune_lower U) rs))"

definition ToPascalCase :: "unicode_tables \<Rightarrow> string \<Rightarrow> string" where
  "ToPascalCase U s = concat (map (capitalizeFirst U) (filter (\<lambda>w. w \<noteq> []) (splitWords U s)))"

definition ToCamelCase :: "unicode_tables \<Rightarrow> string \<Rightarrow> string" where
  "ToCamelCase U s =
     (case runes (ToPascalCase U s) of [] \<Rightarrow> [] | r # rs \<Rightarrow> string_of_runes (rune_lower U r # rs))"

definition lowered_words :: "unicode_tables \<Rightarrow> string \<Rightarrow> string list" where
  "lowered_words U s = map (str_lower U) (filter (\<lambda>w. w \<noteq> []) (splitWords U s))"

definition ToSnakeCase :: "unicode_tables \<Rightarrow> string \<Rightarrow> string" where
  "ToSnakeCase U s = Join (lowered_words U s) ''_''"

definition ToKebabCase :: "unicode_tables \<Rightarrow> string \<Rightarrow> string" where
  "ToKebabCase U s = Join (lowered_words U s) ''-''"

section \<open>Names that are accepted\<close>

definition name_pattern :: "char \<Rightarrow> re" where
  "name_pattern extra = Seq Bol (Seq (Cls lower) (Seq (Star (Cls (\<lambda>c. lower c \<or> digit c \<or> c = extra))) Eol))"

definition serviceNamePattern :: re where "serviceNamePattern = name_pattern CHR ''-''"
definition domainNamePattern :: re where "domainNamePattern = name_pattern CHR ''_''"
definition endpointNamePattern :: re where "endpointNamePattern = name_pattern CHR ''_''"

definition validateServiceName :: "string \<Rightarrow> bool" where
  "validateServiceName name \<longleftrightarrow> name \<noteq> [] \<and> MatchString serviceNamePattern name"

definition validateDomainName :: "unicode_tables \<Rightarrow> string \<Rightarrow> bool" where
  "validateDomainName U name \<longleftrightarrow> name \<noteq> [] \<and> MatchString domainNamePattern (ToSnakeCase U name)"


section \<open>What the patterns accept\<close>

definition name_chars :: "char \<Rightarrow> string \<Rightarrow> bool" where
  "name_chars extra s \<longleftrightarrow> s \<noteq> [] \<and> lower (hd s) \<and> list_all (\<lambda>c. lower c \<or> digit c \<or> c = extra) (tl s)"

lemma ms_Star_Cls_all: "list_all P s \<Longrightarrow> \<exists>q. (q, [], cs) \<in> set (ms (Star (Cls P)) (p, s, cs))"
proof (induction s arbitrary: p)
  case Nil
  then show ?case by (subst ms.simps(5)) auto
next
  case (Cons c s)
  then obtain q where "(q, [], cs) \<in> set (ms (Star (Cls P)) (Some c, s, cs))" by fastforce
  with Cons.prems show ?case by (subst ms.simps(5)) auto
qed

lemma ms_then_Eol: "concat (map (ms Eol) sts) \<noteq> [] \<longleftrightarrow> (\<exists>st\<in>set sts. m_rest st = [])"
  by (induction sts) auto

lemma MatchString_anchored: "MatchString (Seq Bol r) s \<longleftrightarrow> ms r (None, s, []) \<noteq> []"
proof -
  have "MatchString (Seq Bol r) s \<longleftrightarrow> FindStringSubmatch (Seq Bol r) s \<noteq> None"
    by (simp only: MatchString_def FindStringSubmatch_def)
  also have "\<dots> \<longleftrightarrow> ms r (None, s, []) \<noteq> []"
    unfolding FindStringSubmatch_anchored by (cases "ms r (None, s, [])") auto
  finally show ?thesis .
qed

lemma name_pattern_iff: "MatchString (name_pattern x) s \<longleftrightarrow> name_chars x s"
proof -
  let ?P = "\<lambda>c. lower c \<or> digit c \<or> c = x"
  have "MatchString (name_pattern x) s \<longleftrightarrow> ms (Seq (Cls lower) (Seq (Star (Cls ?P)) Eol)) (None, s, []) \<noteq> []"
    by (simp only: name_pattern_def MatchString_anchored)
  also have "\<dots> \<longleftrightarrow> name_chars x s"
  proof (cases s)
    case (Cons c t)
    have "(\<exists>st\<in>set (ms (Star (Cls ?P)) (Some c, t, [])). m_rest st = []) \<longleftrightarrow> list_all ?P t"
    proof
      assume "\<exists>st\<in>set (ms (Star (Cls ?P)) (Some c, t, [])). m_rest st = []"
      then obtain st where st: "st \<in> set (ms (Star (Cls ?P)) (Some c, t, []))" "m_rest st = []" by blast
      obtain q u cs where [simp]: "st = (q, u, cs)" by (cases st)
      from st(2) have [simp]: "u = []" by simp
      from ms_Star_Cls [OF st(1) [simplified]] show "list_all ?P t" by auto
    next
      assume "list_all ?P t"
      then obtain q where "(q, [], []) \<in> set (ms (Star (Cls ?P)) (Some c, t, []))"
        using ms_Star_Cls_all by blast
      then show "\<exists>st\<in>set (ms (Star (Cls ?P)) (Some c, t, [])). m_rest st = []"
        by (rule bexI [rotated]) simp
    qed
    then show ?thesis using Cons by (simp add: name_chars_def ms_then_Eol del: concat_eq_Nil_conv)
  qed (simp add: name_chars_def)
  finally show ?thesis .
qed

lemma name_chars_all: "name_chars x s \<Longrightarrow> c \<in> set s \<Longrightarrow> lower c \<or> digit c \<or> c = x"
  by (cases s) (auto simp: name_chars_def list_all_iff)

section \<open>Words of ASCII names\<close>

lemma string_of_runes_ascii: "is_ascii s \<Longrightarrow> string_of_runes (map of_char s) = s"
proof (induction s)
  case (Cons c s)
  then show ?case by (simp add: string_of_runes_def encode_rune_ascii)
qed (simp add: string_of_runes_def)

lemma split_words_parts:
  "w \<in> set (split_words U pv cur rs) \<Longrightarrow> 32 \<notin> set cur \<Longrightarrow> w \<noteq> [] \<and> set w \<subseteq> (set cur \<union> set rs) - {32}"
proof (induction U pv cur rs arbitrary: w rule: split_words.induct)
  case (1 U pv cur)
  then show ?case by (auto split: if_splits)
next
  case (2 U pv cur r rs)
  let ?cut = "rune_is_upper U r \<and> cur \<noteq> [] \<and> (rune_is_lower U pv \<or> rune_is_upper U pv \<and> rs \<noteq> [] \<and> rune_is_lower U (hd rs))"
  consider (gap) "r = 32" "cur = []" | (word_end) "r = 32" "cur \<noteq> []" | (cut) "r \<noteq> 32" ?cut | (more) "r \<noteq> 32" "\<not> ?cut"
    by blast
  then show ?case
  proof cases
    case gap
    with 2(1) [OF gap] 2(5) show ?thesis by force
  next
    case word_end
    with 2(5) have "w = cur \<or> w \<in> set (split_words U r [] rs)" by simp
    with 2(2) [OF word_end] 2(6) word_end show ?thesis by force
  next
    case cut
    with 2(5) have "w = cur \<or> w \<in> set (split_words U r [r] rs)" by simp
    with 2(3) [OF cut] 2(6) cut show ?thesis by force
  next
    case more
    with 2(5) have "w \<in> set (split_words U r (cur @ [r]) rs)" by (simp del: append_eq_Cons_conv)
    with 2(4) [OF more] 2(6) more show ?thesis by force
  qed
qed

definition despaced :: "string \<Rightarrow> string" where
  "despaced s = map (\<lambda>c. if c = CHR ''-'' then CHR '' '' else c) (map (\<lambda>c. if c = CHR ''_'' then CHR '' '' else c) s)"

lemma is_ascii_despaced: "is_ascii s \<Longrightarrow> is_ascii (despaced s)"
  by (auto simp: despaced_def is_ascii_def list_all_iff)

text \<open>The words of an ASCII name as strings, and what they consist of.\<close>

lemma splitWords_ascii:
  "is_ascii s \<Longrightarrow> splitWords U s = map string_of_runes (split_words U 0 [] (map of_char (despaced s)))"
  using is_ascii_despaced [of s] by (simp only: splitWords_def Let_def runes_ascii despaced_def)

definition word_part :: "string \<Rightarrow> bool" where
  "word_part w \<longleftrightarrow> w \<noteq> [] \<and> list_all (\<lambda>c. of_char c < (128::nat) \<and> c \<notin> {CHR '' '', CHR ''_'', CHR ''-''}) w"

lemma nats_of_ascii:
  assumes "set w \<subseteq> set (map (of_char :: char \<Rightarrow> nat) s)" and "is_ascii s"
  shows "\<exists>v. w = map of_char v \<and> set v \<subseteq> set s"
proof (intro exI conjI)
  let ?v = "map (char_of :: nat \<Rightarrow> char) w"
  have "\<forall>n\<in>set w. n < 128 \<and> char_of n \<in> set s"
    using assms by (fastforce simp: is_ascii_def list_all_iff)
  then show "w = map of_char ?v" "set ?v \<subseteq> set s" by (auto simp: comp_def of_char_of intro!: map_idI [symmetric])
qed

lemma splitWords_word_part:
  assumes "is_ascii s" and "w \<in> set (splitWords U s)"
  shows "word_part w"
proof -
  let ?s = "despaced s"
  from assms obtain v where v: "v \<in> set (split_words U 0 [] (map of_char ?s))" "w = string_of_runes v"
    by (auto simp: splitWords_ascii)
  from split_words_parts [OF v(1)] have parts: "v \<noteq> []" "set v \<subseteq> set (map of_char ?s)" "32 \<notin> set v" by auto
  obtain u where u: "v = map of_char u" "set u \<subseteq> set ?s"
    using nats_of_ascii [OF parts(2) is_ascii_despaced [OF assms(1)]] by blast
  have a: "is_ascii u" using u(2) is_ascii_despaced [OF assms(1)] by (auto simp: is_ascii_def list_all_iff)
  have "CHR ''_'' \<notin> set ?s" "CHR ''-'' \<notin> set ?s" by (auto simp: despaced_def)
  moreover have "CHR '' '' \<notin> set u" using parts(3) u(1) by force
  ultimately have "list_all (\<lambda>c. of_char c < (128::nat) \<and> c \<notin> {CHR '' '', CHR ''_'', CHR ''-''}) u"
    using a u(2) by (auto simp: is_ascii_def list_all_iff)
  then show ?thesis using u(1) v(2) a parts(1) by (simp add: word_part_def string_of_runes_ascii)
qed


section \<open>Writing a name again\<close>

text \<open>A name without capitals splits at the separators alone.\<close>

definition plain_runes :: "nat list \<Rightarrow> bool" where
  "plain_runes w \<longleftrightarrow> w \<noteq> [] \<and> list_all (\<lambda>r. r < 128 \<and> r \<noteq> 32 \<and> \<not> (65 \<le> r \<and> r \<le> 90)) w"

lemma split_words_plain:
  assumes "list_all (\<lambda>r. r < 128 \<and> r \<noteq> 32 \<and> \<not> (65 \<le> r \<and> r \<le> 90)) w"
  shows "split_words U pv cur (w @ rs) = split_words U (last (pv # w)) (cur @ w) rs"
  using assms by (induction w arbitrary: pv cur) (auto simp: rune_is_upper_def)

fun joined :: "nat list list \<Rightarrow> nat list" where
  "joined [] = []"
| "joined [w] = w"
| "joined (w # ws) = w @ 32 # joined ws"

lemma split_words_joined: "list_all plain_runes ws \<Longrightarrow> split_words U pv [] (joined ws) = ws"
proof (induction ws arbitrary: pv rule: joined.induct)
  case (2 w)
  then show ?case using split_words_plain [of w U pv "[]" "[]"] by (simp add: plain_runes_def)
next
  case (3 w v ws)
  then show ?case using split_words_plain [of w U pv "[]" "32 # joined (v # ws)"] by (simp add: plain_runes_def)
qed simp

definition lower_part :: "string \<Rightarrow> bool" where
  "lower_part w \<longleftrightarrow> word_part w \<and> list_all (\<lambda>c. \<not> upper c) w"

lemma of_char_space: "of_char c = (32 :: nat) \<longleftrightarrow> c = CHR '' ''"
proof -
  have "of_char c = (32 :: nat) \<longleftrightarrow> of_char c = (of_char CHR '' '' :: nat)" by simp
  then show ?thesis by (simp only: of_char_eq_iff)
qed

lemma lower_part_plain:
  assumes "lower_part w"
  shows "plain_runes (map of_char w)"
proof -
  have "of_char c < (128 :: nat) \<and> of_char c \<noteq> (32 :: nat) \<and> \<not> (65 \<le> (of_char c :: nat) \<and> of_char c \<le> (90 :: nat))"
    if "c \<in> set w" for c
    using assms that by (simp only: lower_part_def word_part_def list_all_iff upper_def Let_def of_char_space) blast
  then show ?thesis using assms by (simp add: plain_runes_def lower_part_def word_part_def list_all_iff)
qed

lemma despaced_part:
  assumes "word_part w"
  shows "despaced w = w"
proof -
  have "CHR ''_'' \<notin> set w" "CHR ''-'' \<notin> set w" using assms by (auto simp: word_part_def list_all_iff)
  then have "map (\<lambda>c. if c = CHR ''_'' then CHR '' '' else c) w = w" "map (\<lambda>c. if c = CHR ''-'' then CHR '' '' else c) w = w"
    by (induction w) auto
  then show ?thesis by (simp only: despaced_def)
qed

lemma despaced_append [simp]: "despaced (a @ b) = despaced a @ despaced b"
  by (simp add: despaced_def)

lemma despaced_Join:
  "list_all lower_part ws \<Longrightarrow> sep = ''_'' \<or> sep = ''-'' \<Longrightarrow>
    map of_char (despaced (Join ws sep)) = joined (map (map of_char) ws)"
proof (induction ws sep rule: Join.induct)
  case (1 sep)
  then show ?case by (simp add: despaced_def)
next
  case (2 w sep)
  then show ?case by (simp add: despaced_part lower_part_def)
next
  case (3 w v ws sep)
  have "map of_char (despaced sep) = [32 :: nat]" using 3(3) by (auto simp: despaced_def)
  with 3 show ?case by (simp add: despaced_part lower_part_def)
qed

lemma is_ascii_joined: "list_all is_ascii ws \<Longrightarrow> is_ascii sep \<Longrightarrow> is_ascii (Join ws sep)"
  by (induction ws sep rule: Join.induct) auto

lemma lower_part_ascii: "lower_part w \<Longrightarrow> is_ascii w"
  by (auto simp: lower_part_def word_part_def is_ascii_def list_all_iff)

lemma splitWords_Join:
  assumes "list_all lower_part ws" and "sep = ''_'' \<or> sep = ''-''"
  shows "splitWords U (Join ws sep) = ws"
proof -
  have "is_ascii (Join ws sep)"
    using assms by (intro is_ascii_joined) (auto simp: list_all_iff lower_part_ascii)
  moreover have "list_all plain_runes (map (map of_char) ws)"
    using assms(1) by (auto simp: list_all_iff lower_part_plain)
  ultimately have "splitWords U (Join ws sep) = map string_of_runes (map (map of_char) ws)"
    by (simp only: splitWords_ascii despaced_Join [OF assms] split_words_joined)
  also have "\<dots> = map (\<lambda>w. string_of_runes (map of_char w)) ws" by simp
  also have "\<dots> = ws"
    using assms(1) by (intro map_idI) (simp add: list_all_iff string_of_runes_ascii lower_part_ascii)
  finally show ?thesis .
qed

lemma ascii_lower_cases: "upper c \<and> lower (ascii_lower c) \<or> \<not> upper c \<and> ascii_lower c = c"
  by (auto simp: upper_def lower_def ascii_lower_def ascii_lower_rune_def of_char_of Let_def)

lemma lower_not_sep: "lower c \<Longrightarrow> c \<notin> {CHR '' '', CHR ''_'', CHR ''-''} \<and> \<not> upper c"
  by (auto simp: lower_def upper_def Let_def)

lemma lower_part_lower: "word_part w \<Longrightarrow> lower_part (map ascii_lower w)"
proof -
  have "ascii_lower c \<notin> {CHR '' '', CHR ''_'', CHR ''-''}" if "c \<notin> {CHR '' '', CHR ''_'', CHR ''-''}" for c
    using that ascii_lower_cases [of c] lower_not_sep [of "ascii_lower c"] by metis
  moreover have "\<not> upper (ascii_lower c)" for c
    using ascii_lower_cases [of c] lower_not_sep [of "ascii_lower c"] by metis
  ultimately show "word_part w \<Longrightarrow> lower_part (map ascii_lower w)"
    by (auto simp: lower_part_def word_part_def list_all_iff ascii_lower_ascii)
qed

lemma word_part_ascii: "word_part w \<Longrightarrow> is_ascii w"
  by (simp add: word_part_def is_ascii_def list_all_iff)

lemma str_lower_ascii: "is_ascii w \<Longrightarrow> str_lower U w = map ascii_lower w"
  by (simp add: str_lower_def ToLower_ascii)

lemma lowered_words_parts:
  assumes "is_ascii s"
  shows "list_all lower_part (lowered_words U s)"
proof -
  have "lower_part (str_lower U w)" if "w \<in> set (splitWords U s)" for w
    using splitWords_word_part [OF assms that] by (simp add: str_lower_ascii word_part_ascii lower_part_lower)
  then show ?thesis by (simp add: lowered_words_def list_all_iff)
qed

lemma ascii_lower_part:
  assumes "lower_part w"
  shows "map ascii_lower w = w"
proof (rule map_idI)
  fix c assume "c \<in> set w"
  then have "\<not> upper c" using assms by (simp add: lower_part_def list_all_iff)
  then show "ascii_lower c = c" using ascii_lower_cases [of c] by blast
qed

lemma lowered_words_Join:
  assumes "list_all lower_part ws" and "sep = ''_'' \<or> sep = ''-''"
  shows "lowered_words U (Join ws sep) = ws"
proof -
  have parts: "w \<noteq> []" "str_lower U w = w" if "w \<in> set ws" for w
  proof -
    have "lower_part w" using that assms(1) by (simp add: list_all_iff)
    then show "w \<noteq> []" "str_lower U w = w"
      by (simp_all add: str_lower_ascii lower_part_ascii ascii_lower_part) (simp add: lower_part_def word_part_def)
  qed
  have "filter (\<lambda>w. w \<noteq> []) ws = ws" using parts(1) by (simp add: filter_id_conv)
  moreover have "map (str_lower U) ws = ws" using parts(2) by (rule map_idI)
  ultimately show ?thesis by (simp only: lowered_words_def splitWords_Join [OF assms])
qed

text \<open>
  The snake case and the kebab case of an ASCII name each determine the other, and writing a name twice in one of
  them changes nothing.
\<close>

lemma snake_kebab:
  assumes "is_ascii s"
  shows "ToSnakeCase U (ToSnakeCase U s) = ToSnakeCase U s" "ToKebabCase U (ToSnakeCase U s) = ToKebabCase U s"
    "ToSnakeCase U (ToKebabCase U s) = ToSnakeCase U s" "ToKebabCase U (ToKebabCase U s) = ToKebabCase U s"
  using lowered_words_Join [OF lowered_words_parts [OF assms, of U]]
  by (simp_all add: ToSnakeCase_def ToKebabCase_def)


text \<open>
  The Pascal case of a name of small letters, every word of at least two, gives the name back; words of one letter
  or with digits at the front are joined with their neighbours.
\<close>

definition letters_word :: "string \<Rightarrow> bool" where
  "letters_word w \<longleftrightarrow> list_all lower w \<and> 2 \<le> length w"

definition cap_runes :: "nat list \<Rightarrow> nat list" where
  "cap_runes w = (case w of [] \<Rightarrow> [] | r # rs \<Rightarrow> (r - 32) # rs)"

lemma cap_runes_Cons [simp]: "cap_runes (r # rs) = (r - 32) # rs"
  by (simp add: cap_runes_def)

definition letter_runes :: "nat list \<Rightarrow> bool" where
  "letter_runes w \<longleftrightarrow> list_all (\<lambda>r. 97 \<le> r \<and> r \<le> 122) w"

lemma split_words_letters:
  "letter_runes w \<Longrightarrow> split_words U pv cur (w @ rs) = split_words U (last (pv # w)) (cur @ w) rs"
  by (induction w arbitrary: pv cur) (auto simp: rune_is_upper_def letter_runes_def)

lemma split_words_caps:
  assumes "list_all (\<lambda>w. letter_runes w \<and> 2 \<le> length w) ws" and "cur = [] \<or> 97 \<le> pv \<and> pv \<le> 122"
  shows "split_words U pv cur (concat (map cap_runes ws)) = (if cur = [] then [] else [cur]) @ map cap_runes ws"
  using assms
proof (induction ws arbitrary: pv cur)
  case (Cons w ws)
  from Cons.prems(1) have "2 \<le> length w" by simp
  then obtain r rs where w: "w = r # rs" "rs \<noteq> []" by (cases w) (auto simp: Suc_le_length_iff)
  with Cons.prems(1) have r: "97 \<le> r" "r \<le> 122" and rs: "letter_runes rs" by (auto simp: letter_runes_def)
  have l: "97 \<le> last rs \<and> last rs \<le> 122" using rs w(2) by (auto simp: letter_runes_def list_all_iff)
  have IH: "split_words U (last rs) ((r - 32) # rs) (concat (map cap_runes ws)) = [(r - 32) # rs] @ map cap_runes ws"
    using Cons.IH [of "(r - 32) # rs" "last rs"] Cons.prems(1) l by simp
  have go: "split_words U (r - 32) [r - 32] (rs @ concat (map cap_runes ws)) = [(r - 32) # rs] @ map cap_runes ws"
    using split_words_letters [OF rs, of U "r - 32" "[r - 32]" "concat (map cap_runes ws)"] w(2) IH by simp
  have cap: "r - 32 \<noteq> 32" "rune_is_upper U (r - 32)" using r by (auto simp: rune_is_upper_def)
  show ?case
  proof (cases "cur = []")
    case True
    then show ?thesis using go cap by (simp add: w)
  next
    case False
    then have "rune_is_lower U pv" using Cons.prems(2) by (simp add: rune_is_lower_def)
    then show ?thesis using go cap False by (simp add: w)
  qed
qed simp

lemma lower_facts: "lower c \<Longrightarrow> 97 \<le> (of_char c :: nat) \<and> of_char c \<le> (122 :: nat)"
  by (simp add: lower_def Let_def)

lemma letters_word_runes: "letters_word w \<Longrightarrow> letter_runes (map of_char w) \<and> 2 \<le> length (map of_char w)"
  by (auto simp: letters_word_def letter_runes_def list_all_iff dest: lower_facts)

lemma letters_word_part: "letters_word w \<Longrightarrow> lower_part w"
proof -
  assume w: "letters_word w"
  have "of_char c < (128 :: nat)" "c \<notin> {CHR '' '', CHR ''_'', CHR ''-''} \<and> \<not> upper c" if "c \<in> set w" for c
    using w that lower_facts [of c] lower_not_sep [of c] by (auto simp: letters_word_def list_all_iff)
  with w show ?thesis by (auto simp: lower_part_def word_part_def list_all_iff letters_word_def)
qed

definition cap_word :: "string \<Rightarrow> string" where
  "cap_word w = string_of_runes (cap_runes (map of_char w))"

lemma capitalizeFirst_letters:
  assumes "letters_word w"
  shows "capitalizeFirst U w = cap_word w"
proof -
  obtain c cs where w: "w = c # cs" using assms by (cases w) (auto simp: letters_word_def)
  have ascii: "runes w = map of_char w"
    using letters_word_part [OF assms] by (intro runes_ascii lower_part_ascii)
  have "rune_lower U r = r" if "r \<in> set (map of_char cs)" for r
    using letters_word_runes [OF assms] that w
    by (auto simp: letter_runes_def list_all_iff rune_lower_def ascii_lower_rune_def)
  then have "map (rune_lower U) (map of_char cs) = map of_char cs" by (rule map_idI)
  moreover have "rune_upper U (of_char c) = of_char c - 32"
    using letters_word_runes [OF assms] w by (auto simp: letter_runes_def rune_upper_def)
  ultimately show ?thesis
    unfolding capitalizeFirst_def cap_word_def ascii by (simp only: w list.map list.case cap_runes_def)
qed

lemma ToPascalCase_letters:
  assumes "list_all letters_word ws"
  shows "ToPascalCase U (Join ws ''_'') = concat (map cap_word ws)"
proof -
  have parts: "list_all lower_part ws" using assms by (auto simp: list_all_iff letters_word_part)
  have "filter (\<lambda>w. w \<noteq> []) ws = ws" using assms by (auto simp: filter_id_conv list_all_iff letters_word_def)
  moreover have "map (capitalizeFirst U) ws = map cap_word ws"
    using assms by (simp add: list_all_iff capitalizeFirst_letters)
  ultimately show ?thesis by (simp only: ToPascalCase_def splitWords_Join [OF parts disjI1 [OF refl]])
qed

lemma cap_word_runes:
  assumes "letters_word w"
  shows "map of_char (cap_word w) = cap_runes (map of_char w)" "is_ascii (cap_word w)"
    "despaced (cap_word w) = cap_word w" "map ascii_lower (cap_word w) = w" "cap_word w \<noteq> []"
proof -
  obtain c cs where w: "w = c # cs" using assms by (cases w) (auto simp: letters_word_def)
  have c: "97 \<le> (of_char c :: nat)" "of_char c \<le> (122 :: nat)" and part: "word_part cs \<or> cs = []"
    using assms w lower_facts [of c] letters_word_part [OF assms]
    by (auto simp: letters_word_def lower_part_def word_part_def)
  have cs: "is_ascii cs" using part word_part_ascii by auto
  let ?C = "char_of (of_char c - 32 :: nat) :: char"
  have C: "of_char ?C = (of_char c - 32 :: nat)" using c by (simp add: of_char_of)
  have eq: "cap_word w = ?C # cs"
    using c cs w string_of_runes_ascii [OF cs]
    by (simp add: cap_word_def cap_runes_def string_of_runes_def encode_rune_ascii)
  show "map of_char (cap_word w) = cap_runes (map of_char w)" by (simp only: eq) (simp only: w list.map cap_runes_Cons C)
  show "is_ascii (cap_word w)" using C c cs by (simp add: eq)
  have "(of_char ?C :: nat) \<noteq> of_char CHR ''_''" "(of_char ?C :: nat) \<noteq> of_char CHR ''-''" unfolding C using c by simp_all
  then have "?C \<noteq> CHR ''_''" "?C \<noteq> CHR ''-''" by (metis, metis)
  then show "despaced (cap_word w) = cap_word w"
    using part despaced_part [of cs] by (auto simp: eq despaced_def)
  have "65 \<le> of_char c - (32 :: nat)" "of_char c - (32 :: nat) \<le> 90" using c by auto
  then have "ascii_lower ?C = c" unfolding ascii_lower_def C ascii_lower_rune_def using c by simp
  moreover have "map ascii_lower cs = cs"
    using letters_word_part [OF assms] w ascii_lower_part [of w] by simp
  ultimately show "map ascii_lower (cap_word w) = w" by (simp only: eq) (simp only: w list.map)
  show "cap_word w \<noteq> []" by (simp add: eq)
qed

lemma snake_of_pascal:
  assumes "list_all letters_word ws"
  shows "ToSnakeCase U (ToPascalCase U (Join ws ''_'')) = Join ws ''_''"
proof -
  let ?ps = "map cap_word ws"
  have ascii: "is_ascii (concat ?ps)" "despaced (concat ?ps) = concat ?ps"
    "map of_char (concat ?ps) = concat (map cap_runes (map (map of_char) ws))"
    using assms by (induction ws) (auto simp: cap_word_runes despaced_def [of "[]"])
  have "splitWords U (concat ?ps) = map string_of_runes (map cap_runes (map (map of_char) ws))"
  proof -
    have "list_all (\<lambda>w. letter_runes w \<and> 2 \<le> length w) (map (map of_char) ws)"
      using assms letters_word_runes by (auto simp: list_all_iff)
    from split_words_caps [OF this disjI1 [OF refl], of U 0] show ?thesis
      by (simp only: splitWords_ascii [OF ascii(1)] ascii(2,3) simp_thms if_True append_Nil)
  qed
  then have "splitWords U (concat ?ps) = ?ps" by (simp add: cap_word_def)
  moreover have "filter (\<lambda>w. w \<noteq> []) ?ps = ?ps" using assms by (auto simp: filter_id_conv list_all_iff cap_word_runes)
  moreover have "map (str_lower U) ?ps = ws"
    using assms by (induction ws) (simp_all add: str_lower_ascii cap_word_runes)
  ultimately show ?thesis
    by (simp only: ToSnakeCase_def lowered_words_def ToPascalCase_letters [OF assms])
qed


text \<open>The camel case differs in the first word.\<close>

lemma ToCamelCase_letters:
  assumes "list_all letters_word (w # ws)"
  shows "ToCamelCase U (Join (w # ws) ''_'') = w @ concat (map cap_word ws)"
proof -
  obtain c cs where w: "w = c # cs" using assms by (cases w) (auto simp: letters_word_def)
  let ?C = "char_of (of_char c - 32 :: nat) :: char"
  have c: "97 \<le> (of_char c :: nat)" "of_char c \<le> (122 :: nat)" using assms w lower_facts [of c] by (auto simp: letters_word_def)
  have ascii: "is_ascii (concat (map cap_word ws))" "is_ascii w"
    using assms by (induction ws) (auto simp: cap_word_runes lower_part_ascii letters_word_part)
  have cs: "is_ascii cs" using ascii(2) w by simp
  have cap: "cap_word w = ?C # cs"
    using c cs string_of_runes_ascii [OF cs] by (simp add: w cap_word_def string_of_runes_def encode_rune_ascii)
  have C: "of_char ?C = (of_char c - 32 :: nat)" using c by (simp add: of_char_of)
  have pascal: "ToPascalCase U (Join (w # ws) ''_'') = ?C # cs @ concat (map cap_word ws)"
    using ToPascalCase_letters [OF assms, of U] cap by simp
  have "runes (?C # cs @ concat (map cap_word ws)) = (of_char c - 32) # map of_char (cs @ concat (map cap_word ws))"
    using C c cs ascii(1) by (subst runes_ascii) (simp_all only: list.map C is_ascii_Cons is_ascii_append, simp_all)
  moreover have "encode_rune (rune_lower U (of_char c - 32)) = [c]"
  proof -
    have "(65 :: nat) \<le> of_char c - 32" "of_char c - 32 \<le> (90 :: nat)" "of_char c - 32 + 32 = (of_char c :: nat)" using c by simp_all
    then have "rune_lower U (of_char c - 32) = of_char c" by (simp only: rune_lower_def ascii_lower_rune_def) simp
    with c show ?thesis by (simp add: encode_rune_ascii)
  qed
  moreover have "string_of_runes (map of_char (cs @ concat (map cap_word ws))) = cs @ concat (map cap_word ws)"
    using cs ascii(1) by (intro string_of_runes_ascii) simp
  ultimately show ?thesis
    unfolding ToCamelCase_def pascal by (simp add: string_of_runes_def w)
qed

lemma snake_of_camel:
  assumes "list_all letters_word ws"
  shows "ToSnakeCase U (ToCamelCase U (Join ws ''_'')) = Join ws ''_''"
proof (cases ws)
  case Nil
  then show ?thesis
    by (simp add: ToSnakeCase_def ToCamelCase_def ToPascalCase_def lowered_words_def splitWords_def)
next
  case (Cons w vs)
  let ?s = "w @ concat (map cap_word vs)"
  have w: "letters_word w" and vs: "list_all letters_word vs" using assms Cons by simp_all
  have ascii: "is_ascii ?s" "despaced ?s = ?s" "map of_char ?s = map of_char w @ concat (map cap_runes (map (map of_char) vs))"
    using w vs by (induction vs) (auto simp: cap_word_runes despaced_def [of "[]"] despaced_part lower_part_ascii
      letters_word_part [unfolded lower_part_def] letters_word_part)
  have runes_w: "letter_runes (map of_char w)" "map of_char w \<noteq> ([] :: nat list)"
    using letters_word_runes [OF w] by auto
  have last: "97 \<le> last (0 # map of_char w :: nat list) \<and> last (0 # map of_char w :: nat list) \<le> 122"
    using runes_w last_in_set [OF runes_w(2)] by (auto simp: letter_runes_def list_all_iff)
  have "list_all (\<lambda>w. letter_runes w \<and> 2 \<le> length w) (map (map of_char) vs)"
    using vs letters_word_runes by (auto simp: list_all_iff)
  from split_words_caps [OF this disjI2 [OF last], of U "map of_char w"]
  have "split_words U 0 [] (map of_char ?s) = map of_char w # map cap_runes (map (map of_char) vs)"
    using split_words_letters [OF runes_w(1), of U 0 "[]"] runes_w(2) unfolding ascii(3) by simp
  then have words: "splitWords U ?s = w # map cap_word vs"
    using string_of_runes_ascii [of w] lower_part_ascii [OF letters_word_part [OF w]]
    by (simp only: splitWords_ascii [OF ascii(1)] ascii(2)) (simp add: cap_word_def)
  have "filter (\<lambda>w. w \<noteq> []) (w # map cap_word vs) = w # map cap_word vs"
    using vs runes_w(2) by (auto simp: filter_id_conv list_all_iff cap_word_runes)
  moreover have "map (str_lower U) (w # map cap_word vs) = w # vs"
    using vs w by (induction vs)
      (simp_all add: str_lower_ascii cap_word_runes ascii_lower_part letters_word_part lower_part_ascii)
  ultimately show ?thesis
    using ToCamelCase_letters [of w vs U] assms Cons by (simp only: ToSnakeCase_def lowered_words_def words)
qed



text \<open>
  Names that give the same Pascal case, so the same Go identifiers, although their snake cases, so their directories,
  differ.
\<close>

lemma pascal_clash:
  "ToPascalCase U ''order_2'' = ''Order2''" "ToPascalCase U ''order2'' = ''Order2''"
  "ToSnakeCase U ''order_2'' = ''order_2''" "ToSnakeCase U ''order2'' = ''order2''"
  by ((simp add: ToPascalCase_def ToSnakeCase_def lowered_words_def splitWords_def runes_ascii_Cons
      rune_is_upper_def rune_is_lower_def string_of_runes_def encode_rune_ascii capitalizeFirst_def
      rune_upper_def rune_lower_def ascii_lower_rune_def str_lower_ascii ascii_lower_def, code_simp)+)

end
