(* ===== verification/Prompts.thy ===== *)
theory Prompts
  imports ProjectTree Naming
begin

text \<open>
  The questions of the scaffolding tool (\<open>cmd/cli/commands/prompts.go\<close>, \<open>new.go\<close>): one line of input each.
\<close>

definition fmt_error :: "string \<Rightarrow> goerror" where
  "fmt_error s = Opaque ''*fmt.wrapError'' s"

definition reading_input :: "goerror \<Rightarrow> goerror" where
  "reading_input e = Wrapf ''reading input: '' e"

definition PromptConfirm :: "unicode_tables \<Rightarrow> bool \<Rightarrow> (goerror + bool) fsio" where
  "PromptConfirm U defaultVal =
     pbind read_line (\<lambda>rd.
     Return
       (case rd of
          Inl e \<Rightarrow> Inl (reading_input e)
        | Inr text \<Rightarrow>
            (let line = TrimSpace (str_lower U text) in
             if line = [] then Inr defaultVal
             else if line \<in> {''y'', ''yes'', ''s'', ''sim''} then Inr True
             else if line \<in> {''n'', ''no'', ''n'' @ [CHR 0xC3, CHR 0xA3] @ ''o'', ''nao''} then Inr False
             else Inr defaultVal)))"

definition promptInput :: "string \<Rightarrow> (goerror + string) fsio" where
  "promptInput defaultVal =
     pbind read_line (\<lambda>rd.
     Return
       (case rd of
          Inl e \<Rightarrow> Inl (reading_input e)
        | Inr text \<Rightarrow> (let line = TrimSpace text in if line = [] then Inr defaultVal else Inr line)))"

definition promptSelect :: "string list \<Rightarrow> string \<Rightarrow> (goerror + string) fsio" where
  "promptSelect options defaultVal =
     pbind read_line (\<lambda>rd.
     Return
       (case rd of
          Inl e \<Rightarrow> Inl (reading_input e)
        | Inr text \<Rightarrow>
            (let line = TrimSpace text in
             if line = [] then Inr defaultVal
             else if line \<in> set options then Inr line
             else Inl (fmt_error (''invalid option '' @ [CHR 0x27] @ line @ [CHR 0x27] @ ''; choose from: '' @ Join options '', '')))))"

end
