(* ===== verification/ScaffoldProject.thy ===== *)
theory ScaffoldProject
  imports Prompts Strconv
begin

text \<open>
  What turns a copy of the template into a new project: the configuration and its validation
  (\<open>scaffold/config.go\<close>, \<open>scaffold.go\<close>), the copy and the rewriting of files (\<open>templates/gopherplate\<close>,
  \<open>scaffold/rewriter.go\<close>), the removal of features (\<open>remover.go\<close>) and the generated wiring (\<open>wiring.go\<close>,
  \<open>wiring_regen.go\<close>).  The Go templates and the package \<open>text/template\<close> are a parameter, \<open>engine\<close>.
\<close>

section \<open>Configuration\<close>

text \<open>The three choices are strings in the code: any text can be given for the driver.\<close>

record config =
  c_ServiceName :: string
  c_ModulePath :: string
  c_TemplateModulePath :: string
  c_OutputDir :: string
  c_DB :: string
  c_Protocol :: string
  c_DI :: string
  c_Redis :: bool
  c_Idempotency :: bool
  c_Auth :: bool
  c_KeepExamples :: bool

definition ProtocolHTTP :: string where "ProtocolHTTP = ''http''"
definition DIManual :: string where "DIManual = ''manual''"
definition DBPostgres :: string where "DBPostgres = ''postgres''"
definition DBMySQL :: string where "DBMySQL = ''mysql''"
definition DBSQLite :: string where "DBSQLite = ''sqlite''"
definition DBOther :: string where "DBOther = ''other''"

definition TemplateModulePath :: string where
  "TemplateModulePath = ''github.com/jrmarcello/gopherplate''"

definition NewProjectConfig :: config where
  "NewProjectConfig = \<lparr>c_ServiceName = [], c_ModulePath = [], c_TemplateModulePath = ''github.com/jrmarcello/gopherplate'',
     c_OutputDir = [], c_DB = DBPostgres, c_Protocol = ProtocolHTTP, c_DI = DIManual, c_Redis = True,
     c_Idempotency = True, c_Auth = True, c_KeepExamples = True\<rparr>"

definition Scaffold_Validate :: "(nat \<Rightarrow> bool) \<Rightarrow> config \<Rightarrow> goerror option" where
  "Scaffold_Validate isp cfg =
     (if c_ServiceName cfg = [] then Some (fmt_error ''service name is required'')
      else if c_ModulePath cfg = [] then Some (fmt_error ''module path is required'')
      else if c_OutputDir cfg = [] then Some (fmt_error ''output directory is required'')
      else if c_Idempotency cfg \<and> \<not> c_Redis cfg then Some (fmt_error ''idempotency requires Redis to be enabled'')
      else if c_Protocol cfg \<noteq> ProtocolHTTP then
        Some (fmt_error (''protocol '' @ strconv_Quote isp (c_Protocol cfg) @ '' is not yet supported (only 'http' is available)''))
      else if c_DI cfg \<noteq> DIManual then
        Some (fmt_error (''DI strategy '' @ strconv_Quote isp (c_DI cfg) @ '' is not yet supported (only 'manual' is available)''))
      else None)"

section \<open>Replacing text\<close>

text \<open>\<open>strings.ReplaceAll\<close>; an empty text is found between all code points.\<close>

lemma Index_shorter: "Index s old = Some i \<Longrightarrow> old \<noteq> [] \<Longrightarrow> length s - (i + length old) < length s"
  using Index_Some [of s old i] by (cases old; cases s) auto

function replace_from :: "string \<Rightarrow> string \<Rightarrow> string \<Rightarrow> string" where
  "replace_from old new s =
     (if old = [] then
        (case s of
           [] \<Rightarrow> new
         | c # cs \<Rightarrow> (let w = snd (decode_rune s) in new @ take w s @ replace_from old new (drop w s)))
      else
        (case Index s old of
           None \<Rightarrow> s
         | Some i \<Rightarrow> take i s @ new @ replace_from old new (drop (i + length old) s)))"
  by pat_completeness auto
termination
  by (relation "measure (\<lambda>(old, new, s). length s)")
    (use decode_rune_width in \<open>auto simp: Index_shorter\<close>)

declare replace_from.simps [simp del]

definition ReplaceAll :: "string \<Rightarrow> string \<Rightarrow> string \<Rightarrow> string" where
  "ReplaceAll s old new = replace_from old new s"

section \<open>Copying the template\<close>

definition ExcludePaths :: "string list" where
  "ExcludePaths =
     [''cmd/cli/'', ''.claude/worktrees/'', ''.claude/settings.local.json'', ''.git/'', ''bin/'',
      ''tests/coverage/'', ''tests/load/results/'', ''.github/'', ''roadmap.md'',
      ''docs/guides/template-cli.md'', ''docs/modules/'', ''.env'']"

text \<open>An entry with a slash at the end stands for a directory and all below it.\<close>

definition shouldExclude :: "string \<Rightarrow> bool" where
  "shouldExclude relPath \<longleftrightarrow>
     list_ex (\<lambda>excl.
       if HasSuffix excl ''/'' then HasPrefix relPath excl \<or> relPath @ ''/'' = excl
       else relPath = excl) ExcludePaths"

definition wrap_io :: "string \<Rightarrow> ioerror \<Rightarrow> goerror" where
  "wrap_io s e = Wrapf (s @ '': '') (io_cause e)"

text \<open>\<open>filepath.Rel\<close>: what leads from one path to the other, if both are absolute or both are not.\<close>

fun drop_common :: "string list \<Rightarrow> string list \<Rightarrow> string list \<times> string list" where
  "drop_common (x # xs) (y # ys) = (if x = y then drop_common xs ys else (x # xs, y # ys))"
| "drop_common xs ys = (xs, ys)"

definition path_Rel :: "string \<Rightarrow> string \<Rightarrow> goerror + string" where
  "path_Rel basepath targpath =
     (let rooted = HasPrefix basepath ''/'';
          up_down = drop_common (clean_elems rooted [] (Split basepath CHR ''/''))
                      (clean_elems (HasPrefix targpath ''/'') [] (Split targpath CHR ''/''));
          cannot = Inl (Opaque ''*errors.errorString'' (''Rel: can't make '' @ targpath @ '' relative to '' @ basepath))
      in if rooted \<noteq> HasPrefix targpath ''/'' then cannot
         else if fst up_down \<noteq> [] \<and> hd (fst up_down) = ''..'' then cannot
         else if up_down = ([], []) then Inr ''.''
         else Inr (Join (map (\<lambda>e. ''..'') (fst up_down) @ snd up_down) ''/''))"

definition copyFile :: "string \<Rightarrow> string \<Rightarrow> goerror option fsio" where
  "copyFile src dst =
     pbind (fs_MkdirAll (path_Dir dst)) (\<lambda>mk.
     case mk of
       Some e \<Rightarrow> Return (Some (wrap_io (''creating parent directory for '' @ dst) e))
     | None \<Rightarrow>
         pbind (fs_Open src) (\<lambda>op.
         case op of
           Some e \<Rightarrow> Return (Some (wrap_io (''opening source '' @ src) e))
         | None \<Rightarrow>
             pbind (fs_Create dst) (\<lambda>cr.
             case cr of
               Some e \<Rightarrow> Return (Some (wrap_io (''creating destination '' @ dst) e))
             | None \<Rightarrow>
                 pbind (fs_Copy src dst) (\<lambda>cp.
                 Return (map_option (wrap_io (''copying '' @ src @ '' to '' @ dst)) cp)))))"

definition visit_error :: "goerror option \<Rightarrow> visited" where
  "visit_error e = (case e of None \<Rightarrow> Done | Some x \<Rightarrow> Stop x)"

definition copy_visit :: "string \<Rightarrow> string \<Rightarrow> visitor" where
  "copy_visit srcDir dstDir path is_dir walkErr =
     (case walkErr of
        Some e \<Rightarrow> Return (Stop (wrap_io (''walking '' @ path) e))
      | None \<Rightarrow>
          (case path_Rel srcDir path of
             Inl e \<Rightarrow> Return (Stop (Wrapf (''computing relative path for '' @ path @ '': '') e))
           | Inr relPath \<Rightarrow>
               if relPath = ''.'' then Return Done
               else if shouldExclude relPath then Return (if is_dir then SkipDir else Done)
               else
                 (let targetPath = path_Joins [dstDir, relPath] in
                  if is_dir then
                    pbind (fs_MkdirAll targetPath) (\<lambda>mk.
                    Return (visit_error (map_option (wrap_io (''creating directory '' @ targetPath)) mk)))
                  else pbind (copyFile path targetPath) (\<lambda>r. Return (visit_error r)))))"

definition CopyProject :: "nat \<Rightarrow> string \<Rightarrow> string \<Rightarrow> goerror option option fsio" where
  "CopyProject fuel srcDir dstDir = path_Walk fuel srcDir (copy_visit srcDir dstDir)"

section \<open>Rewriting files\<close>

definition shouldRewriteFile :: "string \<Rightarrow> bool" where
  "shouldRewriteFile path \<longleftrightarrow>
     (let ext = path_Ext path; base = path_Base path in
      ext = ''.go'' \<or> base = ''go.mod'' \<or> base = ''go.sum'' \<or> ext = ''.yaml'' \<or> ext = ''.yml''
      \<or> base = ''Makefile'' \<or> base = ''Dockerfile'' \<or> ext = ''.md'')"

definition rewrite_visit :: "string \<Rightarrow> string \<Rightarrow> visitor" where
  "rewrite_visit oldModule newModule path is_dir walkErr =
     (case walkErr of
        Some e \<Rightarrow> Return (Stop (io_cause e))
      | None \<Rightarrow>
          if is_dir \<or> \<not> shouldRewriteFile path then Return Done
          else
            pbind (fs_ReadFile path) (\<lambda>rd.
            case rd of
              Inl e \<Rightarrow> Return (Stop (io_cause e))
            | Inr oldContent \<Rightarrow>
                (let newContent = ReplaceAll oldContent oldModule newModule in
                 if oldContent = newContent then Return Done
                 else pbind (fs_WriteFile path newContent) (\<lambda>wr. Return (visit_error (map_option io_cause wr))))))"

definition RewriteModulePath :: "nat \<Rightarrow> string \<Rightarrow> string \<Rightarrow> string \<Rightarrow> goerror option option fsio" where
  "RewriteModulePath fuel dir oldModule newModule = path_Walk fuel dir (rewrite_visit oldModule newModule)"

record DBDriverConfig =
  ImportPath :: string
  DriverName :: string

definition DBDrivers :: "string \<rightharpoonup> DBDriverConfig" where
  "DBDrivers =
     [''postgres'' \<mapsto> \<lparr>ImportPath = ''github.com/lib/pq'', DriverName = ''postgres''\<rparr>,
      ''mysql'' \<mapsto> \<lparr>ImportPath = ''github.com/go-sql-driver/mysql'', DriverName = ''mysql''\<rparr>,
      ''sqlite'' \<mapsto> \<lparr>ImportPath = ''modernc.org/sqlite'', DriverName = ''sqlite''\<rparr>]"

definition defaultDriverImport :: string where "defaultDriverImport = ''github.com/lib/pq''"

definition driver_visit :: "DBDriverConfig \<Rightarrow> visitor" where
  "driver_visit driver path is_dir walkErr =
     (case walkErr of
        Some e \<Rightarrow> Return (Stop (io_cause e))
      | None \<Rightarrow>
          if is_dir \<or> path_Ext path \<noteq> ''.go'' then Return Done
          else
            pbind (fs_ReadFile path) (\<lambda>rd.
            case rd of
              Inl e \<Rightarrow> Return (Stop (wrap_io (''reading '' @ path) e))
            | Inr oldContent \<Rightarrow>
                (let newContent = ReplaceAll oldContent defaultDriverImport (ImportPath driver) in
                 if oldContent = newContent then Return Done
                 else
                   pbind (fs_WriteFile path newContent) (\<lambda>wr.
                   Return (visit_error (map_option (wrap_io (''writing '' @ path)) wr))))))"

definition SwitchDBDriver :: "nat \<Rightarrow> string \<Rightarrow> string \<Rightarrow> goerror option option fsio" where
  "SwitchDBDriver fuel projectDir dbChoice =
     (case DBDrivers dbChoice of
        None \<Rightarrow> Return (Some None)
      | Some driver \<Rightarrow>
          if dbChoice = ''postgres'' then Return (Some None)
          else path_Walk fuel projectDir (driver_visit driver))"

definition serviceNameFiles :: "string list" where
  "serviceNameFiles =
     [''Makefile'', ''docker/Dockerfile'', ''docker/docker-compose.yml'',
      ''docker/observability/docker-compose.yml'', ''deploy/base/deployment.yaml'',
      ''deploy/base/hpa.yaml'', ''deploy/base/ingress.yaml'', ''deploy/base/migration-job.yaml'',
      ''deploy/base/networkpolicy.yaml'', ''deploy/base/pdb.yaml'', ''deploy/base/service.yaml'',
      ''deploy/base/serviceaccount.yaml'', ''deploy/overlays/develop/configmap.yaml'',
      ''deploy/overlays/develop/deployment-patch.yaml'', ''deploy/overlays/develop/hpa-patch.yaml'',
      ''deploy/overlays/develop/kustomization.yaml'', ''deploy/overlays/develop/secret.yaml'',
      ''deploy/overlays/homologacao/configmap.yaml'',
      ''deploy/overlays/homologacao/deployment-patch.yaml'',
      ''deploy/overlays/homologacao/hpa-patch.yaml'',
      ''deploy/overlays/homologacao/ingress-host-patch.yaml'',
      ''deploy/overlays/homologacao/kustomization.yaml'', ''deploy/overlays/homologacao/secret.yaml'',
      ''deploy/overlays/producao/configmap.yaml'', ''deploy/overlays/producao/deployment-patch.yaml'',
      ''deploy/overlays/producao/hpa-patch.yaml'', ''deploy/overlays/producao/ingress-host-patch.yaml'',
      ''deploy/overlays/producao/kustomization.yaml'', ''deploy/overlays/producao/secret.yaml'',
      ''.golangci.yml'', ''README.md'', ''CLAUDE.md'', ''AGENTS.md'', ''CONTRIBUTING.md'',
      ''.devcontainer/devcontainer.json'', ''.devcontainer/init-firewall.sh'', ''docs/swagger.yaml'',
      ''docs/swagger.json'', ''config/config.go'', ''docs/docs.go'', ''docs/adr/003-config-strategy.md'',
      ''docs/guides/kubernetes.md'', ''docs/guides/grpc.md'', ''.claude/skills/debug-logs/SKILL.md'']"

definition defaultServiceName :: string where "defaultServiceName = ''gopherplate''"

fun rename_in :: "string \<Rightarrow> string \<Rightarrow> string list \<Rightarrow> goerror option fsio" where
  "rename_in projectDir newName [] = Return None"
| "rename_in projectDir newName (relPath # rest) =
     (let absPath = path_Joins [projectDir, relPath] in
      pbind (fs_ReadFile absPath) (\<lambda>rd.
      case rd of
        Inl (Missing e) \<Rightarrow> rename_in projectDir newName rest
      | Inl (Failed e) \<Rightarrow> Return (Some (wrap_io (''reading '' @ relPath) (Failed e)))
      | Inr oldContent \<Rightarrow>
          (let newContent = ReplaceAll oldContent defaultServiceName newName in
           if oldContent = newContent then rename_in projectDir newName rest
           else
             pbind (fs_Stat absPath) (\<lambda>st.
             case st of
               Inl e \<Rightarrow> Return (Some (wrap_io (''stat '' @ relPath) e))
             | Inr is_dir \<Rightarrow>
                 pbind (fs_WriteFile absPath newContent) (\<lambda>wr.
                 case wr of
                   Some e \<Rightarrow> Return (Some (wrap_io (''writing '' @ relPath) e))
                 | None \<Rightarrow> rename_in projectDir newName rest)))))"

definition ReplaceServiceName :: "string \<Rightarrow> string \<Rightarrow> goerror option fsio" where
  "ReplaceServiceName projectDir newName = rename_in projectDir newName serviceNameFiles"

section \<open>Removing features\<close>

definition FeatureFiles :: "string \<Rightarrow> string list" where
  "FeatureFiles feature =
     (if feature = ''redis'' then
        [''pkg/cache/redisclient'', ''pkg/idempotency'']
      else if feature = ''idempotency'' then
        [''pkg/idempotency'', ''internal/infrastructure/web/middleware/idempotency.go'']
      else if feature = ''auth'' then
        [''internal/infrastructure/web/middleware/service_key.go'']
      else if feature = ''examples'' then
        [''internal/domain/user'', ''internal/domain/role'', ''internal/usecases/user'',
         ''internal/usecases/role'', ''internal/infrastructure/db/postgres/repository/user.go'',
         ''internal/infrastructure/db/postgres/repository/role.go'',
         ''internal/infrastructure/web/handler/user.go'', ''internal/infrastructure/web/handler/role.go'',
         ''internal/infrastructure/web/router/user.go'', ''internal/infrastructure/web/router/role.go'',
         ''internal/infrastructure/telemetry'']
      else [])"

definition features_to_remove :: "config \<Rightarrow> string list" where
  "features_to_remove cfg =
     (if \<not> c_Redis cfg then FeatureFiles ''redis'' else [])
     @ (if \<not> c_Idempotency cfg then FeatureFiles ''idempotency'' else [])
     @ (if \<not> c_Auth cfg then FeatureFiles ''auth'' else [])
     @ (if \<not> c_KeepExamples cfg then FeatureFiles ''examples'' else [])"

fun remove_each :: "string \<Rightarrow> string list \<Rightarrow> goerror option fsio" where
  "remove_each projectDir [] = Return None"
| "remove_each projectDir (rel # rest) =
     pbind (fs_RemoveAll (path_Joins [projectDir, rel])) (\<lambda>r.
     case r of
       Some (Failed e) \<Rightarrow> Return (Some e)
     | _ \<Rightarrow> remove_each projectDir rest)"

definition RemoveDisabledFeatures :: "string \<Rightarrow> config \<Rightarrow> goerror option fsio" where
  "RemoveDisabledFeatures projectDir cfg = remove_each projectDir (features_to_remove cfg)"

section \<open>Wiring\<close>

text \<open>
  What \<open>text/template\<close> makes of a template by name: whether it parses, and for its data the text it writes and the
  error it stops at, if any.
\<close>

record 'd engine =
  e_parse :: "string \<Rightarrow> goerror option"
  e_execute :: "string \<Rightarrow> 'd \<Rightarrow> string \<times> goerror option"

record wiringData =
  w_ModulePath :: string
  w_DB :: string
  w_KeepExamples :: bool
  w_Redis :: bool
  w_Idempotency :: bool
  w_Auth :: bool

definition DBDriverImport :: "wiringData \<Rightarrow> string" where
  "DBDriverImport d =
     (if w_DB d = DBMySQL then ''_ \"github.com/go-sql-driver/mysql\"''
      else if w_DB d = DBSQLite then ''_ \"modernc.org/sqlite\"''
      else if w_DB d = DBOther then ''// TODO: add your database driver import here''
      else ''_ \"github.com/lib/pq\"'')"

definition DBDriverName :: "wiringData \<Rightarrow> string" where
  "DBDriverName d =
     (if w_DB d = DBMySQL then ''mysql'' else if w_DB d = DBSQLite then ''sqlite''
      else if w_DB d = DBOther then ''postgres'' else ''postgres'')"

definition scaffold_detectModulePath :: "string \<Rightarrow> string fsio" where
  "scaffold_detectModulePath projectDir =
     pbind (fs_ReadFile (path_Joins [projectDir, ''go.mod''])) (\<lambda>rd.
     Return
       (case rd of
          Inl e \<Rightarrow> TemplateModulePath
        | Inr text \<Rightarrow>
            (case find (\<lambda>line. HasPrefix line ''module '') (map TrimSpace (Split text CHR 0x0A)) of
               None \<Rightarrow> TemplateModulePath
             | Some line \<Rightarrow> TrimPrefix line ''module '')))"

text \<open>The template is executed into the file it created, so an error leaves what was written before it.\<close>

definition generate_into :: "'d engine \<Rightarrow> string \<Rightarrow> string \<Rightarrow> 'd \<Rightarrow> goerror option fsio" where
  "generate_into engine name outPath data =
     pbind (fs_Create outPath) (\<lambda>cr.
     case cr of
       Some e \<Rightarrow> Return (Some (wrap_io ''creating file'' e))
     | None \<Rightarrow>
         (case e_execute engine name data of
            (out, execErr) \<Rightarrow>
              pbind (fs_Write outPath out) (\<lambda>wr.
              Return (map_option (Wrapf ''executing template: '')
                (case wr of Some e \<Rightarrow> Some e | None \<Rightarrow> execErr)))))"

definition parsing :: "'d engine \<Rightarrow> string \<Rightarrow> goerror option fsio \<Rightarrow> goerror option fsio" where
  "parsing engine name go =
     (case e_parse engine name of Some e \<Rightarrow> Return (Some (Wrapf ''parsing template: '' e)) | None \<Rightarrow> go)"

definition generateServerGo :: "wiringData engine \<Rightarrow> string \<Rightarrow> wiringData \<Rightarrow> goerror option fsio" where
  "generateServerGo engine projectDir data =
     parsing engine ''server.go''
       (generate_into engine ''server.go'' (path_Joins [projectDir, ''cmd'', ''api'', ''server.go'']) data)"

definition generateRouterGo :: "wiringData engine \<Rightarrow> string \<Rightarrow> wiringData \<Rightarrow> goerror option fsio" where
  "generateRouterGo engine projectDir data =
     parsing engine ''router.go''
       (generate_into engine ''router.go''
         (path_Joins [projectDir, ''internal'', ''infrastructure'', ''web'', ''router'', ''router.go'']) data)"

definition generateTestHelpersGo :: "wiringData engine \<Rightarrow> string \<Rightarrow> wiringData \<Rightarrow> goerror option fsio" where
  "generateTestHelpersGo engine projectDir data =
     parsing engine ''test_helpers.go''
       (let bootstrapDir = path_Joins [projectDir, ''internal'', ''bootstrap''] in
        pbind (fs_MkdirAll bootstrapDir) (\<lambda>mk.
        case mk of
          Some e \<Rightarrow> Return (Some (wrap_io ''creating bootstrap dir'' e))
        | None \<Rightarrow> generate_into engine ''test_helpers.go'' (path_Joins [bootstrapDir, ''test_helpers.go'']) data))"

definition CleanupWiring :: "wiringData engine \<Rightarrow> string \<Rightarrow> config \<Rightarrow> goerror option fsio" where
  "CleanupWiring engine projectDir cfg =
     pbind (scaffold_detectModulePath projectDir) (\<lambda>modulePath.
     let data = \<lparr>w_ModulePath = modulePath, w_DB = c_DB cfg, w_KeepExamples = c_KeepExamples cfg,
                 w_Redis = c_Redis cfg, w_Idempotency = c_Idempotency cfg, w_Auth = c_Auth cfg\<rparr>
     in
     pbind (generateServerGo engine projectDir data) (\<lambda>r1.
     case r1 of
       Some e \<Rightarrow> Return (Some (Wrapf ''generating server.go: '' e))
     | None \<Rightarrow>
         pbind (generateRouterGo engine projectDir data) (\<lambda>r2.
         case r2 of
           Some e \<Rightarrow> Return (Some (Wrapf ''generating router.go: '' e))
         | None \<Rightarrow>
             pbind (generateTestHelpersGo engine projectDir data) (\<lambda>r3.
             Return (map_option (Wrapf ''generating test_helpers.go: '') r3)))))"

section \<open>Wiring for the domains found\<close>

record DomainInfo =
  di_Name :: string
  di_Pascal :: string
  di_Camel :: string
  di_Plural :: string
  di_PluralPath :: string
  di_HasCreate :: bool
  di_HasGet :: bool
  di_HasList :: bool
  di_HasUpdate :: bool
  di_HasDelete :: bool
  di_HasMetrics :: bool

definition NewDomainInfo :: "unicode_tables \<Rightarrow> string \<Rightarrow> DomainInfo" where
  "NewDomainInfo U snakeName =
     \<lparr>di_Name = snakeName, di_Pascal = ToPascalCase U snakeName, di_Camel = ToCamelCase U snakeName,
      di_Plural = ToPlural U snakeName, di_PluralPath = ToKebabCase U (ToPlural U snakeName), di_HasCreate = True,
      di_HasGet = True, di_HasList = True, di_HasUpdate = True, di_HasDelete = True, di_HasMetrics = False\<rparr>"

definition scaffold_fileExists :: "string \<Rightarrow> bool fsio" where
  "scaffold_fileExists path = pbind (fs_Stat path) (\<lambda>st. Return (case st of Inl e \<Rightarrow> False | Inr d \<Rightarrow> True))"

definition DetectDomainInfo :: "unicode_tables \<Rightarrow> string \<Rightarrow> string \<Rightarrow> DomainInfo fsio" where
  "DetectDomainInfo U projectDir snakeName =
     (let ucDir = path_Joins [projectDir, ''internal'', ''usecases'', snakeName];
          handlerPath = path_Joins [projectDir, ''internal'', ''infrastructure'', ''web'', ''handler'', snakeName @ ''.go'']
      in
      pbind (scaffold_fileExists (path_Joins [ucDir, ''create.go''])) (\<lambda>c.
      pbind (scaffold_fileExists (path_Joins [ucDir, ''get.go''])) (\<lambda>g.
      pbind (scaffold_fileExists (path_Joins [ucDir, ''list.go''])) (\<lambda>l.
      pbind (scaffold_fileExists (path_Joins [ucDir, ''update.go''])) (\<lambda>u.
      pbind (scaffold_fileExists (path_Joins [ucDir, ''delete.go''])) (\<lambda>d.
      pbind (fs_ReadFile handlerPath) (\<lambda>rd.
      Return ((NewDomainInfo U snakeName)
        \<lparr>di_HasCreate := c, di_HasGet := g, di_HasList := l, di_HasUpdate := u, di_HasDelete := d,
         di_HasMetrics := (case rd of
            Inl e \<Rightarrow> False
          | Inr text \<Rightarrow> Contains text ''*telemetry.Metrics'' \<or> Contains text ''*infratelemetry.Metrics'')\<rparr>))))))))"

record regenData =
  rg_ModulePath :: string
  rg_Domains :: "DomainInfo list"

text \<open>The four files: their path below the project and the name of their template.\<close>

definition wiring_files :: "(string \<times> string) list" where
  "wiring_files =
     [(path_Joins [''cmd'', ''api'', ''server.go''], ''server.go''),
      (path_Joins [''internal'', ''infrastructure'', ''web'', ''router'', ''router.go''], ''router.go''),
      (path_Joins [''internal'', ''bootstrap'', ''container.go''], ''container.go''),
      (path_Joins [''internal'', ''bootstrap'', ''test_helpers.go''], ''test_helpers.go'')]"

fun regenerate_each :: "regenData engine \<Rightarrow> string \<Rightarrow> regenData \<Rightarrow> (string \<times> string) list \<Rightarrow> goerror option fsio" where
  "regenerate_each engine projectDir data [] = Return None"
| "regenerate_each engine projectDir data ((relPath, name) # rest) =
     (case e_parse engine name of
        Some e \<Rightarrow> Return (Some (Wrapf (''parsing template '' @ name @ '': '') e))
      | None \<Rightarrow>
          (case e_execute engine name data of
             (out, Some e) \<Rightarrow> Return (Some (Wrapf (''executing template '' @ name @ '': '') e))
           | (out, None) \<Rightarrow>
               (let outPath = path_Joins [projectDir, relPath]; dirPath = path_Dir outPath in
                pbind (fs_MkdirAll dirPath) (\<lambda>mk.
                case mk of
                  Some e \<Rightarrow> Return (Some (wrap_io (''creating directory '' @ dirPath) e))
                | None \<Rightarrow>
                    pbind (fs_WriteFile outPath out) (\<lambda>wr.
                    case wr of
                      Some e \<Rightarrow> Return (Some (wrap_io (''writing '' @ name) e))
                    | None \<Rightarrow> regenerate_each engine projectDir data rest)))))"

definition RegenerateFromDomains ::
  "regenData engine \<Rightarrow> string \<Rightarrow> string \<Rightarrow> DomainInfo list \<Rightarrow> goerror option fsio" where
  "RegenerateFromDomains engine projectDir modulePath domains =
     regenerate_each engine projectDir \<lparr>rg_ModulePath = modulePath, rg_Domains = domains\<rparr> wiring_files"

section \<open>Template data\<close>

record TemplateData =
  td_DomainName :: string
  td_DomainNamePlural :: string
  td_DomainNamePascal :: string
  td_DomainNameCamel :: string
  td_DomainNameSnake :: string
  td_ModulePath :: string
  td_EndpointNameSnake :: string
  td_EndpointNamePascal :: string
  td_EndpointNameCamel :: string
  td_Config :: config

definition NewTemplateData :: "unicode_tables \<Rightarrow> string \<Rightarrow> config \<Rightarrow> TemplateData" where
  "NewTemplateData U domainName cfg =
     \<lparr>td_DomainName = ToSnakeCase U domainName, td_DomainNamePlural = ToPlural U (ToSnakeCase U domainName),
      td_DomainNamePascal = ToPascalCase U domainName, td_DomainNameCamel = ToCamelCase U domainName,
      td_DomainNameSnake = ToSnakeCase U domainName, td_ModulePath = c_ModulePath cfg, td_EndpointNameSnake = [],
      td_EndpointNamePascal = [], td_EndpointNameCamel = [], td_Config = cfg\<rparr>"

definition WithEndpoint :: "unicode_tables \<Rightarrow> string \<Rightarrow> TemplateData \<Rightarrow> TemplateData" where
  "WithEndpoint U endpointName d =
     d\<lparr>td_EndpointNameSnake := ToSnakeCase U endpointName, td_EndpointNamePascal := ToPascalCase U endpointName,
       td_EndpointNameCamel := ToCamelCase U endpointName\<rparr>"

end
