(* ===== verification/Flavors.thy ===== *)
theory Flavors
  imports ScaffoldProject
begin

text \<open>
  The flavors of a scaffold (\<open>cmd/cli/flavors\<close>): the registry, and the overlays that change a generated tree.  The
  package \<open>golang.org/x/mod\<close> is a parameter.
\<close>

section \<open>Flavors and their registry\<close>

record Overlay =
  ov_Action :: string
  ov_Path :: string
  ov_Template :: string
  ov_Marker :: string
  ov_Module :: string

record Flavor =
  fl_ID :: string
  fl_Description :: string
  fl_Overlays :: "Overlay list"

definition ActionCreate :: string where "ActionCreate = ''create''"
definition ActionAppend :: string where "ActionAppend = ''append''"
definition ActionInsertMarker :: string where "ActionInsertMarker = ''insert-marker''"
definition ActionOverwrite :: string where "ActionOverwrite = ''overwrite''"
definition ActionGoModRequire :: string where "ActionGoModRequire = ''go-mod-require''"

text \<open>The map of a registry, whose iteration order the code does not use.\<close>

type_synonym registry = "(string \<times> Flavor) list"

definition NewRegistry :: registry where
  "NewRegistry = []"

definition Register :: "(nat \<Rightarrow> bool) \<Rightarrow> Flavor \<Rightarrow> registry \<Rightarrow> goerror option \<times> registry" where
  "Register isp f r =
     (case map_of r (fl_ID f) of
        Some g \<Rightarrow> (Some (fmt_error (''flavors: duplicate id '' @ strconv_Quote isp (fl_ID f))), r)
      | None \<Rightarrow> (None, (fl_ID f, f) # r))"

definition List_ids :: "registry \<Rightarrow> string list" where
  "List_ids r = sort_Strings (map fst r)"

definition Get_flavor :: "(nat \<Rightarrow> bool) \<Rightarrow> string \<Rightarrow> registry \<Rightarrow> goerror + Flavor" where
  "Get_flavor isp i r =
     (case map_of r i of
        None \<Rightarrow> Inl (fmt_error (''flavors: unknown flavor '' @ strconv_Quote isp i @ ''; available: '' @ Join (List_ids r) '', ''))
      | Some f \<Rightarrow> Inr f)"

definition Base_flavor :: Flavor where
  "Base_flavor = \<lparr>fl_ID = ''base'', fl_Description = ''Implicit base scaffold (not directly selectable via --flavor)'',
     fl_Overlays = []\<rparr>"

definition Crud :: Flavor where
  "Crud = \<lparr>fl_ID = ''crud'', fl_Description = ''HTTP+gRPC CRUD with Postgres (default)'', fl_Overlays = []\<rparr>"

text \<open>\<open>None\<close> is the panic of a duplicate.\<close>

fun register_all :: "(nat \<Rightarrow> bool) \<Rightarrow> Flavor list \<Rightarrow> registry \<Rightarrow> registry option" where
  "register_all isp [] r = Some r"
| "register_all isp (f # fs) r =
     (case Register isp f r of (Some e, r') \<Rightarrow> None | (None, r') \<Rightarrow> register_all isp fs r')"

definition Default_registry :: "(nat \<Rightarrow> bool) \<Rightarrow> registry option" where
  "Default_registry isp = register_all isp [Crud] NewRegistry"

section \<open>Overlays\<close>

text \<open>The root of an applier is absolute unless the working directory is not known.\<close>

definition NewApplier :: "string \<Rightarrow> string fsio" where
  "NewApplier rt = pbind (fs_Abs rt) (\<lambda>r. Return (case r of Inl e \<Rightarrow> rt | Inr p \<Rightarrow> p))"

definition resolve_overlay :: "(nat \<Rightarrow> bool) \<Rightarrow> string \<Rightarrow> string \<Rightarrow> (goerror + string) fsio" where
  "resolve_overlay isp rt rel =
     (if rel = [] then Return (Inl (fmt_error ''flavors: empty path''))
      else
        (let cleaned = path_Clean rel in
         if HasPrefix cleaned ''..'' \<or> Contains cleaned ''/..'' then
           Return (Inl (fmt_error (''flavors: path '' @ strconv_Quote isp rel @ '' escapes scaffold root (invalid path)'')))
         else
           pbind (fs_Abs (path_Joins [rt, cleaned])) (\<lambda>ab.
           Return
             (case ab of
                Inl e \<Rightarrow> Inl (Wrapf (''flavors: resolving '' @ strconv_Quote isp rel @ '': '') e)
              | Inr fullAbs \<Rightarrow>
                  if fullAbs \<noteq> rt \<and> \<not> HasPrefix fullAbs (rt @ ''/'')
                  then Inl (fmt_error (''flavors: path '' @ strconv_Quote isp rel @ '' escapes scaffold root''))
                  else Inr fullAbs))))"

definition renderTemplate :: "'d engine \<Rightarrow> string \<Rightarrow> 'd \<Rightarrow> goerror + string" where
  "renderTemplate engine src data =
     (if src = [] then Inr []
      else
        (case e_parse engine src of
           Some e \<Rightarrow> Inl (Wrapf ''flavors: template parse: '' e)
         | None \<Rightarrow>
             (case e_execute engine src data of
                (out, Some e) \<Rightarrow> Inl (Wrapf ''flavors: template exec: '' e)
              | (out, None) \<Rightarrow> Inr out)))"

definition write_overlay :: "(nat \<Rightarrow> bool) \<Rightarrow> string \<Rightarrow> string \<Rightarrow> goerror option fsio" where
  "write_overlay isp fullPath body =
     pbind (fs_WriteFile fullPath body) (\<lambda>wr.
     Return (map_option (wrap_io (''flavors: write '' @ strconv_Quote isp fullPath)) wr))"

definition actionCreate :: "(nat \<Rightarrow> bool) \<Rightarrow> 'd engine \<Rightarrow> string \<Rightarrow> string \<Rightarrow> 'd \<Rightarrow> goerror option fsio" where
  "actionCreate isp engine fullPath src data =
     pbind (fs_Stat fullPath) (\<lambda>st.
     case st of
       Inr is_dir \<Rightarrow> Return (Some (fmt_error (''flavors: create '' @ strconv_Quote isp fullPath @ '': path already exists'')))
     | Inl _ \<Rightarrow>
         (case renderTemplate engine src data of
            Inl e \<Rightarrow> Return (Some e)
          | Inr body \<Rightarrow>
              pbind (fs_MkdirAll (path_Dir fullPath)) (\<lambda>mk.
              case mk of
                Some e \<Rightarrow> Return (Some (wrap_io ''flavors: mkdir'' e))
              | None \<Rightarrow> write_overlay isp fullPath body)))"

definition actionAppend :: "(nat \<Rightarrow> bool) \<Rightarrow> 'd engine \<Rightarrow> string \<Rightarrow> string \<Rightarrow> 'd \<Rightarrow> goerror option fsio" where
  "actionAppend isp engine fullPath src data =
     pbind (fs_ReadFile fullPath) (\<lambda>rd.
     case rd of
       Inl e \<Rightarrow> Return (Some (wrap_io (''flavors: append to '' @ strconv_Quote isp fullPath) e))
     | Inr existing \<Rightarrow>
         (case renderTemplate engine src data of
            Inl e \<Rightarrow> Return (Some e)
          | Inr body \<Rightarrow> write_overlay isp fullPath (existing @ body)))"

text \<open>The text goes below the line of the first marker, or to the end if that line is not ended.\<close>

definition insert_below :: "nat \<Rightarrow> string \<Rightarrow> string \<Rightarrow> string" where
  "insert_below markerIdx existing body =
     (case Index (drop markerIdx existing) eol of
        None \<Rightarrow> existing @ eol @ body
      | Some nlIdx \<Rightarrow>
          (let insertAt = markerIdx + nlIdx + 1 in
           take insertAt existing @ body @ (if HasSuffix body eol then [] else eol) @ drop insertAt existing))"

definition actionInsertMarker ::
  "(nat \<Rightarrow> bool) \<Rightarrow> 'd engine \<Rightarrow> string \<Rightarrow> string \<Rightarrow> string \<Rightarrow> 'd \<Rightarrow> goerror option fsio" where
  "actionInsertMarker isp engine fullPath marker src data =
     (if marker = [] then Return (Some (fmt_error ''flavors: insert-marker requires Marker field''))
      else
        pbind (fs_ReadFile fullPath) (\<lambda>rd.
        case rd of
          Inl e \<Rightarrow> Return (Some (wrap_io (''flavors: insert-marker in '' @ strconv_Quote isp fullPath) e))
        | Inr existing \<Rightarrow>
            (case Index existing marker of
               None \<Rightarrow> Return (Some (fmt_error (''flavors: insert-marker target '' @ strconv_Quote isp marker @ '' not found in '' @ fullPath)))
             | Some markerIdx \<Rightarrow>
                 (case renderTemplate engine src data of
                    Inl e \<Rightarrow> Return (Some e)
                  | Inr body \<Rightarrow>
                      (if Index (drop markerIdx existing) eol = None
                       then pbind (fs_WriteFile fullPath (insert_below markerIdx existing body)) (\<lambda>wr. Return (map_option io_cause wr))
                       else write_overlay isp fullPath (insert_below markerIdx existing body))))))"

definition overwriteSentinel :: string where
  "overwriteSentinel = ''overlay: overwrite''"

text \<open>An action with warnings: its error, and the warnings if there is none.\<close>

type_synonym applied = "string list \<times> goerror option"

definition actionOverwrite :: "(nat \<Rightarrow> bool) \<Rightarrow> 'd engine \<Rightarrow> string \<Rightarrow> string \<Rightarrow> 'd \<Rightarrow> applied fsio" where
  "actionOverwrite isp engine fullPath src data =
     pbind (fs_Stat fullPath) (\<lambda>st.
     case st of
       Inl (Missing _) \<Rightarrow> pbind (actionCreate isp engine fullPath src data) (\<lambda>r. Return ([], r))
     | _ \<Rightarrow>
         (case renderTemplate engine src data of
            Inl e \<Rightarrow> Return ([], Some e)
          | Inr body \<Rightarrow>
              if \<not> Contains body overwriteSentinel then
                Return ([], Some (fmt_error (''flavors: overwrite of '' @ strconv_Quote isp fullPath
                  @ '' requires template to include sentinel '' @ strconv_Quote isp overwriteSentinel
                  @ '' in a comment '' @ [CHR 0xE2, CHR 0x80, CHR 0x94] @ '' refuse to silently replace existing file'')))
              else
                pbind (write_overlay isp fullPath body) (\<lambda>wr.
                Return
                  (case wr of
                     Some e \<Rightarrow> ([], Some e)
                   | None \<Rightarrow> ([''overwrote '' @ fullPath @ '' (explicit sentinel present)''], None)))))"

text \<open>The module library: \<open>m_add\<close> is \<open>AddRequire\<close> and the clean-up after it.\<close>

record 'm modlib =
  m_valid :: "string \<Rightarrow> bool"
  m_compare :: "string \<Rightarrow> string \<Rightarrow> int"
  m_parse :: "string \<Rightarrow> string \<Rightarrow> goerror + 'm"
  m_requires :: "'m \<Rightarrow> (string \<times> string) list"
  m_add :: "'m \<Rightarrow> string \<Rightarrow> string \<Rightarrow> goerror + 'm"
  m_format :: "'m \<Rightarrow> goerror + string"

text \<open>The version that is written: the higher one of the first requirement of the module and the one asked for.\<close>

definition version_to_apply :: "'m modlib \<Rightarrow> 'm \<Rightarrow> string \<Rightarrow> string \<Rightarrow> string \<times> string list" where
  "version_to_apply M md path version =
     (case find (\<lambda>rq. fst rq = path) (m_requires M md) of
        None \<Rightarrow> (version, [])
      | Some (_, old) \<Rightarrow>
          if m_compare M old version > 0 then
            (old, [''go-mod-require: '' @ path @ '' already at '' @ old @ '', keeping existing (requested '' @ version @ '')''])
          else if m_compare M old version < 0 then
            (version, [''go-mod-require: bumping '' @ path @ '' from '' @ old @ '' to '' @ version])
          else (version, []))"

definition actionGoModRequire :: "(nat \<Rightarrow> bool) \<Rightarrow> 'm modlib \<Rightarrow> string \<Rightarrow> string \<Rightarrow> applied fsio" where
  "actionGoModRequire isp M fullPath m =
     (case Fields m of
        [path, version] \<Rightarrow>
          if \<not> m_valid M version then
            Return ([], Some (fmt_error (''flavors: go-mod-require invalid semver '' @ strconv_Quote isp version @ '' for '' @ strconv_Quote isp path)))
          else
            pbind (fs_ReadFile fullPath) (\<lambda>rd.
            case rd of
              Inl e \<Rightarrow> Return ([], Some (wrap_io (''flavors: go-mod-require read '' @ strconv_Quote isp fullPath) e))
            | Inr existing \<Rightarrow>
                (case m_parse M (path_Base fullPath) existing of
                   Inl e \<Rightarrow> Return ([], Some (Wrapf ''flavors: go-mod-require parse: '' e))
                 | Inr md \<Rightarrow>
                     (case version_to_apply M md path version of
                        (v, warnings) \<Rightarrow>
                          (case m_add M md path v of
                             Inl e \<Rightarrow> Return ([], Some (Wrapf ''flavors: go-mod-require AddRequire: '' e))
                           | Inr md' \<Rightarrow>
                               (case m_format M md' of
                                  Inl e \<Rightarrow> Return ([], Some (Wrapf ''flavors: go-mod-require format: '' e))
                                | Inr out \<Rightarrow>
                                    pbind (fs_WriteFile fullPath out) (\<lambda>wr.
                                    Return
                                      (case wr of
                                         Some e \<Rightarrow> ([], Some (wrap_io ''flavors: go-mod-require write'' e))
                                       | None \<Rightarrow> (warnings, None))))))))
      | _ \<Rightarrow> Return ([], Some (fmt_error (''flavors: go-mod-require Module must be \"path version\", got '' @ strconv_Quote isp m))))"

definition ApplyWithWarnings ::
  "(nat \<Rightarrow> bool) \<Rightarrow> 'd engine \<Rightarrow> 'm modlib \<Rightarrow> string \<Rightarrow> Overlay \<Rightarrow> 'd \<Rightarrow> applied fsio" where
  "ApplyWithWarnings isp engine M rt o1 data =
     pbind (resolve_overlay isp rt (ov_Path o1)) (\<lambda>rs.
     case rs of
       Inl e \<Rightarrow> Return ([], Some e)
     | Inr fullPath \<Rightarrow>
         if ov_Action o1 = ActionCreate then
           pbind (actionCreate isp engine fullPath (ov_Template o1) data) (\<lambda>r. Return ([], r))
         else if ov_Action o1 = ActionAppend then
           pbind (actionAppend isp engine fullPath (ov_Template o1) data) (\<lambda>r. Return ([], r))
         else if ov_Action o1 = ActionInsertMarker then
           pbind (actionInsertMarker isp engine fullPath (ov_Marker o1) (ov_Template o1) data) (\<lambda>r. Return ([], r))
         else if ov_Action o1 = ActionOverwrite then actionOverwrite isp engine fullPath (ov_Template o1) data
         else if ov_Action o1 = ActionGoModRequire then actionGoModRequire isp M fullPath (ov_Module o1)
         else Return ([], Some (fmt_error (''flavors: unknown action '' @ strconv_Quote isp (ov_Action o1)))))"

definition Apply_overlay ::
  "(nat \<Rightarrow> bool) \<Rightarrow> 'd engine \<Rightarrow> 'm modlib \<Rightarrow> string \<Rightarrow> Overlay \<Rightarrow> 'd \<Rightarrow> goerror option fsio" where
  "Apply_overlay isp engine M rt o1 data = pbind (ApplyWithWarnings isp engine M rt o1 data) (\<lambda>r. Return (snd r))"

end
