(* ===== verification/CliNew.thy ===== *)
theory CliNew
  imports Flavors Prompts
begin

text \<open>
  The command \<open>new\<close> of the scaffolding tool (\<open>cmd/cli/commands/new.go\<close>): the search for the template, the configuration from arguments, flags and answers, and the making of the project.  The programs it
  runs in the new directory are a parameter; the messages it prints are left out.
\<close>

section \<open>The template\<close>

text \<open>The first module directive of the file decides.\<close>

fun declares_template :: "string list \<Rightarrow> bool" where
  "declares_template [] \<longleftrightarrow> False"
| "declares_template (line # rest) \<longleftrightarrow>
     (let trimmed = TrimSpace line in
      if HasPrefix trimmed ''module '' then TrimSpace trimmed = ''module '' @ TemplateModulePath
      else declares_template rest)"

definition isGopherplateRoot :: "string \<Rightarrow> bool fsio" where
  "isGopherplateRoot dir =
     pbind (fs_ReadFile (path_Joins [dir, ''go.mod''])) (\<lambda>rd.
     Return (case rd of Inl e \<Rightarrow> False | Inr data \<Rightarrow> declares_template (Split data CHR 0x0A)))"

text \<open>The walk towards the root ends: a directory above has a shorter path, or is the last one.\<close>

function walkUpForTemplate :: "string \<Rightarrow> string option fsio" where
  "walkUpForTemplate dir =
     pbind (isGopherplateRoot dir) (\<lambda>found.
     if found then Return (Some dir)
     else if path_Dir dir = dir then Return None
     else walkUpForTemplate (path_Dir dir))"
  by pat_completeness auto
termination
  by (relation "measure (\<lambda>dir. if dir = ''.'' then 0 else length dir + 1)") (auto dest: path_Dir_shorter simp: path_Dir_dot)

declare walkUpForTemplate.simps [simp del]

text \<open>The environment: the variable, the path of the program if it is known, and whether input is a terminal.\<close>

record environment =
  env_template :: string
  env_executable :: "string option"
  env_interactive :: bool

fun first_template :: "string list \<Rightarrow> string option fsio" where
  "first_template [] = Return None"
| "first_template (start # rest) =
     pbind (walkUpForTemplate start) (\<lambda>f.
     case f of Some d \<Rightarrow> Return (Some d) | None \<Rightarrow> first_template rest)"

definition not_a_checkout :: "(nat \<Rightarrow> bool) \<Rightarrow> string \<Rightarrow> string \<Rightarrow> goerror" where
  "not_a_checkout isp what v =
     fmt_error (what @ strconv_Quote isp v @ '' does not point to a gopherplate checkout (no go.mod with module ''
       @ TemplateModulePath @ '')'')"

definition resolveTemplateRoot :: "(nat \<Rightarrow> bool) \<Rightarrow> environment \<Rightarrow> string \<Rightarrow> (goerror + string) fsio" where
  "resolveTemplateRoot isp env flagValue =
     (if flagValue \<noteq> [] then
        pbind (fs_Abs flagValue) (\<lambda>ab.
        case ab of
          Inl e \<Rightarrow> Return (Inl (Wrapf ''resolving --template path: '' e))
        | Inr full \<Rightarrow>
            pbind (isGopherplateRoot full) (\<lambda>ok.
            Return (if ok then Inr full else Inl (not_a_checkout isp ''--template '' flagValue))))
      else if env_template env \<noteq> [] then
        pbind (fs_Abs (env_template env)) (\<lambda>ab.
        case ab of
          Inl e \<Rightarrow> Return (Inl (not_a_checkout isp ''$GOPHERPLATE_TEMPLATE='' (env_template env)))
        | Inr full \<Rightarrow>
            pbind (isGopherplateRoot full) (\<lambda>ok.
            Return (if ok then Inr full else Inl (not_a_checkout isp ''$GOPHERPLATE_TEMPLATE='' (env_template env)))))
      else
        pbind fs_Getwd (\<lambda>wd.
        pbind (first_template
                ((case wd of Inl e \<Rightarrow> [] | Inr d \<Rightarrow> [d])
                 @ (case env_executable env of None \<Rightarrow> [] | Some exe \<Rightarrow> [path_Dir exe]))) (\<lambda>f.
        Return
          (case f of
             Some d \<Rightarrow> Inr d
           | None \<Rightarrow>
               Inl (fmt_error (''could not locate the gopherplate template automatically; ''
                 @ ''run from inside a gopherplate checkout, set $GOPHERPLATE_TEMPLATE to the checkout path, ''
                 @ ''or pass --template <path>''))))))"

section \<open>The configuration\<close>

text \<open>The flags; \<open>nf_changed\<close> are the names of those given.\<close>

record new_flags =
  nf_args :: "string list"
  nf_module :: string
  nf_db :: string
  nf_template :: string
  nf_flavor :: string
  nf_no_redis :: bool
  nf_no_idempotency :: bool
  nf_no_auth :: bool
  nf_no_examples :: bool
  nf_keep_examples :: bool
  nf_yes :: bool
  nf_changed :: "string list"

definition service_name_error :: "(nat \<Rightarrow> bool) \<Rightarrow> string \<Rightarrow> goerror option" where
  "service_name_error isp name =
     (if name = [] then Some (fmt_error ''service name is required'')
      else if \<not> MatchString serviceNamePattern name then
        Some (fmt_error (''invalid service name '' @ strconv_Quote isp name
          @ '': must start with a lowercase letter and contain only lowercase letters, digits, and hyphens''))
      else None)"

definition resolveFlavor :: "(nat \<Rightarrow> bool) \<Rightarrow> string \<Rightarrow> registry \<Rightarrow> goerror + Flavor" where
  "resolveFlavor isp i r = Get_flavor isp (if i = [] then ''crud'' else i) r"

text \<open>A step of the configuration: a question, asked only if \<open>ask\<close>.\<close>

definition confirm_if :: "unicode_tables \<Rightarrow> bool \<Rightarrow> bool \<Rightarrow> (goerror + bool) fsio" where
  "confirm_if U ask otherwise = (if ask then PromptConfirm U True else Return (Inr otherwise))"

definition choose_module :: "bool \<Rightarrow> new_flags \<Rightarrow> string \<Rightarrow> (goerror + string) fsio" where
  "choose_module interactive fl name =
     (if nf_module fl \<noteq> [] then Return (Inr (nf_module fl))
      else if interactive then promptInput (''github.com/appmax/'' @ name)
      else Return (Inr (''github.com/appmax/'' @ name)))"

definition choose_db :: "bool \<Rightarrow> new_flags \<Rightarrow> string \<Rightarrow> (goerror + string) fsio" where
  "choose_db interactive fl current =
     (if nf_db fl \<noteq> [] then Return (Inr (nf_db fl))
      else if interactive then promptSelect [''postgres'', ''mysql'', ''sqlite3'', ''other''] ''postgres''
      else Return (Inr current))"

definition choose_redis :: "unicode_tables \<Rightarrow> bool \<Rightarrow> new_flags \<Rightarrow> bool \<Rightarrow> (goerror + bool) fsio" where
  "choose_redis U interactive fl current =
     (if nf_no_redis fl then Return (Inr False)
      else confirm_if U (interactive \<and> ''no-redis'' \<notin> set (nf_changed fl)) current)"

definition choose_idempotency :: "unicode_tables \<Rightarrow> bool \<Rightarrow> new_flags \<Rightarrow> bool \<Rightarrow> bool \<Rightarrow> (goerror + bool) fsio" where
  "choose_idempotency U interactive fl redis current =
     (if \<not> redis then Return (Inr False)
      else if nf_no_idempotency fl then Return (Inr False)
      else confirm_if U (interactive \<and> ''no-idempotency'' \<notin> set (nf_changed fl)) current)"

definition choose_auth :: "unicode_tables \<Rightarrow> bool \<Rightarrow> new_flags \<Rightarrow> bool \<Rightarrow> (goerror + bool) fsio" where
  "choose_auth U interactive fl current =
     (if nf_no_auth fl then Return (Inr False)
      else confirm_if U (interactive \<and> ''no-auth'' \<notin> set (nf_changed fl)) current)"

definition choose_examples :: "unicode_tables \<Rightarrow> bool \<Rightarrow> new_flags \<Rightarrow> bool \<Rightarrow> (goerror + bool) fsio" where
  "choose_examples U interactive fl current =
     (if nf_no_examples fl then Return (Inr False)
      else if nf_keep_examples fl then Return (Inr True)
      else confirm_if U (interactive \<and> ''no-examples'' \<notin> set (nf_changed fl)
             \<and> ''keep-examples'' \<notin> set (nf_changed fl)) current)"

text \<open>The next step after one that may have failed.\<close>

definition and_then :: "(goerror + 'a) fsio \<Rightarrow> ('a \<Rightarrow> (goerror + 'b) fsio) \<Rightarrow> (goerror + 'b) fsio" where
  "and_then p k = pbind p (\<lambda>r. case r of Inl e \<Rightarrow> Return (Inl e) | Inr x \<Rightarrow> k x)"

definition choose_name :: "bool \<Rightarrow> new_flags \<Rightarrow> (goerror + string) fsio" where
  "choose_name interactive fl =
     (let given = (case nf_args fl of [] \<Rightarrow> [] | a # _ \<Rightarrow> a) in
      if given = [] \<and> interactive then promptInput [] else Return (Inr given))"

definition collect_config ::
  "unicode_tables \<Rightarrow> (nat \<Rightarrow> bool) \<Rightarrow> registry \<Rightarrow> environment \<Rightarrow> new_flags \<Rightarrow> (goerror + config \<times> Flavor) fsio" where
  "collect_config U isp reg env fl =
     (let cfg = NewProjectConfig; interactive = env_interactive env \<and> \<not> nf_yes fl in
      and_then (choose_name interactive fl) (\<lambda>name.
      case service_name_error isp name of
        Some e \<Rightarrow> Return (Inl e)
      | None \<Rightarrow>
          (case resolveFlavor isp (nf_flavor fl) reg of
             Inl e \<Rightarrow> Return (Inl e)
           | Inr flavor \<Rightarrow>
               and_then (choose_module interactive fl name) (\<lambda>md.
               and_then (choose_db interactive fl (c_DB cfg)) (\<lambda>db.
               and_then (choose_redis U interactive fl (c_Redis cfg)) (\<lambda>redis.
               and_then (choose_idempotency U interactive fl redis (c_Idempotency cfg)) (\<lambda>idem.
               and_then (choose_auth U interactive fl (c_Auth cfg)) (\<lambda>auth.
               and_then (choose_examples U interactive fl (c_KeepExamples cfg)) (\<lambda>ex.
               Return (Inr
                 (cfg\<lparr>c_ServiceName := name, c_ModulePath := md, c_DB := db, c_Protocol := ProtocolHTTP, c_DI := DIManual,
                    c_Redis := redis, c_Idempotency := idem, c_Auth := auth, c_KeepExamples := ex\<rparr>, flavor)))))))))))"

section \<open>Making the project\<close>

text \<open>A step that walks a tree may run out of fuel (\<open>None\<close>), which is no answer of the code.\<close>

type_synonym outcome = "goerror option option"

definition step :: "string \<Rightarrow> outcome fsio \<Rightarrow> outcome fsio \<Rightarrow> outcome fsio" where
  "step what p q =
     pbind p (\<lambda>r. case r of None \<Rightarrow> Return None | Some (Some e) \<Rightarrow> Return (Some (Some (Wrapf what e))) | Some None \<Rightarrow> q)"

definition ends :: "goerror option fsio \<Rightarrow> outcome fsio" where
  "ends p = pbind p (\<lambda>r. Return (Some r))"

definition specs_allowed :: "string list" where
  "specs_allowed = [''TEMPLATE.md'', ''.gitkeep'', ''.gitignore'']"

fun remove_quietly :: "string list \<Rightarrow> unit fsio" where
  "remove_quietly [] = Return ()"
| "remove_quietly (p # ps) = pbind (fs_Remove p) (\<lambda>_. remove_quietly ps)"

definition clean_specs :: "string \<Rightarrow> unit fsio" where
  "clean_specs outputDir =
     (let specsDir = path_Joins [outputDir, ''.specs''] in
      pbind (fs_ReadDir specsDir) (\<lambda>rd.
      case rd of
        Inl e \<Rightarrow> Return ()
      | Inr entries \<Rightarrow>
          remove_quietly (map (\<lambda>n. path_Joins [specsDir, n]) (filter (\<lambda>n. n \<notin> set specs_allowed) (map fst entries)))))"

definition changelogContent :: string where
  "changelogContent = ''# Changelog'' @ eol @ eol @ ''All notable changes to this project will be documented in this file.''
     @ eol @ eol @ ''Format based on [Keep a Changelog](https://keepachangelog.com/en/1.1.0/).'' @ eol"

definition cleanupFiles :: "config \<Rightarrow> string list" where
  "cleanupFiles cfg =
     [''docs/swagger.json'', ''docs/swagger.yaml''] @ (if \<not> c_KeepExamples cfg then [''docs/docs.go''] else [])"

fun apply_overlays ::
  "(nat \<Rightarrow> bool) \<Rightarrow> config engine \<Rightarrow> 'm modlib \<Rightarrow> string \<Rightarrow> config \<Rightarrow> Overlay list \<Rightarrow> goerror option fsio" where
  "apply_overlays isp engine M rt cfg [] = Return None"
| "apply_overlays isp engine M rt cfg (o1 # os) =
     pbind (Apply_overlay isp engine M rt o1 cfg) (\<lambda>r.
     case r of
       Some e \<Rightarrow> Return (Some (Wrapf (''applying overlay '' @ ov_Action o1 @ ''@'' @ ov_Path o1 @ '': '') e))
     | None \<Rightarrow> apply_overlays isp engine M rt cfg os)"

text \<open>
  The libraries and programs a run depends on: the templates of the wiring and of overlays, the module library, and
  what a program run in a directory does to the tree; its failure is only reported.
\<close>

record 'm toolbox =
  tb_wiring :: "wiringData engine"
  tb_overlay :: "config engine"
  tb_modlib :: "'m modlib"
  tb_run :: "string \<Rightarrow> string \<Rightarrow> unit fsio"

definition finish_project ::
  "(nat \<Rightarrow> bool) \<Rightarrow> 'm toolbox \<Rightarrow> Flavor \<Rightarrow> config \<Rightarrow> string \<Rightarrow> outcome fsio" where
  "finish_project isp tb flavor cfg outputDir =
     pbind (clean_specs outputDir) (\<lambda>_.
     pbind (fs_WriteFile (path_Joins [outputDir, ''CHANGELOG.md'']) changelogContent) (\<lambda>_.
     pbind (remove_quietly (map (\<lambda>f. path_Joins [outputDir, f]) (cleanupFiles cfg))) (\<lambda>_.
     pbind (if fl_Overlays flavor = [] then Return None
            else pbind (NewApplier outputDir) (\<lambda>rt.
                 apply_overlays isp (tb_overlay tb) (tb_modlib tb) rt cfg (fl_Overlays flavor))) (\<lambda>ov.
     case ov of
       Some e \<Rightarrow> Return (Some (Some e))
     | None \<Rightarrow>
         pbind (tb_run tb ''git init'' outputDir) (\<lambda>_.
         pbind (tb_run tb ''go mod tidy'' outputDir) (\<lambda>_.
         pbind (tb_run tb ''go build ./...'' outputDir) (\<lambda>_. Return (Some None))))))))"

definition create_project ::
  "(nat \<Rightarrow> bool) \<Rightarrow> 'm toolbox \<Rightarrow> nat \<Rightarrow> string \<Rightarrow> Flavor \<Rightarrow> config \<Rightarrow> string \<Rightarrow> outcome fsio" where
  "create_project isp tb fuel templateDir flavor cfg outputDir =
     step ''copying project: '' (CopyProject fuel templateDir outputDir)
       (step ''rewriting module path: '' (RewriteModulePath fuel outputDir TemplateModulePath (c_ModulePath cfg))
         (step ''replacing service name: '' (ends (ReplaceServiceName outputDir (c_ServiceName cfg)))
           (step ''switching DB driver: ''
             (if c_DB cfg \<noteq> DBPostgres then SwitchDBDriver fuel outputDir (c_DB cfg) else Return (Some None))
             (step ''removing disabled features: '' (ends (RemoveDisabledFeatures outputDir cfg))
               (step ''cleaning up wiring: '' (ends (CleanupWiring (tb_wiring tb) outputDir cfg))
                 (finish_project isp tb flavor cfg outputDir))))))"

definition runNew ::
  "unicode_tables \<Rightarrow> (nat \<Rightarrow> bool) \<Rightarrow> 'm toolbox \<Rightarrow> nat \<Rightarrow> registry \<Rightarrow> environment \<Rightarrow> new_flags \<Rightarrow> outcome fsio" where
  "runNew U isp tb fuel reg env fl =
     pbind (collect_config U isp reg env fl) (\<lambda>cc.
     case cc of
       Inl e \<Rightarrow> Return (Some (Some e))
     | Inr (cfg, flavor) \<Rightarrow>
         pbind (resolveTemplateRoot isp env (nf_template fl)) (\<lambda>rt.
         case rt of
           Inl e \<Rightarrow> Return (Some (Some e))
         | Inr templateDir \<Rightarrow>
             (let outputDir = path_Joins [''.'', c_ServiceName cfg] in
              pbind (fs_Stat outputDir) (\<lambda>st.
              case st of
                Inr is_dir \<Rightarrow>
                  Return (Some (Some (fmt_error (''directory '' @ [CHR 0x27] @ c_ServiceName cfg @ [CHR 0x27] @ '' already exists''))))
              | Inl _ \<Rightarrow> create_project isp tb fuel templateDir flavor cfg outputDir))))"

end
