(* ===== verification/CliDomain.thy ===== *)
theory CliDomain
  imports ScaffoldProject GoTime
begin

text \<open>
  The commands on the domains of a project (\<open>cmd/cli/commands\<close>): adding and removing a domain or an endpoint, and the
  wiring of the domains found.  Messages are left out, and with them the list of kept migrations.
\<close>

section \<open>The project\<close>

definition detectModulePath :: "(goerror + string) fsio" where
  "detectModulePath =
     pbind (fs_ReadFile ''go.mod'') (\<lambda>rd.
     Return
       (case rd of
          Inl e \<Rightarrow> Inl (io_cause e)
        | Inr text \<Rightarrow>
            (case find (\<lambda>line. HasPrefix line ''module '') (map TrimSpace (Split text CHR 0x0A)) of
               None \<Rightarrow> Inl (fmt_error ''module directive not found in go.mod'')
             | Some line \<Rightarrow>
                 (let modulePath = TrimSpace (TrimPrefix line ''module '') in
                  if modulePath = [] then Inl (fmt_error ''empty module path in go.mod'') else Inr modulePath))))"

definition in_project :: "(string \<Rightarrow> goerror option fsio) \<Rightarrow> goerror option fsio" where
  "in_project go =
     pbind detectModulePath (\<lambda>md.
     case md of
       Inl e \<Rightarrow> Return (Some (Opaque ''*fmt.wrapError''
                  (''detecting module path: '' @ err_text e @ '' (are you in a Go project directory?)'')))
     | Inr modulePath \<Rightarrow> go modulePath)"

definition quoted1 :: "string \<Rightarrow> string" where
  "quoted1 s = [CHR 0x27] @ s @ [CHR 0x27]"

definition domain_name_error :: "unicode_tables \<Rightarrow> string \<Rightarrow> goerror option" where
  "domain_name_error U name =
     (if name = [] then Some (fmt_error ''domain name cannot be empty'')
      else if \<not> MatchString domainNamePattern (ToSnakeCase U name) then
        Some (fmt_error (''invalid domain name '' @ quoted1 name @ '' (normalized: '' @ quoted1 (ToSnakeCase U name)
          @ ''): must start with a letter and contain only lowercase letters, digits, and underscores''))
      else None)"

section \<open>Adding\<close>

definition Format_goose :: "time \<Rightarrow> string" where
  "Format_goose t =
     (case (date_of t, clock_of t) of ((y, m, d), (h, mi, sec, ns)) \<Rightarrow>
        padded 4 y @ padded 2 m @ padded 2 d @ padded 2 h @ padded 2 mi @ padded 2 sec)"

definition buildTemplateMappings :: "unicode_tables \<Rightarrow> string \<Rightarrow> string \<Rightarrow> (string \<times> string) list" where
  "buildTemplateMappings U s ts =
     [(''entity.go.tmpl'', path_Joins [''internal'', ''domain'', s, ''entity.go'']),
      (''entity_test.go.tmpl'', path_Joins [''internal'', ''domain'', s, ''entity_test.go'']),
      (''errors.go.tmpl'', path_Joins [''internal'', ''domain'', s, ''errors.go'']),
      (''filter.go.tmpl'', path_Joins [''internal'', ''domain'', s, ''filter.go'']),
      (''filter_test.go.tmpl'', path_Joins [''internal'', ''domain'', s, ''filter_test.go'']),
      (''create_usecase.go.tmpl'', path_Joins [''internal'', ''usecases'', s, ''create.go'']),
      (''get_usecase.go.tmpl'', path_Joins [''internal'', ''usecases'', s, ''get.go'']),
      (''list_usecase.go.tmpl'', path_Joins [''internal'', ''usecases'', s, ''list.go'']),
      (''update_usecase.go.tmpl'', path_Joins [''internal'', ''usecases'', s, ''update.go'']),
      (''delete_usecase.go.tmpl'', path_Joins [''internal'', ''usecases'', s, ''delete.go'']),
      (''usecase_errors.go.tmpl'', path_Joins [''internal'', ''usecases'', s, ''errors.go'']),
      (''mocks_test.go.tmpl'', path_Joins [''internal'', ''usecases'', s, ''mocks_test.go'']),
      (''create_usecase_test.go.tmpl'', path_Joins [''internal'', ''usecases'', s, ''create_test.go'']),
      (''get_usecase_test.go.tmpl'', path_Joins [''internal'', ''usecases'', s, ''get_test.go'']),
      (''update_usecase_test.go.tmpl'', path_Joins [''internal'', ''usecases'', s, ''update_test.go'']),
      (''delete_usecase_test.go.tmpl'', path_Joins [''internal'', ''usecases'', s, ''delete_test.go'']),
      (''list_usecase_test.go.tmpl'', path_Joins [''internal'', ''usecases'', s, ''list_test.go'']),
      (''repository_interface.go.tmpl'', path_Joins [''internal'', ''usecases'', s, ''interfaces'', ''repository.go'']),
      (''dto_create.go.tmpl'', path_Joins [''internal'', ''usecases'', s, ''dto'', ''create.go'']),
      (''dto_get.go.tmpl'', path_Joins [''internal'', ''usecases'', s, ''dto'', ''get.go'']),
      (''dto_list.go.tmpl'', path_Joins [''internal'', ''usecases'', s, ''dto'', ''list.go'']),
      (''dto_update.go.tmpl'', path_Joins [''internal'', ''usecases'', s, ''dto'', ''update.go'']),
      (''dto_delete.go.tmpl'', path_Joins [''internal'', ''usecases'', s, ''dto'', ''delete.go'']),
      (''repository_postgres.go.tmpl'', path_Joins [''internal'', ''infrastructure'', ''db'', ''postgres'', ''repository'', s @ ''.go'']),
      (''repository_postgres_test.go.tmpl'', path_Joins [''internal'', ''infrastructure'', ''db'', ''postgres'', ''repository'', s @ ''_test.go'']),
      (''handler.go.tmpl'', path_Joins [''internal'', ''infrastructure'', ''web'', ''handler'', s @ ''.go'']),
      (''router.go.tmpl'', path_Joins [''internal'', ''infrastructure'', ''web'', ''router'', s @ ''.go'']),
      (''migration.sql.tmpl'', path_Joins [''internal'', ''infrastructure'', ''db'', ''postgres'', ''migration'', ts @ ''_create_'' @ ToPlural U s @ ''.sql''])]"

text \<open>\<open>RenderTemplate\<close> on the text of a template; the embedded files are a parameter.\<close>

definition RenderTemplate :: "TemplateData engine \<Rightarrow> string \<Rightarrow> TemplateData \<Rightarrow> goerror + string" where
  "RenderTemplate engine tmplContent data =
     (case e_parse engine tmplContent of
        Some e \<Rightarrow> Inl e
      | None \<Rightarrow> (case e_execute engine tmplContent data of (out, Some e) \<Rightarrow> Inl e | (out, None) \<Rightarrow> Inr out))"

record scaffolder =
  sc_embedded :: "string \<Rightarrow> goerror + string"
  sc_engine :: "TemplateData engine"

fun render_each :: "string \<Rightarrow> scaffolder \<Rightarrow> TemplateData \<Rightarrow> (string \<times> string) list \<Rightarrow> goerror option fsio" where
  "render_each what sc data [] = Return None"
| "render_each what sc data ((tmplName, outputPath) # rest) =
     (case sc_embedded sc tmplName of
        Inl e \<Rightarrow> Return (Some (Wrapf (''reading template '' @ tmplName @ '': '') e))
      | Inr tmplContent \<Rightarrow>
          (case RenderTemplate (sc_engine sc) tmplContent data of
             Inl e \<Rightarrow> Return (Some (Wrapf (what @ tmplName @ '': '') e))
           | Inr rendered \<Rightarrow>
               pbind (fs_MkdirAll (path_Dir outputPath)) (\<lambda>mk.
               case mk of
                 Some e \<Rightarrow> Return (Some (wrap_io (''creating directory '' @ path_Dir outputPath) e))
               | None \<Rightarrow>
                   pbind (fs_WriteFile outputPath rendered) (\<lambda>wr.
                   case wr of
                     Some e \<Rightarrow> Return (Some (wrap_io (''writing file '' @ outputPath) e))
                   | None \<Rightarrow> render_each what sc data rest))))"

definition domain_config :: "string \<Rightarrow> config" where
  "domain_config modulePath =
     \<lparr>c_ServiceName = [], c_ModulePath = modulePath, c_TemplateModulePath = [], c_OutputDir = [], c_DB = [],
      c_Protocol = [], c_DI = [], c_Redis = False, c_Idempotency = False, c_Auth = False, c_KeepExamples = False\<rparr>"

text \<open>The mappings are a Go map: \<open>order\<close> is the order in which this run takes them.\<close>

definition runAddDomain ::
  "unicode_tables \<Rightarrow> scaffolder \<Rightarrow> ((string \<times> string) list \<Rightarrow> (string \<times> string) list) \<Rightarrow> time \<Rightarrow> string
     \<Rightarrow> goerror option fsio" where
  "runAddDomain U sc order now domainName =
     in_project (\<lambda>modulePath.
     case domain_name_error U domainName of
       Some e \<Rightarrow> Return (Some e)
     | None \<Rightarrow>
         (let snakeName = ToSnakeCase U domainName;
              domainDir = path_Joins [''internal'', ''domain'', snakeName] in
          pbind (fs_Stat domainDir) (\<lambda>st.
          case st of
            Inr is_dir \<Rightarrow> Return (Some (fmt_error (''domain '' @ quoted1 snakeName @ '' already exists at '' @ domainDir)))
          | Inl _ \<Rightarrow>
              render_each ''rendering template '' sc (NewTemplateData U domainName (domain_config modulePath))
                (order (buildTemplateMappings U snakeName (Format_goose now))))))"

definition crudEndpoints :: "string list" where
  "crudEndpoints = [''create'', ''get'', ''update'', ''delete'', ''list'']"

definition endpoint_files :: "string \<Rightarrow> string \<Rightarrow> string \<Rightarrow> (string \<times> string) list" where
  "endpoint_files projectRoot snakeDomain endpointName =
     [(''endpoint_usecase.go.tmpl'', path_Joins [projectRoot, ''internal'', ''usecases'', snakeDomain, endpointName @ ''.go'']),
      (''endpoint_dto.go.tmpl'', path_Joins [projectRoot, ''internal'', ''usecases'', snakeDomain, ''dto'', endpointName @ ''.go'']),
      (''endpoint_usecase_test.go.tmpl'',
         path_Joins [projectRoot, ''internal'', ''usecases'', snakeDomain, endpointName @ ''_test.go''])]"

definition runAddEndpoint ::
  "unicode_tables \<Rightarrow> scaffolder \<Rightarrow> ((string \<times> string) list \<Rightarrow> (string \<times> string) list) \<Rightarrow> string \<Rightarrow> string
     \<Rightarrow> goerror option fsio" where
  "runAddEndpoint U sc order domainName endpointName =
     pbind fs_Getwd (\<lambda>wd.
     case wd of
       Inl e \<Rightarrow> Return (Some (Wrapf ''getting working directory: '' e))
     | Inr projectRoot \<Rightarrow>
         in_project (\<lambda>modulePath.
         if \<not> MatchString endpointNamePattern endpointName then
           Return (Some (fmt_error (''invalid endpoint name '' @ quoted1 endpointName
             @ '' (must be snake_case, start with a letter, contain only lowercase letters, digits, and underscores)'')))
         else if endpointName \<in> set crudEndpoints then
           Return (Some (fmt_error (''endpoint '' @ quoted1 endpointName @ '' is a standard CRUD operation ''
             @ [CHR 0xE2, CHR 0x80, CHR 0x94] @ '' it already exists for each domain'')))
         else
           (let snakeDomain = ToSnakeCase U domainName;
                domainDir = path_Joins [projectRoot, ''internal'', ''domain'', snakeDomain] in
            pbind (fs_Stat domainDir) (\<lambda>st.
            case st of
              Inl (Missing _) \<Rightarrow> Return (Some (fmt_error (''domain '' @ quoted1 snakeDomain @ '' not found at '' @ domainDir)))
            | _ \<Rightarrow>
                (let endpointFile =
                       path_Joins [projectRoot, ''internal'', ''usecases'', snakeDomain, endpointName @ ''.go''] in
                 pbind (fs_Stat endpointFile) (\<lambda>es.
                 case es of
                   Inr is_dir \<Rightarrow>
                     Return (Some (fmt_error (''endpoint '' @ quoted1 endpointName @ '' already exists in domain ''
                       @ quoted1 snakeDomain @ '' ('' @ endpointFile @ '')'')))
                 | Inl _ \<Rightarrow>
                     render_each ''rendering '' sc
                       (WithEndpoint U endpointName (NewTemplateData U domainName (domain_config modulePath)))
                       (order (endpoint_files projectRoot snakeDomain endpointName))))))))"

section \<open>Removing\<close>

text \<open>The answer to the question, unless \<open>--yes\<close> was given.\<close>

definition confirmed_by :: "unicode_tables \<Rightarrow> bool \<Rightarrow> goerror option fsio \<Rightarrow> goerror option fsio" where
  "confirmed_by U yes go =
     (if yes then go
      else pbind (PromptConfirm U False) (\<lambda>r.
           case r of Inl e \<Rightarrow> Return (Some e) | Inr confirmed \<Rightarrow> if confirmed then go else Return None))"

definition domain_candidates :: "string \<Rightarrow> string \<Rightarrow> string list" where
  "domain_candidates projectRoot s =
     [path_Joins [projectRoot, ''internal'', ''domain'', s],
      path_Joins [projectRoot, ''internal'', ''usecases'', s],
      path_Joins [projectRoot, ''internal'', ''infrastructure'', ''db'', ''postgres'', ''repository'', s @ ''.go''],
      path_Joins [projectRoot, ''internal'', ''infrastructure'', ''db'', ''postgres'', ''repository'', s @ ''_test.go''],
      path_Joins [projectRoot, ''internal'', ''infrastructure'', ''web'', ''handler'', s @ ''.go''],
      path_Joins [projectRoot, ''internal'', ''infrastructure'', ''web'', ''router'', s @ ''.go'']]"

fun existing_of :: "string list \<Rightarrow> string list fsio" where
  "existing_of [] = Return []"
| "existing_of (p # ps) =
     pbind (fs_Stat p) (\<lambda>st.
     pbind (existing_of ps) (\<lambda>rest. Return (case st of Inl e \<Rightarrow> rest | Inr d \<Rightarrow> p # rest)))"

definition collectDomainFiles :: "string \<Rightarrow> string \<Rightarrow> string list fsio" where
  "collectDomainFiles projectRoot s = existing_of (domain_candidates projectRoot s)"

fun remove_domain_files :: "string list \<Rightarrow> goerror option fsio" where
  "remove_domain_files [] = Return None"
| "remove_domain_files (f # fs) =
     pbind (fs_RemoveAll f) (\<lambda>r.
     case r of Some e \<Rightarrow> Return (Some (wrap_io (''removing '' @ f) e)) | None \<Rightarrow> remove_domain_files fs)"

definition runRemoveDomain ::
  "unicode_tables \<Rightarrow> bool \<Rightarrow> string \<Rightarrow> goerror option fsio" where
  "runRemoveDomain U yes domainName =
     (case domain_name_error U domainName of
        Some e \<Rightarrow> Return (Some e)
      | None \<Rightarrow>
          (let snakeName = ToSnakeCase U domainName in
           pbind fs_Getwd (\<lambda>wd.
           case wd of
             Inl e \<Rightarrow> Return (Some (Wrapf ''resolving working directory: '' e))
           | Inr projectRoot \<Rightarrow>
               (let domainDir = path_Joins [projectRoot, ''internal'', ''domain'', snakeName] in
                pbind (fs_Stat domainDir) (\<lambda>st.
                case st of
                  Inl (Missing _) \<Rightarrow> Return (Some (fmt_error (''domain '' @ quoted1 snakeName @ '' not found at '' @ domainDir)))
                | _ \<Rightarrow>
                    pbind (collectDomainFiles projectRoot snakeName) (\<lambda>toRemove.
                    confirmed_by U yes (remove_domain_files toRemove)))))))"

fun remove_endpoint_files :: "string list \<Rightarrow> goerror option fsio" where
  "remove_endpoint_files [] = Return None"
| "remove_endpoint_files (f # fs) =
     pbind (fs_Remove f) (\<lambda>r.
     case r of
       Some (Failed e) \<Rightarrow> Return (Some (wrap_io (''removing '' @ f) (Failed e)))
     | _ \<Rightarrow> remove_endpoint_files fs)"

definition runRemoveEndpoint ::
  "unicode_tables \<Rightarrow> bool \<Rightarrow> string \<Rightarrow> string \<Rightarrow> goerror option fsio" where
  "runRemoveEndpoint U yes domainName endpointName =
     in_project (\<lambda>modulePath.
     case domain_name_error U domainName of
       Some e \<Rightarrow> Return (Some e)
     | None \<Rightarrow>
         (let snakeDomain = ToSnakeCase U domainName;
              domainDir = path_Joins [''internal'', ''domain'', snakeDomain];
              snakeEndpoint = ToSnakeCase U endpointName;
              usecaseFile = path_Joins [''internal'', ''usecases'', snakeDomain, snakeEndpoint @ ''.go''] in
          pbind (fs_Stat domainDir) (\<lambda>st.
          case st of
            Inl (Missing _) \<Rightarrow> Return (Some (fmt_error (''domain '' @ quoted1 snakeDomain @ '' not found at '' @ domainDir)))
          | _ \<Rightarrow>
              if snakeEndpoint \<in> set crudEndpoints then
                Return (Some (fmt_error (''cannot remove standard CRUD endpoint '' @ quoted1 snakeEndpoint
                  @ ''. Use 'gopherplate remove domain '' @ snakeDomain @ [CHR 0x27] @ '' to remove the entire domain'')))
              else
                pbind (fs_Stat usecaseFile) (\<lambda>us.
                case us of
                  Inl (Missing _) \<Rightarrow>
                    Return (Some (fmt_error (''endpoint '' @ quoted1 snakeEndpoint @ '' not found: '' @ usecaseFile @ '' does not exist'')))
                | _ \<Rightarrow>
                    confirmed_by U yes
                      (remove_endpoint_files
                        [usecaseFile,
                         path_Joins [''internal'', ''usecases'', snakeDomain, ''dto'', snakeEndpoint @ ''.go''],
                         path_Joins [''internal'', ''usecases'', snakeDomain, snakeEndpoint @ ''_test.go'']])))))"

section \<open>Wiring the domains\<close>

definition hasDomainInfrastructure :: "string \<Rightarrow> string \<Rightarrow> bool fsio" where
  "hasDomainInfrastructure projectDir s =
     pbind (scaffold_fileExists (path_Joins [projectDir, ''internal'', ''infrastructure'', ''web'', ''handler'', s @ ''.go''])) (\<lambda>h.
     if \<not> h then Return False
     else
       pbind (scaffold_fileExists (path_Joins [projectDir, ''internal'', ''infrastructure'', ''web'', ''router'', s @ ''.go''])) (\<lambda>r.
       if \<not> r then Return False
       else
         scaffold_fileExists
           (path_Joins [projectDir, ''internal'', ''infrastructure'', ''db'', ''postgres'', ''repository'', s @ ''.go''])))"

fun domains_of :: "unicode_tables \<Rightarrow> string \<Rightarrow> (string \<times> bool) list \<Rightarrow> DomainInfo list fsio" where
  "domains_of U projectDir [] = Return []"
| "domains_of U projectDir ((name, is_dir) # rest) =
     (if \<not> is_dir then domains_of U projectDir rest
      else
        pbind (hasDomainInfrastructure projectDir name) (\<lambda>h.
        if \<not> h then domains_of U projectDir rest
        else
          pbind (DetectDomainInfo U projectDir name) (\<lambda>d.
          pbind (domains_of U projectDir rest) (\<lambda>ds. Return (d # ds)))))"

definition scanDomains :: "unicode_tables \<Rightarrow> string \<Rightarrow> (goerror + DomainInfo list) fsio" where
  "scanDomains U projectDir =
     pbind (fs_ReadDir (path_Joins [projectDir, ''internal'', ''domain''])) (\<lambda>rd.
     case rd of
       Inl (Missing _) \<Rightarrow> Return (Inr [])
     | Inl (Failed e) \<Rightarrow> Return (Inl (Wrapf ''reading internal/domain: '' e))
     | Inr entries \<Rightarrow>
         pbind (domains_of U projectDir entries) (\<lambda>ds. Return (Inr (sort_key (\<lambda>d. bytes (di_Name d)) ds))))"

definition runWiring ::
  "unicode_tables \<Rightarrow> regenData engine \<Rightarrow> bool \<Rightarrow> goerror option fsio" where
  "runWiring U engine yes =
     in_project (\<lambda>modulePath.
     pbind (scanDomains U ''.'') (\<lambda>sd.
     case sd of
       Inl e \<Rightarrow> Return (Some (Wrapf ''scanning domains: '' e))
     | Inr domains \<Rightarrow>
         (let go =
                pbind fs_Getwd (\<lambda>wd.
                case wd of
                  Inl e \<Rightarrow> Return (Some (Wrapf ''getting working directory: '' e))
                | Inr projectDir \<Rightarrow>
                    pbind (RegenerateFromDomains engine projectDir modulePath domains) (\<lambda>r.
                    Return (map_option (Wrapf ''regenerating wiring files: '') r)))
          in if yes then go
             else pbind (PromptConfirm U True) (\<lambda>r.
                  case r of
                    Inl e \<Rightarrow> Return (Some (Wrapf ''reading confirmation: '' e))
                  | Inr confirmed \<Rightarrow> if confirmed then go else Return None))))"

end
