(* ===== verification/CliSteps.thy ===== *)
theory CliSteps
  imports CliNew CliDomain
begin

text \<open>
  What the steps of the scaffolding tool leave alone: whatever calls fail, copying the template, rewriting it,
  removing features and applying overlays change only the directory they are given and what is below it.
\<close>

section \<open>The directory above a path\<close>

lemma Join_snoc: "es \<noteq> [] \<Longrightarrow> Join (es @ [n]) ''/'' = Join es ''/'' @ CHR ''/'' # n"
  by (induction es "''/''" rule: Join.induct) auto

lemma path_Clean_show:
  assumes "path_elems p = es" and "es \<noteq> []"
  shows "path_Clean p = (if HasPrefix p ''/'' then ''/'' else []) @ Join es ''/''"
proof -
  have "Join es ''/'' \<noteq> []" if "\<not> HasPrefix p ''/''"
  proof -
    have "list_all (\<lambda>e. CHR ''/'' \<notin> set e \<and> e \<noteq> []) es"
      using that assms(1) clean_False_slashless [of "[]" "Split p CHR ''/''"]
      by (simp add: path_elems_def Split_slashless)
    then show ?thesis using assms(2) by (cases es; cases "tl es") auto
  qed
  then show ?thesis using assms by (auto simp: path_Clean_def path_elems_def Let_def)
qed

lemma path_Dir_split: "CHR ''/'' \<notin> set n \<Longrightarrow> path_Dir (x @ CHR ''/'' # n) = path_Clean (x @ ''/'')"
proof -
  assume "CHR ''/'' \<notin> set n"
  then have "dropWhile (\<lambda>c. c \<noteq> CHR ''/'') (rev n @ CHR ''/'' # rev x) = CHR ''/'' # rev x"
    by (subst dropWhile_append2) auto
  then show ?thesis by (simp add: path_Dir_def)
qed

lemma path_Dir_elems:
  assumes "path_elems q = es @ [n]" and "name_ok n"
  shows "HasPrefix (path_Dir (path_Clean q)) ''/'' = HasPrefix q ''/''" "path_elems (path_Dir (path_Clean q)) = es"
proof -
  have n: "CHR ''/'' \<notin> set n" "n \<noteq> []" using assms(2) by (simp_all add: name_ok_def)
  have show_q: "path_Clean q = (if HasPrefix q ''/'' then ''/'' else []) @ Join (es @ [n]) ''/''"
    using assms(1) by (rule path_Clean_show) simp
  have "HasPrefix (path_Dir (path_Clean q)) ''/'' = HasPrefix q ''/'' \<and> path_elems (path_Dir (path_Clean q)) = es"
  proof (cases "es = []")
    case True
    have "dropWhile (\<lambda>c. c \<noteq> CHR ''/'') (rev n) = []" using n(1) by (auto simp: dropWhile_eq_Nil_conv)
    then have "path_Dir n = ''.''" by (simp only: path_Dir_def rev.simps path_Clean_consts(1))
    moreover have "path_Dir (CHR ''/'' # n) = ''/''" using path_Dir_split [OF n(1), of "[]"] path_Clean_consts(2) by simp
    ultimately show ?thesis using True show_q by (simp add: path_elems_def)
  next
    case False
    let ?x = "(if HasPrefix q ''/'' then ''/'' else []) @ Join es ''/''"
    have dir: "path_Dir (path_Clean q) = path_Clean (?x @ ''/'')"
      using path_Dir_split [OF n(1), of ?x] show_q Join_snoc [OF False, of n] by simp
    let ?rt = "HasPrefix q ''/''"
    have sl: "list_all (\<lambda>e. CHR ''/'' \<notin> set e \<and> e \<noteq> []) es"
    proof (cases ?rt)
      case True
      have "list_all name_ok (es @ [n])"
        using assms(1) True clean_rooted_names [of "[]" "Split q CHR ''/''"] by (simp add: path_elems_def Split_slashless)
      then show ?thesis by (auto simp: list_all_iff name_ok_def)
    next
      case rel: False
      have "list_all (\<lambda>e. CHR ''/'' \<notin> set e \<and> e \<noteq> []) (es @ [n])"
        using assms(1) rel clean_False_slashless [of "[]" "Split q CHR ''/''"] by (simp add: path_elems_def Split_slashless)
      then show ?thesis by simp
    qed
    have "clean_elems ?rt [] (es @ [n]) = es @ [n]"
    proof (cases ?rt)
      case True
      then have "list_all name_ok (es @ [n])"
        using assms(1) clean_rooted_names [of "[]" "Split q CHR ''/''"] by (simp add: path_elems_def Split_slashless)
      then show ?thesis using clean_elems_names [of "es @ [n]" ?rt "[]"] by simp
    next
      case rel: False
      then show ?thesis using clean_again [OF Split_slashless, of False "[]" q] assms(1)
        by (simp add: path_elems_def)
    qed
    then have fix_es: "clean_elems ?rt [] es = es"
      using clean_elems_names [of "[n]" ?rt] assms(2) by (simp add: clean_elems_append)
    obtain e es' where e: "es = e # es'" "e \<noteq> []" "CHR ''/'' \<notin> set e" using sl False by (cases es) auto
    have np: "\<not> HasPrefix (Join es ''/'') ''/''" "Join es ''/'' \<noteq> []" using e by (cases es'; cases e; simp)+
    have split: "Split (Join es ''/'') CHR ''/'' = es"
      using False sl by (intro Split_Join) (auto simp: list_all_iff)
    have xp: "HasPrefix ?x ''/'' = ?rt" "?x \<noteq> []" using np by auto
    have "path_elems ?x = es" using split fix_es xp(1) by (cases ?rt) (simp_all add: path_elems_def)
    then show ?thesis using dir path_Clean_slash [OF refl xp(2)] elems_Clean [of ?x] xp(1) by simp
  qed
  then show "HasPrefix (path_Dir (path_Clean q)) ''/'' = HasPrefix q ''/''" "path_elems (path_Dir (path_Clean q)) = es"
    by blast+
qed


lemma locate_Dir:
  assumes "path_elems q = es @ [n]" and "name_ok n"
  shows "locate cwd (path_Clean q) = locate cwd (path_Dir (path_Clean q)) @ [n]"
proof -
  have "clean_elems True st [n] = rev st @ [n]" for st
    using clean_elems_names [of "[n]" True st] assms(2) by simp
  then show ?thesis
    using path_Dir_elems [OF assms] assms(1)
    by (simp add: locate_elems elems_Clean clean_elems_append del: HasPrefix_code clean_elems.simps)
qed

text \<open>A path that was joined from a directory and names lies right below its own directory.\<close>

lemma Joins_elems:
  assumes "p \<noteq> []" and "list_all name_ok (elems_of ps)"
  shows "\<exists>q. path_Joins (p # ps) = path_Clean q \<and> path_elems q = path_elems p @ elems_of ps"
proof -
  let ?q = "Join (filter (\<lambda>p. p \<noteq> []) (p # ps)) ''/''"
  have "HasPrefix ?q ''/'' = HasPrefix p ''/''"
    using assms(1) by (cases "filter (\<lambda>p. p \<noteq> []) ps"; cases p) auto
  moreover have "Split ?q CHR ''/'' = elems_of (filter (\<lambda>p. p \<noteq> []) (p # ps))" using assms(1) by (intro Split_Join_elems) simp
  moreover have "clean_elems rt st (elems_of (filter (\<lambda>p. p \<noteq> []) ps)) = clean_elems rt st (elems_of ps)" for rt st
    by (induction ps arbitrary: st) (simp_all add: clean_elems_append)
  ultimately have "path_elems ?q = path_elems p @ elems_of ps"
    using assms clean_elems_names [OF assms(2)] by (simp add: path_elems_def clean_elems_append)
  then show ?thesis using assms(1) by (intro exI [of _ ?q]) (simp add: path_Joins_def)
qed

lemma locate_Dir_Joins:
  assumes "p \<noteq> []" and "list_all name_ok (elems_of ps)" and "elems_of ps = es @ [n]"
  shows "locate cwd (path_Dir (path_Joins (p # ps))) = locate cwd p @ es"
proof -
  obtain q where q: "path_Joins (p # ps) = path_Clean q" "path_elems q = (path_elems p @ es) @ [n]"
    using Joins_elems [OF assms(1,2)] assms(3) by auto
  have "name_ok n" using assms(2,3) by simp
  from locate_Dir [OF q(2) this, of cwd] locate_below [OF assms(1,2), of cwd] q(1) assms(3) show ?thesis by simp
qed

section \<open>Copying and rewriting stay below the directory\<close>

lemma keeps_tree_reads [keep_intros]:
  "keeps (fixed_outside base N cwd) (fs_Stat p)" "keeps (fixed_outside base N cwd) (fs_ReadFile p)"
  "keeps (fixed_outside base N cwd) (fs_ReadDir p)" "keeps (fixed_outside base N cwd) (fs_Open p)"
  "keeps (fixed_outside base N cwd) fs_Getwd"
  by (rule keeps_reading; simp)+

lemma keeps_Abs [keep_intros]: "keeps (fixed_outside base N cwd) (fs_Abs p)"
  unfolding fs_Abs_def by (intro keep_intros)

lemma keeps_MkdirAll_near:
  assumes "prefix base (locate cwd p) \<or> strict_prefix (locate cwd p) base" and "dirs_above base N"
  shows "keeps (fixed_outside base N cwd) (fs_MkdirAll p)"
proof (cases "prefix base (locate cwd p)")
  case False
  have near: "\<forall>q\<in>set (prefixes_of (locate cwd p)). (prefix base q \<or> strict_prefix q base) \<and> list_all name_ok q"
  proof
    fix q assume "q \<in> set (prefixes_of (locate cwd p))"
    then have q: "prefix q (locate cwd p)" by (auto simp: prefixes_of_def take_is_prefix)
    then have "strict_prefix q base" using False assms(1) by (meson prefix_order.le_less_trans)
    moreover have "list_all name_ok q" using q locate_names [of cwd p] by (auto simp: prefix_def)
    ultimately show "(prefix base q \<or> strict_prefix q base) \<and> list_all name_ok q" by simp
  qed
  show ?thesis unfolding fs_MkdirAll_def Let_def
  proof (rule keeps_fs_call)
    fix ft t assume inv: "fixed_outside base N cwd t"
    then have at: "place_of t p = locate cwd p" by (simp add: place_of_def fixed_outside_def)
    show "fixed_outside base N cwd (snd (case ft of
          None \<Rightarrow> make_dirs (prefixes_of (place_of t p)) p t
        | Some f \<Rightarrow> (Some (Failed (io_err f)), case io_done f of
            None \<Rightarrow> t | Some n \<Rightarrow> snd (make_dirs (take n (prefixes_of (place_of t p))) p t))))"
      using inv make_dirs_fixed [OF inv assms(2)] near make_dirs_take [OF near] at by (simp split: option.split)
  qed simp
qed (use keeps_MkdirAll assms in blast)

lemma keeps_copyFile:
  assumes "prefix base (locate cwd dst)" and "prefix base (locate cwd (path_Dir dst))" and "dirs_above base N"
  shows "keeps (fixed_outside base N cwd) (copyFile src dst)"
  unfolding copyFile_def
  by (intro keep_intros keeps_writing keeps_MkdirAll) (use assms in auto)

lemma drop_common_append: "drop_common xs (xs @ ys) = ([], ys)"
  by (induction xs) (cases ys; simp)+

lemma elems_of_Join: "list_all name_ok es \<Longrightarrow> es \<noteq> [] \<Longrightarrow> elems_of [Join es ''/''] = es"
  by (simp add: Split_Join list_all_iff name_ok_def)

definition reached :: "string \<Rightarrow> string \<Rightarrow> bool" where
  "reached src path \<longleftrightarrow> path \<noteq> [] \<and> HasPrefix path ''/'' = HasPrefix src ''/''
     \<and> (\<exists>es. list_all name_ok es \<and> path_elems path = path_elems src @ es)"

lemma reached_child: "reached src path \<Longrightarrow> name_ok n \<Longrightarrow> reached src (path_Joins [path, n])"
proof -
  assume r: "reached src path" and n: "name_ok n"
  then obtain es where "list_all name_ok es" "path_elems path = path_elems src @ es" by (auto simp: reached_def)
  with r n elems_child [of path n] show ?thesis unfolding reached_def by (intro conjI exI [of _ "es @ [n]"]) auto
qed

lemma path_Rel_reached:
  assumes "reached src path"
  obtains es where "list_all name_ok es" "path_Rel src path = Inr (if es = [] then ''.'' else Join es ''/'')"
    "path_elems path = path_elems src @ es"
proof -
  from assms obtain es where es: "list_all name_ok es" "path_elems path = path_elems src @ es" by (auto simp: reached_def)
  then have "drop_common (path_elems src) (path_elems path) = ([], es)" by (simp add: drop_common_append)
  then have "path_Rel src path = Inr (if es = [] then ''.'' else Join es ''/'')"
    using assms by (auto simp: path_Rel_def reached_def path_elems_def Let_def)
  then show ?thesis using es that by blast
qed

lemma keeps_copy_visit:
  assumes "reached src path" and "dst \<noteq> []" and "dirs_above (locate cwd dst) N"
  shows "keeps (fixed_outside (locate cwd dst) N cwd) (copy_visit src dst path d e)"
proof -
  obtain es where es: "list_all name_ok es" "path_Rel src path = Inr (if es = [] then ''.'' else Join es ''/'')"
    using path_Rel_reached [OF assms(1)] by blast
  show ?thesis
  proof (cases "es = []")
    case True
    then show ?thesis by (cases e) (simp_all add: copy_visit_def es(2) keeps_Return)
  next
    case False
    let ?target = "path_Joins [dst, Join es ''/'']"
    have eo: "elems_of [Join es ''/''] = es" by (rule elems_of_Join [OF es(1) False])
    have at: "locate cwd ?target = locate cwd dst @ es"
      using locate_below [OF assms(2), of "[Join es ''/'']" cwd] eo es(1) by simp
    have up: "locate cwd (path_Dir ?target) = locate cwd dst @ butlast es"
      using locate_Dir_Joins [OF assms(2), of "[Join es ''/'']" "butlast es" "last es" cwd] eo es(1) False by simp
    show ?thesis
      unfolding copy_visit_def es(2) Let_def sum.case
      by (intro keep_intros keeps_copyFile keeps_MkdirAll) (use assms(3) False at up in auto)
  qed
qed

lemma outside_names: "fixed_outside base N cwd t \<Longrightarrow> \<forall>(p, n)\<in>set (t_nodes t). list_all name_ok p"
  by (simp add: fixed_outside_def)

lemma keeps_CopyProject:
  assumes "src \<noteq> []" and "dst \<noteq> []" and "dirs_above (locate cwd dst) N"
  shows "keeps (fixed_outside (locate cwd dst) N cwd) (CopyProject fuel src dst)"
  unfolding CopyProject_def
proof (rule keeps_path_Walk [where good = "reached src"])
  show "reached src src" using assms(1) unfolding reached_def by (intro conjI exI [of _ "[]"]) auto
qed (simp_all add: reached_child keeps_copy_visit assms outside_names)

text \<open>Rewriting visits write the files they visit.\<close>

definition inside :: "place \<Rightarrow> string \<Rightarrow> string \<Rightarrow> bool" where
  "inside base cwd path \<longleftrightarrow> path \<noteq> [] \<and> prefix base (locate cwd path)"

lemma inside_child: "inside base cwd path \<Longrightarrow> name_ok n \<Longrightarrow> inside base cwd (path_Joins [path, n])"
  using locate_child [of path n cwd] elems_child(3) [of path n] by (auto simp: inside_def prefix_def)

lemma keeps_visits:
  assumes "inside base cwd path"
  shows "keeps (fixed_outside base N cwd) (rewrite_visit o1 n1 path d e)" "keeps (fixed_outside base N cwd) (driver_visit dr path d e)"
  unfolding rewrite_visit_def driver_visit_def Let_def
  by (intro keep_intros keeps_writing; use assms in \<open>simp add: inside_def\<close>)+

lemma keeps_walks:
  assumes "inside base cwd path"
  shows "keeps (fixed_outside base N cwd) (RewriteModulePath fuel path o1 n1)" "keeps (fixed_outside base N cwd) (SwitchDBDriver fuel path db)"
proof -
  have w: "keeps (fixed_outside base N cwd) (path_Walk fuel path fn)"
    if "\<And>p d e. inside base cwd p \<Longrightarrow> keeps (fixed_outside base N cwd) (fn p d e)" for fn
    by (rule keeps_path_Walk [where good = "inside base cwd"]) (simp_all add: that inside_child outside_names assms)
  show "keeps (fixed_outside base N cwd) (RewriteModulePath fuel path o1 n1)"
    unfolding RewriteModulePath_def by (rule w) (rule keeps_visits)
  show "keeps (fixed_outside base N cwd) (SwitchDBDriver fuel path db)"
    unfolding SwitchDBDriver_def by (intro keep_intros w keeps_visits)
qed

section \<open>The other steps of a new project\<close>

text \<open>The files and directories that the steps name are names below the project.\<close>

lemma serviceNameFiles_names: "\<forall>f\<in>set serviceNameFiles. list_all name_ok (elems_of [f])"
  by (simp add: serviceNameFiles_def name_ok_def)

lemma features_names: "\<forall>f\<in>set (features_to_remove cfg). list_all name_ok (elems_of [f])"
  by (auto simp: features_to_remove_def FeatureFiles_def name_ok_def split: if_splits)

lemma keeps_below:
  assumes "p \<noteq> []" and "list_all name_ok (elems_of ps)"
  shows "keeps (fixed_outside (locate cwd p) N cwd) (fs_WriteFile (path_Joins (p # ps)) c)"
    "keeps (fixed_outside (locate cwd p) N cwd) (fs_RemoveAll (path_Joins (p # ps)))"
    "keeps (fixed_outside (locate cwd p) N cwd) (fs_Remove (path_Joins (p # ps)))"
    "keeps (fixed_outside (locate cwd p) N cwd) (fs_Create (path_Joins (p # ps)))"
    "keeps (fixed_outside (locate cwd p) N cwd) (fs_Write (path_Joins (p # ps)) c)"
    "dirs_above (locate cwd p) N \<Longrightarrow> keeps (fixed_outside (locate cwd p) N cwd) (fs_MkdirAll (path_Joins (p # ps)))"
  by (intro keeps_writing keeps_MkdirAll; simp add: locate_below [OF assms])+

lemma keeps_rename_in:
  assumes "p \<noteq> []" and "\<forall>f\<in>set fs. list_all name_ok (elems_of [f])"
  shows "keeps (fixed_outside (locate cwd p) N cwd) (rename_in p new fs)"
  using assms(2)
proof (induction fs)
  case (Cons f fs)
  have w: "keeps (fixed_outside (locate cwd p) N cwd) (fs_WriteFile (path_Joins [p, f]) c)" for c
    using Cons.prems by (intro keeps_below assms(1)) simp
  show ?case
    unfolding rename_in.simps Let_def
    by (intro keep_intros w) (use Cons in \<open>auto simp: keep_intros split: ioerror.split\<close>)
qed (simp add: keep_intros)

lemma keeps_remove_each:
  assumes "p \<noteq> []" and "\<forall>f\<in>set fs. list_all name_ok (elems_of [f])"
  shows "keeps (fixed_outside (locate cwd p) N cwd) (remove_each p fs)"
  using assms(2)
proof (induction fs)
  case (Cons f fs)
  have "keeps (fixed_outside (locate cwd p) N cwd) (fs_RemoveAll (path_Joins [p, f]))"
    using Cons.prems by (intro keeps_below assms(1)) simp
  then show ?case
    unfolding remove_each.simps
    by (intro keep_intros) (use Cons in \<open>auto simp: keep_intros split: ioerror.split\<close>)
qed (simp add: keep_intros)

lemma keeps_remove_quietly:
  assumes "\<forall>q\<in>set qs. prefix base (locate cwd q)"
  shows "keeps (fixed_outside base N cwd) (remove_quietly qs)"
  using assms
proof (induction qs)
  case (Cons q qs)
  then show ?case unfolding remove_quietly.simps by (intro keep_intros keeps_writing) auto
qed (simp add: keep_intros)

lemma keeps_generate_into:
  assumes "p \<noteq> []" and "list_all name_ok (elems_of ps)"
  shows "keeps (fixed_outside (locate cwd p) N cwd) (generate_into en name (path_Joins (p # ps)) data)"
  unfolding generate_into_def
  by (intro keep_intros keeps_below assms)

lemma keeps_CleanupWiring:
  assumes "p \<noteq> []" and "dirs_above (locate cwd p) N"
  shows "keeps (fixed_outside (locate cwd p) N cwd) (CleanupWiring en p cfg)"
proof -
  let ?I = "fixed_outside (locate cwd p) N cwd"
  let ?b = "path_Joins [p, ''internal'', ''bootstrap'']"
  have names: "list_all name_ok (elems_of [''cmd'', ''api'', ''server.go''])"
    "list_all name_ok (elems_of [''internal'', ''infrastructure'', ''web'', ''router'', ''router.go''])"
    "list_all name_ok (elems_of [''internal'', ''bootstrap''])"
    by (simp_all add: name_ok_def)
  have b: "locate cwd (path_Joins [?b, ''test_helpers.go'']) = locate cwd p @ [''internal'', ''bootstrap'', ''test_helpers.go'']"
  proof -
    have "?b \<noteq> []" using elems_child(3) by (simp add: path_Joins_def path_Clean_def Let_def)
    then show ?thesis
      using locate_child [of ?b "''test_helpers.go''" cwd] locate_below [OF assms(1) names(3), of cwd] by (simp add: name_ok_def)
  qed
  have gen: "keeps ?I (generate_into en name (path_Joins [?b, ''test_helpers.go'']) data)" for name data
    unfolding generate_into_def by (intro keep_intros keeps_writing) (simp_all add: b)
  show ?thesis
    unfolding CleanupWiring_def generateServerGo_def generateRouterGo_def generateTestHelpersGo_def parsing_def
      scaffold_detectModulePath_def Let_def
    by (intro keep_intros keeps_generate_into keeps_below gen assms names)
qed

section \<open>Overlays\<close>

lemma rooted_show:
  assumes "HasPrefix p ''/''" and "path_Clean p = p"
  shows "p = ''/'' @ Join (path_elems p) ''/''" "list_all name_ok (path_elems p)"
proof -
  show "p = ''/'' @ Join (path_elems p) ''/''" using assms by (simp add: path_Clean_def path_elems_def)
  show "list_all name_ok (path_elems p)"
    using assms(1) clean_rooted_names [of "[]" "Split p CHR ''/''"] by (simp add: path_elems_def Split_slashless)
qed

lemma Split_rooted:
  assumes "HasPrefix p ''/''" and "path_Clean p = p" and "path_elems p \<noteq> []"
  shows "Split p CHR ''/'' = [] # path_elems p"
proof -
  have "Split (Join (path_elems p) ''/'') CHR ''/'' = path_elems p"
    using assms(3) rooted_show(2) [OF assms(1,2)] by (intro Split_Join) (auto simp: list_all_iff name_ok_def)
  then show ?thesis using arg_cong [OF rooted_show(1) [OF assms(1,2)], of "\<lambda>p. Split p CHR ''/''"] by simp
qed

lemma path_Clean_idem: "HasPrefix p ''/'' \<Longrightarrow> path_Clean (path_Clean p) = path_Clean p"
  using elems_Clean [of p] by (simp add: path_Clean_def path_elems_def Let_def)

lemma prefix_elems:
  assumes "HasPrefix rt ''/''" "path_Clean rt = rt" "HasPrefix full ''/''" "path_Clean full = full"
    and "full = rt \<or> HasPrefix full (rt @ ''/'')"
  shows "prefix (path_elems rt) (path_elems full)"
proof (cases "full = rt \<or> path_elems rt = []")
  case False
  then obtain x where x: "full = rt @ CHR ''/'' # x" using assms(5) by (auto simp: prefix_def)
  then have sp: "Split full CHR ''/'' = [] # (path_elems rt @ Split x CHR ''/'')"
    using Split_rooted [OF assms(1,2)] False by (simp add: Split_append)
  have "path_elems full \<noteq> []"
  proof
    assume "path_elems full = []"
    then have "length full = 1" using rooted_show(1) [OF assms(3,4)] by simp
    then have "rt = []" using x by simp
    then show False using assms(1) by simp
  qed
  from Split_rooted [OF assms(3,4) this] sp have "path_elems full = path_elems rt @ Split x CHR ''/''" by simp
  then show ?thesis by (rule prefixI)
qed auto

lemma resolve_overlay_result:
  assumes "HasPrefix rt ''/''" and "path_Clean rt = rt"
  shows "\<exists>r. resolve_overlay isp rt rel = Return r
    \<and> (\<forall>full. r = Inr full \<longrightarrow> HasPrefix full ''/'' \<and> path_Clean full = full \<and> prefix (path_elems rt) (path_elems full))"
proof -
  let ?p = "path_Joins [rt, path_Clean rel]"
  have ne: "rt \<noteq> []" using assms(1) by auto
  have "HasPrefix (Join (filter (\<lambda>p. p \<noteq> []) [rt, path_Clean rel]) ''/'') ''/''" using assms(1) ne by (cases rt) auto
  then have p: "HasPrefix ?p ''/''" using ne elems_Clean(1) by (simp add: path_Joins_def del: HasPrefix_code)
  let ?full = "path_Clean ?p"
  have full: "HasPrefix ?full ''/''" "path_Clean ?full = ?full" using p elems_Clean(1) path_Clean_idem by blast+
  have abs: "fs_Abs ?p = Return (Inr ?full)" using p by (simp only: fs_Abs_def if_True)
  show ?thesis
    using prefix_elems [OF assms full]
    by (auto simp: resolve_overlay_def abs full Let_def simp del: HasPrefix_code)
qed

text \<open>An action on a clean path at or below the root keeps what is outside; it may only find the root's directory there.\<close>

lemma rooted_locate: "HasPrefix p ''/'' \<Longrightarrow> locate cwd p = path_elems p"
  by (simp only: locate_elems if_True)

lemma near_Dir:
  assumes "HasPrefix full ''/''" "path_Clean full = full" "prefix base (locate cwd full)"
  shows "prefix base (locate cwd (path_Dir full)) \<or> strict_prefix (locate cwd (path_Dir full)) base"
proof (cases "path_elems full = []")
  case True
  then have full: "full = ''/''" using rooted_show(1) [OF assms(1,2)] by simp
  have "path_Dir ''/'' = ''/''" by code_simp
  with assms(3) full show ?thesis by simp
next
  case False
  then obtain es n where es: "path_elems full = es @ [n]" by (metis rev_exhaust)
  have "name_ok n" using rooted_show(2) [OF assms(1,2)] es by simp
  from locate_Dir [OF es this, of cwd] have "locate cwd full = locate cwd (path_Dir full) @ [n]" using assms(2) by simp
  then show ?thesis using assms(3) by (metis prefix_order.le_less prefix_snoc strict_prefixI')
qed

lemma keeps_overlay_actions:
  assumes "HasPrefix full ''/''" "path_Clean full = full" "prefix base (locate cwd full)" "dirs_above base N"
  shows "keeps (fixed_outside base N cwd) (actionCreate isp en full src data)"
    "keeps (fixed_outside base N cwd) (actionAppend isp en full src data)"
    "keeps (fixed_outside base N cwd) (actionInsertMarker isp en full marker src data)"
    "keeps (fixed_outside base N cwd) (actionOverwrite isp en full src data)"
    "keeps (fixed_outside base N cwd) (actionGoModRequire isp M full m)"
proof -
  let ?I = "fixed_outside base N cwd"
  have w: "keeps ?I (fs_WriteFile full c)" for c by (rule keeps_writing) (rule assms(3))
  have wo: "keeps ?I (write_overlay isp full c)" for c unfolding write_overlay_def by (intro keep_intros w)
  have mk: "keeps ?I (fs_MkdirAll (path_Dir full))"
    by (rule keeps_MkdirAll_near [OF near_Dir [OF assms(1-3)] assms(4)])
  have ls: "keeps ?I (case xs of [] \<Rightarrow> p | y # ys \<Rightarrow> q y ys)" if "keeps ?I p" "\<And>y ys. keeps ?I (q y ys)"
    for xs :: "string list" and p :: "applied fsio" and q using that by (cases xs) simp_all
  have io: "keeps ?I (case e of Missing x \<Rightarrow> p x | Failed x \<Rightarrow> q x)" if "\<And>x. keeps ?I (p x)" "\<And>x. keeps ?I (q x)"
    for e and p :: "goerror \<Rightarrow> applied fsio" and q using that by (cases e) simp_all
  show create: "keeps ?I (actionCreate isp en full src data)" unfolding actionCreate_def by (intro keep_intros wo mk)
  show "keeps ?I (actionAppend isp en full src data)" unfolding actionAppend_def by (intro keep_intros wo)
  show "keeps ?I (actionInsertMarker isp en full marker src data)"
    unfolding actionInsertMarker_def by (intro keep_intros wo w)
  show "keeps ?I (actionOverwrite isp en full src data)"
    unfolding actionOverwrite_def by (intro keep_intros wo create io)
  show "keeps ?I (actionGoModRequire isp M full m)"
    unfolding actionGoModRequire_def by (intro keep_intros w ls)
qed

lemma keeps_Apply_overlay:
  assumes "HasPrefix rt ''/''" "path_Clean rt = rt" "dirs_above (locate cwd rt) N"
  shows "keeps (fixed_outside (locate cwd rt) N cwd) (Apply_overlay isp en M rt o1 data)"
proof -
  obtain r where r: "resolve_overlay isp rt (ov_Path o1) = Return r"
    and full: "\<And>full. r = Inr full \<Longrightarrow> HasPrefix full ''/'' \<and> path_Clean full = full \<and> prefix (path_elems rt) (path_elems full)"
    using resolve_overlay_result [OF assms(1,2)] by blast
  show ?thesis
  proof (cases r)
    case (Inl e)
    then show ?thesis by (simp add: Apply_overlay_def ApplyWithWarnings_def r keeps_Return)
  next
    case (Inr p)
    have at: "prefix (locate cwd rt) (locate cwd p)" using full [OF Inr] assms(1) by (simp only: rooted_locate)
    note acts = keeps_overlay_actions [OF conjunct1 [OF full [OF Inr]] conjunct1 [OF conjunct2 [OF full [OF Inr]]] at assms(3)]
    show ?thesis
      unfolding Apply_overlay_def ApplyWithWarnings_def r Inr pbind.simps sum.case
      by (intro keep_intros acts)
  qed
qed

lemma keeps_apply_overlays:
  assumes "HasPrefix rt ''/''" "path_Clean rt = rt" "dirs_above (locate cwd rt) N"
  shows "keeps (fixed_outside (locate cwd rt) N cwd) (apply_overlays isp en M rt cfg os)"
proof (induction os)
  case (Cons o1 os)
  then show ?case unfolding apply_overlays.simps by (intro keep_intros keeps_Apply_overlay assms)
qed (simp add: keep_intros)

section \<open>A new project\<close>

text \<open>
  The programs run in the new directory write only below it, as far as the tree of the model goes: the caches of the
  Go tool are elsewhere.
\<close>

definition tools_stay :: "'m toolbox \<Rightarrow> bool" where
  "tools_stay tb \<longleftrightarrow>
     (\<forall>command dir N cwd. dirs_above (locate cwd dir) N
        \<longrightarrow> keeps (fixed_outside (locate cwd dir) N cwd) (tb_run tb command dir))"

lemma keeps_NewApplier: "keeps (fixed_outside base N cwd) (NewApplier rt)"
  unfolding NewApplier_def by (intro keep_intros)

text \<open>What the applier takes for its root: the absolute path of the directory, or the path itself if that is not known.\<close>

lemma run_Abs:
  assumes "t_cwd t = cwd" and "p \<noteq> []" and "HasPrefix cwd ''/''"
  shows "case fst (run (fs_Abs p) t) of Inl e \<Rightarrow> True
    | Inr q \<Rightarrow> HasPrefix q ''/'' \<and> path_Clean q = q \<and> locate cwd q = locate cwd p"
proof (cases "HasPrefix p ''/''")
  case True
  then show ?thesis using elems_Clean(1) [of p] path_Clean_idem [OF True] locate_Clean [of cwd p]
    by (simp add: fs_Abs_def del: HasPrefix_code)
next
  case False
  let ?q = "Join [cwd, p] ''/''"
  have ne: "cwd \<noteq> []" using assms(3) by auto
  have j: "path_Joins [cwd, p] = path_Clean ?q" using ne assms(2) by (simp add: path_Joins_def)
  have r: "HasPrefix ?q ''/''" using assms(3) ne by (cases cwd) auto
  have at: "locate cwd ?q = locate cwd p"
    using r False by (simp add: locate_def del: HasPrefix_code)
  have "HasPrefix (path_Clean ?q) ''/'' \<and> path_Clean (path_Clean ?q) = path_Clean ?q \<and> locate cwd (path_Clean ?q) = locate cwd p"
    using elems_Clean(1) [of ?q] path_Clean_idem [OF r] locate_Clean [of cwd ?q] at r by (simp del: HasPrefix_code Join.simps)
  then show ?thesis
    using False assms(1)
    by (simp add: fs_Abs_def run_pbind fs_Getwd_def fs_call_def j del: HasPrefix_code Join.simps split: list.split option.split)
qed


lemma resolve_relative:
  assumes "t_cwd t = cwd" and "HasPrefix cwd ''/''" and "rt \<noteq> []" and "\<not> HasPrefix rt ''/''"
  shows "\<exists>e. fst (run (resolve_overlay isp rt rel) t) = Inl e"
proof -
  let ?p = "path_Joins [rt, path_Clean rel]"
  have ne: "?p \<noteq> []" using assms(3) by (simp add: path_Joins_def path_Clean_def Let_def)
  have "full \<noteq> rt \<and> \<not> HasPrefix full (rt @ ''/'')" if "HasPrefix full ''/''" for full
    using that assms(3,4) by (cases rt) (auto simp: prefix_def)
  with run_Abs [OF assms(1) ne assms(2)] show ?thesis
    by (cases "fst (run (fs_Abs ?p) t)") (auto simp: resolve_overlay_def Let_def run_pbind simp del: HasPrefix_code)
qed

lemma keeps_resolve: "keeps (fixed_outside base N cwd) (resolve_overlay isp rt rel)"
  unfolding resolve_overlay_def Let_def by (intro keep_intros)

lemma keeps_Apply_relative:
  assumes "HasPrefix cwd ''/''" and "rt \<noteq> []" and "\<not> HasPrefix rt ''/''"
  shows "keeps (fixed_outside base N cwd) (Apply_overlay isp en M rt o1 data)"
  unfolding keeps_def
proof (intro allI impI)
  fix t assume inv: "fixed_outside base N cwd t"
  then have "t_cwd t = cwd" by (simp add: fixed_outside_def)
  from resolve_relative [OF this assms] obtain e where "fst (run (resolve_overlay isp rt (ov_Path o1)) t) = Inl e" by blast
  with keepsD [OF keeps_resolve inv, of isp rt "ov_Path o1"]
  show "fixed_outside base N cwd (snd (run (Apply_overlay isp en M rt o1 data) t))"
    by (simp add: Apply_overlay_def ApplyWithWarnings_def run_pbind)
qed

lemma keeps_flavor:
  assumes "p \<noteq> []" and "HasPrefix cwd ''/''" and "\<not> HasPrefix p ''/''" and "dirs_above (locate cwd p) N"
  shows "keeps (fixed_outside (locate cwd p) N cwd) (pbind (NewApplier p) (\<lambda>rt. apply_overlays isp en M rt cfg os))"
  unfolding keeps_def
proof (intro allI impI)
  let ?I = "fixed_outside (locate cwd p) N cwd"
  fix t assume inv: "?I t"
  obtain rt t1 where 1: "run (NewApplier p) t = (rt, t1)" by (cases "run (NewApplier p) t")
  have inv1: "?I t1" using keepsD [OF keeps_NewApplier inv, of p] 1 by simp
  have "t_cwd t = cwd" using inv by (simp add: fixed_outside_def)
  from run_Abs [OF this assms(1,2)] 1
  have rt: "rt = p \<or> HasPrefix rt ''/'' \<and> path_Clean rt = rt \<and> locate cwd rt = locate cwd p"
    by (auto simp: NewApplier_def run_pbind split: sum.splits simp del: HasPrefix_code)
  have "keeps ?I (apply_overlays isp en M rt cfg os)"
  proof (cases "rt = p")
    case True
    show ?thesis
    proof (induction os)
      case (Cons o1 os)
      then show ?case
        unfolding apply_overlays.simps by (intro keep_intros keeps_Apply_relative) (use True assms in auto)
    qed (simp add: keep_intros)
  next
    case False
    then have r: "HasPrefix rt ''/''" "path_Clean rt = rt" "locate cwd rt = locate cwd p" using rt by auto
    then show ?thesis using keeps_apply_overlays [OF r(1,2), of cwd N isp en M cfg os] assms(4) by simp
  qed
  from keepsD [OF this inv1] show "?I (snd (run (pbind (NewApplier p) (\<lambda>rt. apply_overlays isp en M rt cfg os)) t))"
    using 1 by (simp add: run_pbind)
qed

lemma keeps_clean_specs:
  assumes "p \<noteq> []"
  shows "keeps (fixed_outside (locate cwd p) N cwd) (clean_specs p)"
  unfolding keeps_def
proof (intro allI impI)
  let ?I = "fixed_outside (locate cwd p) N cwd" and ?d = "path_Joins [p, ''.specs'']"
  fix t assume inv: "?I t"
  obtain l t1 where 1: "run (fs_ReadDir ?d) t = (l, t1)" by (cases "run (fs_ReadDir ?d) t")
  have inv1: "?I t1" using keepsD [OF keeps_tree_reads(3) inv, of ?d] 1 by simp
  have d: "?d \<noteq> []" "locate cwd ?d = locate cwd p @ [''.specs'']"
    using elems_child(3) [OF assms] locate_child [OF assms] by (simp_all add: name_ok_def)
  show "?I (snd (run (clean_specs p) t))"
  proof (cases l)
    case (Inr es)
    have "\<forall>n\<in>set (map fst es). name_ok n"
      using entries_names [OF outside_names [OF inv]] 1 Inr
      by (auto simp: fs_ReadDir_def fs_call_def split: list.splits option.splits node.splits)
    then have "\<forall>q\<in>set (map (\<lambda>n. path_Joins [?d, n]) (filter (\<lambda>n. n \<notin> set specs_allowed) (map fst es))).
        prefix (locate cwd p) (locate cwd q)"
      using locate_child [OF d(1)] d(2) by auto
    from keepsD [OF keeps_remove_quietly [OF this] inv1] show ?thesis using 1 Inr by (simp add: clean_specs_def Let_def run_pbind)
  qed (use 1 inv1 in \<open>simp add: clean_specs_def Let_def run_pbind\<close>)
qed

lemma cleanup_names: "\<forall>f\<in>set (cleanupFiles cfg). list_all name_ok (elems_of [f])"
  by (auto simp: cleanupFiles_def name_ok_def split: if_splits)

lemma keeps_finish:
  assumes "p \<noteq> []" and "HasPrefix cwd ''/''" and "\<not> HasPrefix p ''/''" and "dirs_above (locate cwd p) N" and "tools_stay tb"
  shows "keeps (fixed_outside (locate cwd p) N cwd) (finish_project isp tb flavor cfg p)"
proof -
  let ?I = "fixed_outside (locate cwd p) N cwd"
  have tool: "keeps ?I (tb_run tb command p)" for command using assms(4,5) by (simp add: tools_stay_def)
  have "list_all name_ok (elems_of [''CHANGELOG.md''])" by (simp add: name_ok_def)
  note log = keeps_below(1) [OF assms(1) this]
  have clean: "keeps ?I (remove_quietly (map (\<lambda>f. path_Joins [p, f]) (cleanupFiles cfg)))"
    using cleanup_names [of cfg] locate_below [OF assms(1)] by (intro keeps_remove_quietly) auto
  show ?thesis
    unfolding finish_project_def
    by (intro keep_intros keeps_clean_specs log clean keeps_flavor tool assms)
qed

lemma keeps_step:
  "keeps P p \<Longrightarrow> keeps P q \<Longrightarrow> keeps P (step what p q)" "keeps P g \<Longrightarrow> keeps P (ends g)"
  unfolding step_def ends_def by (intro keep_intros; assumption)+

lemma keeps_create_project:
  assumes "src \<noteq> []" and "p \<noteq> []" and "HasPrefix cwd ''/''" and "\<not> HasPrefix p ''/''" and "dirs_above (locate cwd p) N"
    and "tools_stay tb"
  shows "keeps (fixed_outside (locate cwd p) N cwd) (create_project isp tb fuel src flavor cfg p)"
proof -
  have "inside (locate cwd p) cwd p" using assms(2) by (simp add: inside_def)
  then show ?thesis
    unfolding create_project_def ReplaceServiceName_def RemoveDisabledFeatures_def
    by (intro keep_intros keeps_step keeps_CopyProject keeps_walks keeps_rename_in keeps_remove_each keeps_CleanupWiring
        keeps_finish serviceNameFiles_names features_names assms)
qed

end
