(* ===== verification/CliProofs.thy ===== *)
theory CliProofs
  imports CliNew CliSteps
begin

text \<open>
  The configuration that the command \<open>new\<close> collects, and what the command as a whole leaves alone.
\<close>

section \<open>The configuration of a new project\<close>

lemma and_thenE:
  assumes "fst (run (and_then p k) t) = Inr x"
  obtains y t1 where "fst (run p t) = Inr y" "fst (run (k y) t1) = Inr x"
  using assms by (cases "run p t") (auto simp: and_then_def run_pbind split: sum.splits)

lemma promptInput_result:
  "fst (run (promptInput d) t) = Inr x \<Longrightarrow> d \<noteq> [] \<Longrightarrow> x \<noteq> []"
  by (auto simp: promptInput_def run_pbind Let_def split: sum.splits if_splits)

lemma choose_module_result:
  "fst (run (choose_module i fl name) t) = Inr x \<Longrightarrow> x \<noteq> []"
  by (auto simp: choose_module_def split: if_splits dest: promptInput_result)

lemma choose_idempotency_result:
  "fst (run (choose_idempotency U i fl redis cur) t) = Inr x \<Longrightarrow> x \<longrightarrow> redis"
  by (auto simp: choose_idempotency_def split: if_splits)

text \<open>What has been collected is valid in the sense of \<open>Validate\<close>, once the directory is put in.\<close>

lemma collected_config_valid:
  assumes "fst (run (collect_config U isp reg env fl) t) = Inr (cfg, flavor)" and "dir \<noteq> []"
  shows "service_name_error isp (c_ServiceName cfg) = None" "Scaffold_Validate isp (cfg\<lparr>c_OutputDir := dir\<rparr>) = None"
proof -
  let ?i = "env_interactive env \<and> \<not> nf_yes fl"
  from assms(1) obtain name t1 where 1: "service_name_error isp name = None"
      "fst (run (case resolveFlavor isp (nf_flavor fl) reg of
        Inl e \<Rightarrow> Return (Inl e)
      | Inr flavor \<Rightarrow>
          and_then (choose_module ?i fl name) (\<lambda>md.
          and_then (choose_db ?i fl (c_DB NewProjectConfig)) (\<lambda>db.
          and_then (choose_redis U ?i fl (c_Redis NewProjectConfig)) (\<lambda>redis.
          and_then (choose_idempotency U ?i fl redis (c_Idempotency NewProjectConfig)) (\<lambda>idem.
          and_then (choose_auth U ?i fl (c_Auth NewProjectConfig)) (\<lambda>auth.
          and_then (choose_examples U ?i fl (c_KeepExamples NewProjectConfig)) (\<lambda>ex.
          Return (Inr
            (NewProjectConfig\<lparr>c_ServiceName := name, c_ModulePath := md, c_DB := db, c_Protocol := ProtocolHTTP,
               c_DI := DIManual, c_Redis := redis, c_Idempotency := idem, c_Auth := auth, c_KeepExamples := ex\<rparr>,
             flavor))))))))) t1) = Inr (cfg, flavor)"
    unfolding collect_config_def Let_def by (elim and_thenE) (auto split: option.splits)
  then obtain md db redis idem auth ex t2 t3 where c:
      "fst (run (choose_module ?i fl name) t2) = Inr md"
      "fst (run (choose_idempotency U ?i fl redis (c_Idempotency NewProjectConfig)) t3) = Inr idem"
      "cfg = NewProjectConfig\<lparr>c_ServiceName := name, c_ModulePath := md, c_DB := db, c_Protocol := ProtocolHTTP,
         c_DI := DIManual, c_Redis := redis, c_Idempotency := idem, c_Auth := auth, c_KeepExamples := ex\<rparr>"
    by (cases "resolveFlavor isp (nf_flavor fl) reg") (simp, simp, elim and_thenE, simp, blast)
  from 1(1) assms(2) c(3) choose_module_result [OF c(1)] choose_idempotency_result [OF c(2)]
  show "service_name_error isp (c_ServiceName cfg) = None" "Scaffold_Validate isp (cfg\<lparr>c_OutputDir := dir\<rparr>) = None"
    by (auto simp: Scaffold_Validate_def service_name_error_def split: if_splits)
qed

section \<open>The command as a whole\<close>

text \<open>Until the project is made nothing is written.\<close>

definition same_tree :: "tree \<Rightarrow> tree \<Rightarrow> bool" where
  "same_tree t0 t \<longleftrightarrow> t_nodes t = t_nodes t0 \<and> t_cwd t = t_cwd t0 \<and> (t_faults t0 = [] \<longrightarrow> t_faults t = [])"

lemma keeps_same_call:
  assumes "\<And>ft t. t_nodes (snd (f ft t)) = t_nodes t \<and> t_cwd (snd (f ft t)) = t_cwd t \<and> t_faults (snd (f ft t)) = t_faults t"
  shows "keeps (same_tree t0) (fs_call f)"
  unfolding fs_call_def using assms by (intro keeps_call) (auto simp: same_tree_def split: list.split)

lemma keeps_same_reads [keep_intros]:
  "keeps (same_tree t0) (fs_Stat p)" "keeps (same_tree t0) (fs_ReadFile p)" "keeps (same_tree t0) (fs_Getwd)"
  "keeps (same_tree t0) read_line"
  unfolding reading_calls read_line_def
  by (rule keeps_same_call, simp split: option.split)+

lemma keeps_and_then: "keeps P p \<Longrightarrow> (\<And>x. keeps P (k x)) \<Longrightarrow> keeps P (and_then p k)"
  unfolding and_then_def by (intro keep_intros)

lemma keeps_same_Abs: "keeps (same_tree t0) (fs_Abs p)"
  unfolding fs_Abs_def by (intro keep_intros)

lemma keeps_same_config: "keeps (same_tree t0) (collect_config U isp reg env fl)"
  unfolding collect_config_def choose_name_def choose_module_def choose_db_def choose_redis_def choose_idempotency_def
    choose_auth_def choose_examples_def confirm_if_def PromptConfirm_def promptInput_def promptSelect_def Let_def
  by (intro keep_intros keeps_and_then)

lemma keeps_same_root: "keeps (same_tree t0) (isGopherplateRoot dir)"
  unfolding isGopherplateRoot_def by (intro keep_intros)

lemma keeps_same_up: "keeps (same_tree t0) (walkUpForTemplate dir)"
proof (induction dir rule: walkUpForTemplate.induct)
  case (1 dir)
  show ?case
  proof (cases "path_Dir dir = dir")
    case True
    then show ?thesis by (subst walkUpForTemplate.simps) (simp, intro keep_intros keeps_same_root)
  next
    case False
    have "keeps (same_tree t0) (walkUpForTemplate (path_Dir dir))" using 1 [of False] False by simp
    then show ?thesis by (subst walkUpForTemplate.simps) (intro keep_intros keeps_same_root)
  qed
qed

lemma keeps_same_first: "keeps (same_tree t0) (first_template dirs)"
proof (induction dirs)
  case (Cons d dirs)
  then show ?case unfolding first_template.simps by (intro keep_intros keeps_same_up)
qed (simp add: keep_intros)

lemma keeps_same_resolve: "keeps (same_tree t0) (resolveTemplateRoot isp env fv)"
  unfolding resolveTemplateRoot_def
  by (intro keep_intros keeps_same_Abs keeps_same_root keeps_same_first)

text \<open>
  A tree as a file system has it: names are names, what holds something is a directory, and the working directory is
  one.
\<close>

definition tree_ok :: "tree \<Rightarrow> bool" where
  "tree_ok t \<longleftrightarrow> (\<forall>(p, n)\<in>set (t_nodes t). list_all name_ok p)
     \<and> (\<forall>p. p \<noteq> [] \<longrightarrow> node_at t p \<noteq> None \<longrightarrow> node_at t (butlast p) = Some Dir)
     \<and> HasPrefix (t_cwd t) ''/'' \<and> node_at t (from_root (t_cwd t)) = Some Dir"

lemma tree_ok_above:
  assumes "tree_ok t" and "node_at t p = Some Dir"
  shows "node_at t (take k p) = Some Dir"
proof (induction "length p - k" arbitrary: k)
  case 0
  then show ?case using assms(2) by simp
next
  case (Suc d)
  then have k: "k < length p" by simp
  have "node_at t (take (Suc k) p) = Some Dir" by (rule Suc(1)) (use Suc(2) in simp)
  moreover have "take (Suc k) p \<noteq> []" "butlast (take (Suc k) p) = take k p" using k by (auto simp: butlast_take)
  ultimately show ?case using assms(1) unfolding tree_ok_def by (metis option.distinct(1))
qed

lemma tree_ok_dirs_above:
  assumes "tree_ok t"
  shows "dirs_above (from_root (t_cwd t) @ [n]) (node_at t)"
  using tree_ok_above [OF assms, of "from_root (t_cwd t)"] assms
  by (auto simp: dirs_above_def tree_ok_def less_Suc_eq)

lemma path_Dir_nonempty: "path_Dir p \<noteq> []"
  by (simp add: path_Dir_def path_Clean_def Let_def)

lemma walk_up_nonempty: "fst (run (walkUpForTemplate s) t) = Some d \<Longrightarrow> s \<noteq> [] \<Longrightarrow> d \<noteq> []"
proof (induction s arbitrary: t rule: walkUpForTemplate.induct)
  case (1 s)
  then show ?case
    using 1(1) [of "fst (run (isGopherplateRoot s) t)"] path_Dir_nonempty [of s]
    by (subst (asm) walkUpForTemplate.simps) (auto simp: run_pbind split: if_splits)
qed

lemma first_template_nonempty:
  "fst (run (first_template ds) t) = Some d \<Longrightarrow> \<forall>s\<in>set ds. s \<noteq> [] \<Longrightarrow> d \<noteq> []"
proof (induction ds arbitrary: t)
  case (Cons s ds)
  then show ?case using walk_up_nonempty [of s t] by (auto simp: run_pbind split: option.splits)
qed simp

lemma resolved_nonempty:
  assumes "fst (run (resolveTemplateRoot isp env fv) t) = Inr d" and "HasPrefix (t_cwd t) ''/''"
  shows "d \<noteq> []"
proof -
  have abs: "q \<noteq> []" if "fst (run (fs_Abs p) t) = Inr q" "p \<noteq> []" for p q
    using run_Abs [OF refl that(2) assms(2)] that(1) by auto
  have wd: "w \<noteq> []" if "fst (run fs_Getwd t) = Inr w" for w
    using that assms(2) by (auto simp: fs_Getwd_def fs_call_def split: list.splits option.splits)
  show ?thesis
  proof (cases "fv = [] \<and> env_template env = []")
    case True
    let ?ds = "(case fst (run fs_Getwd t) of Inl e \<Rightarrow> [] | Inr d \<Rightarrow> [d])
      @ (case env_executable env of None \<Rightarrow> [] | Some exe \<Rightarrow> [path_Dir exe])"
    have ds: "\<forall>s\<in>set ?ds. s \<noteq> []" by (auto split: sum.splits option.splits dest!: sym [THEN wd] sym [THEN notE [OF path_Dir_nonempty]])
    from assms(1) True have "fst (run (first_template ?ds) (snd (run fs_Getwd t))) = Some d"
      by (simp add: resolveTemplateRoot_def run_pbind split: option.splits)
    from first_template_nonempty [OF this ds] show ?thesis .
  next
    case False
    then show ?thesis
      using assms(1) abs
      by (auto simp: resolveTemplateRoot_def run_pbind split: if_splits sum.splits)
  qed
qed

lemma service_name_ok: "service_name_error isp n = None \<Longrightarrow> name_ok n"
proof -
  assume "service_name_error isp n = None"
  then have n: "name_chars CHR ''-'' n" by (simp add: service_name_error_def serviceNamePattern_def name_pattern_iff split: if_splits)
  have "\<not> lower CHR ''/''" "\<not> digit CHR ''/''" "\<not> lower CHR ''.''" by (simp_all add: lower_def digit_def)
  then have "CHR ''/'' \<notin> set n" using name_chars_all [OF n, of "CHR ''/''"] by auto
  moreover have "n \<noteq> []" "lower (hd n)" using n by (simp_all add: name_chars_def)
  ultimately show ?thesis using \<open>\<not> lower CHR ''.''\<close> by (auto simp: name_ok_def)
qed

text \<open>
  C16: the command \<open>new\<close> writes below one directory only.  Whatever the flags, the answers and the calls that fail,
  there is one valid service name such that nothing outside the directory of that name in the working directory
  changes; and when no call fails, nothing at all changes if that directory is already there.  The programs that the
  command runs in the new directory are assumed to stay in it.
\<close>

theorem run_new_stays:
  assumes "tree_ok t" and "tools_stay tb"
  shows "\<exists>name. service_name_error isp name = None
    \<and> (\<forall>p. \<not> prefix (from_root (t_cwd t) @ [name]) p
          \<longrightarrow> node_at (snd (run (runNew U isp tb fuel reg env fl) t)) p = node_at t p)
    \<and> (t_faults t = [] \<longrightarrow> node_at t (from_root (t_cwd t) @ [name]) \<noteq> None
          \<longrightarrow> (\<forall>p. node_at (snd (run (runNew U isp tb fuel reg env fl) t)) p = node_at t p))"
proof -
  let ?t = "snd (run (runNew U isp tb fuel reg env fl) t)"
  have some_name: ?thesis if "same_tree t ?t"
    using that by (intro exI [of _ "''a''"])
      (simp add: same_tree_def node_at_def service_name_error_def serviceNamePattern_def name_pattern_iff name_chars_def lower_def)
  have cwd: "HasPrefix (t_cwd t) ''/''" using assms(1) by (simp add: tree_ok_def)
  have t: "same_tree t t" by (simp add: same_tree_def)
  obtain cc t1 where 1: "run (collect_config U isp reg env fl) t = (cc, t1)" by (cases "run (collect_config U isp reg env fl) t")
  have t1: "same_tree t t1" using keepsD [OF keeps_same_config t] 1 by (metis snd_conv)
  show ?thesis
  proof (cases cc)
    case (Inl e)
    then have "?t = t1" using 1 by (simp add: runNew_def run_pbind)
    then show ?thesis using t1 some_name by simp
  next
    case (Inr cf)
    obtain cfg flavor where cf: "cf = (cfg, flavor)" by (cases cf)
    have "fst (run (collect_config U isp reg env fl) t) = Inr (cfg, flavor)" using 1 Inr cf by simp
    from collected_config_valid(1) [OF this, of "''d''"] have name: "service_name_error isp (c_ServiceName cfg) = None" by simp
    obtain rt t2 where 2: "run (resolveTemplateRoot isp env (nf_template fl)) t1 = (rt, t2)"
      by (cases "run (resolveTemplateRoot isp env (nf_template fl)) t1")
    have t2: "same_tree t t2" using keepsD [OF keeps_same_resolve t1] 2 by (metis snd_conv)
    show ?thesis
    proof (cases rt)
      case (Inl e)
      then have "?t = t2" using 1 2 Inr cf by (simp add: runNew_def run_pbind)
      then show ?thesis using t2 some_name by simp
    next
      case (Inr src)
      let ?out = "path_Joins [''.'', c_ServiceName cfg]"
      obtain st t3 where 3: "run (fs_Stat ?out) t2 = (st, t3)" by (cases "run (fs_Stat ?out) t2")
      have t3: "same_tree t t3" using keepsD [OF keeps_same_reads(1) t2] 3 by (metis snd_conv)
      let ?base = "from_root (t_cwd t) @ [c_ServiceName cfg]"
      have n: "name_ok (c_ServiceName cfg)" using service_name_ok [OF name] .
      have out: "?out \<noteq> []" "\<not> HasPrefix ?out ''/''" "locate (t_cwd t) ?out = ?base"
        using elems_child [of "''.''" "c_ServiceName cfg"] locate_child [of "''.''" "c_ServiceName cfg" "t_cwd t"] n
        by (auto simp: locate_def from_root_def Split_append clean_elems_append)
      have result: "?t = (case st of Inr d \<Rightarrow> t3 | Inl e \<Rightarrow> snd (run (create_project isp tb fuel src flavor cfg ?out) t3))"
        using 1 2 3 \<open>cc = Inr cf\<close> cf Inr by (simp add: runNew_def run_pbind Let_def split: sum.split)
      have "fixed_outside ?base (node_at t) (t_cwd t) t3"
        using t3 assms(1) by (auto simp: fixed_outside_def same_tree_def node_at_def tree_ok_def)
      moreover have "src \<noteq> []"
        using resolved_nonempty [of isp env "nf_template fl" t1 src] 2 Inr t1 cwd by (simp add: same_tree_def)
      moreover have "dirs_above ?base (node_at t)" by (rule tree_ok_dirs_above [OF assms(1)])
      ultimately have made: "fixed_outside ?base (node_at t) (t_cwd t) (snd (run (create_project isp tb fuel src flavor cfg ?out) t3))"
        using keepsD [OF keeps_create_project [OF _ out(1) cwd out(2) _ assms(2)], of src "node_at t"] out(3) by simp
      have there: "t_faults t = [] \<longrightarrow> node_at t ?base \<noteq> None \<longrightarrow> (\<exists>d. st = Inr d)"
        using 3 t2 out(3)
        by (auto simp: fs_Stat_def fs_call_def same_tree_def place_of_def node_at_def split: option.splits)
      show ?thesis
        using name made there t3 unfolding result
        by (intro exI [of _ "c_ServiceName cfg"])
          (auto simp: fixed_outside_def same_tree_def node_at_def split: sum.split)
    qed
  qed
qed

theorem run_new_stays_witness:
  "\<forall>U isp fuel reg env fl w v m. let t = \<lparr>t_nodes = [([], Dir), ([''work''], Dir), ([''work'', ''notes''], File ''keep'')], t_cwd = ''/work'',
            t_stdin = [], t_faults = [None, Some (IoFault (PqError [] ''disk full'') (Some 3))]\<rparr>;
       tb = \<lparr>tb_wiring = w, tb_overlay = v, tb_modlib = m :: 'm modlib, tb_run = (\<lambda>command dir. Return ())\<rparr>
   in \<exists>name. service_name_error isp name = None
        \<and> (\<forall>p. \<not> prefix [''work'', name] p
              \<longrightarrow> node_at (snd (run (runNew U isp tb fuel reg env fl) t)) p = node_at t p)"
proof -
  let ?t = "\<lparr>t_nodes = [([], Dir), ([''work''], Dir), ([''work'', ''notes''], File ''keep'')], t_cwd = ''/work'',
            t_stdin = [], t_faults = [None, Some (IoFault (PqError [] ''disk full'') (Some 3))]\<rparr> :: tree"
  let ?tb = "\<lambda>w v m :: 'm modlib. \<lparr>tb_wiring = w, tb_overlay = v, tb_modlib = m, tb_run = (\<lambda>command dir. Return ())\<rparr>"
  have cwd: "from_root ''/work'' = [''work'']" by code_simp
  have t: "tree_ok ?t" by (simp add: tree_ok_def node_at_def name_ok_def cwd)
  have tb: "tools_stay (?tb w v m)" for w v m by (simp add: tools_stay_def keep_intros)
  show ?thesis
    unfolding Let_def
  proof (intro allI)
    fix U isp fuel reg env fl w v and m :: "'m modlib"
    from run_new_stays [OF t tb [of w v m], where isp = isp and U = U and fuel = fuel and reg = reg and env = env and fl = fl]
    show "\<exists>name. service_name_error isp name = None
        \<and> (\<forall>p. \<not> prefix [''work'', name] p
              \<longrightarrow> node_at (snd (run (runNew U isp (?tb w v m) fuel reg env fl) ?t)) p = node_at ?t p)"
      by (simp only: tree.simps cwd) auto
  qed
qed

section \<open>Two weak spots\<close>

text \<open>The driver name that the prompt and the help of \<open>--db\<close> offer for SQLite selects nothing.\<close>

lemma sqlite3_keeps_postgres:
  "SwitchDBDriver fuel dir ''sqlite3'' = Return (Some None)"
  "w_DB d = ''sqlite3'' \<Longrightarrow> DBDriverImport d = DBDriverImport (d\<lparr>w_DB := DBPostgres\<rparr>) \<and> DBDriverName d = ''postgres''"
  by (simp_all add: SwitchDBDriver_def DBDrivers_def DBDriverImport_def DBDriverName_def DBMySQL_def DBSQLite_def
      DBOther_def DBPostgres_def)

text \<open>The name of an endpoint to remove is not checked, and can lead to a file of another domain.\<close>

lemma removed_endpoint_elsewhere:
  "ToSnakeCase U ''../../domain/user/entity'' = ''../../domain/user/entity''"
  "path_Joins [''internal'', ''usecases'', ''order'', ''../../domain/user/entity'' @ ''.go''] = ''internal/domain/user/entity.go''"
  subgoal
    by (simp add: ToSnakeCase_def lowered_words_def splitWords_def runes_ascii_Cons rune_is_upper_def rune_is_lower_def
        string_of_runes_def encode_rune_ascii rune_lower_def ascii_lower_rune_def str_lower_ascii ascii_lower_def, code_simp)
  subgoal by code_simp
  done

end
