(* ===== verification/CliReturns.thy ===== *)
theory CliReturns
  imports CliProofs
begin

text \<open>
  The steps that walk a tree come to an end: enough fuel for the depth of the tree gives an answer, whatever calls fail,
  as long as the project is not made below a directory that is being copied.
\<close>

section \<open>A walk ends\<close>

definition returns :: "(tree \<Rightarrow> bool) \<Rightarrow> visited fsio \<Rightarrow> bool" where
  "returns P p \<longleftrightarrow> (\<forall>t. P t \<longrightarrow> fst (run p t) \<noteq> NoFuel \<and> P (snd (run p t)))"

lemma returnsD: "returns P p \<Longrightarrow> P t \<Longrightarrow> run p t = (r, t') \<Longrightarrow> r \<noteq> NoFuel \<and> P t'"
  unfolding returns_def by force

lemma run_Stat_dir: "run (fs_Stat p) t = (Inr d, t') \<Longrightarrow> d \<longleftrightarrow> node_at t (place_of t p) = Some Dir"
  by (auto simp: fs_Stat_def fs_call_def node_at_def place_of_def split: list.splits option.splits)

lemma walk_names_returns:
  assumes "\<And>n d. n \<in> set names \<Longrightarrow> good (path_Joins [path, n]) d \<Longrightarrow> returns P (w (path_Joins [path, n]) d)"
    and "\<And>n e. n \<in> set names \<Longrightarrow> returns P (fn (path_Joins [path, n]) False e)"
    and "\<And>t n. n \<in> set names \<Longrightarrow> P t \<Longrightarrow>
      good (path_Joins [path, n]) (node_at t (place_of t (path_Joins [path, n])) = Some Dir)"
    and "\<And>t fs. P (t\<lparr>t_faults := fs\<rparr>) \<longleftrightarrow> P t"
  shows "returns P (walk_names w fn path names)"
  using assms(1-3)
proof (induction names)
  case Nil
  then show ?case by (simp add: returns_def)
next
  case (Cons n names)
  let ?f = "path_Joins [path, n]"
  have rest: "returns P (walk_names w fn path names)" by (rule Cons.IH) (use Cons.prems in auto)
  show ?case unfolding returns_def
  proof (intro allI impI)
    fix t assume t: "P t"
    obtain st t1 where 1: "run (fs_Stat ?f) t = (st, t1)" by (cases "run (fs_Stat ?f) t")
    have t1: "P t1" using keepsD [OF keeps_reading(1) [OF assms(4)] t, of ?f] 1 by simp
    let ?p = "case st of Inl e \<Rightarrow> fn ?f False (Some e) | Inr d \<Rightarrow> w ?f d"
    have "returns P ?p"
    proof (cases st)
      case (Inr d)
      then have "good ?f d" using Cons.prems(3) [OF _ t] run_Stat_dir [of ?f t d t1] 1 by simp
      then show ?thesis using Cons.prems(1) Inr by simp
    qed (simp add: Cons.prems(2))
    moreover obtain r t2 where 2: "run ?p t1 = (r, t2)" by (cases "run ?p t1")
    ultimately have r: "r \<noteq> NoFuel" "P t2" using returnsD t1 by blast+
    show "fst (run (walk_names w fn path (n # names)) t) \<noteq> NoFuel \<and> P (snd (run (walk_names w fn path (n # names)) t))"
      using 1 2 r rest by (cases st) (auto simp: run_pbind Let_def returns_def)
  qed
qed

lemma walk_dir_returns:
  assumes "returns P (fn path True None)" "\<And>e. returns P (fn path True (Some e))"
    and "\<And>t fs. P (t\<lparr>t_faults := fs\<rparr>) \<longleftrightarrow> P t" and "P t"
    and "\<And>es. fst (run (fs_ReadDir path) t) = Inr es \<Longrightarrow> returns P (walk_names (walk m fn) fn path (map fst es))"
  shows "fst (run (walk (Suc m) fn path True) t) \<noteq> NoFuel \<and> P (snd (run (walk (Suc m) fn path True) t))"
proof -
  obtain l t1 where 1: "run (fs_ReadDir path) t = (l, t1)" by (cases "run (fs_ReadDir path) t")
  have t1: "P t1" using keepsD [OF keeps_reading(3) [OF assms(3)] assms(4), of path] 1 by simp
  let ?e = "case l of Inl e \<Rightarrow> Some e | Inr es \<Rightarrow> None"
  obtain r t2 where 2: "run (fn path True ?e) t1 = (r, t2)" by (cases "run (fn path True ?e) t1")
  have "returns P (fn path True ?e)" using assms(1,2) by (simp split: sum.split)
  from returnsD [OF this t1 2] have r: "r \<noteq> NoFuel" "P t2" by simp_all
  show ?thesis
    using 1 2 r assms(5) by (cases l) (auto simp: run_pbind returns_def)
qed

lemma walk_returns:
  assumes "\<And>path d e. good path d \<Longrightarrow> returns P (fn path d e)"
    and "\<And>t path n. good path True \<Longrightarrow> name_ok n \<Longrightarrow> P t \<Longrightarrow>
      good (path_Joins [path, n]) (node_at t (place_of t (path_Joins [path, n])) = Some Dir)"
    and "\<And>path n. good path True \<Longrightarrow> name_ok n \<Longrightarrow> good (path_Joins [path, n]) False"
    and "\<And>t fs. P (t\<lparr>t_faults := fs\<rparr>) \<longleftrightarrow> P t" and "\<And>t. P t \<Longrightarrow> \<forall>(p, n)\<in>set (t_nodes t). list_all name_ok p"
    and "\<And>path. good path True \<Longrightarrow> path \<noteq> [] \<and> length (locate cwd path) < B"
    and "good path d" and "d \<Longrightarrow> B \<le> length (locate cwd path) + m"
  shows "returns P (walk (Suc m) fn path d)"
  using assms(7,8)
proof (induction m arbitrary: path d)
  case (0 path d)
  then have "\<not> d" using assms(6) [of path] by (cases d) auto
  then show ?case using assms(1) [OF 0(1)] by (simp add: returns_def)
next
  case (Suc m path d)
  show ?case
  proof (cases d)
    case False
    then show ?thesis using assms(1) [OF Suc.prems(1)] by (simp add: returns_def)
  next
    case True
    then have g: "good path True" using Suc.prems(1) by simp
    note deep = assms(6) [OF g]
    show ?thesis unfolding returns_def
    proof (intro allI impI)
      fix t assume t: "P t"
      have "returns P (walk_names (walk (Suc m) fn) fn path (map fst es))" if es: "fst (run (fs_ReadDir path) t) = Inr es" for es
      proof (rule walk_names_returns [where good = good])
        have names: "\<forall>n\<in>set (map fst es). name_ok n"
          using entries_names [OF assms(5) [OF t]] es
          by (auto simp: fs_ReadDir_def fs_call_def split: list.splits option.splits node.splits)
        show "returns P (walk (Suc m) fn (path_Joins [path, n]) d')" if n: "n \<in> set (map fst es)" "good (path_Joins [path, n]) d'" for n d'
        proof (rule Suc.IH [OF n(2)])
          have "name_ok n" using bspec [OF names n(1)] .
          then show "B \<le> length (locate cwd (path_Joins [path, n])) + m"
            using deep Suc.prems(2) True locate_child [of path n cwd] by simp
        qed
        show "returns P (fn (path_Joins [path, n]) False e)" if "n \<in> set (map fst es)" for n e
          using assms(1) [OF assms(3) [OF g bspec [OF names that]]] .
        show "good (path_Joins [path, n]) (node_at u (place_of u (path_Joins [path, n])) = Some Dir)"
          if "n \<in> set (map fst es)" "P u" for n u
          using assms(2) [OF g bspec [OF names that(1)] that(2)] .
      qed (rule assms(4))
      note go = this
      have "fst (run (walk (Suc (Suc m)) fn path True) t) \<noteq> NoFuel \<and> P (snd (run (walk (Suc (Suc m)) fn path True) t))"
        by (rule walk_dir_returns) (rule assms(1) [OF g] assms(4) t go; assumption?)+
      then show "fst (run (walk (Suc (Suc m)) fn path d) t) \<noteq> NoFuel \<and> P (snd (run (walk (Suc (Suc m)) fn path d) t))"
        by (simp only: True simp_thms)
    qed
  qed
qed

lemma path_Walk_result:
  assumes "\<And>e. returns P (fn start False (Some e))" and "P t" and "\<And>t fs. P (t\<lparr>t_faults := fs\<rparr>) \<longleftrightarrow> P t"
    and "\<And>t1. t_nodes t1 = t_nodes t \<Longrightarrow> P t1 \<Longrightarrow>
      (let r = run (walk fuel fn start (node_at t (place_of t start) = Some Dir)) t1 in fst r \<noteq> NoFuel \<and> P (snd r))"
  shows "fst (run (path_Walk fuel start fn) t) \<noteq> None \<and> P (snd (run (path_Walk fuel start fn) t))"
proof -
  obtain st t1 where 1: "run (fs_Stat start) t = (st, t1)" by (cases "run (fs_Stat start) t")
  have t1: "P t1" using keepsD [OF keeps_reading(1) [OF assms(3)] assms(2), of start] 1 by simp
  have nodes: "t_nodes t1 = t_nodes t" using 1 by (auto simp: fs_Stat_def fs_call_def split: list.splits option.splits)
  let ?p = "case st of Inl e \<Rightarrow> fn start False (Some e) | Inr d \<Rightarrow> walk fuel fn start d"
  obtain r t2 where 2: "run ?p t1 = (r, t2)" by (cases "run ?p t1")
  have r: "r \<noteq> NoFuel \<and> P t2"
  proof (cases st)
    case (Inl e)
    then show ?thesis using returnsD [OF assms(1) t1, of e r t2] 2 by simp
  next
    case (Inr d)
    then show ?thesis using assms(4) [OF nodes t1] run_Stat_dir [of start t d t1] 1 2 by (simp add: Let_def)
  qed
  show ?thesis using 1 2 r by (auto simp: path_Walk_def run_pbind split: visited.split)
qed

section \<open>Rewriting\<close>

text \<open>Files may come and go, but directories are not deeper than \<open>B\<close>.\<close>

definition shallow :: "nat \<Rightarrow> string \<Rightarrow> tree \<Rightarrow> bool" where
  "shallow B cwd t \<longleftrightarrow> t_cwd t = cwd \<and> (\<forall>(p, n)\<in>set (t_nodes t). list_all name_ok p)
     \<and> (\<forall>p. node_at t p = Some Dir \<longrightarrow> length p < B)"

lemma shallow_faults [simp]: "shallow B cwd (t\<lparr>t_faults := fs\<rparr>) = shallow B cwd t"
  by (simp add: shallow_def node_at_def)

lemma shallow_put: "shallow B cwd t \<Longrightarrow> list_all name_ok q \<Longrightarrow> shallow B cwd (put_node q (File c) t)"
  by (auto simp: shallow_def put_node_def node_at_def map_of_filter_key [of "\<lambda>r. r \<noteq> q"] split: if_splits)

lemma open_write_names: "open_write t p = Inr q \<Longrightarrow> list_all name_ok q"
  using open_write_place [of t p q] by (simp add: place_of_def locate_names)

lemma keeps_shallow [keep_intros]:
  "keeps (shallow B cwd) (fs_WriteFile p c)" "keeps (shallow B cwd) (fs_Stat p)" "keeps (shallow B cwd) (fs_ReadFile p)"
  unfolding fs_WriteFile_def
  by (auto intro!: keeps_fs_call keeps_reading shallow_put dest!: open_write_names split: sum.split option.split)

lemma rewriting_visits:
  "returns (shallow B cwd) (rewrite_visit o1 n1 path d e)" "returns (shallow B cwd) (driver_visit dr path d e)"
proof -
  have "keeps (shallow B cwd) (rewrite_visit o1 n1 path d e)" "keeps (shallow B cwd) (driver_visit dr path d e)"
    unfolding rewrite_visit_def driver_visit_def Let_def by (intro keep_intros)+
  moreover have "fst (run (rewrite_visit o1 n1 path d e) t) \<noteq> NoFuel" "fst (run (driver_visit dr path d e) t) \<noteq> NoFuel" for t
    by (auto simp: rewrite_visit_def driver_visit_def Let_def visit_error_def run_pbind split: option.splits sum.splits)
  ultimately show "returns (shallow B cwd) (rewrite_visit o1 n1 path d e)" "returns (shallow B cwd) (driver_visit dr path d e)"
    by (simp_all add: returns_def keeps_def)
qed

lemma rewriting_returns:
  assumes "shallow B cwd t" and "start \<noteq> []" and "B \<le> length (locate cwd start) + m"
    and "\<And>path d e. returns (shallow B cwd) (fn path d e)"
  shows "fst (run (path_Walk (Suc m) start fn) t) \<noteq> None \<and> shallow B cwd (snd (run (path_Walk (Suc m) start fn) t))"
proof (rule path_Walk_result)
  fix t1 assume t1: "t_nodes t1 = t_nodes t" "shallow B cwd t1"
  let ?good = "\<lambda>path d. path \<noteq> [] \<and> (d \<longrightarrow> length (locate cwd path) < B)"
  have at: "place_of u p = locate cwd p" if "shallow B cwd u" for u p using that by (simp add: place_of_def shallow_def)
  let ?d = "node_at t (place_of t start) = Some Dir"
  have "returns (shallow B cwd) (walk (Suc m) fn start ?d)"
  proof (rule walk_returns [where good = ?good and cwd = cwd and B = B])
    show "?good (path_Joins [path, n]) (node_at u (place_of u (path_Joins [path, n])) = Some Dir)"
      if "?good path True" "name_ok n" "shallow B cwd u" for u path n
      using that at [OF that(3)] elems_child(3) [of path n] by (simp add: shallow_def)
    show "?good start ?d" using assms(1,2) at [OF assms(1)] by (simp add: shallow_def)
  qed (use assms elems_child(3) in \<open>auto simp: shallow_def\<close>)
  then show "let r = run (walk (Suc m) fn start ?d) t1 in fst r \<noteq> NoFuel \<and> shallow B cwd (snd r)"
    using t1 by (simp add: returns_def Let_def)
qed (use assms in auto)

lemma rename_in_shallow: "keeps (shallow B cwd) (rename_in p new fs)"
proof (induction fs)
  case (Cons f fs)
  then show ?case unfolding rename_in.simps Let_def
    by (intro keep_intros) (auto simp: keep_intros split: ioerror.split)
qed (simp add: keep_intros)

section \<open>Copying\<close>

text \<open>
  While the template at \<open>sq\<close> is copied to \<open>base\<close>, nothing else changes and every directory of the copy has its
  original in the tree \<open>N\<close> before.
\<close>

definition mirrors :: "place \<Rightarrow> place \<Rightarrow> (place \<Rightarrow> node option) \<Rightarrow> string \<Rightarrow> tree \<Rightarrow> bool" where
  "mirrors base sq N cwd t \<longleftrightarrow>
     t_cwd t = cwd \<and> (\<forall>r. node_at t (base @ r) = Some Dir \<longrightarrow> r = [] \<or> N (sq @ r) = Some Dir)"

definition copied :: "place \<Rightarrow> place \<Rightarrow> (place \<Rightarrow> node option) \<Rightarrow> string \<Rightarrow> tree \<Rightarrow> bool" where
  "copied base sq N cwd t \<longleftrightarrow> fixed_outside base N cwd t \<and> mirrors base sq N cwd t"

lemma mirrors_faults [simp]: "mirrors base sq N cwd (t\<lparr>t_faults := fs\<rparr>) = mirrors base sq N cwd t"
  by (simp add: mirrors_def node_at_def)

lemma keeps_copied:
  "keeps (fixed_outside base N cwd) p \<Longrightarrow> keeps (mirrors base sq N cwd) p \<Longrightarrow> keeps (copied base sq N cwd) p"
  by (simp add: keeps_def copied_def)

lemma mirrors_make_dirs:
  assumes "mirrors base sq N cwd t" and "\<forall>q\<in>set qs. \<forall>r. q = base @ r \<longrightarrow> r = [] \<or> N (sq @ r) = Some Dir"
  shows "mirrors base sq N cwd (snd (make_dirs qs p t))"
  using assms
proof (induction qs p t rule: make_dirs.induct)
  case (2 q qs p t)
  have "mirrors base sq N cwd (put_node q Dir t)" using 2(3,4) by (auto simp: mirrors_def)
  then show ?case using 2 by (auto split: option.split node.split)
qed simp

lemma mirrors_files:
  "keeps (mirrors base sq N cwd) (fs_Create p)" "keeps (mirrors base sq N cwd) (fs_Copy a p)"
  unfolding fs_Create_def fs_Copy_def
  by (auto intro!: keeps_fs_call simp: mirrors_def split: sum.split option.split node.split)

lemma mirrors_MkdirAll:
  assumes "\<And>r. prefix (base @ r) (locate cwd p) \<Longrightarrow> r = [] \<or> N (sq @ r) = Some Dir"
  shows "keeps (mirrors base sq N cwd) (fs_MkdirAll p)"
  unfolding fs_MkdirAll_def Let_def
proof (rule keeps_fs_call)
  fix ft t assume inv: "mirrors base sq N cwd t"
  let ?qs = "prefixes_of (place_of t p)"
  have "place_of t p = locate cwd p" using inv by (simp add: place_of_def mirrors_def)
  then have "prefix q (locate cwd p)" if "q \<in> set ?qs" for q using that by (auto simp: prefixes_of_def take_is_prefix)
  then have ok: "\<forall>q\<in>set ?qs. \<forall>r. q = base @ r \<longrightarrow> r = [] \<or> N (sq @ r) = Some Dir" using assms by blast
  have "mirrors base sq N cwd (snd (make_dirs ?qs p t))" "\<And>n. mirrors base sq N cwd (snd (make_dirs (take n ?qs) p t))"
    using mirrors_make_dirs [OF inv ok] mirrors_make_dirs [OF inv make_dirs_take [OF ok]] by blast+
  then show "mirrors base sq N cwd (snd (case ft of
        None \<Rightarrow> make_dirs ?qs p t
      | Some f \<Rightarrow> (Some (Failed (io_err f)), case io_done f of None \<Rightarrow> t | Some n \<Rightarrow> snd (make_dirs (take n ?qs) p t))))"
    using inv by (simp split: option.split)
qed simp

text \<open>The paths that are visited below the template.\<close>

definition source_path :: "string \<Rightarrow> string \<Rightarrow> string \<Rightarrow> (place \<Rightarrow> node option) \<Rightarrow> string \<Rightarrow> bool \<Rightarrow> bool" where
  "source_path src dst cwd N path d \<longleftrightarrow> path \<noteq> [] \<and> HasPrefix path ''/'' = HasPrefix src ''/''
     \<and> (\<exists>es. es \<noteq> [] \<and> list_all name_ok es \<and> path_elems path = path_elems src @ es
          \<and> \<not> prefix (locate cwd dst) (locate cwd src @ es) \<and> N (locate cwd src @ butlast es) = Some Dir
          \<and> (d \<longrightarrow> N (locate cwd src @ es) = Some Dir))"

lemma locate_append:
  assumes "HasPrefix path ''/'' = HasPrefix src ''/''" and "path_elems path = path_elems src @ es" and "list_all name_ok es"
  shows "locate cwd path = locate cwd src @ es"
  using assms(1,2) clean_elems_names [OF assms(3)] by (simp add: locate_elems clean_elems_append del: HasPrefix_code)

lemma source_reached: "source_path src dst cwd N path d \<Longrightarrow> reached src path"
  by (auto simp: source_path_def reached_def)

lemma copy_visit_returns:
  assumes "source_path src dst cwd (node_at t0) path d" and "tree_ok t0" and "dst \<noteq> []"
    and "dirs_above (locate cwd dst) (node_at t0)"
  shows "returns (copied (locate cwd dst) (locate cwd src) (node_at t0) cwd) (copy_visit src dst path d e)"
proof -
  let ?I = "mirrors (locate cwd dst) (locate cwd src) (node_at t0) cwd"
  from assms(1) obtain es where es: "es \<noteq> []" "list_all name_ok es" "path_elems path = path_elems src @ es"
      "node_at t0 (locate cwd src @ butlast es) = Some Dir" "d \<longrightarrow> node_at t0 (locate cwd src @ es) = Some Dir"
    unfolding source_path_def by blast
  obtain es' where es': "path_Rel src path = Inr (if es' = [] then ''.'' else Join es' ''/'')"
      "path_elems path = path_elems src @ es'"
    using path_Rel_reached [OF source_reached [OF assms(1)]] by metis
  have rel: "path_Rel src path = Inr (Join es ''/'')" using es' es(1,3) by simp
  let ?target = "path_Joins [dst, Join es ''/'']"
  have eo: "elems_of [Join es ''/''] = es" by (rule elems_of_Join [OF es(2,1)])
  have at: "locate cwd ?target = locate cwd dst @ es"
    using locate_below [OF assms(3), of "[Join es ''/'']" cwd] eo es(2) by simp
  have up: "locate cwd (path_Dir ?target) = locate cwd dst @ butlast es"
    using locate_Dir_Joins [OF assms(3), of "[Join es ''/'']" "butlast es" "last es" cwd] eo es(1,2) by simp
  have above: "r = [] \<or> node_at t0 (locate cwd src @ r) = Some Dir"
    if "prefix (locate cwd dst @ r) (locate cwd dst @ fs)" "node_at t0 (locate cwd src @ fs) = Some Dir" for r fs
  proof -
    from that(1) have "r = take (length r) fs" by (auto simp: prefix_def)
    then have "locate cwd src @ r = take (length (locate cwd src) + length r) (locate cwd src @ fs)" by simp
    then show ?thesis using tree_ok_above [OF assms(2) that(2)] by metis
  qed
  have copying: "keeps ?I (copyFile path ?target)"
    unfolding copyFile_def
    by (intro keep_intros mirrors_files mirrors_MkdirAll keeps_reading mirrors_faults) (use up above [OF _ es(4)] in simp)
  have "d \<Longrightarrow> keeps ?I (fs_MkdirAll ?target)"
    using at above es(5) by (intro mirrors_MkdirAll) simp
  note making = this
  have "keeps ?I (copy_visit src dst path d e)"
  proof (cases d)
    case True
    then show ?thesis unfolding copy_visit_def rel Let_def sum.case if_P [OF True]
      by (intro keep_intros making)
  next
    case False
    then show ?thesis unfolding copy_visit_def rel Let_def sum.case if_not_P [OF False]
      by (intro keep_intros copying)
  qed
  moreover have "fst (run (copy_visit src dst path d e) t) \<noteq> NoFuel" for t
    by (auto simp: copy_visit_def Let_def visit_error_def run_pbind split: option.splits sum.splits)
  ultimately show ?thesis
    using keeps_copied [OF keeps_copy_visit [OF source_reached [OF assms(1)] assms(3,4)]] by (simp add: returns_def keeps_def)
qed

lemma source_child:
  assumes "path \<noteq> []" and "HasPrefix path ''/'' = HasPrefix src ''/''" and "path_elems path = path_elems src @ es"
    and "list_all name_ok (es @ [n])" and "N (locate cwd src @ es) = Some Dir"
    and "\<not> prefix (locate cwd dst) (locate cwd src @ es @ [n])"
    and "d \<Longrightarrow> N (locate cwd src @ es @ [n]) = Some Dir"
  shows "source_path src dst cwd N (path_Joins [path, n]) d"
  using elems_child [OF assms(1), of n] assms(2-7) unfolding source_path_def
  by (intro conjI exI [of _ "es @ [n]"]) auto

text \<open>What is below the copy was not there before, and what is elsewhere has not changed.\<close>

lemma copied_outside:
  "copied base sq N cwd t \<Longrightarrow> \<not> prefix base p \<Longrightarrow> node_at t p = N p" "copied base sq N cwd t \<Longrightarrow> place_of t p' = locate cwd p'"
  by (simp_all add: copied_def fixed_outside_def place_of_def)

lemma nothing_below: "tree_ok t \<Longrightarrow> node_at t base = None \<Longrightarrow> prefix base p \<Longrightarrow> node_at t p = None"
proof (induction "length p" arbitrary: p)
  case (Suc k)
  show ?case
  proof (cases "p = base")
    case False
    then have "prefix base (butlast p)" using Suc.prems(3) Suc.hyps(2)
      by (metis prefix_order.le_less prefix_snoc append_butlast_last_id length_0_conv nat.simps(3))
    moreover have "k = length (butlast p)" using Suc.hyps(2) by simp
    ultimately have "node_at t (butlast p) = None" using Suc by blast
    then show ?thesis using Suc.prems(1) Suc.hyps(2) unfolding tree_ok_def by (metis length_0_conv nat.simps(3) option.distinct(1))
  qed (use Suc in simp)
qed simp

lemma child_path:
  assumes "source_path src dst cwd (node_at t0) path True" and "name_ok n" and "butlast (locate cwd dst) = locate cwd src
      \<or> \<not> prefix (locate cwd src) (locate cwd dst)" and "d \<Longrightarrow> node_at t0 (locate cwd (path_Joins [path, n])) = Some Dir"
  shows "source_path src dst cwd (node_at t0) (path_Joins [path, n]) d"
proof -
  from assms(1) obtain es where es: "es \<noteq> []" "list_all name_ok es" "path_elems path = path_elems src @ es"
      "\<not> prefix (locate cwd dst) (locate cwd src @ es)" "node_at t0 (locate cwd src @ es) = Some Dir" "path \<noteq> []"
      "HasPrefix path ''/'' = HasPrefix src ''/''"
    unfolding source_path_def by blast
  have at: "locate cwd (path_Joins [path, n]) = locate cwd src @ es @ [n]"
    using locate_child [OF es(6) assms(2), of cwd] locate_append [OF es(7,3,2), of cwd] by simp
  have "\<not> prefix (locate cwd dst) (locate cwd src @ es @ [n])"
  proof
    assume "prefix (locate cwd dst) (locate cwd src @ es @ [n])"
    then have "locate cwd dst = (locate cwd src @ es) @ [n]" using es(4) by (metis append_assoc prefix_snoc)
    then show False using assms(3) es(1) by (auto simp: butlast_append)
  qed
  then show ?thesis using es assms(2,4) at by (intro source_child [where es = es]) simp_all
qed

lemma copy_returns:
  assumes "tree_ok t" and "src \<noteq> []" and "dst \<noteq> []" and "cwd = t_cwd t" and "dirs_above (locate cwd dst) (node_at t)"
    and "node_at t (locate cwd dst) = None"
    and "butlast (locate cwd dst) = locate cwd src \<or> \<not> prefix (locate cwd src) (locate cwd dst)"
    and "\<forall>p. node_at t p = Some Dir \<longrightarrow> length p < B" and "B \<le> m"
  shows "fst (run (CopyProject (Suc (Suc m)) src dst) t) \<noteq> None
    \<and> copied (locate cwd dst) (locate cwd src) (node_at t) cwd (snd (run (CopyProject (Suc (Suc m)) src dst) t))"
  unfolding CopyProject_def
proof (rule path_Walk_result)
  let ?P = "copied (locate cwd dst) (locate cwd src) (node_at t) cwd"
  let ?good = "source_path src dst cwd (node_at t)"
  let ?fn = "copy_visit src dst"
  have names: "\<forall>(p, n)\<in>set (t_nodes u). list_all name_ok p" if "?P u" for u
    using that by (simp add: copied_def fixed_outside_def)
  have visit: "returns ?P (?fn path d e)" if "?good path d" for path d e
    by (rule copy_visit_returns [OF that assms(1,3,5)])
  have faults: "?P (u\<lparr>t_faults := fs\<rparr>) \<longleftrightarrow> ?P u" for u fs by (simp add: copied_def)
  have rel: "path_Rel src src = Inr ''.''" by (simp add: path_Rel_def Let_def drop_common_append [of _ "[]", simplified])
  have root: "returns ?P (?fn src d e)" for d e
    by (cases e) (simp_all add: copy_visit_def rel returns_def)
  have walks: "returns ?P (walk (Suc m) ?fn path d)" if "?good path d" for path d
  proof (rule walk_returns [where good = ?good and B = B])
    show "?good (path_Joins [path, n]) (node_at u (place_of u (path_Joins [path, n])) = Some Dir)"
      if g: "?good path True" "name_ok n" "?P u" for u path n
    proof -
      have no: "?good (path_Joins [path, n]) False" by (rule child_path [OF g(1,2) assms(7)]) simp
      then obtain es where "\<not> prefix (locate cwd dst) (locate cwd src @ es)" "locate cwd (path_Joins [path, n]) = locate cwd src @ es"
        unfolding source_path_def using locate_append by blast
      then show ?thesis using child_path [OF g(1,2) assms(7)] copied_outside [OF g(3)] by metis
    qed
    show "?good (path_Joins [path, n]) False" if "?good path True" "name_ok n" for path n
      by (rule child_path [OF that assms(7)]) simp
    show "path \<noteq> [] \<and> length (locate cwd path) < B" if g: "?good path True" for path
      using g locate_append assms(8) unfolding source_path_def by metis
  qed (use that visit faults names assms(9) in auto)
  show "?P t" using assms(1,4,6) nothing_below [OF assms(1,6)]
    by (auto simp: copied_def fixed_outside_def mirrors_def tree_ok_def)
  show "returns ?P (?fn src False (Some e))" for e by (rule root)
  fix t1 assume t1: "t_nodes t1 = t_nodes t" "?P t1"
  let ?d = "node_at t (place_of t src) = Some Dir"
  show "let r = run (walk (Suc (Suc m)) ?fn src ?d) t1 in fst r \<noteq> NoFuel \<and> ?P (snd r)"
  proof (cases ?d)
    case False
    then show ?thesis using root [of False None] t1(2) by (simp add: returns_def Let_def)
  next
    case True
    then have src: "node_at t (locate cwd src) = Some Dir" using assms(4) by (simp add: place_of_def)
    have "fst (run (walk (Suc (Suc m)) ?fn src True) t1) \<noteq> NoFuel \<and> ?P (snd (run (walk (Suc (Suc m)) ?fn src True) t1))"
    proof (rule walk_dir_returns)
      fix es assume es: "fst (run (fs_ReadDir src) t1) = Inr es"
      then have listing: "es = entries_of t1 (locate cwd src)"
        using copied_outside(2) [OF t1(2)]
        by (auto simp: fs_ReadDir_def fs_call_def entries_of_def node_at_def place_of_def split: list.splits option.splits node.splits)
      have ok: "name_ok n" "node_at t (locate cwd src @ [n]) \<noteq> None" if "n \<in> set (map fst es)" for n
      proof -
        show "name_ok n" using entries_names [OF names [OF t1(2)]] that listing by blast
        from that obtain p k where p: "(p, k) \<in> set (t_nodes t)" "p \<noteq> []" "butlast p = locate cwd src" "n = last p"
          using listing t1(1) by (auto simp: entries_of_def)
        then have "p = locate cwd src @ [n]" by (metis append_butlast_last_id)
        then show "node_at t (locate cwd src @ [n]) \<noteq> None"
          using p(1) by (metis node_at_def map_of_eq_None_iff fst_conv image_eqI)
      qed
      have new: "\<not> prefix (locate cwd dst) (locate cwd src @ [n])" if n: "n \<in> set (map fst es)" for n
      proof
        assume "prefix (locate cwd dst) (locate cwd src @ [n])"
        from nothing_below [OF assms(1,6) this] ok(2) [OF n] show False by simp
      qed
      have good: "?good (path_Joins [src, n]) d" if n: "n \<in> set (map fst es)"
          "d \<Longrightarrow> node_at t (locate cwd src @ [n]) = Some Dir" for n d
        using ok(1) [OF n(1)] new [OF n(1)] n(2) src by (intro source_child [where es = "[]"]) (simp_all add: assms(2))
      show "returns ?P (walk_names (walk (Suc m) ?fn) ?fn src (map fst es))"
      proof (rule walk_names_returns [where good = ?good])
        fix u n assume n: "n \<in> set (map fst es)" and u: "?P u"
        have at: "locate cwd (path_Joins [src, n]) = locate cwd src @ [n]" by (rule locate_child [OF assms(2) ok(1) [OF n]])
        have "node_at u (locate cwd src @ [n]) = node_at t (locate cwd src @ [n])" by (rule copied_outside(1) [OF u new [OF n]])
        then show "?good (path_Joins [src, n]) (node_at u (place_of u (path_Joins [src, n])) = Some Dir)"
          using copied_outside(2) [OF u, of "path_Joins [src, n]"] at by (intro good [OF n]) (simp only:)
      next
        show "returns ?P (?fn (path_Joins [src, n]) False e)" if "n \<in> set (map fst es)" for n e
          by (rule visit [OF good [OF that]]) simp
      qed (rule walks faults, assumption?)+
    qed (use root faults t1 in auto)
    then show ?thesis using True by (simp only: Let_def simp_thms)
  qed
qed (simp add: copied_def)

section \<open>Making a project\<close>

lemma step_returns:
  assumes "fst (run p t) \<noteq> None" and "fst (run q (snd (run p t))) \<noteq> None"
  shows "fst (run (step what p q) t) \<noteq> None"
  using assms by (auto simp: step_def run_pbind split: option.splits)

lemma ends_returns: "fst (run (ends p) t) \<noteq> None" "snd (run (ends p) t) = snd (run p t)"
  by (simp_all add: ends_def run_pbind)

lemma finish_returns: "fst (run (finish_project isp tb flavor cfg d) t) \<noteq> None"
  by (auto simp: finish_project_def run_pbind split: option.splits)

lemma copied_shallow:
  assumes "copied base sq (node_at t) cwd t'" and "\<forall>p. node_at t p = Some Dir \<longrightarrow> length p < B"
  shows "shallow (Suc (length base + B)) cwd t'"
proof -
  have "length p < Suc (length base + B)" if p: "node_at t' p = Some Dir" for p
  proof (cases "prefix base p")
    case True
    then obtain r where r: "p = base @ r" by (auto simp: prefix_def)
    then have "r = [] \<or> node_at t (sq @ r) = Some Dir" using assms(1) p by (simp add: copied_def mirrors_def)
    then show ?thesis using r assms(2) by fastforce
  next
    case False
    then have "node_at t p = Some Dir" using p copied_outside(1) [OF assms(1)] by simp
    then show ?thesis using assms(2) by fastforce
  qed
  then show ?thesis using assms(1) by (simp add: shallow_def copied_def fixed_outside_def)
qed

text \<open>
  C25: making a project comes to an end.  Whatever calls fail, fuel for two levels more than the depth of the tree is
  enough for the steps of the command \<open>new\<close> to give an answer, if the new directory is not there yet and the
  template is the working directory or not above it.
\<close>

theorem new_project_returns:
  assumes "tree_ok t" and "src \<noteq> []" and "service_name_error isp (c_ServiceName cfg) = None"
    and "out = path_Joins [''.'', c_ServiceName cfg]" and "node_at t (place_of t out) = None"
    and "place_of t src = from_root (t_cwd t) \<or> \<not> prefix (place_of t src) (place_of t out)"
    and "\<forall>p. node_at t p = Some Dir \<longrightarrow> length p < B" and "B + 2 \<le> fuel"
  shows "\<exists>answer. fst (run (create_project isp tb fuel src flavor cfg out) t) = Some answer"
proof -
  let ?cwd = "t_cwd t"
  let ?base = "locate ?cwd out"
  have n: "name_ok (c_ServiceName cfg)" by (rule service_name_ok [OF assms(3)])
  have out: "out \<noteq> []" "?base = from_root ?cwd @ [c_ServiceName cfg]"
    using elems_child [of "''.''" "c_ServiceName cfg"] locate_child [of "''.''" "c_ServiceName cfg" ?cwd] n
    by (auto simp: assms(4) locate_def from_root_def Split_append clean_elems_append)
  obtain m where m: "fuel = Suc (Suc m)" "B \<le> m" using assms(8) by (metis Suc_le_D Suc_le_mono add_2_eq_Suc')
  have above: "dirs_above ?base (node_at t)" using tree_ok_dirs_above [OF assms(1)] out(2) by simp
  have apart: "butlast ?base = locate ?cwd src \<or> \<not> prefix (locate ?cwd src) ?base"
    using assms(6) out(2) by (auto simp: place_of_def)
  have free: "node_at t ?base = None" using assms(5) by (simp add: place_of_def)
  let ?t1 = "snd (run (CopyProject fuel src out) t)"
  have 1: "fst (run (CopyProject fuel src out) t) \<noteq> None" "copied ?base (locate ?cwd src) (node_at t) ?cwd ?t1"
    using copy_returns [OF assms(1,2) out(1) refl above free apart assms(7) m(2)] m(1) by simp_all
  let ?I = "shallow (Suc (length ?base + B)) ?cwd"
  have rewriting: "fst (run (path_Walk fuel out fn) u) \<noteq> None \<and> ?I (snd (run (path_Walk fuel out fn) u))"
    if "?I u" "\<And>path d e. returns ?I (fn path d e)" for u fn
    using rewriting_returns [OF that(1) out(1) _ that(2), of "Suc m"] m by simp
  let ?t2 = "snd (run (RewriteModulePath fuel out TemplateModulePath (c_ModulePath cfg)) ?t1)"
  have 2: "fst (run (RewriteModulePath fuel out TemplateModulePath (c_ModulePath cfg)) ?t1) \<noteq> None" "?I ?t2"
    unfolding RewriteModulePath_def
    using rewriting [of ?t1 "rewrite_visit TemplateModulePath (c_ModulePath cfg)", OF copied_shallow [OF 1(2) assms(7)]]
      rewriting_visits(1) by blast+
  let ?t3 = "snd (run (ReplaceServiceName out (c_ServiceName cfg)) ?t2)"
  have 3: "?I ?t3" unfolding ReplaceServiceName_def by (rule keepsD [OF rename_in_shallow 2(2)])
  have 4: "fst (run (SwitchDBDriver fuel out db) ?t3) \<noteq> None" for db
    using rewriting [OF 3, of "driver_visit dr" for dr] rewriting_visits(2) by (simp add: SwitchDBDriver_def split: option.split)
  have "fst (run (create_project isp tb fuel src flavor cfg out) t) \<noteq> None"
    unfolding create_project_def
    by (intro step_returns) (use 1 2 4 finish_returns ends_returns in \<open>auto split: if_split\<close>)
  then show ?thesis by blast
qed

theorem new_project_returns_witness:
  "\<forall>isp tb flavor. \<exists>answer. fst (run (create_project isp tb 4 ''/tpl'' flavor (NewProjectConfig\<lparr>c_ServiceName := ''app''\<rparr>)
      (path_Joins [''.'', ''app'']))
    \<lparr>t_nodes = [([], Dir), ([''w''], Dir), ([''tpl''], Dir), ([''tpl'', ''go.mod''], File ''module x'')], t_cwd = ''/w'',
     t_stdin = [], t_faults = [None, Some (IoFault (PqError [] ''disk full'') (Some 1))]\<rparr>) = Some answer"
proof (intro allI, rule new_project_returns [where B = 2])
  let ?t = "\<lparr>t_nodes = [([], Dir), ([''w''], Dir), ([''tpl''], Dir), ([''tpl'', ''go.mod''], File ''module x'')], t_cwd = ''/w'',
     t_stdin = [], t_faults = [None, Some (IoFault (PqError [] ''disk full'') (Some 1))]\<rparr> :: tree"
  have w: "from_root ''/w'' = [''w'']" by code_simp
  have p: "place_of ?t ''/tpl'' = [''tpl'']" "place_of ?t (path_Joins [''.'', ''app'']) = [''w'', ''app'']" by code_simp+
  show "tree_ok ?t" by (auto simp: tree_ok_def node_at_def name_ok_def w split: if_splits)
  show "service_name_error isp (c_ServiceName (NewProjectConfig\<lparr>c_ServiceName := ''app''\<rparr>)) = None" for isp
    by (simp add: service_name_error_def serviceNamePattern_def name_pattern_iff name_chars_def lower_def)
  show "node_at ?t (place_of ?t (path_Joins [''.'', ''app''])) = None"
    "place_of ?t ''/tpl'' = from_root (t_cwd ?t) \<or> \<not> prefix (place_of ?t ''/tpl'') (place_of ?t (path_Joins [''.'', ''app'']))"
    unfolding p by (simp_all add: node_at_def)
  show "\<forall>p. node_at ?t p = Some Dir \<longrightarrow> length p < 2" by (auto simp: node_at_def split: if_splits)
qed simp_all

end
