(* ===== verification/CliDomainProofs.thy ===== *)
theory CliDomainProofs
  imports CliReturns
begin

text \<open>
  Adding a domain writes only in the places of the domain, whatever calls fail, and removing it gives back the tree of
  before, but for its migration.
\<close>

section \<open>Steps that keep a tree a tree\<close>

definition fixed_but :: "(place \<Rightarrow> bool) \<Rightarrow> (place \<Rightarrow> node option) \<Rightarrow> string \<Rightarrow> tree \<Rightarrow> bool" where
  "fixed_but Q N cwd t \<longleftrightarrow> t_cwd t = cwd \<and> tree_ok t \<and> (\<forall>p. \<not> Q p \<longrightarrow> node_at t p = N p)"

lemma fixed_but_faults [simp]: "fixed_but Q N cwd (t\<lparr>t_faults := fs\<rparr>) = fixed_but Q N cwd t"
  by (simp add: fixed_but_def tree_ok_def node_at_def)

lemma keeps_fixed_but [keep_intros]:
  "keeps (fixed_but Q N cwd) (fs_Stat p)" "keeps (fixed_but Q N cwd) (fs_ReadFile p)" "keeps (fixed_but Q N cwd) fs_Getwd"
  by (rule keeps_reading; simp)+

lemma tree_ok_put:
  assumes "tree_ok t" "list_all name_ok q" "q \<noteq> []" "node_at t (butlast q) = Some Dir" "n = Dir \<or> node_at t q \<noteq> Some Dir"
  shows "tree_ok (put_node q n t)"
proof -
  have "butlast q \<noteq> q" using assms(3) by (metis append_butlast_last_id append_self_conv not_Cons_self2)
  moreover have "n = Dir" if "p \<noteq> []" "node_at t p \<noteq> None" "butlast p = q" for p
    using assms(1,5) that unfolding tree_ok_def by metis
  moreover have "n = Dir" if "from_root (t_cwd t) = q" using assms(1,5) that unfolding tree_ok_def by metis
  ultimately show ?thesis using assms(1-4) unfolding tree_ok_def
    by (auto simp: put_node_def node_at_def map_of_filter_key [of "\<lambda>r. r \<noteq> q"] split: if_splits)
qed

lemma tree_ok_root: "tree_ok t \<Longrightarrow> node_at t [] = Some Dir"
  using tree_ok_above [of t "from_root (t_cwd t)" 0] by (simp add: tree_ok_def)

lemma make_dirs_fixed_but:
  assumes "fixed_but Q N cwd t" and "1 \<le> i" and "j \<le> Suc (length q)" and "node_at t (take (i - 1) q) = Some Dir"
    and "list_all name_ok q" and "\<forall>k\<le>length q. Q (take k q) \<or> N (take k q) = Some Dir"
  shows "fixed_but Q N cwd (snd (make_dirs (map (\<lambda>k. take k q) [i..<j]) p t))"
  using assms(1-4)
proof (induction "j - i" arbitrary: i t)
  case (Suc d)
  then have i: "i < j" by simp
  let ?q = "take i q"
  have q: "?q \<noteq> []" "butlast ?q = take (i - 1) q" "list_all name_ok ?q"
    using i Suc.prems(2,3) assms(5) by (auto simp: butlast_take list_all_iff dest: in_set_takeD)
  have rest: "fixed_but Q N cwd (snd (make_dirs (map (\<lambda>k. take k q) [Suc i..<j]) p u))"
    if "fixed_but Q N cwd u" "node_at u ?q = Some Dir" for u
    by (rule Suc.hyps(1)) (use Suc that i in auto)
  have "fixed_but Q N cwd (put_node ?q Dir t)" if "node_at t ?q = None"
  proof -
    have "i \<le> length q" using i Suc.prems(3) by simp
    then have "Q ?q" using that Suc.prems(1) assms(6) unfolding fixed_but_def by (metis option.distinct(1))
    moreover have "tree_ok (put_node ?q Dir t)"
      using Suc.prems(1,4) q by (intro tree_ok_put) (simp_all add: fixed_but_def)
    ultimately show ?thesis using Suc.prems(1) by (auto simp: fixed_but_def)
  qed
  then show ?case using rest Suc.prems(1) i
    by (auto simp: upt_conv_Cons [OF i] split: option.split node.split)
qed (use assms(1) in simp)

lemma keeps_but_MkdirAll:
  assumes "\<forall>k\<le>length (locate cwd p). Q (take k (locate cwd p)) \<or> N (take k (locate cwd p)) = Some Dir"
  shows "keeps (fixed_but Q N cwd) (fs_MkdirAll p)"
  unfolding fs_MkdirAll_def Let_def
proof (rule keeps_fs_call)
  fix ft t assume inv: "fixed_but Q N cwd t"
  let ?q = "place_of t p"
  have q: "?q = locate cwd p" using inv by (simp add: place_of_def fixed_but_def)
  have dirs: "fixed_but Q N cwd (snd (make_dirs (map (\<lambda>k. take k ?q) [0..<j]) p t))" if "j \<le> Suc (length ?q)" for j
  proof (cases j)
    case (Suc i)
    have "node_at t [] = Some Dir" using inv by (simp add: fixed_but_def tree_ok_root)
    then have "make_dirs (map (\<lambda>k. take k ?q) [0..<j]) p t = make_dirs (map (\<lambda>k. take k ?q) [1..<j]) p t"
      by (simp add: Suc upt_conv_Cons del: upt_Suc)
    with \<open>node_at t [] = Some Dir\<close> show ?thesis
      using make_dirs_fixed_but [OF inv _ that, of 1 p] assms locate_names [of cwd p] by (simp add: q)
  qed (use inv in simp)
  have "take n [0..<m] = [0..<min n m]" for n m by (cases "n \<le> m") (simp_all add: min_def)
  then have "take n (prefixes_of ?q) = map (\<lambda>k. take k ?q) [0..<min n (Suc (length ?q))]" for n
    by (simp add: prefixes_of_def take_map del: upt_Suc)
  then have "fixed_but Q N cwd (snd (make_dirs (take n (prefixes_of ?q)) p t))" for n using dirs by simp
  moreover have "fixed_but Q N cwd (snd (make_dirs (prefixes_of ?q) p t))" using dirs by (simp add: prefixes_of_def del: upt_Suc)
  ultimately show "fixed_but Q N cwd (snd (case ft of
        None \<Rightarrow> make_dirs (prefixes_of ?q) p t
      | Some f \<Rightarrow> (Some (Failed (io_err f)), case io_done f of
          None \<Rightarrow> t | Some n \<Rightarrow> snd (make_dirs (take n (prefixes_of ?q)) p t))))"
    using inv by (simp split: option.split)
qed simp

lemma keeps_but_WriteFile:
  assumes "Q (locate cwd p)"
  shows "keeps (fixed_but Q N cwd) (fs_WriteFile p c)"
  unfolding fs_WriteFile_def
proof (rule keeps_fs_call)
  fix ft t assume inv: "fixed_but Q N cwd t"
  have put: "fixed_but Q N cwd (put_node q (File d) t)" if o: "open_write t p = Inr q" for q d
  proof -
    have q: "q = locate cwd p" using open_write_place [OF o] inv by (simp add: place_of_def fixed_but_def)
    have ok: "tree_ok t" using inv by (simp add: fixed_but_def)
    have "node_at t q \<noteq> Some Dir \<and> q \<noteq> [] \<and> node_at t (butlast q) = Some Dir"
    proof (cases "node_at t q")
      case None
      then show ?thesis using o open_write_place [OF o] by (auto simp: open_write_def Let_def split: if_splits)
    next
      case (Some n)
      then have "n \<noteq> Dir" using o open_write_place [OF o] by (auto simp: open_write_def Let_def)
      moreover have "q \<noteq> []" using Some tree_ok_root [OF ok] \<open>n \<noteq> Dir\<close> by auto
      ultimately show ?thesis using Some ok by (simp add: tree_ok_def)
    qed
    then have "tree_ok (put_node q (File d) t)" using ok q by (intro tree_ok_put) (simp_all add: locate_names)
    then show ?thesis using inv assms q by (auto simp: fixed_but_def)
  qed
  show "fixed_but Q N cwd (snd (case open_write t p of
       Inl e \<Rightarrow> (Some e, t)
     | Inr q \<Rightarrow>
         (case ft of
            None \<Rightarrow> (None, put_node q (File c) t)
          | Some f \<Rightarrow>
              (Some (Failed (io_err f)),
               case io_done f of None \<Rightarrow> t | Some n \<Rightarrow> put_node q (File (take n c)) t))))"
    using inv put by (auto split: sum.split option.split)
qed simp

section \<open>The places of a domain\<close>

text \<open>What removing a domain removes, below the project, and the migration, which it keeps.\<close>

definition domain_places :: "string \<Rightarrow> place list" where
  "domain_places s =
     [[''internal'', ''domain'', s],
      [''internal'', ''usecases'', s],
      [''internal'', ''infrastructure'', ''db'', ''postgres'', ''repository'', s @ ''.go''],
      [''internal'', ''infrastructure'', ''db'', ''postgres'', ''repository'', s @ ''_test.go''],
      [''internal'', ''infrastructure'', ''web'', ''handler'', s @ ''.go''],
      [''internal'', ''infrastructure'', ''web'', ''router'', s @ ''.go'']]"

definition migration_place :: "unicode_tables \<Rightarrow> string \<Rightarrow> time \<Rightarrow> place" where
  "migration_place U s now =
     [''internal'', ''infrastructure'', ''db'', ''postgres'', ''migration'',
      Format_goose now @ ''_create_'' @ ToPlural U s @ ''.sql'']"

lemma locate_relative:
  assumes "list_all name_ok es" and "es \<noteq> []"
  shows "locate cwd (path_Joins es) = from_root cwd @ es" "locate cwd (path_Dir (path_Joins es)) = from_root cwd @ butlast es"
proof -
  obtain e fs where es: "es = e # fs" using assms(2) by (cases es) auto
  have e: "name_ok e" "list_all name_ok fs" "e \<noteq> []" using assms(1) es by (auto simp: name_ok_def)
  have more: "elems_of fs = fs" if "list_all name_ok fs" for fs
    using that by (induction fs) (simp_all add: name_ok_def Split_no_sep)
  have "\<not> HasPrefix e ''/''" using e by (cases e) (auto simp: name_ok_def)
  then have head: "locate cwd e = from_root cwd @ [e]" "path_elems e = [] @ [e]"
    using e clean_elems_names [of "[e]"] 
    by (simp_all add: locate_def from_root_def path_elems_def Split_append clean_elems_append name_ok_def Split_no_sep)
  show "locate cwd (path_Joins es) = from_root cwd @ es"
    using locate_below [OF e(3), of fs cwd] e(2) more [OF e(2)] head es by simp
  show "locate cwd (path_Dir (path_Joins es)) = from_root cwd @ butlast es"
  proof (cases "fs = []")
    case True
    have "locate cwd (path_Clean e) = locate cwd (path_Dir (path_Clean e)) @ [e]" by (rule locate_Dir [OF head(2) e(1)])
    moreover have "path_Clean e = path_Joins es" "path_Dir (path_Clean e) = path_Dir (path_Joins es)"
      using es True e(3) by (simp_all add: path_Joins_def)
    moreover have "locate cwd (path_Clean e) = from_root cwd @ [e]" using head(1) by (simp only: locate_Clean)
    ultimately show ?thesis using es True by simp
  next
    case False
    then show ?thesis
      using locate_Dir_Joins [OF e(3), of fs "butlast fs" "last fs" cwd] e(2) more [OF e(2)] head es by simp
  qed
qed

lemma locate_absolute:
  assumes "list_all name_ok es" and "HasPrefix cwd ''/''"
  shows "locate cwd (path_Joins (cwd # es)) = from_root cwd @ es"
proof -
  have "elems_of es = es" using assms(1) by (induction es) (simp_all add: name_ok_def Split_no_sep)
  moreover have "locate cwd cwd = from_root cwd" using assms(2) by (simp only: locate_def if_True)
  moreover have "cwd \<noteq> []" using assms(2) by auto
  ultimately show ?thesis using locate_below [of cwd es cwd] assms(1) by simp
qed

text \<open>Every file that is generated lies in one of these places.\<close>

definition in_place :: "place list \<Rightarrow> string \<Rightarrow> bool" where
  "in_place cs path \<longleftrightarrow> (\<exists>c\<in>set cs. \<exists>rest. path = path_Joins (c @ rest) \<and> list_all name_ok (c @ rest) \<and> c \<noteq> [])"

lemma in_place_intros:
  "c \<in> set cs \<Longrightarrow> list_all name_ok (c @ rest) \<Longrightarrow> c \<noteq> [] \<Longrightarrow> in_place cs (path_Joins (c @ rest))"
  unfolding in_place_def by blast

lemma domain_name_ok:
  assumes "domain_name_error U name = None"
  shows "name_ok (ToSnakeCase U name)"
proof -
  have n: "name_chars CHR ''_'' (ToSnakeCase U name)"
    using assms by (simp add: domain_name_error_def domainNamePattern_def name_pattern_iff split: if_splits)
  have no: "\<not> lower CHR ''/''" "\<not> digit CHR ''/''" "\<not> lower CHR ''.''" by (simp_all add: lower_def digit_def)
  then have "CHR ''/'' \<notin> set (ToSnakeCase U name)" using name_chars_all [OF n, of "CHR ''/''"] by auto
  moreover have "ToSnakeCase U name \<noteq> []" "lower (hd (ToSnakeCase U name))" using n by (simp_all add: name_chars_def)
  ultimately show ?thesis using no(3) by (auto simp: name_ok_def)
qed

lemma file_name_ok:
  assumes "name_ok s" and "CHR ''/'' \<notin> set x" and "2 < length (s @ x)"
  shows "name_ok (s @ x)"
proof -
  have "s @ x \<noteq> ''.''" "s @ x \<noteq> ''..''" using assms(3) by (auto dest: arg_cong [of _ _ length])
  then show ?thesis using assms(1,2) by (auto simp: name_ok_def)
qed

lemma ToPlural_slashless: "CHR ''/'' \<notin> set s \<Longrightarrow> CHR ''/'' \<notin> set (ToPlural U s)"
  by (auto simp: ToPlural_def Let_def dest: in_set_takeD)

lemma migration_name_ok: "name_ok s \<Longrightarrow> list_all name_ok (migration_place U s now)"
proof -
  assume s: "name_ok s"
  have "CHR ''/'' \<notin> set (padded n i)" for n i
    using number_bytes(1) [of n i] by (auto simp: list_all_iff number_byte_def digit_def)
  then have slash: "CHR ''/'' \<notin> set (Format_goose now)" by (auto simp: Format_goose_def split: prod.splits)
  have "CHR ''/'' \<notin> set (ToPlural U s)" using s by (intro ToPlural_slashless) (simp add: name_ok_def)
  moreover have "x @ ''_create_'' @ y \<noteq> ''.''" "x @ ''_create_'' @ y \<noteq> ''..''" for x y
    by (auto dest: arg_cong [of _ _ length])
  ultimately show ?thesis using slash by (auto simp: migration_place_def name_ok_def)
qed

definition all_places :: "unicode_tables \<Rightarrow> string \<Rightarrow> time \<Rightarrow> place list" where
  "all_places U s now = migration_place U s now # domain_places s"

lemma in_domain_places:
  assumes "name_ok s" and "list_all name_ok rest"
  shows "in_place (all_places U s now) (path_Joins (''internal'' # ''domain'' # s # rest))"
    "in_place (all_places U s now) (path_Joins (''internal'' # ''usecases'' # s # rest))"
    "in_place (all_places U s now) (path_Joins [''internal'', ''infrastructure'', ''db'', ''postgres'', ''repository'', s @ ''.go''])"
    "in_place (all_places U s now) (path_Joins [''internal'', ''infrastructure'', ''db'', ''postgres'', ''repository'', s @ ''_test.go''])"
    "in_place (all_places U s now) (path_Joins [''internal'', ''infrastructure'', ''web'', ''handler'', s @ ''.go''])"
    "in_place (all_places U s now) (path_Joins [''internal'', ''infrastructure'', ''web'', ''router'', s @ ''.go''])"
    "in_place (all_places U s now) (path_Joins (migration_place U s now))"
proof -
  have names: "\<forall>c\<in>set (all_places U s now). list_all name_ok c \<and> c \<noteq> []"
    using assms(1) migration_name_ok [OF assms(1), of U now] file_name_ok [OF assms(1), of "''.go''"] file_name_ok [OF assms(1), of "''_test.go''"]
    by (simp add: all_places_def domain_places_def migration_place_def) (simp add: name_ok_def)
  have "in_place (all_places U s now) (path_Joins (c @ r))" if "c \<in> set (all_places U s now)" "list_all name_ok r" for c r
    using names that by (intro in_place_intros) auto
  note this [of _ "[]", simplified] this [of _ rest]
  from this(1) [of "domain_places s ! 2"] this(1) [of "domain_places s ! 3"] this(1) [of "domain_places s ! 4"]
    this(1) [of "domain_places s ! 5"] this(1) [of "migration_place U s now"] this(2) [of "domain_places s ! 0"]
    this(2) [of "domain_places s ! 1"] assms(2)
  show "in_place (all_places U s now) (path_Joins (''internal'' # ''domain'' # s # rest))"
    "in_place (all_places U s now) (path_Joins (''internal'' # ''usecases'' # s # rest))"
    "in_place (all_places U s now) (path_Joins [''internal'', ''infrastructure'', ''db'', ''postgres'', ''repository'', s @ ''.go''])"
    "in_place (all_places U s now) (path_Joins [''internal'', ''infrastructure'', ''db'', ''postgres'', ''repository'', s @ ''_test.go''])"
    "in_place (all_places U s now) (path_Joins [''internal'', ''infrastructure'', ''web'', ''handler'', s @ ''.go''])"
    "in_place (all_places U s now) (path_Joins [''internal'', ''infrastructure'', ''web'', ''router'', s @ ''.go''])"
    "in_place (all_places U s now) (path_Joins (migration_place U s now))"
    by (simp_all add: all_places_def domain_places_def)
qed

lemma mappings_in_places:
  assumes "name_ok s"
  shows "\<forall>e\<in>set (buildTemplateMappings U s (Format_goose now)). in_place (all_places U s now) (snd e)"
proof -
  have known: "list_all name_ok [f]" if "f \<in> {''entity.go'', ''entity_test.go'', ''errors.go'', ''filter.go'', ''filter_test.go'',
      ''create.go'', ''get.go'', ''list.go'', ''update.go'', ''delete.go'', ''mocks_test.go'', ''create_test.go'',
      ''get_test.go'', ''update_test.go'', ''delete_test.go'', ''list_test.go''}" for f
    using that by (auto simp: name_ok_def)
  have interfaces: "list_all name_ok [''interfaces'', ''repository.go'']" by (simp add: name_ok_def)
  have dto: "list_all name_ok [''dto'', f]" if "f \<in> {''create.go'', ''get.go'', ''list.go'', ''update.go'', ''delete.go''}" for f
    using that by (auto simp: name_ok_def)
  note ps = in_domain_places [OF assms, of _ U now]
  show ?thesis
    unfolding buildTemplateMappings_def
    using ps(1) [OF known] ps(2) [OF known] ps(2) [OF interfaces] ps(2) [OF dto] ps(3-7) [of "[]"]
    by (simp add: migration_place_def)
qed

section \<open>Adding\<close>

text \<open>The directories in which the places of a domain lie.\<close>

definition project_layout :: "(place \<Rightarrow> node option) \<Rightarrow> string \<Rightarrow> place list \<Rightarrow> bool" where
  "project_layout N cwd cs \<longleftrightarrow> list_all (\<lambda>c. N (from_root cwd @ butlast c) = Some Dir) cs"

definition lies_in :: "string \<Rightarrow> place list \<Rightarrow> place \<Rightarrow> bool" where
  "lies_in cwd cs p \<longleftrightarrow> list_ex (\<lambda>c. prefix (from_root cwd @ c) p) cs"

lemma keeps_in_place:
  assumes "in_place cs path" and "tree_ok t0" and "project_layout (node_at t0) cwd cs"
  shows "keeps (fixed_but (lies_in cwd cs) (node_at t0) cwd) (fs_MkdirAll (path_Dir path))"
    "keeps (fixed_but (lies_in cwd cs) (node_at t0) cwd) (fs_WriteFile path c)"
proof -
  from assms(1) obtain d rest where d: "d \<in> set cs" "path = path_Joins (d @ rest)" "list_all name_ok (d @ rest)" "d \<noteq> []"
    unfolding in_place_def by blast
  have at: "locate cwd path = from_root cwd @ d @ rest" "locate cwd (path_Dir path) = from_root cwd @ butlast (d @ rest)"
    using locate_relative [OF d(3), of cwd] d(2,4) by simp_all
  show "keeps (fixed_but (lies_in cwd cs) (node_at t0) cwd) (fs_WriteFile path c)"
    using at(1) d(1) by (intro keeps_but_WriteFile) (auto simp: lies_in_def list_ex_iff intro!: bexI [of _ d])
  have up: "node_at t0 (from_root cwd @ butlast d) = Some Dir"
    using assms(3) d(1) by (auto simp: project_layout_def list_all_iff)
  have "lies_in cwd cs q \<or> node_at t0 q = Some Dir" if "prefix q (from_root cwd @ d @ rest)" for q
  proof (cases "prefix (from_root cwd @ d) q")
    case True
    then show ?thesis using d(1) by (auto simp: lies_in_def list_ex_iff)
  next
    case False
    then have "prefix q (from_root cwd @ d)" "q \<noteq> from_root cwd @ d"
      using that by (metis append_assoc prefix_same_cases prefixI, auto)
    then have "prefix q (from_root cwd @ butlast d)" using d(4)
      by (metis append_butlast_last_id append_assoc prefix_snoc)
    then obtain k where "q = take k (from_root cwd @ butlast d)" by (metis prefix_def append_eq_conv_conj)
    then show ?thesis using tree_ok_above [OF assms(2) up] by simp
  qed
  moreover have "prefix (from_root cwd @ butlast (d @ rest)) (from_root cwd @ d @ rest)" by (simp add: prefixeq_butlast)
  ultimately show "keeps (fixed_but (lies_in cwd cs) (node_at t0) cwd) (fs_MkdirAll (path_Dir path))"
    using at(2) by (intro keeps_but_MkdirAll) (metis take_is_prefix prefix_order.trans)
qed

lemma keeps_render_each:
  assumes "tree_ok t0" and "project_layout (node_at t0) cwd cs" and "\<forall>e\<in>set xs. in_place cs (snd e)"
  shows "keeps (fixed_but (lies_in cwd cs) (node_at t0) cwd) (render_each what sc data xs)"
  using assms(3)
proof (induction xs)
  case (Cons m xs)
  obtain tn out where m: "m = (tn, out)" by (cases m)
  then have "in_place cs out" using Cons.prems by simp
  note place = keeps_in_place [OF this assms(1,2)]
  show ?case unfolding m render_each.simps
    by (intro keep_intros place) (use Cons in auto)
qed (simp add: keep_intros)

lemma keeps_add_domain:
  assumes "domain_name_error U name = None" and "tree_ok t0" and "\<And>xs. set (order xs) \<subseteq> set xs"
    and "project_layout (node_at t0) cwd (all_places U (ToSnakeCase U name) now)"
  shows "keeps (fixed_but (lies_in cwd (all_places U (ToSnakeCase U name) now)) (node_at t0) cwd)
    (runAddDomain U sc order now name)"
proof -
  let ?xs = "order (buildTemplateMappings U (ToSnakeCase U name) (Format_goose now))"
  have "\<forall>e\<in>set ?xs. in_place (all_places U (ToSnakeCase U name) now) (snd e)"
    using mappings_in_places [OF domain_name_ok [OF assms(1)]] assms(3) by blast
  note render = keeps_render_each [OF assms(2,4) this]
  show ?thesis
    unfolding runAddDomain_def in_project_def detectModulePath_def Let_def assms(1) option.case
    by (intro keep_intros render)
qed

section \<open>Removing\<close>

text \<open>Without faults.\<close>

lemma run_Stat_fine:
  "t_faults t = [] \<Longrightarrow> run (fs_Stat p) t = (case node_at t (place_of t p) of Some n \<Rightarrow> Inr (n = Dir) | None \<Rightarrow> Inl (lookup_error t ''stat'' p), t)"
  by (simp add: fs_Stat_def fs_call_def)

lemma run_existing:
  assumes "t_faults t = []"
  shows "run (existing_of ps) t = (filter (\<lambda>p. node_at t (place_of t p) \<noteq> None) ps, t)"
  by (induction ps) (auto simp: run_pbind run_Stat_fine [OF assms] split: option.split)

lemma run_RemoveAll_fine:
  assumes "t_faults t = []" and "node_at t (place_of t f) \<noteq> None"
  shows "run (fs_RemoveAll f) t = (None, del_nodes (prefix (place_of t f)) t)"
  using assms by (auto simp: fs_RemoveAll_def fs_call_def Let_def split: option.split)

lemma run_remove_files:
  assumes "t_faults t = []" and "\<forall>f\<in>set fs. node_at t (place_of t f) \<noteq> None"
    and "sorted_wrt (\<lambda>f g. \<not> prefix (place_of t f) (place_of t g)) fs"
  shows "fst (run (remove_domain_files fs) t) = None
    \<and> node_at (snd (run (remove_domain_files fs) t)) p
      = (if \<exists>f\<in>set fs. prefix (place_of t f) p then None else node_at t p)"
  using assms
proof (induction fs arbitrary: t)
  case (Cons f fs)
  let ?u = "del_nodes (prefix (place_of t f)) t"
  have place: "place_of ?u g = place_of t g" for g by (simp add: place_of_def)
  have "run (fs_RemoveAll f) t = (None, ?u)" using Cons.prems by (intro run_RemoveAll_fine) simp_all
  then have "run (remove_domain_files (f # fs)) t = run (remove_domain_files fs) ?u" by (simp add: run_pbind)
  moreover have "fst (run (remove_domain_files fs) ?u) = None \<and> node_at (snd (run (remove_domain_files fs) ?u)) p
      = (if \<exists>f\<in>set fs. prefix (place_of ?u f) p then None else node_at ?u p)"
    by (rule Cons.IH) (use Cons.prems place in auto)
  ultimately show ?case by (simp add: place)
qed simp

lemma candidates: "domain_candidates dir s = map (\<lambda>c. path_Joins (dir # c)) (domain_places s)"
  by (simp add: domain_candidates_def domain_places_def)

lemma candidate_places:
  assumes "name_ok s" and "HasPrefix (t_cwd t) ''/''"
  shows "map (place_of t) (domain_candidates (t_cwd t) s) = map (\<lambda>c. from_root (t_cwd t) @ c) (domain_places s)"
proof -
  have "\<forall>c\<in>set (domain_places s). list_all name_ok c"
    using assms(1) file_name_ok [OF assms(1), of "''.go''"] file_name_ok [OF assms(1), of "''_test.go''"]
    by (simp add: domain_places_def) (simp add: name_ok_def)
  then show ?thesis by (auto simp: candidates place_of_def locate_absolute [OF _ assms(2)])
qed

lemma candidates_apart: "sorted_wrt (\<lambda>a b. \<not> prefix (r @ a) (r @ b)) (domain_places s)"
  by (simp add: domain_places_def)


text \<open>A project, and a set of templates that breaks off after the first file.\<close>

definition sample_project :: tree where
  "sample_project =
     \<lparr>t_nodes =
        [([], Dir), ([''p''], Dir), ([''p'', ''go.mod''], File (''module m'' @ eol)), ([''p'', ''internal''], Dir),
         ([''p'', ''internal'', ''domain''], Dir), ([''p'', ''internal'', ''usecases''], Dir),
         ([''p'', ''internal'', ''infrastructure''], Dir), ([''p'', ''internal'', ''infrastructure'', ''db''], Dir),
         ([''p'', ''internal'', ''infrastructure'', ''db'', ''postgres''], Dir),
         ([''p'', ''internal'', ''infrastructure'', ''db'', ''postgres'', ''repository''], Dir),
         ([''p'', ''internal'', ''infrastructure'', ''db'', ''postgres'', ''migration''], Dir),
         ([''p'', ''internal'', ''infrastructure'', ''web''], Dir),
         ([''p'', ''internal'', ''infrastructure'', ''web'', ''handler''], Dir),
         ([''p'', ''internal'', ''infrastructure'', ''web'', ''router''], Dir)],
      t_cwd = ''/p'', t_stdin = [], t_faults = []\<rparr>"

definition ascii_tables :: unicode_tables where
  "ascii_tables = \<lparr>ut_lower = id, ut_upper = id, ut_is_lower = (\<lambda>r. False), ut_is_upper = (\<lambda>r. False)\<rparr>"

definition one_template :: scaffolder where
  "one_template =
     \<lparr>sc_embedded = (\<lambda>n. if n = ''entity.go.tmpl'' then Inr ''package order'' else Inl MaxBytesError),
      sc_engine = \<lparr>e_parse = (\<lambda>x. None), e_execute = (\<lambda>x d. (x, None))\<rparr>\<rparr>"

lemma sample_name: "ToSnakeCase ascii_tables ''order'' = ''order''" "domain_name_error ascii_tables ''order'' = None"
proof -
  show snake: "ToSnakeCase ascii_tables ''order'' = ''order''"
    using lowered_words_Join [of "[''order'']" "''_''" ascii_tables] letters_word_part [of "''order''"]
    by (simp add: ToSnakeCase_def letters_word_def lower_def)
  then show "domain_name_error ascii_tables ''order'' = None"
    by (simp add: domain_name_error_def domainNamePattern_def name_pattern_iff name_chars_def lower_def)
qed

lemma sample_added:
  "let t1 = snd (run (runAddDomain ascii_tables one_template id 0 ''order'') sample_project) in
   node_at t1 [''p'', ''internal'', ''domain'', ''order''] = Some Dir \<and> t_faults t1 = []"
proof -
  have read: "run detectModulePath sample_project = (Inr ''m'', sample_project)" by code_simp
  have stat: "run (fs_Stat (path_Joins [''internal'', ''domain'', ''order''])) sample_project
      = (Inl (Missing (path_error ''stat'' ''internal/domain/order'' ''no such file or directory'')), sample_project)"
    by code_simp
  have "let t1 = snd (run (render_each what one_template data (buildTemplateMappings ascii_tables ''order'' (Format_goose 0)))
      sample_project) in node_at t1 [''p'', ''internal'', ''domain'', ''order''] = Some Dir \<and> t_faults t1 = []" for what data
    by code_simp
  then show ?thesis
    by (simp only: runAddDomain_def in_project_def run_pbind read stat sample_name fst_conv snd_conv sum.case option.case Let_def id_apply)
qed


end
