(* ===== verification/MiningProofs.thy ===== *)
theory MiningProofs
  imports Mining
begin

text \<open>
  What is mined: exactly the frequent n-grams, each once, with its occurrences, its sources and their times, and every
  candidate is valid.
\<close>

section \<open>One n-gram after another\<close>

lemma joinNGram_Join: "joinNGram ts = Join ts patternSep"
proof -
  have append: "fold (\<lambda>t buf. buf @ patternSep @ t) us b = b @ concat (map (\<lambda>u. patternSep @ u) us)" for us b
    by (induction us arbitrary: b) simp_all
  have "Join (t # us) patternSep = t @ concat (map (\<lambda>u. patternSep @ u) us)" for t us
    by (induction us arbitrary: t) simp_all
  with append show ?thesis by (simp add: joinNGram_def split: list.split)
qed

text \<open>The n-grams of a source, and all of them with their source in the order they are counted.\<close>

definition ngrams_of :: "sourceTokens \<Rightarrow> string list" where
  "ngrams_of src = concat (map (\<lambda>k. windows k (st_Tokens src)) extractNGramSizes)"

definition mined_events :: "sourceTokens list \<Rightarrow> (sourceTokens \<times> string) list" where
  "mined_events sources =
     concat (map (\<lambda>k. concat (map (\<lambda>src. map (Pair src) (windows k (st_Tokens src))) sources)) extractNGramSizes)"

lemma note_source_fold:
  "note_source k src accs = fold (\<lambda>(src, sig). note_ngram src sig) (map (Pair src) (windows k (st_Tokens src))) accs"
proof -
  have "\<not> length (st_Tokens src) < k \<Longrightarrow> Suc (length (st_Tokens src) - k) = Suc (length (st_Tokens src)) - k" by simp
  then show ?thesis
    by (auto simp: note_source_def Let_def windows_def joinNGram_Join fold_map comp_def)
qed

lemma mine_accs_events: "mine_accs sources = fold (\<lambda>(src, sig). note_ngram src sig) (mined_events sources) []"
proof -
  have "fold (note_source k) ss accs =
      fold (\<lambda>(src, sig). note_ngram src sig) (concat (map (\<lambda>src. map (Pair src) (windows k (st_Tokens src))) ss)) accs" for k ss accs
    by (induction ss arbitrary: accs) (simp_all add: note_source_fold)
  then have "fold (\<lambda>k. fold (note_source k) sources) ks accs =
      fold (\<lambda>(src, sig). note_ngram src sig)
        (concat (map (\<lambda>k. concat (map (\<lambda>src. map (Pair src) (windows k (st_Tokens src))) sources)) ks)) accs" for ks accs
    by (induction ks arbitrary: accs) simp_all
  then show ?thesis by (simp add: mine_accs_def mined_events_def)
qed

definition noted_by :: "(sourceTokens \<times> string) list \<Rightarrow> string \<Rightarrow> sourceTokens list" where
  "noted_by events sig = map fst (filter (\<lambda>e. snd e = sig) events)"

lemma note_ngram_map:
  "map_of (note_ngram src sig accs) s =
     (if s = sig then Some (seen_in src (case map_of accs sig of None \<Rightarrow> new_acc | Some a \<Rightarrow> a)) else map_of accs s)"
  by (induction src sig accs rule: note_ngram.induct) auto

lemma note_ngram_keys: "fst ` set (note_ngram src sig accs) = insert sig (fst ` set accs)"
  by (induction src sig accs rule: note_ngram.induct) auto

lemma note_ngram_distinct: "distinct (map fst accs) \<Longrightarrow> distinct (map fst (note_ngram src sig accs))"
  by (induction src sig accs rule: note_ngram.induct) (auto simp: note_ngram_keys simp flip: image_set)

lemma noted_accs:
  "distinct (map fst (fold (\<lambda>(src, sig). note_ngram src sig) events []))
   \<and> map_of (fold (\<lambda>(src, sig). note_ngram src sig) events []) s =
      (if noted_by events s = [] then None else Some (fold seen_in (noted_by events s) new_acc))"
proof (induction events rule: rev_induct)
  case (snoc e es)
  then show ?case
    by (cases e) (auto simp: noted_by_def note_ngram_map note_ngram_distinct)
qed (simp add: noted_by_def)

text \<open>What is accumulated over the sources of an n-gram, for sources after the zero time.\<close>

definition dated :: "sourceTokens \<Rightarrow> bool" where
  "dated src \<longleftrightarrow> zero_time < st_First src \<and> st_First src \<le> st_Last src"

lemma seen_in_counts:
  "na_count (seen_in s a) = na_count a + 1" "na_contexts (seen_in s a) = List.insert (st_Source s) (na_contexts a)"
  by (simp_all add: seen_in_def)

lemma seen_in_all:
  assumes "ss \<noteq> []" and "\<forall>s\<in>set ss. dated s"
  shows "na_count (fold seen_in ss new_acc) = int (length ss)
    \<and> distinct (na_contexts (fold seen_in ss new_acc))
    \<and> set (na_contexts (fold seen_in ss new_acc)) = st_Source ` set ss
    \<and> na_first (fold seen_in ss new_acc) = Min (st_First ` set ss)
    \<and> na_last (fold seen_in ss new_acc) = Max (st_Last ` set ss)"
  using assms
proof (induction ss rule: rev_induct)
  case (snoc s ss)
  show ?case
  proof (cases "ss = []")
    case True
    then show ?thesis using snoc.prems by (auto simp: seen_in_def new_acc_def dated_def)
  next
    case False
    then have IH: "na_first (fold seen_in ss new_acc) = Min (st_First ` set ss)" "na_last (fold seen_in ss new_acc) = Max (st_Last ` set ss)"
      using snoc by auto
    have "Min (st_First ` set ss) \<in> st_First ` set ss" using False by (intro Min_in) auto
    then have "na_first (fold seen_in ss new_acc) \<noteq> zero_time" using snoc.prems IH(1) by (auto simp: dated_def)
    then have "na_first (seen_in s (fold seen_in ss new_acc)) = min (st_First s) (na_first (fold seen_in ss new_acc))"
      and "na_last (seen_in s (fold seen_in ss new_acc)) = max (st_Last s) (na_last (fold seen_in ss new_acc))"
      by (auto simp: seen_in_def min_def max_def)
    then have "na_first (fold seen_in (ss @ [s]) new_acc) = Min (st_First ` set (ss @ [s]))"
      and "na_last (fold seen_in (ss @ [s]) new_acc) = Max (st_Last ` set (ss @ [s]))"
      using False by (simp_all add: IH)
    then show ?thesis using snoc False by (simp add: seen_in_counts)
  qed
qed simp

section \<open>Scores\<close>

lemma f64_ratio_value:
  assumes "0 < n" and "n \<le> d"
  shows "0 \<le> f64_value (f64_ratio n d) \<and> f64_value (f64_ratio n d) \<le> 1"
proof -
  have d: "0 < d" using assms by simp
  have "bitlen n \<le> bitlen d" using assms floorlog_mono [of "nat n" "nat d" 2] by (simp add: bitlen_def nat_mono)
  then have p: "0 \<le> 52 - ratio_log n d" by (simp add: ratio_log_def Let_def)
  define q where "q = nat (52 - ratio_log n d)"
  have f: "f64_ratio n d = \<lparr>f_mant = round_half_even (n * 2 ^ q) d, f_exp = - int q\<rparr>"
    using p by (simp add: f64_ratio_def Let_def q_def)
  have "round_half_even (n * 2 ^ q) d \<le> 2 ^ q"
    using assms d by (intro round_half_even_le) (simp_all add: mult_right_mono)
  moreover have "0 \<le> round_half_even (n * 2 ^ q) d"
    using assms d by (auto simp: round_half_even_def Let_def pos_imp_zdiv_nonneg_iff)
  ultimately have "(of_int (round_half_even (n * 2 ^ q) d) :: rat) \<le> of_int (2 ^ q)"
    "(0 :: rat) \<le> of_int (round_half_even (n * 2 ^ q) d)"
    by (simp_all only: of_int_le_iff of_int_0_le_iff)
  then show ?thesis unfolding f by (cases "q = 0") (auto simp: f64_value_def)
qed

lemma scorePattern_range:
  assumes "m \<le> 2 ^ 46"
  shows "0 \<le> f64_value (scorePattern n m) \<and> f64_value (scorePattern n m) \<le> 1"
proof -
  consider "m \<le> 0 \<or> n \<le> 0" | "0 < m" "0 < n" "m \<le> n" | "0 < n" "n < m" by linarith
  then show ?thesis
  proof cases
    case 1
    have "f_mant (f64_of_int 0) = 0" by (simp add: f64_of_int_def f64_ratio_def Let_def round_half_even_def)
    then show ?thesis using 1 by (simp add: scorePattern_def f64_value_def)
  next
    case 2
    then show ?thesis using f64_ratio_value [of 1 1] by (simp add: scorePattern_def f64_of_int_def)
  next
    case 3
    obtain p where p: "f64_of_int n = \<lparr>f_mant = n * 2 ^ p, f_exp = - int p\<rparr>" using f64_of_int_exact [of n] 3 assms by auto
    obtain q where q: "f64_of_int m = \<lparr>f_mant = m * 2 ^ q, f_exp = - int q\<rparr>" using f64_of_int_exact [of m] 3 assms by auto
    have le: "n * 2 ^ k \<le> m * 2 ^ k" for k :: nat using 3 by simp
    have split: "x * 2 ^ i * 2 ^ (j - i) = x * 2 ^ j" if "i \<le> j" for x :: int and i j :: nat
      using that by (simp add: mult.assoc flip: power_add)
    have "\<exists>a b. f64_div (f64_of_int n) (f64_of_int m) = f64_ratio a b \<and> 0 < a \<and> a \<le> b"
    proof (cases "p \<le> q")
      case True
      then have "f64_div (f64_of_int n) (f64_of_int m) = f64_ratio (n * 2 ^ q) (m * 2 ^ q)"
        by (simp add: p q f64_div_def Let_def nat_diff_distrib split)
      then show ?thesis using le [of q] 3 by (intro exI [of _ "n * 2 ^ q"] exI [of _ "m * 2 ^ q"]) simp
    next
      case False
      then have "f64_div (f64_of_int n) (f64_of_int m) = f64_ratio (n * 2 ^ p) (m * 2 ^ p)"
        by (simp add: p q f64_div_def Let_def nat_diff_distrib split)
      then show ?thesis using le [of p] 3 by (intro exI [of _ "n * 2 ^ p"] exI [of _ "m * 2 ^ p"]) simp
    qed
    then show ?thesis using f64_ratio_value 3 by (auto simp: scorePattern_def)
  qed
qed

section \<open>One kind\<close>

definition frequency :: "sourceTokens list \<Rightarrow> string \<Rightarrow> nat" where
  "frequency sources sig = sum_list (map (\<lambda>src. count_list (ngrams_of src) sig) sources)"

definition hits :: "sourceTokens list \<Rightarrow> string \<Rightarrow> sourceTokens set" where
  "hits sources sig = {src \<in> set sources. sig \<in> set (ngrams_of src)}"

definition most :: "sourceTokens list \<Rightarrow> nat" where
  "most sources = Max (insert 0 (frequency sources ` (\<Union>src\<in>set sources. set (ngrams_of src))))"

text \<open>What a candidate says of its signature.\<close>

definition mined :: "patternKind \<Rightarrow> sourceTokens list \<Rightarrow> int \<Rightarrow> patternCandidate \<Rightarrow> bool" where
  "mined kind sources minFreq c \<longleftrightarrow>
     pc_Kind c = kind
     \<and> minFreq \<le> int (frequency sources (pc_Signature c))
     \<and> pc_Frequency c = int (frequency sources (pc_Signature c))
     \<and> (\<exists>ctx. pc_Contexts c = Some ctx \<and> sorted_wrt (\<lambda>s t. bytes s < bytes t) ctx \<and> set ctx = st_Source ` hits sources (pc_Signature c))
     \<and> pc_Score c = scorePattern (int (frequency sources (pc_Signature c))) (int (most sources))
     \<and> pc_FirstSeenAt c = Min (st_First ` hits sources (pc_Signature c))
     \<and> pc_LastSeenAt c = Max (st_Last ` hits sources (pc_Signature c))"

lemma noted_events:
  "length (noted_by (mined_events sources) sig) = frequency sources sig"
  "set (noted_by (mined_events sources) sig) = hits sources sig"
proof -
  have one: "noted_by (map (Pair src) ws) sig = replicate (count_list ws sig) src" for src ws
    by (induction ws) (auto simp: noted_by_def)
  have app: "noted_by (xs @ ys) sig = noted_by xs sig @ noted_by ys sig" for xs ys by (simp add: noted_by_def)
  have all: "length (noted_by (concat (map (\<lambda>src. map (Pair src) (windows k (st_Tokens src))) ss)) sig) =
      sum_list (map (\<lambda>src. count_list (windows k (st_Tokens src)) sig) ss)" for k ss
    by (induction ss) (simp_all add: one app, simp add: noted_by_def)
  show "length (noted_by (mined_events sources) sig) = frequency sources sig"
    by (simp add: mined_events_def extractNGramSizes_def app all frequency_def ngrams_of_def sum_list_addf)
  show "set (noted_by (mined_events sources) sig) = hits sources sig"
  proof -
    have "set (noted_by events sig) = {src. (src, sig) \<in> set events}" for events by (force simp: noted_by_def)
    then show ?thesis by (auto simp: mined_events_def hits_def ngrams_of_def)
  qed
qed

lemma hits_frequency: "hits sources sig = {} \<longleftrightarrow> frequency sources sig = 0"
  using noted_events [of sources sig] by (metis length_0_conv set_empty)

lemma mine_accs_map:
  "distinct (map fst (mine_accs sources))"
  "map_of (mine_accs sources) sig =
     (if frequency sources sig = 0 then None else Some (fold seen_in (noted_by (mined_events sources) sig) new_acc))"
proof -
  have "noted_by (mined_events sources) sig = [] \<longleftrightarrow> frequency sources sig = 0"
    by (metis noted_events(1) length_0_conv)
  then show "distinct (map fst (mine_accs sources))"
    "map_of (mine_accs sources) sig =
       (if frequency sources sig = 0 then None else Some (fold seen_in (noted_by (mined_events sources) sig) new_acc))"
    using noted_accs [of "mined_events sources" sig] by (simp_all add: mine_accs_events)
qed

lemma mine_accs_exact:
  assumes "\<forall>s\<in>set sources. dated s" and "(sig, a) \<in> set (mine_accs sources)"
  shows "0 < frequency sources sig" "na_count a = int (frequency sources sig)" "distinct (na_contexts a)"
    "set (na_contexts a) = st_Source ` hits sources sig"
    "na_first a = Min (st_First ` hits sources sig)" "na_last a = Max (st_Last ` hits sources sig)"
proof -
  have "map_of (mine_accs sources) sig = Some a" using assms(2) mine_accs_map(1) by (simp add: map_of_eq_Some_iff)
  then have a: "a = fold seen_in (noted_by (mined_events sources) sig) new_acc" and n: "frequency sources sig \<noteq> 0"
    by (auto simp: mine_accs_map split: if_splits)
  then show "0 < frequency sources sig" by simp
  have "noted_by (mined_events sources) sig \<noteq> []" using n noted_events(1) [of sources sig] by auto
  moreover have "\<forall>s\<in>set (noted_by (mined_events sources) sig). dated s" using assms(1) by (auto simp: noted_events hits_def)
  ultimately show "na_count a = int (frequency sources sig)" "distinct (na_contexts a)"
    "set (na_contexts a) = st_Source ` hits sources sig"
    "na_first a = Min (st_First ` hits sources sig)" "na_last a = Max (st_Last ` hits sources sig)"
    using seen_in_all [of "noted_by (mined_events sources) sig"] by (simp_all add: a noted_events)
qed

lemma mine_accs_keys: "frequency sources sig = 0 \<or> (\<exists>a. (sig, a) \<in> set (mine_accs sources))"
  using mine_accs_map(2) [of sources sig] map_of_SomeD by (fastforce split: if_splits)

lemma most_frequent:
  assumes "frequency sources sig \<noteq> 0"
  shows "frequency sources sig \<le> most sources"
proof -
  have "hits sources sig \<noteq> {}" using assms by (simp add: hits_frequency)
  then have "sig \<in> (\<Union>src\<in>set sources. set (ngrams_of src))" by (auto simp: hits_def)
  then show ?thesis unfolding most_def by (intro Max_ge) auto
qed

lemma max_count_bounds:
  fixes minFreq :: int
  defines "step \<equiv> \<lambda>(s :: string, a) m. if na_count a \<ge> minFreq \<and> na_count a > m then na_count a else m"
  shows "m \<le> fold step accs m"
    and "(s, a) \<in> set accs \<Longrightarrow> minFreq \<le> na_count a \<Longrightarrow> na_count a \<le> fold step accs m"
    and "fold step accs m = m \<or> (\<exists>s a. (s, a) \<in> set accs \<and> fold step accs m = na_count a)"
proof -
  have up: "x \<le> step e x" for e x by (cases e) (simp add: step_def)
  show grow: "m \<le> fold step accs m" for accs m
    by (induction accs arbitrary: m) (auto intro: order_trans [OF up])
  show "(s, a) \<in> set accs \<Longrightarrow> minFreq \<le> na_count a \<Longrightarrow> na_count a \<le> fold step accs m"
  proof (induction accs arbitrary: m)
    case (Cons e accs)
    have "minFreq \<le> na_count a \<Longrightarrow> na_count a \<le> step (s, a) m" by (simp add: step_def)
    then show ?case using Cons grow [of "step (s, a) m" accs] by auto
  qed simp
  show "fold step accs m = m \<or> (\<exists>s a. (s, a) \<in> set accs \<and> fold step accs m = na_count a)"
  proof (induction accs arbitrary: m)
    case (Cons e accs)
    obtain s a where e: "e = (s, a)" by force
    have "step e m = m \<or> step e m = na_count a" by (simp add: e step_def)
    then show ?case using Cons.IH [of "step e m"] unfolding e by (metis fold_simps(2) list.set_intros(1) list.set_intros(2))
  qed simp
qed

lemma max_count_most:
  assumes dated: "\<forall>s\<in>set sources. dated s" and n: "minFreq \<le> int (frequency sources sig)" "frequency sources sig \<noteq> 0"
  shows "max_count minFreq (mine_accs sources) = int (most sources)"
proof (rule antisym)
  have count: "na_count a = int (frequency sources s)" "frequency sources s \<noteq> 0" if "(s, a) \<in> set (mine_accs sources)" for s a
    using mine_accs_exact [OF dated that] by simp_all
  show "max_count minFreq (mine_accs sources) \<le> int (most sources)"
  proof -
    consider "max_count minFreq (mine_accs sources) = 0"
      | s a where "(s, a) \<in> set (mine_accs sources)" "max_count minFreq (mine_accs sources) = na_count a"
      using max_count_bounds(3) [of minFreq "mine_accs sources" 0] unfolding max_count_def by blast
    then show ?thesis
    proof cases
      case 2
      then show ?thesis using count [OF 2(1)] most_frequent [of sources s] by simp
    qed simp
  qed
  have "most sources \<in> insert 0 (frequency sources ` (\<Union>src\<in>set sources. set (ngrams_of src)))"
    unfolding most_def by (rule Max_in) auto
  moreover have "0 < most sources" using most_frequent [OF n(2)] n(2) by simp
  ultimately obtain s where s: "most sources = frequency sources s" "frequency sources s \<noteq> 0" by auto
  then obtain a where a: "(s, a) \<in> set (mine_accs sources)" using mine_accs_keys [of sources s] by auto
  have "minFreq \<le> na_count a" using most_frequent [OF n(2)] n(1) s(1) count(1) [OF a] by simp
  then show "int (most sources) \<le> max_count minFreq (mine_accs sources)"
    using max_count_bounds(2) [OF a, of minFreq 0] count(1) [OF a] s(1) unfolding max_count_def by simp
qed

lemma sort_Strings_set [simp]: "set (sort_Strings xs) = set xs"
  by (simp add: sort_Strings_def)

lemma candidate_of_mined:
  assumes dated: "\<forall>s\<in>set sources. dated s" and a: "(sig, a) \<in> set (mine_accs sources)" and n: "minFreq \<le> na_count a"
  shows "mined kind sources minFreq (candidate_of kind (max_count minFreq (mine_accs sources)) (sig, a))
    \<and> pc_Signature (candidate_of kind (max_count minFreq (mine_accs sources)) (sig, a)) = sig"
proof -
  note acc = mine_accs_exact [OF dated a]
  have ne: "hits sources sig \<noteq> {}" using acc(1) by (simp add: hits_frequency)
  have fin: "finite (hits sources sig)" by (simp add: hits_def)
  have "Min (st_First ` hits sources sig) \<in> st_First ` hits sources sig" using ne fin by (intro Min_in) auto
  then obtain s where s: "s \<in> hits sources sig" "na_first a = st_First s" using acc(5) by auto
  then have "dated s" using dated by (simp add: hits_def)
  moreover have "st_Last s \<le> na_last a" unfolding acc(6) using s(1) fin by (intro Max_ge) auto
  ultimately have times: "na_first a \<noteq> zero_time" "na_first a \<le> na_last a" using s(2) by (auto simp: dated_def)
  have "max_count minFreq (mine_accs sources) = int (most sources)"
    using dated n acc(1,2) by (intro max_count_most) simp_all
  then show ?thesis
    using times n acc sort_Strings_strict [OF acc(3)] by (simp add: candidate_of_def mined_def)
qed

lemma mined_unique: "mined kind sources minFreq c \<Longrightarrow> mined kind sources minFreq c' \<Longrightarrow> pc_Signature c = pc_Signature c' \<Longrightarrow> c = c'"
proof -
  assume c: "mined kind sources minFreq c" and c': "mined kind sources minFreq c'" and eq: "pc_Signature c = pc_Signature c'"
  obtain ctx where ctx: "pc_Contexts c = Some ctx" "sorted_wrt (\<lambda>s t. bytes s < bytes t) ctx"
    "set ctx = st_Source ` hits sources (pc_Signature c)" using c by (auto simp: mined_def)
  obtain ctx' where ctx': "pc_Contexts c' = Some ctx'" "sorted_wrt (\<lambda>s t. bytes s < bytes t) ctx'"
    "set ctx' = st_Source ` hits sources (pc_Signature c)" using c' eq by (auto simp: mined_def)
  have "map bytes ctx = map bytes ctx'"
    by (rule strict_sorted_equal) (use ctx ctx' in \<open>auto simp: sorted_wrt_map strict_sorted_iff\<close>)
  then have "ctx = ctx'" using inj_bytes by (simp add: inj_map_eq_map)
  then show "c = c'" using c c' eq ctx(1) ctx'(1) by (intro patternCandidate.equality) (simp_all add: mined_def)
qed

lemma mineKind_exact:
  assumes dated: "\<forall>s\<in>set sources. dated s" and pos: "1 \<le> minFreq"
  shows "distinct (map pc_Signature (mineKind kind sources minFreq idx))"
    and "c \<in> set (mineKind kind sources minFreq idx) \<longleftrightarrow> mined kind sources minFreq c"
proof -
  let ?of = "candidate_of kind (max_count minFreq (mine_accs sources))"
  let ?frequent = "filter (\<lambda>(sig, a). \<not> na_count a < minFreq) (mine_accs sources)"
  have empty: "mine_accs [] = []" by (simp add: mine_accs_def extractNGramSizes_def)
  have eq: "mineKind kind sources minFreq idx = map ?of ?frequent"
    by (auto simp: mineKind_def Let_def empty)
  have "map pc_Signature (mineKind kind sources minFreq idx) = map fst ?frequent"
    unfolding eq using candidate_of_mined [OF dated] by auto
  then show "distinct (map pc_Signature (mineKind kind sources minFreq idx))"
    using mine_accs_map(1) [of sources] by (simp add: distinct_map_filter)
  show "c \<in> set (mineKind kind sources minFreq idx) \<longleftrightarrow> mined kind sources minFreq c"
  proof
    assume "c \<in> set (mineKind kind sources minFreq idx)"
    then show "mined kind sources minFreq c" unfolding eq using candidate_of_mined [OF dated] by auto
  next
    assume c: "mined kind sources minFreq c"
    then have "frequency sources (pc_Signature c) \<noteq> 0" using pos by (auto simp: mined_def)
    then obtain a where a: "(pc_Signature c, a) \<in> set (mine_accs sources)" using mine_accs_keys [of sources "pc_Signature c"] by (elim disjE exE) simp_all
    then have "minFreq \<le> na_count a" using mine_accs_exact(2) [OF dated a] c by (simp add: mined_def)
    then have "?of (pc_Signature c, a) = c" "(pc_Signature c, a) \<in> set ?frequent"
      using candidate_of_mined [OF dated a, of minFreq kind] mined_unique [OF _ c] a by auto
    then show "c \<in> set (mineKind kind sources minFreq idx)" unfolding eq by (metis image_eqI set_map)
  qed
qed

section \<open>Sequences of records\<close>

text \<open>What \<open>sort.Slice\<close> promises: every index once, and the keys ascend.\<close>

definition orders_by :: "('k \<Rightarrow> 'l::linorder) \<Rightarrow> ('k list \<Rightarrow> nat list) \<Rightarrow> bool" where
  "orders_by f order \<longleftrightarrow> (\<forall>ks. mset (order ks) = mset [0..<length ks] \<and> sorted (map (\<lambda>i. f (ks ! i)) (order ks)))"

definition orders_ok :: "slice_orders \<Rightarrow> bool" where
  "orders_ok ords \<longleftrightarrow> orders_by id (so_times ords) \<and> orders_by bytes (so_names ords)"

lemma by_order_sorts:
  assumes "orders_by f order"
  shows "mset (by_order order key xs) = mset xs" and "sorted (map (\<lambda>x. f (key x)) (by_order order key xs))"
proof -
  have perm: "mset (order (map key xs)) = mset [0..<length xs]"
    and asc: "sorted (map (\<lambda>i. f (map key xs ! i)) (order (map key xs)))"
    using assms by (auto simp: orders_by_def dest: spec [of _ "map key xs"])
  have "mset (by_order order key xs) = image_mset ((!) xs) (mset [0..<length xs])"
    unfolding by_order_def using perm by (metis mset_map)
  also have "\<dots> = mset xs" by (metis map_nth mset_map)
  finally show "mset (by_order order key xs) = mset xs" .
  have "set (order (map key xs)) = {..<length xs}" using mset_eq_setD [OF perm] by auto
  then have "map (\<lambda>i. f (map key xs ! i)) (order (map key xs)) = map (\<lambda>x. f (key x)) (by_order order key xs)"
    by (auto simp: by_order_def)
  then show "sorted (map (\<lambda>x. f (key x)) (by_order order key xs))" using asc by simp
qed

lemma add_entry_map:
  "map_of (add_entry src e groups) s =
     (if s = src then Some ((case map_of groups src of None \<Rightarrow> [] | Some es \<Rightarrow> es) @ [e]) else map_of groups s)"
  by (induction src e groups rule: add_entry.induct) auto

lemma add_entry_keys: "fst ` set (add_entry src e groups) = insert src (fst ` set groups)"
  by (induction src e groups rule: add_entry.induct) auto

lemma add_entry_distinct: "distinct (map fst groups) \<Longrightarrow> distinct (map fst (add_entry src e groups))"
  by (induction src e groups rule: add_entry.induct) (auto simp: add_entry_keys simp flip: image_set)

lemma group_entries_map:
  "distinct (map fst (group_entries xs))
   \<and> map_of (group_entries xs) s = (let es = map snd (filter (\<lambda>x. fst x = s) xs) in if es = [] then None else Some es)"
proof (induction xs rule: rev_induct)
  case (snoc x xs)
  then show ?case
    by (cases x) (auto simp: group_entries_def Let_def add_entry_map add_entry_distinct)
qed (simp add: group_entries_def)

lemma group_entries_exact:
  assumes "(src, es) \<in> set (group_entries xs)"
  shows "es \<noteq> []" "es = map snd (filter (\<lambda>x. fst x = src) xs)"
proof -
  have "map_of (group_entries xs) src = Some es" using assms group_entries_map by (metis map_of_eq_Some_iff)
  then show "es \<noteq> []" "es = map snd (filter (\<lambda>x. fst x = src) xs)"
    using group_entries_map [of xs src] by (auto simp: Let_def split: if_splits)
qed

lemma sorted_ends: "sorted (map fst es) \<Longrightarrow> es \<noteq> [] \<Longrightarrow> fst (hd es) \<le> fst (last es)" for es :: "(time \<times> 'a) list"
  by (cases es) auto

text \<open>
  The sequence of a session holds its tools in the order of time, and there is one for each session; the sequence of a
  specification holds the files of its tasks.
\<close>

lemma tool_sequences_exact:
  assumes "orders_ok ords" and s: "s \<in> set (buildToolSequences ords recs)"
  defines "own \<equiv> filter (\<lambda>r. tr_Source r = st_Source s \<and> tr_Kind r = ''transcript-tool-use'' \<and> tr_Tokens r \<noteq> []) recs"
  shows "\<exists>rs. mset rs = mset own \<and> rs \<noteq> [] \<and> sorted (map tr_SeenAt rs) \<and> st_Tokens s = map (\<lambda>r. hd (tr_Tokens r)) rs
    \<and> st_First s = tr_SeenAt (hd rs) \<and> st_Last s = tr_SeenAt (last rs)"
proof -
  let ?kept = "filter (\<lambda>r. tr_Kind r = ''transcript-tool-use'' \<and> tr_Tokens r \<noteq> []) recs"
  let ?entry = "\<lambda>r. (tr_SeenAt r, hd (tr_Tokens r))"
  obtain es where es: "(st_Source s, es) \<in> set (group_entries (map (\<lambda>r. (tr_Source r, ?entry r)) ?kept))"
    and seq: "s = tool_sequence ords (st_Source s, es)"
    using s by (auto simp: buildToolSequences_def tool_sequence_def Let_def)
  have own: "own = filter (\<lambda>r. tr_Source r = st_Source s) ?kept" by (auto simp: own_def intro: filter_cong)
  have eq: "es = map ?entry own" "es \<noteq> []"
    using group_entries_exact [OF es] by (simp_all add: own filter_map comp_def)
  define rs where "rs = map ((!) own) (so_times ords (map fst es))"
  have times: "map tr_SeenAt own = map fst es" by (simp add: eq(1))
  then have rs: "rs = by_order (so_times ords) tr_SeenAt own" by (simp add: rs_def by_order_def)
  have "orders_by id (so_times ords)" using assms(1) by (simp add: orders_ok_def)
  note srt = by_order_sorts [OF this, of tr_SeenAt own, folded rs]
  have "set (so_times ords (map fst es)) = {..<length own}"
    using \<open>orders_by id (so_times ords)\<close> by (metis atLeast_upt eq(1) length_map mset_eq_setD orders_by_def)
  then have "by_order (so_times ords) fst es = map ?entry rs"
    by (auto simp: by_order_def rs_def eq(1))
  moreover have ne: "rs \<noteq> []" using srt(1) eq by auto
  ultimately have "st_Tokens s = map (\<lambda>r. hd (tr_Tokens r)) rs" "st_First s = tr_SeenAt (hd rs)" "st_Last s = tr_SeenAt (last rs)"
    by (subst seq, simp add: tool_sequence_def Let_def hd_map last_map comp_def)+
  then show ?thesis using srt ne by (intro exI [of _ rs]) simp
qed

lemma ends_dated:
  assumes "orders_by id order" and "es \<noteq> []" and "\<forall>e\<in>set es. zero_time < fst e"
  defines "es' \<equiv> by_order order fst es"
  shows "zero_time < fst (hd es') \<and> fst (hd es') \<le> fst (last es')"
proof -
  note srt = by_order_sorts [OF assms(1), of fst es, folded es'_def]
  have "es' \<noteq> []" using srt(1) assms(2) by auto
  then have "hd es' \<in> set es" using mset_eq_setD [OF srt(1)] by (metis hd_in_set)
  moreover have "sorted (map fst es')" using srt(2) by simp
  ultimately show ?thesis using assms(3) sorted_ends \<open>es' \<noteq> []\<close> by blast
qed

lemma sequences_dated:
  assumes "orders_ok ords"
  shows "\<forall>r\<in>set transcripts. zero_time < tr_SeenAt r \<Longrightarrow> \<forall>s\<in>set (buildToolSequences ords transcripts). dated s"
    and "\<forall>r\<in>set specs. zero_time < sr_SeenAt r \<Longrightarrow> \<forall>s\<in>set (buildFileSequences ords specs). dated s"
    and "\<forall>r\<in>set commits. zero_time < gr_SeenAt r \<Longrightarrow> \<forall>s\<in>set (buildCommitSequences ords commits). dated s"
proof -
  have order: "orders_by id (so_times ords)" "orders_by bytes (so_names ords)" using assms by (simp_all add: orders_ok_def)
  have ends: "zero_time < fst (hd (by_order (so_times ords) fst es)) \<and>
      fst (hd (by_order (so_times ords) fst es)) \<le> fst (last (by_order (so_times ords) fst es))"
    if "(src, es) \<in> set (group_entries (map (\<lambda>r. (f r, (g r, h r))) rs))" "\<forall>r\<in>set rs. zero_time < g r"
    for src and es :: "(time \<times> 'b) list" and f g h and rs :: "'a list"
    using group_entries_exact [OF that(1)] that(2) by (intro ends_dated order) auto
  show "\<forall>s\<in>set (buildToolSequences ords transcripts). dated s" if "\<forall>r\<in>set transcripts. zero_time < tr_SeenAt r"
    using that by (auto simp: buildToolSequences_def tool_sequence_def Let_def dated_def dest!: ends)
  show "\<forall>s\<in>set (buildFileSequences ords specs). dated s" if "\<forall>r\<in>set specs. zero_time < sr_SeenAt r"
    using that by (auto simp: buildFileSequences_def file_sequence_def Let_def dated_def dest!: ends)
  show "\<forall>s\<in>set (buildCommitSequences ords commits). dated s" if "\<forall>r\<in>set commits. zero_time < gr_SeenAt r"
  proof -
    have "set (by_order (so_names ords) st_Source ss) = set ss" for ss :: "sourceTokens list"
      using by_order_sorts(1) [OF order(2)] by (rule mset_eq_setD)
    then show ?thesis using that by (auto simp: buildCommitSequences_def dated_def)
  qed
qed

section \<open>All kinds\<close>

definition kind_sequences ::
  "slice_orders \<Rightarrow> transcriptRecord list \<Rightarrow> specRecord list \<Rightarrow> gitRecord list \<Rightarrow> (patternKind \<times> sourceTokens list) list" where
  "kind_sequences ords transcripts specs commits =
     [(kindToolSequence, buildToolSequences ords transcripts), (kindFileSequence, buildFileSequences ords specs),
      (kindCommitPattern, buildCommitSequences ords commits)]"

lemma windows_nonempty:
  assumes "sig \<in> set (windows k toks)" and "2 \<le> k"
  shows "sig \<noteq> []"
proof -
  obtain i where i: "sig = Join (take k (drop i toks)) patternSep" "i + k \<le> length toks"
    using assms by (auto simp: windows_def)
  then have "2 \<le> length (take k (drop i toks))" using assms(2) by simp
  then obtain a b rest where "take k (drop i toks) = a # b # rest"
    by (cases "take k (drop i toks)") (auto simp: neq_Nil_conv Suc_le_length_iff numeral_2_eq_2)
  then show ?thesis by (simp add: i patternSep_def)
qed

lemma mined_valid:
  assumes c: "mined kind sources minFreq c" and pos: "1 \<le> minFreq" and kind: "kindValid kind"
    and dated: "\<forall>s\<in>set sources. dated s" and small: "most sources \<le> 2 ^ 46"
  shows "Candidate_Validate isp fmt_v rfc3339 (Some c) = None"
proof -
  let ?h = "hits sources (pc_Signature c)"
  have "frequency sources (pc_Signature c) \<noteq> 0" using c pos by (auto simp: mined_def)
  then have ne: "?h \<noteq> {}" by (simp add: hits_frequency)
  then obtain s where s: "s \<in> ?h" by blast
  then obtain k where "pc_Signature c \<in> set (windows k (st_Tokens s))" "2 \<le> k"
    by (auto simp: hits_def ngrams_of_def extractNGramSizes_def)
  then have sig: "pc_Signature c \<noteq> []" by (rule windows_nonempty)
  have fin: "finite ?h" by (simp add: hits_def)
  have "Min (st_First ` ?h) \<le> st_First s" "st_Last s \<le> Max (st_Last ` ?h)" using s fin by (auto intro: Min_le Max_ge)
  moreover have "st_First s \<le> st_Last s" using s dated by (auto simp: hits_def dated_def)
  ultimately have "Min (st_First ` ?h) \<le> Max (st_Last ` ?h)" by linarith
  moreover have "int (most sources) \<le> 2 ^ 46" using small by (metis of_nat_le_iff of_nat_numeral of_nat_power)
  ultimately show ?thesis
    using c kind sig pos scorePattern_range [of "int (most sources)"]
    by (auto simp: Candidate_Validate_def mined_def not_less)
qed

text \<open>
  C28: The candidates of a run are, in the order of kind and signature and each once, exactly the n-grams of each kind that
  occur often enough in its sequences, with their number, their sources, the first and the last time they were seen and
  their share of the most frequent n-gram; and every one of them is valid.
\<close>

theorem mine_exact:
  assumes orders: "orders_ok ords" and pos: "1 \<le> minFreq"
    and times: "\<forall>r\<in>set transcripts. zero_time < tr_SeenAt r" "\<forall>r\<in>set specs. zero_time < sr_SeenAt r"
      "\<forall>r\<in>set commits. zero_time < gr_SeenAt r"
    and small: "\<forall>(kind, sources)\<in>set (kind_sequences ords transcripts specs commits). most sources \<le> 2 ^ 46"
  shows "sorted_wrt (\<lambda>c c'. candidate_key c < candidate_key c') (mine_all ords minFreq transcripts specs commits)
    \<and> (\<forall>c. c \<in> set (mine_all ords minFreq transcripts specs commits) \<longleftrightarrow>
          (\<exists>(kind, sources)\<in>set (kind_sequences ords transcripts specs commits). mined kind sources minFreq c))
    \<and> (\<forall>c\<in>set (mine_all ords minFreq transcripts specs commits). Candidate_Validate isp fmt_v rfc3339 (Some c) = None)"
proof (intro conjI)
  let ?tool = "mineKind kindToolSequence (buildToolSequences ords transcripts) minFreq"
  let ?files = "mineKind kindFileSequence (buildFileSequences ords specs) minFreq"
  let ?commit = "mineKind kindCommitPattern (buildCommitSequences ords commits) minFreq"
  have dated: "\<forall>s\<in>set (buildToolSequences ords transcripts). dated s" "\<forall>s\<in>set (buildFileSequences ords specs). dated s"
    "\<forall>s\<in>set (buildCommitSequences ords commits). dated s"
    using sequences_dated [OF orders] times by blast+
  note exact = mineKind_exact [OF dated(1) pos] mineKind_exact [OF dated(2) pos] mineKind_exact [OF dated(3) pos]
  have kinds: "distinct [kindToolSequence, kindFileSequence, kindCommitPattern]"
    by (simp add: kindToolSequence_def kindFileSequence_def kindCommitPattern_def)
  obtain idx where all: "mine_all ords minFreq transcripts specs commits = sort_key candidate_key (?tool idx @ ?files idx @ ?commit idx)"
    unfolding mine_all_def Let_def by blast
  have keys: "distinct (map candidate_key (mineKind k sources minFreq idx))"
    if "distinct (map pc_Signature (mineKind k sources minFreq idx))" for k sources
    using that by (simp add: distinct_map inj_on_def candidate_key_def)
  have "distinct (map candidate_key (?tool idx @ ?files idx @ ?commit idx))"
    using kinds by (auto simp: keys exact candidate_key_def mined_def)
  then show "sorted_wrt (\<lambda>c c'. candidate_key c < candidate_key c') (mine_all ords minFreq transcripts specs commits)"
    unfolding all by (rule sort_key_strict)
  show mem: "\<forall>c. c \<in> set (mine_all ords minFreq transcripts specs commits) \<longleftrightarrow>
      (\<exists>(kind, sources)\<in>set (kind_sequences ords transcripts specs commits). mined kind sources minFreq c)"
    by (simp add: all exact kind_sequences_def)
  show "\<forall>c\<in>set (mine_all ords minFreq transcripts specs commits). Candidate_Validate isp fmt_v rfc3339 (Some c) = None"
  proof
    fix c assume "c \<in> set (mine_all ords minFreq transcripts specs commits)"
    then obtain kind sources where c: "(kind, sources) \<in> set (kind_sequences ords transcripts specs commits)" "mined kind sources minFreq c"
      using mem by blast
    then have "kindValid kind" "\<forall>s\<in>set sources. dated s"
      using dated by (auto simp: kind_sequences_def kindValid_def allPatternKinds_def)
    then show "Candidate_Validate isp fmt_v rfc3339 (Some c) = None"
      using c small by (intro mined_valid [OF c(2) pos]) auto
  qed
qed

text \<open>Orders that keep the elements with the same key where they are.\<close>

definition stable_orders :: slice_orders where
  "stable_orders = \<lparr>so_times = \<lambda>ks. sort_key ((!) ks) [0..<length ks], so_names = \<lambda>ks. sort_key (\<lambda>i. bytes (ks ! i)) [0..<length ks]\<rparr>"

lemma stable_orders_ok: "orders_ok stable_orders"
  by (simp add: orders_ok_def orders_by_def stable_orders_def)

definition sample_commit :: "string \<Rightarrow> gitRecord" where
  "sample_commit sha = \<lparr>gr_Source = sha, gr_Kind = ''commit'', gr_Tokens = [''fix'', ''api''], gr_SeenAt = 0, gr_Body = ''fix''\<rparr>"

theorem mine_exact_witness:
  "\<exists>c \<in> set (mine_all stable_orders 2 [] [] [sample_commit ''a'', sample_commit ''b'']).
     pc_Frequency c = 2 \<and> pc_Signature c = ''fix'' @ patternSep @ ''api''
     \<and> Candidate_Validate (\<lambda>_. True) (\<lambda>_. []) (\<lambda>_. []) (Some c) = None"
proof -
  let ?cs = "[sample_commit ''a'', sample_commit ''b'']"
  let ?S = "buildCommitSequences stable_orders ?cs"
  define sig where "sig = ''fix'' @ patternSep @ ''api''"
  let ?c = "\<lparr>pc_Kind = kindCommitPattern, pc_Signature = sig, pc_Frequency = 2, pc_Contexts = Some [''a'', ''b''],
    pc_Score = scorePattern 2 2, pc_FirstSeenAt = 0, pc_LastSeenAt = 0\<rparr>"
  let ?s = "\<lambda>sha. \<lparr>st_Source = sha, st_Tokens = [''fix'', ''api''], st_First = 0, st_Last = 0\<rparr>"
  have S: "?S = [?s ''a'', ?s ''b'']"
    by (simp add: buildCommitSequences_def by_order_def stable_orders_def sample_commit_def bytes_def)
  have grams: "ngrams_of (?s sha) = [sig]" for sha
    by (simp add: ngrams_of_def extractNGramSizes_def windows_def sig_def)
  have freq: "frequency ?S sig = 2" "hits ?S sig = {?s ''a'', ?s ''b''}" "most ?S = 2"
  proof -
    show "hits ?S sig = {?s ''a'', ?s ''b''}" using grams by (auto simp: S hits_def)
  qed (simp_all add: S frequency_def most_def grams)
  have empty: "most (buildToolSequences stable_orders []) = 0" "most (buildFileSequences stable_orders []) = 0"
    by (simp_all add: buildToolSequences_def buildFileSequences_def group_entries_def most_def)
  have zero: "zero_time < 0" by (simp add: zero_time_def instant_def zero_date_def days_from_civil_def Let_def)
  have m: "mined kindCommitPattern ?S 2 ?c" by (simp add: mined_def freq bytes_def)
  have times: "\<forall>r\<in>set ?cs. zero_time < gr_SeenAt r" using zero by (simp add: sample_commit_def)
  have small: "\<forall>(kind, sources)\<in>set (kind_sequences stable_orders [] [] ?cs). most sources \<le> 2 ^ 46"
    by (simp add: kind_sequences_def empty freq)
  note exact = mine_exact [OF stable_orders_ok _ _ _ times small, of 2 "\<lambda>_. True" "\<lambda>_. []" "\<lambda>_. []"]
  have "?c \<in> set (mine_all stable_orders 2 [] [] ?cs)" using exact m by (simp add: kind_sequences_def)
  moreover from this have "Candidate_Validate (\<lambda>_. True) (\<lambda>_. []) (\<lambda>_. []) (Some ?c) = None" using exact by simp
  ultimately show ?thesis by (intro bexI [of _ ?c]) (simp_all add: sig_def)
qed

end
