(* ===== verification/ExtractProofs.thy ===== *)
theory ExtractProofs
  imports Extract MiningProofs StoreProofs
begin

text \<open>
  The file of candidates is replaced as a whole or not at all, whatever calls fail, and the tables of patterns stay well
  formed.
\<close>

section \<open>Faults to come\<close>

definition faults_left :: "disk \<Rightarrow> nat" where
  "faults_left d = length (filter (\<lambda>ft. ft \<noteq> None) (d_faults d))"

lemma faults_left_step: "faults_left d = (if fault_at d 0 = None then 0 else 1) + faults_left (step_over d)"
  by (cases "d_faults d") (simp_all add: faults_left_def fault_at_def step_over_def)

lemma faults_left_file [simp]: "faults_left (set_file p c d) = faults_left d"
  by (simp add: faults_left_def set_file_def)

lemma no_faults_left: "faults_left d = 0 \<Longrightarrow> fault_at d 0 = None" "faults_left d = 0 \<Longrightarrow> faults_left (step_over d) = 0"
  using faults_left_step [of d] by (auto split: if_splits)

text \<open>Two disks with the same files up to one.\<close>

definition only_file :: "string \<Rightarrow> disk \<Rightarrow> disk \<Rightarrow> bool" where
  "only_file t d d' \<longleftrightarrow> (\<forall>q. q \<noteq> t \<longrightarrow> d_files d' q = d_files d q)"

lemma only_file_refl [simp]: "only_file t d d"
  by (simp add: only_file_def)

lemma only_file_trans: "only_file t d d' \<Longrightarrow> only_file t d' d'' \<Longrightarrow> only_file t d d''"
  by (simp add: only_file_def)

lemma only_file_steps [simp]: "only_file t d (step_over d')  = only_file t d d'" "only_file t (step_over d) d' = only_file t d d'"
  "only_file (path_Clean p) d (set_file p c d') = only_file (path_Clean p) d d'"
  "only_file (path_Clean p) (set_file p c d) d' = only_file (path_Clean p) d d'"
  by (auto simp: only_file_def step_over_def set_file_def)

lemma restored: "only_file (path_Clean p) d d' \<Longrightarrow> file_at d p = None \<Longrightarrow> file_at d' p = None \<Longrightarrow> d_files d' = d_files d"
  by (rule ext) (metis only_file_def file_at_def)

section \<open>The temporary file\<close>

lemma remove_temp:
  assumes "file_at d tmp = Some c"
  shows "only_file (path_Clean tmp) d (snd (run (os_Remove tmp) d))"
    and "faults_left d = 0 \<Longrightarrow> file_at (snd (run (os_Remove tmp) d)) tmp = None"
  using assms by (auto simp: os_Remove_def run_faulty_any no_faults_left split: option.split)

lemma close_and_remove_run:
  assumes "file_at d tmp = Some c"
  shows "fst (run (close_and_remove tmp e) d) = Some e"
    and "only_file (path_Clean tmp) d (snd (run (close_and_remove tmp e) d))"
    and "faults_left d = 0 \<Longrightarrow> file_at (snd (run (close_and_remove tmp e) d)) tmp = None"
  using assms remove_temp [of "step_over d" tmp c]
  by (simp_all add: close_and_remove_def run_pbind os_Close_def run_faulty_any no_faults_left)

text \<open>Whether all candidates have a line, and the lines.\<close>

definition has_lines :: "(float64 \<Rightarrow> string) \<Rightarrow> patternCandidate list \<Rightarrow> bool" where
  "has_lines float cs \<longleftrightarrow> list_all (\<lambda>c. \<not> isl (marshalCandidate float (Some c))) cs"

definition lines_of :: "(float64 \<Rightarrow> string) \<Rightarrow> patternCandidate list \<Rightarrow> string" where
  "lines_of float cs = concat (map (\<lambda>c. projr (marshalCandidate float (Some c))) cs)"

text \<open>How many calls may fail with the temporary file still removed: none after a candidate that has no JSON.\<close>

definition spare_faults :: "(float64 \<Rightarrow> string) \<Rightarrow> patternCandidate list \<Rightarrow> nat" where
  "spare_faults float cs = (if has_lines float cs then 1 else 0)"

definition written :: "(float64 \<Rightarrow> string) \<Rightarrow> string \<Rightarrow> string \<Rightarrow> patternCandidate list \<Rightarrow> disk \<Rightarrow> lerror option \<times> disk \<Rightarrow> bool" where
  "written float tmp s cs d out \<longleftrightarrow>
     only_file (path_Clean tmp) d (snd out)
     \<and> (fst out = None \<longrightarrow> faults_left (snd out) = faults_left d \<and> has_lines float cs
          \<and> file_at (snd out) tmp = Some (s @ lines_of float cs))
     \<and> (fst out \<noteq> None \<longrightarrow> faults_left d \<noteq> 0 \<or> \<not> has_lines float cs)
     \<and> (fst out \<noteq> None \<and> faults_left d \<le> spare_faults float cs \<longrightarrow> file_at (snd out) tmp = None)"

lemma write_candidates_run:
  assumes "file_at d tmp = Some s"
  shows "written float tmp s cs d (run (write_candidates float tmp i cs) d)"
  using assms
proof (induction cs arbitrary: d s i)
  case Nil
  then show ?case by (simp add: written_def has_lines_def lines_of_def)
next
  case (Cons c cs)
  show ?case
  proof (cases "marshalCandidate float (Some c)")
    case (Inl e)
    then have "\<not> has_lines float (c # cs)" by (simp add: has_lines_def)
    then show ?thesis
      using Inl close_and_remove_run [OF Cons.prems] by (simp add: written_def spare_faults_def)
  next
    case (Inr line)
    then have more: "has_lines float (c # cs) = has_lines float cs" "lines_of float (c # cs) = line @ lines_of float cs"
      by (simp_all add: has_lines_def lines_of_def)
    then have spare: "spare_faults float (c # cs) = spare_faults float cs" by (simp add: spare_faults_def)
    show ?thesis
    proof (cases "fault_at d 0")
      case None
      let ?d = "set_file tmp (Some (s @ line)) (step_over d)"
      have "written float tmp (s @ line) cs ?d (run (write_candidates float tmp (Suc i) cs) ?d)" by (rule Cons.IH) simp
      moreover have "faults_left ?d = faults_left d" using None faults_left_step [of d] by simp
      ultimately show ?thesis
        using Inr None Cons.prems by (simp add: written_def os_AppendWrite_def run_pbind run_faulty_any Let_def more spare)
    next
      case (Some f)
      obtain d' s' where d': "run (os_AppendWrite tmp line) d = (Some (f_err f), d')" "file_at d' tmp = Some s'"
        "only_file (path_Clean tmp) d d'" "faults_left d' = faults_left (step_over d)"
        using Some Cons.prems by (cases "f_written f") (auto simp: os_AppendWrite_def run_faulty_any)
      have "faults_left d = Suc (faults_left d')" using Some faults_left_step [of d] d'(4) by simp
      then show ?thesis
        using Inr d' close_and_remove_run [OF d'(2)] only_file_trans [OF d'(3)]
        by (auto simp: written_def run_pbind spare_faults_def split: if_splits)
    qed
  qed
qed

section \<open>The file of candidates\<close>

definition temp_files :: "extract_env \<Rightarrow> string \<Rightarrow> string set" where
  "temp_files E path = (\<lambda>r. path_Clean (temp_name (dirOf path) r)) ` set (ee_random E)"

lemma create_temp_run:
  fixes E path d
  defines "out \<equiv> run (os_CreateTemp (ee_random E) (dirOf path)) d"
  shows "(\<exists>e. fst out = Inl e \<and> d_files (snd out) = d_files d \<and> (faults_left d \<noteq> 0 \<or> (\<forall>t\<in>temp_files E path. d_files d t \<noteq> None)))
    \<or> (\<exists>tmp. fst out = Inr tmp \<and> path_Clean tmp \<in> temp_files E path \<and> d_files d (path_Clean tmp) = None
        \<and> snd out = set_file tmp (Some []) (step_over d) \<and> faults_left (step_over d) = faults_left d)"
proof (cases "fault_at d 0")
  case None
  let ?free = "find (\<lambda>r. file_at (step_over d) (temp_name (dirOf path) r) = None) (ee_random E)"
  show ?thesis
  proof (cases ?free)
    case None
    then have "\<forall>r\<in>set (ee_random E). file_at d (temp_name (dirOf path) r) \<noteq> None" by (auto simp: find_None_iff)
    then have "\<forall>t\<in>temp_files E path. d_files d t \<noteq> None" by (auto simp: temp_files_def file_at_def)
    then show ?thesis
      using \<open>fault_at d 0 = None\<close> None by (simp add: out_def os_CreateTemp_def run_faulty_any) (simp add: step_over_def)
  next
    case (Some r)
    then have "r \<in> set (ee_random E)" "file_at d (temp_name (dirOf path) r) = None"
      by (auto simp: find_Some_iff in_set_conv_nth)
    then show ?thesis
      using None Some faults_left_step [of d]
      by (intro disjI2) (simp add: out_def os_CreateTemp_def run_faulty_any temp_files_def file_at_def)
  qed
qed (auto simp: out_def os_CreateTemp_def run_faulty_any faults_left_step [of d] step_over_def)

lemma finish_candidates_run:
  fixes E path
  assumes "file_at d tmp = Some c"
  defines "out \<equiv> run (finish_candidates E path tmp) d"
  shows "(fst out = None \<and> d_files (snd out) = (d_files d)(path_Clean tmp := None, path_Clean path \<mapsto> c))
    \<or> (fst out \<noteq> None \<and> only_file (path_Clean tmp) d (snd out) \<and> faults_left d \<noteq> 0
        \<and> (faults_left d \<le> 1 \<longrightarrow> file_at (snd out) tmp = None))"
proof -
  let ?d1 = "step_over d" and ?d2 = "step_over (step_over d)" and ?d3 = "step_over (step_over (step_over d))"
  have at: "file_at ?d1 tmp = Some c" "file_at ?d2 tmp = Some c" "file_at ?d3 tmp = Some c" using assms(1) by simp_all
  have files: "d_files (step_over e) = d_files e" for e by (simp add: step_over_def)
  have left: "faults_left d = (if fault_at d 0 = None then 0 else 1) + faults_left ?d1"
    "faults_left ?d1 = (if fault_at ?d1 0 = None then 0 else 1) + faults_left ?d2"
    "faults_left ?d2 = (if fault_at ?d2 0 = None then 0 else 1) + faults_left ?d3"
    using faults_left_step by blast+
  consider (sync) f where "fault_at d 0 = Some f" | (close) f where "fault_at d 0 = None" "fault_at ?d1 0 = Some f"
    | (rename) f where "fault_at d 0 = None" "fault_at ?d1 0 = None" "fault_at ?d2 0 = Some f"
    | (ok) "fault_at d 0 = None" "fault_at ?d1 0 = None" "fault_at ?d2 0 = None" by (metis option.exhaust)
  then show ?thesis
  proof cases
    case sync
    then show ?thesis using left close_and_remove_run [OF at(1)]
      by (simp add: out_def finish_candidates_def os_Sync_def run_pbind run_faulty_any)
  next
    case close
    then show ?thesis using left remove_temp [OF at(2)]
      by (simp add: out_def finish_candidates_def os_Sync_def os_Close_def run_pbind run_faulty_any)
  next
    case rename
    then show ?thesis using left remove_temp [OF at(3)]
      by (simp add: out_def finish_candidates_def os_Sync_def os_Close_def os_Rename_def run_pbind run_faulty_any)
  next
    case ok
    then show ?thesis using assms(1)
      by (simp add: out_def finish_candidates_def os_Sync_def os_Close_def os_Rename_def run_pbind run_faulty_any files set_file_def)
  qed
qed

text \<open>
  C27: The file of candidates is replaced as a whole or not at all, whatever calls fail: after a run without an error it
  holds the lines of the candidates and no other file has changed; after an error every file is as it was, but for one
  temporary file that did not exist before, and not even that one if only one call failed.
\<close>

theorem candidates_file_atomic:
  assumes "path_Clean path \<notin> temp_files E path"
  shows "let (r, d') = run (writeCandidatesFile E path cs) d in
    (r = None \<longrightarrow> has_lines (ee_float E) cs \<and> d_files d' = (d_files d)(path_Clean path \<mapsto> lines_of (ee_float E) cs))
    \<and> (r \<noteq> None \<longrightarrow> d_files d' = d_files d \<or> (\<exists>t\<in>temp_files E path. d_files d t = None \<and> only_file t d d'))
    \<and> (r \<noteq> None \<and> faults_left d \<le> spare_faults (ee_float E) cs \<longrightarrow> d_files d' = d_files d)
    \<and> (faults_left d = 0 \<and> has_lines (ee_float E) cs \<and> (\<exists>t\<in>temp_files E path. d_files d t = None) \<longrightarrow> r = None)"
proof -
  let ?float = "ee_float E" and ?C = "path_Clean path"
  obtain r d' where out: "run (writeCandidatesFile E path cs) d = (r, d')" by force
  have eq: "writeCandidatesFile E path cs = pbind (os_CreateTemp (ee_random E) (dirOf path)) (\<lambda>tmp. case tmp of
      Inl createErr \<Rightarrow> Return (Some (runtimef_w ''extract: create temp output'' (OtherErr createErr)))
    | Inr tmpPath \<Rightarrow> pbind (write_candidates ?float tmpPath 0 cs) (\<lambda>w. case w of Some e \<Rightarrow> Return (Some e) | None \<Rightarrow> finish_candidates E path tmpPath))"
    by (simp add: writeCandidatesFile_def)
  from create_temp_run [of E path d] show ?thesis
  proof (elim disjE exE conjE)
    fix e assume "fst (run (os_CreateTemp (ee_random E) (dirOf path)) d) = Inl e"
      "d_files (snd (run (os_CreateTemp (ee_random E) (dirOf path)) d)) = d_files d"
      "faults_left d \<noteq> 0"
    then show ?thesis by (simp add: eq run_pbind split: prod.split) 
  next
    fix e assume "fst (run (os_CreateTemp (ee_random E) (dirOf path)) d) = Inl e"
      "d_files (snd (run (os_CreateTemp (ee_random E) (dirOf path)) d)) = d_files d"
      "\<forall>t\<in>temp_files E path. d_files d t \<noteq> None"
    then show ?thesis by (simp add: eq run_pbind split: prod.split) 
  next
    fix tmp assume create: "fst (run (os_CreateTemp (ee_random E) (dirOf path)) d) = Inr tmp"
      and t: "path_Clean tmp \<in> temp_files E path" "d_files d (path_Clean tmp) = None"
      and d1: "snd (run (os_CreateTemp (ee_random E) (dirOf path)) d) = set_file tmp (Some []) (step_over d)"
      and left: "faults_left (step_over d) = faults_left d"
    define W where "W = run (write_candidates ?float tmp 0 cs) (set_file tmp (Some []) (step_over d))"
    have ne: "path_Clean tmp \<noteq> ?C" using t(1) assms by metis
    have w: "written ?float tmp [] cs (set_file tmp (Some []) (step_over d)) W"
      unfolding W_def by (rule write_candidates_run) simp
    have out': "run (writeCandidatesFile E path cs) d =
        (case fst W of Some e \<Rightarrow> (Some e, snd W) | None \<Rightarrow> run (finish_candidates E path tmp) (snd W))"
      by (simp add: eq run_pbind create d1 W_def split: option.split)
    have only: "only_file (path_Clean tmp) d (snd W)" using w by (simp add: written_def)
    have left1: "faults_left (set_file tmp (Some []) (step_over d)) = faults_left d" using left by simp
    show ?thesis
    proof (cases "fst W")
      case (Some e)
      then have "run (writeCandidatesFile E path cs) d = (Some e, snd W)" by (simp add: out')
      moreover have "faults_left d \<le> spare_faults ?float cs \<longrightarrow> d_files (snd W) = d_files d"
        using w Some left1 restored [OF only] t(2) by (auto simp: written_def file_at_def)
      ultimately show ?thesis using t only w Some left1 by (auto simp: written_def)
    next
      case None
      then have ok: "has_lines ?float cs" "file_at (snd W) tmp = Some (lines_of ?float cs)" "faults_left (snd W) = faults_left d"
        using w left1 by (auto simp: written_def)
      define F where "F = run (finish_candidates E path tmp) (snd W)"
      have F: "run (writeCandidatesFile E path cs) d = (fst F, snd F)" using None by (simp add: out' F_def)
      have spare: "spare_faults ?float cs = 1" using ok(1) by (simp add: spare_faults_def)
      from finish_candidates_run [OF ok(2), of E path, folded F_def] show ?thesis
      proof (elim disjE conjE)
        assume moved: "fst F = None" "d_files (snd F) = (d_files (snd W))(path_Clean tmp := None, ?C \<mapsto> lines_of ?float cs)"
        have "(d_files (snd W))(path_Clean tmp := None) = d_files d"
          using only t(2) by (auto simp: only_file_def fun_eq_iff)
        then show ?thesis using moved ok(1) by (simp add: F)
      next
        assume failed: "fst F \<noteq> None" "only_file (path_Clean tmp) (snd W) (snd F)" "faults_left (snd W) \<noteq> 0"
          "faults_left (snd W) \<le> 1 \<longrightarrow> file_at (snd F) tmp = None"
        have onlyF: "only_file (path_Clean tmp) d (snd F)" by (rule only_file_trans [OF only failed(2)])
        have "faults_left d \<le> 1 \<longrightarrow> d_files (snd F) = d_files d"
          using failed(4) ok(3) restored [OF onlyF] t(2) by (simp add: file_at_def)
        then show ?thesis using failed ok t onlyF by (auto simp: F spare)
      qed
    qed
  qed
qed

definition sample_extract :: extract_env where
  "sample_extract = \<lparr>ee_print = \<lambda>_. True,
     ee_config = \<lparr>yaml_config = \<lambda>s c. Inr c, yaml_patterns = \<lambda>s. Inr [], parse_float = \<lambda>s. None, print_float = \<lambda>x. []\<rparr>,
     ee_getenv = \<lambda>_. None, ee_compile = \<lambda>s. Inr (\<lambda>t r. t), ee_time = \<lambda>l s. Inr 0,
     ee_dirs = \<lparr>de_tree = \<lambda>p. Inr (FsDir p []), de_mtime = \<lambda>p. None, de_isdir = \<lambda>p. False\<rparr>,
     ee_spec_now = \<lambda>p. 0, ee_spec_clock = \<lambda>p n. 0, ee_getwd = Inr [], ee_git = \<lambda>args. GitOutput [],
     ee_transcripts = \<lparr>tl_print = \<lambda>_. True, tl_decode = \<lambda>s. Inl (Opaque [] []), tl_time = \<lambda>l s. Inr 0\<rparr>,
     ee_memory = \<lambda>s. Inl (Opaque [] []), ee_mtime = \<lambda>p. 0, ee_orders = stable_orders, ee_float = \<lambda>x. ''1'', ee_random = [''7'']\<rparr>"

definition sample_candidate :: patternCandidate where
  "sample_candidate = \<lparr>pc_Kind = kindCommitPattern, pc_Signature = ''fix'', pc_Frequency = 2, pc_Contexts = Some [],
     pc_Score = f64_of_int 1, pc_FirstSeenAt = 0, pc_LastSeenAt = 0\<rparr>"

theorem candidates_file_atomic_witness:
  "let (r, d') = run (writeCandidatesFile sample_extract ''candidates.jsonl'' [sample_candidate]) full_disk in
     r = None \<and> d_files d' ''candidates.jsonl'' = Some (lines_of (\<lambda>x. ''1'') [sample_candidate])
     \<or> r \<noteq> None \<and> d_files d' = d_files full_disk"
proof -
  have clean: "path_Clean ''candidates.jsonl'' = ''candidates.jsonl''" by code_simp
  have temp: "path_Clean ''candidates.jsonl'' \<notin> temp_files sample_extract ''candidates.jsonl''"
    by (simp add: temp_files_def sample_extract_def) code_simp
  have year: "fst (date_of 0) = 1970" by code_simp
  have "faults_left full_disk = 1" by (simp add: faults_left_def full_disk_def)
  moreover have "has_lines (ee_float sample_extract) [sample_candidate]"
    by (simp add: has_lines_def sample_candidate_def marshalCandidate_def json_time_def year)
  moreover have "ee_float sample_extract = (\<lambda>x. ''1'')" by (simp add: sample_extract_def)
  ultimately show ?thesis
    using candidates_file_atomic [OF temp, of "[sample_candidate]" full_disk]
    by (simp add: Let_def split_beta spare_faults_def clean) (metis fun_upd_same option.exhaust)
qed

section \<open>The rows of patterns\<close>

text \<open>
  A signature is unique among the patterns whatever their kind, so the candidates of two kinds with the same signature
  share a row: it has the kind of the first and the numbers of the second.
\<close>

lemma kinds_share_a_row:
  assumes "pc_Signature c' = pc_Signature c" and "pc_Signature c \<notin> pr_signature ` set (d_patterns d)"
  shows "\<exists>i d1 d2. upsert_pattern c d = Inr (i, d1) \<and> upsert_pattern c' d1 = Inr (i, d2)
    \<and> d_patterns d2 = d_patterns d @ [\<lparr>pr_id = i, pr_kind = pc_Kind c, pr_signature = pc_Signature c,
        pr_frequency = pc_Frequency c', pr_first_seen = Format_RFC3339Nano (pc_FirstSeenAt c),
        pr_last_seen = Format_RFC3339Nano (pc_LastSeenAt c'), pr_score = pc_Score c'\<rparr>]"
proof -
  let ?is = "\<lambda>r. pr_signature r = pc_Signature c"
  have new: "\<forall>r\<in>set (d_patterns d). \<not> ?is r" using assms(2) by (metis image_eqI)
  have append: "find P (xs @ [x]) = (if P x then Some x else None)" if "\<forall>y\<in>set xs. \<not> P y" for P :: "'x \<Rightarrow> bool" and xs x
    using that by (induction xs) auto
  have none: "find ?is (d_patterns d) = None" using new by (auto simp: find_None_iff)
  moreover have "find ?is (d_patterns d @ [r]) = (if ?is r then Some r else None)" for r using append [OF new] .
  moreover have "map (\<lambda>r. if ?is r then f r else r) (d_patterns d) = d_patterns d" for f
    using new by (intro map_idI) auto
  ultimately show ?thesis by (simp add: upsert_pattern_def assms(1) Let_def)
qed

section \<open>Times of tasks\<close>

text \<open>
  The tasks of a specification are seen when it is parsed: no window leaves one out, and the times of the candidates of
  files are those of the run.
\<close>

definition tasks_seen_at :: "time \<Rightarrow> specRecord list \<Rightarrow> bool" where
  "tasks_seen_at now rs \<longleftrightarrow> (\<forall>r\<in>set rs. sr_Kind r = specKindTask \<longrightarrow> sr_SeenAt r = now)"

lemma tasks_flush:
  "tasks_seen_at now (ss_records s) \<Longrightarrow> tasks_seen_at now (ss_records (flushTask san source now s))"
  "tasks_seen_at now (ss_records s) \<Longrightarrow> tasks_seen_at now (ss_records (flushLog san source s))"
  by (auto simp: tasks_seen_at_def flushTask_def flushLog_def specKindTask_def specKindTDDStep_def split: option.split)

lemma tasks_line:
  assumes "tasks_seen_at now (ss_records s)"
  shows "tasks_seen_at now (ss_records (spec_line parse clock san source now l s))"
  using assms
  by (simp add: spec_line_def open_task_at_def Let_def tasks_flush split: option.split)

lemma tasks_lines:
  "tasks_seen_at now (ss_records s) \<Longrightarrow> tasks_seen_at now (ss_records (spec_lines parse clock san source now ls s))"
  by (induction ls arbitrary: s) (simp_all add: tasks_line)

lemma spec_tasks_seen_now: "tasks_seen_at now (spec_records parse clock san source now ls)"
proof -
  have "tasks_seen_at now (ss_records spec_begin)" by (simp add: tasks_seen_at_def spec_begin_def)
  then have "tasks_seen_at now (ss_records (flushTask san source now (spec_lines parse clock san source now ls spec_begin)))"
    by (intro tasks_flush tasks_lines)
  then have "tasks_seen_at now (ss_records (let s1 = flushTask san source now (spec_lines parse clock san source now ls spec_begin) in
      if ss_in_log s1 then flushLog san source s1 else s1))"
    by (simp add: Let_def tasks_flush)
  then show ?thesis
    by (auto simp: spec_records_def tasks_seen_at_def Let_def specKindTask_def specKindStatusTransition_def)
qed

text \<open>
  A task whose name is set in bold, as the finished specifications of the repository and the fixture of the smoke test
  write it, is not a task for the parser.
\<close>

lemma bold_task_ignored:
  "FindStringSubmatch taskCompleteRe ''- [x] **TASK-1**: Read foo.go, edit, run tests'' = None"
  "FindStringSubmatch taskCompleteRe ''- [x] TASK-1: Read foo.go, edit, run tests'' \<noteq> None"
  by code_simp+

end
