(* ===== verification/Spec2Isabelle.thy ===== *)
theory Spec2Isabelle
  imports UserService ServiceAuth IdempotencyProofs Bootstrap SpecReports EditDistance GitLog Patterns Recall GitLogProofs DecisionProofs StoreProofs CliDomainProofs ExtractProofs
begin

text \<open>
  A verification development for gopherplate, a Go service template: an HTTP and a gRPC service over PostgreSQL
  and Redis, with three developer tools, the scaffolding command (cmd/cli), the specification validator
  (tools/validate-spec) and the learning loop (tools/learn).

  Parts and how they interact.  A request enters through the Gin router (Router) or the gRPC server (Grpc).  The
  middlewares (Middleware, Idempotency) or interceptors (Grpc) run around a handler (Handlers, Grpc), the handler
  calls a use case (UserUseCases, RoleStore), the use case calls a repository (Repositories) over the database
  cluster (Database) and, for users, a cache (Cache).  Errors are values (AppErrors) that the handlers translate to
  HTTP and gRPC answers (Handlers, Grpc); logs pass a masking handler (Logutil).  Bootstrap and Config assemble
  the two servers from the environment.  The tools are programs of their own.

  How the code is represented.  Go strings are lists of bytes (Prelude, GoStrings), int is a 64-bit word where it can
  overflow, instants and durations are integers of nanoseconds.  Every call to the outside world is one atomic step
  of a program (Prelude.prog) on a world that PostgreSQL, Redis, the clock and the random source share (World); a program has
  a sequential run and, in Concurrency, interleavings with other goroutines.  Errors are the datatype goerror with
  errors.Is and errors.As, and the sums error + result.  Libraries outside the repository are parameters: the
  JSON decoder of a request, the Redis server, the Unicode tables, the regular expressions of a configuration, SQLite,
  Git and the file system of the tools; what a property needs of one is a named hypothesis with a witness.

  Theories, in the order of the calls from the inside out.
    Prelude, GoStrings, PathsLines, ByteOrder, Strconv, Regex, Json, Float64: the language and its library.
    AppErrors: pkg/apperror.  Domain: internal/domain.  Telemetry: pkg/telemetry.  Logutil: pkg/logutil.
    Database: pkg/database and the SQL semantics of the statements in use.
    Repositories: internal/infrastructure/db/postgres/repository.  UserStore, RoleStore: the repositories refine an
      abstract store of users and roles, stated as locales and interpreted on the model of PostgreSQL.
    Cache: pkg/cache.  World: the one world of a running service.
    UserUseCases, UserService, RoleService: internal/usecases; what each operation does on every branch.
    Http, Middleware, ServiceAuth, Idempotency, IdempotencyProofs, Handlers, Health, Router:
      internal/infrastructure/web, pkg/httputil, pkg/idempotency, pkg/health.
    Grpc, Transports: internal/infrastructure/grpc and its agreement with HTTP.
    Config, Bootstrap: config, internal/bootstrap, cmd/api/server.go.
    Naming, ProjectTree, Prompts: names of domains, the file tree with faulty calls and its walks, the questions of cmd/cli.
    ScaffoldProject, Flavors, CliNew, CliDomain, CliSteps, CliProofs, CliReturns,
      CliDomainProofs: cmd/cli/scaffold, its templates and flavors, the
      commands new, add, remove and wiring; which part of the tree each step and the whole command leave alone.
    SpecParser, SpecLint, SpecPlan, SpecTools, SpecReports: tools/validate-spec.
    LearnErr, Similar, EditDistance, Patterns, Recall, GitLog, GitLogProofs: errors, search and history of tools/learn.
    GoTime, LearnDisk: dates, and the files, tables and faults that the commands of tools/learn work on.
    Decisions, DecisionProofs, RecordDecision: audit log, apply-decision, refine-apply, rollback, record-decision.
    LearnConfig, LearnStore, Frontmatter, Reindex, StoreProofs: configuration, statements of the store, track-use,
      complete-task, nudge-tick, init, memory and skill files, validate-skill, reindex.
    IngestSpec, IngestTranscript, Mining, MiningProofs, Extract, ExtractProofs: the records of specifications and
      transcripts, the mining of patterns, and the command extract with its file of candidates and its tables.

  What the groups of lemmas show.  UserStore and RoleStore: every statement of the repositories keeps the tables
  well formed and implements the abstract store.  UserService and RoleService: the use cases do to the store what the API
  promises, errors included, and pages partition a listing.  IdempotencyProofs: over all interleavings a key has its
  effect at most once, a completed answer is replayed and a server error releases the key.  ServiceAuth, Router,
  Transports, Bootstrap: without configured credentials no request of either transport changes anything, and the two
  transports agree.  Logutil: the sinks of the log see only masked values.  SpecPlan: what the validator accepts is an
  executable and traceable plan.  SpecReports: the exit code of the linter, a manifest that does not depend on the
  order of the directory, and skeletons that are read back.  EditDistance: the one-row distance is the least number of edits.
  Recall: number and budget of the results.  GitLogProofs: a printed history is read back.
  DecisionProofs: a decision that is applied and rolled back restores its file, and no failing call loses the content
  but a pair of failing writes.  StoreProofs: under all faults the tables stay well formed; uses are counted, orphans pruned.

  MiningProofs: the candidates are exactly the frequent n-grams, and all are valid.  ExtractProofs: the file of candidates
  is replaced as a whole or not at all.

  Naming: what is read back from the ways to write a name.  CliSteps, CliProofs: a new project stays in its directory.
  CliReturns: making a project comes to an end.  CliDomainProofs: removing a domain undoes adding it.

  Bounds and fuel.  A walk of a tree (ProjectTree.walk) has the depth it may reach as fuel; CliReturns proves
  that two more than the depth of the tree is enough to make a project.  The depth-first search of the validator (SpecLint.dfs) has the number of nodes as fuel; SpecPlan
  proves that it never runs out.  All other recursions are structural or have a measure.

  Not modelled: generated code (docs, protobuf), commands that only call a library (migrations, cobra command trees, the
  OpenTelemetry exporter, the check of the environment), the texts of the templates that the scaffolding executes, the
  listening and the graceful shutdown of the servers, load tests, fixtures, and the commands of the learning tool that
  PROJECT.json lists as not modelled.
\<close>

end
